(* ===== verification/JsBase.thy ===== *)
theory JsBase
  imports Complex_Main "HOL-Library.Sublist"
begin

text \<open>
  Prelude: the JavaScript values the front end computes with. A string is the list of its
  UTF-16 code units, so \<open>length\<close>, \<open>charCodeAt\<close> and \<open>slice\<close> count what the language
  counts; a dynamic value (a response body, a thrown value) is a \<open>jsval\<close>. Also here: the
  collections of facts the components share, and generic list lemmas.

  Numbers are rationals with \<open>NaN\<close> and the two infinities: the rounding of IEEE doubles is
  not modelled, the special values are. The case mappings are exact on U+0000 to U+00FF and
  leave every other code unit alone.
\<close>

named_theorems js_simps "evaluation of the JavaScript primitives"
named_theorems step_simps "unfolding of one handler or one step"

section \<open>Strings\<close>

type_synonym jstr = "nat list"

definition js :: "string \<Rightarrow> jstr" where
  "js s = map of_char s"

lemma js_eq_iff [simp]: "js a = js b \<longleftrightarrow> a = b"
  by (auto simp: js_def intro: map_injective simp: inj_def)

lemma js_Nil [simp]: "js [] = []"
  by (simp add: js_def)

lemma js_eq_Nil_iff [simp]: "js s = [] \<longleftrightarrow> s = []" "[] = js s \<longleftrightarrow> s = []"
  by (auto simp: js_def)

lemma js_append: "js (a @ b) = js a @ js b"
  by (simp add: js_def)

lemma length_js [simp]: "length (js s) = length s"
  by (simp add: js_def)

subsection \<open>White space and \<open>trim\<close>\<close>

definition is_space :: "nat \<Rightarrow> bool" where
  "is_space c \<longleftrightarrow>
     c \<in> set [9, 10, 11, 12, 13, 32, 160, 5760, 8232, 8233, 8239, 8287, 12288, 65279] \<or>
     8192 \<le> c \<and> c \<le> 8202"

text \<open>The same, in an order that decides ASCII without looking at large numbers.\<close>

lemma is_space_code [code]:
  "is_space c \<longleftrightarrow>
     (if c < 33 then c \<in> set [9, 10, 11, 12, 13, 32]
      else if c < 160 then False
      else c \<in> set [160, 5760, 8232, 8233, 8239, 8287, 12288, 65279] \<or> 8192 \<le> c \<and> c \<le> 8202)"
  by (auto simp: is_space_def)

definition trim_start :: "jstr \<Rightarrow> jstr" where
  "trim_start s = dropWhile is_space s"

definition trim :: "jstr \<Rightarrow> jstr" where
  "trim s = rev (dropWhile is_space (rev (trim_start s)))"

lemma trim_Nil [simp]: "trim [] = []"
  by (simp add: trim_def trim_start_def)

lemma dropWhile_rev_hd:
  assumes "xs = [] \<or> \<not> P (hd xs)"
  shows "dropWhile P (rev (dropWhile P (rev xs))) = rev (dropWhile P (rev xs))"
proof (cases "rev (dropWhile P (rev xs))")
  case Nil
  show ?thesis unfolding Nil by simp
next
  case (Cons y ys)
  have "prefix (rev (dropWhile P (rev xs))) xs"
    by (metis rev_rev_ident suffix_dropWhile suffix_to_prefix)
  then have "hd xs = y" and "xs \<noteq> []"
    using Cons by (auto simp: prefix_def)
  with assms Cons show ?thesis by auto
qed

lemma trim_start_hd: "trim_start s = [] \<or> \<not> is_space (hd (trim_start s))"
  unfolding trim_start_def using hd_dropWhile by blast

lemma trim_trim [simp]: "trim (trim s) = trim s"
proof -
  have "trim_start (trim s) = trim s"
    using dropWhile_rev_hd [where P = is_space and xs = "trim_start s"] trim_start_hd [of s]
    by (simp add: trim_def trim_start_def)
  then show ?thesis
    by (simp add: trim_def dropWhile_idem)
qed

lemma trim_id:
  assumes "s \<noteq> []" and "\<not> is_space (hd s)" and "\<not> is_space (last s)"
  shows "trim s = s"
proof -
  have "trim_start s = s" using assms(1,2) by (cases s) (simp_all add: trim_start_def)
  moreover have "dropWhile is_space (rev s) = rev s" using assms(1,3) by (cases s rule: rev_cases) simp_all
  ultimately show ?thesis by (simp add: trim_def)
qed

lemma trim_set: "set (trim s) \<subseteq> set s"
  unfolding trim_def trim_start_def by (auto dest!: set_dropWhileD)

subsection \<open>Case mapping\<close>

definition lower_unit :: "nat \<Rightarrow> nat" where
  "lower_unit c = (if 65 \<le> c \<and> c \<le> 90 \<or> 192 \<le> c \<and> c \<le> 222 \<and> c \<noteq> 215 then c + 32 else c)"

definition to_lower :: "jstr \<Rightarrow> jstr" where
  "to_lower s = map lower_unit s"

definition upper_unit :: "nat \<Rightarrow> jstr" where
  "upper_unit c =
     (if 97 \<le> c \<and> c \<le> 122 \<or> 224 \<le> c \<and> c \<le> 254 \<and> c \<noteq> 247 then [c - 32]
      else if c = 223 then [83, 83] else if c = 181 then [924] else if c = 255 then [376]
      else [c])"

definition to_upper :: "jstr \<Rightarrow> jstr" where
  "to_upper s = concat (map upper_unit s)"

lemma lower_unit_idem [simp]: "lower_unit (lower_unit c) = lower_unit c"
  by (simp add: lower_unit_def)

lemma to_lower_idem [simp]: "to_lower (to_lower s) = to_lower s"
  by (simp add: to_lower_def)

lemma length_to_lower [simp]: "length (to_lower s) = length s"
  by (simp add: to_lower_def)

subsection \<open>Searching, splitting, joining\<close>

definition starts_with :: "jstr \<Rightarrow> jstr \<Rightarrow> bool" where
  "starts_with s p \<longleftrightarrow> take (length p) s = p"

fun str_includes :: "jstr \<Rightarrow> jstr \<Rightarrow> bool" where
  "str_includes [] p \<longleftrightarrow> p = []"
| "str_includes (c # s) p \<longleftrightarrow> starts_with (c # s) p \<or> str_includes s p"

lemma starts_with_iff: "starts_with s p \<longleftrightarrow> prefix p s"
  by (metis starts_with_def append_eq_conv_conj append_take_drop_id prefix_def)

lemma starts_withD: "starts_with s p \<Longrightarrow> s = p @ drop (length p) s"
  by (metis starts_with_def append_take_drop_id)

lemma starts_with_append [simp]: "starts_with (p @ s) p"
  by (simp add: starts_with_def)

lemma str_includes_iff: "str_includes s p \<longleftrightarrow> sublist p s"
  by (induction s p rule: str_includes.induct) (auto simp: starts_with_iff sublist_Cons_right)

fun split_on :: "nat \<Rightarrow> jstr \<Rightarrow> jstr list" where
  "split_on d [] = [[]]"
| "split_on d (c # s) =
     (if c = d then [] # split_on d s
      else case split_on d s of [] \<Rightarrow> [[c]] | w # ws \<Rightarrow> (c # w) # ws)"

fun join_with :: "jstr \<Rightarrow> jstr list \<Rightarrow> jstr" where
  "join_with d [] = []"
| "join_with d [w] = w"
| "join_with d (w # ws) = w @ d @ join_with d ws"

lemma split_on_nonempty [simp]: "split_on d s \<noteq> []"
  by (induction s) (auto split: list.splits)

lemma join_with_Cons: "ws \<noteq> [] \<Longrightarrow> join_with d (w # ws) = w @ d @ join_with d ws"
  by (cases ws) auto

lemma join_split [simp]: "join_with [d] (split_on d s) = s"
proof (induction s)
  case (Cons c s)
  then show ?case
    by (cases "split_on d s"; cases "tl (split_on d s)") (auto simp: join_with_Cons)
qed simp

lemma split_on_free: "d \<notin> set w \<Longrightarrow> split_on d w = [w]"
  by (induction w) auto

lemma split_on_append_sep: "d \<notin> set w \<Longrightarrow> split_on d (w @ d # s) = w # split_on d s"
  by (induction w) auto

lemma split_join:
  "ws \<noteq> [] \<Longrightarrow> \<forall>w\<in>set ws. d \<notin> set w \<Longrightarrow> split_on d (join_with [d] ws) = ws"
proof (induction ws)
  case (Cons w ws)
  then show ?case
    by (cases ws) (auto simp: split_on_free split_on_append_sep)
qed simp

section \<open>Lists\<close>

text \<open>\<open>xs.slice(i)\<close>: a negative start counts from the end.\<close>

definition slice_from :: "int \<Rightarrow> 'a list \<Rightarrow> 'a list" where
  "slice_from i xs = (if i < 0 then drop (nat (int (length xs) + i)) xs else drop (nat i) xs)"

lemma slice_from_last: "0 < n \<Longrightarrow> slice_from (- int n) xs = drop (length xs - n) xs"
  by (simp add: slice_from_def nat_diff_distrib' flip: nat_minus_as_int)

lemma slice_from_diff: "b \<le> a \<Longrightarrow> slice_from (int a - int b) xs = drop (a - b) xs"
  by (simp add: slice_from_def nat_diff_distrib')

lemma filter_find_None: "find P xs = None \<longleftrightarrow> filter P xs = []"
  by (induction xs) auto

lemma find_SomeD: "find P xs = Some x \<Longrightarrow> x \<in> set xs \<and> P x"
  by (induction xs) (auto split: if_splits)

end
