(* ===== verification/JsValue.thy ===== *)
theory JsValue
  imports JsBase
begin

text \<open>
  Dynamic JavaScript values, numbers, their string images, the operators the source uses on
  them (truthiness, \<open>||\<close>, \<open>??\<close>, optional chaining), \<open>Array.from\<close> on strings,
  \<open>encodeURIComponent\<close>, and thrown values.
\<close>

section \<open>Numbers and dynamic values\<close>

datatype jnum = NaN | PosInf | NegInf | Fin rat

datatype jsval =
    JUndef
  | JNull
  | JBool bool
  | JNum jnum
  | JStr jstr
  | JArr "jsval list"
  | JObj "(jstr \<times> jsval) list"

abbreviation jint :: "int \<Rightarrow> jsval" where
  "jint n \<equiv> JNum (Fin (of_int n))"

abbreviation jlit :: "string \<Rightarrow> jsval" where
  "jlit s \<equiv> JStr (js s)"

fun truthy :: "jsval \<Rightarrow> bool" where
  "truthy JUndef = False"
| "truthy JNull = False"
| "truthy (JBool b) = b"
| "truthy (JNum NaN) = False"
| "truthy (JNum (Fin r)) = (r \<noteq> 0)"
| "truthy (JNum _) = True"
| "truthy (JStr s) = (s \<noteq> [])"
| "truthy (JArr _) = True"
| "truthy (JObj _) = True"

fun nullish :: "jsval \<Rightarrow> bool" where
  "nullish JUndef = True"
| "nullish JNull = True"
| "nullish _ = False"

fun is_object :: "jsval \<Rightarrow> bool" where
  "is_object (JArr _) = True"
| "is_object (JObj _) = True"
| "is_object _ = False"

definition or_else :: "jsval \<Rightarrow> jsval \<Rightarrow> jsval" where
  "or_else v d = (if truthy v then v else d)"

definition if_nullish :: "jsval \<Rightarrow> jsval \<Rightarrow> jsval" where
  "if_nullish v d = (if nullish v then d else v)"

text \<open>\<open>v?.k\<close>: undefined on every value without own property \<open>k\<close>, never an exception.\<close>

fun jget :: "jsval \<Rightarrow> jstr \<Rightarrow> jsval" where
  "jget (JObj al) k = (case map_of al k of None \<Rightarrow> JUndef | Some v \<Rightarrow> v)"
| "jget _ k = JUndef"

abbreviation jfield :: "jsval \<Rightarrow> string \<Rightarrow> jsval" where
  "jfield v k \<equiv> jget v (js k)"

text \<open>\<open>v.k = w\<close> on an object: an existing key keeps its place.\<close>

fun assoc_set :: "jstr \<Rightarrow> jsval \<Rightarrow> (jstr \<times> jsval) list \<Rightarrow> (jstr \<times> jsval) list" where
  "assoc_set k v [] = [(k, v)]"
| "assoc_set k v ((j, w) # al) = (if j = k then (k, v) # al else (j, w) # assoc_set k v al)"

lemma map_of_assoc_set: "map_of (assoc_set k v al) = (map_of al)(k \<mapsto> v)"
  by (induction al) auto

fun obj_entries :: "jsval \<Rightarrow> (jstr \<times> jsval) list" where
  "obj_entries (JObj al) = al"
| "obj_entries _ = []"

text \<open>\<open>Object.assign\<close> and object spread: later entries win.\<close>

definition assoc_update :: "(jstr \<times> jsval) list \<Rightarrow> (jstr \<times> jsval) list \<Rightarrow> (jstr \<times> jsval) list" where
  "assoc_update al new = fold (\<lambda>(k, v). assoc_set k v) new al"

lemma map_of_assoc_update: "map_of (assoc_update al new) k = (case map_of (rev new) k of Some v \<Rightarrow> Some v | None \<Rightarrow> map_of al k)"
  by (induction new arbitrary: al) (auto simp: assoc_update_def map_of_assoc_set map_add_def split: option.splits)

fun elems :: "jsval \<Rightarrow> jsval list" where
  "elems (JArr vs) = vs"
| "elems _ = []"

fun jstr_of :: "jsval \<Rightarrow> jstr option" where
  "jstr_of (JStr s) = Some s"
| "jstr_of _ = None"

definition str_or :: "jsval \<Rightarrow> jstr \<Rightarrow> jstr" where
  "str_or v d = (case v of JStr s \<Rightarrow> s | _ \<Rightarrow> d)"

lemma truthy_nullish: "nullish v \<Longrightarrow> \<not> truthy v"
  by (cases v) auto

lemma or_else_simps [simp]:
  "truthy v \<Longrightarrow> or_else v d = v"
  "\<not> truthy v \<Longrightarrow> or_else v d = d"
  by (auto simp: or_else_def)

lemma jget_truthy_obj: "truthy (jget v k) \<Longrightarrow> \<exists>al. v = JObj al"
  by (cases v) auto

section \<open>String images of numbers and values\<close>

fun show_nat :: "nat \<Rightarrow> jstr" where
  "show_nat n = (if n < 10 then [48 + n] else show_nat (n div 10) @ [48 + n mod 10])"

declare show_nat.simps [simp del]

definition show_int :: "int \<Rightarrow> jstr" where
  "show_int i = (if i < 0 then js ''-'' @ show_nat (nat (- i)) else show_nat (nat i))"

fun read_nat :: "jstr \<Rightarrow> nat" where
  "read_nat s = foldl (\<lambda>n c. 10 * n + (c - 48)) 0 s"

lemma show_nat_nonempty [simp]: "show_nat n \<noteq> []"
  by (subst show_nat.simps) simp

lemma show_nat_digits: "c \<in> set (show_nat n) \<Longrightarrow> 48 \<le> c \<and> c \<le> 57"
proof (induction n rule: show_nat.induct)
  case (1 n)
  then show ?case
    by (subst (asm) (2) show_nat.simps) (auto split: if_splits)
qed

lemma read_show_nat: "read_nat (show_nat n) = n"
proof (induction n rule: show_nat.induct)
  case (1 n)
  then show ?case by (subst show_nat.simps) auto
qed

lemma show_nat_inj [simp]: "show_nat m = show_nat n \<longleftrightarrow> m = n"
  by (metis read_show_nat)

fun frac_digits :: "nat \<Rightarrow> rat \<Rightarrow> jstr" where
  "frac_digits 0 r = []"
| "frac_digits (Suc n) r =
     (if r = 0 then [] else (48 + nat \<lfloor>10 * r\<rfloor>) # frac_digits n (10 * r - of_int \<lfloor>10 * r\<rfloor>))"

definition show_rat :: "rat \<Rightarrow> jstr" where
  "show_rat r =
     (let a = \<bar>r\<bar>; sgn = (if r < 0 then js ''-'' else []) in
      if a = of_int \<lfloor>a\<rfloor> then sgn @ show_nat (nat \<lfloor>a\<rfloor>)
      else sgn @ show_nat (nat \<lfloor>a\<rfloor>) @ js ''.'' @ frac_digits 17 (a - of_int \<lfloor>a\<rfloor>))"

fun show_num :: "jnum \<Rightarrow> jstr" where
  "show_num NaN = js ''NaN''"
| "show_num PosInf = js ''Infinity''"
| "show_num NegInf = js ''-Infinity''"
| "show_num (Fin r) = show_rat r"

fun to_string :: "jsval \<Rightarrow> jstr" where
  "to_string JUndef = js ''undefined''"
| "to_string JNull = js ''null''"
| "to_string (JBool b) = (if b then js ''true'' else js ''false'')"
| "to_string (JNum n) = show_num n"
| "to_string (JStr s) = s"
| "to_string (JArr vs) =
     join_with (js '','') (map (\<lambda>v. if nullish v then [] else to_string v) vs)"
| "to_string (JObj _) = js ''[object Object]''"

text \<open>\<open>String(x || '')\<close>, the idiom the source reads optional text with.\<close>

definition text_or_empty :: "jsval \<Rightarrow> jstr" where
  "text_or_empty v = to_string (or_else v (JStr []))"

lemma text_or_empty_simps [simp]:
  "text_or_empty (JStr s) = s"
  "\<not> truthy v \<Longrightarrow> text_or_empty v = []"
  by (auto simp: text_or_empty_def or_else_def)

subsection \<open>\<open>Number(v)\<close>\<close>

text \<open>Decimal numerals with an optional sign and fraction; exponents, other radixes and the word
  \<open>Infinity\<close> are read as \<open>NaN\<close>.\<close>

definition is_dec :: "nat \<Rightarrow> bool" where
  "is_dec c \<longleftrightarrow> 48 \<le> c \<and> c \<le> 57"

definition unsigned_number :: "jstr \<Rightarrow> jnum" where
  "unsigned_number s =
     (let ip = takeWhile is_dec s; rest = dropWhile is_dec s; fp = drop 1 rest in
      if rest = [] then (if ip = [] then NaN else Fin (of_nat (read_nat ip)))
      else if hd rest = 46 \<and> list_all is_dec fp \<and> (ip \<noteq> [] \<or> fp \<noteq> [])
      then Fin (of_nat (read_nat (ip @ fp)) / 10 ^ length fp)
      else NaN)"

fun negate_num :: "jnum \<Rightarrow> jnum" where
  "negate_num (Fin r) = Fin (- r)"
| "negate_num PosInf = NegInf"
| "negate_num NegInf = PosInf"
| "negate_num NaN = NaN"

definition number_of_text :: "jstr \<Rightarrow> jnum" where
  "number_of_text s =
     (case trim s of
        [] \<Rightarrow> Fin 0
      | c # r \<Rightarrow> if c = 45 then negate_num (unsigned_number r)
                else if c = 43 then unsigned_number r else unsigned_number (c # r))"

fun to_number :: "jsval \<Rightarrow> jnum" where
  "to_number JUndef = NaN"
| "to_number JNull = Fin 0"
| "to_number (JBool b) = (if b then Fin 1 else Fin 0)"
| "to_number (JNum n) = n"
| "to_number (JStr s) = number_of_text s"
| "to_number (JArr vs) = number_of_text (to_string (JArr vs))"
| "to_number (JObj _) = NaN"

subsection \<open>\<open>JSON.stringify\<close>\<close>

definition low_hex :: "nat \<Rightarrow> nat" where
  "low_hex n = (if n < 10 then 48 + n else 87 + n)"

definition json_unit :: "nat \<Rightarrow> jstr" where
  "json_unit c =
     (if c = 34 then [92, 34] else if c = 92 then [92, 92]
      else if c = 8 then [92, 98] else if c = 12 then [92, 102] else if c = 10 then [92, 110]
      else if c = 13 then [92, 114] else if c = 9 then [92, 116]
      else if c < 32 then [92, 117, 48, 48, low_hex (c div 16), low_hex (c mod 16)]
      else [c])"

definition json_quote :: "jstr \<Rightarrow> jstr" where
  "json_quote s = [34] @ concat (map json_unit s) @ [34]"

text \<open>None is the result \<open>undefined\<close>. Lone surrogates are kept as they are.\<close>

fun stringify :: "jsval \<Rightarrow> jstr option" where
  "stringify JUndef = None"
| "stringify JNull = Some (js ''null'')"
| "stringify (JBool b) = Some (if b then js ''true'' else js ''false'')"
| "stringify (JNum (Fin r)) = Some (show_rat r)"
| "stringify (JNum _) = Some (js ''null'')"
| "stringify (JStr s) = Some (json_quote s)"
| "stringify (JArr vs) =
     Some ([91] @ join_with [44] (map (\<lambda>v. case stringify v of None \<Rightarrow> js ''null'' | Some t \<Rightarrow> t) vs) @ [93])"
| "stringify (JObj al) =
     Some ([123] @ join_with [44]
       (concat (map (\<lambda>(k, v). case stringify v of None \<Rightarrow> [] | Some t \<Rightarrow> [json_quote k @ [58] @ t]) al)) @ [125])"

section \<open>Code points\<close>

definition is_high :: "nat \<Rightarrow> bool" where
  "is_high c \<longleftrightarrow> 55296 \<le> c \<and> c \<le> 56319"

definition is_low :: "nat \<Rightarrow> bool" where
  "is_low c \<longleftrightarrow> 56320 \<le> c \<and> c \<le> 57343"

text \<open>\<open>Array.from(s)\<close>: the code points, a lone surrogate being a point of its own.\<close>

fun code_points :: "jstr \<Rightarrow> nat list" where
  "code_points (h # l # s) =
     (if is_high h \<and> is_low l then (65536 + (h - 55296) * 1024 + (l - 56320)) # code_points s
      else h # code_points (l # s))"
| "code_points s = s"

definition from_code_point :: "nat \<Rightarrow> jstr" where
  "from_code_point p =
     (if p < 65536 then [p]
      else [55296 + (p - 65536) div 1024, 56320 + (p - 65536) mod 1024])"

lemma length_code_points: "length (code_points s) \<le> length s"
  by (induction s rule: code_points.induct) auto

lemma code_points_bmp: "\<forall>c\<in>set s. \<not> is_high c \<Longrightarrow> code_points s = s"
  by (induction s rule: code_points.induct) auto

subsection \<open>\<open>encodeURIComponent\<close>\<close>

definition unreserved :: "nat \<Rightarrow> bool" where
  "unreserved c \<longleftrightarrow> 65 \<le> c \<and> c \<le> 90 \<or> 97 \<le> c \<and> c \<le> 122 \<or> 48 \<le> c \<and> c \<le> 57 \<or>
     c \<in> set [45, 95, 46, 33, 126, 42, 39, 40, 41]"

definition hex_digit :: "nat \<Rightarrow> nat" where
  "hex_digit n = (if n < 10 then 48 + n else 55 + n)"

definition pct :: "nat \<Rightarrow> jstr" where
  "pct b = [37, hex_digit (b div 16), hex_digit (b mod 16)]"

definition utf8 :: "nat \<Rightarrow> nat list" where
  "utf8 p =
     (if p < 128 then [p]
      else if p < 2048 then [192 + p div 64, 128 + p mod 64]
      else if p < 65536 then [224 + p div 4096, 128 + p div 64 mod 64, 128 + p mod 64]
      else [240 + p div 262144, 128 + p div 4096 mod 64, 128 + p div 64 mod 64, 128 + p mod 64])"

text \<open>None is the \<open>URIError\<close> a lone surrogate raises.\<close>

definition encode_uri_component :: "jstr \<Rightarrow> jstr option" where
  "encode_uri_component s =
     (if \<exists>p\<in>set (code_points s). is_high p \<or> is_low p then None
      else Some (concat (map (\<lambda>p. if unreserved p then [p] else concat (map pct (utf8 p)))
                          (code_points s))))"

lemma encode_unreserved:
  assumes "\<forall>c\<in>set s. unreserved c"
  shows "encode_uri_component s = Some s"
proof -
  have low: "\<forall>c\<in>set s. \<not> is_high c \<and> \<not> is_low c"
    using assms by (auto simp: unreserved_def is_high_def is_low_def)
  then have "code_points s = s"
    by (auto intro: code_points_bmp)
  moreover have "concat (map (\<lambda>p. if unreserved p then [p] else concat (map pct (utf8 p))) s) = s"
    using assms by (induction s) auto
  ultimately show ?thesis
    using low by (auto simp: encode_uri_component_def)
qed

subsection \<open>\<open>decodeURIComponent\<close>\<close>

definition hex_value :: "nat \<Rightarrow> nat option" where
  "hex_value c =
     (if 48 \<le> c \<and> c \<le> 57 then Some (c - 48) else if 65 \<le> c \<and> c \<le> 70 then Some (c - 55)
      else if 97 \<le> c \<and> c \<le> 102 then Some (c - 87) else None)"

fun pct_byte :: "jstr \<Rightarrow> (nat \<times> jstr) option" where
  "pct_byte (c # h # l # s) =
     (case (c = 37, hex_value h, hex_value l) of (True, Some a, Some b) \<Rightarrow> Some (16 * a + b, s) | _ \<Rightarrow> None)"
| "pct_byte _ = None"

text \<open>The continuation bytes of a character, folded into its code point.\<close>

fun continued :: "nat \<Rightarrow> nat \<Rightarrow> jstr \<Rightarrow> (nat \<times> jstr) option" where
  "continued 0 p s = Some (p, s)"
| "continued (Suc n) p s =
     (case pct_byte s of
        Some (b, s') \<Rightarrow> if 128 \<le> b \<and> b < 192 then continued n (64 * p + (b - 128)) s' else None
      | None \<Rightarrow> None)"

definition pct_char :: "jstr \<Rightarrow> (nat \<times> jstr) option" where
  "pct_char s =
     (case pct_byte s of
        None \<Rightarrow> None
      | Some (b, s') \<Rightarrow>
          let checked = (\<lambda>n least lead. case continued n lead s' of
                Some (p, s'') \<Rightarrow> if least \<le> p \<and> p < 1114112 \<and> \<not> is_high p \<and> \<not> is_low p then Some (p, s'') else None
              | None \<Rightarrow> None)
          in if b < 128 then Some (b, s')
             else if 192 \<le> b \<and> b < 224 then checked 1 128 (b - 192)
             else if 224 \<le> b \<and> b < 240 then checked 2 2048 (b - 224)
             else if 240 \<le> b \<and> b < 248 then checked 3 65536 (b - 240)
             else None)"

lemma pct_byte_shorter: "pct_byte s = Some (b, s') \<Longrightarrow> length s' < length s"
  by (cases s rule: pct_byte.cases) (auto split: bool.splits option.splits)

lemma continued_shorter: "continued n p s = Some (q, s') \<Longrightarrow> length s' \<le> length s"
proof (induction n arbitrary: p s)
  case (Suc n)
  then obtain b t where "pct_byte s = Some (b, t)" and "continued n (64 * p + (b - 128)) t = Some (q, s')"
    by (auto split: option.splits if_splits)
  with Suc.IH [OF this(2)] show ?case by (auto dest: pct_byte_shorter)
qed simp

lemma pct_char_shorter: "pct_char s = Some (p, s') \<Longrightarrow> length s' < length s"
  by (auto simp: pct_char_def Let_def dest!: pct_byte_shorter continued_shorter split: option.splits if_splits)

text \<open>None is the \<open>URIError\<close>.\<close>

function decode_uri_component :: "jstr \<Rightarrow> jstr option" where
  "decode_uri_component [] = Some []"
| "decode_uri_component (c # s) =
     (if c \<noteq> 37 then map_option ((#) c) (decode_uri_component s)
      else case pct_char (c # s) of
        None \<Rightarrow> None
      | Some (p, s') \<Rightarrow> map_option ((@) (from_code_point p)) (decode_uri_component s'))"
  by pat_completeness auto
termination by (relation "measure length") (auto dest: pct_char_shorter)

lemma decode_plain: "37 \<notin> set s \<Longrightarrow> decode_uri_component s = Some s"
  by (induction s) auto

subsection \<open>\<open>URLSearchParams\<close>\<close>

definition form_unit :: "nat \<Rightarrow> jstr" where
  "form_unit p =
     (if p = 32 then [43]
      else if 65 \<le> p \<and> p \<le> 90 \<or> 97 \<le> p \<and> p \<le> 122 \<or> 48 \<le> p \<and> p \<le> 57 \<or> p \<in> set [42, 45, 46, 95]
      then [p]
      else concat (map pct (utf8 (if is_high p \<or> is_low p then 65533 else p))))"

definition form_encode :: "jstr \<Rightarrow> jstr" where
  "form_encode s = concat (map form_unit (code_points s))"

definition search_params :: "(jstr \<times> jstr) list \<Rightarrow> jstr" where
  "search_params ps = join_with (js ''&'') (map (\<lambda>(k, v). form_encode k @ js ''='' @ form_encode v) ps)"

section \<open>Thrown values and outcomes\<close>

text \<open>
  What a \<open>catch\<close> clause sees: an axios error (message, code, the response's status and
  body if there was a response, the request's method and url, name and stack), another instance of
  \<open>Error\<close>, or any other thrown value. An outcome is a thrown value or a result.
\<close>

record axios_error =
  ax_message :: jstr
  ax_code :: "jstr option"
  ax_response :: "(int \<times> jsval) option"
  ax_method :: "jstr option"
  ax_url :: "jstr option"
  ax_name :: jstr
  ax_stack :: "jstr option"

datatype exn =
    AxiosErr axios_error
  | NativeErr jstr jstr "jstr option"
  | Thrown jsval

type_synonym 'a outcome = "exn + 'a"

text \<open>\<open>err instanceof Error ? err.message : String(err)\<close>.\<close>

fun thrown_message :: "exn \<Rightarrow> jstr" where
  "thrown_message (AxiosErr e) = ax_message e"
| "thrown_message (NativeErr name message stack) = message"
| "thrown_message (Thrown v) = to_string v"

end
