(* ===== verification/Http.thy ===== *)
theory Http
  imports JsValue
begin

text \<open>
  \<open>web/src/types/domain.ts\<close> and \<open>web/src/services/http.ts\<close>: the application error, the
  result every service returns, the normalisation of thrown values and the wrapper that turns
  a rejected request into a value. The HTTP client (axios) and the server are the parameter
  \<open>http\<close>, a function from the request to a thrown value or a response body.
\<close>

section \<open>Errors and results\<close>

record app_error =
  ae_message :: jstr
  ae_status :: "int option"
  ae_method :: "jstr option"
  ae_url :: "jstr option"
  ae_code :: "jstr option"

datatype 'a service_result = Success (sr_data: 'a) | Failure (sr_error: app_error)

record domain_store_state =
  ds_loading :: bool
  ds_last_ok_at :: "int option"
  ds_error :: "app_error option"

definition ok :: "'a \<Rightarrow> 'a service_result" where
  "ok data = Success data"

definition fail :: "app_error \<Rightarrow> 'a service_result" where
  "fail err = Failure err"

definition emptyState :: domain_store_state where
  "emptyState = \<lparr>ds_loading = False, ds_last_ok_at = None, ds_error = None\<rparr>"

fun is_ok :: "'a service_result \<Rightarrow> bool" where
  "is_ok (Success _) = True"
| "is_ok (Failure _) = False"

definition plain_error :: "jstr \<Rightarrow> app_error" where
  "plain_error m = \<lparr>ae_message = m, ae_status = None, ae_method = None, ae_url = None, ae_code = None\<rparr>"

lemma plain_error_simps [simp]:
  "ae_message (plain_error m) = m" "ae_status (plain_error m) = None"
  "ae_method (plain_error m) = None" "ae_url (plain_error m) = None"
  "ae_code (plain_error m) = None"
  by (simp_all add: plain_error_def)

section \<open>Normalising a thrown value\<close>

definition str_field :: "jsval \<Rightarrow> string \<Rightarrow> jstr option" where
  "str_field v k = (case jfield v k of JStr s \<Rightarrow> Some s | _ \<Rightarrow> None)"

text \<open>The message of an axios error: a textual body, else the body's \<open>message\<close>, else its
  \<open>error\<close>, empty texts being skipped.\<close>

definition response_message :: "jsval \<Rightarrow> jstr \<Rightarrow> jstr" where
  "response_message data dflt =
     (case data of
        JStr s \<Rightarrow> if s \<noteq> [] then s else dflt
      | _ \<Rightarrow>
          if is_object data then
            (case str_field data ''message'' of
               Some (c # m) \<Rightarrow> c # m
             | _ \<Rightarrow> (case str_field data ''error'' of Some (c # m) \<Rightarrow> c # m | _ \<Rightarrow> dflt))
          else dflt)"

definition response_code :: "jsval \<Rightarrow> jstr option \<Rightarrow> jstr option" where
  "response_code data dflt =
     (if is_object data then
        (case str_field data ''code'' of Some (c # s) \<Rightarrow> Some (c # s) | _ \<Rightarrow> dflt)
      else dflt)"

fun toAppError :: "exn \<Rightarrow> app_error" where
  "toAppError (AxiosErr e) =
     (let status = map_option fst (ax_response e);
          data = (case ax_response e of None \<Rightarrow> JUndef | Some (_, d) \<Rightarrow> d);
          message = (if ax_message e \<noteq> [] then ax_message e else js ''Request failed'')
      in \<lparr>ae_message = response_message data message, ae_status = status,
          ae_method = ax_method e, ae_url = ax_url e, ae_code = response_code data (ax_code e)\<rparr>)"
| "toAppError (NativeErr name message stack) = plain_error message"
| "toAppError (Thrown v) = plain_error (to_string v)"

definition callService :: "'a outcome \<Rightarrow> 'a service_result" where
  "callService run = (case run of Inr a \<Rightarrow> ok a | Inl err \<Rightarrow> fail (toAppError err))"

fun errorMessage :: "exn \<Rightarrow> jstr \<Rightarrow> jstr" where
  "errorMessage (AxiosErr e) fallback = ax_message e"
| "errorMessage (NativeErr name message stack) fallback = message"
| "errorMessage (Thrown v) fallback =
     (if is_object v then (case str_field v ''message'' of Some m \<Rightarrow> m | None \<Rightarrow> fallback)
      else fallback)"

text \<open>The plain object an \<open>AppError\<close> is, as views throw it on.\<close>

definition opt_field :: "string \<Rightarrow> jsval option \<Rightarrow> (jstr \<times> jsval) list" where
  "opt_field k v = (case v of None \<Rightarrow> [] | Some x \<Rightarrow> [(js k, x)])"

definition app_error_value :: "app_error \<Rightarrow> jsval" where
  "app_error_value e = JObj
     ((js ''message'', JStr (ae_message e)) #
      opt_field ''status'' (map_option jint (ae_status e)) @
      opt_field ''method'' (map_option JStr (ae_method e)) @
      opt_field ''url'' (map_option JStr (ae_url e)) @
      opt_field ''code'' (map_option JStr (ae_code e)))"

section \<open>Requests\<close>

datatype verb = GET | POST | PUT | PATCH | DELETE

record request =
  rq_verb :: verb
  rq_url :: jstr
  rq_params :: jsval
  rq_body :: jsval

definition rq :: "verb \<Rightarrow> jstr \<Rightarrow> jsval \<Rightarrow> jsval \<Rightarrow> request" where
  "rq v u p b = \<lparr>rq_verb = v, rq_url = u, rq_params = p, rq_body = b\<rparr>"

lemma rq_simps [simp]:
  "rq_verb (rq v u p b) = v" "rq_url (rq v u p b) = u"
  "rq_params (rq v u p b) = p" "rq_body (rq v u p b) = b"
  by (simp_all add: rq_def)

type_synonym http = "request \<Rightarrow> jsval outcome"

text \<open>One service call: issue the request, decode the body, normalise what was thrown.\<close>

definition then_do :: "jsval outcome \<Rightarrow> (jsval \<Rightarrow> 'a outcome) \<Rightarrow> 'a outcome" where
  "then_do r dec = (case r of Inl e \<Rightarrow> Inl e | Inr d \<Rightarrow> dec d)"

definition call :: "http \<Rightarrow> request \<Rightarrow> (jsval \<Rightarrow> 'a outcome) \<Rightarrow> 'a service_result" where
  "call http r dec = callService (then_do (http r) dec)"

lemma then_do_simps [simp]:
  "then_do (Inl e) dec = Inl e" "then_do (Inr d) dec = dec d"
  by (simp_all add: then_do_def)

lemma callService_simps [simp]:
  "callService (Inr a) = Success a" "callService (Inl e) = Failure (toAppError e)"
  by (simp_all add: callService_def ok_def fail_def)

lemma call_success: "call http r dec = Success a \<longleftrightarrow> (\<exists>d. http r = Inr d \<and> dec d = Inr a)"
  by (auto simp: call_def then_do_def callService_def ok_def fail_def split: sum.splits)

lemma call_failure:
  "call http r dec = Failure e \<longleftrightarrow>
     (\<exists>x. e = toAppError x \<and> (http r = Inl x \<or> (\<exists>d. http r = Inr d \<and> dec d = Inl x)))"
  by (auto simp: call_def then_do_def callService_def ok_def fail_def split: sum.splits)

section \<open>What the normalisation guarantees\<close>

lemma str_field_object: "str_field v k = Some s \<Longrightarrow> is_object v"
  by (cases v) (auto simp: str_field_def split: option.splits jsval.splits)

lemma response_message_nonempty: "dflt \<noteq> [] \<Longrightarrow> response_message d dflt \<noteq> []"
  by (cases d) (simp_all add: response_message_def split: option.split list.split)

lemma toAppError_axios_message: "ae_message (toAppError (AxiosErr e)) \<noteq> []"
  by (simp add: Let_def response_message_nonempty)

lemma errorMessage_app_error:
  "errorMessage (Thrown (app_error_value e)) fallback = ae_message e"
  by (simp add: app_error_value_def str_field_def)

lemma toAppError_idle_body:
  "ax_response e = Some (st, d) \<Longrightarrow> \<not> truthy d \<Longrightarrow> ax_message e \<noteq> [] \<Longrightarrow>
   toAppError (AxiosErr e) = \<lparr>ae_message = ax_message e, ae_status = Some st,
     ae_method = ax_method e, ae_url = ax_url e, ae_code = ax_code e\<rparr>"
  by (cases d) (auto simp: Let_def response_message_def response_code_def)

section \<open>Properties\<close>

text \<open>C10. The backend's own message reaches the user: when a request is answered with an error whose
  body has a non-empty \<open>message\<close> text, the service returns a failure with that message and the
  response's status, and a view that throws the failure on and asks \<open>errorMessage\<close> for it gets the
  message, not its fallback text.\<close>

theorem service_error_message:
  assumes "http r = Inl (AxiosErr e)" and "ax_response e = Some (st, JObj al)"
    and "map_of al (js ''message'') = Some (JStr m)" and "m \<noteq> []"
  shows "\<exists>x. call http r dec = Failure x \<and> ae_message x = m \<and> ae_status x = Some st \<and>
             errorMessage (Thrown (app_error_value x)) fallback = m"
proof -
  have "response_message (JObj al) d = m" for d
    using assms(3,4) by (cases m) (simp_all add: response_message_def str_field_def)
  then have "ae_message (toAppError (AxiosErr e)) = m" "ae_status (toAppError (AxiosErr e)) = Some st"
    using assms(2) by (simp_all add: Let_def)
  moreover have "call http r dec = Failure (toAppError (AxiosErr e))"
    using assms(1) by (simp add: call_def del: toAppError.simps)
  ultimately show ?thesis
    by (intro exI [of _ "toAppError (AxiosErr e)"]) (simp add: errorMessage_app_error del: toAppError.simps errorMessage.simps)
qed

definition busy_error :: axios_error where
  "busy_error = \<lparr>ax_message = js ''Request failed with status code 409'', ax_code = None,
     ax_response = Some (409, JObj [(js ''message'', jlit ''device busy'')]), ax_method = None,
     ax_url = None, ax_name = js ''AxiosError'', ax_stack = None\<rparr>"

theorem service_error_message_witness:
  "\<exists>x. call (\<lambda>_. Inl (AxiosErr busy_error)) (rq GET (js ''/devices'') JUndef JUndef) Inr = Failure x \<and>
      ae_message x = js ''device busy'' \<and> ae_status x = Some 409 \<and>
      errorMessage (Thrown (app_error_value x)) (js ''?'') = js ''device busy''"
  using service_error_message [of "\<lambda>_. Inl (AxiosErr busy_error)" "rq GET (js ''/devices'') JUndef JUndef"
      busy_error 409 "[(js ''message'', jlit ''device busy'')]" "js ''device busy''" Inr "js ''?''"]
  by (simp add: busy_error_def)

end
