(* ===== verification/Interfaces.thy ===== *)
theory Interfaces
  imports Http
begin

text \<open>
  The contracts several components share, each as a locale over the operations its clients
  call: a system of events with an invariant, a bounded log, a keyed string store, and an action that fetches data into a store. The
  components interpret them on their own models.
\<close>

section \<open>Systems of events\<close>

text \<open>
  A component that takes its events one after the other, and what each of the events a client may raise
  keeps. Components write their runs with \<open>foldl\<close> or with \<open>fold\<close>.
\<close>

locale event_system =
  fixes step :: "'s \<Rightarrow> 'e \<Rightarrow> 's" and admits :: "'e \<Rightarrow> bool" and inv :: "'s \<Rightarrow> bool"
  assumes step_keeps: "inv s \<Longrightarrow> admits e \<Longrightarrow> inv (step s e)"
begin

lemma run_keeps: "inv s \<Longrightarrow> list_all admits es \<Longrightarrow> inv (foldl step s es)"
  by (induction es arbitrary: s) (simp_all add: step_keeps)

lemma fold_keeps: "inv s \<Longrightarrow> list_all admits es \<Longrightarrow> inv (fold (\<lambda>e s. step s e) es s)"
  by (induction es arbitrary: s) (simp_all add: step_keeps)

end

text \<open>A system in which every event keeps the invariant.\<close>

locale free_system =
  fixes step :: "'s \<Rightarrow> 'e \<Rightarrow> 's" and inv :: "'s \<Rightarrow> bool"
  assumes keeps: "inv s \<Longrightarrow> inv (step s e)"

sublocale free_system \<subseteq> event_system step "\<lambda>e. True" inv
  by unfold_locales (rule keeps)

context free_system
begin

lemma always: "inv s \<Longrightarrow> inv (foldl step s es)"
  by (rule run_keeps) (simp_all add: list_all_iff)

lemma fold_always: "inv s \<Longrightarrow> inv (fold (\<lambda>e s. step s e) es s)"
  by (rule fold_keeps) (simp_all add: list_all_iff)

end

section \<open>Bounded logs\<close>

text \<open>A list that keeps at most \<open>cap\<close> of the latest items.\<close>

locale bounded_log =
  fixes push :: "'a list \<Rightarrow> 'a \<Rightarrow> 'a list" and cap :: nat
  assumes cap_pos: "0 < cap"
    and push_fits: "length xs < cap \<Longrightarrow> push xs x = xs @ [x]"
    and push_full: "cap \<le> length xs \<Longrightarrow> push xs x = drop (Suc (length xs) - cap) (xs @ [x])"
begin

lemma push_window: "push xs x = drop (Suc (length xs) - cap) (xs @ [x])"
  by (cases "length xs < cap") (simp_all add: push_fits push_full)

lemma length_push: "length (push xs x) \<le> cap"
  using cap_pos by (simp add: push_window)

lemma push_last: "push xs x \<noteq> [] \<and> last (push xs x) = x"
  using cap_pos by (simp add: push_window)

lemma drop_snoc_window:
  "length ys = min n cap \<Longrightarrow> drop (n - cap) zs = ys \<Longrightarrow> length zs = n \<Longrightarrow>
   push ys x = drop (Suc n - cap) (zs @ [x])"
proof -
  assume l: "length ys = min n cap" and d: "drop (n - cap) zs = ys" and n: "length zs = n"
  show ?thesis
  proof (cases "n < cap")
    case True
    with l d n show ?thesis by (simp add: push_window)
  next
    case False
    then have "push ys x = drop 1 (drop (n - cap) zs @ [x])"
      using l d cap_pos by (simp add: push_window)
    also have "\<dots> = drop (Suc n - cap) (zs @ [x])"
      using False n cap_pos by (simp add: drop_Suc flip: drop_append) (simp add: Suc_diff_le drop_Suc_Cons tl_drop flip: drop_Suc)
    finally show ?thesis .
  qed
qed

lemma run_window: "length xs \<le> cap \<Longrightarrow> foldl push xs ys = drop (length (xs @ ys) - cap) (xs @ ys)"
proof (induction ys rule: rev_induct)
  case (snoc y ys)
  then show ?case
    using drop_snoc_window [of "foldl push xs ys" "length (xs @ ys)" "xs @ ys" y] by simp
qed simp

text \<open>From any list, once something has been pushed.\<close>

lemma run_window_any:
  "ys \<noteq> [] \<Longrightarrow> foldl push xs ys = drop (length (xs @ ys) - cap) (xs @ ys)"
proof (induction ys rule: rev_nonempty_induct)
  case (single y)
  then show ?case by (simp add: push_window)
next
  case (snoc y ys)
  then show ?case
    using drop_snoc_window [of "foldl push xs ys" "length (xs @ ys)" "xs @ ys" y] by simp
qed

lemma run_bounded: "length xs \<le> cap \<Longrightarrow> length (foldl push xs ys) \<le> cap"
  by (simp add: run_window)

lemma run_keeps_recent:
  "length ys \<le> cap \<Longrightarrow> length xs \<le> cap \<Longrightarrow> suffix ys (foldl push xs ys)"
  by (simp add: run_window suffix_def)

end

section \<open>Keyed stores\<close>

text \<open>
  \<open>getItem\<close>, \<open>setItem\<close> and \<open>removeItem\<close> of \<open>localStorage\<close> and
  \<open>sessionStorage\<close>; \<open>avail\<close> says whether access is permitted, and every operation of a
  store that is not available throws, which the result None stands for.
\<close>

locale keyed_store =
  fixes avail :: "'s \<Rightarrow> bool"
    and get_item :: "'s \<Rightarrow> jstr \<Rightarrow> jstr option option"
    and set_item :: "'s \<Rightarrow> jstr \<Rightarrow> jstr \<Rightarrow> 's option"
    and remove_item :: "'s \<Rightarrow> jstr \<Rightarrow> 's option"
  assumes get_avail: "get_item s k \<noteq> None \<longleftrightarrow> avail s"
    and set_avail: "set_item s k v = Some s' \<Longrightarrow> avail s \<and> avail s'"
    and remove_avail: "remove_item s k = Some s' \<Longrightarrow> avail s \<and> avail s'"
    and remove_defined: "avail s \<Longrightarrow> remove_item s k \<noteq> None"
    and get_set: "set_item s k v = Some s' \<Longrightarrow> get_item s' j = (if j = k then Some (Some v) else get_item s j)"
    and get_remove: "remove_item s k = Some s' \<Longrightarrow> get_item s' j = (if j = k then Some None else get_item s j)"
begin

lemma get_set_same: "set_item s k v = Some s' \<Longrightarrow> get_item s' k = Some (Some v)"
  by (simp add: get_set)

lemma get_set_other: "set_item s k v = Some s' \<Longrightarrow> j \<noteq> k \<Longrightarrow> get_item s' j = get_item s j"
  by (simp add: get_set)

lemma set_then_remove:
  "set_item s k v = Some s' \<Longrightarrow> remove_item s' k = Some s'' \<Longrightarrow> j \<noteq> k \<Longrightarrow>
   get_item s'' j = get_item s j"
  by (simp add: get_set get_remove)

lemma last_write_wins:
  "set_item s k v = Some s' \<Longrightarrow> set_item s' k w = Some s'' \<Longrightarrow> get_item s'' k = Some (Some w)"
  by (rule get_set_same)

end

section \<open>Fetching into a store\<close>

text \<open>
  An action that raises a busy flag, waits for a service and files what came back: \<open>start\<close> is
  the part before the \<open>await\<close>, \<open>finish\<close> the part after it.
\<close>

locale busy_action =
  fixes start :: "'s \<Rightarrow> 's"
    and finish :: "int \<Rightarrow> 'd service_result \<Rightarrow> 's \<Rightarrow> 's"
    and busy :: "'s \<Rightarrow> bool"
    and failure :: "'s \<Rightarrow> app_error option"
  assumes start_busy: "busy (start s)"
    and finish_idle: "\<not> busy (finish now r s)"
    and finish_failure: "failure (finish now (Failure e) s) = Some e"
begin

definition fetch :: "int \<times> 'd service_result \<Rightarrow> 's \<Rightarrow> 's" where
  "fetch q s = finish (fst q) (snd q) (start s)"

definition fetches :: "(int \<times> 'd service_result) list \<Rightarrow> 's \<Rightarrow> 's" where
  "fetches qs s = fold fetch qs s"

lemma fetch_idle: "\<not> busy (fetch q s)"
  by (simp add: fetch_def finish_idle)

lemma fetches_snoc: "fetches (qs @ [q]) s = fetch q (fetches qs s)"
  by (simp add: fetches_def)

lemma fetches_idle: "qs \<noteq> [] \<Longrightarrow> \<not> busy (fetches qs s)"
  by (cases qs rule: rev_cases) (simp_all add: fetches_snoc fetch_idle)

lemma fetches_last_failure: "failure (fetches (qs @ [(now, Failure e)]) s) = Some e"
  by (simp add: fetches_snoc fetch_def finish_failure)

end

text \<open>
  An action that also clears the error when it starts and files data and time when it succeeds:
  \<open>put\<close> turns the data of a success into what is shown, \<open>kept\<close> is what a failure leaves on
  display.
\<close>

locale fetch_action = busy_action start finish busy failure
  for start :: "'s \<Rightarrow> 's"
    and finish :: "int \<Rightarrow> 'd service_result \<Rightarrow> 's \<Rightarrow> 's"
    and busy :: "'s \<Rightarrow> bool"
    and failure :: "'s \<Rightarrow> app_error option" +
  fixes fetched_at :: "'s \<Rightarrow> int option"
    and shown :: "'s \<Rightarrow> 'v"
    and put :: "'d \<Rightarrow> 'v"
    and kept :: "'v \<Rightarrow> 'v"
  assumes start_failure: "failure (start s) = None"
    and start_keeps: "shown (start s) = shown s \<and> fetched_at (start s) = fetched_at s"
    and finish_ok: "failure s = None \<Longrightarrow> failure (finish now (Success d) s) = None"
    and finish_put: "shown (finish now (Success d) s) = put d \<and> fetched_at (finish now (Success d) s) = Some now"
    and finish_keeps: "shown (finish now (Failure e) s) = kept (shown s) \<and> fetched_at (finish now (Failure e) s) = fetched_at s"
    and kept_kept: "kept (kept v) = kept v"
begin

lemma fetch_failure: "failure (fetch (now, r) s) = (case r of Success _ \<Rightarrow> None | Failure e \<Rightarrow> Some e)"
  by (cases r) (simp_all add: fetch_def finish_ok finish_failure start_failure)

lemma fetches_failure:
  "failure (fetches (qs @ [(now, r)]) s) = (case r of Success _ \<Rightarrow> None | Failure e \<Rightarrow> Some e)"
  by (simp add: fetches_snoc fetch_failure)

definition failed :: "int \<times> 'd service_result \<Rightarrow> bool" where
  "failed q \<longleftrightarrow> \<not> is_ok (snd q)"

lemma fetch_after_failures:
  "list_all failed es \<Longrightarrow> shown (fetches es s) = (if es = [] then shown s else kept (shown s)) \<and>
     fetched_at (fetches es s) = fetched_at s"
proof (induction es rule: rev_induct)
  case (snoc q es)
  moreover obtain e where "snd q = Failure e" using snoc.prems by (cases "snd q") (auto simp: failed_def)
  ultimately show ?case
    by (simp add: fetches_snoc fetch_def finish_keeps start_keeps kept_kept)
qed (simp add: fetches_def)

text \<open>What is shown is the data of the last success, however many failures followed it.\<close>

lemma fetches_shown:
  assumes "list_all failed es"
  shows "shown (fetches (qs @ (now, Success d) # es) s) = (if es = [] then put d else kept (put d)) \<and>
     fetched_at (fetches (qs @ (now, Success d) # es) s) = Some now"
proof -
  have "fetches (qs @ (now, Success d) # es) s = fetches es (fetch (now, Success d) (fetches qs s))"
    by (simp add: fetches_def)
  then show ?thesis
    using fetch_after_failures [OF assms] by (simp add: fetch_def finish_put)
qed

end

end
