(* ===== verification/DevicesApi.thy ===== *)
theory DevicesApi
  imports Http
begin

text \<open>
  \<open>web/src/services/devices.ts\<close>: the retry loop around eSIM calls and one definition per
  endpoint, each the request the source issues and the decoding of the body it gets. The server is
  the parameter \<open>http\<close>; for the endpoints that retry it is \<open>srv\<close>, which answers the
  attempt numbered from 0. Abort signals and client-side timeouts belong to the HTTP client.
\<close>

section \<open>Decoding helpers\<close>

definition obj :: "(string \<times> jsval) list \<Rightarrow> jsval" where
  "obj kvs = JObj (map (\<lambda>(k, v). (js k, v)) kvs)"

text \<open>\<open>v[0]\<close>.\<close>

fun index0 :: "jsval \<Rightarrow> jsval" where
  "index0 (JArr (v # _)) = v"
| "index0 (JStr (c # _)) = JStr [c]"
| "index0 v = jfield v ''0''"

definition list_or_empty :: "jsval \<Rightarrow> jsval" where
  "list_or_empty v = or_else v (JArr [])"

definition as_num :: "jsval \<Rightarrow> jnum option" where
  "as_num v = (case v of JNum n \<Rightarrow> Some n | _ \<Rightarrow> None)"

definition is_true :: "jsval \<Rightarrow> bool" where
  "is_true v \<longleftrightarrow> v = JBool True"

definition done_ok :: "jsval \<Rightarrow> bool outcome" where
  "done_ok d = Inr True"

lemma done_ok_call: "call http r done_ok = Success b \<Longrightarrow> b"
  by (auto simp: call_success done_ok_def)

section \<open>The retry loop\<close>

definition ESIM_BUSY_CODE :: jstr where
  "ESIM_BUSY_CODE = js ''ESIM_BUSY''"

definition ESIM_BUSY_RETRY_DELAYS :: "jnum list" where
  "ESIM_BUSY_RETRY_DELAYS = [Fin 300, Fin 600, Fin 1200]"

record busy_meta =
  bm_busy :: bool
  bm_retryAfterMs :: jnum

definition not_busy :: busy_meta where
  "not_busy = \<lparr>bm_busy = False, bm_retryAfterMs = Fin 0\<rparr>"

definition num_positive :: "jnum \<Rightarrow> bool" where
  "num_positive n = (case n of Fin r \<Rightarrow> 0 < r | PosInf \<Rightarrow> True | _ \<Rightarrow> False)"

definition num_floor :: "jnum \<Rightarrow> jnum" where
  "num_floor n = (case n of Fin r \<Rightarrow> Fin (of_int \<lfloor>r\<rfloor>) | _ \<Rightarrow> n)"

definition retry_after :: "jsval \<Rightarrow> jnum" where
  "retry_after v =
     (case v of JNum n \<Rightarrow> if num_positive n then num_floor n else Fin 0 | _ \<Rightarrow> Fin 0)"

fun parseEsimBusyError :: "exn \<Rightarrow> busy_meta" where
  "parseEsimBusyError (AxiosErr e) =
     (case ax_response e of
        None \<Rightarrow> not_busy
      | Some (status, data) \<Rightarrow>
          if status \<noteq> 409 then not_busy
          else if \<not> truthy data \<or> \<not> is_object data then not_busy
          else if is_true (jfield data ''busy'') \<or> str_or (jfield data ''code'') [] = ESIM_BUSY_CODE
          then \<lparr>bm_busy = True, bm_retryAfterMs = retry_after (jfield data ''retryAfterMs'')\<rparr>
          else not_busy)"
| "parseEsimBusyError _ = not_busy"

fun is_error_instance :: "exn \<Rightarrow> bool" where
  "is_error_instance (Thrown _) = False"
| "is_error_instance _ = True"

definition retry_delay :: "nat \<Rightarrow> busy_meta \<Rightarrow> jnum" where
  "retry_delay attempt busy =
     (if num_positive (bm_retryAfterMs busy) then bm_retryAfterMs busy
      else ESIM_BUSY_RETRY_DELAYS ! attempt)"

text \<open>The loop from \<open>attempt\<close> on: the delays slept and what the call comes to; \<open>fn\<close> maps the
  attempt to its outcome.\<close>

function retry_from :: "nat \<Rightarrow> exn option \<Rightarrow> (nat \<Rightarrow> 'a outcome) \<Rightarrow> jnum list \<times> 'a outcome" where
  "retry_from attempt lastErr fn =
     (if attempt \<le> length ESIM_BUSY_RETRY_DELAYS then
        (case fn attempt of
           Inr a \<Rightarrow> ([], Inr a)
         | Inl err \<Rightarrow>
             (let busy = parseEsimBusyError err in
              if \<not> bm_busy busy \<or> attempt = length ESIM_BUSY_RETRY_DELAYS then ([], Inl err)
              else (case retry_from (Suc attempt) (Some err) fn of
                      (ds, r) \<Rightarrow> (retry_delay attempt busy # ds, r))))
      else
        ([], Inl (case lastErr of
                    Some err \<Rightarrow> if is_error_instance err then err
                      else NativeErr (js ''Error'') (js ''eSIM operation failed after retries'') None
                  | None \<Rightarrow> NativeErr (js ''Error'') (js ''eSIM operation failed after retries'') None)))"
  by pat_completeness auto

termination retry_from
  by (relation "measure (\<lambda>(a, e, f). Suc (length ESIM_BUSY_RETRY_DELAYS) - a)") auto

declare retry_from.simps [simp del]

definition withEsimBusyRetry :: "(nat \<Rightarrow> 'a outcome) \<Rightarrow> jnum list \<times> 'a outcome" where
  "withEsimBusyRetry fn = retry_from 0 None fn"

definition busy_at :: "(nat \<Rightarrow> 'a outcome) \<Rightarrow> nat \<Rightarrow> bool" where
  "busy_at fn n = (case fn n of Inr _ \<Rightarrow> False | Inl err \<Rightarrow> bm_busy (parseEsimBusyError err))"

definition delay_at :: "(nat \<Rightarrow> 'a outcome) \<Rightarrow> nat \<Rightarrow> jnum" where
  "delay_at fn n = (case fn n of Inr _ \<Rightarrow> NaN | Inl err \<Rightarrow> retry_delay n (parseEsimBusyError err))"

text \<open>The attempt whose outcome counts: the first that is not busy, the fourth at the latest.\<close>

definition deciding_attempt :: "(nat \<Rightarrow> 'a outcome) \<Rightarrow> nat" where
  "deciding_attempt fn =
     (if \<not> busy_at fn 0 then 0 else if \<not> busy_at fn 1 then 1 else if \<not> busy_at fn 2 then 2 else 3)"

lemma retry_stop:
  "a \<le> 3 \<Longrightarrow> \<not> busy_at fn a \<or> a = 3 \<Longrightarrow> retry_from a e fn = ([], fn a)"
  unfolding retry_from.simps [of a e fn]
  by (cases "fn a") (auto simp: busy_at_def ESIM_BUSY_RETRY_DELAYS_def Let_def)

lemma retry_go:
  assumes "a < 3" and "busy_at fn a"
  shows "\<exists>e'. retry_from a e fn =
     (delay_at fn a # fst (retry_from (Suc a) e' fn), snd (retry_from (Suc a) e' fn))"
proof -
  obtain err where "fn a = Inl err" "bm_busy (parseEsimBusyError err)"
    using assms(2) by (auto simp: busy_at_def split: sum.splits)
  then show ?thesis
    using assms(1) unfolding retry_from.simps [of a e fn]
    by (intro exI [of _ "Some err"])
       (simp add: delay_at_def ESIM_BUSY_RETRY_DELAYS_def Let_def case_prod_beta)
qed

lemma retry_unfold:
  "a \<le> 3 \<Longrightarrow> retry_from a e fn =
     (if busy_at fn a \<and> a < 3
      then (delay_at fn a # fst (retry_from (Suc a) None fn), snd (retry_from (Suc a) None fn))
      else ([], fn a))"
proof (induction "3 - a" arbitrary: a e)
  case 0
  then show ?case using retry_stop [of a fn e] by simp
next
  case (Suc n)
  show ?case
  proof (cases "busy_at fn a \<and> a < 3")
    case True
    then obtain e' where "retry_from a e fn =
        (delay_at fn a # fst (retry_from (Suc a) e' fn), snd (retry_from (Suc a) e' fn))"
      using retry_go by blast
    moreover have "retry_from (Suc a) e' fn = retry_from (Suc a) None fn"
      using Suc(1) [of "Suc a" e'] Suc(1) [of "Suc a" None] Suc(2) True by simp
    ultimately show ?thesis using True by simp
  next
    case False
    then show ?thesis using retry_stop [of a fn e] Suc by auto
  qed
qed

lemma withEsimBusyRetry_eq:
  "withEsimBusyRetry fn =
     (map (delay_at fn) [0..<deciding_attempt fn], fn (deciding_attempt fn))"
  by (simp add: withEsimBusyRetry_def retry_unfold deciding_attempt_def numeral_3_eq_3 numeral_2_eq_2)

section \<open>Endpoints\<close>

definition dev_url :: "jstr \<Rightarrow> string \<Rightarrow> jstr" where
  "dev_url dev path = js ''/devices/'' @ dev @ js path"

definition listManaged :: "http \<Rightarrow> (jsval \<times> jnum) service_result" where
  "listManaged http = call http (rq GET (js ''/devices'') JUndef JUndef)
     (\<lambda>d. Inr (list_or_empty (jfield d ''devices''),
               case jfield d ''device_limit'' of JNum n \<Rightarrow> n | _ \<Rightarrow> Fin 0))"

definition getOverviewLite :: "http \<Rightarrow> jstr \<Rightarrow> jsval service_result" where
  "getOverviewLite http dev = call http (rq GET (dev_url dev ''/overview'') JUndef JUndef)
     (\<lambda>d. Inr (or_else (index0 (list_or_empty (jfield d ''devices''))) JNull))"

definition getConfig :: "http \<Rightarrow> jstr \<Rightarrow> jsval service_result" where
  "getConfig http dev = call http (rq GET (dev_url dev ''/config'') JUndef JUndef)
     (\<lambda>d. Inr (or_else (jfield d ''config'') JNull))"

definition listDiscovered :: "http \<Rightarrow> jsval service_result" where
  "listDiscovered http = call http (rq GET (js ''/devices/discovered'') (obj [(''with_imei'', jint 1)]) JUndef)
     (\<lambda>d. Inr (list_or_empty (jfield d ''devices'')))"

definition refreshInfo :: "http \<Rightarrow> jstr \<Rightarrow> bool service_result" where
  "refreshInfo http dev = call http (rq POST (dev_url dev ''/actions/refresh'') JUndef JUndef) done_ok"

record flight_mode_result =
  fm_operatingMode :: jsval
  fm_flightMode :: bool
  fm_message :: jsval

definition setFlightMode :: "http \<Rightarrow> jstr \<Rightarrow> bool \<Rightarrow> flight_mode_result service_result" where
  "setFlightMode http dev flightModeEnabled =
     call http (rq PATCH (dev_url dev ''/flight-mode'') JUndef (obj [(''enabled'', JBool flightModeEnabled)]))
       (\<lambda>d. Inr \<lparr>fm_operatingMode = jfield d ''operating_mode'',
                 fm_flightMode = is_true (jfield d ''flight_mode''),
                 fm_message = or_else (jfield d ''message'') (JStr [])\<rparr>)"

definition rotateIP :: "http \<Rightarrow> jstr \<Rightarrow> bool service_result" where
  "rotateIP http dev = call http (rq POST (js ''/rotateip'') JUndef (obj [(''device_id'', JStr dev)])) done_ok"

record network_result =
  nr_networkConnected :: bool
  nr_privateIP :: jsval
  nr_publicIP :: jsval

definition network_dec :: "jsval \<Rightarrow> network_result outcome" where
  "network_dec d = Inr \<lparr>nr_networkConnected = is_true (jfield d ''network_connected''),
     nr_privateIP = or_else (jfield d ''private_ip'') (JStr []),
     nr_publicIP = or_else (jfield d ''public_ip'') (JStr [])\<rparr>"

definition startNetwork :: "http \<Rightarrow> jstr \<Rightarrow> jsval \<Rightarrow> network_result service_result" where
  "startNetwork http dev opts =
     call http (rq PATCH (dev_url dev ''/network'') JUndef
        (obj [(''enabled'', JBool True), (''ip_version'', jfield opts ''ip_version''),
              (''apn'', jfield opts ''apn'')])) network_dec"

definition stopNetwork :: "http \<Rightarrow> jstr \<Rightarrow> network_result service_result" where
  "stopNetwork http dev =
     call http (rq PATCH (dev_url dev ''/network'') JUndef (obj [(''enabled'', JBool False)])) network_dec"

definition enableVoWiFi :: "http \<Rightarrow> jstr \<Rightarrow> bool service_result" where
  "enableVoWiFi http dev =
     call http (rq PATCH (dev_url dev ''/vowifi'') JUndef (obj [(''enabled'', JBool True)])) done_ok"

definition disableVoWiFi :: "http \<Rightarrow> jstr \<Rightarrow> bool service_result" where
  "disableVoWiFi http dev =
     call http (rq PATCH (dev_url dev ''/vowifi'') JUndef (obj [(''enabled'', JBool False)])) done_ok"

definition reconnectVoWiFi :: "http \<Rightarrow> jstr \<Rightarrow> bool service_result" where
  "reconnectVoWiFi http dev =
     call http (rq POST (dev_url dev ''/vowifi/actions/reconnect'') JUndef JUndef) done_ok"

definition startE911Websheet :: "http \<Rightarrow> jstr \<Rightarrow> jsval service_result" where
  "startE911Websheet http dev =
     call http (rq POST (dev_url dev ''/vowifi/e911/websheet'') JUndef JUndef) Inr"

definition rebootModem :: "http \<Rightarrow> jstr \<Rightarrow> bool service_result" where
  "rebootModem http dev = call http (rq POST (dev_url dev ''/actions/reboot'') JUndef JUndef) done_ok"

definition rescanAll :: "http \<Rightarrow> bool service_result" where
  "rescanAll http = call http (rq POST (js ''/devices/actions/rescan'') JUndef JUndef) done_ok"

definition str_or_blank :: "jsval \<Rightarrow> jstr" where
  "str_or_blank v = str_or v []"

definition updateConfig :: "http \<Rightarrow> jstr \<Rightarrow> jsval \<Rightarrow> (bool \<times> jstr) service_result" where
  "updateConfig http dev config =
     call http (rq PUT (dev_url dev '''') JUndef (obj [(''config'', config)]))
       (\<lambda>d. Inr (truthy (jfield d ''requires_restart''), str_or_blank (jfield d ''warning'')))"

definition deleteManaged :: "http \<Rightarrow> jstr \<Rightarrow> bool service_result" where
  "deleteManaged http dev = call http (rq DELETE (dev_url dev '''') JUndef JUndef) done_ok"

definition setUSBNetMode :: "http \<Rightarrow> jstr \<Rightarrow> jnum \<Rightarrow> bool service_result" where
  "setUSBNetMode http dev mode =
     call http (rq PATCH (dev_url dev ''/usbnet-mode'') JUndef (obj [(''mode'', JNum mode)])) done_ok"

definition fixDiscoveredUSBNet :: "http \<Rightarrow> jstr \<Rightarrow> bool service_result" where
  "fixDiscoveredUSBNet http atPort =
     call http (rq POST (js ''/device-mgmt/discovered/fix-usbnet'') JUndef (obj [(''at_port'', JStr atPort)])) done_ok"

definition card_policy_keys :: "jstr list" where
  "card_policy_keys = [js ''apn'', js ''ip_version'', js ''network_enabled'', js ''vowifi_enabled'']"

definition addManaged :: "http \<Rightarrow> (jstr \<times> jsval) list \<Rightarrow> (jstr \<times> bool) service_result" where
  "addManaged http config =
     call http (rq POST (js ''/devices'') JUndef
        (obj [(''config'', JObj (filter (\<lambda>(k, v). k \<notin> set card_policy_keys) config))]))
       (\<lambda>d. Inr (str_or_blank (jfield d ''warning''), is_true (jfield d ''started'')))"

definition json_text :: "jsval \<Rightarrow> jsval" where
  "json_text v = (case stringify v of None \<Rightarrow> JUndef | Some t \<Rightarrow> JStr t)"

definition sendAT :: "http \<Rightarrow> jstr \<Rightarrow> jsval \<Rightarrow> (jsval \<times> jsval) service_result" where
  "sendAT http dev payload =
     call http (rq POST (dev_url dev ''/actions/at'') JUndef payload)
       (\<lambda>d. Inr (if_nullish (jfield d ''ok'') (JBool True),
                 if_nullish (jfield d ''response'')
                   (if_nullish (jfield d ''result'') (json_text (or_else d (JObj []))))))"

record ussd_reply =
  us_status :: jsval
  us_text :: jsval
  us_rawText :: jsval
  us_dcs :: jsval
  us_sessionId :: jsval
  us_channel :: jsval

definition ussd_dec :: "jsval \<Rightarrow> ussd_reply outcome" where
  "ussd_dec d =
     (let result = or_else (jfield d ''result'') (JObj []) in
      Inr \<lparr>us_status = jfield result ''status'', us_text = or_else (jfield result ''text'') (JStr []),
           us_rawText = or_else (or_else (jfield result ''raw_text'') (jfield result ''raw_xml'')) (JStr []),
           us_dcs = jfield result ''dcs'', us_sessionId = or_else (jfield result ''session_id'') (JStr []),
           us_channel = or_else (jfield d ''channel'') (JStr [])\<rparr>)"

definition sendUSSD :: "http \<Rightarrow> jstr \<Rightarrow> jsval \<Rightarrow> ussd_reply service_result" where
  "sendUSSD http dev payload = call http (rq POST (dev_url dev ''/actions/ussd'') JUndef payload) ussd_dec"

definition continueUSSD :: "http \<Rightarrow> jstr \<Rightarrow> jsval \<Rightarrow> ussd_reply service_result" where
  "continueUSSD http dev payload =
     call http (rq POST (dev_url dev ''/actions/ussd/continue'') JUndef payload) ussd_dec"

definition cancelUSSD :: "http \<Rightarrow> jstr \<Rightarrow> jstr \<Rightarrow> bool service_result" where
  "cancelUSSD http dev sessionId =
     call http (rq POST (dev_url dev ''/actions/ussd/cancel'') JUndef (obj [(''session_id'', JStr sessionId)])) done_ok"

section \<open>eSIM endpoints, with retries\<close>

definition retried :: "(nat \<Rightarrow> http) \<Rightarrow> request \<Rightarrow> (jsval \<Rightarrow> 'a outcome) \<Rightarrow> 'a service_result" where
  "retried srv r dec = callService (then_do (snd (withEsimBusyRetry (\<lambda>n. srv n r))) dec)"

definition refresh_params :: "bool \<Rightarrow> jsval" where
  "refresh_params refresh = (if refresh then obj [(''refresh'', JBool True)] else JUndef)"

definition aid_params :: "jstr \<Rightarrow> jsval" where
  "aid_params aidHex = (if aidHex \<noteq> [] then obj [(''aid_hex'', JStr aidHex)] else JUndef)"

definition getEsimOverview :: "(nat \<Rightarrow> http) \<Rightarrow> jstr \<Rightarrow> bool \<Rightarrow> (jsval \<times> jsval) service_result" where
  "getEsimOverview srv dev refresh = retried srv (rq GET (dev_url dev ''/esim'') (refresh_params refresh) JUndef)
     (\<lambda>d. Inr (or_else (jfield d ''chip_info'') JNull, list_or_empty (jfield d ''profiles'')))"

definition getEsimProfiles :: "(nat \<Rightarrow> http) \<Rightarrow> jstr \<Rightarrow> bool \<Rightarrow> jsval service_result" where
  "getEsimProfiles srv dev refresh =
     retried srv (rq GET (dev_url dev ''/esim/profiles'') (refresh_params refresh) JUndef)
       (\<lambda>d. Inr (list_or_empty d))"

definition getEsimNotifications :: "(nat \<Rightarrow> http) \<Rightarrow> jstr \<Rightarrow> jstr \<Rightarrow> jsval service_result" where
  "getEsimNotifications srv dev aidHex =
     retried srv (rq GET (dev_url dev ''/esim/notifications'') (aid_params aidHex) JUndef)
       (\<lambda>d. Inr (list_or_empty (jfield d ''items'')))"

text \<open>The default message is U+901A U+77E5 U+91CD U+8BD5 U+53D1 U+9001 U+6210 U+529F
  (notification retry sent).\<close>

definition retry_sent_text :: jstr where
  "retry_sent_text = [0x901A, 0x77E5, 0x91CD, 0x8BD5, 0x53D1, 0x9001, 0x6210, 0x529F]"

definition retryEsimNotification :: "(nat \<Rightarrow> http) \<Rightarrow> jstr \<Rightarrow> jnum \<Rightarrow> jstr \<Rightarrow> (jstr \<times> jstr) service_result" where
  "retryEsimNotification srv dev sequenceNumber aidHex =
     retried srv (rq POST (dev_url dev ''/esim/notifications/'' @ show_num sequenceNumber @ js ''/actions/retry'')
        (aid_params aidHex) JNull)
       (\<lambda>d. Inr (str_or (jfield d ''status'') (js ''ok''), str_or (jfield d ''message'') retry_sent_text))"

definition switchEsimProfile :: "(nat \<Rightarrow> http) \<Rightarrow> jstr \<Rightarrow> jsval \<Rightarrow> bool service_result" where
  "switchEsimProfile srv dev payload =
     retried srv (rq POST (dev_url dev ''/esim/actions/switch'') JUndef payload) done_ok"

definition renameEsimProfile :: "(nat \<Rightarrow> http) \<Rightarrow> jstr \<Rightarrow> jstr \<Rightarrow> jsval \<Rightarrow> bool service_result" where
  "renameEsimProfile srv dev iccid payload =
     retried srv (rq PATCH (dev_url dev ''/esim/profiles/'' @ iccid) JUndef payload) done_ok"

record delete_profile_result =
  dp_warning :: jstr
  dp_warningCode :: jstr
  dp_space_delta :: jsval

definition deleteEsimProfile :: "(nat \<Rightarrow> http) \<Rightarrow> jstr \<Rightarrow> jstr \<Rightarrow> jstr \<Rightarrow> delete_profile_result service_result" where
  "deleteEsimProfile srv dev iccid aidHex =
     retried srv (rq DELETE (dev_url dev ''/esim/profiles/'' @ iccid) (obj [(''aid_hex'', JStr aidHex)]) JUndef)
       (\<lambda>d. Inr \<lparr>dp_warning = str_or_blank (jfield d ''warning''),
                 dp_warningCode = str_or_blank (jfield d ''warning_code''),
                 dp_space_delta = jfield d ''space_delta''\<rparr>)"

definition downloadEsimProfile :: "http \<Rightarrow> jstr \<Rightarrow> jsval \<Rightarrow> bool service_result" where
  "downloadEsimProfile http dev payload =
     call http (rq GET (dev_url dev ''/esim/actions/download'') payload JUndef) done_ok"

definition scanOperators :: "http \<Rightarrow> jstr \<Rightarrow> jsval service_result" where
  "scanOperators http dev = call http (rq GET (dev_url dev ''/operator_selection/scan'') JUndef JUndef) Inr"

definition getOperatorSelection :: "http \<Rightarrow> jstr \<Rightarrow> jsval service_result" where
  "getOperatorSelection http dev = call http (rq GET (dev_url dev ''/operator_selection'') JUndef JUndef) Inr"

definition setOperatorSelection :: "http \<Rightarrow> jstr \<Rightarrow> jsval \<Rightarrow> jsval service_result" where
  "setOperatorSelection http dev payload =
     call http (rq POST (dev_url dev ''/operator_selection'') JUndef payload) Inr"

section \<open>Properties\<close>

text \<open>C12. An eSIM call waits out a busy card: it is repeated exactly as long as the answer is a 409 that
  says busy, at most three times, with the delay the server asks for or else 300, 600 and 1200 ms; the
  caller gets the outcome of the last attempt unchanged, so the error thrown after the loop is never
  seen.\<close>

theorem esim_busy_retry:
  "withEsimBusyRetry fn = (map (delay_at fn) [0..<deciding_attempt fn], fn (deciding_attempt fn)) \<and>
   deciding_attempt fn \<le> 3 \<and>
   list_all (busy_at fn) [0..<deciding_attempt fn] \<and>
   (busy_at fn (deciding_attempt fn) \<longrightarrow> deciding_attempt fn = 3)"
  by (simp add: withEsimBusyRetry_eq)
     (simp add: deciding_attempt_def numeral_2_eq_2 numeral_3_eq_3)

definition busy_409 :: exn where
  "busy_409 = AxiosErr \<lparr>ax_message = js ''conflict'', ax_code = None,
     ax_response = Some (409, obj [(''code'', jlit ''ESIM_BUSY''), (''retryAfterMs'', jint 450)]),
     ax_method = None, ax_url = None, ax_name = js ''AxiosError'', ax_stack = None\<rparr>"

lemma busy_409_meta: "parseEsimBusyError busy_409 = \<lparr>bm_busy = True, bm_retryAfterMs = Fin 450\<rparr>"
  by (simp add: busy_409_def obj_def str_or_def ESIM_BUSY_CODE_def retry_after_def num_positive_def num_floor_def)

theorem esim_busy_retry_witness:
  "withEsimBusyRetry (\<lambda>n. if n < 2 then Inl busy_409 else Inr (n :: nat)) = ([Fin 450, Fin 450], Inr 2)"
proof -
  let ?fn = "\<lambda>n. if n < 2 then Inl busy_409 else Inr (n :: nat)"
  have "deciding_attempt ?fn = 2"
    by (simp add: deciding_attempt_def busy_at_def busy_409_meta)
  then show ?thesis
    using esim_busy_retry [of ?fn]
    by (simp add: delay_at_def retry_delay_def busy_409_meta num_positive_def upt_rec)
qed

text \<open>Adding a device never sends card policy: whatever the form holds, the one request is a POST to
  \<open>/devices\<close> whose configuration has none of the four card policy fields and keeps every other field
  in its order.\<close>

lemma addManaged_drops_policy:
  "\<exists>cfg. addManaged http config = call http (rq POST (js ''/devices'') JUndef (obj [(''config'', JObj cfg)]))
       (\<lambda>d. Inr (str_or_blank (jfield d ''warning''), is_true (jfield d ''started''))) \<and>
     map_of cfg (js ''apn'') = None \<and> map_of cfg (js ''ip_version'') = None \<and>
     map_of cfg (js ''network_enabled'') = None \<and> map_of cfg (js ''vowifi_enabled'') = None \<and>
     (k \<in> set card_policy_keys \<or> map_of cfg k = map_of config k)"
proof -
  let ?cfg = "filter (\<lambda>(k, v). k \<notin> set card_policy_keys) config"
  have "map_of ?cfg j = (if j \<in> set card_policy_keys then None else map_of config j)" for j
    by (induction config) auto
  then show ?thesis
    by (intro exI [of _ ?cfg]) (simp add: addManaged_def card_policy_keys_def)
qed

end
