(* ===== verification/Services.thy ===== *)
theory Services
  imports DevicesApi
begin

text \<open>
  The small service modules of \<open>web/src/services\<close>: card policies, dashboard, logs, traffic,
  the proxy instances, the upstream proxies and the system settings. As in \<open>DevicesApi\<close>, each
  function is the request it issues and the decoding of the body.
\<close>

text \<open>\<open>v.k\<close> without optional chaining throws on \<open>null\<close> and \<open>undefined\<close>.\<close>

definition jget_strict :: "jsval \<Rightarrow> string \<Rightarrow> jsval outcome" where
  "jget_strict v k =
     (if nullish v then Inl (NativeErr (js ''TypeError'')
        (js ''Cannot read properties of '' @ to_string v @ js '' (reading '' @ [39] @ js k @ [39] @ js '')'') None)
      else Inr (jfield v k))"

section \<open>\<open>services/cards.ts\<close>\<close>

definition getPolicy :: "http \<Rightarrow> jstr \<Rightarrow> jsval service_result" where
  "getPolicy http iccid = call http (rq GET (js ''/cards/'' @ iccid @ js ''/policy'') JUndef JUndef) Inr"

definition putPolicy :: "http \<Rightarrow> jstr \<Rightarrow> jsval \<Rightarrow> jsval service_result" where
  "putPolicy http iccid req = call http (rq PUT (js ''/cards/'' @ iccid @ js ''/policy'') JUndef req) Inr"

definition listPolicies :: "http \<Rightarrow> jsval service_result" where
  "listPolicies http = call http (rq GET (js ''/cards/policies'') JUndef JUndef)
     (\<lambda>d. case jget_strict d ''policies'' of Inl e \<Rightarrow> Inl e | Inr v \<Rightarrow> Inr (if_nullish v (JArr [])))"

section \<open>\<open>services/dashboard.ts\<close>, \<open>services/logs.ts\<close>, \<open>services/traffic.ts\<close>\<close>

definition dashboard_listDevices :: "http \<Rightarrow> jsval service_result" where
  "dashboard_listDevices http =
     call http (rq GET (js ''/dashboard/devices'') JUndef JUndef) (\<lambda>d. Inr (list_or_empty d))"

definition logs_history :: "http \<Rightarrow> int \<Rightarrow> jsval service_result" where
  "logs_history http n =
     call http (rq GET (js ''/logs/history'') (obj [(''lines'', jint n)]) JUndef)
       (\<lambda>d. Inr (list_or_empty (jfield d ''logs'')))"

record traffic_analysis =
  ta_buckets :: jsval
  ta_chart :: jsval

definition createEmptyTrafficAnalysis :: traffic_analysis where
  "createEmptyTrafficAnalysis = \<lparr>ta_buckets = JArr [], ta_chart = JNull\<rparr>"

definition getAnalysis :: "http \<Rightarrow> jstr \<Rightarrow> jstr option \<Rightarrow> traffic_analysis service_result" where
  "getAnalysis http rng deviceId =
     (let dev = (case deviceId of Some d \<Rightarrow> if trim d \<noteq> [] then [(''device_id'', JStr (trim d))] else []
                 | None \<Rightarrow> []) in
      call http (rq GET (js ''/traffic/analysis'') (obj ((''range'', JStr rng) # dev)) JUndef)
        (\<lambda>d. Inr \<lparr>ta_buckets = list_or_empty (jfield d ''buckets''),
                  ta_chart = or_else (jfield d ''chart'') JNull\<rparr>))"

section \<open>\<open>services/proxy.ts\<close>\<close>

definition proxy_overview :: "http \<Rightarrow> jsval service_result" where
  "proxy_overview http = call http (rq GET (js ''/proxy-instances/overview'') JUndef JUndef) Inr"

definition getInstance :: "http \<Rightarrow> jstr \<Rightarrow> jsval service_result" where
  "getInstance http ident = call http (rq GET (js ''/proxy-instances/'' @ ident) JUndef JUndef) Inr"

definition proxy_saveConfig :: "http \<Rightarrow> jsval \<Rightarrow> bool service_result" where
  "proxy_saveConfig http instances =
     call http (rq PUT (js ''/proxy-instances/config'') JUndef (obj [(''instances'', instances)])) done_ok"

definition proxy_action :: "http \<Rightarrow> jstr \<Rightarrow> string \<Rightarrow> bool service_result" where
  "proxy_action http ident what =
     call http (rq POST (js ''/proxy-instances/'' @ ident @ js ''/actions/'' @ js what) JUndef JUndef) done_ok"

definition proxy_startInstance :: "http \<Rightarrow> jstr \<Rightarrow> bool service_result" where
  "proxy_startInstance http ident = proxy_action http ident ''start''"

definition proxy_stopInstance :: "http \<Rightarrow> jstr \<Rightarrow> bool service_result" where
  "proxy_stopInstance http ident = proxy_action http ident ''stop''"

definition proxy_restartInstance :: "http \<Rightarrow> jstr \<Rightarrow> bool service_result" where
  "proxy_restartInstance http ident = proxy_action http ident ''restart''"

section \<open>\<open>services/upstream-proxy.ts\<close>\<close>

definition upstream_list :: "http \<Rightarrow> jsval service_result" where
  "upstream_list http = call http (rq GET (js ''/upstream-proxies'') JUndef JUndef) (\<lambda>d. Inr (list_or_empty d))"

definition upstream_create :: "http \<Rightarrow> jsval \<Rightarrow> bool service_result" where
  "upstream_create http proxy = call http (rq POST (js ''/upstream-proxies'') JUndef proxy) done_ok"

definition upstream_update :: "http \<Rightarrow> jstr \<Rightarrow> jsval \<Rightarrow> bool service_result" where
  "upstream_update http ident proxy =
     call http (rq PUT (js ''/upstream-proxies/'' @ ident) JUndef proxy) done_ok"

definition upstream_remove :: "http \<Rightarrow> jstr \<Rightarrow> bool service_result" where
  "upstream_remove http ident = call http (rq DELETE (js ''/upstream-proxies/'' @ ident) JUndef JUndef) done_ok"

definition listCountries :: "http \<Rightarrow> jsval service_result" where
  "listCountries http =
     call http (rq GET (js ''/upstream-proxy-countries'') JUndef JUndef) (\<lambda>d. Inr (list_or_empty d))"

definition listCountryRules :: "http \<Rightarrow> jsval service_result" where
  "listCountryRules http =
     call http (rq GET (js ''/upstream-proxy-country-rules'') JUndef JUndef) (\<lambda>d. Inr (list_or_empty d))"

text \<open>\<open>encodeURIComponent\<close> throws on a lone surrogate, inside the wrapped task.\<close>

definition uri_error :: exn where
  "uri_error = NativeErr (js ''URIError'') (js ''URI malformed'') None"

definition country_call ::
    "http \<Rightarrow> jstr \<Rightarrow> (jstr \<Rightarrow> request) \<Rightarrow> (jsval \<Rightarrow> 'a outcome) \<Rightarrow> 'a service_result" where
  "country_call http countryCode mk dec =
     (case encode_uri_component countryCode of
        None \<Rightarrow> callService (Inl uri_error)
      | Some c \<Rightarrow> call http (mk (js ''/upstream-proxy-country-rules/'' @ c)) dec)"

definition upsertCountryRule :: "http \<Rightarrow> jstr \<Rightarrow> jsval \<Rightarrow> jsval service_result" where
  "upsertCountryRule http countryCode payload =
     country_call http countryCode (\<lambda>u. rq PUT u JUndef payload) Inr"

definition deleteCountryRule :: "http \<Rightarrow> jstr \<Rightarrow> bool service_result" where
  "deleteCountryRule http countryCode =
     country_call http countryCode (\<lambda>u. rq DELETE u JUndef JUndef) done_ok"

section \<open>\<open>services/system.ts\<close>\<close>

definition getInfo :: "http \<Rightarrow> jsval service_result" where
  "getInfo http = call http (rq GET (js ''/system/info'') JUndef JUndef) Inr"

definition changePassword_call :: "http \<Rightarrow> jsval \<Rightarrow> bool service_result" where
  "changePassword_call http payload = call http (rq POST (js ''/settings/password'') JUndef payload) done_ok"

definition getNotifications :: "http \<Rightarrow> jsval service_result" where
  "getNotifications http =
     call http (rq GET (js ''/settings/notifications'') JUndef JUndef) (\<lambda>d. Inr (or_else d (JObj [])))"

record save_notifications_response =
  sn_applied :: jsval
  sn_warning :: jsval

definition saveNotifications_call :: "http \<Rightarrow> jsval \<Rightarrow> save_notifications_response service_result" where
  "saveNotifications_call http payload =
     call http (rq PUT (js ''/settings/notifications'') JUndef payload)
       (\<lambda>d. Inr \<lparr>sn_applied = jfield d ''applied'', sn_warning = jfield d ''warning''\<rparr>)"

definition testWebhook :: "http \<Rightarrow> jsval \<Rightarrow> jsval service_result" where
  "testWebhook http payload =
     call http (rq POST (js ''/settings/notifications/webhook/test'') JUndef payload) Inr"

definition testBark :: "http \<Rightarrow> jsval \<Rightarrow> jsval service_result" where
  "testBark http payload =
     call http (rq POST (js ''/settings/notifications/bark/test'') JUndef payload) Inr"

definition testEmail :: "http \<Rightarrow> jsval \<Rightarrow> jsval service_result" where
  "testEmail http payload =
     call http (rq POST (js ''/settings/notifications/email/test'') JUndef payload) Inr"

definition checkUpdate :: "http \<Rightarrow> jsval service_result" where
  "checkUpdate http = call http (rq GET (js ''/system/update/check'') JUndef JUndef) Inr"

definition applyUpdate :: "http \<Rightarrow> jsval service_result" where
  "applyUpdate http = call http (rq POST (js ''/system/update/apply'') JUndef (JObj [])) Inr"

end
