(* ===== verification/Settings.thy ===== *)
theory Settings
  imports Interfaces Services "HOL-Library.AList"
begin

text \<open>
  \<open>web/src/stores/settings.ts\<close> with the types of \<open>web/src/services/system.ts\<close>: the
  forms filled from the server's notification settings, the payloads built from them, and the store's
  actions, each split at its \<open>await\<close>. Form fields keep the dynamic value they were filled with;
  the fields the store computes have their own types.
\<close>

section \<open>Forms\<close>

record telegram_form =
  tg_enabled :: bool
  tg_bot_token :: jsval
  tg_chat_id :: jsval
  tg_admin_id :: jsval
  tg_base_url :: jsval
  tg_proxy :: jsval

record feishu_form =
  fs_enabled :: bool
  fs_app_id :: jsval
  fs_app_secret :: jsval
  fs_chat_ids :: jstr

record qq_form =
  qq_enabled :: bool
  qq_app_id :: jsval
  qq_app_secret :: jsval
  qq_group_ids :: jsval
  qq_direct_ids :: jsval

record email_form =
  em_enabled :: bool
  em_use_ssl :: bool
  em_smtp_host :: jsval
  em_smtp_port :: jsval
  em_username :: jsval
  em_password :: jsval
  em_from_address :: jsval
  em_to_addresses :: jstr

record pushplus_form =
  pp_enabled :: bool
  pp_token :: jsval
  pp_topic :: jsval
  pp_channel :: jsval

type_synonym headers = "(jstr \<times> jsval) list"

record webhook_settings =
  wh_enabled :: bool
  wh_urls :: "jsval list"
  wh_secret :: jsval
  wh_timeout_ms :: jsval
  wh_retry_max :: jsval
  wh_text_template :: jsval
  wh_headers :: headers

record bark_settings =
  bk_enabled :: bool
  bk_urls :: "jsval list"
  bk_group :: jsval
  bk_icon :: jsval
  bk_level :: jsval

record password_form =
  pw_old_password :: jstr
  pw_new_password :: jstr
  pw_confirm_password :: jstr

record notification_forms =
  nf_telegram :: telegram_form
  nf_feishu :: feishu_form
  nf_qq :: qq_form
  nf_email :: email_form
  nf_pushplus :: pushplus_form
  nf_webhook :: webhook_settings
  nf_bark :: bark_settings

abbreviation blank :: jsval where "blank \<equiv> JStr []"

definition DEFAULT_PASSWORD_FORM :: password_form where
  "DEFAULT_PASSWORD_FORM = \<lparr>pw_old_password = [], pw_new_password = [], pw_confirm_password = []\<rparr>"

definition DEFAULT_TELEGRAM_FORM :: telegram_form where
  "DEFAULT_TELEGRAM_FORM = \<lparr>tg_enabled = False, tg_bot_token = blank, tg_chat_id = JNull, tg_admin_id = JNull,
     tg_base_url = blank, tg_proxy = blank\<rparr>"

definition DEFAULT_FEISHU_FORM :: feishu_form where
  "DEFAULT_FEISHU_FORM = \<lparr>fs_enabled = False, fs_app_id = blank, fs_app_secret = blank, fs_chat_ids = []\<rparr>"

definition DEFAULT_QQ_FORM :: qq_form where
  "DEFAULT_QQ_FORM = \<lparr>qq_enabled = False, qq_app_id = blank, qq_app_secret = blank, qq_group_ids = blank,
     qq_direct_ids = blank\<rparr>"

definition DEFAULT_EMAIL_FORM :: email_form where
  "DEFAULT_EMAIL_FORM = \<lparr>em_enabled = False, em_use_ssl = False, em_smtp_host = blank, em_smtp_port = JNull,
     em_username = blank, em_password = blank, em_from_address = blank, em_to_addresses = []\<rparr>"

definition DEFAULT_PUSHPLUS_FORM :: pushplus_form where
  "DEFAULT_PUSHPLUS_FORM = \<lparr>pp_enabled = False, pp_token = blank, pp_topic = blank, pp_channel = jlit ''wechat''\<rparr>"

definition DEFAULT_TEMPLATE :: jsval where
  "DEFAULT_TEMPLATE = jlit ''{{device_label}} {{text}}''"

definition DEFAULT_WEBHOOK_SETTINGS :: webhook_settings where
  "DEFAULT_WEBHOOK_SETTINGS = \<lparr>wh_enabled = False, wh_urls = [], wh_secret = blank, wh_timeout_ms = jint 5000,
     wh_retry_max = jint 3, wh_text_template = DEFAULT_TEMPLATE, wh_headers = []\<rparr>"

definition DEFAULT_BARK_SETTINGS :: bark_settings where
  "DEFAULT_BARK_SETTINGS = \<lparr>bk_enabled = False, bk_urls = [], bk_group = jlit ''vohive'', bk_icon = blank,
     bk_level = jlit ''active''\<rparr>"

definition default_forms :: notification_forms where
  "default_forms = \<lparr>nf_telegram = DEFAULT_TELEGRAM_FORM, nf_feishu = DEFAULT_FEISHU_FORM, nf_qq = DEFAULT_QQ_FORM,
     nf_email = DEFAULT_EMAIL_FORM, nf_pushplus = DEFAULT_PUSHPLUS_FORM, nf_webhook = DEFAULT_WEBHOOK_SETTINGS,
     nf_bark = DEFAULT_BARK_SETTINGS\<rparr>"

section \<open>Webhook headers\<close>

definition PROTECTED_WEBHOOK_HEADERS :: "jstr list" where
  "PROTECTED_WEBHOOK_HEADERS = [js ''content-type'', js ''x-vohive-signature'']"

definition header_text :: "jsval \<Rightarrow> jstr" where
  "header_text v = to_string (if_nullish v blank)"

definition add_header :: "(jstr \<times> jstr) list \<Rightarrow> jstr \<times> jsval \<Rightarrow> (jstr \<times> jstr) list" where
  "add_header out kv =
     (let key = trim (fst kv) in
      if key = [] \<or> to_lower key \<in> set PROTECTED_WEBHOOK_HEADERS then out
      else AList.update key (header_text (snd kv)) out)"

definition sanitizeWebhookHeaders :: "headers \<Rightarrow> (jstr \<times> jstr) list" where
  "sanitizeWebhookHeaders hs = foldl add_header [] hs"

section \<open>From the server to the forms\<close>

definition array_or_empty :: "jsval \<Rightarrow> jsval list" where
  "array_or_empty v = elems v"

definition joined :: "jsval \<Rightarrow> jstr" where
  "joined v = (case v of JArr vs \<Rightarrow> to_string (JArr vs) | _ \<Rightarrow> [])"

definition own_entries :: "jsval \<Rightarrow> headers" where
  "own_entries v = (case v of JObj al \<Rightarrow> al | JArr vs \<Rightarrow> zip (map show_nat [0..<length vs]) vs | _ \<Rightarrow> [])"

definition section_of :: "jsval \<Rightarrow> string \<Rightarrow> jsval" where
  "section_of data k = or_else (jfield data k) (JObj [])"

definition text_or :: "jsval \<Rightarrow> string \<Rightarrow> jsval \<Rightarrow> jsval" where
  "text_or v k d = or_else (jfield v k) d"

definition telegram_of :: "jsval \<Rightarrow> telegram_form" where
  "telegram_of tg = \<lparr>tg_enabled = truthy (jfield tg ''enabled''), tg_bot_token = text_or tg ''bot_token'' blank,
     tg_chat_id = if_nullish (jfield tg ''chat_id'') JNull, tg_admin_id = if_nullish (jfield tg ''admin_id'') JNull,
     tg_base_url = text_or tg ''base_url'' blank, tg_proxy = text_or tg ''proxy'' blank\<rparr>"

definition feishu_of :: "jsval \<Rightarrow> feishu_form" where
  "feishu_of fs = \<lparr>fs_enabled = truthy (jfield fs ''enabled''), fs_app_id = text_or fs ''app_id'' blank,
     fs_app_secret = text_or fs ''app_secret'' blank, fs_chat_ids = joined (jfield fs ''chat_ids'')\<rparr>"

definition qq_of :: "jsval \<Rightarrow> qq_form" where
  "qq_of qq = \<lparr>qq_enabled = truthy (jfield qq ''enabled''), qq_app_id = text_or qq ''app_id'' blank,
     qq_app_secret = text_or qq ''app_secret'' blank, qq_group_ids = text_or qq ''group_ids'' blank,
     qq_direct_ids = text_or qq ''direct_ids'' blank\<rparr>"

definition email_of :: "jsval \<Rightarrow> email_form" where
  "email_of em = \<lparr>em_enabled = truthy (jfield em ''enabled''), em_use_ssl = truthy (jfield em ''use_ssl''),
     em_smtp_host = text_or em ''smtp_host'' blank, em_smtp_port = if_nullish (jfield em ''smtp_port'') JNull,
     em_username = text_or em ''username'' blank, em_password = text_or em ''password'' blank,
     em_from_address = text_or em ''from_address'' blank, em_to_addresses = joined (jfield em ''to_addresses'')\<rparr>"

definition pushplus_of :: "jsval \<Rightarrow> pushplus_form" where
  "pushplus_of pp = \<lparr>pp_enabled = truthy (jfield pp ''enabled''), pp_token = text_or pp ''token'' blank,
     pp_topic = text_or pp ''topic'' blank, pp_channel = text_or pp ''channel'' (jlit ''wechat'')\<rparr>"

definition webhook_of :: "jsval \<Rightarrow> webhook_settings" where
  "webhook_of wh = \<lparr>wh_enabled = truthy (jfield wh ''enabled''), wh_urls = array_or_empty (jfield wh ''urls''),
     wh_secret = text_or wh ''secret'' blank, wh_timeout_ms = if_nullish (jfield wh ''timeout_ms'') (jint 5000),
     wh_retry_max = if_nullish (jfield wh ''retry_max'') (jint 3),
     wh_text_template = if_nullish (jfield wh ''text_template'') DEFAULT_TEMPLATE,
     wh_headers = own_entries (jfield wh ''headers'')\<rparr>"

definition bark_of :: "jsval \<Rightarrow> bark_settings" where
  "bark_of bk = \<lparr>bk_enabled = truthy (jfield bk ''enabled''), bk_urls = array_or_empty (jfield bk ''urls''),
     bk_group = text_or bk ''group'' (jlit ''vohive''), bk_icon = text_or bk ''icon'' blank,
     bk_level = text_or bk ''level'' (jlit ''active'')\<rparr>"

definition forms_of :: "jsval \<Rightarrow> notification_forms" where
  "forms_of data = \<lparr>nf_telegram = telegram_of (section_of data ''telegram''),
     nf_feishu = feishu_of (section_of data ''feishu''), nf_qq = qq_of (section_of data ''qq''),
     nf_email = email_of (section_of data ''email''), nf_pushplus = pushplus_of (section_of data ''pushplus''),
     nf_webhook = webhook_of (section_of data ''webhook''), nf_bark = bark_of (section_of data ''bark'')\<rparr>"

section \<open>From the forms to the payloads\<close>

text \<open>\<open>Number(v) || d\<close>.\<close>

definition number_or :: "jsval \<Rightarrow> int \<Rightarrow> jsval" where
  "number_or v d = or_else (JNum (to_number v)) (jint d)"

definition id_number :: "jsval \<Rightarrow> jsval" where
  "id_number v = (if truthy v then JNum (to_number v) else jint 0)"

definition comma_list :: "jstr \<Rightarrow> jstr list" where
  "comma_list s = (if s = [] then [] else filter (\<lambda>w. w \<noteq> []) (map trim (split_on 44 s)))"

definition text_array :: "jstr list \<Rightarrow> jsval" where
  "text_array ws = JArr (map JStr ws)"

definition trimmed :: "jsval \<Rightarrow> jsval" where
  "trimmed v = JStr (trim (text_or_empty v))"

definition headers_value :: "(jstr \<times> jstr) list \<Rightarrow> jsval" where
  "headers_value hs = JObj (map (\<lambda>(k, v). (k, JStr v)) hs)"

definition webhook_payload :: "jsval list \<Rightarrow> webhook_settings \<Rightarrow> jsval" where
  "webhook_payload urls w =
     obj [(''enabled'', JBool (wh_enabled w)), (''urls'', JArr urls),
       (''secret'', or_else (wh_secret w) blank), (''timeout_ms'', number_or (wh_timeout_ms w) 5000),
       (''retry_max'', number_or (wh_retry_max w) 3), (''text_template'', JStr (text_or_empty (wh_text_template w))),
       (''headers'', headers_value (sanitizeWebhookHeaders (wh_headers w)))]"

definition bark_payload :: "jsval list \<Rightarrow> bark_settings \<Rightarrow> jsval" where
  "bark_payload urls b =
     obj [(''enabled'', JBool (bk_enabled b)), (''urls'', JArr urls), (''group'', trimmed (bk_group b)),
       (''icon'', trimmed (bk_icon b)), (''level'', trimmed (bk_level b))]"

definition telegram_payload :: "telegram_form \<Rightarrow> jsval" where
  "telegram_payload tg = obj [(''enabled'', JBool (tg_enabled tg)), (''bot_token'', or_else (tg_bot_token tg) blank),
     (''chat_id'', id_number (tg_chat_id tg)), (''admin_id'', id_number (tg_admin_id tg)),
     (''base_url'', or_else (tg_base_url tg) blank), (''proxy'', or_else (tg_proxy tg) blank)]"

definition feishu_payload :: "feishu_form \<Rightarrow> jsval" where
  "feishu_payload fs = obj [(''enabled'', JBool (fs_enabled fs)), (''app_id'', or_else (fs_app_id fs) blank),
     (''app_secret'', or_else (fs_app_secret fs) blank), (''chat_ids'', text_array (comma_list (fs_chat_ids fs)))]"

definition qq_payload :: "qq_form \<Rightarrow> jsval" where
  "qq_payload qq = obj [(''enabled'', JBool (qq_enabled qq)), (''app_id'', or_else (qq_app_id qq) blank),
     (''app_secret'', or_else (qq_app_secret qq) blank), (''group_ids'', or_else (qq_group_ids qq) blank),
     (''direct_ids'', or_else (qq_direct_ids qq) blank)]"

definition email_payload :: "email_form \<Rightarrow> jsval" where
  "email_payload em = obj [(''enabled'', JBool (em_enabled em)), (''use_ssl'', JBool (em_use_ssl em)),
     (''smtp_host'', or_else (em_smtp_host em) blank), (''smtp_port'', number_or (em_smtp_port em) 0),
     (''username'', or_else (em_username em) blank), (''password'', or_else (em_password em) blank),
     (''from_address'', or_else (em_from_address em) blank),
     (''to_addresses'', text_array (comma_list (em_to_addresses em)))]"

definition pushplus_payload :: "pushplus_form \<Rightarrow> jsval" where
  "pushplus_payload pp = obj [(''enabled'', JBool (pp_enabled pp)), (''token'', or_else (pp_token pp) blank),
     (''topic'', or_else (pp_topic pp) blank), (''channel'', or_else (pp_channel pp) blank)]"

definition buildNotificationsPayload :: "notification_forms \<Rightarrow> jsval" where
  "buildNotificationsPayload f = obj [
     (''telegram'', telegram_payload (nf_telegram f)), (''feishu'', feishu_payload (nf_feishu f)),
     (''qq'', qq_payload (nf_qq f)), (''email'', email_payload (nf_email f)),
     (''pushplus'', pushplus_payload (nf_pushplus f)),
     (''webhook'', webhook_payload (wh_urls (nf_webhook f)) (nf_webhook f)),
     (''bark'', bark_payload (bk_urls (nf_bark f)) (nf_bark f))]"

definition trimmed_urls :: "jsval list \<Rightarrow> jsval list" where
  "trimmed_urls us = map JStr (filter (\<lambda>w. w \<noteq> []) (map (\<lambda>v. trim (text_or_empty v)) us))"

definition webhook_test_payload :: "notification_forms \<Rightarrow> jsval" where
  "webhook_test_payload f = webhook_payload (trimmed_urls (wh_urls (nf_webhook f))) (nf_webhook f)"

definition bark_test_payload :: "notification_forms \<Rightarrow> jsval" where
  "bark_test_payload f = bark_payload (trimmed_urls (bk_urls (nf_bark f))) (nf_bark f)"

definition email_test_payload :: "notification_forms \<Rightarrow> jsval" where
  "email_test_payload f =
     (let em = nf_email f in
      obj [(''enabled'', JBool (em_enabled em)), (''use_ssl'', JBool (em_use_ssl em)),
        (''smtp_host'', trimmed (em_smtp_host em)), (''smtp_port'', number_or (em_smtp_port em) 0),
        (''username'', trimmed (em_username em)), (''password'', trimmed (em_password em)),
        (''from_address'', trimmed (em_from_address em)),
        (''to_addresses'', text_array (comma_list (em_to_addresses em)))])"

section \<open>The store\<close>

record settings_store =
  se_systemInfo :: jsval
  se_notifications :: jsval
  se_passwordForm :: password_form
  se_forms :: notification_forms
  se_loadingSystemInfo :: bool
  se_loadingNotifications :: bool
  se_savingNotifications :: bool
  se_testingWebhook :: bool
  se_testingBark :: bool
  se_testingEmail :: bool
  se_changingPassword :: bool
  se_error :: "app_error option"

definition DEFAULT_SYSTEM_INFO :: jsval where
  "DEFAULT_SYSTEM_INFO = obj [(''version'', blank), (''build_time'', blank), (''config'', blank),
     (''docs'', obj [(''swagger_ui'', blank), (''openapi_yaml'', blank), (''openapi_json'', blank)])]"

definition initial_settings :: settings_store where
  "initial_settings = \<lparr>se_systemInfo = DEFAULT_SYSTEM_INFO, se_notifications = JObj [], se_passwordForm = DEFAULT_PASSWORD_FORM,
     se_forms = default_forms, se_loadingSystemInfo = False, se_loadingNotifications = False,
     se_savingNotifications = False, se_testingWebhook = False, se_testingBark = False, se_testingEmail = False,
     se_changingPassword = False, se_error = None\<rparr>"

definition fetchSystemInfo_start :: "settings_store \<Rightarrow> settings_store" where
  "fetchSystemInfo_start s = s\<lparr>se_loadingSystemInfo := True\<rparr>"

definition fetchSystemInfo_finish :: "int \<Rightarrow> jsval service_result \<Rightarrow> settings_store \<Rightarrow> settings_store" where
  "fetchSystemInfo_finish now r s =
     (case r of
        Success d \<Rightarrow> s\<lparr>se_systemInfo := d, se_error := None, se_loadingSystemInfo := False\<rparr>
      | Failure e \<Rightarrow> s\<lparr>se_error := Some e, se_loadingSystemInfo := False\<rparr>)"

definition fetchNotifications_start :: "settings_store \<Rightarrow> settings_store" where
  "fetchNotifications_start s = s\<lparr>se_loadingNotifications := True\<rparr>"

definition fetchNotifications_finish :: "int \<Rightarrow> jsval service_result \<Rightarrow> settings_store \<Rightarrow> settings_store" where
  "fetchNotifications_finish now r s =
     (case r of
        Success d \<Rightarrow> s\<lparr>se_notifications := or_else d (JObj []), se_forms := forms_of d, se_error := None,
                        se_loadingNotifications := False\<rparr>
      | Failure e \<Rightarrow> s\<lparr>se_error := Some e, se_loadingNotifications := False\<rparr>)"

definition keep_error :: "'a service_result \<Rightarrow> settings_store \<Rightarrow> settings_store" where
  "keep_error r s = (case r of Success _ \<Rightarrow> s | Failure e \<Rightarrow> s\<lparr>se_error := Some e\<rparr>)"

definition saveNotifications_start :: "settings_store \<Rightarrow> settings_store" where
  "saveNotifications_start s = s\<lparr>se_savingNotifications := True\<rparr>"

definition saveNotifications_finish ::
    "int \<Rightarrow> save_notifications_response service_result \<Rightarrow> settings_store \<Rightarrow> settings_store" where
  "saveNotifications_finish now r s = (keep_error r s)\<lparr>se_savingNotifications := False\<rparr>"

definition testWebhookFromForm_start :: "settings_store \<Rightarrow> settings_store" where
  "testWebhookFromForm_start s = s\<lparr>se_testingWebhook := True\<rparr>"

definition testWebhookFromForm_finish :: "int \<Rightarrow> jsval service_result \<Rightarrow> settings_store \<Rightarrow> settings_store" where
  "testWebhookFromForm_finish now r s = (keep_error r s)\<lparr>se_testingWebhook := False\<rparr>"

definition testBarkFromForm_start :: "settings_store \<Rightarrow> settings_store" where
  "testBarkFromForm_start s = s\<lparr>se_testingBark := True\<rparr>"

definition testBarkFromForm_finish :: "int \<Rightarrow> jsval service_result \<Rightarrow> settings_store \<Rightarrow> settings_store" where
  "testBarkFromForm_finish now r s = (keep_error r s)\<lparr>se_testingBark := False\<rparr>"

definition testEmailFromForm_start :: "settings_store \<Rightarrow> settings_store" where
  "testEmailFromForm_start s = s\<lparr>se_testingEmail := True\<rparr>"

definition testEmailFromForm_finish :: "int \<Rightarrow> jsval service_result \<Rightarrow> settings_store \<Rightarrow> settings_store" where
  "testEmailFromForm_finish now r s = (keep_error r s)\<lparr>se_testingEmail := False\<rparr>"

definition changePassword_start :: "settings_store \<Rightarrow> settings_store" where
  "changePassword_start s = s\<lparr>se_changingPassword := True\<rparr>"

definition changePassword_finish :: "int \<Rightarrow> bool service_result \<Rightarrow> settings_store \<Rightarrow> settings_store" where
  "changePassword_finish now r s = (keep_error r s)\<lparr>se_changingPassword := False\<rparr>"

definition resetPasswordForm :: "settings_store \<Rightarrow> settings_store" where
  "resetPasswordForm s = s\<lparr>se_passwordForm := DEFAULT_PASSWORD_FORM\<rparr>"

text \<open>The requests the form actions issue.\<close>

definition saveNotificationsFromForms :: "http \<Rightarrow> settings_store \<Rightarrow> save_notifications_response service_result" where
  "saveNotificationsFromForms http s = saveNotifications_call http (buildNotificationsPayload (se_forms s))"

definition testWebhookFromForm :: "http \<Rightarrow> settings_store \<Rightarrow> jsval service_result" where
  "testWebhookFromForm http s = testWebhook http (webhook_test_payload (se_forms s))"

definition testBarkFromForm :: "http \<Rightarrow> settings_store \<Rightarrow> jsval service_result" where
  "testBarkFromForm http s = testBark http (bark_test_payload (se_forms s))"

definition testEmailFromForm :: "http \<Rightarrow> settings_store \<Rightarrow> jsval service_result" where
  "testEmailFromForm http s = testEmail http (email_test_payload (se_forms s))"

definition changePasswordFromForm :: "http \<Rightarrow> settings_store \<Rightarrow> bool service_result" where
  "changePasswordFromForm http s =
     (let f = se_passwordForm s in
      changePassword_call http (obj [(''old_password'', JStr (pw_old_password f)),
        (''new_password'', JStr (pw_new_password f)), (''confirm_password'', JStr (pw_confirm_password f))]))"

lemmas settings_action_defs = fetchSystemInfo_start_def fetchSystemInfo_finish_def fetchNotifications_start_def
  fetchNotifications_finish_def keep_error_def saveNotifications_start_def saveNotifications_finish_def
  testWebhookFromForm_start_def testWebhookFromForm_finish_def testBarkFromForm_start_def
  testBarkFromForm_finish_def testEmailFromForm_start_def testEmailFromForm_finish_def
  changePassword_start_def changePassword_finish_def

interpretation system_info: busy_action fetchSystemInfo_start fetchSystemInfo_finish se_loadingSystemInfo se_error
  by unfold_locales (simp_all add: settings_action_defs split: service_result.split)

interpretation notifications: busy_action fetchNotifications_start fetchNotifications_finish se_loadingNotifications se_error
  by unfold_locales (simp_all add: settings_action_defs split: service_result.split)

interpretation saving: busy_action saveNotifications_start saveNotifications_finish se_savingNotifications se_error
  by unfold_locales (simp_all add: settings_action_defs)

interpretation webhook_test: busy_action testWebhookFromForm_start testWebhookFromForm_finish se_testingWebhook se_error
  by unfold_locales (simp_all add: settings_action_defs)

interpretation bark_test: busy_action testBarkFromForm_start testBarkFromForm_finish se_testingBark se_error
  by unfold_locales (simp_all add: settings_action_defs)

interpretation email_test: busy_action testEmailFromForm_start testEmailFromForm_finish se_testingEmail se_error
  by unfold_locales (simp_all add: settings_action_defs)

interpretation password_change: busy_action changePassword_start changePassword_finish se_changingPassword se_error
  by unfold_locales (simp_all add: settings_action_defs)

section \<open>Headers\<close>

definition good_header :: "jstr \<Rightarrow> bool" where
  "good_header k \<longleftrightarrow> k \<noteq> [] \<and> trim k = k \<and> to_lower k \<notin> set PROTECTED_WEBHOOK_HEADERS"

lemma add_header_map:
  "map_of (add_header out kv) k =
     (if trim (fst kv) = k \<and> good_header k then Some (header_text (snd kv)) else map_of out k)"
  by (auto simp: add_header_def good_header_def Let_def update_conv')

lemma update_key_set: "set (map fst (AList.update k v al)) = insert k (set (map fst al))"
  by (induction al) auto

lemma add_header_keys:
  assumes "list_all good_header (map fst out)" and "distinct (map fst out)"
  shows "list_all good_header (map fst (add_header out kv)) \<and> distinct (map fst (add_header out kv))"
proof (cases "good_header (trim (fst kv))")
  case True
  then have "add_header out kv = AList.update (trim (fst kv)) (header_text (snd kv)) out"
    by (simp add: add_header_def good_header_def Let_def)
  then show ?thesis
    using assms True unfolding list_all_iff by (simp add: update_key_set distinct_update del: set_map)
next
  case False
  then have "add_header out kv = out" by (auto simp: add_header_def good_header_def Let_def)
  with assms show ?thesis by simp
qed

lemma sanitize_keys:
  "list_all good_header (map fst (sanitizeWebhookHeaders hs)) \<and> distinct (map fst (sanitizeWebhookHeaders hs))"
  unfolding sanitizeWebhookHeaders_def
  by (induction hs rule: rev_induct) (simp_all add: add_header_keys)

lemma sanitize_map:
  "map_of (sanitizeWebhookHeaders hs) k =
     (if good_header k then map_of (rev (map (\<lambda>(j, v). (trim j, header_text v)) hs)) k else None)"
  unfolding sanitizeWebhookHeaders_def
  by (induction hs rule: rev_induct) (auto simp: add_header_map)

lemma update_fresh: "k \<notin> fst ` set al \<Longrightarrow> AList.update k v al = al @ [(k, v)]"
  by (induction al) auto

lemma sanitize_good:
  "list_all good_header (map fst hs) \<Longrightarrow> distinct (map fst hs) \<Longrightarrow>
   sanitizeWebhookHeaders (map (\<lambda>(k, v). (k, JStr v)) hs) = hs"
  unfolding sanitizeWebhookHeaders_def
proof (induction hs rule: rev_induct)
  case (snoc kv hs)
  obtain k v where "kv = (k, v)" by (cases kv)
  with snoc show ?case
    by (simp add: add_header_def good_header_def Let_def header_text_def if_nullish_def update_fresh)
qed simp

section \<open>Lists in a text field\<close>

lemma joined_array: "joined (text_array ws) = join_with [44] ws"
proof -
  have "map (\<lambda>v. if nullish v then [] else to_string v) (map JStr ws) = ws" by (induction ws) simp_all
  then show ?thesis by (simp add: joined_def text_array_def) (simp add: js_def)
qed

definition list_item :: "jstr \<Rightarrow> bool" where
  "list_item w \<longleftrightarrow> w \<noteq> [] \<and> trim w = w \<and> 44 \<notin> set w"

lemma join_empty: "list_all list_item ws \<Longrightarrow> join_with [44] ws = [] \<longleftrightarrow> ws = []"
  by (cases "([44 :: nat], ws)" rule: join_with.cases) (simp_all add: list_item_def)

lemma comma_list_join: "list_all list_item ws \<Longrightarrow> comma_list (joined (text_array ws)) = ws"
proof -
  assume ws: "list_all list_item ws"
  have "map trim ws = ws" "filter (\<lambda>w. w \<noteq> []) ws = ws"
    using ws by (induction ws) (simp_all add: list_item_def)
  moreover have "ws \<noteq> [] \<Longrightarrow> split_on 44 (join_with [44] ws) = ws"
    using ws by (intro split_join) (auto simp: list_all_iff list_item_def)
  ultimately show ?thesis
    by (simp add: comma_list_def joined_array join_empty [OF ws])
qed

section \<open>The settings the server holds\<close>

record server_settings =
  sx_telegram :: "bool \<times> jstr \<times> int \<times> int \<times> jstr \<times> jstr"
  sx_feishu :: "bool \<times> jstr \<times> jstr \<times> jstr list"
  sx_qq :: "bool \<times> jstr \<times> jstr \<times> jstr \<times> jstr"
  sx_email :: "bool \<times> bool \<times> jstr \<times> int \<times> jstr \<times> jstr \<times> jstr \<times> jstr list"
  sx_pushplus :: "bool \<times> jstr \<times> jstr \<times> jstr"
  sx_webhook :: "bool \<times> jstr list \<times> jstr \<times> int \<times> int \<times> jstr \<times> (jstr \<times> jstr) list"
  sx_bark :: "bool \<times> jstr list \<times> jstr \<times> jstr \<times> jstr"

definition telegram_value :: "bool \<times> jstr \<times> int \<times> int \<times> jstr \<times> jstr \<Rightarrow> jsval" where
  "telegram_value = (\<lambda>(on, token, chat, admin, url, proxy). obj [(''enabled'', JBool on), (''bot_token'', JStr token),
     (''chat_id'', jint chat), (''admin_id'', jint admin), (''base_url'', JStr url), (''proxy'', JStr proxy)])"

definition feishu_value :: "bool \<times> jstr \<times> jstr \<times> jstr list \<Rightarrow> jsval" where
  "feishu_value = (\<lambda>(on, app, secret, chats). obj [(''enabled'', JBool on), (''app_id'', JStr app),
     (''app_secret'', JStr secret), (''chat_ids'', text_array chats)])"

definition qq_value :: "bool \<times> jstr \<times> jstr \<times> jstr \<times> jstr \<Rightarrow> jsval" where
  "qq_value = (\<lambda>(on, app, secret, groups, directs). obj [(''enabled'', JBool on), (''app_id'', JStr app),
     (''app_secret'', JStr secret), (''group_ids'', JStr groups), (''direct_ids'', JStr directs)])"

definition email_value :: "bool \<times> bool \<times> jstr \<times> int \<times> jstr \<times> jstr \<times> jstr \<times> jstr list \<Rightarrow> jsval" where
  "email_value = (\<lambda>(on, ssl, host, port, user, pass, sender, receivers). obj [(''enabled'', JBool on), (''use_ssl'', JBool ssl),
     (''smtp_host'', JStr host), (''smtp_port'', jint port), (''username'', JStr user), (''password'', JStr pass),
     (''from_address'', JStr sender), (''to_addresses'', text_array receivers)])"

definition pushplus_value :: "bool \<times> jstr \<times> jstr \<times> jstr \<Rightarrow> jsval" where
  "pushplus_value = (\<lambda>(on, token, topic, channel). obj [(''enabled'', JBool on), (''token'', JStr token),
     (''topic'', JStr topic), (''channel'', JStr channel)])"

definition webhook_value :: "bool \<times> jstr list \<times> jstr \<times> int \<times> int \<times> jstr \<times> (jstr \<times> jstr) list \<Rightarrow> jsval" where
  "webhook_value = (\<lambda>(on, urls, secret, timeout, retries, template, hs). obj [(''enabled'', JBool on),
     (''urls'', text_array urls), (''secret'', JStr secret), (''timeout_ms'', jint timeout),
     (''retry_max'', jint retries), (''text_template'', JStr template), (''headers'', headers_value hs)])"

definition bark_value :: "bool \<times> jstr list \<times> jstr \<times> jstr \<times> jstr \<Rightarrow> jsval" where
  "bark_value = (\<lambda>(on, urls, grp, icon, level). obj [(''enabled'', JBool on), (''urls'', text_array urls),
     (''group'', JStr grp), (''icon'', JStr icon), (''level'', JStr level)])"

definition settings_value :: "server_settings \<Rightarrow> jsval" where
  "settings_value x = obj [(''telegram'', telegram_value (sx_telegram x)), (''feishu'', feishu_value (sx_feishu x)),
     (''qq'', qq_value (sx_qq x)), (''email'', email_value (sx_email x)), (''pushplus'', pushplus_value (sx_pushplus x)),
     (''webhook'', webhook_value (sx_webhook x)), (''bark'', bark_value (sx_bark x))]"

definition settings_ok :: "server_settings \<Rightarrow> bool" where
  "settings_ok x \<longleftrightarrow>
     (case sx_feishu x of (_, _, _, chats) \<Rightarrow> list_all list_item chats) \<and>
     (case sx_email x of (_, _, _, _, _, _, _, receivers) \<Rightarrow> list_all list_item receivers) \<and>
     (case sx_pushplus x of (_, _, _, channel) \<Rightarrow> channel \<noteq> []) \<and>
     (case sx_webhook x of (_, _, _, timeout, retries, _, hs) \<Rightarrow>
        timeout \<noteq> 0 \<and> retries \<noteq> 0 \<and> list_all good_header (map fst hs) \<and> distinct (map fst hs)) \<and>
     (case sx_bark x of (_, _, grp, icon, level) \<Rightarrow>
        grp \<noteq> [] \<and> level \<noteq> [] \<and> trim grp = grp \<and> trim icon = icon \<and> trim level = level)"

lemma obj_field_simps [simp]:
  "jfield (obj []) k = JUndef"
  "jfield (obj ((j, v) # kvs)) k = (if j = k then v else jfield (obj kvs) k)"
  by (simp_all add: obj_def)

lemma truthy_obj [simp]: "truthy (obj kvs)"
  by (simp add: obj_def)

lemma text_again [simp]: "or_else (or_else (JStr s) blank) blank = JStr s" "or_else (JStr s) blank = JStr s"
  by (simp_all add: or_else_def)

lemma headers_entries: "own_entries (headers_value hs) = map (\<lambda>(k, v). (k, JStr v)) hs"
  by (simp add: own_entries_def headers_value_def)

lemma int_again [simp]: "n \<noteq> 0 \<Longrightarrow> number_or (jint n) d = jint n" "number_or (jint 0) 0 = jint 0" "id_number (jint n) = jint n"
  by (auto simp: number_or_def id_number_def or_else_def)

lemma port_again [simp]: "number_or (jint n) 0 = jint n"
  by (cases "n = 0") (simp_all add: number_or_def or_else_def)

lemma telegram_again: "telegram_payload (telegram_of (telegram_value t)) = telegram_value t"
  by (cases t) (simp add: telegram_payload_def telegram_of_def telegram_value_def text_or_def if_nullish_def)

lemma feishu_again:
  "list_all list_item (snd (snd (snd t))) \<Longrightarrow> feishu_payload (feishu_of (feishu_value t)) = feishu_value t"
  by (cases t) (simp add: feishu_payload_def feishu_of_def feishu_value_def text_or_def comma_list_join)

lemma qq_again: "qq_payload (qq_of (qq_value t)) = qq_value t"
  by (cases t) (simp add: qq_payload_def qq_of_def qq_value_def text_or_def)

lemma email_again:
  "list_all list_item (snd (snd (snd (snd (snd (snd (snd t))))))) \<Longrightarrow> email_payload (email_of (email_value t)) = email_value t"
  by (cases t; cases "snd (snd (snd (snd (snd (snd t)))))") (simp add: email_payload_def email_of_def email_value_def text_or_def if_nullish_def comma_list_join)

lemma pushplus_again:
  "snd (snd (snd t)) \<noteq> [] \<Longrightarrow> pushplus_payload (pushplus_of (pushplus_value t)) = pushplus_value t"
  by (cases t) (simp add: pushplus_payload_def pushplus_of_def pushplus_value_def text_or_def)

lemma webhook_again:
  assumes "t = (on, urls, secret, timeout, retries, template, hs)"
    and "timeout \<noteq> 0" and "retries \<noteq> 0" and "list_all good_header (map fst hs)" and "distinct (map fst hs)"
  shows "webhook_payload (wh_urls (webhook_of (webhook_value t))) (webhook_of (webhook_value t)) = webhook_value t"
  using assms sanitize_good [OF assms(4,5)]
  by (simp add: webhook_payload_def webhook_of_def webhook_value_def text_or_def if_nullish_def headers_entries
      array_or_empty_def text_array_def)

lemma bark_again:
  assumes "t = (on, urls, grp, icon, level)"
    and "grp \<noteq> []" and "level \<noteq> []" and "trim grp = grp" and "trim icon = icon" and "trim level = level"
  shows "bark_payload (bk_urls (bark_of (bark_value t))) (bark_of (bark_value t)) = bark_value t"
  using assms
  by (simp add: bark_payload_def bark_of_def bark_value_def text_or_def trimmed_def array_or_empty_def text_array_def)

lemma truthy_values [simp]:
  "truthy (telegram_value a)" "truthy (feishu_value b)" "truthy (qq_value c)" "truthy (email_value d)"
  "truthy (pushplus_value e)" "truthy (webhook_value f)" "truthy (bark_value g)"
  by (simp_all add: telegram_value_def feishu_value_def qq_value_def email_value_def pushplus_value_def
      webhook_value_def bark_value_def case_prod_beta)

lemma sections [simp]:
  "section_of (settings_value x) ''telegram'' = telegram_value (sx_telegram x)"
  "section_of (settings_value x) ''feishu'' = feishu_value (sx_feishu x)"
  "section_of (settings_value x) ''qq'' = qq_value (sx_qq x)"
  "section_of (settings_value x) ''email'' = email_value (sx_email x)"
  "section_of (settings_value x) ''pushplus'' = pushplus_value (sx_pushplus x)"
  "section_of (settings_value x) ''webhook'' = webhook_value (sx_webhook x)"
  "section_of (settings_value x) ''bark'' = bark_value (sx_bark x)"
  by (simp_all add: section_of_def settings_value_def)

section \<open>Properties\<close>


definition sample_settings :: server_settings where
  "sample_settings = \<lparr>sx_telegram = (True, js ''123:abc'', 42, 0, [], []),
     sx_feishu = (False, [], [], [js ''oc_1'', js ''oc_2'']), sx_qq = (False, [], [], [], []),
     sx_email = (True, True, js ''smtp.example.org'', 465, js ''u'', js ''p'', js ''u@example.org'', [js ''v@example.org'']),
     sx_pushplus = (False, [], [], js ''wechat''),
     sx_webhook = (True, [js ''https://example.org/hook''], [], 8000, 5, js ''{{text}}'', [(js ''X-Token'', js ''1'')]),
     sx_bark = (False, [], js ''vohive'', [], js ''active'')\<rparr>"


text \<open>Custom webhook headers cannot replace the system's: whatever the form holds, every header sent has
  a trimmed, non-empty name that is none of the protected ones, names are distinct, each carries the last
  value entered for it, and nothing else is dropped.\<close>

lemma webhook_headers_clean:
  "list_all (\<lambda>k. k \<noteq> [] \<and> trim k = k \<and> to_lower k \<notin> set PROTECTED_WEBHOOK_HEADERS)
      (map fst (sanitizeWebhookHeaders hs)) \<and>
   distinct (map fst (sanitizeWebhookHeaders hs)) \<and>
   map_of (sanitizeWebhookHeaders hs) k =
     (if good_header k then map_of (rev (map (\<lambda>(j, v). (trim j, header_text v)) hs)) k else None) \<and>
   sanitizeWebhookHeaders (map (\<lambda>(j, v). (j, JStr v)) (sanitizeWebhookHeaders hs)) = sanitizeWebhookHeaders hs"
  using sanitize_keys [of hs] sanitize_good [of "sanitizeWebhookHeaders hs"] sanitize_map [of hs k]
  by (simp add: good_header_def [abs_def])

text \<open>A retry count of 0 is shown as 0 but saved as 3, and a timeout of 0 as 5000.\<close>

lemma zero_retries_replaced:
  "jfield (webhook_payload [] (webhook_of (obj [(''retry_max'', jint 0), (''timeout_ms'', jint 0)]))) ''retry_max'' = jint 3"
  "wh_retry_max (webhook_of (obj [(''retry_max'', jint 0), (''timeout_ms'', jint 0)])) = jint 0"
  by (simp_all add: webhook_payload_def webhook_of_def if_nullish_def number_or_def or_else_def)

text \<open>Every settings action ends visibly: after any number of them, the action's mark is taken away, and
  if the last one failed the store shows its error. A failed load leaves all forms as they were.\<close>

lemma settings_actions_report:
  "\<not> se_loadingNotifications (notifications.fetches (qs @ [q]) s) \<and>
   \<not> se_savingNotifications (saving.fetches (vs @ [v]) s) \<and>
   \<not> se_testingWebhook (webhook_test.fetches (ws @ [w]) s) \<and>
   \<not> se_testingBark (bark_test.fetches (bs @ [b]) s) \<and>
   \<not> se_testingEmail (email_test.fetches (es @ [e]) s) \<and>
   \<not> se_changingPassword (password_change.fetches (ps @ [p]) s) \<and>
   se_error (saving.fetches (vs @ [(now, Failure err)]) s) = Some err \<and>
   se_error (notifications.fetches (qs @ [(now, Failure err)]) s) = Some err \<and>
   se_forms (notifications.fetches [(now, Failure err)] s) = se_forms s"
  by (simp add: notifications.fetches_idle saving.fetches_idle webhook_test.fetches_idle bark_test.fetches_idle
      email_test.fetches_idle password_change.fetches_idle saving.fetches_last_failure notifications.fetches_last_failure)
     (simp add: notifications.fetches_def notifications.fetch_def fetchNotifications_finish_def fetchNotifications_start_def)

end
