(* ===== verification/Texts.thy ===== *)
theory Texts
  imports JsBase
begin

text \<open>
  The Chinese texts the front end shows, as UTF-16 code units; each comment gives the meaning.
\<close>

text \<open>rebooting\<close>

definition tx_rebooting :: jstr where
  "tx_rebooting =
     [0x91CD, 0x542F, 0x4E2D]"

text \<open>waiting for the device to enumerate again\<close>

definition tx_usb_wait :: jstr where
  "tx_usb_wait =
     [0x7B49, 0x5F85, 0x8BBE, 0x5907, 0x91CD, 0x65B0, 0x679A, 0x4E3E]"

text \<open>device starting\<close>

definition tx_worker_starting :: jstr where
  "tx_worker_starting =
     [0x8BBE, 0x5907, 0x542F, 0x52A8, 0x4E2D]"

text \<open>QMI starting\<close>

definition tx_qmi_starting :: jstr where
  "tx_qmi_starting =
     js ''QMI '' @ [0x542F, 0x52A8, 0x4E2D]"

text \<open>control plane recovering\<close>

definition tx_control_recovering :: jstr where
  "tx_control_recovering =
     [0x63A7, 0x5236, 0x9762, 0x6062, 0x590D, 0x4E2D]"

text \<open>control plane unstable\<close>

definition tx_control_unstable :: jstr where
  "tx_control_unstable =
     [0x63A7, 0x5236, 0x9762, 0x4E0D, 0x7A33, 0x5B9A]"

text \<open>taking over again\<close>

definition tx_evicting :: jstr where
  "tx_evicting =
     [0x91CD, 0x65B0, 0x63A5, 0x7BA1, 0x4E2D]"

text \<open>online\<close>

definition tx_online :: jstr where
  "tx_online =
     [0x5728, 0x7EBF]"

text \<open>offline\<close>

definition tx_offline :: jstr where
  "tx_offline =
     [0x79BB, 0x7EBF]"

text \<open>recovering\<close>

definition tx_recovering :: jstr where
  "tx_recovering =
     [0x6062, 0x590D, 0x4E2D]"

text \<open>unstable\<close>

definition tx_unstable :: jstr where
  "tx_unstable =
     [0x4E0D, 0x7A33, 0x5B9A]"

text \<open>IPv6 addresses must be written [IPv6]:port\<close>

definition tx_ipv6_hint :: jstr where
  "tx_ipv6_hint =
     js ''IPv6 '' @ [0x5730, 0x5740, 0x8BF7, 0x4F7F, 0x7528] @ js '' [IPv6]:port'' @ [0xFF0C,
     0x4F8B, 0x5982] @ js '' [2001:db8::1]:1080''"

text \<open>copied\<close>

definition tx_copied :: jstr where
  "tx_copied =
     [0x5DF2, 0x590D, 0x5236]"

text \<open>browser restriction, copy the text shown by hand\<close>

definition tx_copy_manually :: jstr where
  "tx_copy_manually =
     [0x6D4F, 0x89C8, 0x5668, 0x9650, 0x5236, 0xFF0C, 0x5DF2, 0x5F39, 0x51FA, 0x6587, 0x672C,
     0xFF0C, 0x8BF7, 0x624B, 0x52A8, 0x590D, 0x5236]"

text \<open>enabled\<close>

definition tx_enabled :: jstr where
  "tx_enabled =
     [0x5DF2, 0x542F, 0x7528]"

text \<open>disabled\<close>

definition tx_disabled :: jstr where
  "tx_disabled =
     [0x5DF2, 0x7981, 0x7528]"

text \<open>just released about\<close>

definition tx_released :: jstr where
  "tx_released =
     [0x521A, 0x521A, 0x91CA, 0x653E, 0x7EA6] @ js '' ''"

text \<open>just used about\<close>

definition tx_consumed :: jstr where
  "tx_consumed =
     [0x521A, 0x521A, 0x5360, 0x7528, 0x7EA6] @ js '' ''"

text \<open>profile deleted\<close>

definition tx_profile_deleted :: jstr where
  "tx_profile_deleted =
     js ''Profile '' @ [0x5220, 0x9664, 0x6210, 0x529F]"

text \<open>profile downloaded\<close>

definition tx_profile_downloaded :: jstr where
  "tx_profile_downloaded =
     js ''Profile '' @ [0x4E0B, 0x8F7D, 0x6210, 0x529F]"

text \<open>a full-width comma\<close>

definition tx_comma :: jstr where
  "tx_comma =
     [0xFF0C]"

text \<open>install\<close>

definition tx_install :: jstr where
  "tx_install =
     [0x5B89, 0x88C5]"

text \<open>enable\<close>

definition tx_enable :: jstr where
  "tx_enable =
     [0x542F, 0x7528]"

text \<open>disable\<close>

definition tx_disable :: jstr where
  "tx_disable =
     [0x7981, 0x7528]"

text \<open>delete\<close>

definition tx_delete :: jstr where
  "tx_delete =
     [0x5220, 0x9664]"

text \<open>unknown\<close>

definition tx_unknown :: jstr where
  "tx_unknown =
     [0x672A, 0x77E5]"

text \<open>unknown date\<close>

definition tx_unknown_date :: jstr where
  "tx_unknown_date =
     [0x672A, 0x77E5, 0x65E5, 0x671F]"

text \<open>waiting for a sample\<close>

definition tx_waiting_sample :: jstr where
  "tx_waiting_sample =
     [0x7B49, 0x5F85, 0x91C7, 0x6837]"

text \<open>sampling interrupted\<close>

definition tx_sampling_lost :: jstr where
  "tx_sampling_lost =
     [0x91C7, 0x6837, 0x4E2D, 0x65AD]"

text \<open>loading the devices failed\<close>

definition tx_devices_load_failed :: jstr where
  "tx_devices_load_failed =
     [0x52A0, 0x8F7D, 0x8BBE, 0x5907, 0x4FE1, 0x606F, 0x5931, 0x8D25]"

text \<open>refreshing the device list fails, refreshing less often\<close>

definition tx_list_refresh_warning :: jstr where
  "tx_list_refresh_warning =
     [0x8BBE, 0x5907, 0x5217, 0x8868, 0x5237, 0x65B0, 0x5F02, 0x5E38, 0xFF0C, 0x5DF2, 0x81EA,
     0x52A8, 0x964D, 0x4F4E, 0x5237, 0x65B0, 0x9891, 0x7387]"

text \<open>the activation code was taken apart\<close>

definition tx_lpa_parsed :: jstr where
  "tx_lpa_parsed =
     [0x5DF2, 0x81EA, 0x52A8, 0x89E3, 0x6790, 0x5B8C, 0x6574, 0x7684] @ js '' LPA '' @
     [0x6FC0, 0x6D3B, 0x7801]"

text \<open>loading the notifications failed\<close>

definition tx_notifications_failed :: jstr where
  "tx_notifications_failed =
     [0x83B7, 0x53D6, 0x5F53, 0x524D, 0x901A, 0x77E5, 0x5217, 0x8868, 0x5931, 0x8D25]"

text \<open>notification sent, but refreshing the list failed\<close>

definition tx_notification_refresh_failed :: jstr where
  "tx_notification_refresh_failed =
     [0x901A, 0x77E5, 0x5DF2, 0x53D1, 0x9001, 0xFF0C, 0x4F46, 0x5237, 0x65B0, 0x901A, 0x77E5,
     0x5217, 0x8868, 0x5931, 0x8D25]"

text \<open>sending the notification again failed\<close>

definition tx_notification_retry_failed :: jstr where
  "tx_notification_retry_failed =
     [0x901A, 0x77E5, 0x91CD, 0x8BD5, 0x53D1, 0x9001, 0x5931, 0x8D25]"

text \<open>loading the eSIM information failed\<close>

definition tx_esim_info_failed :: jstr where
  "tx_esim_info_failed =
     [0x83B7, 0x53D6] @ js '' eSIM '' @ [0x4FE1, 0x606F, 0x5931, 0x8D25]"

text \<open>loading the eSIM profiles failed\<close>

definition tx_esim_profiles_failed :: jstr where
  "tx_esim_profiles_failed =
     [0x83B7, 0x53D6] @ js '' eSIM Profiles '' @ [0x5931, 0x8D25]"

text \<open>the name must not be empty\<close>

definition tx_name_empty :: jstr where
  "tx_name_empty =
     [0x540D, 0x79F0, 0x4E0D, 0x80FD, 0x4E3A, 0x7A7A]"

text \<open>the name was changed\<close>

definition tx_rename_done :: jstr where
  "tx_rename_done =
     [0x540D, 0x79F0, 0x4FEE, 0x6539, 0x6210, 0x529F]"

text \<open>changing the name failed\<close>

definition tx_rename_failed :: jstr where
  "tx_rename_failed =
     [0x4FEE, 0x6539, 0x540D, 0x79F0, 0x5931, 0x8D25]"

text \<open>deleting failed\<close>

definition tx_delete_failed :: jstr where
  "tx_delete_failed =
     [0x5220, 0x9664, 0x5931, 0x8D25]"

text \<open>enter the SM-DP+ address\<close>

definition tx_smdp_missing :: jstr where
  "tx_smdp_missing =
     [0x8BF7, 0x8F93, 0x5165] @ js '' SM-DP+ '' @ [0x5730, 0x5740]"

text \<open>connecting\<close>

definition tx_connecting :: jstr where
  "tx_connecting =
     [0x6B63, 0x5728, 0x8FDE, 0x63A5] @ js ''...''"

text \<open>the download failed\<close>

definition tx_download_failed :: jstr where
  "tx_download_failed =
     [0x4E0B, 0x8F7D, 0x5931, 0x8D25]"

text \<open>not enough space on the eUICC\<close>

definition tx_euicc_full :: jstr where
  "tx_euicc_full =
     js ''eUICC '' @ [0x5B89, 0x88C5] @ js '' profile '' @ [0x65F6, 0x7A7A, 0x95F4, 0x4E0D,
     0x8DB3, 0xFF0C, 0x8BF7, 0x5220, 0x9664, 0x672A, 0x4F7F, 0x7528, 0x7684] @ js '' profile
     '' @ [0x540E, 0x91CD, 0x8BD5, 0x3002]"

text \<open>success\<close>

definition tx_success :: jstr where
  "tx_success =
     [0x6210, 0x529F]"

text \<open>failed\<close>

definition tx_failed :: jstr where
  "tx_failed =
     [0x5931, 0x8D25]"

text \<open>loading the proxy configuration failed\<close>

definition tx_proxy_load_failed :: jstr where
  "tx_proxy_load_failed =
     [0x52A0, 0x8F7D, 0x4EE3, 0x7406, 0x914D, 0x7F6E, 0x5931, 0x8D25]"

text \<open>configuration saved\<close>

definition tx_config_saved :: jstr where
  "tx_config_saved =
     [0x914D, 0x7F6E, 0x5DF2, 0x4FDD, 0x5B58]"

text \<open>saving failed\<close>

definition tx_save_failed :: jstr where
  "tx_save_failed =
     [0x4FDD, 0x5B58, 0x5931, 0x8D25]"

text \<open>started\<close>

definition tx_started :: jstr where
  "tx_started =
     [0x5DF2, 0x542F, 0x52A8]"

text \<open>starting failed\<close>

definition tx_start_failed :: jstr where
  "tx_start_failed =
     [0x542F, 0x52A8, 0x5931, 0x8D25]"

text \<open>stopped\<close>

definition tx_stopped :: jstr where
  "tx_stopped =
     [0x5DF2, 0x505C, 0x6B62]"

text \<open>stopping failed\<close>

definition tx_stop_failed :: jstr where
  "tx_stop_failed =
     [0x505C, 0x6B62, 0x5931, 0x8D25]"

text \<open>restarted\<close>

definition tx_restarted :: jstr where
  "tx_restarted =
     [0x5DF2, 0x91CD, 0x542F]"

text \<open>restarting failed\<close>

definition tx_restart_failed :: jstr where
  "tx_restart_failed =
     [0x91CD, 0x542F, 0x5931, 0x8D25]"

text \<open>the instance ID must not be empty\<close>

definition tx_instance_id_missing :: jstr where
  "tx_instance_id_missing =
     [0x5B9E, 0x4F8B] @ js '' ID '' @ [0x4E0D, 0x80FD, 0x4E3A, 0x7A7A]"

text \<open>a device must be bound\<close>

definition tx_device_missing :: jstr where
  "tx_device_missing =
     [0x5FC5, 0x987B, 0x7ED1, 0x5B9A, 0x8BBE, 0x5907]"

text \<open>only SOCKS5 and HTTP are supported\<close>

definition tx_mode_unknown :: jstr where
  "tx_mode_unknown =
     [0x4EE3, 0x7406, 0x6A21, 0x5F0F, 0x4EC5, 0x652F, 0x6301] @ js '' SOCKS5 '' @ [0x6216] @
     js '' HTTP''"

text \<open>the port is not valid\<close>

definition tx_port_invalid :: jstr where
  "tx_port_invalid =
     [0x76D1, 0x542C, 0x7AEF, 0x53E3, 0x65E0, 0x6548]"

text \<open>authentication needs a user name and a password\<close>

definition tx_credentials_missing :: jstr where
  "tx_credentials_missing =
     [0x542F, 0x7528, 0x8BA4, 0x8BC1, 0x65F6, 0x5FC5, 0x987B, 0x586B, 0x5199, 0x7528, 0x6237,
     0x540D, 0x548C, 0x5BC6, 0x7801]"

text \<open>the instance ID exists already\<close>

definition tx_instance_exists :: jstr where
  "tx_instance_exists =
     [0x5B9E, 0x4F8B] @ js '' ID '' @ [0x5DF2, 0x5B58, 0x5728]"

text \<open>loading the upstream proxies failed\<close>

definition tx_upstream_load_failed :: jstr where
  "tx_upstream_load_failed =
     [0x52A0, 0x8F7D, 0x524D, 0x7F6E, 0x4EE3, 0x7406, 0x5931, 0x8D25]"

text \<open>the ID must not be empty\<close>

definition tx_id_missing :: jstr where
  "tx_id_missing =
     js ''ID '' @ [0x4E0D, 0x80FD, 0x4E3A, 0x7A7A]"

text \<open>the Socks5 address must not be empty\<close>

definition tx_addr_missing :: jstr where
  "tx_addr_missing =
     js ''Socks5 '' @ [0x5730, 0x5740, 0x4E0D, 0x80FD, 0x4E3A, 0x7A7A]"

text \<open>upstream proxy updated and probed\<close>

definition tx_upstream_updated :: jstr where
  "tx_upstream_updated =
     [0x524D, 0x7F6E, 0x4EE3, 0x7406, 0x5DF2, 0x66F4, 0x65B0, 0xFF0C, 0x5E76, 0x901A, 0x8FC7,
     0x8FDE, 0x901A, 0x6027, 0x63A2, 0x6D4B]"

text \<open>upstream proxy created and probed\<close>

definition tx_upstream_created :: jstr where
  "tx_upstream_created =
     [0x524D, 0x7F6E, 0x4EE3, 0x7406, 0x5DF2, 0x521B, 0x5EFA, 0xFF0C, 0x5E76, 0x901A, 0x8FC7,
     0x8FDE, 0x901A, 0x6027, 0x63A2, 0x6D4B]"

text \<open>updating failed\<close>

definition tx_update_failed :: jstr where
  "tx_update_failed =
     [0x66F4, 0x65B0, 0x5931, 0x8D25]"

text \<open>creating failed\<close>

definition tx_create_failed :: jstr where
  "tx_create_failed =
     [0x521B, 0x5EFA, 0x5931, 0x8D25]"

text \<open>upstream proxy deleted\<close>

definition tx_upstream_deleted :: jstr where
  "tx_upstream_deleted =
     [0x524D, 0x7F6E, 0x4EE3, 0x7406, 0x5DF2, 0x5220, 0x9664]"

text \<open>choose a country\<close>

definition tx_country_missing :: jstr where
  "tx_country_missing =
     [0x8BF7, 0x9009, 0x62E9, 0x56FD, 0x5BB6]"

text \<open>saving the rule failed\<close>

definition tx_rule_failed :: jstr where
  "tx_rule_failed =
     [0x4FDD, 0x5B58, 0x89C4, 0x5219, 0x5931, 0x8D25]"

text \<open>country rule saved\<close>

definition tx_rule_saved :: jstr where
  "tx_rule_saved =
     [0x56FD, 0x5BB6, 0x89C4, 0x5219, 0x5DF2, 0x4FDD, 0x5B58]"

text \<open>deleting the rule failed\<close>

definition tx_rule_delete_failed :: jstr where
  "tx_rule_delete_failed =
     [0x5220, 0x9664, 0x89C4, 0x5219, 0x5931, 0x8D25]"

text \<open>country rule deleted, the country connects directly\<close>

definition tx_rule_deleted :: jstr where
  "tx_rule_deleted =
     [0x56FD, 0x5BB6, 0x89C4, 0x5219, 0x5DF2, 0x5220, 0x9664, 0xFF0C, 0x8BE5, 0x56FD, 0x5BB6,
     0x5C06, 0x9ED8, 0x8BA4, 0x76F4, 0x8FDE]"

text \<open>loading the chart failed\<close>

definition tx_chart_failed :: jstr where
  "tx_chart_failed =
     [0x56FE, 0x8868, 0x6A21, 0x5757, 0x52A0, 0x8F7D, 0x5931, 0x8D25]"

text \<open>today\<close>

definition tx_today :: jstr where
  "tx_today =
     [0x672C, 0x65E5]"

text \<open>this week\<close>

definition tx_this_week :: jstr where
  "tx_this_week =
     [0x672C, 0x5468]"

text \<open>this month\<close>

definition tx_this_month :: jstr where
  "tx_this_month =
     [0x672C, 0x6708]"

text \<open>this period\<close>

definition tx_this_period :: jstr where
  "tx_this_period =
     [0x672C, 0x5468, 0x671F]"

text \<open>total traffic\<close>

definition tx_total_traffic :: jstr where
  "tx_total_traffic =
     [0x603B, 0x6D41, 0x91CF]"

text \<open>current device\<close>

definition tx_current_device :: jstr where
  "tx_current_device =
     [0x5F53, 0x524D, 0x8BBE, 0x5907]"

text \<open>not supported by the network, or no answer\<close>

definition tx_network_unsupported :: jstr where
  "tx_network_unsupported =
     js ''['' @ [0x7F51, 0x7EDC, 0x4E0D, 0x652F, 0x6301] @ js ''/'' @ [0x65E0, 0x54CD, 0x5E94]
     @ js '']'' @ [0x000A]"

text \<open>ended by the network\<close>

definition tx_network_ended :: jstr where
  "tx_network_ended =
     js ''['' @ [0x88AB, 0x7F51, 0x7EDC, 0x7EC8, 0x6B62] @ js '']'' @ [0x000A]"

text \<open>empty answer\<close>

definition tx_empty_reply :: jstr where
  "tx_empty_reply =
     js ''['' @ [0x7A7A, 0x54CD, 0x5E94] @ js '']''"

text \<open>the request went wrong\<close>

definition tx_request_error :: jstr where
  "tx_request_error =
     [0x8BF7, 0x6C42, 0x5F02, 0x5E38]"

text \<open>the session was canceled by hand\<close>

definition tx_session_canceled :: jstr where
  "tx_session_canceled =
     [0x4F1A, 0x8BDD, 0x5DF2, 0x624B, 0x52A8, 0x53D6, 0x6D88]"

text \<open>enter the number of an option\<close>

definition tx_ussd_option :: jstr where
  "tx_ussd_option =
     [0x8F93, 0x5165, 0x83DC, 0x5355, 0x9009, 0x9879, 0x6570, 0x5B57]"

text \<open>such as *100# or the number of an option\<close>

definition tx_ussd_example :: jstr where
  "tx_ussd_example =
     [0x4F8B, 0x5982] @ js '' *100# '' @ [0x6216, 0x83DC, 0x5355, 0x56DE, 0x590D, 0x6570,
     0x5B57]"

text \<open>the device is not running\<close>

definition tx_not_running :: jstr where
  "tx_not_running =
     [0x5F53, 0x524D, 0x8BBE, 0x5907, 0x672A, 0x8FD0, 0x884C]"

text \<open>the device has no AT port\<close>

definition tx_no_at_port :: jstr where
  "tx_no_at_port =
     [0x5F53, 0x524D, 0x8BBE, 0x5907, 0x6CA1, 0x6709, 0x53EF, 0x7528] @ js '' AT '' @ [0x53E3]"

text \<open>the AT terminal is not available\<close>

definition tx_at_unavailable :: jstr where
  "tx_at_unavailable =
     js ''AT '' @ [0x7EC8, 0x7AEF, 0x6682, 0x4E0D, 0x53EF, 0x7528]"

text \<open>the terminal works once the device runs\<close>

definition tx_not_running_hint :: jstr where
  "tx_not_running_hint =
     [0x8BBE, 0x5907, 0x5F53, 0x524D, 0x672A, 0x542F, 0x52A8, 0xFF0C] @ js ''AT '' @ [0x7EC8,
     0x7AEF, 0x6682, 0x65F6, 0x4E0D, 0x53EF, 0x7528, 0x3002, 0x5F85, 0x8BBE, 0x5907, 0x8FD0,
     0x884C, 0x540E, 0xFF0C, 0x5982, 0x679C, 0x5B58, 0x5728, 0x53EF, 0x7528, 0x7684] @ js ''
     AT '' @ [0x53E3, 0xFF0C, 0x5373, 0x53EF, 0x5728, 0x8FD9, 0x91CC, 0x76F4, 0x63A5, 0x53D1,
     0x9001] @ js '' AT '' @ [0x6307, 0x4EE4, 0x3002]"

text \<open>QMI only, no AT port found\<close>

definition tx_qmi_only_hint :: jstr where
  "tx_qmi_only_hint =
     [0x8BBE, 0x5907, 0x5F53, 0x524D, 0x5904, 0x4E8E, 0x7EAF] @ js '' QMI '' @ [0x6A21,
     0x5F0F, 0xFF0C, 0x4F46, 0x6CA1, 0x6709, 0x89E3, 0x6790, 0x5230, 0x53EF, 0x7528, 0x7684] @
     js '' AT '' @ [0x53E3, 0xFF0C, 0x56E0, 0x6B64, 0x65E0, 0x6CD5, 0x63D0, 0x4F9B] @ js '' AT
     '' @ [0x4E32, 0x53E3, 0x7EC8, 0x7AEF, 0x3002]"

text \<open>no AT port\<close>

definition tx_no_at_port_hint :: jstr where
  "tx_no_at_port_hint =
     [0x8BBE, 0x5907, 0x5F53, 0x524D, 0x6CA1, 0x6709, 0x53EF, 0x7528, 0x7684] @ js '' AT '' @
     [0x53E3, 0xFF0C, 0x56E0, 0x6B64, 0x65E0, 0x6CD5, 0x63D0, 0x4F9B] @ js '' AT '' @ [0x4E32,
     0x53E3, 0x7EC8, 0x7AEF, 0x3002]"

text \<open>try again later\<close>

definition tx_at_later_hint :: jstr where
  "tx_at_later_hint =
     [0x5F53, 0x524D, 0x8BBE, 0x5907, 0x6682, 0x65F6, 0x65E0, 0x6CD5, 0x63D0, 0x4F9B] @ js ''
     AT '' @ [0x4E32, 0x53E3, 0x7EC8, 0x7AEF, 0xFF0C, 0x8BF7, 0x7A0D, 0x540E, 0x91CD, 0x8BD5,
     0x3002]"

text \<open>yes\<close>

definition tx_yes :: jstr where
  "tx_yes =
     [0x662F]"

text \<open>no\<close>

definition tx_no :: jstr where
  "tx_no =
     [0x5426]"

text \<open>searching\<close>

definition tx_searching :: jstr where
  "tx_searching =
     [0x641C, 0x7D22, 0x7F51, 0x7EDC, 0x4E2D]"

text \<open>registration denied\<close>

definition tx_denied :: jstr where
  "tx_denied =
     [0x9A7B, 0x7F51, 0x88AB, 0x62D2]"

text \<open>not registered\<close>

definition tx_not_registered :: jstr where
  "tx_not_registered =
     [0x672A, 0x9A7B, 0x7F51]"

text \<open>data is off\<close>

definition tx_data_off :: jstr where
  "tx_data_off =
     [0x6570, 0x636E, 0x672A, 0x5F00, 0x542F]"

text \<open>data is not connected\<close>

definition tx_data_disconnected :: jstr where
  "tx_data_disconnected =
     [0x6570, 0x636E, 0x7F51, 0x7EDC, 0x672A, 0x8FDE, 0x63A5]"

text \<open>the device is not connected\<close>

definition tx_network_not_connected :: jstr where
  "tx_network_not_connected =
     [0x8BBE, 0x5907, 0x7F51, 0x7EDC, 0x672A, 0x8FDE, 0x63A5, 0xFF0C, 0x8BF7, 0x5148, 0x542F,
     0x52A8, 0x7F51, 0x7EDC]"

text \<open>rotation requested\<close>

definition tx_rotate_sent :: jstr where
  "tx_rotate_sent =
     [0x8F6E, 0x6362, 0x8BF7, 0x6C42, 0x5DF2, 0x53D1, 0x9001]"

text \<open>rotation failed\<close>

definition tx_rotate_failed :: jstr where
  "tx_rotate_failed =
     [0x8F6E, 0x6362, 0x5931, 0x8D25]"

text \<open>VoWiFi is restarting\<close>

definition tx_reconnect_sent :: jstr where
  "tx_reconnect_sent =
     [0x5DF2, 0x89E6, 0x53D1, 0x91CD, 0x8FDE, 0x6307, 0x4EE4, 0xFF0C] @ js ''VoWiFi '' @
     [0x670D, 0x52A1, 0x6B63, 0x5728, 0x91CD, 0x542F] @ js ''...''"

text \<open>the reconnect request failed\<close>

definition tx_reconnect_failed :: jstr where
  "tx_reconnect_failed =
     [0x91CD, 0x8FDE, 0x8BF7, 0x6C42, 0x5931, 0x8D25]"

text \<open>the address page could not be opened\<close>

definition tx_e911_failed :: jstr where
  "tx_e911_failed =
     js ''E911'' @ [0x5730, 0x5740, 0x8BBE, 0x7F6E, 0x9875, 0x9762, 0x6253, 0x5F00, 0x5931,
     0x8D25]"

text \<open>the device is restarting\<close>

definition tx_reboot_sent :: jstr where
  "tx_reboot_sent =
     [0x91CD, 0x542F, 0x6307, 0x4EE4, 0x5DF2, 0x9001, 0x8FBE, 0xFF0C, 0x8BBE, 0x5907, 0x6B63,
     0x5728, 0x91CD, 0x65B0, 0x542F, 0x52A8]"

text \<open>the command failed\<close>

definition tx_command_failed :: jstr where
  "tx_command_failed =
     [0x6307, 0x4EE4, 0x4E0B, 0x53D1, 0x5931, 0x8D25]"

text \<open>devices scanned again\<close>

definition tx_rescan_done :: jstr where
  "tx_rescan_done =
     [0x8BBE, 0x5907, 0x91CD, 0x65B0, 0x626B, 0x63CF, 0x5B8C, 0x6210]"

text \<open>scanning failed\<close>

definition tx_rescan_failed :: jstr where
  "tx_rescan_failed =
     [0x91CD, 0x65B0, 0x626B, 0x63CF, 0x5931, 0x8D25]"

text \<open>saved, some changes need a restart\<close>

definition tx_saved_restart :: jstr where
  "tx_saved_restart =
     [0x914D, 0x7F6E, 0x5DF2, 0x4FDD, 0x5B58, 0xFF0C, 0x4F46, 0x90E8, 0x5206, 0x53D8, 0x66F4,
     0x9700, 0x8981, 0x91CD, 0x542F, 0x670D, 0x52A1, 0x540E, 0x751F, 0x6548]"

text \<open>the device was deleted\<close>

definition tx_device_deleted :: jstr where
  "tx_device_deleted =
     [0x8BBE, 0x5907, 0x5DF2, 0x5220, 0x9664]"

text \<open>the IMEI cannot be read\<close>

definition tx_degraded_device :: jstr where
  "tx_degraded_device =
     [0x65E0, 0x6CD5, 0x8BFB, 0x53D6, 0x8BE5, 0x8BBE, 0x5907] @ js '' IMEI'' @ [0xFF08,
     0x53EF, 0x80FD, 0x63A7, 0x5236, 0x53E3, 0x6302, 0x6B7B, 0xFF09, 0xFF0C, 0x8BF7, 0x6267,
     0x884C] @ js '' AT!RESET '' @ [0x6216, 0x5207, 0x6362, 0x7EC4, 0x6001, 0x540E, 0x91CD,
     0x8BD5]"

text \<open>choose a device\<close>

definition tx_choose_device :: jstr where
  "tx_choose_device =
     [0x8BF7, 0x9009, 0x62E9, 0x4E00, 0x4E2A, 0x672A, 0x914D, 0x7F6E, 0x8BBE, 0x5907]"

text \<open>adding failed\<close>

definition tx_add_failed :: jstr where
  "tx_add_failed =
     [0x6DFB, 0x52A0, 0x5931, 0x8D25]"

text \<open>device added and taken over\<close>

definition tx_device_started :: jstr where
  "tx_device_started =
     [0x8BBE, 0x5907, 0x5DF2, 0x6DFB, 0x52A0, 0x5E76, 0x5F00, 0x59CB, 0x63A5, 0x7BA1]"

text \<open>device configuration added\<close>

definition tx_device_added :: jstr where
  "tx_device_added =
     [0x8BBE, 0x5907, 0x914D, 0x7F6E, 0x5DF2, 0x6DFB, 0x52A0]"

text \<open>the new passwords differ\<close>

definition tx_pw_mismatch :: jstr where
  "tx_pw_mismatch =
     [0x4E24, 0x6B21, 0x8F93, 0x5165, 0x7684, 0x65B0, 0x5BC6, 0x7801, 0x4E0D, 0x4E00, 0x81F4]"

text \<open>password changed\<close>

definition tx_pw_changed :: jstr where
  "tx_pw_changed =
     [0x5BC6, 0x7801, 0x5DF2, 0x66F4, 0x65B0]"

text \<open>failed: not implemented by the server, or the request failed\<close>

definition tx_pw_failed :: jstr where
  "tx_pw_failed =
     [0x5931, 0x8D25, 0xFF1A, 0x540E, 0x7AEF, 0x5C1A, 0x672A, 0x5B9E, 0x73B0, 0x8BE5, 0x529F,
     0x80FD, 0x6216, 0x8BF7, 0x6C42, 0x5931, 0x8D25]"

text \<open>loading the notification settings failed\<close>

definition tx_notif_load_failed :: jstr where
  "tx_notif_load_failed =
     [0x901A, 0x77E5, 0x914D, 0x7F6E, 0x52A0, 0x8F7D, 0x5931, 0x8D25]"

text \<open>saving the notification settings failed\<close>

definition tx_notif_save_failed :: jstr where
  "tx_notif_save_failed =
     [0x901A, 0x77E5, 0x914D, 0x7F6E, 0x4FDD, 0x5B58, 0x5931, 0x8D25]"

text \<open>notification settings saved\<close>

definition tx_notif_saved :: jstr where
  "tx_notif_saved =
     [0x901A, 0x77E5, 0x914D, 0x7F6E, 0x5DF2, 0x4FDD, 0x5B58, 0xFF08, 0x5DF2, 0x5199, 0x5165]
     @ js '' config.yaml'' @ [0xFF09]"

text \<open>no API documentation\<close>

definition tx_no_docs :: jstr where
  "tx_no_docs =
     js ''API '' @ [0x6587, 0x6863, 0x5165, 0x53E3, 0x6682, 0x4E0D, 0x53EF, 0x7528]"

text \<open>test notification sent\<close>

definition tx_test_sent :: jstr where
  "tx_test_sent =
     [0x6D4B, 0x8BD5, 0x901A, 0x77E5, 0x5DF2, 0x53D1, 0x9001]"

text \<open>test mail sent\<close>

definition tx_mail_sent :: jstr where
  "tx_mail_sent =
     [0x6D4B, 0x8BD5, 0x90AE, 0x4EF6, 0x5DF2, 0x53D1, 0x9001]"

text \<open>failed URLs\<close>

definition tx_failed_urls :: jstr where
  "tx_failed_urls =
     [0x000A, 0x5931, 0x8D25] @ js '' URL: ''"

text \<open>webhook test failed\<close>

definition tx_webhook_test_failed :: jstr where
  "tx_webhook_test_failed =
     js ''Webhook '' @ [0x6D4B, 0x8BD5, 0x5931, 0x8D25]"

text \<open>Bark test failed\<close>

definition tx_bark_test_failed :: jstr where
  "tx_bark_test_failed =
     js ''Bark '' @ [0x6D4B, 0x8BD5, 0x5931, 0x8D25]"

text \<open>email test failed\<close>

definition tx_email_test_failed :: jstr where
  "tx_email_test_failed =
     js ''Email '' @ [0x6D4B, 0x8BD5, 0x5931, 0x8D25]"

text \<open>checking for updates failed\<close>

definition tx_check_failed :: jstr where
  "tx_check_failed =
     [0x68C0, 0x67E5, 0x66F4, 0x65B0, 0x5931, 0x8D25]"

text \<open>already the latest version\<close>

definition tx_up_to_date :: jstr where
  "tx_up_to_date =
     [0x5F53, 0x524D, 0x5DF2, 0x662F, 0x6700, 0x65B0, 0x7248, 0x672C]"

text \<open>applying the update failed\<close>

definition tx_apply_failed :: jstr where
  "tx_apply_failed =
     [0x5E94, 0x7528, 0x66F4, 0x65B0, 0x5931, 0x8D25]"

text \<open>asking for the update failed\<close>

definition tx_apply_refused :: jstr where
  "tx_apply_refused =
     [0x8BF7, 0x6C42, 0x5E94, 0x7528, 0x66F4, 0x65B0, 0x5931, 0x8D25]"

text \<open>updating\<close>

definition tx_updating :: jstr where
  "tx_updating =
     [0x6B63, 0x5728, 0x66F4, 0x65B0] @ js ''...''"

text \<open>latest version\<close>

definition tx_latest_version :: jstr where
  "tx_latest_version =
     [0x6700, 0x65B0, 0x7248, 0x672C, 0xFF1A]"

text \<open>update and restart now? (markup)\<close>

definition tx_update_now :: jstr where
  "tx_update_now =
     [0xFF0C, 0x786E, 0x5B9A, 0x8981, 0x73B0, 0x5728, 0x66F4, 0x65B0, 0x5E76, 0x91CD, 0x542F,
     0x670D, 0x52A1, 0x5417, 0xFF1F] @ js ''<br><br><pre style='' @ [0x0022] @ js
     ''white-space: pre-wrap; font-size: 12px; max-height: 200px; overflow-y: auto;
     background: var(--el-fill-color-light); padding: 8px; border-radius: 4px; margin-top:
     8px;'' @ [0x0022] @ js ''>''"

text \<open>running in docker: pull an image instead (markup)\<close>

definition tx_docker_update :: jstr where
  "tx_docker_update =
     [0x68C0, 0x6D4B, 0x5230, 0x5F53, 0x524D, 0x7CFB, 0x7EDF, 0x8FD0, 0x884C, 0x5728] @ js ''
     Docker '' @ [0x73AF, 0x5883, 0x4E0B, 0x3002] @ js ''<br><br>'' @ [0x4E0D, 0x5EFA, 0x8BAE,
     0x5728] @ js '' Docker '' @ [0x5BB9, 0x5668, 0x5185, 0x76F4, 0x63A5, 0x6267, 0x884C,
     0x6587, 0x4EF6, 0x70ED, 0x66FF, 0x6362, 0x3002, 0x8BF7, 0x76F4, 0x63A5, 0x62C9, 0x53D6,
     0x660E, 0x786E, 0x7248, 0x672C, 0x955C, 0x50CF, 0xFF08, 0x5982] @ js '' <code>docker pull
     skyhotspur/vohive:&lt;tag&gt;</code>'' @ [0xFF09, 0x5E76, 0x91CD, 0x542F, 0x5BB9, 0x5668,
     0x6765, 0x5B8C, 0x6210, 0x5347, 0x7EA7, 0xFF01]"

text \<open>a script failed to load\<close>

definition tx_script_failed :: jstr where
  "tx_script_failed =
     [0x811A, 0x672C, 0x52A0, 0x8F7D, 0x5931, 0x8D25, 0xFF1A]"

text \<open>enter user name and password\<close>

definition tx_enter_credentials :: jstr where
  "tx_enter_credentials =
     [0x8BF7, 0x8F93, 0x5165, 0x7528, 0x6237, 0x540D, 0x548C, 0x5BC6, 0x7801]"

text \<open>welcome back\<close>

definition tx_welcome :: jstr where
  "tx_welcome =
     [0x6B22, 0x8FCE, 0x56DE, 0x6765]"

text \<open>login failed\<close>

definition tx_login_failed :: jstr where
  "tx_login_failed =
     [0x767B, 0x5F55, 0x5931, 0x8D25, 0xFF0C, 0x8BF7, 0x68C0, 0x67E5, 0x51ED, 0x8BC1]"

text \<open>I agree and confirm\<close>

definition tx_agree :: jstr where
  "tx_agree =
     [0x6211, 0x540C, 0x610F, 0x5E76, 0x786E, 0x8BA4]"

text \<open>leaving and removing the software\<close>

definition tx_leaving :: jstr where
  "tx_leaving =
     [0x6B63, 0x5728, 0x9000, 0x51FA, 0x5E76, 0x6E05, 0x7406, 0x8F6F, 0x4EF6] @ js ''...''"

text \<open>loading the selection failed\<close>

definition tx_selection_failed :: jstr where
  "tx_selection_failed =
     [0x52A0, 0x8F7D, 0x5F53, 0x524D, 0x914D, 0x7F6E, 0x5931, 0x8D25]"

text \<open>scanning the networks failed\<close>

definition tx_scan_failed :: jstr where
  "tx_scan_failed =
     [0x626B, 0x63CF, 0x7F51, 0x7EDC, 0x5931, 0x8D25]"

text \<open>automatic selection restored\<close>

definition tx_selection_auto :: jstr where
  "tx_selection_auto =
     [0x5DF2, 0x6062, 0x590D, 0x81EA, 0x52A8, 0x9009, 0x7F51]"

text \<open>setting failed\<close>

definition tx_set_failed :: jstr where
  "tx_set_failed =
     [0x8BBE, 0x7F6E, 0x5931, 0x8D25]"

text \<open>locked to the network\<close>

definition tx_network_locked :: jstr where
  "tx_network_locked =
     [0x5DF2, 0x9501, 0x5B9A, 0x7F51, 0x7EDC] @ js '' ''"

text \<open>the operator scan is complete\<close>

definition tx_scan_complete :: jstr where
  "tx_scan_complete =
     [0x8FD0, 0x8425, 0x5546, 0x626B, 0x63CF, 0x5B8C, 0x6210]"

text \<open>the scan timed out or the module is busy, try again later\<close>

definition tx_scan_retry :: jstr where
  "tx_scan_retry =
     [0x626B, 0x63CF, 0x8D85, 0x65F6, 0x6216, 0x6A21, 0x7EC4, 0x5FD9, 0xFF0C, 0x8BF7, 0x7A0D,
     0x540E, 0x91CD, 0x8BD5]"

text \<open>searching for a network\<close>

definition tx_searching_network :: jstr where
  "tx_searching_network =
     [0x641C, 0x7D22, 0x7F51, 0x7EDC, 0x4E2D]"

text \<open>registration denied\<close>

definition tx_registration_denied :: jstr where
  "tx_registration_denied =
     [0x9A7B, 0x7F51, 0x88AB, 0x62D2]"

text \<open>the data network is not connected\<close>

definition tx_data_down :: jstr where
  "tx_data_down =
     [0x6570, 0x636E, 0x7F51, 0x7EDC, 0x672A, 0x8FDE, 0x63A5]"

text \<open>last success\<close>

definition tx_last_success :: jstr where
  "tx_last_success =
     [0x6700, 0x540E, 0x6210, 0x529F, 0xFF1A]"

text \<open>the control plane is recovering\<close>

definition tx_control_plane_recovering :: jstr where
  "tx_control_plane_recovering =
     [0x63A7, 0x5236, 0x9762, 0x6062, 0x590D, 0x4E2D]"

text \<open>rendering the page failed\<close>

definition tx_render_failed :: jstr where
  "tx_render_failed =
     [0x9875, 0x9762, 0x6E32, 0x67D3, 0x5931, 0x8D25]"

text \<open>diagnostics copied\<close>

definition tx_diagnostics_copied :: jstr where
  "tx_diagnostics_copied =
     [0x5DF2, 0x590D, 0x5236, 0x8BCA, 0x65AD, 0x4FE1, 0x606F]"

text \<open>diagnostics downloaded\<close>

definition tx_diagnostics_saved :: jstr where
  "tx_diagnostics_saved =
     [0x5DF2, 0x4E0B, 0x8F7D, 0x8BCA, 0x65AD, 0x6587, 0x4EF6]"

text \<open>export failed\<close>

definition tx_export_failed :: jstr where
  "tx_export_failed =
     [0x5BFC, 0x51FA, 0x5931, 0x8D25]"

text \<open>cleared\<close>

definition tx_cleared :: jstr where
  "tx_cleared =
     [0x5DF2, 0x6E05, 0x7A7A]"

text \<open>sending failed\<close>

definition tx_sms_failed :: jstr where
  "tx_sms_failed =
     [0x53D1, 0x9001, 0x5931, 0x8D25]"

text \<open>sending failed:\<close>

definition tx_sms_failed_because :: jstr where
  "tx_sms_failed_because =
     [0x53D1, 0x9001, 0x5931, 0x8D25, 0xFF1A]"

text \<open>deleting failed:\<close>

definition tx_delete_failed_because :: jstr where
  "tx_delete_failed_because =
     [0x5220, 0x9664, 0x5931, 0x8D25, 0xFF1A]"

text \<open>message sent\<close>

definition tx_sms_sent :: jstr where
  "tx_sms_sent =
     [0x77ED, 0x4FE1, 0x5DF2, 0x53D1, 0x9001]"

text \<open>opening full-width parenthesis\<close>

definition tx_parts_open :: jstr where
  "tx_parts_open =
     [0xFF08]"

text \<open>segments)\<close>

definition tx_parts_close :: jstr where
  "tx_parts_close =
     [0x6BB5, 0xFF09]"

text \<open>fill in everything\<close>

definition tx_form_incomplete :: jstr where
  "tx_form_incomplete =
     [0x8BF7, 0x586B, 0x5199, 0x5B8C, 0x6574, 0x4FE1, 0x606F]"

text \<open>no device available\<close>

definition tx_no_device :: jstr where
  "tx_no_device =
     [0x6682, 0x65E0, 0x53EF, 0x7528, 0x8BBE, 0x5907]"

text \<open>message deleted\<close>

definition tx_sms_deleted :: jstr where
  "tx_sms_deleted =
     [0x5DF2, 0x5220, 0x9664, 0x77ED, 0x4FE1]"

text \<open>conversation deleted\<close>

definition tx_thread_deleted :: jstr where
  "tx_thread_deleted =
     [0x5DF2, 0x5220, 0x9664, 0x5BF9, 0x8BDD]"

text \<open>all devices\<close>

definition tx_all_devices :: jstr where
  "tx_all_devices =
     [0x5168, 0x90E8, 0x8BBE, 0x5907]"

text \<open>unknown error\<close>

definition tx_unknown_error :: jstr where
  "tx_unknown_error =
     [0x672A, 0x77E5, 0x9519, 0x8BEF]"

text \<open>device offline, saved, takes effect once it is active and online\<close>

definition tx_offline_saved :: jstr where
  "tx_offline_saved =
     [0x8BBE, 0x5907, 0x79BB, 0x7EBF, 0xFF0C, 0x6539, 0x52A8, 0x5DF2, 0x4FDD, 0x5B58, 0xFF0C,
     0x6FC0, 0x6D3B] @ js ''/'' @ [0x4E0A, 0x7EBF, 0x540E, 0x751F, 0x6548]"

text \<open>takes effect once this card is active\<close>

definition tx_takes_effect_active :: jstr where
  "tx_takes_effect_active =
     [0x6539, 0x52A8, 0x5C06, 0x5728, 0x6B64, 0x5361, 0x6FC0, 0x6D3B, 0x540E, 0x751F, 0x6548]"

text \<open>set by hand\<close>

definition tx_set_by_hand :: jstr where
  "tx_set_by_hand =
     [0x624B, 0x52A8, 0x8BBE, 0x7F6E]"

text \<open>automatic default\<close>

definition tx_set_by_default :: jstr where
  "tx_set_by_default =
     [0x81EA, 0x52A8, 0x9ED8, 0x8BA4]"

end
