(* ===== verification/Notices.thy ===== *)
theory Notices
  imports Http Texts
begin

text \<open>
  What the pages share when a request fails: the text shown for a result's error, for an error that is
  thrown again as \<open>new Error(message || fallback)\<close>, and the kinds of message on screen. Also the
  marks \<open>views/Proxy.vue\<close> keeps twice over for its loads.
\<close>

section \<open>Messages\<close>

datatype notice_kind = InfoOk | InfoWarning | InfoError

type_synonym notice = "notice_kind \<times> jstr"

definition error_text :: "jstr \<Rightarrow> jstr \<Rightarrow> jstr" where
  "error_text message fallback = (if message \<noteq> [] then message else fallback)"

text \<open>What a view shows for a result it throws on.\<close>

definition result_message :: "app_error \<Rightarrow> jstr \<Rightarrow> jstr" where
  "result_message e fallback = errorMessage (Thrown (app_error_value e)) fallback"

text \<open>What it shows, and keeps, when it throws \<open>new Error(message)\<close> and normalises it again.\<close>

definition thrown_again :: "app_error \<Rightarrow> app_error" where
  "thrown_again e = toAppError (NativeErr (js ''Error'') (ae_message e) None)"

lemma thrown_again_eq: "thrown_again e = plain_error (ae_message e)"
  by (simp add: thrown_again_def)

section \<open>Marks of a load\<close>

text \<open>The first load, one without any mark, and one by hand.\<close>

datatype load_use = FirstLoad | SilentLoad | PlainLoad

record load_marks =
  lm_first :: bool
  lm_refreshing :: bool
  lm_error :: "(jstr \<times> int option) option"

definition marked :: "load_use \<Rightarrow> bool \<Rightarrow> load_marks \<Rightarrow> load_marks" where
  "marked use busy m =
     (case use of
        FirstLoad \<Rightarrow> m\<lparr>lm_first := busy\<rparr>
      | SilentLoad \<Rightarrow> m
      | PlainLoad \<Rightarrow> m\<lparr>lm_refreshing := busy\<rparr>)"

definition load_begins :: "load_use \<Rightarrow> load_marks \<Rightarrow> load_marks" where
  "load_begins use m = (marked use True m)\<lparr>lm_error := None\<rparr>"

definition load_ends :: "load_use \<Rightarrow> jstr \<Rightarrow> app_error option \<Rightarrow> load_marks \<Rightarrow> load_marks" where
  "load_ends use fallback err m =
     marked use False
       (case err of
          None \<Rightarrow> m
        | Some e \<Rightarrow>
            m\<lparr>lm_error := Some (error_text (ae_message (thrown_again e)) fallback, ae_status (thrown_again e))\<rparr>)"

text \<open>The status of a failure is lost on the way.\<close>

lemma status_lost: "map_option snd (lm_error (load_ends use fb (Some e) m)) = Some None"
  by (cases use) (simp_all add: load_ends_def marked_def thrown_again_eq)

lemma load_ends_error:
  "lm_error (load_ends use fb err m) =
     (case err of None \<Rightarrow> lm_error m | Some e \<Rightarrow> Some (error_text (ae_message e) fb, None))"
  by (cases use) (simp_all add: load_ends_def marked_def thrown_again_eq split: option.split)

end
