(* ===== verification/SettingsPage.thy ===== *)
theory SettingsPage
  imports Settings Notices
begin

text \<open>
  The script of \<open>web/src/views/Settings.vue\<close> over the store of \<open>Settings\<close>: the rows in which the
  webhook headers are edited, the watchers, the messages of every button, and the update dialog. A
  handler is split at its \<open>await\<close>; the answers of the services, the confirmation and the
  edits of the form fields are events.
\<close>

section \<open>State\<close>

record header_row =
  hr_id :: nat
  hr_key :: jsval
  hr_value :: jsval

record settings_page =
  sp_store :: settings_store
  sp_uid :: nat
  sp_rows :: "header_row list"
  sp_checking :: bool
  sp_applying :: bool
  sp_update :: jsval
  sp_notices :: "notice list"
  sp_asked :: "jstr list"
  sp_opened :: "jstr list"
  sp_reloads :: nat

definition mounted_page :: "settings_store \<Rightarrow> settings_page" where
  "mounted_page st = \<lparr>sp_store = st, sp_uid = 0, sp_rows = [], sp_checking = False, sp_applying = False,
     sp_update = JNull, sp_notices = [], sp_asked = [], sp_opened = [], sp_reloads = 0\<rparr>"

definition on_store :: "(settings_store \<Rightarrow> settings_store) \<Rightarrow> settings_page \<Rightarrow> settings_page" where
  "on_store f s = s\<lparr>sp_store := f (sp_store s)\<rparr>"

definition on_forms :: "(notification_forms \<Rightarrow> notification_forms) \<Rightarrow> settings_page \<Rightarrow> settings_page" where
  "on_forms f = on_store (\<lambda>st. st\<lparr>se_forms := f (se_forms st)\<rparr>)"

definition on_webhook :: "(webhook_settings \<Rightarrow> webhook_settings) \<Rightarrow> settings_page \<Rightarrow> settings_page" where
  "on_webhook f = on_forms (\<lambda>fs. fs\<lparr>nf_webhook := f (nf_webhook fs)\<rparr>)"

definition on_bark :: "(bark_settings \<Rightarrow> bark_settings) \<Rightarrow> settings_page \<Rightarrow> settings_page" where
  "on_bark f = on_forms (\<lambda>fs. fs\<lparr>nf_bark := f (nf_bark fs)\<rparr>)"

definition say :: "notice_kind \<Rightarrow> jstr \<Rightarrow> settings_page \<Rightarrow> settings_page" where
  "say k msg s = s\<lparr>sp_notices := sp_notices s @ [(k, msg)]\<rparr>"

abbreviation page_forms :: "settings_page \<Rightarrow> notification_forms" where
  "page_forms s \<equiv> se_forms (sp_store s)"

section \<open>What the buttons are enabled by\<close>

definition some_url :: "jsval list \<Rightarrow> bool" where
  "some_url us \<longleftrightarrow> list_ex (\<lambda>u. trim (text_or_empty u) \<noteq> []) us"

definition hasValidWebhookURLs :: "settings_page \<Rightarrow> bool" where
  "hasValidWebhookURLs s = some_url (wh_urls (nf_webhook (page_forms s)))"

definition hasValidBarkURLs :: "settings_page \<Rightarrow> bool" where
  "hasValidBarkURLs s = some_url (bk_urls (nf_bark (page_forms s)))"

definition hasValidEmailConfig :: "settings_page \<Rightarrow> bool" where
  "hasValidEmailConfig s =
     (let em = nf_email (page_forms s) in
      truthy (em_smtp_host em) \<and> truthy (em_smtp_port em) \<and> truthy (em_username em) \<and>
      truthy (em_password em) \<and> truthy (em_from_address em) \<and> em_to_addresses em \<noteq> [])"

section \<open>Header rows\<close>

text \<open>The watcher of the rows: they are written back as a map, the last of equal names winning.\<close>

definition row_entry :: "header_row \<Rightarrow> jstr \<times> jsval" where
  "row_entry r = (text_or_empty (hr_key r), hr_value r)"

definition rows_map :: "header_row list \<Rightarrow> (jstr \<times> jstr) list" where
  "rows_map rows = foldl add_header [] (map row_entry rows)"

definition watch_rows :: "settings_page \<Rightarrow> settings_page" where
  "watch_rows s =
     on_webhook (\<lambda>w. w\<lparr>wh_headers := map (\<lambda>(k, v). (k, JStr v)) (rows_map (sp_rows s))\<rparr>) s"

definition syncWebhookHeaderRowsFromSettings :: "settings_page \<Rightarrow> settings_page" where
  "syncWebhookHeaderRowsFromSettings s =
     (let hs = wh_headers (nf_webhook (page_forms s)) in
      s\<lparr>sp_rows := map (\<lambda>(i, k, v). \<lparr>hr_id = i, hr_key = JStr k, hr_value = JStr (header_text v)\<rparr>)
                       (zip [sp_uid s..<sp_uid s + length hs] hs),
        sp_uid := sp_uid s + length hs\<rparr>)"

definition addWebhookHeader :: "settings_page \<Rightarrow> settings_page" where
  "addWebhookHeader s =
     s\<lparr>sp_rows := sp_rows s @ [\<lparr>hr_id = sp_uid s, hr_key = blank, hr_value = blank\<rparr>], sp_uid := Suc (sp_uid s)\<rparr>"

definition without :: "nat \<Rightarrow> 'a list \<Rightarrow> 'a list" where
  "without i xs = take i xs @ drop (Suc i) xs"

definition removeWebhookHeader :: "nat \<Rightarrow> settings_page \<Rightarrow> settings_page" where
  "removeWebhookHeader i s = s\<lparr>sp_rows := without i (sp_rows s)\<rparr>"

definition edit_header :: "nat \<Rightarrow> jsval \<Rightarrow> jsval \<Rightarrow> settings_page \<Rightarrow> settings_page" where
  "edit_header i k v s =
     (if i < length (sp_rows s)
      then s\<lparr>sp_rows := (sp_rows s)[i := (sp_rows s ! i)\<lparr>hr_key := k, hr_value := v\<rparr>]\<rparr> else s)"

definition addWebhookUrl :: "settings_page \<Rightarrow> settings_page" where
  "addWebhookUrl = on_webhook (\<lambda>w. w\<lparr>wh_urls := wh_urls w @ [blank]\<rparr>)"

definition removeWebhookUrl :: "nat \<Rightarrow> settings_page \<Rightarrow> settings_page" where
  "removeWebhookUrl i = on_webhook (\<lambda>w. w\<lparr>wh_urls := without i (wh_urls w)\<rparr>)"

definition addBarkUrl :: "settings_page \<Rightarrow> settings_page" where
  "addBarkUrl = on_bark (\<lambda>b. b\<lparr>bk_urls := bk_urls b @ [blank]\<rparr>)"

definition removeBarkUrl :: "nat \<Rightarrow> settings_page \<Rightarrow> settings_page" where
  "removeBarkUrl i = on_bark (\<lambda>b. b\<lparr>bk_urls := without i (bk_urls b)\<rparr>)"

text \<open>The watcher of the mail port, run when the port of the form has changed.\<close>

definition watch_port :: "settings_page \<Rightarrow> settings_page \<Rightarrow> settings_page" where
  "watch_port before s =
     (let port = em_smtp_port (nf_email (page_forms s)) in
      if port \<noteq> em_smtp_port (nf_email (page_forms before)) \<and> to_number port = Fin 465
      then on_forms (\<lambda>fs. fs\<lparr>nf_email := (nf_email fs)\<lparr>em_use_ssl := True\<rparr>\<rparr>) s else s)"

section \<open>Messages\<close>

text \<open>The answer of the webhook and the Bark test; a body that is not an object throws in the
  \<open>try\<close> block.\<close>

definition delivery_notice :: "jstr \<Rightarrow> jsval \<Rightarrow> notice" where
  "delivery_notice fallback d =
     (case jget_strict d ''ok'' of
        Inl e \<Rightarrow> (InfoError, thrown_message e)
      | Inr sent \<Rightarrow>
          if truthy sent then (InfoOk, to_string (or_else (jfield d ''message'') (JStr tx_test_sent)))
          else if elems (jfield d ''failed_urls'') \<noteq> []
          then (InfoError, to_string (jfield d ''message'') @ tx_failed_urls @
                 join_with (js '', '') (map (\<lambda>u. if nullish u then [] else to_string u) (elems (jfield d ''failed_urls''))))
          else (InfoError, to_string (or_else (jfield d ''message'') (JStr fallback))))"

definition mail_notice :: "jsval \<Rightarrow> notice" where
  "mail_notice d =
     (case jget_strict d ''ok'' of
        Inl e \<Rightarrow> (InfoError, thrown_message e)
      | Inr sent \<Rightarrow>
          if truthy sent then (InfoOk, to_string (or_else (jfield d ''message'') (JStr tx_mail_sent)))
          else (InfoError, to_string (or_else (jfield d ''message'') (JStr tx_email_test_failed))))"

text \<open>A test's answer: the failure's own message, or what the body says.\<close>

definition test_notice :: "jstr \<Rightarrow> (jsval \<Rightarrow> notice) \<Rightarrow> jsval service_result \<Rightarrow> notice" where
  "test_notice fallback body r =
     (case r of Success d \<Rightarrow> body d | Failure e \<Rightarrow> (InfoError, error_text (ae_message e) fallback))"

definition save_notice :: "save_notifications_response service_result \<Rightarrow> notice" where
  "save_notice r =
     (case r of
        Failure e \<Rightarrow> (InfoError, error_text (ae_message e) tx_notif_save_failed)
      | Success d \<Rightarrow>
          if sn_applied d = JBool False \<and> truthy (sn_warning d) then (InfoWarning, to_string (sn_warning d))
          else (InfoOk, tx_notif_saved))"

abbreviation report :: "notice \<Rightarrow> settings_page \<Rightarrow> settings_page" where
  "report n \<equiv> say (fst n) (snd n)"

section \<open>Handlers\<close>

definition onMounted_page :: "settings_page \<Rightarrow> settings_page" where
  "onMounted_page = on_store (fetchSystemInfo_start \<circ> fetchNotifications_start)"

definition loadSystemInfo :: "int \<Rightarrow> jsval service_result \<Rightarrow> settings_page \<Rightarrow> settings_page" where
  "loadSystemInfo now r = on_store (fetchSystemInfo_finish now r)"

definition loadNotifications :: "int \<Rightarrow> jsval service_result \<Rightarrow> settings_page \<Rightarrow> settings_page" where
  "loadNotifications now r s =
     (let s1 = on_store (fetchNotifications_finish now r) s in
      case r of
        Success _ \<Rightarrow> watch_rows (syncWebhookHeaderRowsFromSettings s1)
      | Failure _ \<Rightarrow> say InfoError tx_notif_load_failed s1)"

definition changePassword_click :: "settings_page \<Rightarrow> settings_page" where
  "changePassword_click s =
     (let f = se_passwordForm (sp_store s) in
      if pw_new_password f \<noteq> pw_confirm_password f then say InfoError tx_pw_mismatch s
      else on_store changePassword_start s)"

definition changePassword_answer :: "int \<Rightarrow> bool service_result \<Rightarrow> settings_page \<Rightarrow> settings_page" where
  "changePassword_answer now r s =
     (let s1 = on_store (changePassword_finish now r) s in
      case r of
        Success _ \<Rightarrow> on_store resetPasswordForm (say InfoOk tx_pw_changed s1)
      | Failure _ \<Rightarrow> say InfoError tx_pw_failed s1)"

definition saveNotifications_click :: "settings_page \<Rightarrow> settings_page" where
  "saveNotifications_click = on_store saveNotifications_start"

definition saveNotifications_answer ::
    "int \<Rightarrow> save_notifications_response service_result \<Rightarrow> settings_page \<Rightarrow> settings_page" where
  "saveNotifications_answer now r s = report (save_notice r) (on_store (saveNotifications_finish now r) s)"

definition testWebhookNotification :: "int \<Rightarrow> jsval service_result \<Rightarrow> settings_page \<Rightarrow> settings_page" where
  "testWebhookNotification now r s =
     report (test_notice tx_webhook_test_failed (delivery_notice tx_webhook_test_failed) r)
       (on_store (testWebhookFromForm_finish now r) s)"

definition testBarkNotification :: "int \<Rightarrow> jsval service_result \<Rightarrow> settings_page \<Rightarrow> settings_page" where
  "testBarkNotification now r s =
     report (test_notice tx_bark_test_failed (delivery_notice tx_bark_test_failed) r)
       (on_store (testBarkFromForm_finish now r) s)"

definition testEmailNotification :: "int \<Rightarrow> jsval service_result \<Rightarrow> settings_page \<Rightarrow> settings_page" where
  "testEmailNotification now r s =
     report (test_notice tx_email_test_failed mail_notice r) (on_store (testEmailFromForm_finish now r) s)"

definition openAPIDocs :: "settings_page \<Rightarrow> settings_page" where
  "openAPIDocs s =
     (let url = trim (text_or_empty (jfield (jfield (se_systemInfo (sp_store s)) ''docs'') ''swagger_ui'')) in
      if url = [] then say InfoWarning tx_no_docs s else s\<lparr>sp_opened := sp_opened s @ [url]\<rparr>)"

definition doCheckUpdate_start :: "settings_page \<Rightarrow> settings_page" where
  "doCheckUpdate_start s = s\<lparr>sp_checking := True\<rparr>"

definition doCheckUpdate :: "jsval service_result \<Rightarrow> settings_page \<Rightarrow> settings_page" where
  "doCheckUpdate r s =
     (let s1 = s\<lparr>sp_checking := False\<rparr> in
      case r of
        Failure e \<Rightarrow> say InfoError (error_text (ae_message e) tx_check_failed) s1
      | Success d \<Rightarrow>
          let s2 = s1\<lparr>sp_update := d\<rparr> in
          case jget_strict d ''has_update'' of
            Inl e \<Rightarrow> say InfoError (error_text (thrown_message e) tx_check_failed) s2
          | Inr newer \<Rightarrow>
              if truthy newer then s2
              else say InfoOk (to_string (or_else (jfield d ''release_note'') (JStr tx_up_to_date))) s2)"

text \<open>The question's markup holds the release note as it came.\<close>

definition update_question :: "jsval \<Rightarrow> jstr" where
  "update_question d = tx_latest_version @ to_string (jfield d ''latest_version'') @ tx_update_now @
     to_string (jfield d ''release_note'') @ js ''</pre>''"

definition doApplyUpdate_ask :: "settings_page \<Rightarrow> settings_page" where
  "doApplyUpdate_ask s =
     (if \<not> truthy (sp_update s) then s
      else s\<lparr>sp_asked := sp_asked s @ [if truthy (jfield (sp_update s) ''is_docker'') then tx_docker_update
                                     else update_question (sp_update s)]\<rparr>)"

text \<open>The dialog is confirmed or rejected with an action; a rejection other than \<open>cancel\<close> is
  reported with the fallback, a text having no \<open>message\<close>.\<close>

definition doApplyUpdate_answer :: "jstr option \<Rightarrow> settings_page \<Rightarrow> settings_page" where
  "doApplyUpdate_answer refusal s =
     (case refusal of
        None \<Rightarrow> s\<lparr>sp_applying := True\<rparr>
      | Some why \<Rightarrow>
          (if why \<noteq> js ''cancel'' then say InfoError tx_apply_failed else id) (s\<lparr>sp_applying := False\<rparr>))"

definition doApplyUpdate_finish :: "jsval service_result \<Rightarrow> settings_page \<Rightarrow> settings_page" where
  "doApplyUpdate_finish r s =
     (let s1 = s\<lparr>sp_applying := False\<rparr> in
      case r of
        Success d \<Rightarrow>
          say InfoOk (to_string (or_else (jfield d ''message'') (JStr tx_updating))) (s1\<lparr>sp_reloads := Suc (sp_reloads s1)\<rparr>)
      | Failure e \<Rightarrow> say InfoError (error_text (ae_message e) tx_apply_refused) s1)"

section \<open>The page\<close>

text \<open>What the user and the network do. Edits of the bound fields replace the forms, but for the headers,
  which only the rows edit.\<close>

datatype settings_event =
    PageOpened
  | InfoCame int "jsval service_result"
  | NotificationsCame int "jsval service_result"
  | SaveClicked
  | SaveCame int "save_notifications_response service_result"
  | WebhookTestClicked
  | WebhookTestCame int "jsval service_result"
  | BarkTestClicked
  | BarkTestCame int "jsval service_result"
  | EmailTestClicked
  | EmailTestCame int "jsval service_result"
  | PasswordEdited password_form
  | PasswordClicked
  | PasswordCame int "bool service_result"
  | FormsEdited notification_forms
  | WebhookUrlAdded
  | WebhookUrlRemoved nat
  | BarkUrlAdded
  | BarkUrlRemoved nat
  | HeaderAdded
  | HeaderRemoved nat
  | HeaderEdited nat jsval jsval
  | DocsClicked
  | CheckClicked
  | CheckCame "jsval service_result"
  | ApplyClicked
  | ApplyAnswered "jstr option"
  | ApplyCame "jsval service_result"

definition forms_edited :: "notification_forms \<Rightarrow> settings_page \<Rightarrow> settings_page" where
  "forms_edited new =
     on_forms (\<lambda>fs. new\<lparr>nf_webhook := (nf_webhook new)\<lparr>wh_headers := wh_headers (nf_webhook fs)\<rparr>\<rparr>)"

fun settings_handle :: "settings_event \<Rightarrow> settings_page \<Rightarrow> settings_page" where
  "settings_handle PageOpened = onMounted_page"
| "settings_handle (InfoCame now r) = loadSystemInfo now r"
| "settings_handle (NotificationsCame now r) = loadNotifications now r"
| "settings_handle SaveClicked = saveNotifications_click"
| "settings_handle (SaveCame now r) = saveNotifications_answer now r"
| "settings_handle WebhookTestClicked = on_store testWebhookFromForm_start"
| "settings_handle (WebhookTestCame now r) = testWebhookNotification now r"
| "settings_handle BarkTestClicked = on_store testBarkFromForm_start"
| "settings_handle (BarkTestCame now r) = testBarkNotification now r"
| "settings_handle EmailTestClicked = on_store testEmailFromForm_start"
| "settings_handle (EmailTestCame now r) = testEmailNotification now r"
| "settings_handle (PasswordEdited f) = on_store (\<lambda>st. st\<lparr>se_passwordForm := f\<rparr>)"
| "settings_handle PasswordClicked = changePassword_click"
| "settings_handle (PasswordCame now r) = changePassword_answer now r"
| "settings_handle (FormsEdited new) = forms_edited new"
| "settings_handle WebhookUrlAdded = addWebhookUrl"
| "settings_handle (WebhookUrlRemoved i) = removeWebhookUrl i"
| "settings_handle BarkUrlAdded = addBarkUrl"
| "settings_handle (BarkUrlRemoved i) = removeBarkUrl i"
| "settings_handle HeaderAdded = watch_rows \<circ> addWebhookHeader"
| "settings_handle (HeaderRemoved i) = watch_rows \<circ> removeWebhookHeader i"
| "settings_handle (HeaderEdited i k v) = watch_rows \<circ> edit_header i k v"
| "settings_handle DocsClicked = openAPIDocs"
| "settings_handle CheckClicked = doCheckUpdate_start"
| "settings_handle (CheckCame r) = doCheckUpdate r"
| "settings_handle ApplyClicked = doApplyUpdate_ask"
| "settings_handle (ApplyAnswered c) = doApplyUpdate_answer c"
| "settings_handle (ApplyCame r) = doApplyUpdate_finish r"

definition settings_step :: "settings_page \<Rightarrow> settings_event \<Rightarrow> settings_page" where
  "settings_step s e = watch_port s (settings_handle e s)"

definition settings_run :: "settings_event list \<Rightarrow> settings_page \<Rightarrow> settings_page" where
  "settings_run es s = foldl settings_step s es"

section \<open>Rows and headers\<close>

lemmas page_writes = on_store_def on_forms_def on_webhook_def on_bark_def say_def

definition rows_saved :: "settings_page \<Rightarrow> bool" where
  "rows_saved s \<longleftrightarrow>
     wh_headers (nf_webhook (page_forms s)) = map (\<lambda>(k, v). (k, JStr v)) (rows_map (sp_rows s))"

lemma rows_map_sanitized: "rows_map rows = sanitizeWebhookHeaders (map row_entry rows)"
  by (simp add: rows_map_def sanitizeWebhookHeaders_def)

lemma watch_rows_saved: "rows_saved (watch_rows s)"
  by (simp add: rows_saved_def watch_rows_def page_writes)

lemma rows_saved_frame:
  "sp_rows t = sp_rows s \<Longrightarrow> wh_headers (nf_webhook (page_forms t)) = wh_headers (nf_webhook (page_forms s)) \<Longrightarrow>
   rows_saved s \<Longrightarrow> rows_saved t"
  by (simp add: rows_saved_def)

text \<open>No other handler touches the rows or the headers.\<close>

fun header_event :: "settings_event \<Rightarrow> bool" where
  "header_event (NotificationsCame now (Success d)) = True"
| "header_event HeaderAdded = True"
| "header_event (HeaderRemoved i) = True"
| "header_event (HeaderEdited i k v) = True"
| "header_event _ = False"

lemma port_frame:
  "sp_rows (watch_port b s) = sp_rows s"
  "wh_headers (nf_webhook (page_forms (watch_port b s))) = wh_headers (nf_webhook (page_forms s))"
  by (simp_all add: watch_port_def Let_def page_writes)

lemmas settings_handler_defs = onMounted_page_def loadSystemInfo_def loadNotifications_def changePassword_click_def
  changePassword_answer_def saveNotifications_click_def saveNotifications_answer_def testWebhookNotification_def
  testBarkNotification_def testEmailNotification_def openAPIDocs_def doCheckUpdate_start_def doCheckUpdate_def
  doApplyUpdate_ask_def doApplyUpdate_answer_def doApplyUpdate_finish_def forms_edited_def addWebhookUrl_def
  removeWebhookUrl_def addBarkUrl_def removeBarkUrl_def resetPasswordForm_def

lemma other_events:
  "\<not> header_event e \<Longrightarrow>
   sp_rows (settings_handle e s) = sp_rows s \<and>
   wh_headers (nf_webhook (page_forms (settings_handle e s))) = wh_headers (nf_webhook (page_forms s))"
  by (cases e rule: header_event.cases)
     (auto simp: settings_handler_defs page_writes settings_action_defs Let_def split: service_result.split sum.split option.split)

lemma header_events_saved: "header_event e \<Longrightarrow> rows_saved (settings_handle e s)"
  by (cases e rule: header_event.cases) (simp_all add: watch_rows_saved loadNotifications_def Let_def)

lemma step_rows_saved: "rows_saved s \<or> header_event e \<Longrightarrow> rows_saved (settings_step s e)"
  using rows_saved_frame [OF port_frame] header_events_saved [of e s] other_events [of e s]
    rows_saved_frame [of "settings_handle e s" s]
  by (auto simp: settings_step_def)

lemma run_rows_saved: "rows_saved s \<or> list_ex header_event es \<Longrightarrow> rows_saved (settings_run es s)"
  by (induction es rule: rev_induct) (auto simp: settings_run_def step_rows_saved)

lemma saved_payload:
  "rows_saved s \<Longrightarrow>
   jfield (jfield (buildNotificationsPayload (page_forms s)) ''webhook'') ''headers'' = headers_value (rows_map (sp_rows s))"
  using sanitize_keys [of "map row_entry (sp_rows s)"] sanitize_good [of "rows_map (sp_rows s)"]
  by (simp add: rows_saved_def buildNotificationsPayload_def webhook_payload_def rows_map_sanitized)

text \<open>The value the payload gives a name: that of the last row which has it.\<close>

definition row_value :: "header_row list \<Rightarrow> jstr \<Rightarrow> jstr option" where
  "row_value rows k =
     (if good_header k
      then map_option (\<lambda>r. header_text (hr_value r)) (List.find (\<lambda>r. trim (text_or_empty (hr_key r)) = k) (rev rows))
      else None)"

lemma map_of_find: "map_of (map (\<lambda>r. (f r, g r)) rs) k = map_option g (List.find (\<lambda>r. f r = k) rs)"
  by (induction rs) auto

lemma rows_map_value: "map_of (rows_map rows) k = row_value rows k"
  using map_of_find [of "\<lambda>r. trim (text_or_empty (hr_key r))" "\<lambda>r. header_text (hr_value r)" "rev rows"]
  by (simp add: rows_map_sanitized sanitize_map row_value_def row_entry_def comp_def rev_map)

section \<open>Properties\<close>

text \<open>C15. The webhook headers that are saved are the rows on screen: whatever the user does on the settings
  page and whatever the server answers, once a load has succeeded (or when the store began without headers)
  the payload's header map holds exactly the rows with a trimmed, non-empty, unprotected name, each name
  once, with the value of the last row of that name.\<close>

theorem header_rows_saved:
  fixes es :: "settings_event list"
  assumes "wh_headers (nf_webhook (se_forms st)) = [] \<or> (\<exists>now d. NotificationsCame now (Success d) \<in> set es)"
  shows "jfield (jfield (buildNotificationsPayload (page_forms (settings_run es (mounted_page st)))) ''webhook'') ''headers'' =
           headers_value (rows_map (sp_rows (settings_run es (mounted_page st)))) \<and>
         map_of (rows_map (sp_rows (settings_run es (mounted_page st)))) k =
           row_value (sp_rows (settings_run es (mounted_page st))) k \<and>
         distinct (map fst (rows_map (sp_rows (settings_run es (mounted_page st)))))"
proof -
  have "rows_saved (mounted_page st) \<or> list_ex header_event es"
    using assms by (auto simp: rows_saved_def mounted_page_def rows_map_def list_ex_iff
        intro: bexI [of _ "NotificationsCame _ (Success _)"])
  then have "rows_saved (settings_run es (mounted_page st))" by (rule run_rows_saved)
  then show ?thesis
    using sanitize_keys [of "map row_entry (sp_rows (settings_run es (mounted_page st)))"]
    by (simp add: saved_payload rows_map_value) (simp add: rows_map_sanitized)
qed

definition sample_edits :: "settings_event list" where
  "sample_edits = [PageOpened, HeaderAdded, HeaderEdited 0 (jlit ''X-A'') (jlit ''1''), HeaderAdded,
     HeaderEdited 1 (jlit '' X-A'') (jlit ''2''), HeaderAdded, HeaderEdited 2 (jlit ''Content-Type'') (jlit ''t'')]"

lemmas page_run = settings_run_def sample_edits_def mounted_page_def settings_step_def onMounted_page_def page_writes
  settings_action_defs initial_settings_def default_forms_def DEFAULT_WEBHOOK_SETTINGS_def watch_port_def Let_def
  addWebhookHeader_def edit_header_def watch_rows_def rows_map_def row_entry_def add_header_def
  PROTECTED_WEBHOOK_HEADERS_def header_text_def if_nullish_def js_def trim_def trim_start_def is_space_def
  to_lower_def lower_unit_def

theorem header_rows_saved_witness:
  "jfield (jfield (buildNotificationsPayload (page_forms (settings_run sample_edits (mounted_page initial_settings))))
      ''webhook'') ''headers'' = headers_value [(js ''X-A'', js ''2'')]"
proof -
  have "wh_headers (nf_webhook (se_forms initial_settings)) = []"
    by (simp add: initial_settings_def default_forms_def DEFAULT_WEBHOOK_SETTINGS_def)
  moreover have "rows_map (sp_rows (settings_run sample_edits (mounted_page initial_settings))) = [(js ''X-A'', js ''2'')]"
    by (simp add: page_run)
  ultimately show ?thesis
    using header_rows_saved [of initial_settings sample_edits "[]"] by simp
qed

text \<open>When the load of a second visit fails, the page shows no rows over the headers the store still has;
  the first row added then replaces them all.\<close>

lemma headers_lost_after_failure:
  "wh_headers (nf_webhook (page_forms (settings_run [NotificationsCame now (Failure e), HeaderAdded] (mounted_page st)))) = []"
  by (simp add: settings_run_def settings_step_def mounted_page_def loadNotifications_def Let_def page_writes
      fetchNotifications_finish_def watch_port_def watch_rows_def addWebhookHeader_def rows_map_def row_entry_def add_header_def
      trim_def trim_start_def)

text \<open>After a failed first load the save button is free again, and saves the built-in defaults over
  whatever the server has.\<close>

lemma defaults_saved_after_failure:
  "\<not> se_loadingNotifications (sp_store (settings_run [PageOpened, NotificationsCame now (Failure e)] (mounted_page initial_settings))) \<and>
   buildNotificationsPayload (page_forms (settings_run [PageOpened, NotificationsCame now (Failure e)]
     (mounted_page initial_settings))) = buildNotificationsPayload default_forms"
  by (simp add: settings_run_def settings_step_def mounted_page_def onMounted_page_def loadNotifications_def Let_def page_writes
      settings_action_defs watch_port_def initial_settings_def)

text \<open>The reason the server gives for refusing a new password never reaches the screen.\<close>

lemma password_reason_hidden:
  "sp_notices (changePassword_answer now (Failure e) s) = sp_notices s @ [(InfoError, tx_pw_failed)]"
  by (simp add: changePassword_answer_def Let_def page_writes)

text \<open>The release note is put into the markup of the question as it came.\<close>

lemma release_note_unescaped:
  "truthy d \<Longrightarrow> \<not> truthy (jfield d ''is_docker'') \<Longrightarrow> jfield d ''release_note'' = JStr note \<Longrightarrow>
   \<exists>pre post. sp_asked (doApplyUpdate_ask (s\<lparr>sp_update := d\<rparr>)) = sp_asked s @ [pre @ note @ post]"
  by (intro exI [of _ "tx_latest_version @ to_string (jfield d ''latest_version'') @ tx_update_now"] exI [of _ "js ''</pre>''"])
     (simp add: doApplyUpdate_ask_def update_question_def)

text \<open>Opening the page with port 465 saved without TLS turns TLS on.\<close>

lemma port_watch_on_load:
  "em_use_ssl (nf_email (page_forms (settings_step (mounted_page initial_settings)
     (NotificationsCame now (Success (obj [(''email'', obj [(''smtp_port'', jint 465), (''use_ssl'', JBool False)])])))))) = True"
  by (simp add: settings_step_def mounted_page_def loadNotifications_def Let_def page_writes
      fetchNotifications_finish_def watch_port_def watch_rows_def syncWebhookHeaderRowsFromSettings_def
      forms_of_def email_of_def section_of_def if_nullish_def initial_settings_def default_forms_def DEFAULT_EMAIL_FORM_def)

end
