(* ===== verification/Storage.thy ===== *)
theory Storage
  imports Interfaces
begin

text \<open>
  Web storage (\<open>localStorage\<close>, \<open>sessionStorage\<close>) as the source uses it, and the two
  modules that are little more than a stored value: \<open>composables/useSensitiveVisibility.ts\<close>
  and \<open>disclaimer.ts\<close>. Storage may be unavailable (every access throws) and may be full
  (only \<open>setItem\<close> throws).
\<close>

record storage =
  st_avail :: bool
  st_room :: bool
  st_items :: "jstr \<Rightarrow> jstr option"

definition get_item :: "storage \<Rightarrow> jstr \<Rightarrow> jstr option option" where
  "get_item s k = (if st_avail s then Some (st_items s k) else None)"

definition set_item :: "storage \<Rightarrow> jstr \<Rightarrow> jstr \<Rightarrow> storage option" where
  "set_item s k v =
     (if st_avail s \<and> st_room s then Some (s\<lparr>st_items := (st_items s)(k \<mapsto> v)\<rparr>) else None)"

definition remove_item :: "storage \<Rightarrow> jstr \<Rightarrow> storage option" where
  "remove_item s k =
     (if st_avail s then Some (s\<lparr>st_items := (st_items s)(k := None)\<rparr>) else None)"

interpretation ls: keyed_store st_avail get_item set_item remove_item
  by unfold_locales
    (auto simp: get_item_def set_item_def remove_item_def split: if_splits)

text \<open>A write or removal whose exception is caught and ignored.\<close>

definition try_set :: "storage \<Rightarrow> jstr \<Rightarrow> jstr \<Rightarrow> storage" where
  "try_set s k v = (case set_item s k v of Some s' \<Rightarrow> s' | None \<Rightarrow> s)"

lemma try_set_avail [simp]: "st_avail (try_set s k v) = st_avail s"
  by (auto simp: try_set_def set_item_def)

section \<open>\<open>useSensitiveVisibility\<close>\<close>

definition SENSITIVE_VISIBILITY_STORAGE_KEY :: jstr where
  "SENSITIVE_VISIBILITY_STORAGE_KEY = js ''vohive_show_sensitive''"

definition readSensitiveVisibility :: "storage \<Rightarrow> bool" where
  "readSensitiveVisibility s =
     (case get_item s SENSITIVE_VISIBILITY_STORAGE_KEY of
        Some v \<Rightarrow> v = Some (js ''1'')
      | None \<Rightarrow> False)"

definition writeSensitiveVisibility :: "storage \<Rightarrow> bool \<Rightarrow> storage" where
  "writeSensitiveVisibility s visible =
     try_set s SENSITIVE_VISIBILITY_STORAGE_KEY (if visible then js ''1'' else js ''0'')"

record visibility =
  vi_visible :: bool
  vi_started :: bool
  vi_store :: storage

text \<open>The module is evaluated: the shared ref starts from the stored value.\<close>

definition load_visibility :: "storage \<Rightarrow> visibility" where
  "load_visibility s = \<lparr>vi_visible = readSensitiveVisibility s, vi_started = False, vi_store = s\<rparr>"

definition useSensitiveVisibility :: "visibility \<Rightarrow> visibility" where
  "useSensitiveVisibility m = m\<lparr>vi_started := True\<rparr>"

text \<open>An assignment to the shared ref; a watcher runs only when the value changes.\<close>

definition assign_visible :: "visibility \<Rightarrow> bool \<Rightarrow> visibility" where
  "assign_visible m v =
     (if v = vi_visible m then m
      else m\<lparr>vi_visible := v,
             vi_store := (if vi_started m then writeSensitiveVisibility (vi_store m) v
                          else vi_store m)\<rparr>)"

lemma read_write_visibility:
  "st_avail s \<Longrightarrow> st_room s \<Longrightarrow> readSensitiveVisibility (writeSensitiveVisibility s v) = v"
  by (simp add: readSensitiveVisibility_def writeSensitiveVisibility_def try_set_def
      set_item_def get_item_def)

lemma read_unavailable: "\<not> st_avail s \<Longrightarrow> readSensitiveVisibility s = False"
  by (simp add: readSensitiveVisibility_def get_item_def)

lemma writeSensitiveVisibility_perms [simp]:
  "st_avail (writeSensitiveVisibility s v) = st_avail s"
  "st_room (writeSensitiveVisibility s v) = st_room s"
  by (auto simp: writeSensitiveVisibility_def try_set_def set_item_def)

definition visibility_synced :: "visibility \<Rightarrow> bool" where
  "visibility_synced m \<longleftrightarrow>
     st_avail (vi_store m) \<and> st_room (vi_store m) \<and> vi_started m \<and>
     readSensitiveVisibility (vi_store m) = vi_visible m"

lemma load_synced:
  "st_avail s \<Longrightarrow> st_room s \<Longrightarrow> visibility_synced (useSensitiveVisibility (load_visibility s))"
  by (simp add: visibility_synced_def load_visibility_def useSensitiveVisibility_def)

lemma assign_synced: "visibility_synced m \<Longrightarrow> visibility_synced (assign_visible m v)"
  by (simp add: visibility_synced_def assign_visible_def read_write_visibility)

lemma assign_visible_value [simp]: "vi_visible (assign_visible m v) = v"
  by (simp add: assign_visible_def)

lemma assigns_synced: "visibility_synced m \<Longrightarrow> visibility_synced (foldl assign_visible m vs)"
  by (induction vs arbitrary: m) (auto intro: assign_synced)

lemma assigns_value: "vs \<noteq> [] \<Longrightarrow> vi_visible (foldl assign_visible m vs) = last vs"
  by (induction vs rule: rev_induct) auto

section \<open>\<open>disclaimer.ts\<close>\<close>

definition DISCLAIMER_INTERVAL_MS :: int where
  "DISCLAIMER_INTERVAL_MS = 7 * 24 * 60 * 60 * 1000"

text \<open>None is \<open>null\<close>; a stored text that is no number reads as \<open>NaN\<close>.\<close>

definition shouldShowDisclaimer :: "jnum option \<Rightarrow> int \<Rightarrow> bool" where
  "shouldShowDisclaimer lastAgreedAt now =
     (case lastAgreedAt of
        None \<Rightarrow> True
      | Some NaN \<Rightarrow> True
      | Some PosInf \<Rightarrow> False
      | Some NegInf \<Rightarrow> True
      | Some (Fin r) \<Rightarrow> of_int now - r \<ge> of_int DISCLAIMER_INTERVAL_MS)"

lemma disclaimer_shown_mono:
  "shouldShowDisclaimer l t \<Longrightarrow> t \<le> t' \<Longrightarrow> shouldShowDisclaimer l t'"
proof (cases l)
  case (Some n)
  assume "shouldShowDisclaimer l t" "t \<le> t'"
  moreover from this have "(of_int t :: rat) \<le> of_int t'" by simp
  ultimately show ?thesis
    using Some by (cases n) (auto simp: shouldShowDisclaimer_def)
qed (simp add: shouldShowDisclaimer_def)

lemma disclaimer_agreed_now:
  "\<not> shouldShowDisclaimer (Some (Fin (of_int t))) t' \<longleftrightarrow> t' < t + DISCLAIMER_INTERVAL_MS"
  by (auto simp: shouldShowDisclaimer_def DISCLAIMER_INTERVAL_MS_def)

end
