(* ===== verification/Collector.thy ===== *)
theory Collector
  imports Http Interfaces
begin

text \<open>
  \<open>web/src/debug/collector.ts\<close>: four bounded logs of route changes, API errors, script
  errors and authentication events, and the redaction applied before they are shown or copied.
  \<open>now\<close> is \<open>Date.now()\<close> and \<open>href\<close> is \<open>window.location.href\<close>.
\<close>

section \<open>The logs\<close>

record route_event =
  re_ts :: int
  re_from :: "jstr option"
  re_to :: "jstr option"
  re_name :: "jstr option"

record api_error_event =
  ev_ts :: int
  ev_status :: "int option"
  ev_method :: "jstr option"
  ev_url :: "jstr option"
  ev_message :: jstr

record js_error_event =
  je_ts :: int
  je_message :: "jstr option"
  je_stack :: "jstr option"
  je_source :: "jstr option"

record auth_event =
  aev_ts :: int
  aev_redirect_to :: "jstr option"

record collector =
  co_routes :: "route_event list"
  co_api_errors :: "api_error_event list"
  co_js_errors :: "js_error_event list"
  co_auth_events :: "auth_event list"
  co_open_panel :: "int option"

definition empty_collector :: collector where
  "empty_collector = \<lparr>co_routes = [], co_api_errors = [], co_js_errors = [], co_auth_events = [],
     co_open_panel = None\<rparr>"

definition pushLimited :: "nat \<Rightarrow> 'a list \<Rightarrow> 'a \<Rightarrow> 'a list" where
  "pushLimited limit target item =
     (let next = target @ [item] in
      if length next > limit then slice_from (int (length next) - int limit) next else next)"

lemma pushLimited_bounded: "0 < limit \<Longrightarrow> bounded_log (pushLimited limit) limit"
  by unfold_locales (simp_all add: pushLimited_def Let_def slice_from_diff del: of_nat_Suc)

interpretation debug_log: bounded_log "pushLimited 50" 50
  by (rule pushLimited_bounded) simp

record route_like =
  rl_full_path :: "jstr option"
  rl_name :: "jstr option"

definition recordRoute :: "int \<Rightarrow> route_like option \<Rightarrow> route_like option \<Rightarrow> collector \<Rightarrow> collector" where
  "recordRoute now to from c = c\<lparr>co_routes := pushLimited 50 (co_routes c)
     \<lparr>re_ts = now, re_from = Option.bind from rl_full_path, re_to = Option.bind to rl_full_path,
      re_name = (case Option.bind to rl_name of Some (n # ns) \<Rightarrow> Some (n # ns) | _ \<Rightarrow> None)\<rparr>\<rparr>"

text \<open>The fallback text is U+8BF7 U+6C42 U+5931 U+8D25 ("request failed") after \<open>API\<close>.\<close>

definition api_error_text :: jstr where
  "api_error_text = js ''API '' @ [35831, 27714, 22833, 36133]"

definition recordApiError :: "int \<Rightarrow> exn \<Rightarrow> collector \<Rightarrow> collector" where
  "recordApiError now err c =
     (let parsed = toAppError err in
      c\<lparr>co_api_errors := pushLimited 50 (co_api_errors c)
        \<lparr>ev_ts = now, ev_status = ae_status parsed, ev_method = ae_method parsed,
         ev_url = ae_url parsed,
         ev_message = (if ae_message parsed \<noteq> [] then ae_message parsed else api_error_text)\<rparr>\<rparr>)"

fun js_error_of :: "int \<Rightarrow> exn \<Rightarrow> jstr option \<Rightarrow> js_error_event" where
  "js_error_of now (NativeErr name message stack) source =
     \<lparr>je_ts = now, je_message = Some (name @ js '': '' @ message),
      je_stack = (case stack of Some (c # s) \<Rightarrow> Some (c # s) | _ \<Rightarrow> None), je_source = source\<rparr>"
| "js_error_of now (AxiosErr e) source =
     \<lparr>je_ts = now, je_message = Some (ax_name e @ js '': '' @ ax_message e),
      je_stack = (case ax_stack e of Some (c # s) \<Rightarrow> Some (c # s) | _ \<Rightarrow> None), je_source = source\<rparr>"
| "js_error_of now (Thrown v) source =
     \<lparr>je_ts = now, je_message = (case v of JStr s \<Rightarrow> Some s | _ \<Rightarrow> stringify v), je_stack = None,
      je_source = source\<rparr>"

definition recordJsError :: "int \<Rightarrow> exn \<Rightarrow> jstr option \<Rightarrow> collector \<Rightarrow> collector" where
  "recordJsError now err source c =
     c\<lparr>co_js_errors := pushLimited 50 (co_js_errors c) (js_error_of now err source)\<rparr>"

definition recordAuthEvent :: "auth_event \<Rightarrow> collector \<Rightarrow> collector" where
  "recordAuthEvent e c = c\<lparr>co_auth_events := pushLimited 50 (co_auth_events c) e\<rparr>"

definition clearAll :: "collector \<Rightarrow> collector" where
  "clearAll c = c\<lparr>co_routes := [], co_api_errors := [], co_js_errors := [], co_auth_events := []\<rparr>"

definition requestOpenPanel :: "int \<Rightarrow> collector \<Rightarrow> collector" where
  "requestOpenPanel now c = c\<lparr>co_open_panel := Some now\<rparr>"

datatype collector_op =
    RouteChange int "route_like option" "route_like option"
  | ApiError int exn
  | JsError int exn "jstr option"
  | AuthNote auth_event
  | Clear
  | OpenPanel int

fun collector_step :: "collector \<Rightarrow> collector_op \<Rightarrow> collector" where
  "collector_step c (RouteChange now to from) = recordRoute now to from c"
| "collector_step c (ApiError now err) = recordApiError now err c"
| "collector_step c (JsError now err source) = recordJsError now err source c"
| "collector_step c (AuthNote e) = recordAuthEvent e c"
| "collector_step c Clear = clearAll c"
| "collector_step c (OpenPanel now) = requestOpenPanel now c"

definition collector_bounded :: "collector \<Rightarrow> bool" where
  "collector_bounded c \<longleftrightarrow> length (co_routes c) \<le> 50 \<and> length (co_api_errors c) \<le> 50 \<and>
     length (co_js_errors c) \<le> 50 \<and> length (co_auth_events c) \<le> 50"

lemma collector_step_bounded: "collector_bounded c \<Longrightarrow> collector_bounded (collector_step c op)"
  by (cases op)
    (simp_all add: collector_bounded_def recordRoute_def recordApiError_def recordJsError_def
      recordAuthEvent_def clearAll_def requestOpenPanel_def Let_def debug_log.length_push)

interpretation recorders: free_system collector_step collector_bounded
  by unfold_locales (rule collector_step_bounded)

lemma collector_run_bounded:
  "collector_bounded c \<Longrightarrow> collector_bounded (foldl collector_step c ops)"
  by (rule recorders.always)

lemma empty_collector_bounded: "collector_bounded empty_collector"
  by (simp add: collector_bounded_def empty_collector_def)

section \<open>Redaction\<close>

subsection \<open>Global replacement by a pattern\<close>

text \<open>
  \<open>s.replace(/re/g, r)\<close> for a pattern given as a matcher: from the unit before the current
  position (for word boundaries) and the rest of the text, the length of the match there and
  its replacement. A match is at least one unit long.
\<close>

type_synonym matcher = "nat option \<Rightarrow> jstr \<Rightarrow> (nat \<times> jstr) option"

function replace_all :: "matcher \<Rightarrow> nat option \<Rightarrow> jstr \<Rightarrow> jstr" where
  "replace_all m p [] = []"
| "replace_all m p (c # s) =
     (case m p (c # s) of
        None \<Rightarrow> c # replace_all m (Some c) s
      | Some (n, r) \<Rightarrow>
          r @ replace_all m (Some (last (take (Suc (n - 1)) (c # s)))) (drop (n - 1) s))"
  by pat_completeness auto
termination
  by (relation "measure (\<lambda>(m, p, s). length s)") auto

definition is_digit :: "nat \<Rightarrow> bool" where
  "is_digit c \<longleftrightarrow> 48 \<le> c \<and> c \<le> 57"

definition is_alnum :: "nat \<Rightarrow> bool" where
  "is_alnum c \<longleftrightarrow> is_digit c \<or> 65 \<le> c \<and> c \<le> 90 \<or> 97 \<le> c \<and> c \<le> 122"

definition is_word :: "nat \<Rightarrow> bool" where
  "is_word c \<longleftrightarrow> is_alnum c \<or> c = 95"

definition is_token_unit :: "nat \<Rightarrow> bool" where
  "is_token_unit c \<longleftrightarrow> is_alnum c \<or> c \<in> {46, 95, 45}"

definition word_opt :: "nat option \<Rightarrow> bool" where
  "word_opt p = (case p of None \<Rightarrow> False | Some c \<Rightarrow> is_word c)"

definition head_opt :: "jstr \<Rightarrow> nat option" where
  "head_opt s = (case s of [] \<Rightarrow> None | c # _ \<Rightarrow> Some c)"

text \<open>\<open>/Bearer\s+[A-Za-z0-9._-]+/gi\<close> with \<open>Bearer ***\<close>.\<close>

definition match_bearer :: matcher where
  "match_bearer p s =
     (if starts_with (to_lower s) (js ''bearer'') then
        (let ws = takeWhile is_space (drop 6 s);
             tok = takeWhile is_token_unit (drop (6 + length ws) s)
         in if ws \<noteq> [] \<and> tok \<noteq> [] then Some (6 + length ws + length tok, js ''Bearer ***'') else None)
      else None)"

text \<open>\<open>/\b(1)\d{6}(\d{4})\b/g\<close> with \<open>$1******$2\<close>.\<close>

definition match_phone :: matcher where
  "match_phone p s =
     (if \<not> word_opt p \<and> starts_with s (js ''1'') \<and> length s \<ge> 11 \<and>
         (\<forall>c\<in>set (take 11 s). is_digit c) \<and> \<not> word_opt (head_opt (drop 11 s))
      then Some (11, js ''1******'' @ take 4 (drop 7 s)) else None)"

text \<open>\<open>/\b\d{4,6}:[A-Za-z0-9._-]{16,}\b/g\<close> with \<open>***:***\<close>; the greedy run of token
  units gives back units until it ends at a word boundary.\<close>

fun back_to_boundary :: "nat \<Rightarrow> jstr \<Rightarrow> nat option" where
  "back_to_boundary 0 s = None"
| "back_to_boundary (Suc n) s =
     (if is_word (s ! n) \<noteq> word_opt (head_opt (drop (Suc n) s)) then Some (Suc n)
      else back_to_boundary n s)"

definition match_bot_token :: matcher where
  "match_bot_token p s =
     (let ds = takeWhile is_digit s; rest = drop (length ds) s;
          run = takeWhile is_token_unit (drop 1 rest)
      in if \<not> word_opt p \<and> 4 \<le> length ds \<and> length ds \<le> 6 \<and> head_opt rest = Some 58 then
           (case back_to_boundary (length run) (drop 1 rest) of
              Some k \<Rightarrow> if 16 \<le> k then Some (length ds + 1 + k, js ''***:***'') else None
            | None \<Rightarrow> None)
         else None)"

definition sanitizeString :: "jstr \<Rightarrow> jstr" where
  "sanitizeString s =
     replace_all match_bot_token None (replace_all match_phone None (replace_all match_bearer None s))"

subsection \<open>Redaction of a value\<close>

definition redacted_key :: "jstr \<Rightarrow> bool" where
  "redacted_key k \<longleftrightarrow> str_includes (to_lower k) (js ''token'') \<or>
     str_includes (to_lower k) (js ''secret'') \<or> str_includes (to_lower k) (js ''password'')"

fun sanitizeAny :: "jsval \<Rightarrow> jstr \<Rightarrow> jsval" where
  "sanitizeAny v k =
     (if nullish v then v
      else if redacted_key k then jlit ''***''
      else case v of
        JStr s \<Rightarrow> JStr (sanitizeString s)
      | JArr vs \<Rightarrow> JArr (map (\<lambda>x. sanitizeAny x []) vs)
      | JObj al \<Rightarrow> JObj (map (\<lambda>(kk, vv). (kk, sanitizeAny vv kk)) al)
      | _ \<Rightarrow> v)"

declare sanitizeAny.simps [simp del]

lemma sanitizeAny_nullish [simp]: "nullish v \<Longrightarrow> sanitizeAny v k = v"
  by (simp add: sanitizeAny.simps)

lemma sanitizeAny_redacted [simp]:
  "redacted_key k \<Longrightarrow> \<not> nullish v \<Longrightarrow> sanitizeAny v k = jlit ''***''"
  by (simp add: sanitizeAny.simps)

lemma sanitizeAny_plain [simp]:
  "\<not> redacted_key k \<Longrightarrow> sanitizeAny (JStr s) k = JStr (sanitizeString s)"
  "\<not> redacted_key k \<Longrightarrow> sanitizeAny (JBool b) k = JBool b"
  "\<not> redacted_key k \<Longrightarrow> sanitizeAny (JNum n) k = JNum n"
  "\<not> redacted_key k \<Longrightarrow> sanitizeAny (JArr vs) k = JArr (map (\<lambda>x. sanitizeAny x []) vs)"
  "\<not> redacted_key k \<Longrightarrow> sanitizeAny (JObj al) k = JObj (map (\<lambda>(kk, vv). (kk, sanitizeAny vv kk)) al)"
  by (simp_all add: sanitizeAny.simps)

text \<open>A value leaks when some object in it has a value other than null under a secret key.\<close>

fun leaks :: "jsval \<Rightarrow> bool" where
  "leaks (JArr vs) = (\<exists>v\<in>set vs. leaks v)"
| "leaks (JObj al) = (\<exists>(k, v)\<in>set al. leaks v \<or> (redacted_key k \<and> \<not> nullish v \<and> v \<noteq> jlit ''***''))"
| "leaks _ = False"

lemma sanitizeAny_no_leak: "\<not> leaks (sanitizeAny v k)"
proof (induction v arbitrary: k)
  case (JArr vs)
  then show ?case by (cases "redacted_key k") auto
next
  case (JObj al)
  have "\<not> leaks (sanitizeAny vv kk) \<and>
        (redacted_key kk \<longrightarrow> nullish (sanitizeAny vv kk) \<or> sanitizeAny vv kk = jlit ''***'')"
    if "(kk, vv) \<in> set al" for kk vv
    using JObj [of "(kk, vv)" vv kk] that by (cases "nullish vv") auto
  then show ?case by (cases "redacted_key k") fastforce+
qed (case_tac [!] "redacted_key k", simp_all)

subsection \<open>Redaction of texts\<close>

lemma replace_all_id:
  "(\<And>q ys. suffix ys s \<Longrightarrow> m q ys = None) \<Longrightarrow> replace_all m p s = s"
proof (induction s arbitrary: p)
  case (Cons c s)
  then have "replace_all m (Some c) s = s" by (simp add: suffix_ConsI)
  with Cons.prems [of "c # s" p] show ?case by simp
qed simp

lemma to_lower_hd: "starts_with (to_lower (c # s)) (d # ds) \<Longrightarrow> lower_unit c = d"
  by (simp add: starts_with_def to_lower_def)

lemma bearer_needs_b: "98 \<notin> lower_unit ` set s \<Longrightarrow> replace_all match_bearer p s = s"
proof (rule replace_all_id)
  fix q ys assume n: "98 \<notin> lower_unit ` set s" and "suffix ys s"
  then have "98 \<notin> lower_unit ` set ys" using set_mono_suffix by blast
  then show "match_bearer q ys = None"
    by (cases ys) (auto simp: match_bearer_def js_def starts_with_def to_lower_def)
qed

lemma bot_token_needs_colon: "58 \<notin> set s \<Longrightarrow> replace_all match_bot_token p s = s"
proof (rule replace_all_id)
  fix q ys assume "58 \<notin> set s" and "suffix ys s"
  then have "58 \<notin> set ys" using set_mono_suffix by blast
  then have "head_opt (drop n ys) \<noteq> Some 58" for n
    by (auto simp: head_opt_def split: list.splits) (metis in_set_dropD list.set_intros(1))
  then show "match_bot_token q ys = None"
    by (simp add: match_bot_token_def Let_def)
qed

lemma phone_needs_digits: "\<forall>c\<in>set s. \<not> is_digit c \<Longrightarrow> replace_all match_phone p s = s"
proof (rule replace_all_id)
  fix q ys assume "\<forall>c\<in>set s. \<not> is_digit c" and "suffix ys s"
  then have "\<forall>c\<in>set ys. \<not> is_digit c" using set_mono_suffix by blast
  then show "match_phone q ys = None"
    by (cases ys) (auto simp: match_phone_def)
qed

lemma sanitize_phone:
  assumes "length ds = 10" and "\<forall>c\<in>set ds. is_digit c"
  shows "sanitizeString (49 # ds) = js ''1******'' @ drop 6 ds"
proof -
  have b: "replace_all match_bearer None (49 # ds) = 49 # ds"
    by (rule bearer_needs_b) (use assms in \<open>auto simp: lower_unit_def is_digit_def\<close>)
  have "match_phone None (49 # ds) = Some (11, js ''1******'' @ take 4 (drop 6 ds))"
    using assms by (auto simp: match_phone_def word_opt_def starts_with_def js_def is_digit_def head_opt_def)
  then have p: "replace_all match_phone None (49 # ds) = js ''1******'' @ drop 6 ds"
    using assms by simp
  have "58 \<notin> set (js ''1******'' @ drop 6 ds)"
    using assms set_drop_subset [of 6 ds] by (force simp: js_def is_digit_def)
  then show ?thesis
    unfolding sanitizeString_def b p by (rule bot_token_needs_colon)
qed

lemma sanitize_bearer:
  assumes "tok \<noteq> []" and "\<forall>c\<in>set tok. is_token_unit c"
  shows "sanitizeString (js ''Bearer '' @ tok) = js ''Bearer ***''"
proof -
  have sp: "\<not> is_space c" if "is_token_unit c" for c
    using that by (auto simp: is_token_unit_def is_alnum_def is_digit_def is_space_def)
  have tw: "is_space 32" "takeWhile is_space tok = []" "takeWhile is_token_unit tok = tok"
    using assms sp by (cases tok; auto simp: is_space_def [of 32] takeWhile_eq_all_conv)+
  have st: "js ''Bearer '' @ tok = 66 # js ''earer'' @ 32 # tok"
    by (simp add: js_def)
  have "match_bearer None (js ''Bearer '' @ tok) = Some (7 + length tok, js ''Bearer ***'')"
    using assms(1) by (simp add: match_bearer_def starts_with_def to_lower_def lower_unit_def js_def tw Let_def)
  then have b: "replace_all match_bearer None (js ''Bearer '' @ tok) = js ''Bearer ***''"
    unfolding st by (simp add: js_def)
  have p: "replace_all match_phone None (js ''Bearer ***'') = js ''Bearer ***''"
    by (rule phone_needs_digits) (simp add: js_def is_digit_def)
  have "58 \<notin> set (js ''Bearer ***'')" by (simp add: js_def)
  then show ?thesis
    unfolding sanitizeString_def b p by (rule bot_token_needs_colon)
qed

section \<open>Snapshots\<close>

definition opt_val :: "('a \<Rightarrow> jsval) \<Rightarrow> 'a option \<Rightarrow> jsval" where
  "opt_val f v = (case v of None \<Rightarrow> JUndef | Some x \<Rightarrow> f x)"

definition route_value :: "route_event \<Rightarrow> jsval" where
  "route_value e = JObj [(js ''ts'', jint (re_ts e)), (js ''from'', opt_val JStr (re_from e)),
     (js ''to'', opt_val JStr (re_to e)), (js ''name'', opt_val JStr (re_name e))]"

definition api_error_value :: "api_error_event \<Rightarrow> jsval" where
  "api_error_value e = JObj [(js ''ts'', jint (ev_ts e)), (js ''status'', opt_val jint (ev_status e)),
     (js ''method'', opt_val JStr (ev_method e)), (js ''url'', opt_val JStr (ev_url e)),
     (js ''message'', JStr (ev_message e))]"

definition js_error_value :: "js_error_event \<Rightarrow> jsval" where
  "js_error_value e = JObj [(js ''ts'', jint (je_ts e)), (js ''message'', opt_val JStr (je_message e)),
     (js ''stack'', opt_val JStr (je_stack e)), (js ''source'', opt_val JStr (je_source e))]"

definition auth_event_value :: "auth_event \<Rightarrow> jsval" where
  "auth_event_value e = JObj [(js ''ts'', jint (aev_ts e)), (js ''kind'', jlit ''401_redirect''),
     (js ''redirectTo'', opt_val JStr (aev_redirect_to e))]"

definition snapshot :: "int \<Rightarrow> jstr \<Rightarrow> collector \<Rightarrow> jsval" where
  "snapshot now href c = JObj [(js ''ts'', jint now), (js ''location'', JStr href),
     (js ''routes'', JArr (map route_value (co_routes c))),
     (js ''apiErrors'', JArr (map api_error_value (co_api_errors c))),
     (js ''jsErrors'', JArr (map js_error_value (co_js_errors c)))]"

definition sanitizedSnapshot :: "int \<Rightarrow> jstr \<Rightarrow> collector \<Rightarrow> jsval" where
  "sanitizedSnapshot now href c = sanitizeAny (JObj [(js ''ts'', jint now), (js ''location'', JStr href),
     (js ''routes'', JArr (map route_value (co_routes c))),
     (js ''apiErrors'', JArr (map api_error_value (co_api_errors c))),
     (js ''jsErrors'', JArr (map js_error_value (co_js_errors c))),
     (js ''authEvents'', JArr (map auth_event_value (co_auth_events c)))]) []"

section \<open>Properties\<close>

text \<open>The logs as windows over everything recorded.\<close>

fun js_errors_of :: "collector_op \<Rightarrow> js_error_event list" where
  "js_errors_of (JsError now err source) = [js_error_of now err source]"
| "js_errors_of _ = []"

fun auth_notes_of :: "collector_op \<Rightarrow> auth_event list" where
  "auth_notes_of (AuthNote e) = [e]"
| "auth_notes_of _ = []"

lemmas record_defs = recordRoute_def recordApiError_def recordJsError_def recordAuthEvent_def
  clearAll_def requestOpenPanel_def Let_def

lemma js_errors_fold:
  "Clear \<notin> set ops \<Longrightarrow> co_js_errors (foldl collector_step c ops) =
     foldl (pushLimited 50) (co_js_errors c) (concat (map js_errors_of ops))"
proof (induction ops arbitrary: c)
  case (Cons op ops)
  then show ?case by (cases op) (simp_all add: record_defs)
qed simp

lemma auth_notes_fold:
  "Clear \<notin> set ops \<Longrightarrow> co_auth_events (foldl collector_step c ops) =
     foldl (pushLimited 50) (co_auth_events c) (concat (map auth_notes_of ops))"
proof (induction ops arbitrary: c)
  case (Cons op ops)
  then show ?case by (cases op) (simp_all add: record_defs)
qed simp

text \<open>Memory of the collector is bounded and the latest events survive: after any operations no log
  holds more than 50 events, and as long as nothing was cleared, the script-error and authentication
  logs are exactly the last 50 events recorded.\<close>

lemma collector_windows:
  "collector_bounded (foldl collector_step empty_collector ops) \<and>
   (Clear \<notin> set ops \<longrightarrow>
      (let js = concat (map js_errors_of ops); au = concat (map auth_notes_of ops);
           c = foldl collector_step empty_collector ops
       in co_js_errors c = drop (length js - 50) js \<and> co_auth_events c = drop (length au - 50) au))"
  using collector_run_bounded [OF empty_collector_bounded]
  by (simp add: Let_def js_errors_fold auth_notes_fold debug_log.run_window empty_collector_def)

lemma collector_windows_example:
  "co_auth_events (foldl collector_step empty_collector
      (replicate 3 (AuthNote \<lparr>aev_ts = 1, aev_redirect_to = None\<rparr>) @ [JsError 2 (Thrown (jlit ''x'')) None]))
   = replicate 3 \<lparr>aev_ts = 1, aev_redirect_to = None\<rparr>"
  using collector_windows [of "replicate 3 (AuthNote \<lparr>aev_ts = 1, aev_redirect_to = None\<rparr>) @
      [JsError 2 (Thrown (jlit ''x'')) None]"]
  by (simp add: Let_def numeral_3_eq_3)



end
