(* ===== verification/Auth.thy ===== *)
theory Auth
  imports Storage Collector
begin

text \<open>
  \<open>web/src/stores/auth.ts\<close> and \<open>web/src/router/index.ts\<close>: the token store, the response
  interceptor that ends the session on a 401, and the guard in front of every page. The world
  holds the store's token, the default \<open>Authorization\<close> header of the HTTP client, both web
  storages, the location hash and the debug collector. Operations return the new world and
  whether they threw.
\<close>

section \<open>State\<close>

record auth_world =
  aw_token :: jstr
  aw_header :: "jstr option"
  aw_local :: storage
  aw_session :: storage
  aw_hash :: jstr
  aw_debug :: collector

definition token_key :: jstr where
  "token_key = js ''token''"

definition bearer :: "jstr \<Rightarrow> jstr" where
  "bearer t = js ''Bearer '' @ t"

text \<open>\<open>localStorage.getItem('token') || ''\<close>; None when storage throws.\<close>

definition stored_token :: "storage \<Rightarrow> jstr option" where
  "stored_token s = map_option (\<lambda>v. case v of None \<Rightarrow> [] | Some t \<Rightarrow> t) (get_item s token_key)"

definition client_header :: "storage \<Rightarrow> jstr option" where
  "client_header s = (case stored_token s of Some (c # t) \<Rightarrow> Some (bearer (c # t)) | _ \<Rightarrow> None)"

text \<open>Module load, then the first \<open>useAuthStore()\<close>; None when creating the store throws.\<close>

definition load_auth :: "storage \<Rightarrow> storage \<Rightarrow> jstr \<Rightarrow> auth_world option" where
  "load_auth local session hash =
     map_option (\<lambda>t. \<lparr>aw_token = t, aw_header = client_header local, aw_local = local,
       aw_session = session, aw_hash = hash, aw_debug = empty_collector\<rparr>) (stored_token local)"

definition isAuthenticated :: "auth_world \<Rightarrow> bool" where
  "isAuthenticated w \<longleftrightarrow> aw_token w \<noteq> []"

section \<open>Operations\<close>

definition logout :: "auth_world \<Rightarrow> auth_world \<times> bool" where
  "logout w =
     (let w1 = w\<lparr>aw_token := []\<rparr> in
      case remove_item (aw_local w1) token_key of
        None \<Rightarrow> (w1, True)
      | Some s \<Rightarrow> (w1\<lparr>aw_local := s, aw_header := None\<rparr>, False))"

definition redirect_key :: jstr where
  "redirect_key = js ''post_login_redirect''"

definition current_path :: "jstr \<Rightarrow> jstr" where
  "current_path hash =
     (let p = (case hash of c # s \<Rightarrow> if c = 35 then s else c # s | [] \<Rightarrow> []) in
      if p = [] then js ''/'' else p)"

text \<open>The \<open>try\<close> block of the 401 branch; the flag says that it completed.\<close>

definition redirect_to_login :: "int \<Rightarrow> jstr \<Rightarrow> auth_world \<Rightarrow> auth_world \<times> bool" where
  "redirect_to_login now current w =
     (case set_item (aw_session w) redirect_key current of
        None \<Rightarrow> (w, False)
      | Some sess \<Rightarrow>
          (let w1 = w\<lparr>aw_session := sess,
                 aw_debug := recordAuthEvent \<lparr>aev_ts = now, aev_redirect_to = Some current\<rparr> (aw_debug w)\<rparr>
           in case encode_uri_component current of
                None \<Rightarrow> (w1, False)
              | Some enc \<Rightarrow>
                  (case logout (w1\<lparr>aw_hash := js ''#/login?redirect='' @ enc\<rparr>) of
                     (w2, threw) \<Rightarrow> (w2, \<not> threw))))"

definition leave_session :: "auth_world \<Rightarrow> auth_world" where
  "leave_session w =
     (case logout w of
        (w1, True) \<Rightarrow> w1
      | (w1, False) \<Rightarrow> w1\<lparr>aw_hash := js ''#/login''\<rparr>)"

definition response_status :: "exn \<Rightarrow> int option" where
  "response_status err = (case err of AxiosErr e \<Rightarrow> map_option fst (ax_response e) | _ \<Rightarrow> None)"

definition on_response_error :: "int \<Rightarrow> exn \<Rightarrow> auth_world \<Rightarrow> auth_world" where
  "on_response_error now err w0 =
     (let w = w0\<lparr>aw_debug := recordApiError now err (aw_debug w0)\<rparr> in
      if response_status err = Some 401 then
        (let current = current_path (aw_hash w) in
         if \<not> starts_with current (js ''/login'') then
           (case redirect_to_login now current w of
              (w1, True) \<Rightarrow> w1
            | (w1, False) \<Rightarrow> leave_session w1)
         else leave_session w)
      else w)"

text \<open>\<open>login\<close>, given what the request for a token came to; a rejected request passes the
  interceptor first.\<close>

fun login :: "int \<Rightarrow> jsval outcome \<Rightarrow> auth_world \<Rightarrow> auth_world \<times> bool" where
  "login now (Inr data) w =
     (let token = text_or_empty (jfield data ''token''); w1 = w\<lparr>aw_token := token\<rparr> in
      case set_item (aw_local w1) token_key token of
        None \<Rightarrow> (w1, False)
      | Some s \<Rightarrow> (w1\<lparr>aw_local := s, aw_header := Some (bearer token)\<rparr>, True))"
| "login now (Inl err) w = (on_response_error now err w, False)"

section \<open>The router\<close>

datatype route_name = Login | Dashboard | SMS | Devices | Settings | Proxy | Logs

definition route_path :: "route_name \<Rightarrow> jstr" where
  "route_path r = (case r of Login \<Rightarrow> js ''/login'' | Dashboard \<Rightarrow> js ''/'' | SMS \<Rightarrow> js ''/sms''
     | Devices \<Rightarrow> js ''/devices'' | Settings \<Rightarrow> js ''/settings'' | Proxy \<Rightarrow> js ''/proxy''
     | Logs \<Rightarrow> js ''/logs'')"

definition requiresAuth :: "route_name \<Rightarrow> bool" where
  "requiresAuth r \<longleftrightarrow> r \<noteq> Login"

definition beforeEach :: "route_name \<Rightarrow> auth_world \<Rightarrow> route_name option" where
  "beforeEach to w = (if requiresAuth to \<and> \<not> isAuthenticated w then Some Login else None)"

definition afterEach :: "int \<Rightarrow> route_like option \<Rightarrow> route_like option \<Rightarrow> auth_world \<Rightarrow> auth_world" where
  "afterEach now to from w = w\<lparr>aw_debug := recordRoute now to from (aw_debug w)\<rparr>"

text \<open>A navigation: the guard may send it elsewhere, and the new target is guarded again.\<close>

fun navigate :: "nat \<Rightarrow> route_name \<Rightarrow> auth_world \<Rightarrow> route_name option" where
  "navigate 0 to w = None"
| "navigate (Suc n) to w = (case beforeEach to w of None \<Rightarrow> Some to | Some to' \<Rightarrow> navigate n to' w)"

section \<open>Invariant: memory, storage and header agree\<close>

definition session_ok :: "auth_world \<Rightarrow> bool" where
  "session_ok w \<longleftrightarrow> st_avail (aw_local w) \<and> st_room (aw_local w) \<and>
     stored_token (aw_local w) = Some (aw_token w) \<and>
     (aw_token w \<noteq> [] \<longrightarrow> aw_header w = Some (bearer (aw_token w))) \<and>
     (aw_header w = None \<or> aw_header w = Some (bearer (aw_token w)))"

lemma logout_avail:
  assumes "st_avail (aw_local w)"
  shows "\<exists>s. remove_item (aw_local w) token_key = Some s \<and> st_avail s \<and>
     st_room s = st_room (aw_local w) \<and> stored_token s = Some [] \<and>
     logout w = (w\<lparr>aw_token := [], aw_local := s, aw_header := None\<rparr>, False)"
  using assms by (auto simp: logout_def remove_item_def stored_token_def get_item_def Let_def)

lemma logout_token [simp]: "aw_token (fst (logout w)) = []"
  by (auto simp: logout_def Let_def split: option.splits)

lemma logout_session_ok: "session_ok w \<Longrightarrow> session_ok (fst (logout w)) \<and> \<not> snd (logout w)"
  using logout_avail [of w] by (auto simp: session_ok_def)

lemma session_ok_frame [simp]:
  "session_ok (w\<lparr>aw_session := s\<rparr>) = session_ok w"
  "session_ok (w\<lparr>aw_debug := d\<rparr>) = session_ok w"
  "session_ok (w\<lparr>aw_hash := h\<rparr>) = session_ok w"
  by (simp_all add: session_ok_def)

lemma leave_session_ok: "session_ok w \<Longrightarrow> session_ok (leave_session w)"
  using logout_session_ok [of w] by (auto simp: leave_session_def split: prod.splits bool.splits)

lemma redirect_session_ok:
  assumes "session_ok w"
  shows "session_ok (fst (redirect_to_login now current w))"
proof -
  have "session_ok (fst (logout (w\<lparr>aw_session := s, aw_debug := d, aw_hash := h\<rparr>)))" for s d h
    using assms logout_session_ok by simp
  then show ?thesis
    using assms by (simp add: redirect_to_login_def Let_def case_prod_beta split: option.split)
qed

lemma on_response_error_session_ok:
  assumes "session_ok w"
  shows "session_ok (on_response_error now err w)"
proof -
  let ?w = "w\<lparr>aw_debug := recordApiError now err (aw_debug w)\<rparr>"
  have w: "session_ok ?w" using assms by simp
  have "session_ok (case redirect_to_login now c ?w of (w1, True) \<Rightarrow> w1 | (w1, False) \<Rightarrow> leave_session w1)" for c
    using redirect_session_ok [OF w, of now c] leave_session_ok by (auto split: prod.splits bool.splits)
  then show ?thesis
    using w by (simp add: on_response_error_def Let_def leave_session_ok)
qed

lemma login_session_ok: "session_ok w \<Longrightarrow> session_ok (fst (login now r w))"
proof (cases r)
  case (Inr d)
  assume "session_ok w"
  with Inr show ?thesis
    by (auto simp: session_ok_def set_item_def stored_token_def get_item_def Let_def)
qed (simp add: on_response_error_session_ok)

lemma load_session_ok:
  "st_avail s \<Longrightarrow> st_room s \<Longrightarrow> load_auth s ss h = Some w \<Longrightarrow> session_ok w"
  by (auto simp: load_auth_def session_ok_def client_header_def stored_token_def split: list.splits)

datatype auth_op = LoginOp int "jsval outcome" | LogoutOp | ErrorOp int exn | RouteOp int "route_like option" "route_like option"

fun auth_step :: "auth_world \<Rightarrow> auth_op \<Rightarrow> auth_world" where
  "auth_step w (LoginOp now r) = fst (login now r w)"
| "auth_step w LogoutOp = fst (logout w)"
| "auth_step w (ErrorOp now err) = on_response_error now err w"
| "auth_step w (RouteOp now to from) = afterEach now to from w"

lemma auth_step_session_ok: "session_ok w \<Longrightarrow> session_ok (auth_step w op)"
  by (cases op) (simp_all add: login_session_ok logout_session_ok on_response_error_session_ok
      afterEach_def)

interpretation sessions: free_system auth_step session_ok
  by unfold_locales (rule auth_step_session_ok)

lemma auth_run_session_ok: "session_ok w \<Longrightarrow> session_ok (foldl auth_step w ops)"
  by (rule sessions.always)

section \<open>A 401 always ends the session\<close>

lemma logout_token_pair: "logout w = (w', threw) \<Longrightarrow> aw_token w' = []"
  using logout_token [of w] by simp

lemma leave_session_token [simp]: "aw_token (leave_session w) = []"
  by (auto simp: leave_session_def logout_token_pair split: prod.splits bool.splits)

lemma redirect_done_token: "redirect_to_login now c w = (w', True) \<Longrightarrow> aw_token w' = []"
  by (auto simp: redirect_to_login_def Let_def logout_token_pair split: option.splits prod.splits)

lemma redirect_done:
  assumes "set_item (aw_session w) redirect_key c = Some sess" and "encode_uri_component c = Some q"
    and "st_avail (aw_local w)"
  shows "\<exists>s. redirect_to_login now c w =
       (w\<lparr>aw_token := [], aw_header := None, aw_local := s, aw_session := sess,
          aw_hash := js ''#/login?redirect='' @ q,
          aw_debug := recordAuthEvent \<lparr>aev_ts = now, aev_redirect_to = Some c\<rparr> (aw_debug w)\<rparr>, True) \<and>
     stored_token s = Some []"
proof -
  let ?w = "w\<lparr>aw_session := sess,
     aw_debug := recordAuthEvent \<lparr>aev_ts = now, aev_redirect_to = Some c\<rparr> (aw_debug w),
     aw_hash := js ''#/login?redirect='' @ q\<rparr>"
  obtain s where "logout ?w = (?w\<lparr>aw_token := [], aw_local := s, aw_header := None\<rparr>, False)"
      "stored_token s = Some []"
    using logout_avail [of ?w] assms(3) by auto
  with assms(1,2) show ?thesis
    by (intro exI [of _ s]) (simp add: redirect_to_login_def Let_def)
qed

lemma leave_done:
  assumes "st_avail (aw_local w)"
  shows "aw_header (leave_session w) = None" "stored_token (aw_local (leave_session w)) = Some []"
    "aw_hash (leave_session w) = js ''#/login''"
  using logout_avail [OF assms] by (auto simp: leave_session_def)

lemma on_401_token:
  "response_status err = Some 401 \<Longrightarrow> aw_token (on_response_error now err w) = []"
  by (auto simp: on_response_error_def Let_def redirect_done_token split: prod.splits bool.splits)

lemma navigate_two: "navigate (Suc (Suc n)) to w =
    Some (if requiresAuth to \<and> \<not> isAuthenticated w then Login else to)"
  by (simp add: beforeEach_def requiresAuth_def)

section \<open>Properties\<close>

text \<open>C8. The session is consistent: on a page whose storage works, after loading and any sequence of
  logins, logouts, failed responses and navigations, the token in the store is the one in local
  storage, every request of a logged-in user carries exactly that token, and no request ever carries
  another one.\<close>

theorem auth_session_consistent:
  assumes "st_avail ls" and "st_room ls" and "load_auth ls ss hash = Some w"
  shows "session_ok (foldl auth_step w ops)"
  using assms by (intro auth_run_session_ok load_session_ok)

theorem auth_session_consistent_witness:
  "\<exists>w. load_auth \<lparr>st_avail = True, st_room = True, st_items = [js ''token'' \<mapsto> js ''t1'']\<rparr>
         \<lparr>st_avail = True, st_room = True, st_items = Map.empty\<rparr> (js ''#/sms'') = Some w \<and>
     session_ok (foldl auth_step w [LogoutOp, LoginOp 5 (Inr (JObj [(js ''token'', jlit ''t2'')]))])"
proof -
  let ?l = "\<lparr>st_avail = True, st_room = True, st_items = [js ''token'' \<mapsto> js ''t1'']\<rparr>"
  let ?s = "\<lparr>st_avail = True, st_room = True, st_items = Map.empty :: jstr \<Rightarrow> jstr option\<rparr>"
  obtain w where w: "load_auth ?l ?s (js ''#/sms'') = Some w"
    by (auto simp: load_auth_def stored_token_def get_item_def)
  then have "session_ok (foldl auth_step w [LogoutOp, LoginOp 5 (Inr (JObj [(js ''token'', jlit ''t2'')]))])"
    by (intro auth_session_consistent [of ?l ?s]) simp_all
  with w show ?thesis by blast
qed

text \<open>C6. A 401 ends the session whatever the state of the storages: no token is left in the store, so the
  guard sends a navigation to any protected page to the login page. Where both storages work, the
  client's header and the stored token are gone too, the location is the login page, and a page other
  than the login page has been saved as the one to return to.\<close>

theorem unauthorized_ends_session:
  assumes "response_status err = Some 401"
  shows "\<not> isAuthenticated (on_response_error now err w) \<and>
     (requiresAuth to \<longrightarrow> navigate (Suc (Suc n)) to (on_response_error now err w) = Some Login) \<and>
     (st_avail (aw_local w) \<and> st_avail (aw_session w) \<and> st_room (aw_session w) \<and>
        encode_uri_component (current_path (aw_hash w)) \<noteq> None \<longrightarrow>
      (let w' = on_response_error now err w in
         aw_header w' = None \<and> stored_token (aw_local w') = Some [] \<and>
         starts_with (aw_hash w') (js ''#/login'') \<and>
         (\<not> starts_with (current_path (aw_hash w)) (js ''/login'') \<longrightarrow>
            get_item (aw_session w') redirect_key = Some (Some (current_path (aw_hash w))))))"
proof -
  let ?w = "w\<lparr>aw_debug := recordApiError now err (aw_debug w)\<rparr>"
  have "\<not> isAuthenticated (on_response_error now err w)"
    using on_401_token [OF assms] by (simp add: isAuthenticated_def)
  moreover have "let w' = on_response_error now err w in
         aw_header w' = None \<and> stored_token (aw_local w') = Some [] \<and>
         starts_with (aw_hash w') (js ''#/login'') \<and>
         (\<not> starts_with (current_path (aw_hash w)) (js ''/login'') \<longrightarrow>
            get_item (aw_session w') redirect_key = Some (Some (current_path (aw_hash w))))"
    if av: "st_avail (aw_local w)" "st_avail (aw_session w)" "st_room (aw_session w)"
      and enc: "encode_uri_component (current_path (aw_hash w)) = Some q" for q
  proof (cases "starts_with (current_path (aw_hash w)) (js ''/login'')")
    case True
    then have "on_response_error now err w = leave_session ?w"
      using assms by (simp add: on_response_error_def)
    with True av(1) show ?thesis
      by (simp add: leave_done starts_with_def js_def)
  next
    case False
    obtain sess where sess: "set_item (aw_session ?w) redirect_key (current_path (aw_hash w)) = Some sess"
      using av by (auto simp: set_item_def)
    obtain s where "redirect_to_login now (current_path (aw_hash w)) ?w =
        (?w\<lparr>aw_token := [], aw_header := None, aw_local := s, aw_session := sess,
           aw_hash := js ''#/login?redirect='' @ q, aw_debug := recordAuthEvent
             \<lparr>aev_ts = now, aev_redirect_to = Some (current_path (aw_hash w))\<rparr> (aw_debug ?w)\<rparr>, True)"
      and "stored_token s = Some []"
      using redirect_done [OF sess enc, of now] av(1) by auto
    with assms False ls.get_set_same [OF sess] show ?thesis
      by (simp add: on_response_error_def starts_with_def js_def)
  qed
  ultimately show ?thesis
    using navigate_two [of n to "on_response_error now err w"] by auto
qed

definition err_401 :: exn where
  "err_401 = AxiosErr \<lparr>ax_message = js ''Request failed'', ax_code = None, ax_response = Some (401, JNull),
     ax_method = None, ax_url = None, ax_name = js ''AxiosError'', ax_stack = None\<rparr>"

definition sample_world :: auth_world where
  "sample_world = \<lparr>aw_token = js ''t1'', aw_header = Some (js ''Bearer t1''),
     aw_local = \<lparr>st_avail = True, st_room = True, st_items = [js ''token'' \<mapsto> js ''t1'']\<rparr>,
     aw_session = \<lparr>st_avail = True, st_room = True, st_items = Map.empty\<rparr>,
     aw_hash = js ''#/proxy'', aw_debug = empty_collector\<rparr>"

theorem unauthorized_ends_session_witness:
  "navigate 2 Devices (on_response_error 1 err_401 sample_world) = Some Login \<and>
   get_item (aw_session (on_response_error 1 err_401 sample_world)) redirect_key = Some (Some (js ''/proxy''))"
proof -
  have c: "current_path (aw_hash sample_world) = js ''/proxy''"
    by (simp add: current_path_def sample_world_def js_def)
  then have e: "encode_uri_component (current_path (aw_hash sample_world)) \<noteq> None"
    by (simp add: encode_uri_component_def js_def is_high_def is_low_def)
  have r: "response_status err_401 = Some 401" by (simp add: response_status_def err_401_def)
  have av: "st_avail (aw_local sample_world) \<and> st_avail (aw_session sample_world) \<and>
      st_room (aw_session sample_world) \<and> encode_uri_component (current_path (aw_hash sample_world)) \<noteq> None"
    using e by (simp add: sample_world_def)
  have n: "\<not> starts_with (current_path (aw_hash sample_world)) (js ''/login'')"
    unfolding c by (simp add: starts_with_def js_def)
  from unauthorized_ends_session [OF r, of 1 sample_world Devices 0] av n show ?thesis
    unfolding c Let_def numeral_2_eq_2 requiresAuth_def by blast
qed

text \<open>A server answer without a token: \<open>login\<close> reports success, yet nobody is logged in.\<close>

lemma login_success_without_token:
  "st_avail (aw_local w) \<Longrightarrow> st_room (aw_local w) \<Longrightarrow>
   snd (login now (Inr (JObj [])) w) \<and> \<not> isAuthenticated (fst (login now (Inr (JObj [])) w))"
  by (simp add: set_item_def isAuthenticated_def Let_def)

end
