(* ===== verification/Polling.thy ===== *)
theory Polling
  imports JsBase
begin

text \<open>
  \<open>web/src/composables/usePollingScheduler.ts\<close> and \<open>useSmartPoll.ts\<close>: two pollers that run
  an asynchronous task from a timer, back off when it fails, and stop with their component.
  A poller is a state machine: its refs, the browser's armed timers (an id and a delay each)
  and the number of tasks started and not yet settled. The events are the calls of its
  interface, the firing of a timer, the settling of the task, and changes of the \<open>enabled\<close>
  ref and of the page's visibility. Both satisfy the contract \<open>poller\<close> below.
\<close>

section \<open>State and timers\<close>

record poll_cfg =
  pc_interval :: int
  pc_immediate :: bool
  pc_background :: "int option"
  pc_factor :: "rat option"
  pc_max :: "int option"
  pc_has_enabled :: bool

record poll_state =
  ps_running :: bool
  ps_stopped :: bool
  ps_timer :: "nat option"
  ps_current :: int
  ps_enabled :: bool
  ps_hidden :: bool
  ps_mounted :: bool
  ps_armed :: "(nat \<times> int) list"
  ps_next :: nat
  ps_tasks :: nat

datatype poll_event =
    Mount
  | Unmount
  | StartCall
  | StopCall
  | TriggerCall
  | TimerFires nat
  | TaskSettles bool
  | SetEnabled bool
  | SetHidden bool

definition initial_poll :: "poll_cfg \<Rightarrow> bool \<Rightarrow> bool \<Rightarrow> poll_state" where
  "initial_poll c enabled hidden = \<lparr>ps_running = False, ps_stopped = False, ps_timer = None,
     ps_current = pc_interval c, ps_enabled = enabled, ps_hidden = hidden, ps_mounted = False,
     ps_armed = [], ps_next = 0, ps_tasks = 0\<rparr>"

definition set_timeout :: "int \<Rightarrow> poll_state \<Rightarrow> poll_state" where
  "set_timeout delay s = s\<lparr>ps_timer := Some (ps_next s),
     ps_armed := ps_armed s @ [(ps_next s, delay)], ps_next := Suc (ps_next s)\<rparr>"

definition clearTimer :: "poll_state \<Rightarrow> poll_state" where
  "clearTimer s = (case ps_timer s of
      None \<Rightarrow> s
    | Some t \<Rightarrow> s\<lparr>ps_armed := filter (\<lambda>a. fst a \<noteq> t) (ps_armed s), ps_timer := None\<rparr>)"

definition factor :: "poll_cfg \<Rightarrow> rat" where
  "factor c = (case pc_factor c of Some f \<Rightarrow> f | None \<Rightarrow> 2)"

definition maxIntervalMs :: "poll_cfg \<Rightarrow> int" where
  "maxIntervalMs c = (case pc_max c of Some m \<Rightarrow> m | None \<Rightarrow> 60000)"

definition bgInterval :: "poll_cfg \<Rightarrow> int" where
  "bgInterval c = (case pc_background c of Some b \<Rightarrow> b | None \<Rightarrow> max (pc_interval c) 60000)"

definition backoff :: "poll_cfg \<Rightarrow> int \<Rightarrow> int" where
  "backoff c cur = min (maxIntervalMs c) (max (pc_interval c) \<lfloor>of_int cur * factor c\<rfloor>)"

text \<open>\<open>schedule(delay)\<close>, shared by both modules.\<close>

definition schedule :: "int \<Rightarrow> poll_state \<Rightarrow> poll_state" where
  "schedule delay s = (let s1 = clearTimer s in if ps_stopped s1 then s1 else set_timeout delay s1)"

definition start_task :: "poll_state \<Rightarrow> poll_state" where
  "start_task s = s\<lparr>ps_running := True, ps_tasks := Suc (ps_tasks s)\<rparr>"

definition enabled_off :: "poll_cfg \<Rightarrow> poll_state \<Rightarrow> bool" where
  "enabled_off c s \<longleftrightarrow> pc_has_enabled c \<and> \<not> ps_enabled s"

definition stop :: "poll_state \<Rightarrow> poll_state" where
  "stop s = clearTimer (s\<lparr>ps_stopped := True\<rparr>)"

section \<open>\<open>usePollingScheduler\<close>\<close>

definition nextDelay :: "poll_cfg \<Rightarrow> poll_state \<Rightarrow> int" where
  "nextDelay c s = (if ps_hidden s then max (ps_current s) (bgInterval c) else ps_current s)"

definition tick :: "poll_cfg \<Rightarrow> poll_state \<Rightarrow> poll_state" where
  "tick c s =
     (if ps_stopped s \<or> ps_running s then schedule (nextDelay c s) s
      else if enabled_off c s then schedule (nextDelay c s) s
      else start_task s)"

definition task_settled :: "poll_cfg \<Rightarrow> bool \<Rightarrow> poll_state \<Rightarrow> poll_state" where
  "task_settled c okay s =
     (let s1 = s\<lparr>ps_tasks := ps_tasks s - 1,
                 ps_current := (if okay then pc_interval c else backoff c (ps_current s)),
                 ps_running := False\<rparr>
      in schedule (nextDelay c s1) s1)"

definition start :: "poll_cfg \<Rightarrow> poll_state \<Rightarrow> poll_state" where
  "start c s = schedule (if pc_immediate c then 0 else pc_interval c)
     (s\<lparr>ps_stopped := False, ps_current := pc_interval c\<rparr>)"

definition trigger :: "poll_state \<Rightarrow> poll_state" where
  "trigger s = schedule 0 s"

fun scheduler_step :: "poll_cfg \<Rightarrow> poll_event \<Rightarrow> poll_state \<Rightarrow> poll_state" where
  "scheduler_step c Mount s = (start c s)\<lparr>ps_mounted := True\<rparr>"
| "scheduler_step c Unmount s = (stop s)\<lparr>ps_mounted := False\<rparr>"
| "scheduler_step c StartCall s = start c s"
| "scheduler_step c StopCall s = stop s"
| "scheduler_step c TriggerCall s = trigger s"
| "scheduler_step c (TimerFires i) s =
     (if i \<in> fst ` set (ps_armed s)
      then tick c (s\<lparr>ps_armed := filter (\<lambda>a. fst a \<noteq> i) (ps_armed s)\<rparr>) else s)"
| "scheduler_step c (TaskSettles okay) s = (if ps_tasks s = 0 then s else task_settled c okay s)"
| "scheduler_step c (SetEnabled v) s =
     (if v \<noteq> ps_enabled s \<and> v \<and> pc_has_enabled c then trigger (s\<lparr>ps_enabled := v\<rparr>)
      else s\<lparr>ps_enabled := v\<rparr>)"
| "scheduler_step c (SetHidden h) s = s\<lparr>ps_hidden := h\<rparr>"

section \<open>\<open>useSmartPoll\<close>\<close>

definition smart_tick :: "poll_cfg \<Rightarrow> poll_state \<Rightarrow> poll_state" where
  "smart_tick c s =
     (if ps_stopped s then s
      else if ps_running s then schedule (ps_current s) s
      else if enabled_off c s then schedule (ps_current s) s
      else if ps_hidden s then schedule (ps_current s) s
      else start_task s)"

definition smart_settled :: "poll_cfg \<Rightarrow> bool \<Rightarrow> poll_state \<Rightarrow> poll_state" where
  "smart_settled c okay s =
     (let s1 = s\<lparr>ps_tasks := ps_tasks s - 1,
                 ps_current := (if okay then pc_interval c else backoff c (ps_current s)),
                 ps_running := False\<rparr>
      in schedule (ps_current s1) s1)"

definition onVisibility :: "poll_state \<Rightarrow> poll_state" where
  "onVisibility s = (if ps_hidden s then s else trigger s)"

fun smart_step :: "poll_cfg \<Rightarrow> poll_event \<Rightarrow> poll_state \<Rightarrow> poll_state" where
  "smart_step c Mount s = (start c s)\<lparr>ps_mounted := True\<rparr>"
| "smart_step c Unmount s = (stop s)\<lparr>ps_mounted := False\<rparr>"
| "smart_step c StartCall s = start c s"
| "smart_step c StopCall s = stop s"
| "smart_step c TriggerCall s = trigger s"
| "smart_step c (TimerFires i) s =
     (if i \<in> fst ` set (ps_armed s)
      then smart_tick c (s\<lparr>ps_armed := filter (\<lambda>a. fst a \<noteq> i) (ps_armed s)\<rparr>) else s)"
| "smart_step c (TaskSettles okay) s = (if ps_tasks s = 0 then s else smart_settled c okay s)"
| "smart_step c (SetEnabled v) s =
     (if v \<noteq> ps_enabled s \<and> v \<and> pc_has_enabled c then trigger (s\<lparr>ps_enabled := v\<rparr>)
      else s\<lparr>ps_enabled := v\<rparr>)"
| "smart_step c (SetHidden h) s =
     (let s1 = s\<lparr>ps_hidden := h\<rparr> in
      if h \<noteq> ps_hidden s \<and> ps_mounted s then onVisibility s1 else s1)"

section \<open>The contract of a poller\<close>

text \<open>
  Well-formed: at most one timer is armed and it is the one \<open>timer\<close> names, a task is in
  flight exactly when \<open>running\<close> is set and never more than one, and a stopped poller has no
  armed timer. Alive: unless stopped, something will wake it.
\<close>

definition poll_wf :: "poll_state \<Rightarrow> bool" where
  "poll_wf s \<longleftrightarrow> (ps_armed s = [] \<or> (\<exists>i d. ps_armed s = [(i, d)] \<and> ps_timer s = Some i)) \<and>
     ps_tasks s = (if ps_running s then 1 else 0) \<and> (ps_stopped s \<longrightarrow> ps_armed s = [])"

definition poll_alive :: "poll_state \<Rightarrow> bool" where
  "poll_alive s \<longleftrightarrow> ps_stopped s \<or> ps_running s \<or> ps_armed s \<noteq> []"

definition in_backoff_range :: "poll_cfg \<Rightarrow> poll_state \<Rightarrow> bool" where
  "in_backoff_range c s \<longleftrightarrow> min (pc_interval c) (maxIntervalMs c) \<le> ps_current s \<and>
     ps_current s \<le> max (pc_interval c) (maxIntervalMs c)"

lemma clamp_range: "min i m \<le> min m (max i x) \<and> min m (max i x) \<le> max i (m::int)"
  by auto

lemma backoff_range: "min (pc_interval c) (maxIntervalMs c) \<le> backoff c n"
  "backoff c n \<le> max (pc_interval c) (maxIntervalMs c)"
  by (simp_all only: backoff_def clamp_range)

locale poller =
  fixes step :: "poll_cfg \<Rightarrow> poll_event \<Rightarrow> poll_state \<Rightarrow> poll_state"
  assumes step_wf: "poll_wf s \<Longrightarrow> poll_wf (step c e s)"
    and step_alive: "poll_wf s \<Longrightarrow> poll_alive s \<Longrightarrow> poll_alive (step c e s)"
    and mount_alive: "poll_wf s \<Longrightarrow> poll_alive (step c Mount s)"
    and mount_current: "ps_current (step c Mount s) = pc_interval c"
    and settle_current: "ps_tasks s \<noteq> 0 \<Longrightarrow> ps_current (step c (TaskSettles okay) s) =
          (if okay then pc_interval c else backoff c (ps_current s))"
    and other_current: "ps_current (step c e s) = ps_current s \<or> ps_current (step c e s) = pc_interval c
          \<or> (ps_current (step c e s) = backoff c (ps_current s) \<and> e = TaskSettles False)"
    and stop_stopped: "ps_stopped (step c StopCall s)" "ps_stopped (step c Unmount s)"
    and task_starts: "ps_tasks (step c e s) = Suc (ps_tasks s) \<Longrightarrow>
          (\<exists>i. e = TimerFires i) \<and> \<not> ps_stopped s \<and> \<not> enabled_off c s"
    and stays_stopped: "ps_stopped s \<Longrightarrow> e \<noteq> Mount \<Longrightarrow> e \<noteq> StartCall \<Longrightarrow> ps_stopped (step c e s)"
begin

definition run :: "poll_cfg \<Rightarrow> poll_event list \<Rightarrow> poll_state \<Rightarrow> poll_state" where
  "run c es s = foldl (\<lambda>s e. step c e s) s es"

lemma run_simps [simp]: "run c [] s = s" "run c (e # es) s = run c es (step c e s)"
  by (simp_all add: run_def)

lemma run_append: "run c (es @ fs) s = run c fs (run c es s)"
  by (simp add: run_def)

lemma run_wf: "poll_wf s \<Longrightarrow> poll_wf (run c es s)"
  by (induction es arbitrary: s) (auto intro: step_wf)

lemma run_alive: "poll_wf s \<Longrightarrow> poll_alive s \<Longrightarrow> poll_alive (run c es s)"
  by (induction es arbitrary: s) (auto intro: step_wf step_alive)

lemma mounted_run_alive: "poll_wf s \<Longrightarrow> poll_alive (run c (Mount # es) s)"
  by (simp add: mount_alive run_alive step_wf)

lemma one_task: "poll_wf s \<Longrightarrow> ps_tasks (run c es s) \<le> 1 \<and> length (ps_armed (run c es s)) \<le> 1"
  using run_wf [of s c es] by (auto simp: poll_wf_def split: if_splits)

lemma step_in_range: "in_backoff_range c s \<Longrightarrow> in_backoff_range c (step c e s)"
  using other_current [of c e s] unfolding in_backoff_range_def
  by (elim disjE conjE) (simp_all add: backoff_range)

lemma run_in_range: "in_backoff_range c s \<Longrightarrow> in_backoff_range c (run c es s)"
  by (induction es arbitrary: s) (auto intro: step_in_range)

lemma run_stopped:
  "ps_stopped s \<Longrightarrow> Mount \<notin> set es \<Longrightarrow> StartCall \<notin> set es \<Longrightarrow> ps_stopped (run c es s)"
proof (induction es arbitrary: s)
  case (Cons e es)
  then have "ps_stopped (step c e s)" by (intro stays_stopped) auto
  with Cons show ?case by simp
qed simp

lemma stopped_never_starts:
  "ps_stopped s \<Longrightarrow> poll_wf s \<Longrightarrow> Mount \<notin> set es \<Longrightarrow> StartCall \<notin> set es \<Longrightarrow>
   ps_tasks (run c es s) \<le> ps_tasks s \<and> ps_armed (run c es s) = []"
proof (induction es arbitrary: s)
  case Nil
  then show ?case by (auto simp: poll_wf_def)
next
  case (Cons e es)
  have "ps_tasks (step c e s) \<le> 1" "ps_tasks s \<le> 1"
    using Cons.prems(2) step_wf [of s c e] by (auto simp: poll_wf_def)
  then have "ps_tasks (step c e s) \<le> ps_tasks s"
    using task_starts [of c e s] Cons.prems(1) by (cases "ps_tasks s"; cases "ps_tasks (step c e s)") auto
  moreover have "ps_stopped (step c e s)" "poll_wf (step c e s)"
    using Cons.prems by (auto intro: stays_stopped step_wf)
  then have "ps_tasks (run c es (step c e s)) \<le> ps_tasks (step c e s) \<and> ps_armed (run c es (step c e s)) = []"
    using Cons.IH Cons.prems(3,4) by simp
  ultimately show ?case by simp
qed

end

section \<open>Both modules are pollers\<close>

lemma clearTimer_fields [simp]:
  "ps_running (clearTimer s) = ps_running s" "ps_stopped (clearTimer s) = ps_stopped s"
  "ps_current (clearTimer s) = ps_current s" "ps_tasks (clearTimer s) = ps_tasks s"
  "ps_hidden (clearTimer s) = ps_hidden s" "ps_enabled (clearTimer s) = ps_enabled s"
  by (auto simp: clearTimer_def split: option.split)

lemma schedule_fields [simp]:
  "ps_running (schedule d s) = ps_running s" "ps_stopped (schedule d s) = ps_stopped s"
  "ps_current (schedule d s) = ps_current s" "ps_tasks (schedule d s) = ps_tasks s"
  "ps_hidden (schedule d s) = ps_hidden s" "ps_enabled (schedule d s) = ps_enabled s"
  by (auto simp: schedule_def set_timeout_def Let_def)

text \<open>The timers are as \<open>poll_wf\<close> wants them, whatever the other fields say.\<close>

definition timers_ok :: "poll_state \<Rightarrow> bool" where
  "timers_ok s \<longleftrightarrow> ps_armed s = [] \<or> (\<exists>i d. ps_armed s = [(i, d)] \<and> ps_timer s = Some i)"

lemma clearTimer_armed [simp]: "timers_ok s \<Longrightarrow> ps_armed (clearTimer s) = []"
  by (auto simp: clearTimer_def timers_ok_def split: option.split)

lemma unarmed_timers: "ps_armed s = [] \<Longrightarrow> timers_ok s"
  by (simp add: timers_ok_def)

lemma set_timeout_timers: "ps_armed s = [] \<Longrightarrow> timers_ok (set_timeout d s)"
  by (simp add: timers_ok_def set_timeout_def)

lemma schedule_timers [simp]: "timers_ok s \<Longrightarrow> timers_ok (schedule d s)"
  by (simp add: schedule_def Let_def set_timeout_timers unarmed_timers)

lemma schedule_armed [simp]:
  "timers_ok s \<Longrightarrow> ps_armed (schedule d s) = [] \<longleftrightarrow> ps_stopped s"
  by (simp add: schedule_def set_timeout_def Let_def)

lemma timers_ok_frame [simp]:
  "timers_ok (s\<lparr>ps_running := a\<rparr>) = timers_ok s" "timers_ok (s\<lparr>ps_stopped := a\<rparr>) = timers_ok s"
  "timers_ok (s\<lparr>ps_current := n\<rparr>) = timers_ok s" "timers_ok (s\<lparr>ps_tasks := t\<rparr>) = timers_ok s"
  "timers_ok (s\<lparr>ps_enabled := a\<rparr>) = timers_ok s" "timers_ok (s\<lparr>ps_hidden := a\<rparr>) = timers_ok s"
  "timers_ok (s\<lparr>ps_mounted := a\<rparr>) = timers_ok s"
  by (simp_all add: timers_ok_def)

lemma timers_ok_fired [simp]:
  "timers_ok s \<Longrightarrow> timers_ok (s\<lparr>ps_armed := filter (\<lambda>a. fst a \<noteq> i) (ps_armed s)\<rparr>)"
  unfolding timers_ok_def by (elim disjE exE conjE) simp_all

lemma poll_wf_alt: "poll_wf s \<longleftrightarrow> timers_ok s \<and>
    ps_tasks s = (if ps_running s then 1 else 0) \<and> (ps_stopped s \<longrightarrow> ps_armed s = [])"
  by (simp add: poll_wf_def timers_ok_def)

lemmas poll_ops = start_def stop_def trigger_def tick_def smart_tick_def task_settled_def
  smart_settled_def start_task_def onVisibility_def Let_def

interpretation scheduler: poller scheduler_step
proof
  fix s c e
  show "poll_wf s \<Longrightarrow> poll_wf (scheduler_step c e s)"
    by (cases e) (auto simp: poll_wf_alt poll_ops timers_ok_def [of "clearTimer _"])
  show "poll_wf s \<Longrightarrow> poll_alive s \<Longrightarrow> poll_alive (scheduler_step c e s)"
    by (cases e) (auto simp: poll_wf_alt poll_alive_def poll_ops)
  show "poll_wf s \<Longrightarrow> poll_alive (scheduler_step c Mount s)"
    by (auto simp: poll_wf_alt poll_alive_def poll_ops)
  show "ps_current (scheduler_step c e s) = ps_current s \<or> ps_current (scheduler_step c e s) = pc_interval c
     \<or> (ps_current (scheduler_step c e s) = backoff c (ps_current s) \<and> e = TaskSettles False)"
    by (cases e) (auto simp: poll_ops)
  show "ps_tasks (scheduler_step c e s) = Suc (ps_tasks s) \<Longrightarrow>
      (\<exists>i. e = TimerFires i) \<and> \<not> ps_stopped s \<and> \<not> enabled_off c s"
    by (cases e) (auto simp: poll_ops enabled_off_def split: if_splits)
  show "ps_stopped s \<Longrightarrow> e \<noteq> Mount \<Longrightarrow> e \<noteq> StartCall \<Longrightarrow> ps_stopped (scheduler_step c e s)"
    by (cases e) (auto simp: poll_ops)
qed (auto simp: poll_ops)

interpretation smart: poller smart_step
proof
  fix s c e
  show "poll_wf s \<Longrightarrow> poll_wf (smart_step c e s)"
    by (cases e) (auto simp: poll_wf_alt poll_ops timers_ok_def [of "clearTimer _"])
  show "poll_wf s \<Longrightarrow> poll_alive s \<Longrightarrow> poll_alive (smart_step c e s)"
    by (cases e) (auto simp: poll_wf_alt poll_alive_def poll_ops)
  show "poll_wf s \<Longrightarrow> poll_alive (smart_step c Mount s)"
    by (auto simp: poll_wf_alt poll_alive_def poll_ops)
  show "ps_current (smart_step c e s) = ps_current s \<or> ps_current (smart_step c e s) = pc_interval c
     \<or> (ps_current (smart_step c e s) = backoff c (ps_current s) \<and> e = TaskSettles False)"
    by (cases e) (auto simp: poll_ops)
  show "ps_tasks (smart_step c e s) = Suc (ps_tasks s) \<Longrightarrow>
      (\<exists>i. e = TimerFires i) \<and> \<not> ps_stopped s \<and> \<not> enabled_off c s"
    by (cases e) (auto simp: poll_ops enabled_off_def split: if_splits)
  show "ps_stopped s \<Longrightarrow> e \<noteq> Mount \<Longrightarrow> e \<noteq> StartCall \<Longrightarrow> ps_stopped (smart_step c e s)"
    by (cases e) (auto simp: poll_ops)
qed (auto simp: poll_ops)

lemma initial_wf: "poll_wf (initial_poll c en hid)"
  by (simp add: poll_wf_def initial_poll_def)

lemma initial_in_range: "in_backoff_range c (initial_poll c en hid)"
  by (simp add: in_backoff_range_def initial_poll_def)

section \<open>Backing off\<close>

lemma backoff_iterate:
  assumes "factor c = of_int k" and "1 \<le> k" and "0 \<le> pc_interval c" and "pc_interval c \<le> maxIntervalMs c"
  shows "(backoff c ^^ n) (pc_interval c) = min (maxIntervalMs c) (pc_interval c * k ^ n)"
proof (induction n)
  case 0
  with assms show ?case by simp
next
  case (Suc n)
  let ?i = "pc_interval c" and ?m = "maxIntervalMs c"
  have fl: "\<lfloor>of_int x * factor c\<rfloor> = x * k" for x
    using assms(1) by (metis floor_of_int of_int_mult)
  have ge: "?i \<le> ?i * k ^ n" for n
    using assms(2,3) by (simp add: mult_le_cancel_left1)
  show ?case
  proof (cases "?i * k ^ n \<le> ?m")
    case True
    then show ?thesis
      using Suc ge [of "Suc n"] by (simp add: backoff_def fl mult.commute mult.left_commute)
  next
    case False
    have "?m * 1 \<le> ?m * k" using assms(2,3,4) by (intro mult_left_mono) auto
    moreover have "?i * k ^ n * 1 \<le> ?i * k ^ n * k"
      using assms(2) ge [of n] assms(3) by (intro mult_left_mono) auto
    ultimately show ?thesis
      using Suc False assms(4) by (simp add: backoff_def fl mult.commute mult.left_commute)
  qed
qed

text \<open>A poller waiting for its one timer, free to run the task when it fires.\<close>

definition poll_ready :: "poll_cfg \<Rightarrow> poll_state \<Rightarrow> bool" where
  "poll_ready c s \<longleftrightarrow> poll_wf s \<and> ps_armed s \<noteq> [] \<and> \<not> ps_running s \<and> \<not> enabled_off c s"

text \<open>The armed timer fires and the task it starts settles.\<close>

definition poll_round :: "poll_cfg \<Rightarrow> bool \<Rightarrow> poll_state \<Rightarrow> poll_state" where
  "poll_round c okay s = (case ps_armed s of
      [] \<Rightarrow> s
    | (i, d) # _ \<Rightarrow> scheduler_step c (TaskSettles okay) (scheduler_step c (TimerFires i) s))"

lemma poll_round_ready:
  assumes "poll_ready c s"
  shows "poll_ready c (poll_round c okay s) \<and>
    ps_current (poll_round c okay s) = (if okay then pc_interval c else backoff c (ps_current s))"
proof -
  obtain i d where a: "ps_armed s = [(i, d)]" "ps_timer s = Some i"
    and r: "\<not> ps_running s" "\<not> ps_stopped s" "ps_tasks s = 0" "\<not> enabled_off c s"
    using assms by (auto simp: poll_ready_def poll_wf_def)
  have en: "\<not> pc_has_enabled c \<or> ps_enabled s" using r by (simp add: enabled_off_def)
  let ?s = "poll_round c okay s"
  have "poll_wf ?s"
    unfolding poll_round_def a(1) list.case prod.case
    using assms by (intro scheduler.step_wf) (simp add: poll_ready_def)
  moreover have "ps_armed ?s \<noteq> [] \<and> \<not> ps_running ?s \<and> \<not> enabled_off c ?s \<and>
      ps_current ?s = (if okay then pc_interval c else backoff c (ps_current s))"
    using a r en by (auto simp: poll_round_def poll_ops schedule_def set_timeout_def enabled_off_def)
  ultimately show ?thesis by (simp add: poll_ready_def)
qed

lemma failing_rounds:
  "poll_ready c s \<Longrightarrow> poll_ready c ((poll_round c False ^^ n) s) \<and>
   ps_current ((poll_round c False ^^ n) s) = (backoff c ^^ n) (ps_current s)"
  by (induction n) (auto simp: poll_round_ready)

lemma mounted_ready:
  "\<not> pc_has_enabled c \<Longrightarrow> poll_ready c (scheduler_step c Mount (initial_poll c en hid))"
  by (simp add: poll_ready_def poll_wf_def initial_poll_def enabled_off_def poll_ops schedule_def
      clearTimer_def set_timeout_def)

section \<open>Properties\<close>

text \<open>C5. Whatever the order of interface calls, timer firings, task completions and visibility
  changes, both pollers never have more than one task in flight nor more than one timer armed, the
  \<open>running\<close> flag says exactly whether a task is in flight, and the armed timer is the one the
  \<open>timer\<close> ref names.\<close>

theorem pollers_single_flight:
  "(let s = scheduler.run c es (initial_poll c en hid) in
      poll_wf s \<and> ps_tasks s \<le> 1 \<and> length (ps_armed s) \<le> 1) \<and>
   (let s = smart.run c es (initial_poll c en hid) in
      poll_wf s \<and> ps_tasks s \<le> 1 \<and> length (ps_armed s) \<le> 1)"
  using scheduler.one_task [OF initial_wf] smart.one_task [OF initial_wf]
  by (simp add: Let_def initial_wf scheduler.run_wf smart.run_wf)

text \<open>No lost wake-up: once its component is mounted, a poller that has not been stopped always
  has an armed timer or a task in flight whose completion arms one, after any further events.\<close>

lemma pollers_never_stall:
  "(let s = scheduler.run c (pre @ Mount # es) (initial_poll c en hid) in
      ps_stopped s \<or> ps_tasks s = 1 \<or> 0 < length (ps_armed s)) \<and>
   (let s = smart.run c (pre @ Mount # es) (initial_poll c en hid) in
      ps_stopped s \<or> ps_tasks s = 1 \<or> 0 < length (ps_armed s))"
proof -
  let ?s = "scheduler.run c (pre @ Mount # es) (initial_poll c en hid)"
  let ?t = "smart.run c (pre @ Mount # es) (initial_poll c en hid)"
  have "poll_wf ?s" and "poll_wf ?t"
    by (intro scheduler.run_wf smart.run_wf initial_wf)+
  moreover have "poll_alive ?s"
    unfolding scheduler.run_append by (intro scheduler.mounted_run_alive scheduler.run_wf initial_wf)
  moreover have "poll_alive ?t"
    unfolding smart.run_append by (intro smart.mounted_run_alive smart.run_wf initial_wf)
  ultimately show ?thesis by (auto simp: Let_def poll_alive_def poll_wf_def)
qed

text \<open>After mounting with the default doubling factor, \<open>n\<close> consecutive failures set the polling
  interval to \<open>min max (interval * 2 ^ n)\<close>, and a success sets it back to the base interval.\<close>

lemma scheduler_backs_off:
  assumes "pc_factor c = None" and "\<not> pc_has_enabled c"
    and "0 \<le> pc_interval c" and "pc_interval c \<le> maxIntervalMs c"
  shows "ps_current ((poll_round c False ^^ n) (scheduler_step c Mount (initial_poll c en hid)))
           = min (maxIntervalMs c) (pc_interval c * 2 ^ n) \<and>
         ps_current (poll_round c True
             ((poll_round c False ^^ n) (scheduler_step c Mount (initial_poll c en hid)))) = pc_interval c"
proof -
  let ?s = "scheduler_step c Mount (initial_poll c en hid)"
  have "poll_ready c ?s" using assms(2) by (rule mounted_ready)
  moreover have "ps_current ?s = pc_interval c" by (rule scheduler.mount_current)
  moreover have "factor c = of_int 2" using assms(1) by (simp add: factor_def)
  ultimately show ?thesis
    using failing_rounds [of c ?s n] backoff_iterate [of c 2 n] assms(3,4) by (simp add: poll_round_ready)
qed

lemma scheduler_backs_off_example:
  "let c = \<lparr>pc_interval = 5000, pc_immediate = False, pc_background = Some 15000, pc_factor = None,
            pc_max = Some 60000, pc_has_enabled = False\<rparr>;
       s = scheduler_step c Mount (initial_poll c True False)
   in ps_current ((poll_round c False ^^ 4) s) = 60000 \<and>
      ps_current (poll_round c True ((poll_round c False ^^ 4) s)) = 5000"
  unfolding Let_def
  using scheduler_backs_off [of "\<lparr>pc_interval = 5000, pc_immediate = False, pc_background = Some 15000,
      pc_factor = None, pc_max = Some 60000, pc_has_enabled = False\<rparr>" 4 True False]
  by (simp add: maxIntervalMs_def)

text \<open>A stopped poller stays silent: until it is mounted or started again, no event starts a task
  or leaves a timer armed, for both modules.\<close>

lemma stopped_pollers_silent:
  assumes "Mount \<notin> set es" and "StartCall \<notin> set es"
  shows "ps_armed (scheduler.run c (pre @ StopCall # es) (initial_poll c en hid)) = [] \<and>
         ps_tasks (scheduler.run c (pre @ StopCall # es) (initial_poll c en hid))
           \<le> ps_tasks (scheduler.run c pre (initial_poll c en hid)) \<and>
         ps_armed (smart.run c (pre @ StopCall # es) (initial_poll c en hid)) = [] \<and>
         ps_tasks (smart.run c (pre @ StopCall # es) (initial_poll c en hid))
           \<le> ps_tasks (smart.run c pre (initial_poll c en hid))"
proof -
  let ?s = "scheduler.run c pre (initial_poll c en hid)" and ?t = "smart.run c pre (initial_poll c en hid)"
  have w: "poll_wf ?s" "poll_wf ?t" by (simp_all add: initial_wf scheduler.run_wf smart.run_wf)
  have "ps_tasks (scheduler_step c StopCall ?s) = ps_tasks ?s" "ps_tasks (smart_step c StopCall ?t) = ps_tasks ?t"
    by (simp_all add: stop_def)
  then show ?thesis
    using scheduler.stopped_never_starts [of "scheduler_step c StopCall ?s" es c]
      smart.stopped_never_starts [of "smart_step c StopCall ?t" es c]
      scheduler.step_wf [OF w(1), of c StopCall] smart.step_wf [OF w(2), of c StopCall] assms
      scheduler.stop_stopped(1) [of c ?s] smart.stop_stopped(1) [of c ?t]
    by (simp add: scheduler.run_append smart.run_append)
qed

lemma stopped_pollers_silent_example:
  "let c = \<lparr>pc_interval = 5000, pc_immediate = True, pc_background = None, pc_factor = None,
            pc_max = None, pc_has_enabled = False\<rparr>
   in ps_armed (scheduler.run c ([Mount, TimerFires 0] @ StopCall # [TaskSettles False, TriggerCall])
        (initial_poll c True False)) = []"
  unfolding Let_def by (rule stopped_pollers_silent [THEN conjunct1]) simp_all

end
