(* ===== verification/EventStream.thy ===== *)
theory EventStream
  imports JsValue
begin

text \<open>
  \<open>web/src/composables/useEventStream.ts\<close>: the reader of a server-sent event stream. First
  the line loop that turns decoded text into events, then the connection with its abort
  controller, pause flag and reconnect timer. \<open>options.parse\<close> and the server are parameters.
\<close>

section \<open>The line loop\<close>

record 't sse_options =
  so_event_name :: jstr
  so_parse :: "jstr \<Rightarrow> 't outcome"

datatype 't emission = OnEvent 't | OnRaw jstr jstr

type_synonym sse_fields = "jstr \<times> jstr list"

abbreviation nl :: nat where "nl \<equiv> 10"
abbreviation cr :: nat where "cr \<equiv> 13"

definition chomp :: "jstr \<Rightarrow> jstr" where
  "chomp line = (if line \<noteq> [] \<and> last line = cr then butlast line else line)"

definition dispatch :: "'t sse_options \<Rightarrow> sse_fields \<Rightarrow> 't emission list \<times> sse_fields outcome" where
  "dispatch opt f =
     (let payload = join_with [nl] (snd f);
          raw = (if fst f \<noteq> [] then [OnRaw (fst f) payload] else [])
      in if fst f = so_event_name opt then
           (case so_parse opt payload of
              Inl err \<Rightarrow> ([], Inl err)
            | Inr t \<Rightarrow> (OnEvent t # raw, Inr ([], [])))
         else (raw, Inr ([], [])))"

definition process_line :: "'t sse_options \<Rightarrow> sse_fields \<Rightarrow> jstr \<Rightarrow> 't emission list \<times> sse_fields outcome" where
  "process_line opt f line =
     (if line = [] then dispatch opt f
      else if starts_with line (js ''event:'') then ([], Inr (trim (drop 6 line), snd f))
      else if starts_with line (js ''data:'') then ([], Inr (fst f, snd f @ [trim_start (drop 5 line)]))
      else ([], Inr f))"

lemma drain_rest_shorter:
  "x \<in> set xs \<Longrightarrow> length (dropWhile (\<lambda>c. c \<noteq> x) xs) - Suc 0 < length xs"
  using length_dropWhile_le [of "\<lambda>c. c \<noteq> x" xs] by (cases xs) auto

text \<open>The inner \<open>while (true)\<close>: one line at a time until the buffer holds no newline.\<close>

function drain :: "'t sse_options \<Rightarrow> sse_fields \<Rightarrow> jstr \<Rightarrow> 't emission list \<times> (sse_fields \<times> jstr) outcome" where
  "drain opt f buffer =
     (if nl \<notin> set buffer then ([], Inr (f, buffer))
      else (let line = chomp (takeWhile (\<lambda>c. c \<noteq> nl) buffer);
                rest = tl (dropWhile (\<lambda>c. c \<noteq> nl) buffer)
            in case process_line opt f line of
                 (es, Inl err) \<Rightarrow> (es, Inl err)
               | (es, Inr f') \<Rightarrow> (case drain opt f' rest of (es', r) \<Rightarrow> (es @ es', r))))"
  by pat_completeness auto

termination drain
  by (relation "measure (\<lambda>(opt, f, b). length b)") (auto simp: drain_rest_shorter)

declare drain.simps [simp del]

definition feed :: "'t sse_options \<Rightarrow> sse_fields \<times> jstr \<Rightarrow> jstr \<Rightarrow> 't emission list \<times> (sse_fields \<times> jstr) outcome" where
  "feed opt st chunk = drain opt (fst st) (snd st @ chunk)"

text \<open>The outer loop over the chunks the network delivers.\<close>

fun feeds :: "'t sse_options \<Rightarrow> sse_fields \<times> jstr \<Rightarrow> jstr list \<Rightarrow> 't emission list \<times> (sse_fields \<times> jstr) outcome" where
  "feeds opt st [] = ([], Inr st)"
| "feeds opt st (c # cs) =
     (case feed opt st c of
        (es, Inl err) \<Rightarrow> (es, Inl err)
      | (es, Inr st') \<Rightarrow> (case feeds opt st' cs of (es', r) \<Rightarrow> (es @ es', r)))"

section \<open>Reference: the stream as a list of lines\<close>

fun run_lines :: "'t sse_options \<Rightarrow> sse_fields \<Rightarrow> jstr list \<Rightarrow> 't emission list \<times> sse_fields outcome" where
  "run_lines opt f [] = ([], Inr f)"
| "run_lines opt f (l # ls) =
     (case process_line opt f (chomp l) of
        (es, Inl err) \<Rightarrow> (es, Inl err)
      | (es, Inr f') \<Rightarrow> (case run_lines opt f' ls of (es', r) \<Rightarrow> (es @ es', r)))"

definition with_rest :: "jstr \<Rightarrow> 'e list \<times> sse_fields outcome \<Rightarrow> 'e list \<times> (sse_fields \<times> jstr) outcome" where
  "with_rest rest p = (case p of (es, Inl err) \<Rightarrow> (es, Inl err) | (es, Inr f) \<Rightarrow> (es, Inr (f, rest)))"

definition read_text :: "'t sse_options \<Rightarrow> sse_fields \<Rightarrow> jstr \<Rightarrow> 't emission list \<times> (sse_fields \<times> jstr) outcome" where
  "read_text opt f text = with_rest (last (split_on nl text)) (run_lines opt f (butlast (split_on nl text)))"

lemma split_on_first:
  "d \<in> set s \<Longrightarrow> split_on d s = takeWhile (\<lambda>c. c \<noteq> d) s # split_on d (tl (dropWhile (\<lambda>c. c \<noteq> d) s))"
  by (induction s) auto

lemma drain_eq: "drain opt f buffer = read_text opt f buffer"
proof (induction opt f buffer rule: drain.induct)
  case (1 opt f buffer)
  show ?case
  proof (cases "nl \<in> set buffer")
    case False
    then show ?thesis
      by (simp add: drain.simps [of opt f buffer] read_text_def split_on_free with_rest_def)
  next
    case True
    then show ?thesis
      using "1.IH" [OF _ refl refl]
      by (auto simp: drain.simps [of opt f buffer] read_text_def split_on_first [OF True] with_rest_def Let_def
          split: prod.splits sum.splits)
  qed
qed

lemma run_lines_append:
  "run_lines opt f (ls @ ms) =
     (case run_lines opt f ls of
        (es, Inl err) \<Rightarrow> (es, Inl err)
      | (es, Inr f') \<Rightarrow> (case run_lines opt f' ms of (es', r) \<Rightarrow> (es @ es', r)))"
  by (induction ls arbitrary: f) (auto split: prod.splits sum.splits)

lemma split_on_append:
  "split_on d (a @ b) = butlast (split_on d a) @ split_on d (last (split_on d a) @ b)"
proof (induction a)
  case (Cons c a)
  then show ?case
    by (cases "split_on d a"; cases "tl (split_on d a)") (auto split: list.splits)
qed simp

lemma read_text_append:
  "read_text opt f (a @ b) =
     (case read_text opt f a of
        (es, Inl err) \<Rightarrow> (es, Inl err)
      | (es, Inr (f', rest)) \<Rightarrow> (case read_text opt f' (rest @ b) of (es', r) \<Rightarrow> (es @ es', r)))"
proof -
  let ?p = "butlast (split_on nl a)" and ?q = "split_on nl (last (split_on nl a) @ b)"
  have "split_on nl (a @ b) = ?p @ ?q" by (rule split_on_append)
  moreover have "butlast (?p @ ?q) = ?p @ butlast ?q" "last (?p @ ?q) = last ?q"
    by (simp_all add: butlast_append)
  ultimately show ?thesis
    by (auto simp: read_text_def with_rest_def run_lines_append split: prod.splits sum.splits)
qed

lemma feeds_eq: "feeds opt (f, rest) cs =
    (if cs = [] then ([], Inr (f, rest)) else read_text opt f (rest @ concat cs))"
proof (induction cs arbitrary: f rest)
  case (Cons c cs)
  show ?case
  proof (cases "read_text opt f (rest @ c)")
    case (Pair es r)
    show ?thesis
    proof (cases r)
      case (Inl err)
      with Pair show ?thesis
        using read_text_append [of opt f "rest @ c" "concat cs"] by (simp add: feed_def drain_eq)
    next
      case (Inr st)
      obtain f' rest' where st: "st = (f', rest')" by (cases st)
      have n: "nl \<notin> set rest'"
      proof -
        have "rest' = last (split_on nl (rest @ c))"
          using Pair Inr st by (auto simp: read_text_def with_rest_def split: prod.splits sum.splits)
        moreover have "nl \<notin> set (last (split_on nl s))" for s
          by (induction s) (auto split: list.splits if_splits)
        ultimately show ?thesis by simp
      qed
      have nil: "read_text opt f' rest' = ([], Inr (f', rest'))"
        using n by (simp add: read_text_def split_on_free with_rest_def)
      show ?thesis
        using Pair Inr st nil read_text_append [of opt f "rest @ c" "concat cs"]
        by (simp add: feed_def drain_eq Cons.IH)
    qed
  qed
qed simp

section \<open>Frames\<close>

text \<open>How the server writes one event, and when the text of it survives the reader: no line
  breaks inside a field, no white space the reader strips, no carriage return at a line's end.\<close>

definition field_ok :: "jstr \<Rightarrow> bool" where
  "field_ok s \<longleftrightarrow> nl \<notin> set s \<and> (s = [] \<or> last s \<noteq> cr) \<and> trim_start s = s"

definition frame_ok :: "jstr \<times> jstr list \<Rightarrow> bool" where
  "frame_ok fr \<longleftrightarrow> field_ok (fst fr) \<and> trim (fst fr) = fst fr \<and> (\<forall>l\<in>set (snd fr). field_ok l)"

definition frame_lines :: "jstr \<times> jstr list \<Rightarrow> jstr list" where
  "frame_lines fr = (js ''event: '' @ fst fr) # map (\<lambda>l. js ''data: '' @ l) (snd fr) @ [[]]"

definition encode_frame :: "jstr \<times> jstr list \<Rightarrow> jstr" where
  "encode_frame fr = concat (map (\<lambda>l. l @ [nl]) (frame_lines fr))"

text \<open>What the callbacks should see of a frame.\<close>

definition frame_emissions :: "'t sse_options \<Rightarrow> jstr \<times> jstr list \<Rightarrow> 't emission list" where
  "frame_emissions opt fr =
     (let payload = join_with [nl] (snd fr) in
      (if fst fr = so_event_name opt
       then (case so_parse opt payload of Inr t \<Rightarrow> [OnEvent t] | Inl _ \<Rightarrow> []) else []) @
      (if fst fr \<noteq> [] then [OnRaw (fst fr) payload] else []))"

lemma trim_leading_space: "trim (32 # s) = trim s" "trim_start (32 # s) = trim_start s"
  by (simp_all add: trim_def trim_start_def is_space_def)

lemma chomp_field: "field_ok l \<Longrightarrow> chomp (32 # l) = 32 # l" "field_ok l \<Longrightarrow> chomp (p @ 32 # l) = p @ 32 # l"
  by (auto simp: chomp_def field_ok_def)

lemma run_data_lines:
  "\<forall>l\<in>set ls. field_ok l \<Longrightarrow>
   run_lines opt (n, ds) (map (\<lambda>l. js ''data: '' @ l) ls @ [[]]) = run_lines opt (n, ds @ ls) [[]]"
proof (induction ls arbitrary: ds)
  case (Cons l ls)
  have d: "js ''data: '' @ l = js ''data:'' @ 32 # l" by (simp add: js_def)
  have "process_line opt (n, ds) (chomp (js ''data: '' @ l)) = ([], Inr (n, ds @ [l]))"
    using Cons.prems unfolding d
    by (simp add: chomp_field process_line_def starts_with_def trim_leading_space)
      (simp add: js_def field_ok_def)
  with Cons show ?case by simp
qed simp

lemma run_frame:
  assumes "frame_ok fr" and "(\<exists>t. so_parse opt (join_with [nl] (snd fr)) = Inr t) \<or> fst fr \<noteq> so_event_name opt"
  shows "run_lines opt (n, []) (frame_lines fr) = (frame_emissions opt fr, Inr ([], []))"
proof -
  have e: "js ''event: '' @ fst fr = js ''event:'' @ 32 # fst fr" by (simp add: js_def)
  have "process_line opt (n, []) (chomp (js ''event: '' @ fst fr)) = ([], Inr (fst fr, []))"
    using assms(1) unfolding e
    by (simp add: frame_ok_def chomp_field process_line_def starts_with_def trim_leading_space)
  moreover have "run_lines opt (fst fr, snd fr) [[]] = (frame_emissions opt fr, Inr ([], []))"
    using assms(2) by (auto simp: chomp_def process_line_def dispatch_def frame_emissions_def Let_def)
  ultimately show ?thesis
    using assms(1) by (simp add: frame_lines_def run_data_lines frame_ok_def)
qed

lemma frame_lines_newline_free: "frame_ok fr \<Longrightarrow> \<forall>l\<in>set (frame_lines fr). nl \<notin> set l"
  by (auto simp: frame_lines_def frame_ok_def field_ok_def js_def)

lemma split_lines:
  "\<forall>l\<in>set ls. nl \<notin> set l \<Longrightarrow> split_on nl (concat (map (\<lambda>l. l @ [nl]) ls)) = ls @ [[]]"
  by (induction ls) (auto simp: split_on_append_sep)

lemma encode_frames_lines:
  "concat (map encode_frame frs) = concat (map (\<lambda>l. l @ [nl]) (concat (map frame_lines frs)))"
  by (induction frs) (simp_all add: encode_frame_def)

lemma run_frames:
  "\<forall>fr\<in>set frs. frame_ok fr \<and> (\<exists>t. so_parse opt (join_with [nl] (snd fr)) = Inr t) \<Longrightarrow>
   run_lines opt ([], []) (concat (map frame_lines frs)) =
     (concat (map (frame_emissions opt) frs), Inr ([], []))"
  by (induction frs) (simp_all add: run_lines_append run_frame)

end
