(* ===== verification/Connection.thy ===== *)
theory Connection
  imports EventStream Interfaces
begin

text \<open>
  The connection of \<open>useEventStream.ts\<close>. The state is the composable's refs together with
  what the platform keeps for it: the requests that are open (waiting for a response, or being
  read), the armed timers, the requests sent and the callbacks run. Aborting a controller makes
  its pending promise reject and the \<open>catch\<close> clause returns at once, so an aborted request
  is one that is no longer open. \<open>eo_pause_on\<close> says on which callbacks the client calls
  \<open>setPaused(true)\<close>.
\<close>

section \<open>State\<close>

record 't stream_options =
  eo_path :: jstr
  eo_sse :: "'t sse_options"
  eo_delay :: "int option"
  eo_pause_on :: "'t emission \<Rightarrow> bool"

datatype phase = Fetching | Reading "sse_fields \<times> jstr"

record 't stream =
  es_connected :: bool
  es_paused :: bool
  es_error :: jstr
  es_abort :: "nat option"
  es_timer :: "nat option"
  es_query :: "(jstr \<times> jsval) list"
  es_token :: jstr
  es_live :: "nat \<Rightarrow> phase option"
  es_armed :: "(nat \<times> int) list"
  es_next :: nat
  es_sent :: "(jstr \<times> jstr) list"
  es_out :: "'t emission list"

definition initial_stream :: "(jstr \<times> jsval) list \<Rightarrow> jstr \<Rightarrow> 't stream" where
  "initial_stream query token = \<lparr>es_connected = False, es_paused = False, es_error = [],
     es_abort = None, es_timer = None, es_query = query, es_token = token, es_live = Map.empty,
     es_armed = [], es_next = 0, es_sent = [], es_out = []\<rparr>"

section \<open>Operations\<close>

definition buildUrl :: "'t stream_options \<Rightarrow> 't stream \<Rightarrow> jstr" where
  "buildUrl opt s =
     (let qs = search_params (map (\<lambda>(k, v). (k, to_string v))
                 (filter (\<lambda>(k, v). \<not> (nullish v \<or> v = JStr [])) (es_query s)))
      in js ''/api'' @ eo_path opt @ (if qs \<noteq> [] then js ''?'' @ qs else []))"

definition clearReconnectTimer :: "'t stream \<Rightarrow> 't stream" where
  "clearReconnectTimer s = (case es_timer s of
      None \<Rightarrow> s
    | Some t \<Rightarrow> s\<lparr>es_armed := filter (\<lambda>a. fst a \<noteq> t) (es_armed s), es_timer := None\<rparr>)"

definition disconnect :: "'t stream \<Rightarrow> 't stream" where
  "disconnect s0 =
     (let s = clearReconnectTimer s0 in
      s\<lparr>es_live := (case es_abort s of None \<Rightarrow> es_live s | Some c \<Rightarrow> (es_live s)(c := None)),
        es_abort := None, es_connected := False\<rparr>)"

definition connect :: "'t stream_options \<Rightarrow> 't stream \<Rightarrow> 't stream" where
  "connect opt s0 =
     (let s = disconnect s0 in
      if es_paused s then s
      else s\<lparr>es_abort := Some (es_next s), es_live := (es_live s)(es_next s \<mapsto> Fetching),
             es_next := Suc (es_next s), es_sent := es_sent s @ [(buildUrl opt s, es_token s)]\<rparr>)"

definition reconnectLater :: "'t stream_options \<Rightarrow> 't stream \<Rightarrow> 't stream" where
  "reconnectLater opt s0 =
     (let s = clearReconnectTimer s0; delay = (case eo_delay opt of Some d \<Rightarrow> d | None \<Rightarrow> 5000) in
      s\<lparr>es_timer := Some (es_next s), es_armed := es_armed s @ [(es_next s, delay)],
        es_next := Suc (es_next s)\<rparr>)"

definition setPaused :: "'t stream_options \<Rightarrow> bool \<Rightarrow> 't stream \<Rightarrow> 't stream" where
  "setPaused opt v s = (if v then disconnect (s\<lparr>es_paused := v\<rparr>) else connect opt (s\<lparr>es_paused := v\<rparr>))"

definition setQuery :: "(jstr \<times> jsval) list \<Rightarrow> 't stream \<Rightarrow> 't stream" where
  "setQuery query s = s\<lparr>es_query := query\<rparr>"

text \<open>The \<open>catch\<close> clause of \<open>connect\<close>: nothing for an aborted request.\<close>

definition stream_failed :: "'t stream_options \<Rightarrow> nat \<Rightarrow> jstr \<Rightarrow> 't stream \<Rightarrow> 't stream" where
  "stream_failed opt c message s =
     (if es_live s c = None then s
      else reconnectLater opt
        (s\<lparr>es_live := (es_live s)(c := None), es_connected := False, es_error := message\<rparr>))"

definition on_response :: "'t stream_options \<Rightarrow> nat \<Rightarrow> int \<Rightarrow> bool \<Rightarrow> 't stream \<Rightarrow> 't stream" where
  "on_response opt c status body s =
     (if es_live s c \<noteq> Some Fetching then s
      else if \<not> (200 \<le> status \<and> status \<le> 299) then stream_failed opt c (js ''HTTP '' @ show_int status) s
      else if \<not> body then stream_failed opt c (js ''No stream body'') s
      else s\<lparr>es_connected := True, es_error := [],
             es_live := (es_live s)(c \<mapsto> Reading (([], []), []))\<rparr>)"

text \<open>The callbacks run inside the line loop, one of them possibly pausing the stream.\<close>

definition run_callbacks :: "'t stream_options \<Rightarrow> 't emission list \<Rightarrow> 't stream \<Rightarrow> 't stream" where
  "run_callbacks opt es s =
     (let s1 = s\<lparr>es_out := es_out s @ es\<rparr> in
      if \<exists>e\<in>set es. eo_pause_on opt e then setPaused opt True s1 else s1)"

definition on_chunk :: "'t stream_options \<Rightarrow> nat \<Rightarrow> jstr \<Rightarrow> 't stream \<Rightarrow> 't stream" where
  "on_chunk opt c chunk s =
     (case es_live s c of
        Some (Reading st) \<Rightarrow>
          (case feed (eo_sse opt) st chunk of (es, r) \<Rightarrow>
            (let s2 = run_callbacks opt es s in
             case r of
                  Inl err \<Rightarrow> stream_failed opt c (thrown_message err) s2
                | Inr st' \<Rightarrow> (if es_live s2 c = None then s2
                              else s2\<lparr>es_live := (es_live s2)(c \<mapsto> Reading st')\<rparr>)))
      | _ \<Rightarrow> s)"

definition on_end :: "'t stream_options \<Rightarrow> nat \<Rightarrow> 't stream \<Rightarrow> 't stream" where
  "on_end opt c s =
     (case es_live s c of
        Some (Reading st) \<Rightarrow>
          (let s1 = s\<lparr>es_live := (es_live s)(c := None), es_connected := False\<rparr> in
           if es_paused s1 then s1 else reconnectLater opt s1)
      | _ \<Rightarrow> s)"

definition on_timer :: "'t stream_options \<Rightarrow> nat \<Rightarrow> 't stream \<Rightarrow> 't stream" where
  "on_timer opt i s =
     (if i \<notin> fst ` set (es_armed s) then s
      else (let s1 = s\<lparr>es_armed := filter (\<lambda>a. fst a \<noteq> i) (es_armed s), es_timer := None\<rparr> in
            if es_paused s1 then s1 else connect opt s1))"

datatype stream_event =
    ConnectCall
  | DisconnectCall
  | PauseCall bool
  | QueryCall "(jstr \<times> jsval) list"
  | Responds nat int bool
  | Rejects nat jstr
  | Delivers nat jstr
  | Ends nat
  | Reconnects nat

fun stream_step :: "'t stream_options \<Rightarrow> stream_event \<Rightarrow> 't stream \<Rightarrow> 't stream" where
  "stream_step opt ConnectCall s = connect opt s"
| "stream_step opt DisconnectCall s = disconnect s"
| "stream_step opt (PauseCall v) s = setPaused opt v s"
| "stream_step opt (QueryCall q) s = setQuery q s"
| "stream_step opt (Responds c status body) s = on_response opt c status body s"
| "stream_step opt (Rejects c message) s = stream_failed opt c message s"
| "stream_step opt (Delivers c chunk) s = on_chunk opt c chunk s"
| "stream_step opt (Ends c) s = on_end opt c s"
| "stream_step opt (Reconnects i) s = on_timer opt i s"

text \<open>The states a composable created with \<open>query\<close> can be in.\<close>

inductive stream_reach :: "'t stream_options \<Rightarrow> 't stream \<Rightarrow> bool" for opt where
  reach_init: "stream_reach opt (initial_stream query token)"
| reach_step: "stream_reach opt s \<Longrightarrow> stream_reach opt (stream_step opt e s)"

section \<open>Invariant\<close>

fun is_reading :: "phase option \<Rightarrow> bool" where
  "is_reading (Some (Reading _)) = True"
| "is_reading _ = False"

definition stream_wf :: "'t stream \<Rightarrow> bool" where
  "stream_wf s \<longleftrightarrow>
     (\<forall>c. es_live s c \<noteq> None \<longrightarrow> es_abort s = Some c) \<and>
     (es_armed s = [] \<or> (\<exists>i d. es_armed s = [(i, d)] \<and> es_timer s = Some i)) \<and>
     (es_armed s = [] \<or> es_live s = Map.empty) \<and>
     (es_paused s \<longrightarrow> es_armed s = [] \<and> es_live s = Map.empty) \<and>
     (es_connected s \<longleftrightarrow> (\<exists>c. is_reading (es_live s c)))"

lemma initial_stream_wf: "stream_wf (initial_stream q t)"
  by (simp add: stream_wf_def initial_stream_def)

lemma clear_fields [simp]:
  "es_live (clearReconnectTimer s) = es_live s" "es_abort (clearReconnectTimer s) = es_abort s"
  "es_paused (clearReconnectTimer s) = es_paused s" "es_connected (clearReconnectTimer s) = es_connected s"
  "es_out (clearReconnectTimer s) = es_out s"
  by (auto simp: clearReconnectTimer_def split: option.split)

definition timers_fine :: "'t stream \<Rightarrow> bool" where
  "timers_fine s \<longleftrightarrow> es_armed s = [] \<or> (\<exists>i d. es_armed s = [(i, d)] \<and> es_timer s = Some i)"

lemma clear_armed: "timers_fine s \<Longrightarrow> es_armed (clearReconnectTimer s) = []"
  by (auto simp: timers_fine_def clearReconnectTimer_def split: option.split)

definition live_in_abort :: "'t stream \<Rightarrow> bool" where
  "live_in_abort s \<longleftrightarrow> (\<forall>c. es_live s c \<noteq> None \<longrightarrow> es_abort s = Some c)"

lemma disconnect_effect:
  assumes "timers_fine s" and "live_in_abort s"
  shows "es_armed (disconnect s) = []" "es_live (disconnect s) = Map.empty"
    "es_abort (disconnect s) = None" "\<not> es_connected (disconnect s)"
    "es_paused (disconnect s) = es_paused s"
  using assms clear_armed [of s]
  by (auto simp: disconnect_def Let_def live_in_abort_def fun_eq_iff split: option.split)

lemma disconnect_wf: "timers_fine s \<Longrightarrow> live_in_abort s \<Longrightarrow> stream_wf (disconnect s)"
  by (simp add: stream_wf_def disconnect_effect)

lemma connect_wf: "timers_fine s \<Longrightarrow> live_in_abort s \<Longrightarrow> stream_wf (connect opt s)"
  using disconnect_effect [of s] disconnect_wf [of s]
  by (auto simp: connect_def Let_def stream_wf_def)

lemma reconnect_wf:
  "timers_fine s \<Longrightarrow> es_live s = Map.empty \<Longrightarrow> \<not> es_paused s \<Longrightarrow> \<not> es_connected s \<Longrightarrow>
   stream_wf (reconnectLater opt s)"
  by (simp add: reconnectLater_def Let_def stream_wf_def clear_armed)

lemma wf_parts:
  "stream_wf s \<Longrightarrow> timers_fine s" "stream_wf s \<Longrightarrow> live_in_abort s"
  by (auto simp: stream_wf_def timers_fine_def live_in_abort_def)

text \<open>An open request is the only one, and nothing waits beside it.\<close>

lemma wf_single:
  assumes "stream_wf s" and "es_live s c = Some p"
  shows "es_live s = [c \<mapsto> p]" "es_abort s = Some c" "\<not> es_paused s" "es_armed s = []"
    "es_connected s = is_reading (Some p)"
proof -
  have "es_live s d = None" if "d \<noteq> c" for d
    using assms that unfolding stream_wf_def by (metis option.distinct(1) option.inject)
  with assms(2) show l: "es_live s = [c \<mapsto> p]" by auto
  show "es_connected s = is_reading (Some p)"
    using assms(1) by (auto simp: stream_wf_def l)
qed (use assms in \<open>auto simp: stream_wf_def\<close>)

lemma single_wf:
  "es_live s = [c \<mapsto> p] \<Longrightarrow> es_abort s = Some c \<Longrightarrow> \<not> es_paused s \<Longrightarrow> es_armed s = [] \<Longrightarrow>
   es_connected s = is_reading (Some p) \<Longrightarrow> stream_wf s"
  by (auto simp: stream_wf_def)

lemma frame_parts [simp]:
  "timers_fine (s\<lparr>es_paused := v\<rparr>) = timers_fine s" "live_in_abort (s\<lparr>es_paused := v\<rparr>) = live_in_abort s"
  "timers_fine (s\<lparr>es_live := l\<rparr>) = timers_fine s" "timers_fine (s\<lparr>es_connected := v\<rparr>) = timers_fine s"
  "timers_fine (s\<lparr>es_error := m\<rparr>) = timers_fine s"
  by (simp_all add: timers_fine_def live_in_abort_def)

lemma failed_wf: "stream_wf s \<Longrightarrow> stream_wf (stream_failed opt c m s)"
  using wf_single [of s c] wf_parts [of s] by (auto simp: stream_failed_def intro!: reconnect_wf)

lemma setPaused_wf: "stream_wf s \<Longrightarrow> stream_wf (setPaused opt v s)"
  by (simp add: setPaused_def disconnect_wf connect_wf wf_parts)

lemma out_wf [simp]: "stream_wf (s\<lparr>es_out := o'\<rparr>) = stream_wf s" "stream_wf (s\<lparr>es_query := q\<rparr>) = stream_wf s"
  by (simp_all add: stream_wf_def)

lemma reading_wf: "stream_wf s \<Longrightarrow> es_live s c = Some p \<Longrightarrow> es_connected s \<Longrightarrow>
    stream_wf (s\<lparr>es_live := (es_live s)(c \<mapsto> Reading st)\<rparr>)"
  using wf_single [of s c p] by (intro single_wf [of _ c "Reading st"]) auto

lemma run_callbacks_wf: "stream_wf s \<Longrightarrow> stream_wf (run_callbacks opt es s)"
  by (simp add: run_callbacks_def Let_def setPaused_wf)

lemma run_callbacks_connected:
  assumes "stream_wf s" and "es_live s c = Some (Reading st)" and "es_live (run_callbacks opt es s) c \<noteq> None"
  shows "es_connected (run_callbacks opt es s)"
proof -
  let ?s = "s\<lparr>es_out := es_out s @ es, es_paused := True\<rparr>"
  have "timers_fine ?s" "live_in_abort ?s"
    using wf_parts [OF assms(1)] by (simp_all add: timers_fine_def live_in_abort_def)
  then have "es_live (disconnect ?s) = Map.empty" by (rule disconnect_effect(2))
  with assms(3) wf_single(5) [OF assms(1,2)] show ?thesis
    by (auto simp: run_callbacks_def Let_def setPaused_def split: if_splits)
qed

lemma chunk_wf:
  assumes w: "stream_wf s"
  shows "stream_wf (on_chunk opt c chunk s)"
proof (cases "\<exists>st. es_live s c = Some (Reading st)")
  case True
  then obtain st where st: "es_live s c = Some (Reading st)" ..
  obtain es r where f: "feed (eo_sse opt) st chunk = (es, r)" by fastforce
  let ?s = "run_callbacks opt es s"
  have "stream_wf (case r of Inl err \<Rightarrow> stream_failed opt c (thrown_message err) ?s
      | Inr st' \<Rightarrow> if es_live ?s c = None then ?s else ?s\<lparr>es_live := (es_live ?s)(c \<mapsto> Reading st')\<rparr>)"
    using run_callbacks_wf [OF w] run_callbacks_connected [OF w st]
    by (auto simp: failed_wf intro!: reading_wf split: sum.split)
  then show ?thesis by (simp add: on_chunk_def st f Let_def)
next
  case False
  with w show ?thesis by (auto simp: on_chunk_def split: option.split phase.split)
qed

lemma response_wf: "stream_wf s \<Longrightarrow> stream_wf (on_response opt c status body s)"
proof (cases "es_live s c = Some Fetching")
  case True
  assume w: "stream_wf s"
  have "stream_wf (s\<lparr>es_connected := True, es_error := [], es_live := (es_live s)(c \<mapsto> Reading (([], []), []))\<rparr>)"
    using wf_single [OF w True] by (intro single_wf [of _ c "Reading (([], []), [])"]) auto
  with w show ?thesis by (simp add: on_response_def failed_wf)
qed (simp add: on_response_def)

lemma end_wf: "stream_wf s \<Longrightarrow> stream_wf (on_end opt c s)"
  using wf_single [of s c] wf_parts [of s]
  by (auto simp: on_end_def Let_def intro!: reconnect_wf split: option.split phase.split)

lemma timer_wf: "stream_wf s \<Longrightarrow> stream_wf (on_timer opt i s)"
proof -
  assume w: "stream_wf s"
  let ?s = "s\<lparr>es_armed := filter (\<lambda>a. fst a \<noteq> i) (es_armed s), es_timer := None\<rparr>"
  show ?thesis
  proof (cases "i \<in> fst ` set (es_armed s)")
    case True
    with w have "es_armed ?s = []" "\<not> es_paused s" by (auto simp: stream_wf_def)
    with w have "timers_fine ?s" "live_in_abort ?s" by (auto simp: timers_fine_def live_in_abort_def stream_wf_def)
    with True \<open>\<not> es_paused s\<close> show ?thesis by (simp add: on_timer_def connect_wf)
  qed (use w in \<open>simp add: on_timer_def\<close>)
qed

lemma stream_step_wf: "stream_wf s \<Longrightarrow> stream_wf (stream_step opt e s)"
  by (cases e) (simp_all add: connect_wf disconnect_wf wf_parts setPaused_wf response_wf failed_wf
      chunk_wf end_wf timer_wf setQuery_def)

lemma stream_reach_wf: "stream_reach opt s \<Longrightarrow> stream_wf s"
  by (induction rule: stream_reach.induct) (auto intro: initial_stream_wf stream_step_wf)

section \<open>The stream keeps trying\<close>

definition stream_busy :: "'t stream \<Rightarrow> bool" where
  "stream_busy s \<longleftrightarrow> es_paused s \<or> es_live s \<noteq> Map.empty \<or> es_armed s \<noteq> []"

lemma reconnect_busy: "stream_busy (reconnectLater opt s)"
  by (simp add: reconnectLater_def Let_def stream_busy_def)

lemma connect_busy: "stream_busy (connect opt s)"
  by (auto simp: connect_def Let_def stream_busy_def fun_eq_iff)

lemma disconnect_paused [simp]: "es_paused (disconnect s) = es_paused s"
  by (simp add: disconnect_def Let_def)

lemma setPaused_busy: "stream_busy (setPaused opt v s)"
  by (simp add: setPaused_def connect_busy) (simp add: stream_busy_def)

lemma run_callbacks_busy: "stream_busy s \<Longrightarrow> stream_busy (run_callbacks opt es s)"
  by (simp add: run_callbacks_def Let_def setPaused_busy) (simp add: stream_busy_def)

lemma failed_busy: "stream_busy s \<Longrightarrow> stream_busy (stream_failed opt c m s)"
  by (simp add: stream_failed_def reconnect_busy)

lemma live_busy: "es_live s c \<noteq> None \<Longrightarrow> stream_busy s"
  by (auto simp: stream_busy_def)

lemma chunk_busy: "stream_busy s \<Longrightarrow> stream_busy (on_chunk opt c chunk s)"
  by (auto simp: on_chunk_def Let_def run_callbacks_busy failed_busy intro: live_busy [of _ c]
      split: option.split phase.split prod.split sum.split)

lemma stream_step_busy:
  "stream_busy s \<Longrightarrow> e \<noteq> DisconnectCall \<Longrightarrow> stream_busy (stream_step opt e s)"
proof (cases e)
  case (Responds c st b)
  assume "stream_busy s"
  with Responds show ?thesis
    by (auto simp: on_response_def failed_busy intro: live_busy [of _ c])
next
  case (Ends c)
  assume "stream_busy s"
  with Ends show ?thesis
    by (auto simp: on_end_def Let_def reconnect_busy stream_busy_def [of "_\<lparr>es_live := _\<rparr>"]
        stream_busy_def [of "_\<lparr>es_live := _, es_connected := _\<rparr>"] split: option.split phase.split)
next
  case (Reconnects i)
  assume "stream_busy s"
  with Reconnects show ?thesis
    by (auto simp: on_timer_def Let_def connect_busy) (auto simp: stream_busy_def)
next
  case (QueryCall q)
  assume "stream_busy s"
  with QueryCall show ?thesis by (simp add: setQuery_def stream_busy_def)
qed (simp_all add: connect_busy setPaused_busy failed_busy chunk_busy)

interpretation running: event_system "\<lambda>s e. stream_step opt e s" "\<lambda>e. e \<noteq> DisconnectCall" stream_busy for opt
  by unfold_locales (rule stream_step_busy)

lemma stream_run_busy:
  "stream_busy s \<Longrightarrow> DisconnectCall \<notin> set es \<Longrightarrow> stream_busy (foldl (\<lambda>s e. stream_step opt e s) s es)"
  by (rule running.run_keeps) (auto simp: list_all_iff)

section \<open>Properties\<close>

text \<open>C2. However the network cuts the byte stream into chunks, the reader runs the same callbacks in
  the same order and ends in the same state as if the whole text had come in one chunk; that is the
  result of processing the text line by line, up to the first line whose event fails to parse.\<close>

theorem sse_chunking_irrelevant:
  "feeds opt (([], []), []) chunks =
     (if chunks = [] then ([], Inr (([], []), [])) else feed opt (([], []), []) (concat chunks)) \<and>
   feed opt (([], []), []) (concat chunks) = read_text opt ([], []) (concat chunks)"
  by (simp add: feeds_eq feed_def drain_eq)

text \<open>C3. Round trip: when the server writes events as \<open>event:\<close> and \<open>data:\<close> lines ended by an empty
  line, and every payload parses, then after any chunking the callbacks have seen exactly these events,
  in order, and nothing is left over.\<close>

theorem sse_frames_roundtrip:
  assumes "\<forall>fr\<in>set frs. frame_ok fr \<and> (\<exists>t. so_parse opt (join_with [10] (snd fr)) = Inr t)"
    and "concat chunks = concat (map encode_frame frs)" and "chunks \<noteq> []"
  shows "feeds opt (([], []), []) chunks = (concat (map (frame_emissions opt) frs), Inr (([], []), []))"
proof -
  let ?ls = "concat (map frame_lines frs)"
  have "split_on 10 (concat (map encode_frame frs)) = ?ls @ [[]]"
    unfolding encode_frames_lines
    by (rule split_lines) (use assms(1) frame_lines_newline_free in fastforce)
  then have "read_text opt ([], []) (concat chunks) = (concat (map (frame_emissions opt) frs), Inr (([], []), []))"
    using assms(2) run_frames [OF assms(1)] by (simp add: read_text_def with_rest_def)
  with assms(3) show ?thesis by (simp add: feeds_eq)
qed

theorem sse_frames_roundtrip_witness:
  "let opt = \<lparr>so_event_name = js ''operator_scan'', so_parse = Inr\<rparr>;
       text = encode_frame (js ''operator_scan'', [js ''a'', js ''b''])
   in feeds opt (([], []), []) [take 9 text, drop 9 text] =
        ([OnEvent (js ''a'' @ [10] @ js ''b''), OnRaw (js ''operator_scan'') (js ''a'' @ [10] @ js ''b'')],
         Inr (([], []), []))"
proof -
  let ?opt = "\<lparr>so_event_name = js ''operator_scan'', so_parse = Inr\<rparr>"
  let ?fr = "(js ''operator_scan'', [js ''a'', js ''b''])"
  have "frame_ok ?fr" by (simp add: frame_ok_def field_ok_def js_def trim_def trim_start_def is_space_def)
  then show ?thesis
    using sse_frames_roundtrip [of "[?fr]" ?opt "[take 9 (encode_frame ?fr), drop 9 (encode_frame ?fr)]"]
    by (simp add: Let_def frame_emissions_def)
qed



text \<open>C4. A stream told to run keeps trying: after \<open>connect\<close> or \<open>setPaused\<close>, through any responses,
  failures, parse errors, ends of stream and timers, and until \<open>disconnect\<close> is called, it is paused,
  has a request open or has a reconnect timer armed.\<close>

theorem stream_keeps_trying:
  assumes "DisconnectCall \<notin> set es"
  shows "stream_busy (foldl (\<lambda>s e. stream_step opt e s) (connect opt s) es) \<and>
         stream_busy (foldl (\<lambda>s e. stream_step opt e s) (setPaused opt v s) es)"
  using assms by (simp add: stream_run_busy connect_busy setPaused_busy)

theorem stream_keeps_trying_witness:
  "stream_busy (foldl (\<lambda>s e. stream_step \<lparr>eo_path = js ''/logs/stream'',
       eo_sse = \<lparr>so_event_name = [], so_parse = Inr\<rparr>, eo_delay = None, eo_pause_on = \<lambda>_. False\<rparr> e s)
     (connect \<lparr>eo_path = js ''/logs/stream'', eo_sse = \<lparr>so_event_name = [], so_parse = Inr\<rparr>,
       eo_delay = None, eo_pause_on = \<lambda>_. False\<rparr> (initial_stream [] [])) [Rejects 0 (js ''x'')])"
  by (rule stream_keeps_trying [THEN conjunct1]) simp

end
