(* ===== verification/Policy.thy ===== *)
theory Policy
  imports Interfaces Services
begin

text \<open>
  \<open>web/src/composables/useCardPolicyToggles.ts\<close> and the two panels that use it
  (\<open>CardPolicyPanel.vue\<close>, \<open>EsimCardPolicyInline.vue\<close>). A toggle is split at its
  \<open>await\<close>: the part before the executor's answer and the part after it; between the two, other
  toggles and updates of the source may run. Element Plus writes a switch's model before it calls
  the change handler, and a disabled switch does neither.
\<close>

section \<open>The mirror and the rules between the switches\<close>

record policy_mirror =
  network_enabled :: bool
  vowifi_enabled :: bool
  airplane_enabled :: bool

datatype policy_field = NetworkField | VoWiFiField | AirplaneField

fun get_field :: "policy_field \<Rightarrow> policy_mirror \<Rightarrow> bool" where
  "get_field NetworkField m = network_enabled m"
| "get_field VoWiFiField m = vowifi_enabled m"
| "get_field AirplaneField m = airplane_enabled m"

fun set_field :: "policy_field \<Rightarrow> bool \<Rightarrow> policy_mirror \<Rightarrow> policy_mirror" where
  "set_field NetworkField v m = m\<lparr>network_enabled := v\<rparr>"
| "set_field VoWiFiField v m = m\<lparr>vowifi_enabled := v\<rparr>"
| "set_field AirplaneField v m = m\<lparr>airplane_enabled := v\<rparr>"

fun nextMirror :: "policy_mirror \<Rightarrow> policy_field \<Rightarrow> bool \<Rightarrow> policy_mirror" where
  "nextMirror cur NetworkField val =
     (if val then \<lparr>network_enabled = True, vowifi_enabled = False, airplane_enabled = False\<rparr>
      else cur\<lparr>network_enabled := False\<rparr>)"
| "nextMirror cur VoWiFiField val =
     (if val then cur\<lparr>network_enabled := False, vowifi_enabled := True\<rparr>
      else cur\<lparr>vowifi_enabled := False\<rparr>)"
| "nextMirror cur AirplaneField val =
     (if val then \<lparr>network_enabled = False, vowifi_enabled = False, airplane_enabled = True\<rparr>
      else cur\<lparr>airplane_enabled := False\<rparr>)"

definition exclusive :: "policy_mirror \<Rightarrow> bool" where
  "exclusive m \<longleftrightarrow> \<not> (network_enabled m \<and> (vowifi_enabled m \<or> airplane_enabled m))"

section \<open>The composable\<close>

text \<open>\<open>pt_flight f\<close> is the pending call of field \<open>f\<close>: the value asked for and the mirror
  computed before the executor was called. \<open>pt_changed\<close> counts \<open>onChanged\<close> calls.\<close>

record toggles =
  pt_local :: policy_mirror
  pt_pending :: "policy_field \<Rightarrow> bool"
  pt_failed :: "policy_field \<Rightarrow> bool"
  pt_flight :: "policy_field \<Rightarrow> (bool \<times> policy_mirror) option"
  pt_changed :: nat

definition all_off :: policy_mirror where
  "all_off = \<lparr>network_enabled = False, vowifi_enabled = False, airplane_enabled = False\<rparr>"

definition on_source :: "policy_mirror option \<Rightarrow> toggles \<Rightarrow> toggles" where
  "on_source source s =
     (case source of None \<Rightarrow> s | Some p \<Rightarrow> s\<lparr>pt_local := p, pt_failed := \<lambda>_. False\<rparr>)"

definition useCardPolicyToggles :: "policy_mirror option \<Rightarrow> toggles" where
  "useCardPolicyToggles source =
     on_source source \<lparr>pt_local = all_off, pt_pending = \<lambda>_. False, pt_failed = \<lambda>_. False,
       pt_flight = \<lambda>_. None, pt_changed = 0\<rparr>"

text \<open>The three handlers differ in the field only.\<close>

definition toggle_begin :: "policy_field \<Rightarrow> bool \<Rightarrow> toggles \<Rightarrow> toggles" where
  "toggle_begin f val s =
     s\<lparr>pt_pending := (pt_pending s)(f := True), pt_failed := (pt_failed s)(f := False),
       pt_flight := (pt_flight s)(f := Some (val, nextMirror (pt_local s) f val))\<rparr>"

definition toggle_end :: "policy_field \<Rightarrow> bool \<Rightarrow> toggles \<Rightarrow> toggles" where
  "toggle_end f success s =
     (case pt_flight s f of
        None \<Rightarrow> s
      | Some (val, next') \<Rightarrow>
          (let s1 = s\<lparr>pt_pending := (pt_pending s)(f := False), pt_flight := (pt_flight s)(f := None)\<rparr> in
           if \<not> success then
             s1\<lparr>pt_local := set_field f (\<not> val) (pt_local s1), pt_failed := (pt_failed s1)(f := True)\<rparr>
           else s1\<lparr>pt_local := next', pt_changed := Suc (pt_changed s1)\<rparr>))"

definition onNetworkToggle :: "bool \<Rightarrow> toggles \<Rightarrow> toggles" where
  "onNetworkToggle = toggle_begin NetworkField"

definition onVoWiFiToggle :: "bool \<Rightarrow> toggles \<Rightarrow> toggles" where
  "onVoWiFiToggle = toggle_begin VoWiFiField"

definition onAirplaneToggle :: "bool \<Rightarrow> toggles \<Rightarrow> toggles" where
  "onAirplaneToggle = toggle_begin AirplaneField"

section \<open>The switches\<close>

fun switch_disabled :: "policy_field \<Rightarrow> toggles \<Rightarrow> bool" where
  "switch_disabled NetworkField s \<longleftrightarrow>
     vowifi_enabled (pt_local s) \<or> airplane_enabled (pt_local s) \<or> pt_pending s NetworkField"
| "switch_disabled VoWiFiField s \<longleftrightarrow> pt_pending s VoWiFiField"
| "switch_disabled AirplaneField s \<longleftrightarrow> vowifi_enabled (pt_local s) \<or> pt_pending s AirplaneField"

definition click_switch :: "policy_field \<Rightarrow> toggles \<Rightarrow> toggles" where
  "click_switch f s =
     (if switch_disabled f s then s
      else let val = \<not> get_field f (pt_local s) in
           toggle_begin f val (s\<lparr>pt_local := set_field f val (pt_local s)\<rparr>))"

datatype policy_event = Source "policy_mirror option" | Click policy_field | Answer policy_field bool

fun policy_step :: "policy_event \<Rightarrow> toggles \<Rightarrow> toggles" where
  "policy_step (Source p) s = on_source p s"
| "policy_step (Click f) s = click_switch f s"
| "policy_step (Answer f b) s = toggle_end f b s"

abbreviation policy_run :: "policy_event list \<Rightarrow> toggles \<Rightarrow> toggles" where
  "policy_run es s \<equiv> fold policy_step es s"

section \<open>Executors of the two panels\<close>

definition result_ok :: "'a service_result \<Rightarrow> bool" where
  "result_ok r = is_ok r"

text \<open>\<open>CardPolicyPanel\<close>: always live; no device, no call.\<close>

definition panel_execute ::
    "http \<Rightarrow> jstr \<Rightarrow> jstr \<Rightarrow> jstr \<Rightarrow> policy_field \<Rightarrow> bool \<Rightarrow> policy_mirror \<Rightarrow> bool" where
  "panel_execute http deviceId ipVersion apn f enabled next' =
     (if deviceId = [] then False
      else case f of
        NetworkField \<Rightarrow>
          (if enabled then result_ok (startNetwork http deviceId
                (obj [(''ip_version'', JStr ipVersion), (''apn'', JStr apn)]))
           else result_ok (stopNetwork http deviceId))
      | VoWiFiField \<Rightarrow>
          (if enabled then result_ok (enableVoWiFi http deviceId) else result_ok (disableVoWiFi http deviceId))
      | AirplaneField \<Rightarrow> result_ok (setFlightMode http deviceId enabled))"

text \<open>\<open>EsimCardPolicyInline\<close>: live for the active card of an online device, otherwise the whole
  triple is stored.\<close>

definition stored_mode :: "bool \<Rightarrow> bool \<Rightarrow> bool" where
  "stored_mode isActiveCard deviceOnline \<longleftrightarrow> \<not> (isActiveCard \<and> deviceOnline)"

definition triple_body :: "policy_mirror \<Rightarrow> jsval" where
  "triple_body m = obj [(''network_enabled'', JBool (network_enabled m)),
     (''vowifi_enabled'', JBool (vowifi_enabled m)), (''airplane_enabled'', JBool (airplane_enabled m))]"

definition putTriple :: "http \<Rightarrow> jstr \<Rightarrow> policy_mirror \<Rightarrow> bool" where
  "putTriple http iccid next' = result_ok (putPolicy http iccid (triple_body next'))"

definition inline_execute ::
    "http \<Rightarrow> bool \<Rightarrow> jstr \<Rightarrow> jstr \<Rightarrow> jsval \<Rightarrow> policy_field \<Rightarrow> bool \<Rightarrow> policy_mirror \<Rightarrow> bool" where
  "inline_execute http stored deviceId iccid policy f enabled next' =
     (if stored then putTriple http iccid next'
      else case f of
        NetworkField \<Rightarrow>
          (if enabled then result_ok (startNetwork http deviceId
                (obj [(''ip_version'', or_else (jfield policy ''ip_version'') (jlit ''v4'')),
                      (''apn'', or_else (jfield policy ''apn'') (JStr []))]))
           else result_ok (stopNetwork http deviceId))
      | VoWiFiField \<Rightarrow>
          (if enabled then result_ok (enableVoWiFi http deviceId) else result_ok (disableVoWiFi http deviceId))
      | AirplaneField \<Rightarrow> result_ok (setFlightMode http deviceId enabled))"

section \<open>What a switch does\<close>

lemma set_get_field [simp]: "get_field f (set_field f v m) = v"
  by (cases f) simp_all

lemma set_field_idle [simp]: "set_field f (get_field f m) m = m"
  by (cases f) simp_all

lemma set_field_twice [simp]: "set_field f v (set_field f w m) = set_field f v m"
  by (cases f) simp_all

lemma get_nextMirror [simp]: "get_field f (nextMirror m f v) = v"
  by (cases f) simp_all

lemma nextMirror_set [simp]: "nextMirror (set_field f w m) f v = nextMirror m f v"
  by (cases f) simp_all

lemma nextMirror_exclusive: "v \<or> exclusive m \<Longrightarrow> exclusive (nextMirror m f v)"
  by (cases f) (auto simp: exclusive_def)

lemma nextMirror_off: "\<not> v \<Longrightarrow> nextMirror m f v = set_field f False m"
  by (cases f) simp_all

lemma exclusive_mono: "exclusive m \<Longrightarrow> exclusive (set_field f False m)"
  by (cases f) (auto simp: exclusive_def)

section \<open>One switch at a time\<close>

definition quiet :: "toggles \<Rightarrow> bool" where
  "quiet s \<longleftrightarrow> pt_flight s = (\<lambda>_. None) \<and> pt_pending s = (\<lambda>_. False)"

text \<open>A click and its answer, with nothing in between.\<close>

definition toggle_round :: "policy_field \<Rightarrow> bool \<Rightarrow> toggles \<Rightarrow> toggles" where
  "toggle_round f b s = toggle_end f b (click_switch f s)"

lemma toggle_round_quiet:
  assumes "quiet s" and "\<not> switch_disabled f s"
  shows "toggle_round f b s =
    (let m = pt_local s; v = \<not> get_field f m in
     if b then s\<lparr>pt_local := nextMirror m f v, pt_failed := (pt_failed s)(f := False), pt_changed := Suc (pt_changed s)\<rparr>
     else s\<lparr>pt_failed := (pt_failed s)(f := True)\<rparr>)"
  using assms
  by (cases s) (auto simp: toggle_round_def click_switch_def toggle_begin_def toggle_end_def quiet_def Let_def fun_upd_idem)

lemma quiet_disabled: "quiet s \<Longrightarrow> switch_disabled f s \<Longrightarrow> toggle_round f b s = s"
  by (simp add: toggle_round_def click_switch_def toggle_end_def quiet_def)

lemma toggle_round_preserves:
  assumes "quiet s" and "exclusive (pt_local s)"
  shows "quiet (toggle_round f b s) \<and> exclusive (pt_local (toggle_round f b s))"
proof (cases "switch_disabled f s")
  case False
  with assms show ?thesis
    by (simp add: toggle_round_quiet Let_def quiet_def nextMirror_exclusive)
qed (use assms in \<open>simp add: quiet_disabled\<close>)

datatype policy_round = Refresh "policy_mirror option" | Toggle policy_field bool

fun round_step :: "policy_round \<Rightarrow> toggles \<Rightarrow> toggles" where
  "round_step (Refresh p) s = on_source p s"
| "round_step (Toggle f b) s = toggle_round f b s"

fun round_ok :: "policy_round \<Rightarrow> bool" where
  "round_ok (Refresh (Some p)) = exclusive p"
| "round_ok _ = True"

lemma round_preserves:
  "quiet s \<Longrightarrow> exclusive (pt_local s) \<Longrightarrow> round_ok r \<Longrightarrow>
   quiet (round_step r s) \<and> exclusive (pt_local (round_step r s))"
proof (cases r)
  case (Refresh p)
  assume "quiet s" "exclusive (pt_local s)" "round_ok r"
  with Refresh show ?thesis by (cases p) (simp_all add: on_source_def quiet_def)
qed (simp add: toggle_round_preserves)

interpretation rounds: event_system "\<lambda>s r. round_step r s" round_ok "\<lambda>s. quiet s \<and> exclusive (pt_local s)"
  by unfold_locales (simp add: round_preserves)

lemma rounds_preserve:
  "quiet s \<Longrightarrow> exclusive (pt_local s) \<Longrightarrow> list_all round_ok rs \<Longrightarrow>
   quiet (fold round_step rs s) \<and> exclusive (pt_local (fold round_step rs s))"
  using rounds.fold_keeps by blast

lemma initial_quiet:
  "list_all round_ok [Refresh p] \<Longrightarrow>
   quiet (useCardPolicyToggles p) \<and> exclusive (pt_local (useCardPolicyToggles p))"
  by (cases p) (simp_all add: useCardPolicyToggles_def on_source_def quiet_def all_off_def exclusive_def)

section \<open>Overlapping switches\<close>

text \<open>Pending flag and pending call agree, and no call is ever made twice for a field.\<close>

definition flight_wf :: "toggles \<Rightarrow> bool" where
  "flight_wf s \<longleftrightarrow> (\<forall>f. pt_pending s f \<longleftrightarrow> pt_flight s f \<noteq> None) \<and>
     (\<forall>f v m. pt_flight s f = Some (v, m) \<longrightarrow> get_field f m = v \<and> (v \<longrightarrow> exclusive m))"

lemma policy_step_wf: "flight_wf s \<Longrightarrow> flight_wf (policy_step e s)"
  by (cases e)
     (auto simp: flight_wf_def on_source_def click_switch_def toggle_begin_def toggle_end_def Let_def
        nextMirror_exclusive split: option.splits if_splits)

interpretation switches: free_system "\<lambda>s e. policy_step e s" flight_wf
  by unfold_locales (rule policy_step_wf)

lemma policy_run_wf: "flight_wf s \<Longrightarrow> flight_wf (policy_run es s)"
  by (rule switches.fold_always)

lemma initial_flight_wf: "flight_wf (useCardPolicyToggles p)"
  by (cases p) (simp_all add: flight_wf_def useCardPolicyToggles_def on_source_def)

text \<open>A refused VoWiFi switch-off that overlaps a network switch-on undoes the exclusion.\<close>

lemma overlapping_rollback:
  "let s = policy_run [Source (Some \<lparr>network_enabled = False, vowifi_enabled = True, airplane_enabled = False\<rparr>),
       Click VoWiFiField, Click NetworkField, Answer NetworkField True, Answer VoWiFiField False]
       (useCardPolicyToggles None)
   in quiet s \<and> \<not> exclusive (pt_local s)"
  by (auto simp: useCardPolicyToggles_def on_source_def click_switch_def toggle_begin_def toggle_end_def
      all_off_def quiet_def exclusive_def Let_def fun_upd_def)

section \<open>Properties\<close>



text \<open>Calls are consistent even when switches overlap: for every interleaving of clicks, answers and
  refreshes, a pending flag is set exactly while a call of that switch is in flight, a call in flight asks
  for the value it will show, and the triple sent for a switch turned on excludes the network from VoWiFi
  and flight mode; for a card that is not live, the executor stores exactly this triple.\<close>

lemma policy_calls_consistent:
  assumes "s = policy_run es (useCardPolicyToggles p)" and "pt_flight s f = Some (val, next')"
  shows "pt_pending s f \<and> get_field f next' = val \<and> (val \<longrightarrow> exclusive next') \<and>
     switch_disabled f s \<and>
     inline_execute http (stored_mode False online) dev iccid pol f val next' =
       is_ok (call http (rq PUT (js ''/cards/'' @ iccid @ js ''/policy'') JUndef (triple_body next')) (Inr :: jsval \<Rightarrow> jsval outcome))"
proof -
  have "flight_wf s" unfolding assms(1) by (intro policy_run_wf initial_flight_wf)
  then have "pt_pending s f" "get_field f next' = val" "val \<longrightarrow> exclusive next'"
    using assms(2) unfolding flight_wf_def by blast+
  then show ?thesis
    by (cases f) (simp_all add: inline_execute_def putTriple_def putPolicy_def result_ok_def stored_mode_def)
qed

lemma policy_calls_consistent_example:
  "exclusive (snd (the (pt_flight (policy_run [Click AirplaneField, Source (Some all_off), Click VoWiFiField]
      (useCardPolicyToggles None)) VoWiFiField)))"
proof -
  let ?s = "policy_run [Click AirplaneField, Source (Some all_off), Click VoWiFiField] (useCardPolicyToggles None)"
  have f: "pt_flight ?s VoWiFiField =
      Some (True, \<lparr>network_enabled = False, vowifi_enabled = True, airplane_enabled = False\<rparr>)"
    by (simp add: useCardPolicyToggles_def on_source_def click_switch_def toggle_begin_def all_off_def Let_def)
  show ?thesis
    unfolding f using policy_calls_consistent [OF refl f, THEN conjunct2, THEN conjunct2, THEN conjunct1] by simp
qed

end
