(* ===== verification/MccMnc.thy ===== *)
theory MccMnc
  imports Storage Http
begin

text \<open>
  \<open>web/src/utils/mcc-mnc.ts\<close>: the table that maps a network code to an operator, its cache in
  local storage, and the operator text shown for a modem. The download (\<open>fetch\<close> of the public
  table) and \<open>JSON.parse\<close> are parameters.
\<close>

section \<open>The index\<close>

record mcc_row =
  mr_mcc :: jstr
  mr_mnc :: jstr
  mr_iso :: jstr
  mr_country :: jstr
  mr_country_code :: jstr
  mr_network :: jstr

definition isAllDigits :: "jstr \<Rightarrow> bool" where
  "isAllDigits s \<longleftrightarrow> list_all (\<lambda>c. 48 \<le> c \<and> c \<le> 57) s \<and> 0 < length s"

definition normalizeCode :: "jsval \<Rightarrow> jstr" where
  "normalizeCode v = trim (text_or_empty v)"

definition row_of :: "jsval \<Rightarrow> mcc_row" where
  "row_of r = \<lparr>mr_mcc = normalizeCode (jfield r ''mcc''), mr_mnc = normalizeCode (jfield r ''mnc''),
     mr_iso = to_lower (normalizeCode (jfield r ''iso'')), mr_country = normalizeCode (jfield r ''country''),
     mr_country_code = normalizeCode (jfield r ''country_code''),
     mr_network = normalizeCode (jfield r ''network'')\<rparr>"

definition add_row :: "(jstr \<Rightarrow> mcc_row option) \<Rightarrow> jsval \<Rightarrow> (jstr \<Rightarrow> mcc_row option)" where
  "add_row idx r =
     (let mcc = normalizeCode (jfield r ''mcc''); mnc = normalizeCode (jfield r ''mnc'') in
      if mcc = [] \<or> mnc = [] then idx
      else let key = mcc @ mnc in
        case idx key of
          None \<Rightarrow> idx(key \<mapsto> row_of r)
        | Some cur \<Rightarrow>
            if mr_network cur = [] \<and> truthy (jfield r ''network'')
            then idx(key \<mapsto> cur\<lparr>mr_network := normalizeCode (jfield r ''network'')\<rparr>)
            else idx)"

definition buildIndex :: "jsval list \<Rightarrow> jstr \<Rightarrow> mcc_row option" where
  "buildIndex rows = foldl add_row Map.empty rows"

section \<open>The cache and the download\<close>

definition TABLE_KEY :: jstr where
  "TABLE_KEY = js ''go-4gproxy:mcc-mnc-table:v1''"

definition CACHE_TTL_MS :: int where
  "CACHE_TTL_MS = 7 * 24 * 60 * 60 * 1000"

definition readCache :: "(jstr \<Rightarrow> jsval outcome) \<Rightarrow> storage \<Rightarrow> (jnum \<times> jsval list) option" where
  "readCache parse s =
     (case get_item s TABLE_KEY of
        None \<Rightarrow> None
      | Some None \<Rightarrow> None
      | Some (Some raw) \<Rightarrow>
          if raw = [] then None
          else (case parse raw of
                  Inl _ \<Rightarrow> None
                | Inr data \<Rightarrow>
                    if \<not> truthy data then None
                    else (case (jfield data ''rows'', jfield data ''fetched_at'') of
                            (JArr rows, JNum t) \<Rightarrow> Some (t, rows)
                          | _ \<Rightarrow> None)))"

definition cache_payload :: "int \<Rightarrow> jsval list \<Rightarrow> jsval" where
  "cache_payload now rows = JObj [(js ''fetched_at'', jint now), (js ''rows'', JArr rows)]"

definition writeCache :: "int \<Rightarrow> jsval list \<Rightarrow> storage \<Rightarrow> storage" where
  "writeCache now rows s =
     (case stringify (cache_payload now rows) of
        None \<Rightarrow> s
      | Some t \<Rightarrow> (case set_item s TABLE_KEY t of None \<Rightarrow> s | Some s' \<Rightarrow> s'))"

text \<open>What \<open>fetch\<close> and \<open>res.json()\<close> gave: a rejection, or the status and the body.\<close>

definition str_text :: "jsval \<Rightarrow> jstr" where
  "str_text v = str_or v []"

definition clean_row :: "jsval \<Rightarrow> jsval list" where
  "clean_row it =
     (if \<not> is_object it then []
      else let mcc = str_text (jfield it ''mcc''); mnc = str_text (jfield it ''mnc'') in
        if mcc = [] \<or> mnc = [] then []
        else [JObj [(js ''mcc'', JStr mcc), (js ''mnc'', JStr mnc),
           (js ''iso'', JStr (str_text (jfield it ''iso''))),
           (js ''country'', JStr (str_text (jfield it ''country''))),
           (js ''country_code'', JStr (str_text (jfield it ''country_code''))),
           (js ''network'', JStr (str_text (jfield it ''network'')))]])"

definition fetchRows :: "(int \<times> jsval outcome) outcome \<Rightarrow> jsval list outcome" where
  "fetchRows res =
     (case res of
        Inl e \<Rightarrow> Inl e
      | Inr (status, body) \<Rightarrow>
          if \<not> (200 \<le> status \<and> status \<le> 299) then
            Inl (NativeErr (js ''Error'') (js ''mcc-mnc-table fetch failed: '' @ show_int status) None)
          else (case body of
                  Inl e \<Rightarrow> Inl e
                | Inr (JArr its) \<Rightarrow> Inr (concat (map clean_row its))
                | Inr _ \<Rightarrow> Inr []))"

definition cache_fresh :: "int \<Rightarrow> jnum \<Rightarrow> bool" where
  "cache_fresh now t =
     (case t of Fin r \<Rightarrow> of_int now - r < of_int CACHE_TTL_MS | PosInf \<Rightarrow> True | _ \<Rightarrow> False)"

record mcc_world =
  mw_store :: storage
  mw_index :: "(jstr \<Rightarrow> mcc_row option) option"
  mw_fetches :: nat

text \<open>The loader behind the memo: the index, the storage left behind, and whether the table was
  downloaded.\<close>

definition load_index ::
    "(jstr \<Rightarrow> jsval outcome) \<Rightarrow> int \<Rightarrow> (int \<times> jsval outcome) outcome \<Rightarrow> storage \<Rightarrow>
     (jstr \<Rightarrow> mcc_row option) \<times> storage \<times> bool" where
  "load_index parse now res s =
     (case readCache parse s of
        Some (t, rows) \<Rightarrow>
          if 0 < length rows \<and> cache_fresh now t then (buildIndex rows, s, False)
          else (case fetchRows res of
                  Inr new \<Rightarrow> (buildIndex new, if 0 < length new then writeCache now new s else s, True)
                | Inl _ \<Rightarrow> (if 0 < length rows then buildIndex rows else Map.empty, s, True))
      | None \<Rightarrow>
          (case fetchRows res of
             Inr new \<Rightarrow> (buildIndex new, if 0 < length new then writeCache now new s else s, True)
           | Inl _ \<Rightarrow> (Map.empty, s, True)))"

definition getMccMncIndex ::
    "(jstr \<Rightarrow> jsval outcome) \<Rightarrow> int \<Rightarrow> (int \<times> jsval outcome) outcome \<Rightarrow> mcc_world \<Rightarrow>
     mcc_world \<times> (jstr \<Rightarrow> mcc_row option)" where
  "getMccMncIndex parse now res w =
     (case mw_index w of
        Some idx \<Rightarrow> (w, idx)
      | None \<Rightarrow>
          (case load_index parse now res (mw_store w) of
             (idx, s, fetched) \<Rightarrow>
               (w\<lparr>mw_store := s, mw_index := Some idx,
                  mw_fetches := (if fetched then Suc (mw_fetches w) else mw_fetches w)\<rparr>, idx)))"

section \<open>Looking up and showing an operator\<close>

definition isoToFlagEmoji :: "jstr \<Rightarrow> jstr" where
  "isoToFlagEmoji ic =
     (case to_upper (normalizeCode (JStr ic)) of
        [a, b] \<Rightarrow>
          if a < 65 \<or> 90 < a \<or> b < 65 \<or> 90 < b then []
          else from_code_point (0x1f1e6 + (a - 65)) @ from_code_point (0x1f1e6 + (b - 65))
      | _ \<Rightarrow> [])"

definition three_digit_mccs :: "jstr list" where
  "three_digit_mccs = map js [
     ''302'', ''308'',
     ''310'', ''311'', ''312'', ''313'', ''314'', ''315'', ''316'', ''332'', ''318'', ''319'', ''334'', ''350'',
     ''338'', ''348'', ''342'', ''344'', ''346'', ''354'', ''356'', ''358'', ''360'', ''362'', ''364'', ''365'',
     ''366'', ''368'', ''370'', ''372'', ''374'', ''376'',
     ''405'', ''406'',
     ''716'', ''722'', ''730'', ''732'', ''736'', ''740'', ''744'', ''746'', ''748'', ''750'']"

definition getMncCandidateLengths :: "jstr \<Rightarrow> nat list" where
  "getMncCandidateLengths mcc = (if mcc \<in> set three_digit_mccs then [3] else [2, 3])"

definition lookupServingOperatorNameFromPLMN :: "(jstr \<Rightarrow> mcc_row option) \<Rightarrow> jsval \<Rightarrow> mcc_row option" where
  "lookupServingOperatorNameFromPLMN index modem =
     (let oper = normalizeCode (or_else (jfield modem ''operator'') (JStr []));
          mcc = normalizeCode (or_else (jfield modem ''mcc'') (JStr []));
          mnc = normalizeCode (or_else (jfield modem ''mnc'') (JStr []));
          by_code = (if mcc \<noteq> [] \<and> mnc \<noteq> [] then index (mcc @ mnc) else None)
      in if oper \<noteq> [] \<and> (length oper = 5 \<or> length oper = 6) \<and> isAllDigits oper
         then (case index oper of Some hit \<Rightarrow> Some hit | None \<Rightarrow> by_code)
         else by_code)"

definition or_text :: "jstr \<Rightarrow> jstr \<Rightarrow> jstr" where
  "or_text s d = (if s = [] then d else s)"

definition formatServingOperatorDisplay :: "jsval \<Rightarrow> (jstr \<Rightarrow> mcc_row option) option \<Rightarrow> jstr" where
  "formatServingOperatorDisplay modem index =
     (let oper = normalizeCode (or_else (jfield modem ''operator'') (JStr [])) in
      case index of
        None \<Rightarrow> or_text oper (js ''--'')
      | Some idx \<Rightarrow>
          (case lookupServingOperatorNameFromPLMN idx modem of
             None \<Rightarrow> or_text oper (js ''--'')
           | Some row \<Rightarrow>
               (let flag = isoToFlagEmoji (mr_iso row);
                    name = or_text (trim (mr_network row)) (or_text (trim (mr_country row)) (js ''--''));
                    code = trim (mr_mcc row) @ trim (mr_mnc row)
                in (if flag \<noteq> [] then flag @ js '' '' else []) @ name @
                   (if code \<noteq> [] then js '' ('' @ code @ js '')'' else []))))"

section \<open>What the index holds\<close>

definition row_key :: "jsval \<Rightarrow> jstr option" where
  "row_key r = (let mcc = normalizeCode (jfield r ''mcc''); mnc = normalizeCode (jfield r ''mnc'') in
     if mcc = [] \<or> mnc = [] then None else Some (mcc @ mnc))"

text \<open>The first row of a key, with the first non-empty network name of that key.\<close>

definition first_network :: "jsval list \<Rightarrow> jstr" where
  "first_network rows =
     (case find (\<lambda>n. n \<noteq> []) (map (\<lambda>x. normalizeCode (jfield x ''network'')) rows) of
        None \<Rightarrow> [] | Some n \<Rightarrow> n)"

definition merged_row :: "jsval list \<Rightarrow> mcc_row option" where
  "merged_row rows =
     (case rows of [] \<Rightarrow> None | r # _ \<Rightarrow> Some ((row_of r)\<lparr>mr_network := first_network rows\<rparr>))"

lemma row_of_network: "mr_network (row_of r) = normalizeCode (jfield r ''network'')"
  by (simp add: row_of_def)

lemma find_snoc: "find P (xs @ [y]) = (case find P xs of None \<Rightarrow> if P y then Some y else None | Some x \<Rightarrow> Some x)"
  by (induction xs) auto

lemma not_truthy_network: "\<not> truthy v \<Longrightarrow> normalizeCode v = []"
  by (simp add: normalizeCode_def)

lemma first_network_snoc:
  "first_network (rows @ [r]) =
     (if first_network rows = [] then normalizeCode (jfield r ''network'') else first_network rows)"
  by (auto simp: first_network_def find_snoc dest: find_SomeD split: option.splits)

lemma merged_row_snoc:
  "merged_row (rows @ [r]) =
     (case merged_row rows of
        None \<Rightarrow> Some (row_of r)
      | Some cur \<Rightarrow> Some (if mr_network cur = [] then cur\<lparr>mr_network := normalizeCode (jfield r ''network'')\<rparr> else cur))"
proof (cases rows)
  case Nil
  then show ?thesis by (simp add: merged_row_def first_network_def row_of_def)
next
  case (Cons q qs)
  then have "merged_row (rows @ [r]) = Some ((row_of q)\<lparr>mr_network := first_network (rows @ [r])\<rparr>)"
    by (simp add: merged_row_def)
  also have "first_network (rows @ [r]) =
      (if first_network rows = [] then normalizeCode (jfield r ''network'') else first_network rows)"
    by (rule first_network_snoc)
  finally show ?thesis using Cons by (simp add: merged_row_def)
qed

lemma add_row_other: "row_key r \<noteq> Some k \<Longrightarrow> add_row idx r k = idx k"
  by (auto simp: add_row_def row_key_def Let_def split: option.splits if_splits)

lemma add_row_same:
  "row_key r = Some k \<Longrightarrow> add_row idx r k =
     (case idx k of
        None \<Rightarrow> Some (row_of r)
      | Some cur \<Rightarrow> Some (if mr_network cur = [] then cur\<lparr>mr_network := normalizeCode (jfield r ''network'')\<rparr> else cur))"
  by (auto simp: add_row_def row_key_def Let_def not_truthy_network split: option.splits if_splits)

lemma index_rows: "buildIndex rows k = merged_row (filter (\<lambda>r. row_key r = Some k) rows)"
proof (induction rows rule: rev_induct)
  case Nil
  show ?case by (simp add: buildIndex_def merged_row_def)
next
  case (snoc r rows)
  then have "foldl add_row Map.empty rows k = merged_row (filter (\<lambda>r. row_key r = Some k) rows)"
    by (simp add: buildIndex_def)
  then show ?case
    by (simp add: buildIndex_def add_row_other add_row_same merged_row_snoc)
qed

lemma index_key:
  assumes "buildIndex rows k = Some row"
  shows "mr_mcc row @ mr_mnc row = k \<and> mr_mcc row \<noteq> [] \<and> mr_mnc row \<noteq> []"
proof -
  obtain r rs where "filter (\<lambda>r. row_key r = Some k) rows = r # rs"
    using assms by (auto simp: index_rows merged_row_def split: list.splits)
  moreover from this have "row_key r = Some k"
    by (metis (mono_tags) filter_eq_ConsD)
  ultimately show ?thesis
    using assms by (auto simp: index_rows merged_row_def row_key_def row_of_def Let_def split: if_splits)
qed

lemma row_mcc_trimmed: "buildIndex rows k = Some row \<Longrightarrow> trim (mr_mcc row) = mr_mcc row \<and> trim (mr_mnc row) = mr_mnc row"
  by (auto simp: index_rows merged_row_def row_of_def normalizeCode_def split: list.splits)

lemma lookup_hit:
  assumes "lookupServingOperatorNameFromPLMN idx modem = Some row"
  shows "\<exists>k. idx k = Some row \<and>
     (k = normalizeCode (jfield modem ''operator'') \<or>
      k = normalizeCode (jfield modem ''mcc'') @ normalizeCode (jfield modem ''mnc''))"
proof -
  have e: "normalizeCode (or_else v (JStr [])) = normalizeCode v" for v
    by (cases "truthy v") (simp_all add: normalizeCode_def)
  show ?thesis
    using assms by (auto simp: lookupServingOperatorNameFromPLMN_def Let_def e split: if_splits option.splits)
qed

section \<open>The cache\<close>

lemma read_write_cache:
  assumes "st_avail s" and "st_room s"
    and "stringify (cache_payload now rows) = Some t" and "parse t = Inr (cache_payload now rows)" and "t \<noteq> []"
  shows "readCache parse (writeCache now rows s) = Some (Fin (of_int now), rows)"
proof -
  obtain s' where s': "set_item s TABLE_KEY t = Some s'"
    using assms(1,2) by (auto simp: set_item_def)
  then have "get_item s' TABLE_KEY = Some (Some t)" by (rule ls.get_set_same)
  with s' assms(3,4,5) show ?thesis
    by (simp add: readCache_def writeCache_def cache_payload_def)
qed

lemma payload_text: "stringify (cache_payload now rows) = Some t \<Longrightarrow> t \<noteq> []"
  by (auto simp: cache_payload_def)

section \<open>Properties\<close>

text \<open>The index holds, for every network code, the first row of the table with that code, given the
  first non-empty network name among all its rows; rows without a code are ignored, and every entry is
  filed under its own country and network code.\<close>

lemma mcc_index_content:
  "buildIndex rows k = merged_row (filter (\<lambda>r. row_key r = Some k) rows) \<and>
   (case buildIndex rows k of
      None \<Rightarrow> True
    | Some row \<Rightarrow> mr_mcc row @ mr_mnc row = k \<and> 0 < length (mr_mcc row) \<and> 0 < length (mr_mnc row))"
  using index_key [of rows k] by (simp add: index_rows split: option.split)

text \<open>The operator shown is the modem's: when a table row is found, the text ends with the code of
  that row in brackets, and the code is the operator the modem reports or its country code followed by
  its network code.\<close>

lemma operator_display_code:
  assumes "lookupServingOperatorNameFromPLMN (buildIndex rows) modem = Some row"
  shows "\<exists>code. suffix (js '' ('' @ code @ js '')'') (formatServingOperatorDisplay modem (Some (buildIndex rows))) \<and>
     buildIndex rows code = Some row \<and>
     (code = normalizeCode (jfield modem ''operator'') \<or>
      code = normalizeCode (jfield modem ''mcc'') @ normalizeCode (jfield modem ''mnc''))"
proof -
  obtain k where k: "buildIndex rows k = Some row"
      "k = normalizeCode (jfield modem ''operator'') \<or>
       k = normalizeCode (jfield modem ''mcc'') @ normalizeCode (jfield modem ''mnc'')"
    using lookup_hit [OF assms] by blast
  have "k \<noteq> []" "trim (mr_mcc row) @ trim (mr_mnc row) = k"
    using index_key [OF k(1)] row_mcc_trimmed [OF k(1)] by auto
  then have "suffix (js '' ('' @ k @ js '')'') (formatServingOperatorDisplay modem (Some (buildIndex rows)))"
    using assms by (simp add: formatServingOperatorDisplay_def Let_def suffix_appendI)
  with k show ?thesis by blast
qed

definition sample_rows :: "jsval list" where
  "sample_rows = [JObj [(js ''mcc'', jlit ''460''), (js ''mnc'', jlit ''00''), (js ''iso'', jlit ''cn''),
     (js ''network'', JStr [])], JObj [(js ''mcc'', jlit ''460''), (js ''mnc'', jlit ''00''), (js ''network'', jlit ''CMCC'')]]"

definition sample_modem :: jsval where
  "sample_modem = JObj [(js ''operator'', jlit ''46000'')]"

lemma operator_display_code_example:
  "\<exists>row code. lookupServingOperatorNameFromPLMN (buildIndex sample_rows) sample_modem = Some row \<and>
     suffix (js '' ('' @ code @ js '')'') (formatServingOperatorDisplay sample_modem (Some (buildIndex sample_rows)))"
proof -
  have "lookupServingOperatorNameFromPLMN (buildIndex sample_rows) sample_modem \<noteq> None"
    by (simp add: lookupServingOperatorNameFromPLMN_def Let_def index_rows merged_row_def row_key_def
        sample_rows_def sample_modem_def normalizeCode_def trim_def trim_start_def is_space_def js_def isAllDigits_def)
  then obtain row where "lookupServingOperatorNameFromPLMN (buildIndex sample_rows) sample_modem = Some row"
    by blast
  with operator_display_code [OF this] show ?thesis by blast
qed

text \<open>A downloaded table is kept for a week: when the first call downloads a table and storage works,
  a later visit within seven days builds the same index from the cache without any request, whatever
  the download would give then.\<close>

lemma mcc_table_cached:
  assumes "st_avail (mw_store w)" and "st_room (mw_store w)" and "mw_index w = None"
    and "readCache parse (mw_store w) = None" and "fetchRows res = Inr rows" and "rows \<noteq> []"
    and "\<And>t. stringify (cache_payload now rows) = Some t \<Longrightarrow> parse t = Inr (cache_payload now rows)"
    and "later < now + CACHE_TTL_MS"
  shows "let (w1, idx) = getMccMncIndex parse now res w;
             (w2, idx2) = getMccMncIndex parse later res2 (w1\<lparr>mw_index := None\<rparr>)
         in idx = buildIndex rows \<and> idx2 = idx \<and> mw_fetches w2 = mw_fetches w1"
proof -
  obtain t where t: "stringify (cache_payload now rows) = Some t" by (simp add: cache_payload_def)
  have "readCache parse (writeCache now rows (mw_store w)) = Some (Fin (of_int now), rows)"
    using assms(1,2) t assms(7) [OF t] payload_text [OF t] by (rule read_write_cache)
  moreover have "(of_int later :: rat) - of_int now < of_int CACHE_TTL_MS"
    using assms(8) by (simp flip: of_int_diff)
  ultimately show ?thesis
    using assms(3-6) by (simp add: getMccMncIndex_def load_index_def cache_fresh_def)
qed

lemma mcc_table_cached_example:
  "let w = \<lparr>mw_store = \<lparr>st_avail = True, st_room = True, st_items = Map.empty\<rparr>, mw_index = None, mw_fetches = 0\<rparr>;
       row = JObj [(js ''mcc'', jlit ''460''), (js ''mnc'', jlit ''00''), (js ''iso'', JStr []),
         (js ''country'', JStr []), (js ''country_code'', JStr []), (js ''network'', JStr [])];
       parse = (\<lambda>t. Inr (cache_payload 1000 [row]));
       (w1, idx) = getMccMncIndex parse 1000 (Inr (200, Inr (JArr [row]))) w;
       (w2, idx2) = getMccMncIndex parse 2000 (Inl (NativeErr (js ''TypeError'') [] None)) (w1\<lparr>mw_index := None\<rparr>)
   in idx2 = idx \<and> mw_fetches w2 = mw_fetches w1"
proof -
  let ?w = "\<lparr>mw_store = \<lparr>st_avail = True, st_room = True, st_items = Map.empty\<rparr>, mw_index = None, mw_fetches = 0\<rparr>"
  let ?row = "JObj [(js ''mcc'', jlit ''460''), (js ''mnc'', jlit ''00''), (js ''iso'', JStr []),
         (js ''country'', JStr []), (js ''country_code'', JStr []), (js ''network'', JStr [])]"
  have "readCache (\<lambda>t. Inr (cache_payload 1000 [?row])) (mw_store ?w) = None"
    by (simp add: readCache_def get_item_def)
  moreover have "fetchRows (Inr (200, Inr (JArr [?row]))) = Inr [?row]"
    by (simp add: fetchRows_def clean_row_def str_text_def str_or_def)
  ultimately show ?thesis
    using mcc_table_cached [of ?w "\<lambda>t. Inr (cache_payload 1000 [?row])" "Inr (200, Inr (JArr [?row]))"
        "[?row]" 1000 2000 "Inl (NativeErr (js ''TypeError'') [] None)"]
    by (simp add: CACHE_TTL_MS_def case_prod_beta Let_def)
qed

end
