(* ===== verification/Lifecycle.thy ===== *)
theory Lifecycle
  imports Texts JsValue
begin

text \<open>
  The small helpers of \<open>web/src/utils\<close> and \<open>web/src/components\<close>: the phase of a device
  and the status shown for it (\<open>deviceLifecycle.ts\<close>), the light's classes
  (\<open>statusLight.ts\<close>), the test for a control path (\<open>deviceBackend.ts\<close>), the check of
  an upstream proxy's address and the clipboard.
\<close>

section \<open>\<open>deviceLifecycle.ts\<close>\<close>

datatype lifecycle_phase =
  Offline | Rebooting | UsbWait | WorkerStarting | QmiStarting | Recovering | Online | Degraded | Evicting

text \<open>The phase field of a device; None for an absent or unknown one.\<close>

definition phase_of :: "jsval \<Rightarrow> lifecycle_phase option" where
  "phase_of v = map_of [(jlit ''offline'', Offline), (jlit ''rebooting'', Rebooting),
     (jlit ''usb_wait'', UsbWait), (jlit ''worker_starting'', WorkerStarting),
     (jlit ''qmi_starting'', QmiStarting), (jlit ''recovering'', Recovering), (jlit ''online'', Online),
     (jlit ''degraded'', Degraded), (jlit ''evicting'', Evicting)] v"

definition isRecoveryPhase :: "lifecycle_phase option \<Rightarrow> bool" where
  "isRecoveryPhase phase \<longleftrightarrow>
     phase = Some Rebooting \<or> phase = Some UsbWait \<or> phase = Some WorkerStarting \<or>
     phase = Some QmiStarting \<or> phase = Some Recovering \<or> phase = Some Evicting"

definition device_phase :: "jsval \<Rightarrow> lifecycle_phase option" where
  "device_phase device = phase_of (jfield device ''lifecycle_phase'')"

definition isControlOnline :: "jsval \<Rightarrow> bool" where
  "isControlOnline device \<longleftrightarrow>
     truthy device \<and> \<not> isRecoveryPhase (device_phase device) \<and>
     truthy (jfield device ''running'') \<and>
     if_nullish (jfield device ''control_online'') (jfield device ''healthy'') = JBool True"

definition isRadioRegistered :: "jsval \<Rightarrow> bool" where
  "isRadioRegistered device \<longleftrightarrow>
     (let r = jfield (jfield device ''modem'') ''reg_status'' in r = jint 1 \<or> r = jint 5)"

fun lifecycleStatusLabel :: "lifecycle_phase option \<Rightarrow> jstr" where
  "lifecycleStatusLabel (Some Rebooting) = tx_rebooting"
| "lifecycleStatusLabel (Some UsbWait) = tx_usb_wait"
| "lifecycleStatusLabel (Some WorkerStarting) = tx_worker_starting"
| "lifecycleStatusLabel (Some QmiStarting) = tx_qmi_starting"
| "lifecycleStatusLabel (Some Recovering) = tx_control_recovering"
| "lifecycleStatusLabel (Some Degraded) = tx_control_unstable"
| "lifecycleStatusLabel (Some Evicting) = tx_evicting"
| "lifecycleStatusLabel (Some Online) = tx_online"
| "lifecycleStatusLabel (Some Offline) = tx_offline"
| "lifecycleStatusLabel None = []"

datatype tone = ToneSuccess | ToneWarning | ToneDanger | ToneNeutral

record lifecycle_status =
  ls_label :: jstr
  ls_tag :: jstr
  ls_tone :: tone
  ls_animated :: bool

definition primaryLifecycleStatus :: "jsval \<Rightarrow> lifecycle_status" where
  "primaryLifecycleStatus device =
     (let phase = device_phase device in
      if isRecoveryPhase phase then
        \<lparr>ls_label = (if lifecycleStatusLabel phase = [] then tx_recovering else lifecycleStatusLabel phase),
         ls_tag = js ''warning'', ls_tone = ToneWarning, ls_animated = True\<rparr>
      else if phase = Some Degraded then \<lparr>ls_label = tx_unstable, ls_tag = js ''warning'', ls_tone = ToneWarning, ls_animated = True\<rparr>
      else if \<not> truthy (jfield device ''running'') then
        \<lparr>ls_label = tx_offline, ls_tag = js ''danger'', ls_tone = ToneDanger, ls_animated = False\<rparr>
      else if \<not> isControlOnline device then
        \<lparr>ls_label = tx_recovering, ls_tag = js ''warning'', ls_tone = ToneWarning, ls_animated = True\<rparr>
      else \<lparr>ls_label = tx_online, ls_tag = js ''success'', ls_tone = ToneSuccess, ls_animated = True\<rparr>)"

section \<open>\<open>statusLight.ts\<close>\<close>

datatype light_size = Sm | Md

fun statusLightToneClass :: "tone \<Rightarrow> jstr" where
  "statusLightToneClass ToneSuccess = js ''bg-green-500''"
| "statusLightToneClass ToneWarning = js ''bg-amber-500''"
| "statusLightToneClass ToneDanger = js ''bg-red-500''"
| "statusLightToneClass ToneNeutral = js ''bg-gray-400''"

definition statusLightSizeClass :: "light_size \<Rightarrow> jstr" where
  "statusLightSizeClass sz = (if sz = Md then js ''w-1.5 h-1.5'' else js ''w-2 h-2'')"

definition statusLightAnimatedClass :: "bool \<Rightarrow> jstr" where
  "statusLightAnimatedClass animated = (if animated then js ''animate-pulse'' else [])"

section \<open>\<open>deviceBackend.ts\<close>\<close>

definition digit :: "nat \<Rightarrow> bool" where
  "digit c \<longleftrightarrow> 48 \<le> c \<and> c \<le> 57"

text \<open>The pattern \<open>^wwan\d+qmi\d+$\<close>; a digit never starts \<open>qmi\<close>, so the longest run of
  digits is the only candidate.\<close>

definition matches_wwan_qmi :: "jstr \<Rightarrow> bool" where
  "matches_wwan_qmi s \<longleftrightarrow>
     starts_with s (js ''wwan'') \<and>
     (let ds = takeWhile digit (drop 4 s); rest = dropWhile digit (drop 4 s) in
      ds \<noteq> [] \<and> starts_with rest (js ''qmi'') \<and> drop 3 rest \<noteq> [] \<and> list_all digit (drop 3 rest))"

definition slash_basename :: "jstr \<Rightarrow> jstr" where
  "slash_basename v =
     (let parts = filter (\<lambda>w. w \<noteq> []) (split_on 47 (map (\<lambda>c. if c = 92 then 47 else c) v)) in
      if parts = [] then v else last parts)"

definition isWwanQmiControlPath :: "jsval \<Rightarrow> bool" where
  "isWwanQmiControlPath path =
     (let v = trim (text_or_empty path) in v \<noteq> [] \<and> matches_wwan_qmi (slash_basename v))"

section \<open>\<open>upstreamProxyAddress.ts\<close>\<close>

definition upstreamProxyIPv6AddressHint :: jstr where
  "upstreamProxyIPv6AddressHint = tx_ipv6_hint"

definition upstreamProxyAddressWarning :: "jsval \<Rightarrow> jstr" where
  "upstreamProxyAddressWarning addr =
     (let v = trim (text_or_empty addr) in
      if v = [] \<or> starts_with v (js ''['') then []
      else if 1 < length (filter (\<lambda>c. c = 58) v) then upstreamProxyIPv6AddressHint
      else [])"

section \<open>\<open>clipboard.ts\<close>\<close>

text \<open>What the browser does: whether the clipboard API exists and its write succeeds, and what the
  copy command returns (None when one of the steps around it throws).\<close>

record copy_env =
  ce_has_api :: bool
  ce_write_ok :: bool
  ce_exec :: "bool option"

datatype copy_effect = CloseAll | ShowSuccess jstr | ShowWarning jstr | WriteClipboard jstr | ExecCopy jstr | PromptText jstr

definition copyToClipboard :: "copy_env \<Rightarrow> jsval \<Rightarrow> jstr \<Rightarrow> bool \<times> copy_effect list" where
  "copyToClipboard env v successMessage =
     (let val = trim (to_string (if_nullish v (JStr []))) in
      if val = [] then (False, [])
      else if ce_has_api env \<and> ce_write_ok env then
        (True, [WriteClipboard val, CloseAll, ShowSuccess successMessage])
      else if ce_exec env = Some True then
        (True, [ExecCopy val, CloseAll, ShowSuccess successMessage])
      else (False, (if ce_exec env = Some False then [ExecCopy val] else []) @
              [CloseAll, ShowWarning tx_copy_manually, PromptText val]))"

section \<open>Facts\<close>

lemma recovery_label: "isRecoveryPhase p \<Longrightarrow> lifecycleStatusLabel p \<noteq> []"
  by (auto simp: isRecoveryPhase_def tx_rebooting_def tx_usb_wait_def tx_worker_starting_def
      tx_qmi_starting_def tx_control_recovering_def tx_evicting_def)

lemma control_online_running: "isControlOnline d \<Longrightarrow> truthy (jfield d ''running'') \<and> \<not> isRecoveryPhase (device_phase d)"
  by (simp add: isControlOnline_def)

lemma takeWhile_digits_q:
  "list_all digit ds \<Longrightarrow> takeWhile digit (ds @ js ''qmi'' @ t) = ds \<and> dropWhile digit (ds @ js ''qmi'' @ t) = js ''qmi'' @ t"
  by (induction ds) (simp_all add: digit_def js_def)

lemma matches_wwan_qmi_iff:
  "matches_wwan_qmi s \<longleftrightarrow>
     (\<exists>a b. s = js ''wwan'' @ a @ js ''qmi'' @ b \<and> a \<noteq> [] \<and> b \<noteq> [] \<and> list_all digit a \<and> list_all digit b)"
proof
  assume m: "matches_wwan_qmi s"
  let ?a = "takeWhile digit (drop 4 s)" and ?r = "dropWhile digit (drop 4 s)"
  have "s = js ''wwan'' @ drop 4 s" "?r = js ''qmi'' @ drop 3 ?r"
    using m starts_withD [of s "js ''wwan''"] starts_withD [of ?r "js ''qmi''"]
    by (simp_all add: matches_wwan_qmi_def Let_def numeral_eq_Suc)
  then have "s = js ''wwan'' @ ?a @ js ''qmi'' @ drop 3 ?r"
    by (metis takeWhile_dropWhile_id)
  moreover have "list_all digit ?a"
    by (auto simp: list_all_iff dest: set_takeWhileD)
  ultimately show "\<exists>a b. s = js ''wwan'' @ a @ js ''qmi'' @ b \<and> a \<noteq> [] \<and> b \<noteq> [] \<and> list_all digit a \<and> list_all digit b"
    using m unfolding matches_wwan_qmi_def Let_def by blast
next
  assume "\<exists>a b. s = js ''wwan'' @ a @ js ''qmi'' @ b \<and> a \<noteq> [] \<and> b \<noteq> [] \<and> list_all digit a \<and> list_all digit b"
  then obtain a b where s: "s = js ''wwan'' @ a @ js ''qmi'' @ b"
    and ab: "a \<noteq> []" "b \<noteq> []" "list_all digit a" "list_all digit b" by blast
  have "drop 4 s = a @ js ''qmi'' @ b" "starts_with s (js ''wwan'')" by (simp_all add: s)
  then show "matches_wwan_qmi s"
    using ab takeWhile_digits_q [OF ab(3), of b] by (simp add: matches_wwan_qmi_def)
qed

lemma slash_basename_last: "47 \<notin> set w \<Longrightarrow> 92 \<notin> set w \<Longrightarrow> w \<noteq> [] \<Longrightarrow> slash_basename (dir @ [47] @ w) = w"
proof -
  let ?f = "\<lambda>c. if c = 92 then 47 else c :: nat"
  have split_last: "split_on 47 (u @ [47] @ w') = split_on 47 u @ split_on 47 w'" for u w' :: jstr
    by (induction u) (auto split: list.splits)
  assume "47 \<notin> set w" "92 \<notin> set w" "w \<noteq> []"
  then have "map ?f w = w" by (auto intro: map_idI)
  then have "split_on 47 (map ?f (dir @ [47] @ w)) = split_on 47 (map ?f dir) @ [w]"
    using split_last [of "map ?f dir" w] split_on_free [OF \<open>47 \<notin> set w\<close>] by simp
  then show ?thesis using \<open>w \<noteq> []\<close> by (simp add: slash_basename_def)
qed

section \<open>Properties\<close>

text \<open>The status light is green exactly for a device whose control plane is online and which is not
  reported as degraded; it is red, and the device called offline, exactly when the device does not run
  and is in no recovery phase and not degraded. A green light never goes with a device that is not
  running.\<close>

lemma status_light_faithful:
  "(ls_tone (primaryLifecycleStatus d) = ToneSuccess) =
      (isControlOnline d \<and> device_phase d \<noteq> Some Degraded) \<and>
   (ls_tone (primaryLifecycleStatus d) = ToneDanger) =
      (\<not> truthy (jfield d ''running'') \<and> \<not> isRecoveryPhase (device_phase d) \<and> device_phase d \<noteq> Some Degraded) \<and>
   (ls_tone (primaryLifecycleStatus d) = ToneDanger) = (ls_animated (primaryLifecycleStatus d) = False) \<and>
   0 < length (ls_label (primaryLifecycleStatus d))"
  using control_online_running [of d]
  by (auto simp: primaryLifecycleStatus_def Let_def recovery_label tx_recovering_def tx_unstable_def
      tx_offline_def tx_online_def)

text \<open>A control path is recognised by its last component alone, below any directory: for a name
  without slashes that ends in no white space, the path is accepted iff the name is \<open>wwan\<close>,
  digits, \<open>qmi\<close>, digits.\<close>

lemma wwan_qmi_path:
  assumes "47 \<notin> set w" and "92 \<notin> set w" and "w \<noteq> []" and "\<not> is_space (last w)"
    and "dir = [] \<or> \<not> is_space (hd dir)"
  shows "isWwanQmiControlPath (JStr (dir @ [47] @ w)) \<longleftrightarrow>
    (\<exists>a b. w = js ''wwan'' @ a @ js ''qmi'' @ b \<and> a \<noteq> [] \<and> b \<noteq> [] \<and> list_all digit a \<and> list_all digit b)"
proof -
  have "trim (dir @ [47] @ w) = dir @ [47] @ w"
  proof (rule trim_id)
    show "\<not> is_space (hd (dir @ [47] @ w))"
      using assms(5) by (cases dir) (simp_all add: is_space_def)
  qed (use assms(3,4) in simp_all)
  then show ?thesis
    using slash_basename_last [OF assms(1-3), of dir]
    by (simp add: isWwanQmiControlPath_def matches_wwan_qmi_iff del: append_Cons)
qed

lemma wwan_qmi_path_example: "isWwanQmiControlPath (JStr (js ''/dev'' @ [47] @ js ''wwan0qmi0''))"
proof -
  have "js ''wwan0qmi0'' = js ''wwan'' @ [48] @ js ''qmi'' @ [48]" "list_all digit [48]"
    by (simp_all add: js_def digit_def)
  moreover have "isWwanQmiControlPath (JStr (js ''/dev'' @ [47] @ js ''wwan0qmi0'')) \<longleftrightarrow>
    (\<exists>a b. js ''wwan0qmi0'' = js ''wwan'' @ a @ js ''qmi'' @ b \<and> a \<noteq> [] \<and> b \<noteq> [] \<and> list_all digit a \<and> list_all digit b)"
    by (rule wwan_qmi_path) (simp_all add: js_def is_space_def)
  ultimately show ?thesis by blast
qed

end
