(* ===== verification/Esim.thy ===== *)
theory Esim
  imports Texts JsValue
begin

text \<open>
  The eSIM helpers next to the device page: the optimistic switch of the active profile
  (\<open>deviceEsimOptimistic.ts\<close>), the notices after deleting and downloading
  (\<open>deviceEsimOperationNotice.ts\<close>), the notification dialog (\<open>deviceEsimNotifications.ts\<close>),
  the choice of the download target (\<open>deviceEsimOverviewRefresh.ts\<close>) and the name shown in the
  overview (\<open>deviceOverviewActiveEsim.ts\<close>).
\<close>

section \<open>Data\<close>

record esim_profile =
  ep_iccid :: "jstr option"
  ep_name :: jstr
  ep_service_provider_name :: jstr
  ep_state :: int
  ep_state_text :: jstr
  ep_class_text :: "jstr option"

record esim_group =
  eg_eid :: jstr
  eg_aid_hex :: jstr
  eg_profiles :: "esim_profile list"

section \<open>\<open>deviceEsimOptimistic.ts\<close>\<close>

definition normalizeICCID :: "jstr option \<Rightarrow> jstr" where
  "normalizeICCID v = (case v of None \<Rightarrow> [] | Some s \<Rightarrow> trim (filter (\<lambda>c. \<not> is_space c) s))"

definition is_target :: "jstr \<Rightarrow> esim_profile \<Rightarrow> bool" where
  "is_target target p \<longleftrightarrow> normalizeICCID (ep_iccid p) = target"

definition group_has :: "jstr \<Rightarrow> esim_group \<Rightarrow> bool" where
  "group_has target g \<longleftrightarrow> list_ex (is_target target) (eg_profiles g)"

definition mark_profile :: "jstr \<Rightarrow> esim_profile \<Rightarrow> esim_profile" where
  "mark_profile target p =
     p\<lparr>ep_state := (if is_target target p then 1 else 0),
       ep_state_text := (if is_target target p then tx_enabled else tx_disabled)\<rparr>"

definition mark_group :: "jstr \<Rightarrow> esim_group \<Rightarrow> esim_group" where
  "mark_group target g = g\<lparr>eg_profiles := map (mark_profile target) (eg_profiles g)\<rparr>"

definition matched_group :: "esim_group list \<Rightarrow> jstr \<Rightarrow> jstr \<Rightarrow> esim_group option" where
  "matched_group groups target aidHex =
     (let targetGroup = to_upper (trim aidHex) in
      case find (\<lambda>g. \<not> (targetGroup \<noteq> [] \<and> to_upper (trim (eg_aid_hex g)) \<noteq> targetGroup) \<and> group_has target g) groups of
        Some g \<Rightarrow> Some g
      | None \<Rightarrow> find (group_has target) groups)"

definition applyOptimisticActiveState :: "esim_group list \<Rightarrow> jstr \<Rightarrow> jstr \<Rightarrow> esim_group list" where
  "applyOptimisticActiveState groups targetICCID aidHex =
     (let target = normalizeICCID (Some targetICCID) in
      case matched_group groups target aidHex of
        None \<Rightarrow> groups
      | Some _ \<Rightarrow> map (mark_group target) groups)"

section \<open>\<open>deviceEsimOperationNotice.ts\<close>\<close>

datatype notice_tone = SuccessNotice | WarningNotice | ErrorNotice

record operation_notice =
  on_tone :: notice_tone
  on_message :: jstr

text \<open>\<open>Math.round\<close> rounds halves up.\<close>

definition math_round :: "rat \<Rightarrow> int" where
  "math_round r = \<lfloor>r + 1 / 2\<rfloor>"

definition formatApproxBytes :: "jnum \<Rightarrow> jstr" where
  "formatApproxBytes bytes =
     (case bytes of
        Fin b \<Rightarrow>
          if b \<le> 0 then []
          else if b \<ge> 1024 * 1024 then
            show_rat (of_int (math_round (b / (1024 * 1024) * 100)) / 100) @ js '' MB''
          else if b \<ge> 1024 then show_int (math_round (b / 1024)) @ js '' KB''
          else show_int (math_round b) @ js '' B''
      | _ \<Rightarrow> [])"

definition delta_bytes :: "jsval \<Rightarrow> jnum" where
  "delta_bytes d = (case if_nullish (jfield d ''bytes'') (jint 0) of JNum n \<Rightarrow> n | _ \<Rightarrow> NaN)"

definition describeSpaceDelta :: "jsval \<Rightarrow> jstr" where
  "describeSpaceDelta d =
     (if \<not> truthy d then []
      else let formatted = formatApproxBytes (delta_bytes d) in
        if formatted = [] then []
        else if jfield d ''direction'' = jlit ''released'' then tx_released @ formatted
        else if jfield d ''direction'' = jlit ''consumed'' then tx_consumed @ formatted
        else [])"

definition with_delta :: "jstr \<Rightarrow> jstr \<Rightarrow> jstr" where
  "with_delta message delta = (if delta \<noteq> [] then message @ tx_comma @ delta else message)"

definition describeDeleteResultNotice :: "jstr \<Rightarrow> jsval \<Rightarrow> operation_notice" where
  "describeDeleteResultNotice warning space_delta =
     (if warning \<noteq> [] then \<lparr>on_tone = WarningNotice, on_message = warning\<rparr>
      else \<lparr>on_tone = SuccessNotice,
            on_message = with_delta tx_profile_deleted (describeSpaceDelta space_delta)\<rparr>)"

record download_event =
  de_step :: jstr
  de_msg :: jstr
  de_pct :: jnum
  de_warning :: jstr
  de_space_delta :: jsval

definition describeDownloadTerminalNotice :: "download_event \<Rightarrow> operation_notice" where
  "describeDownloadTerminalNotice event =
     (if de_step event = js ''error'' then \<lparr>on_tone = ErrorNotice, on_message = de_msg event\<rparr>
      else if de_warning event \<noteq> [] then \<lparr>on_tone = WarningNotice, on_message = de_warning event\<rparr>
      else \<lparr>on_tone = SuccessNotice,
            on_message = with_delta tx_profile_downloaded (describeSpaceDelta (de_space_delta event))\<rparr>)"

section \<open>\<open>deviceEsimNotifications.ts\<close>\<close>

record notification_dialog =
  nd_isOpen :: bool
  nd_items :: "jsval list"
  nd_retryingSequenceNumber :: "jnum option"
  nd_lastRetriedSequenceNumber :: "jnum option"

definition countEsimNotifications :: "jsval list \<Rightarrow> nat" where
  "countEsimNotifications its = length its"

definition formatEsimNotificationEvent :: "jstr \<Rightarrow> jstr" where
  "formatEsimNotificationEvent event =
     (if event = js ''install'' then tx_install else if event = js ''enable'' then tx_enable
      else if event = js ''disable'' then tx_disable else if event = js ''delete'' then tx_delete
      else if event = [] then tx_unknown else event)"

definition reconcileEsimNotificationDialogState ::
    "bool \<Rightarrow> jsval list \<Rightarrow> jsval list \<Rightarrow> jnum option \<Rightarrow> notification_dialog" where
  "reconcileEsimNotificationDialogState isOpen its refreshedItems retried =
     \<lparr>nd_isOpen = isOpen, nd_items = refreshedItems, nd_retryingSequenceNumber = None,
      nd_lastRetriedSequenceNumber = retried\<rparr>"

definition shouldShowEsimNotificationIcon :: "bool \<Rightarrow> bool" where
  "shouldShowEsimNotificationIcon loading \<longleftrightarrow> \<not> loading"

definition shouldShowEsimRefreshIcon :: "bool \<Rightarrow> bool" where
  "shouldShowEsimRefreshIcon loading \<longleftrightarrow> \<not> loading"

section \<open>\<open>deviceEsimOverviewRefresh.ts\<close> and \<open>deviceOverviewActiveEsim.ts\<close>\<close>

text \<open>The chip's list of eUICC identifiers; None where there is no chip information.\<close>

definition pickNextDownloadAid :: "jstr list option \<Rightarrow> jstr \<Rightarrow> jstr" where
  "pickNextDownloadAid chip currentAidHex =
     (let aids = (case chip of None \<Rightarrow> [] | Some l \<Rightarrow> l) in
      if aids = [] then []
      else if currentAidHex \<noteq> [] \<and> currentAidHex \<in> set aids then currentAidHex
      else hd aids)"

definition activeEsimProfileDisplayName :: "jstr option \<Rightarrow> jstr" where
  "activeEsimProfileDisplayName name = (case name of None \<Rightarrow> [] | Some n \<Rightarrow> trim n)"

section \<open>Facts\<close>

lemma find_group_has: "(find (group_has t) gs = None) = (\<not> list_ex (group_has t) gs)"
  by (induction gs) auto

lemma matched_group_none: "matched_group gs t aid = None \<longleftrightarrow> \<not> list_ex (group_has t) gs"
proof
  assume "matched_group gs t aid = None"
  then show "\<not> list_ex (group_has t) gs"
    by (auto simp: matched_group_def Let_def find_group_has split: option.splits)
next
  assume n: "\<not> list_ex (group_has t) gs"
  then have "\<forall>g\<in>set gs. \<not> group_has t g" by (auto simp: list_ex_iff)
  then have "find (\<lambda>g. P g \<and> group_has t g) gs = None" for P
    by (auto simp: find_None_iff)
  with n show "matched_group gs t aid = None"
    by (simp add: matched_group_def Let_def find_group_has)
qed

lemma mark_keeps_target [simp]: "is_target t (mark_profile u p) = is_target t p"
  by (simp add: mark_profile_def is_target_def)

lemma mark_group_has [simp]: "group_has t (mark_group u g) = group_has t g"
  by (simp add: group_has_def mark_group_def list_ex_iff)

lemma mark_twice [simp]: "mark_profile t (mark_profile t p) = mark_profile t p"
  by (simp add: mark_profile_def is_target_def)

lemma mark_group_twice [simp]: "mark_group t (mark_group t g) = mark_group t g"
  by (simp add: mark_group_def comp_def)

definition all_profiles :: "esim_group list \<Rightarrow> esim_profile list" where
  "all_profiles gs = concat (map eg_profiles gs)"

lemma all_profiles_mark: "all_profiles (map (mark_group t) gs) = map (mark_profile t) (all_profiles gs)"
  by (induction gs) (simp_all add: all_profiles_def mark_group_def)

lemma apply_unfold:
  "applyOptimisticActiveState gs iccid aid =
     (if list_ex (group_has (normalizeICCID (Some iccid))) gs
      then map (mark_group (normalizeICCID (Some iccid))) gs else gs)"
  using matched_group_none [of gs "normalizeICCID (Some iccid)" aid]
  by (auto simp: applyOptimisticActiveState_def Let_def split: option.splits)

lemma group_has_ex: "list_ex (group_has t) gs \<longleftrightarrow> list_ex (is_target t) (all_profiles gs)"
  by (auto simp: list_ex_iff group_has_def all_profiles_def)

section \<open>Properties\<close>

text \<open>The optimistic switch shows what the card will do: when some profile has the target ICCID
  (white space aside), exactly the profiles with that ICCID are shown enabled and every other profile
  disabled, in every group, with nothing else changed and whatever AID was given; when no profile has
  it, nothing changes. Applying the switch again changes nothing.\<close>

lemma optimistic_switch:
  "let t = normalizeICCID (Some iccid); gs' = applyOptimisticActiveState gs iccid aid in
   all_profiles gs' =
     (if list_ex (is_target t) (all_profiles gs)
      then map (\<lambda>p. p\<lparr>ep_state := (if is_target t p then 1 else 0),
                      ep_state_text := (if is_target t p then tx_enabled else tx_disabled)\<rparr>) (all_profiles gs)
      else all_profiles gs) \<and>
   map eg_aid_hex gs' = map eg_aid_hex gs \<and> map (length \<circ> eg_profiles) gs' = map (length \<circ> eg_profiles) gs \<and>
   applyOptimisticActiveState gs' iccid aid = gs'"
proof -
  have m: "(\<lambda>p. p\<lparr>ep_state := (if is_target t p then 1 else 0),
      ep_state_text := (if is_target t p then tx_enabled else tx_disabled)\<rparr>) = mark_profile t" for t
    by (simp add: fun_eq_iff mark_profile_def)
  show ?thesis
    unfolding m Let_def apply_unfold
    by (simp add: group_has_ex [symmetric] all_profiles_mark comp_def)
       (simp add: mark_group_def)
qed

text \<open>The download goes to an eUICC of the card: on a card with at least one, the target is one of them,
  the one chosen before if it is still there; choosing again keeps it.\<close>

lemma download_target_valid:
  assumes "aids \<noteq> []"
  shows "pickNextDownloadAid (Some aids) cur \<in> set aids \<and>
     (cur \<in> set aids \<longrightarrow> cur \<noteq> [] \<longrightarrow> pickNextDownloadAid (Some aids) cur = cur) \<and>
     pickNextDownloadAid (Some aids) (pickNextDownloadAid (Some aids) cur) = pickNextDownloadAid (Some aids) cur"
  using assms by (simp add: pickNextDownloadAid_def)

lemma download_target_valid_example:
  "pickNextDownloadAid (Some [js ''A1'', js ''B2'']) (js ''B2'') = js ''B2''"
  using download_target_valid [of "[js ''A1'', js ''B2'']" "js ''B2''"] by simp

end
