(* ===== verification/SmsService.thy ===== *)
theory SmsService
  imports Interfaces DevicesApi "HOL-Library.Product_Lexorder" "HOL-Library.Multiset"
begin

text \<open>
  \<open>web/src/services/sms.ts\<close> and \<open>web/src/stores/sms.ts\<close>: threads and messages as
  typed views of the DTOs, the sharing of equal requests that are under way, the endpoints, and the
  store. \<open>date_ms\<close> is the parameter for \<open>new Date(s).getTime()\<close>, None being
  \<open>NaN\<close>.
\<close>

section \<open>Data\<close>

record sms_message =
  sm_id :: int
  sm_imsi :: jstr
  sm_peer :: jstr
  sm_content :: jstr
  sm_type :: int
  sm_timestamp :: jstr
  sm_sender :: jstr
  sm_status :: int
  sm_device_name :: jstr

record sms_contact =
  sc_imsi :: jstr
  sc_peer :: jstr
  sc_device_id :: "jstr option"
  sc_last_sms_id :: int
  sc_last_timestamp :: jstr
  sc_last_content :: jstr
  sc_device_name :: "jstr option"
  sc_local_phone :: jstr

record sms_thread =
  th_key :: jstr
  th_imsi :: jstr
  th_peer :: jstr
  th_deviceId :: "jstr option"
  th_lastTs :: int
  th_lastSmsId :: int
  th_lastMessage :: jstr
  th_lastDeviceName :: "jstr option"
  th_localPhone :: jstr
  th_peerLower :: jstr
  th_lastMessageLower :: jstr

record thread_query =
  tq_peer :: jstr
  tq_limit :: nat
  tq_device_id :: jstr
  tq_imsi :: jstr
  tq_before_ts :: jstr
  tq_before_id :: int

type_synonym clock = "jstr \<Rightarrow> int option"

definition parseTs :: "clock \<Rightarrow> jstr \<Rightarrow> int" where
  "parseTs date_ms s = (case date_ms s of None \<Rightarrow> 0 | Some ms \<Rightarrow> ms)"

definition normalizeThread :: "clock \<Rightarrow> sms_contact \<Rightarrow> sms_thread" where
  "normalizeThread date_ms c =
     \<lparr>th_key = sc_imsi c @ js ''|'' @ sc_peer c, th_imsi = sc_imsi c, th_peer = sc_peer c,
      th_deviceId = sc_device_id c, th_lastTs = parseTs date_ms (sc_last_timestamp c),
      th_lastSmsId = sc_last_sms_id c, th_lastMessage = take 80 (sc_last_content c),
      th_lastDeviceName = sc_device_name c, th_localPhone = sc_local_phone c,
      th_peerLower = to_lower (sc_peer c), th_lastMessageLower = to_lower (sc_last_content c)\<rparr>"

text \<open>The sort is stable, as \<open>Array.prototype.sort\<close> is.\<close>

definition sort_threads :: "sms_thread list \<Rightarrow> sms_thread list" where
  "sort_threads ts = sort_key (\<lambda>t. - th_lastTs t) ts"

definition message_key :: "clock \<Rightarrow> sms_message \<Rightarrow> int \<times> int" where
  "message_key date_ms m = (parseTs date_ms (sm_timestamp m), sm_id m)"

definition sort_messages :: "clock \<Rightarrow> sms_message list \<Rightarrow> sms_message list" where
  "sort_messages date_ms ms = sort_key (message_key date_ms) ms"

section \<open>Decoding\<close>

definition text_field :: "jsval \<Rightarrow> string \<Rightarrow> jstr" where
  "text_field v k = text_or_empty (jfield v k)"

definition opt_text :: "jsval \<Rightarrow> string \<Rightarrow> jstr option" where
  "opt_text v k = jstr_of (jfield v k)"

definition int_field :: "jsval \<Rightarrow> string \<Rightarrow> int" where
  "int_field v k = (case jfield v k of JNum (Fin r) \<Rightarrow> \<lfloor>r\<rfloor> | _ \<Rightarrow> 0)"

definition message_of :: "jsval \<Rightarrow> sms_message" where
  "message_of v = \<lparr>sm_id = int_field v ''id'', sm_imsi = text_field v ''imsi'', sm_peer = text_field v ''peer'',
     sm_content = text_field v ''content'', sm_type = int_field v ''type'', sm_timestamp = text_field v ''timestamp'',
     sm_sender = text_field v ''sender'', sm_status = int_field v ''status'', sm_device_name = text_field v ''device_name''\<rparr>"

definition contact_of :: "jsval \<Rightarrow> sms_contact" where
  "contact_of v = \<lparr>sc_imsi = text_field v ''imsi'', sc_peer = text_field v ''peer'',
     sc_device_id = opt_text v ''device_id'', sc_last_sms_id = int_field v ''last_sms_id'',
     sc_last_timestamp = text_field v ''last_timestamp'', sc_last_content = text_field v ''last_content'',
     sc_device_name = opt_text v ''device_name'', sc_local_phone = text_field v ''local_phone''\<rparr>"

text \<open>A body that is no array makes \<open>filter\<close>, \<open>map\<close> or \<open>slice\<close> throw.\<close>

definition as_array :: "jsval \<Rightarrow> jsval list outcome" where
  "as_array v = (case list_or_empty v of JArr vs \<Rightarrow> Inr vs
     | _ \<Rightarrow> Inl (NativeErr (js ''TypeError'') (js ''list is not an array'') None))"

definition map_outcome :: "('a \<Rightarrow> 'b) \<Rightarrow> 'a outcome \<Rightarrow> 'b outcome" where
  "map_outcome f r = (case r of Inl e \<Rightarrow> Inl e | Inr a \<Rightarrow> Inr (f a))"

section \<open>Endpoints\<close>

definition sms_listDevices :: "http \<Rightarrow> jsval list service_result" where
  "sms_listDevices http = call http (rq GET (js ''/devices'') JUndef JUndef)
     (\<lambda>d. map_outcome (filter (\<lambda>v. truthy (jfield v ''running''))) (as_array (jfield d ''devices'')))"

definition all_devices :: "jstr \<Rightarrow> bool" where
  "all_devices deviceId \<longleftrightarrow> deviceId = [] \<or> deviceId = js ''all''"

definition contacts_key :: "jstr \<Rightarrow> jstr" where
  "contacts_key deviceId = js ''sms:listContacts:'' @ (if all_devices deviceId then js ''all'' else deviceId)"

definition listContacts :: "clock \<Rightarrow> http \<Rightarrow> jstr \<Rightarrow> sms_thread list service_result" where
  "listContacts date_ms http deviceId =
     call http (rq GET (js ''/sms/contacts'')
        (obj ((''limit'', jlit ''200'') # (if all_devices deviceId then [] else [(''device_id'', JStr deviceId)]))) JUndef)
       (\<lambda>d. map_outcome (\<lambda>l. sort_threads (map (normalizeThread date_ms \<circ> contact_of) l)) (as_array d))"

definition thread_key :: "thread_query \<Rightarrow> jstr" where
  "thread_key p = js ''sms:getThread:'' @ join_with (js '':'')
     [tq_device_id p, tq_imsi p, tq_peer p, show_nat (tq_limit p), tq_before_ts p, show_int (tq_before_id p)]"

definition opt_param :: "string \<Rightarrow> jstr \<Rightarrow> (string \<times> jsval) list" where
  "opt_param k s = (if s = [] then [] else [(k, JStr s)])"

definition thread_params :: "thread_query \<Rightarrow> jsval" where
  "thread_params p = obj ([(''peer'', JStr (tq_peer p)), (''limit'', jint (int (tq_limit p)))] @
     opt_param ''device_id'' (tq_device_id p) @ opt_param ''imsi'' (tq_imsi p) @
     opt_param ''before_ts'' (tq_before_ts p) @
     (if tq_before_ts p = [] then [] else [(''before_id'', jint (tq_before_id p))]))"

definition getThread :: "clock \<Rightarrow> http \<Rightarrow> thread_query \<Rightarrow> sms_message list service_result" where
  "getThread date_ms http p =
     call http (rq GET (js ''/sms/thread'') (thread_params p) JUndef)
       (\<lambda>d. map_outcome (\<lambda>l. sort_messages date_ms (map message_of l)) (as_array d))"

definition sms_send :: "http \<Rightarrow> jsval \<Rightarrow> jnum service_result" where
  "sms_send http payload = call http (rq POST (js ''/sms/send'') JUndef payload)
     (\<lambda>d. Inr (to_number (or_else (jfield d ''parts_total'') (jint 0))))"

definition deleteMessage :: "http \<Rightarrow> int \<Rightarrow> jsval service_result" where
  "deleteMessage http n = call http (rq DELETE (js ''/sms/messages/'' @ show_int n) JUndef JUndef) Inr"

definition deleteThread :: "http \<Rightarrow> jstr \<Rightarrow> jstr \<Rightarrow> jstr \<Rightarrow> jsval service_result" where
  "deleteThread http device_id imsi peer =
     call http (rq DELETE (js ''/sms/thread'')
        (obj ((''peer'', JStr peer) # opt_param ''device_id'' device_id @ opt_param ''imsi'' imsi)) JUndef) Inr"

section \<open>Sharing requests under way\<close>

text \<open>Promises are numbered; \<open>if_table\<close> is \<open>inflightRequests\<close>, \<open>if_running\<close> the
  tasks started and not yet settled.\<close>

record inflight =
  if_table :: "jstr \<Rightarrow> nat option"
  if_running :: "nat \<Rightarrow> jstr option"
  if_next :: nat

definition no_inflight :: inflight where
  "no_inflight = \<lparr>if_table = Map.empty, if_running = Map.empty, if_next = 0\<rparr>"

definition reuseInflight :: "jstr \<Rightarrow> inflight \<Rightarrow> inflight \<times> nat" where
  "reuseInflight key s =
     (case if_table s key of
        Some p \<Rightarrow> (s, p)
      | None \<Rightarrow>
          (s\<lparr>if_table := (if_table s)(key \<mapsto> if_next s),
             if_running := (if_running s)(if_next s \<mapsto> key), if_next := Suc (if_next s)\<rparr>, if_next s))"

definition request_settles :: "nat \<Rightarrow> inflight \<Rightarrow> inflight" where
  "request_settles p s =
     (case if_running s p of
        None \<Rightarrow> s
      | Some key \<Rightarrow>
          s\<lparr>if_running := (if_running s)(p := None),
            if_table := (if if_table s key = Some p then (if_table s)(key := None) else if_table s)\<rparr>)"

datatype inflight_event = Ask jstr | Settles nat

fun inflight_step :: "inflight_event \<Rightarrow> inflight \<Rightarrow> inflight" where
  "inflight_step (Ask key) s = fst (reuseInflight key s)"
| "inflight_step (Settles p) s = request_settles p s"

definition inflight_wf :: "inflight \<Rightarrow> bool" where
  "inflight_wf s \<longleftrightarrow> (\<forall>k p. if_table s k = Some p \<longleftrightarrow> if_running s p = Some k) \<and>
     (\<forall>p. if_running s p \<noteq> None \<longrightarrow> p < if_next s)"

lemma no_inflight_wf: "inflight_wf no_inflight"
  by (simp add: inflight_wf_def no_inflight_def)

lemma inflight_running_bound: "inflight_wf s \<Longrightarrow> if_next s \<le> p \<Longrightarrow> if_running s p = None"
  unfolding inflight_wf_def by (meson linorder_not_less)

lemma ask_wf:
  assumes w: "inflight_wf s"
  shows "inflight_wf (fst (reuseInflight key s))"
proof (cases "if_table s key")
  case None
  have eq: "if_table s k = Some p \<longleftrightarrow> if_running s p = Some k" for k p
    using w by (simp add: inflight_wf_def)
  have fresh: "if_running s (if_next s) = None" using inflight_running_bound [OF w] by simp
  have t: "if_table s k \<noteq> Some (if_next s)" for k using eq fresh by simp
  have r: "if_running s p \<noteq> Some key" for p using eq [of key p] None by simp
  have "((if_table s)(key \<mapsto> if_next s)) k = Some p \<longleftrightarrow> ((if_running s)(if_next s \<mapsto> key)) p = Some k" for k p
    using t r eq by (cases "k = key"; cases "p = if_next s") auto
  moreover have "((if_running s)(if_next s \<mapsto> key)) p \<noteq> None \<Longrightarrow> p < Suc (if_next s)" for p
    using w by (auto simp: inflight_wf_def less_Suc_eq split: if_splits)
  ultimately show ?thesis
    using None by (simp add: reuseInflight_def inflight_wf_def)
qed (use w in \<open>simp add: reuseInflight_def\<close>)

lemma settle_wf:
  assumes w: "inflight_wf s"
  shows "inflight_wf (request_settles p s)"
proof (cases "if_running s p")
  case (Some key)
  have eq: "if_table s k = Some q \<longleftrightarrow> if_running s q = Some k" for k q
    using w by (simp add: inflight_wf_def)
  have t: "if_table s key = Some p" using Some eq by blast
  have "((if_table s)(key := None)) k = Some q \<longleftrightarrow> ((if_running s)(p := None)) q = Some k" for k q
    using t Some eq [of k q] eq [of k p] by (cases "k = key"; cases "q = p") auto
  moreover have "((if_running s)(p := None)) q \<noteq> None \<Longrightarrow> q < if_next s" for q
    using w by (auto simp: inflight_wf_def split: if_splits)
  ultimately show ?thesis
    using Some t by (simp add: request_settles_def inflight_wf_def)
qed (use w in \<open>simp add: request_settles_def\<close>)

lemma inflight_step_wf: "inflight_wf s \<Longrightarrow> inflight_wf (inflight_step e s)"
  by (cases e) (simp_all add: ask_wf settle_wf)

interpretation requests: free_system "\<lambda>s e. inflight_step e s" inflight_wf
  by unfold_locales (rule inflight_step_wf)

lemma inflight_run_wf: "inflight_wf s \<Longrightarrow> inflight_wf (fold inflight_step es s)"
  by (rule requests.fold_always)

section \<open>The store\<close>

record sms_store =
  ss_devices :: "jsval list"
  ss_threads :: "sms_thread list"
  ss_threadMessages :: "sms_message list"
  ss_lastOkAt :: "int option"
  ss_error :: "app_error option"

definition sms_fetchDevices :: "jsval list service_result \<Rightarrow> sms_store \<Rightarrow> sms_store" where
  "sms_fetchDevices r s = (case r of Success d \<Rightarrow> s\<lparr>ss_devices := d\<rparr> | Failure _ \<Rightarrow> s)"

definition sms_fetchThreads :: "int \<Rightarrow> sms_thread list service_result \<Rightarrow> sms_store \<Rightarrow> sms_store" where
  "sms_fetchThreads now r s =
     (case r of
        Success d \<Rightarrow> s\<lparr>ss_threads := d, ss_lastOkAt := Some now, ss_error := None\<rparr>
      | Failure e \<Rightarrow> s\<lparr>ss_error := Some e\<rparr>)"

definition sms_fetchThread :: "sms_message list service_result \<Rightarrow> sms_store \<Rightarrow> sms_store" where
  "sms_fetchThread r s = (case r of Success d \<Rightarrow> s\<lparr>ss_threadMessages := d\<rparr> | Failure _ \<Rightarrow> s)"

section \<open>Keys\<close>

lemma show_int_colon_free: "58 \<notin> set (show_int n)"
  using show_nat_digits [of 58 "nat n"] show_nat_digits [of 58 "nat (- n)"]
  by (auto simp: show_int_def js_def)

lemma show_nat_colon_free: "58 \<notin> set (show_nat n)"
  using show_nat_digits [of 58 n] by auto

lemma show_int_inj: "show_int m = show_int n \<longleftrightarrow> m = n"
proof
  have neg: "show_nat a \<noteq> 45 # b" for a b
    using show_nat_digits [of 45 a] by auto
  assume e: "show_int m = show_int n"
  show "m = n"
    using e neg [of "nat m"] neg [of "nat n"] neg [of "nat m", symmetric]
    by (auto simp: show_int_def js_def split: if_splits dest: sym)
qed simp

lemma append_sep_eq: "d \<notin> set a \<Longrightarrow> d \<notin> set b \<Longrightarrow> a @ d # s = b @ d # t \<longleftrightarrow> a = b \<and> s = t"
proof (induction a arbitrary: b)
  case Nil
  then show ?case by (cases b) auto
next
  case (Cons x a)
  then show ?case by (cases b) auto
qed

lemma append_sep_eq_last: "d \<notin> set a \<Longrightarrow> d \<notin> set b \<Longrightarrow> s @ d # a = t @ d # b \<longleftrightarrow> s = t \<and> a = b"
  using append_sep_eq [of d "rev a" "rev b" "rev s" "rev t"]
  by (metis (no_types, lifting) append.assoc append_Cons append_Nil rev.simps(2) rev_append rev_rev_ident set_rev)

definition query_plain :: "thread_query \<Rightarrow> bool" where
  "query_plain p \<longleftrightarrow> 58 \<notin> set (tq_device_id p) \<and> 58 \<notin> set (tq_imsi p) \<and> 58 \<notin> set (tq_peer p)"

lemma thread_key_unfold:
  "thread_key p = js ''sms:getThread:'' @ tq_device_id p @ 58 # tq_imsi p @ 58 # tq_peer p @ 58 #
     show_nat (tq_limit p) @ 58 # tq_before_ts p @ 58 # show_int (tq_before_id p)"
  by (simp add: thread_key_def) (simp add: js_def)

lemma thread_key_inj:
  "query_plain p \<Longrightarrow> query_plain q \<Longrightarrow> thread_key p = thread_key q \<longleftrightarrow> p = q"
  by (auto simp: thread_key_unfold query_plain_def append_sep_eq append_sep_eq_last
      show_nat_colon_free show_int_colon_free show_int_inj simp del: append_assoc)

section \<open>Properties\<close>

text \<open>A conversation is shown in order and complete: whatever array the server sends, the messages a
  successful request returns are the messages sent, sorted by time and, at equal times, by number.\<close>

lemma thread_sorted_complete:
  assumes "http (rq GET (js ''/sms/thread'') (thread_params p) JUndef) = Inr (JArr vs)"
  shows "\<exists>ms. getThread date_ms http p = Success ms \<and>
     sorted (map (message_key date_ms) ms) \<and> mset ms = mset (map message_of vs)"
  using assms sorted_sort_key [of "message_key date_ms" "map message_of vs"]
  by (simp add: getThread_def call_def map_outcome_def as_array_def list_or_empty_def sort_messages_def)

definition sample_query :: thread_query where
  "sample_query = \<lparr>tq_peer = js ''10086'', tq_limit = 80, tq_device_id = js ''all'', tq_imsi = js ''46000'',
     tq_before_ts = js ''2024-01-01T10:00:00Z'', tq_before_id = 7\<rparr>"

definition sample_bodies :: "jsval list" where
  "sample_bodies = [JObj [(js ''id'', jint 2), (js ''timestamp'', jlit ''ab'')],
     JObj [(js ''id'', jint 1), (js ''timestamp'', jlit ''a'')]]"

lemma thread_sorted_complete_example:
  "\<exists>ms. getThread (\<lambda>s. Some 5) (\<lambda>_. Inr (JArr sample_bodies)) sample_query = Success ms \<and>
     mset ms = mset (map message_of sample_bodies)"
  using thread_sorted_complete [of "\<lambda>_. Inr (JArr sample_bodies)" sample_query sample_bodies "\<lambda>s. Some 5"] by blast

text \<open>Equal requests are shared: at any time at most one request per key is under way; a second
  caller gets the promise of the first and starts nothing, and once a request has settled the next
  caller starts a new one.\<close>

lemma inflight_shared:
  assumes "s = fold inflight_step es no_inflight"
  shows "(if_running s p = Some key \<longrightarrow> reuseInflight key s = (s, p) \<and> (if_running s q = Some key \<longrightarrow> p = q)) \<and>
     ((\<forall>p. if_running s p \<noteq> Some key) \<longrightarrow>
        snd (reuseInflight key s) = if_next s \<and> if_running (fst (reuseInflight key s)) (if_next s) = Some key) \<and>
     (if_running s p = Some key \<longrightarrow> if_running (request_settles p s) p = None \<and> if_table (request_settles p s) key = None)"
proof -
  have w: "inflight_wf s" unfolding assms by (intro inflight_run_wf no_inflight_wf)
  then have eq: "if_table s k = Some q \<longleftrightarrow> if_running s q = Some k" for k q
    by (simp add: inflight_wf_def)
  have "if_running s q = Some key \<Longrightarrow> if_running s p = Some key \<Longrightarrow> p = q"
    using eq by (metis option.inject)
  moreover have "(\<forall>p. if_running s p \<noteq> Some key) \<Longrightarrow> if_table s key = None"
    using eq by (metis not_Some_eq)
  ultimately show ?thesis
    using eq [of key p] by (auto simp: reuseInflight_def request_settles_def)
qed

lemma inflight_shared_example:
  "snd (reuseInflight (js ''k'') (fold inflight_step [Ask (js ''k''), Ask (js ''j'')] no_inflight)) = 0"
proof -
  let ?s = "fold inflight_step [Ask (js ''k''), Ask (js ''j'')] no_inflight"
  have "if_running ?s 0 = Some (js ''k'')" by (simp add: reuseInflight_def no_inflight_def)
  with inflight_shared [OF refl [of ?s], of 0 "js ''k''" 0] show ?thesis by (metis snd_conv)
qed

text \<open>Sharing never mixes conversations up: two requests whose device, IMSI and peer contain no colon
  have the same key only if they are the same request, so a caller never gets the answer to another
  one.\<close>

lemma thread_key_unambiguous:
  assumes "query_plain p" and "query_plain q"
  shows "(thread_key p = thread_key q) = (p = q) \<and> thread_key p \<noteq> contacts_key dev \<and>
         thread_key p \<noteq> js ''sms:listDevices''"
proof -
  have "thread_key p \<noteq> contacts_key dev" "thread_key p \<noteq> js ''sms:listDevices''"
    by (simp_all add: thread_key_unfold contacts_key_def) (simp_all add: js_def)
  with thread_key_inj [OF assms] show ?thesis by simp
qed

lemma thread_key_unambiguous_example:
  "thread_key sample_query \<noteq> thread_key (sample_query\<lparr>tq_before_id := 8\<rparr>)"
proof -
  have "query_plain sample_query" "query_plain (sample_query\<lparr>tq_before_id := 8\<rparr>)"
    by (simp_all add: query_plain_def sample_query_def js_def)
  from thread_key_unambiguous [OF this, of "[]"] show ?thesis by (simp add: sample_query_def)
qed

end
