(* ===== verification/SmsText.thy ===== *)
theory SmsText
  imports SmsService Storage Texts
begin

text \<open>
  The pure part of \<open>web/src/views/Sms.vue\<close>: the estimate of how many segments a text takes,
  grouping a conversation by day, the search, the read marks in local storage and the payload of a
  message to send. The local calendar (\<open>local_date\<close>: the year-month-day text of a time) is a
  parameter.
\<close>

section \<open>Segments\<close>

definition GSM7_BASIC_CHARS :: "nat list" where
  "GSM7_BASIC_CHARS =
     [64, 163, 36, 165, 232, 233, 249, 236, 242, 199, 10, 216, 248, 13, 197, 229, 916, 95, 934, 915, 923,
      937, 928, 936, 931, 920, 926, 32, 33, 34, 35, 164] @ [37..<64] @ [161] @ [65..<91] @
     [196, 214, 209, 220, 167, 191] @ [97..<123] @ [228, 246, 241, 252, 224]"

definition GSM7_EXT_CHARS :: "nat list" where
  "GSM7_EXT_CHARS = [94, 123, 125, 92, 91, 126, 93, 124, 8364]"

datatype encoding = GSM7 | UCS2

record segments =
  sg_encoding :: encoding
  sg_parts :: nat
  sg_units :: nat

text \<open>The loop over the characters: the units so far, or None at the first character outside the
  alphabet.\<close>

fun gsm7_units :: "nat list \<Rightarrow> nat \<Rightarrow> nat option" where
  "gsm7_units [] acc = Some acc"
| "gsm7_units (ch # cs) acc =
     (if ch \<in> set GSM7_BASIC_CHARS then gsm7_units cs (acc + 1)
      else if ch \<in> set GSM7_EXT_CHARS then gsm7_units cs (acc + 2)
      else None)"

definition ceil_div :: "nat \<Rightarrow> nat \<Rightarrow> nat" where
  "ceil_div a b = (a + b - 1) div b"

definition estimateSegments :: "jstr \<Rightarrow> segments" where
  "estimateSegments raw =
     (case gsm7_units (code_points raw) 0 of
        Some u \<Rightarrow> \<lparr>sg_encoding = GSM7, sg_parts = (if u \<le> 160 then 1 else ceil_div u 153), sg_units = u\<rparr>
      | None \<Rightarrow>
          (let u = length (code_points raw) in
           \<lparr>sg_encoding = UCS2, sg_parts = (if u \<le> 70 then 1 else ceil_div u 67), sg_units = u\<rparr>))"

definition composerLen :: "jstr \<Rightarrow> nat" where
  "composerLen text = length (code_points text)"

section \<open>Days\<close>

type_synonym calendar = "int \<Rightarrow> jstr"

text \<open>Times beyond 8.64e15 ms are invalid dates.\<close>

definition dateKey :: "calendar \<Rightarrow> int \<Rightarrow> jstr" where
  "dateKey local_date ms = (if \<bar>ms\<bar> > 8640000000000000 then tx_unknown_date else local_date ms)"

definition message_day :: "clock \<Rightarrow> calendar \<Rightarrow> sms_message \<Rightarrow> jstr" where
  "message_day date_ms local_date m = dateKey local_date (parseTs date_ms (sm_timestamp m))"

definition add_to_groups ::
    "('m \<Rightarrow> jstr) \<Rightarrow> (jstr \<times> 'm list) list \<times> jstr \<Rightarrow> 'm \<Rightarrow> (jstr \<times> 'm list) list \<times> jstr" where
  "add_to_groups day st m =
     (case st of (out, lst) \<Rightarrow>
        if out = [] \<or> day m \<noteq> lst then (out @ [(day m, [m])], day m)
        else (butlast out @ [(fst (last out), snd (last out) @ [m])], lst))"

definition day_groups :: "('m \<Rightarrow> jstr) \<Rightarrow> 'm list \<Rightarrow> (jstr \<times> 'm list) list" where
  "day_groups day ms = fst (foldl (add_to_groups day) ([], []) ms)"

definition selectedThreadGroups ::
    "clock \<Rightarrow> calendar \<Rightarrow> sms_thread option \<Rightarrow> sms_message list \<Rightarrow> (jstr \<times> sms_message list) list" where
  "selectedThreadGroups date_ms local_date sel ms =
     (case sel of None \<Rightarrow> [] | Some _ \<Rightarrow> day_groups (message_day date_ms local_date) ms)"

section \<open>Search\<close>

definition filteredThreads :: "jstr \<Rightarrow> sms_thread list \<Rightarrow> sms_thread list" where
  "filteredThreads search threads =
     (let q = to_lower (trim search) in
      if q = [] then threads
      else filter (\<lambda>t. str_includes (th_peerLower t) q \<or> str_includes (th_lastMessageLower t) q) threads)"

section \<open>Read marks\<close>

definition lastSeenKey :: "jstr \<Rightarrow> jstr \<Rightarrow> jstr" where
  "lastSeenKey selectedDevice threadKey = js ''sms_thread_last_seen:'' @ selectedDevice @ js '':'' @ threadKey"

text \<open>\<open>Number(text)\<close> on the decimal integers the program stores; any other text reads as \<open>NaN\<close>.\<close>

definition int_text :: "jstr \<Rightarrow> int option" where
  "int_text s =
     (let (neg, ds) = (case s of c # r \<Rightarrow> if c = 45 then (True, r) else (False, s) | [] \<Rightarrow> (False, s)) in
      if ds \<noteq> [] \<and> list_all (\<lambda>c. 48 \<le> c \<and> c \<le> 57) ds
      then Some (if neg then - int (read_nat ds) else int (read_nat ds)) else None)"

definition getLastSeen :: "jstr \<Rightarrow> jstr \<Rightarrow> storage \<Rightarrow> int" where
  "getLastSeen selectedDevice threadKey s =
     (case get_item s (lastSeenKey selectedDevice threadKey) of
        Some (Some v) \<Rightarrow> (case int_text v of None \<Rightarrow> 0 | Some n \<Rightarrow> n)
      | _ \<Rightarrow> 0)"

definition setLastSeen :: "int \<Rightarrow> jstr \<Rightarrow> jstr \<Rightarrow> int \<Rightarrow> storage \<Rightarrow> storage" where
  "setLastSeen now selectedDevice threadKey ts s =
     (case set_item s (lastSeenKey selectedDevice threadKey) (show_int (if ts \<noteq> 0 then ts else now)) of
        None \<Rightarrow> s | Some s' \<Rightarrow> s')"

definition markThreadSeen :: "int \<Rightarrow> jstr \<Rightarrow> sms_thread \<Rightarrow> storage \<Rightarrow> storage" where
  "markThreadSeen now selectedDevice t s = setLastSeen now selectedDevice (th_key t) (th_lastTs t) s"

definition isUnread :: "jstr \<Rightarrow> sms_thread \<Rightarrow> storage \<Rightarrow> bool" where
  "isUnread selectedDevice t s \<longleftrightarrow> th_lastTs t > getLastSeen selectedDevice (th_key t) s"

section \<open>Sending\<close>

datatype send_request = NothingToSend | NoDevice | SendPayload jsval

definition sendToCurrentThread :: "jstr \<Rightarrow> sms_thread option \<Rightarrow> jstr option \<Rightarrow> jstr \<Rightarrow> send_request" where
  "sendToCurrentThread selectedDevice sel firstDevice composer =
     (case sel of
        None \<Rightarrow> NothingToSend
      | Some t \<Rightarrow>
          (let text = trim composer;
               fallback = (case th_deviceId t of Some (c # d) \<Rightarrow> c # d
                 | _ \<Rightarrow> (case firstDevice of None \<Rightarrow> [] | Some d \<Rightarrow> d));
               resolvedDeviceId = (if selectedDevice \<noteq> js ''all'' then selectedDevice else fallback)
           in if text = [] then NothingToSend
              else if resolvedDeviceId = [] then NoDevice
              else if selectedDevice = js ''all'' then
                SendPayload (obj [(''imsi'', JStr (th_imsi t)), (''phone'', JStr (th_peer t)), (''message'', JStr text)])
              else SendPayload (obj [(''device_id'', JStr resolvedDeviceId), (''phone'', JStr (th_peer t)),
                     (''message'', JStr text)])))"

definition openSendModal :: "jstr \<Rightarrow> jstr option \<Rightarrow> jstr" where
  "openSendModal selectedDevice firstDevice =
     (if selectedDevice \<noteq> js ''all'' then selectedDevice
      else case firstDevice of None \<Rightarrow> [] | Some d \<Rightarrow> d)"

definition handleSendModal :: "jstr \<Rightarrow> jstr \<Rightarrow> jstr \<Rightarrow> jsval option" where
  "handleSendModal dev phone message =
     (if dev = [] \<or> phone = [] \<or> message = [] then None
      else Some (obj [(''device_id'', JStr dev), (''phone'', JStr phone), (''message'', JStr message)]))"

section \<open>Facts\<close>

definition gsm7_width :: "nat \<Rightarrow> nat" where
  "gsm7_width ch = (if ch \<in> set GSM7_BASIC_CHARS then 1 else 2)"

definition gsm7_char :: "nat \<Rightarrow> bool" where
  "gsm7_char ch \<longleftrightarrow> ch \<in> set GSM7_BASIC_CHARS \<or> ch \<in> set GSM7_EXT_CHARS"

lemma gsm7_units_eq:
  "gsm7_units cs acc = (if list_all gsm7_char cs then Some (acc + sum_list (map gsm7_width cs)) else None)"
proof (induction cs acc rule: gsm7_units.induct)
  case (2 ch cs acc)
  then show ?case
    by (cases "ch \<in> set GSM7_BASIC_CHARS"; cases "ch \<in> set GSM7_EXT_CHARS")
       (simp_all add: gsm7_char_def [of ch] gsm7_width_def [of ch])
qed simp

lemma ceil_div_bounds:
  assumes "0 < b" and "0 < a"
  shows "(ceil_div a b - 1) * b < a \<and> a \<le> ceil_div a b * b \<and> 0 < ceil_div a b"
proof -
  obtain a' where a: "a = Suc a'" using assms(2) by (cases a) auto
  have c: "ceil_div (Suc a') b = Suc (a' div b)"
    using assms(1) by (simp add: ceil_div_def)
  have "a' = a' div b * b + a' mod b" by simp
  moreover have "a' mod b < b" using assms(1) by simp
  ultimately have l: "a' div b * b \<le> a'" and u: "a' < a' div b * b + b" by linarith+
  have "(Suc (a' div b) - 1) * b < Suc a'" unfolding diff_Suc_1 using l by (rule le_imp_less_Suc)
  moreover have "Suc a' \<le> Suc (a' div b) * b" using u by simp
  ultimately show ?thesis unfolding a c by simp
qed

lemma add_to_groups_pair:
  "add_to_groups day (out, lst) m =
     (if out = [] \<or> day m \<noteq> lst then (out @ [(day m, [m])], day m)
      else (butlast out @ [(fst (last out), snd (last out) @ [m])], lst))"
  by (simp add: add_to_groups_def)

lemma day_groups_snoc:
  "foldl (add_to_groups day) ([], []) ms = (out, lst) \<Longrightarrow>
   concat (map snd out) = ms \<and> (\<forall>(d, xs)\<in>set out. xs \<noteq> [] \<and> (\<forall>x\<in>set xs. day x = d)) \<and>
   (out \<noteq> [] \<longrightarrow> fst (last out) = lst) \<and> successively (\<lambda>a b. fst a \<noteq> fst b) out"
proof (induction ms arbitrary: out lst rule: rev_induct)
  case (snoc m ms)
  obtain o1 l1 where o1: "foldl (add_to_groups day) ([], []) ms = (o1, l1)" by fastforce
  note ih = snoc.IH [OF o1]
  show ?case
  proof (cases "o1 = [] \<or> day m \<noteq> l1")
    case True
    then have "out = o1 @ [(day m, [m])]" "lst = day m"
      using snoc.prems o1 by (auto simp: add_to_groups_pair)
    with True ih show ?thesis by (auto simp: successively_append_iff)
  next
    case False
    then have l: "lst = l1" "l1 = day m" and out: "out = butlast o1 @ [(fst (last o1), snd (last o1) @ [m])]"
      using snoc.prems o1 by (auto simp: add_to_groups_pair)
    obtain pre d xs where pre: "o1 = pre @ [(d, xs)]"
      using False by (metis rev_exhaust surj_pair)
    with ih l out show ?thesis by (auto simp: successively_append_iff)
  qed
qed simp

lemma day_groups_facts:
  "concat (map snd (day_groups day ms)) = ms \<and>
   (\<forall>(d, xs)\<in>set (day_groups day ms). xs \<noteq> [] \<and> (\<forall>x\<in>set xs. day x = d)) \<and>
   successively (\<lambda>a b. fst a \<noteq> fst b) (day_groups day ms)"
  unfolding day_groups_def
  using day_groups_snoc [of day ms "fst (foldl (add_to_groups day) ([], []) ms)" "snd (foldl (add_to_groups day) ([], []) ms)"]
  by simp

lemma int_text_show: "int_text (show_int n) = Some n"
proof -
  have d: "list_all (\<lambda>c. 48 \<le> c \<and> c \<le> 57) (show_nat k)" for k
    using show_nat_digits by (auto simp: list_all_iff)
  have ne: "show_nat k \<noteq> 45 # r" for k r
    using show_nat_digits [of 45 k] by auto
  show ?thesis
  proof (cases "n < 0")
    case True
    then show ?thesis
      by (simp add: int_text_def show_int_def js_def d read_show_nat del: read_nat.simps)
  next
    case False
    have "(case show_nat (nat n) of c # r \<Rightarrow> if c = 45 then (True, r) else (False, show_nat (nat n))
        | [] \<Rightarrow> (False, show_nat (nat n))) = (False, show_nat (nat n))"
      using ne by (auto split: list.splits)
    with False show ?thesis
      by (simp add: int_text_def show_int_def d read_show_nat del: read_nat.simps)
  qed
qed

lemma lastSeen_read:
  "st_avail s \<Longrightarrow> st_room s \<Longrightarrow>
   getLastSeen dev k (setLastSeen now dev k ts s) = (if ts \<noteq> 0 then ts else now)"
proof -
  assume "st_avail s" "st_room s"
  then obtain s' where s': "set_item s (lastSeenKey dev k) (show_int (if ts \<noteq> 0 then ts else now)) = Some s'"
    by (auto simp: set_item_def)
  then show ?thesis
    using ls.get_set_same [OF s'] by (simp add: getLastSeen_def setLastSeen_def int_text_show)
qed

section \<open>Properties\<close>

text \<open>The segment estimate is exact: a text is sent as GSM-7 iff every character is in the basic or the
  extension alphabet, its units are one per basic and two per extension character (for other texts one
  per code point), and the number of parts is 1 where the units fit a single message, otherwise the
  least number of parts that holds them.\<close>

lemma segments_exact:
  "let e = estimateSegments raw; cs = code_points raw; p = sg_parts e; u = sg_units e;
       single = (if sg_encoding e = GSM7 then 160 else 70); multi = (if sg_encoding e = GSM7 then 153 else 67)
   in (sg_encoding e = GSM7) = list_all gsm7_char cs \<and>
      u = (if sg_encoding e = GSM7 then sum_list (map gsm7_width cs) else length cs) \<and>
      (if u \<le> single then p = 1 else (p - 1) * multi < u \<and> u \<le> p * multi \<and> 1 < p)"
proof (cases "list_all gsm7_char (code_points raw)")
  case True
  let ?u = "sum_list (map gsm7_width (code_points raw))"
  have e: "estimateSegments raw = \<lparr>sg_encoding = GSM7, sg_parts = (if ?u \<le> 160 then 1 else ceil_div ?u 153), sg_units = ?u\<rparr>"
    using True by (simp add: estimateSegments_def gsm7_units_eq)
  have b: "160 < ?u \<Longrightarrow> (ceil_div ?u 153 - 1) * 153 < ?u \<and> ?u \<le> ceil_div ?u 153 * 153 \<and> 0 < ceil_div ?u 153"
    by (rule ceil_div_bounds) linarith+
  then have "160 < ?u \<Longrightarrow> 1 < ceil_div ?u 153"
    by (cases "ceil_div ?u 153 = 1") auto
  then show ?thesis
    using True b by (simp add: e Let_def)
next
  case False
  let ?u = "length (code_points raw)"
  have e: "estimateSegments raw = \<lparr>sg_encoding = UCS2, sg_parts = (if ?u \<le> 70 then 1 else ceil_div ?u 67), sg_units = ?u\<rparr>"
    using False by (simp add: estimateSegments_def gsm7_units_eq Let_def)
  have b: "70 < ?u \<Longrightarrow> (ceil_div ?u 67 - 1) * 67 < ?u \<and> ?u \<le> ceil_div ?u 67 * 67 \<and> 0 < ceil_div ?u 67"
    by (rule ceil_div_bounds) linarith+
  then have "70 < ?u \<Longrightarrow> 1 < ceil_div ?u 67"
    by (cases "ceil_div ?u 67 = 1") auto
  then show ?thesis
    using False b by (simp add: e Let_def)
qed

text \<open>Grouping by day loses and reorders nothing: the groups put together are the conversation, none
  is empty, all messages of a group are of its day, and neighbouring groups are of different days.\<close>

lemma day_groups_partition:
  "let gs = selectedThreadGroups date_ms local_date (Some t) ms in
   concat (map snd gs) = ms \<and>
   list_all (\<lambda>(d, xs). 0 < length xs \<and> list_all (\<lambda>x. message_day date_ms local_date x = d) xs) gs \<and>
   successively (\<lambda>a b. fst a \<noteq> fst b) gs"
  using day_groups_facts [of "message_day date_ms local_date" ms]
  by (simp add: selectedThreadGroups_def Let_def list_all_iff split_beta)

text \<open>Opening a conversation marks it read: where storage works, a thread just marked as seen is not
  unread, and it becomes unread again exactly when a later message arrives.\<close>

lemma seen_thread_read:
  assumes "st_avail s" and "st_room s" and "th_lastTs t \<noteq> 0" and "th_key t' = th_key t"
  shows "isUnread dev t' (markThreadSeen now dev t s) \<longleftrightarrow> th_lastTs t < th_lastTs t'"
  using lastSeen_read [OF assms(1,2), of dev "th_key t" now "th_lastTs t"] assms(3,4)
  by (simp add: isUnread_def markThreadSeen_def)

lemma seen_thread_read_example:
  "let c = \<lparr>sc_imsi = js ''460'', sc_peer = js ''10086'', sc_device_id = None, sc_last_sms_id = 3,
         sc_last_timestamp = js ''t1'', sc_last_content = js ''hi'', sc_device_name = None, sc_local_phone = []\<rparr>;
       t = normalizeThread (\<lambda>_. Some 1000) c; t2 = normalizeThread (\<lambda>_. Some 2000) c
   in isUnread (js ''all'') t2 (markThreadSeen 5 (js ''all'') t \<lparr>st_avail = True, st_room = True, st_items = Map.empty\<rparr>)"
  unfolding Let_def
  by (subst seen_thread_read) (simp_all add: normalizeThread_def parseTs_def)

end
