(* ===== verification/SmsView.thy ===== *)
theory SmsView
  imports SmsText
begin

text \<open>
  The state of \<open>web/src/views/Sms.vue\<close> and its handlers. Every request under way is a task,
  filed under the sequence number its caller drew; an event delivers the answer of a task, in any
  order. What a caller does after its \<open>await\<close> is the \<open>after\<close> part of the task. The DOM
  (scrolling, layout measurement, dialogs) is left out; whether the layout is narrow is an event.
\<close>

section \<open>State\<close>

datatype device_followup = DevNothing | DevRefresh | DevMount

text \<open>\<open>ThenEnsure always syncRoute silent\<close>: go on to \<open>ensureThreadSelection\<close>, even after
  a failure if \<open>always\<close>.\<close>

datatype list_followup =
    ThenNothing
  | ThenEnsure bool bool bool
  | ThenDevice jstr bool bool
  | ThenMount

record list_task =
  lt_device :: jstr
  lt_silent :: bool
  lt_after :: list_followup

record thread_task =
  tt_thread :: sms_thread
  tt_query :: thread_query
  tt_silent :: bool

record mount_wait =
  mo_initial :: jstr
  mo_devices_done :: bool
  mo_messages :: "bool option"

record sms_view =
  sv_devices :: "jsval list"
  sv_devicesError :: "app_error option"
  sv_devicesLastOkAt :: "int option"
  sv_loading :: bool
  sv_threads :: "sms_thread list"
  sv_messagesLastOkAt :: "int option"
  sv_messagesError :: "app_error option"
  sv_selectedDevice :: jstr
  sv_selectedKey :: jstr
  sv_search :: jstr
  sv_narrow :: bool
  sv_loadingMore :: bool
  sv_threadLoading :: bool
  sv_messages :: "sms_message list"
  sv_hasMore :: bool
  sv_deviceSeq :: nat
  sv_listSeq :: nat
  sv_threadSeq :: nat
  sv_deviceTasks :: "nat \<Rightarrow> device_followup option"
  sv_listTasks :: "nat \<Rightarrow> list_task option"
  sv_threadTasks :: "nat \<Rightarrow> thread_task option"
  sv_moreTask :: "thread_query option"
  sv_routeDevice :: "jstr option"
  sv_routeContact :: "jstr option"
  sv_local :: storage
  sv_mount :: "mount_wait option"

definition initial_sms :: "jstr option \<Rightarrow> jstr option \<Rightarrow> storage \<Rightarrow> bool \<Rightarrow> sms_view" where
  "initial_sms device contact local narrow =
     \<lparr>sv_devices = [], sv_devicesError = None, sv_devicesLastOkAt = None, sv_loading = False,
      sv_threads = [], sv_messagesLastOkAt = None, sv_messagesError = None,
      sv_selectedDevice = (case device of None \<Rightarrow> js ''all'' | Some d \<Rightarrow> d),
      sv_selectedKey = (case contact of None \<Rightarrow> [] | Some c \<Rightarrow> c), sv_search = [], sv_narrow = narrow,
      sv_loadingMore = False, sv_threadLoading = False, sv_messages = [], sv_hasMore = False,
      sv_deviceSeq = 0, sv_listSeq = 0, sv_threadSeq = 0, sv_deviceTasks = Map.empty,
      sv_listTasks = Map.empty, sv_threadTasks = Map.empty, sv_moreTask = None,
      sv_routeDevice = device, sv_routeContact = contact, sv_local = local, sv_mount = None\<rparr>"

definition selectedThread :: "sms_view \<Rightarrow> sms_thread option" where
  "selectedThread s = find (\<lambda>t. th_key t = sv_selectedKey s) (sv_threads s)"

definition shown_threads :: "sms_view \<Rightarrow> sms_thread list" where
  "shown_threads s = filteredThreads (sv_search s) (sv_threads s)"

definition canLoadMoreHistory :: "sms_view \<Rightarrow> bool" where
  "canLoadMoreHistory s \<longleftrightarrow> selectedThread s \<noteq> None \<and> sv_hasMore s"

section \<open>The route\<close>

definition normalizeQueryDevice :: "jstr \<Rightarrow> jstr option" where
  "normalizeQueryDevice device =
     (let v = trim device in if v = [] \<or> v = js ''all'' then None else Some v)"

definition replace_route :: "jstr \<Rightarrow> jstr \<Rightarrow> sms_view \<Rightarrow> sms_view" where
  "replace_route device contact s =
     s\<lparr>sv_routeDevice := normalizeQueryDevice device,
       sv_routeContact := (if trim contact = [] then None else Some (trim contact))\<rparr>"

section \<open>Starting requests\<close>

definition clearSelectedThread :: "bool \<Rightarrow> sms_view \<Rightarrow> sms_view" where
  "clearSelectedThread syncRoute s =
     (let s1 = s\<lparr>sv_threadSeq := Suc (sv_threadSeq s), sv_selectedKey := [], sv_messages := [],
                 sv_hasMore := False, sv_threadLoading := False\<rparr>
      in if syncRoute then replace_route (sv_selectedDevice s1) [] s1 else s1)"

definition fetchDevices :: "device_followup \<Rightarrow> sms_view \<Rightarrow> sms_view" where
  "fetchDevices after s =
     (let seq = Suc (sv_deviceSeq s) in
      s\<lparr>sv_deviceSeq := seq, sv_devicesError := None, sv_deviceTasks := (sv_deviceTasks s)(seq \<mapsto> after)\<rparr>)"

definition fetchMessages :: "bool \<Rightarrow> list_followup \<Rightarrow> sms_view \<Rightarrow> sms_view" where
  "fetchMessages silent after s =
     (let seq = Suc (sv_listSeq s) in
      s\<lparr>sv_listSeq := seq, sv_loading := (if silent then sv_loading s else True), sv_messagesError := None,
        sv_listTasks := (sv_listTasks s)(seq \<mapsto>
          \<lparr>lt_device = sv_selectedDevice s, lt_silent = silent, lt_after = after\<rparr>)\<rparr>)"

definition thread_request :: "jstr \<Rightarrow> sms_thread \<Rightarrow> thread_query" where
  "thread_request device t =
     \<lparr>tq_peer = th_peer t, tq_limit = 80,
      tq_device_id = (if device \<noteq> [] \<and> device \<noteq> js ''all'' then device else js ''all''),
      tq_imsi = (if device \<noteq> [] \<and> device \<noteq> js ''all'' then [] else th_imsi t),
      tq_before_ts = [], tq_before_id = 0\<rparr>"

definition fetchThreadLatest :: "bool \<Rightarrow> sms_view \<Rightarrow> sms_view" where
  "fetchThreadLatest silent s =
     (case selectedThread s of
        None \<Rightarrow> s\<lparr>sv_messages := [], sv_hasMore := False\<rparr>
      | Some t \<Rightarrow>
          (let seq = Suc (sv_threadSeq s) in
           s\<lparr>sv_threadSeq := seq, sv_threadLoading := (if silent then sv_threadLoading s else True),
             sv_threadTasks := (sv_threadTasks s)(seq \<mapsto>
               \<lparr>tt_thread = t, tt_query = thread_request (sv_selectedDevice s) t, tt_silent = silent\<rparr>)\<rparr>))"

section \<open>Selecting\<close>

definition point_at :: "jstr \<Rightarrow> bool \<Rightarrow> sms_view \<Rightarrow> sms_view" where
  "point_at key syncRoute s =
     (if syncRoute then replace_route (sv_selectedDevice s) key (s\<lparr>sv_selectedKey := key\<rparr>)
      else s\<lparr>sv_selectedKey := key\<rparr>)"

definition selectThread :: "jstr \<Rightarrow> bool \<Rightarrow> bool \<Rightarrow> sms_view \<Rightarrow> sms_view" where
  "selectThread key syncRoute silent s =
     (if key = [] then s
      else if sv_selectedKey s = key \<and> sv_messages s \<noteq> [] then s
      else let s1 = point_at key syncRoute s in
           case find (\<lambda>t. th_key t = key) (sv_threads s1) of
             None \<Rightarrow> s1\<lparr>sv_messages := [], sv_hasMore := False\<rparr>
           | Some t \<Rightarrow> fetchThreadLatest silent s1)"

definition ensureThreadSelection :: "bool \<Rightarrow> bool \<Rightarrow> sms_view \<Rightarrow> sms_view" where
  "ensureThreadSelection syncRoute silent s =
     (case selectedThread s of
        Some t \<Rightarrow> fetchThreadLatest silent s
      | None \<Rightarrow>
          (let s1 = s\<lparr>sv_messages := [], sv_hasMore := False\<rparr>;
               s2 = (if sv_selectedKey s1 \<noteq> [] then point_at [] syncRoute s1 else s1)
           in if sv_narrow s2 \<or> shown_threads s2 = [] then s2
              else selectThread (th_key (hd (shown_threads s2))) syncRoute silent s2))"

definition handleSelectDevice :: "jstr \<Rightarrow> bool \<Rightarrow> bool \<Rightarrow> sms_view \<Rightarrow> sms_view" where
  "handleSelectDevice deviceId syncRoute silent s =
     (let d = trim (if deviceId = [] then js ''all'' else deviceId);
          nextDevice = (if d = [] then js ''all'' else d);
          s1 = clearSelectedThread False (s\<lparr>sv_selectedDevice := nextDevice\<rparr>);
          s2 = (if syncRoute then replace_route nextDevice [] s1 else s1)
      in fetchMessages silent (ThenDevice nextDevice syncRoute silent) s2)"

definition backToList :: "sms_view \<Rightarrow> sms_view" where
  "backToList s = (if sv_selectedKey s = [] then s else clearSelectedThread True s)"

definition fetchMessagesAndThread :: "bool \<Rightarrow> sms_view \<Rightarrow> sms_view" where
  "fetchMessagesAndThread silent s = fetchMessages silent (ThenEnsure False False silent) s"

definition pollRefresh :: "sms_view \<Rightarrow> sms_view" where
  "pollRefresh s =
     (if sv_loading s \<or> sv_threadLoading s \<or> sv_loadingMore s then s else fetchMessagesAndThread True s)"

definition refreshAll :: "sms_view \<Rightarrow> sms_view" where
  "refreshAll s = fetchDevices DevRefresh s"

definition on_layout :: "bool \<Rightarrow> sms_view \<Rightarrow> sms_view" where
  "on_layout narrow s =
     (let s1 = s\<lparr>sv_narrow := narrow\<rparr> in
      if narrow = sv_narrow s \<or> narrow \<or> sv_selectedKey s1 \<noteq> [] \<or> shown_threads s1 = [] then s1
      else selectThread (th_key (hd (shown_threads s1))) True False s1)"

definition mounted :: "sms_view \<Rightarrow> sms_view" where
  "mounted s =
     fetchMessages False ThenMount (fetchDevices DevMount
       (s\<lparr>sv_mount := Some \<lparr>mo_initial = sv_selectedDevice s, mo_devices_done = False, mo_messages = None\<rparr>\<rparr>))"

text \<open>After both initial requests have come back.\<close>

definition mount_continue :: "sms_view \<Rightarrow> sms_view" where
  "mount_continue s =
     (case sv_mount s of
        None \<Rightarrow> s
      | Some m \<Rightarrow>
          (case mo_messages m of
             None \<Rightarrow> s
           | Some success \<Rightarrow>
               if \<not> mo_devices_done m then s
               else (let s1 = s\<lparr>sv_mount := None\<rparr> in
                 if \<not> success \<and> sv_selectedDevice s1 \<noteq> mo_initial m
                 then fetchMessages False (ThenEnsure True False False) s1
                 else ensureThreadSelection False False s1)))"

section \<open>Answers\<close>

definition after_devices :: "device_followup \<Rightarrow> sms_view \<Rightarrow> sms_view" where
  "after_devices after s =
     (case after of
        DevNothing \<Rightarrow> s
      | DevRefresh \<Rightarrow> fetchMessagesAndThread False s
      | DevMount \<Rightarrow> mount_continue (s\<lparr>sv_mount := map_option (\<lambda>m. m\<lparr>mo_devices_done := True\<rparr>) (sv_mount s)\<rparr>))"

definition apply_devices :: "int \<Rightarrow> jsval list service_result \<Rightarrow> sms_view \<Rightarrow> sms_view" where
  "apply_devices now r s =
     (case r of
        Success ds \<Rightarrow>
          (let s1 = s\<lparr>sv_devices := ds, sv_devicesLastOkAt := Some now\<rparr> in
           if sv_selectedDevice s1 \<noteq> js ''all'' \<and>
              \<not> list_ex (\<lambda>d. jfield d ''id'' = JStr (sv_selectedDevice s1)) ds
           then replace_route (js ''all'') [] (clearSelectedThread False (s1\<lparr>sv_selectedDevice := js ''all''\<rparr>))
           else s1)
      | Failure e \<Rightarrow> s\<lparr>sv_devicesError := Some e\<rparr>)"

definition on_devices :: "int \<Rightarrow> nat \<Rightarrow> jsval list service_result \<Rightarrow> sms_view \<Rightarrow> sms_view" where
  "on_devices now seq r s =
     (case sv_deviceTasks s seq of
        None \<Rightarrow> s
      | Some after \<Rightarrow>
          (let s1 = s\<lparr>sv_deviceTasks := (sv_deviceTasks s)(seq := None)\<rparr> in
           after_devices after (if seq \<noteq> sv_deviceSeq s1 then s1 else apply_devices now r s1)))"

definition after_list :: "list_followup \<Rightarrow> bool \<Rightarrow> sms_view \<Rightarrow> sms_view" where
  "after_list after success s =
     (case after of
        ThenNothing \<Rightarrow> s
      | ThenEnsure always syncRoute silent \<Rightarrow>
          (if success \<or> always then ensureThreadSelection syncRoute silent s else s)
      | ThenDevice nextDevice syncRoute silent \<Rightarrow>
          (if \<not> success \<or> sv_selectedDevice s \<noteq> nextDevice then s else ensureThreadSelection syncRoute silent s)
      | ThenMount \<Rightarrow> mount_continue (s\<lparr>sv_mount := map_option (\<lambda>m. m\<lparr>mo_messages := Some success\<rparr>) (sv_mount s)\<rparr>))"

definition apply_list :: "int \<Rightarrow> bool \<Rightarrow> sms_thread list service_result \<Rightarrow> sms_view \<Rightarrow> sms_view" where
  "apply_list now silent r s =
     (let s1 = (case r of
                  Success ts \<Rightarrow> s\<lparr>sv_threads := ts, sv_messagesLastOkAt := Some now\<rparr>
                | Failure e \<Rightarrow> s\<lparr>sv_messagesError := Some e\<rparr>)
      in if silent then s1 else s1\<lparr>sv_loading := False\<rparr>)"

definition on_list :: "int \<Rightarrow> nat \<Rightarrow> sms_thread list service_result \<Rightarrow> sms_view \<Rightarrow> sms_view" where
  "on_list now seq r s =
     (case sv_listTasks s seq of
        None \<Rightarrow> s
      | Some task \<Rightarrow>
          (let s1 = s\<lparr>sv_listTasks := (sv_listTasks s)(seq := None)\<rparr> in
           if seq \<noteq> sv_listSeq s1 then after_list (lt_after task) False s1
           else after_list (lt_after task) (is_ok r) (apply_list now (lt_silent task) r s1)))"

definition apply_thread :: "int \<Rightarrow> thread_task \<Rightarrow> sms_message list service_result \<Rightarrow> sms_view \<Rightarrow> sms_view" where
  "apply_thread now task r s =
     (let s1 = (case r of
                  Success ms \<Rightarrow> s\<lparr>sv_messages := ms, sv_hasMore := (length ms = tq_limit (tt_query task))\<rparr>
                | Failure e \<Rightarrow> s\<lparr>sv_messagesError := Some e\<rparr>);
          s2 = (if tt_silent task then s1 else s1\<lparr>sv_threadLoading := False\<rparr>)
      in if is_ok r
         then s2\<lparr>sv_local := markThreadSeen now (sv_selectedDevice s2) (tt_thread task) (sv_local s2)\<rparr>
         else s2)"

definition on_thread :: "int \<Rightarrow> nat \<Rightarrow> sms_message list service_result \<Rightarrow> sms_view \<Rightarrow> sms_view" where
  "on_thread now seq r s =
     (case sv_threadTasks s seq of
        None \<Rightarrow> s
      | Some task \<Rightarrow>
          (let s1 = s\<lparr>sv_threadTasks := (sv_threadTasks s)(seq := None)\<rparr> in
           if seq \<noteq> sv_threadSeq s1 then s1 else apply_thread now task r s1))"

section \<open>Older messages\<close>

definition loadMoreHistory :: "sms_view \<Rightarrow> sms_view" where
  "loadMoreHistory s =
     (if \<not> canLoadMoreHistory s \<or> sv_loadingMore s then s
      else case (selectedThread s, sv_messages s) of
             (Some t, oldest # _) \<Rightarrow>
               s\<lparr>sv_loadingMore := True,
                 sv_moreTask := Some ((thread_request (sv_selectedDevice s) t)
                   \<lparr>tq_before_ts := sm_timestamp oldest, tq_before_id := sm_id oldest\<rparr>)\<rparr>
           | _ \<Rightarrow> s)"

definition on_more :: "clock \<Rightarrow> sms_message list service_result \<Rightarrow> sms_view \<Rightarrow> sms_view" where
  "on_more date_ms r s =
     (case sv_moreTask s of
        None \<Rightarrow> s
      | Some q \<Rightarrow>
          (let s1 = s\<lparr>sv_moreTask := None, sv_loadingMore := False\<rparr> in
           case r of
             Success ms \<Rightarrow> s1\<lparr>sv_messages := sort_messages date_ms ms @ sv_messages s1,
                              sv_hasMore := (length ms = tq_limit q)\<rparr>
           | Failure _ \<Rightarrow> s1))"

section \<open>Deleting\<close>

text \<open>After the server has deleted the thread \<open>key\<close>, respectively a message; clearing after the
  last message of a thread runs once the refresh has finished.\<close>

definition thread_deleted :: "jstr \<Rightarrow> sms_view \<Rightarrow> sms_view" where
  "thread_deleted key s =
     fetchMessages False ThenNothing (if sv_selectedKey s = key then clearSelectedThread True s else s)"

definition message_deleted :: "sms_view \<Rightarrow> sms_view" where
  "message_deleted s = fetchMessagesAndThread False s"

section \<open>Events\<close>

datatype sms_event =
    Mounted | Poll | RefreshAll | RefreshDevices | RefreshList | Search jstr | Layout bool
  | PickThread jstr bool bool | PickDevice jstr bool bool | Back
  | DevicesAnswer int nat "jsval list service_result"
  | ListAnswer int nat "sms_thread list service_result"
  | ThreadAnswer int nat "sms_message list service_result"
  | LoadMore | MoreAnswer "sms_message list service_result"
  | ThreadDeleted jstr | MessageDeleted | ThreadEmptied

fun sms_step :: "clock \<Rightarrow> sms_event \<Rightarrow> sms_view \<Rightarrow> sms_view" where
  "sms_step dm Mounted s = mounted s"
| "sms_step dm Poll s = pollRefresh s"
| "sms_step dm RefreshAll s = refreshAll s"
| "sms_step dm RefreshDevices s = fetchDevices DevNothing s"
| "sms_step dm RefreshList s = fetchMessagesAndThread False s"
| "sms_step dm (Search q) s = s\<lparr>sv_search := q\<rparr>"
| "sms_step dm (Layout n) s = on_layout n s"
| "sms_step dm (PickThread key sync silent) s = selectThread key sync silent s"
| "sms_step dm (PickDevice d sync silent) s = handleSelectDevice d sync silent s"
| "sms_step dm Back s = backToList s"
| "sms_step dm (DevicesAnswer now seq r) s = on_devices now seq r s"
| "sms_step dm (ListAnswer now seq r) s = on_list now seq r s"
| "sms_step dm (ThreadAnswer now seq r) s = on_thread now seq r s"
| "sms_step dm LoadMore s = loadMoreHistory s"
| "sms_step dm (MoreAnswer r) s = on_more dm r s"
| "sms_step dm (ThreadDeleted key) s = thread_deleted key s"
| "sms_step dm MessageDeleted s = message_deleted s"
| "sms_step dm ThreadEmptied s = clearSelectedThread True s"

section \<open>Which conversation is shown\<close>

text \<open>\<open>owner\<close> says to which thread a message belongs. \<open>current s\<close> is the request for
  messages that is still wanted.\<close>

definition current :: "sms_view \<Rightarrow> thread_task option" where
  "current s = sv_threadTasks s (sv_threadSeq s)"

definition wanted :: "sms_view \<Rightarrow> bool" where
  "wanted s \<longleftrightarrow> (\<exists>t. current s = Some t \<and> th_key (tt_thread t) = sv_selectedKey s)"

definition owned :: "(sms_message \<Rightarrow> jstr) \<Rightarrow> sms_view \<Rightarrow> bool" where
  "owned owner s \<longleftrightarrow> (\<forall>m\<in>set (sv_messages s). owner m = sv_selectedKey s)"

definition shown_ok :: "(sms_message \<Rightarrow> jstr) \<Rightarrow> sms_view \<Rightarrow> bool" where
  "shown_ok owner s \<longleftrightarrow>
     (\<forall>t\<in>set (sv_threads s). th_key t \<noteq> []) \<and>
     (\<forall>q. sv_threadTasks s q \<noteq> None \<longrightarrow> q \<le> sv_threadSeq s) \<and>
     (\<forall>t. current s = Some t \<longrightarrow> sv_selectedKey s = [] \<or> th_key (tt_thread t) = sv_selectedKey s) \<and>
     (sv_selectedKey s = [] \<or> owned owner s \<or> wanted s)"

lemma selectedThread_key: "selectedThread s = Some t \<Longrightarrow> th_key t = sv_selectedKey s \<and> t \<in> set (sv_threads s)"
  unfolding selectedThread_def by (drule find_SomeD) simp

lemma shown_ok_frame:
  assumes "sv_threads s' = sv_threads s" "sv_threadTasks s' = sv_threadTasks s" "sv_threadSeq s' = sv_threadSeq s"
    "sv_selectedKey s' = sv_selectedKey s" "sv_messages s' = sv_messages s"
  shows "shown_ok owner s' = shown_ok owner s"
  using assms by (simp add: shown_ok_def owned_def wanted_def current_def)

lemma replace_route_ok [simp]: "shown_ok owner (replace_route d c s) = shown_ok owner s"
  by (rule shown_ok_frame) (simp_all add: replace_route_def)

lemma fetchDevices_ok [simp]: "shown_ok owner (fetchDevices a s) = shown_ok owner s"
  by (rule shown_ok_frame) (simp_all add: fetchDevices_def Let_def)

lemma fetchMessages_ok [simp]: "shown_ok owner (fetchMessages silent a s) = shown_ok owner s"
  by (rule shown_ok_frame) (simp_all add: fetchMessages_def Let_def)

lemma clear_ok: "shown_ok owner s \<Longrightarrow> shown_ok owner (clearSelectedThread sync s)"
proof -
  assume s: "shown_ok owner s"
  have "shown_ok owner (s\<lparr>sv_threadSeq := Suc (sv_threadSeq s), sv_selectedKey := [], sv_messages := [],
      sv_hasMore := False, sv_threadLoading := False\<rparr>)"
    using s by (auto simp: shown_ok_def le_Suc_eq current_def)
  then show ?thesis by (simp add: clearSelectedThread_def Let_def)
qed

lemma fetchThread_ok:
  assumes th: "\<forall>t\<in>set (sv_threads s). th_key t \<noteq> []"
    and seq: "\<forall>q. sv_threadTasks s q \<noteq> None \<longrightarrow> q \<le> sv_threadSeq s"
    and sel: "selectedThread s = Some t"
  shows "shown_ok owner (fetchThreadLatest silent s)"
  using th seq selectedThread_key [OF sel]
  by (auto simp: shown_ok_def fetchThreadLatest_def sel Let_def current_def wanted_def le_Suc_eq)

lemma fetchThread_selected_ok:
  "shown_ok owner s \<Longrightarrow> selectedThread s = Some t \<Longrightarrow> shown_ok owner (fetchThreadLatest silent s)"
  by (rule fetchThread_ok) (simp_all add: shown_ok_def)

lemma point_at_fields [simp]:
  "sv_threads (point_at key sync s) = sv_threads s" "sv_threadTasks (point_at key sync s) = sv_threadTasks s"
  "sv_threadSeq (point_at key sync s) = sv_threadSeq s" "sv_selectedKey (point_at key sync s) = key"
  "sv_messages (point_at key sync s) = sv_messages s"
  by (simp_all add: point_at_def replace_route_def)

lemma selectThread_ok:
  assumes s: "shown_ok owner s" and k: "find (\<lambda>t. th_key t = key) (sv_threads s) = Some t"
  shows "shown_ok owner (selectThread key sync silent s)"
proof -
  have "selectedThread (point_at key sync s) = Some t" using k by (simp add: selectedThread_def)
  then have "shown_ok owner (fetchThreadLatest silent (point_at key sync s))"
    by (rule fetchThread_ok [rotated 2]) (use s in \<open>simp_all add: shown_ok_def\<close>)
  then show ?thesis
    using s k unfolding selectThread_def Let_def point_at_fields
    by (cases "key = []"; cases "sv_selectedKey s = key \<and> sv_messages s \<noteq> []") auto
qed

lemma find_key_some: "t \<in> set ts \<Longrightarrow> \<exists>u. find (\<lambda>u. th_key u = th_key t) ts = Some u"
  by (cases "find (\<lambda>u. th_key u = th_key t) ts") (auto simp: find_None_iff)

lemma shown_threads_subset: "set (shown_threads s) \<subseteq> set (sv_threads s)"
  by (auto simp: shown_threads_def filteredThreads_def Let_def)

lemma select_first_ok:
  assumes "shown_ok owner s" and "shown_threads s \<noteq> []"
  shows "shown_ok owner (selectThread (th_key (hd (shown_threads s))) sync silent s)"
proof -
  have "hd (shown_threads s) \<in> set (sv_threads s)"
    using assms(2) shown_threads_subset hd_in_set by blast
  from find_key_some [OF this] obtain u where
    "find (\<lambda>u. th_key u = th_key (hd (shown_threads s))) (sv_threads s) = Some u" by blast
  then show ?thesis by (rule selectThread_ok [OF assms(1)])
qed

lemma ensure_ok:
  assumes s: "shown_ok owner s"
  shows "shown_ok owner (ensureThreadSelection sync silent s)"
proof (cases "selectedThread s")
  case None
  let ?s1 = "s\<lparr>sv_messages := [], sv_hasMore := False\<rparr>"
  define s2 where "s2 = (if sv_selectedKey ?s1 \<noteq> [] then point_at [] sync ?s1 else ?s1)"
  have "shown_ok owner (point_at [] sync ?s1)" using s by (simp add: shown_ok_def current_def)
  moreover have "sv_selectedKey s = [] \<Longrightarrow> shown_ok owner ?s1" using s by (simp add: shown_ok_def current_def)
  ultimately have s2: "shown_ok owner s2" by (simp add: s2_def)
  have "ensureThreadSelection sync silent s = (if sv_narrow s2 \<or> shown_threads s2 = [] then s2
      else selectThread (th_key (hd (shown_threads s2))) sync silent s2)"
    by (simp only: ensureThreadSelection_def None Let_def s2_def option.case)
  then show ?thesis
    using s2 select_first_ok [OF s2] by simp
qed (use s fetchThread_selected_ok in \<open>simp add: ensureThreadSelection_def\<close>)

lemma mount_continue_ok:
  assumes s: "shown_ok owner s"
  shows "shown_ok owner (mount_continue s)"
proof -
  have m: "shown_ok owner (s\<lparr>sv_mount := None\<rparr>)" using s shown_ok_frame [of "s\<lparr>sv_mount := None\<rparr>" s] by simp
  show ?thesis
    using s ensure_ok [OF m] m by (simp add: mount_continue_def Let_def split: option.split)
qed

lemma shown_ok_mount [simp]: "shown_ok owner (s\<lparr>sv_mount := m\<rparr>) = shown_ok owner s"
  by (rule shown_ok_frame) simp_all

lemma shown_ok_search [simp]: "shown_ok owner (s\<lparr>sv_search := q\<rparr>) = shown_ok owner s"
  by (rule shown_ok_frame) simp_all

lemma shown_ok_narrow [simp]: "shown_ok owner (s\<lparr>sv_narrow := q\<rparr>) = shown_ok owner s"
  by (rule shown_ok_frame) simp_all

lemma shown_ok_deviceTasks [simp]: "shown_ok owner (s\<lparr>sv_deviceTasks := q\<rparr>) = shown_ok owner s"
  by (rule shown_ok_frame) simp_all

lemma shown_ok_listTasks [simp]: "shown_ok owner (s\<lparr>sv_listTasks := q\<rparr>) = shown_ok owner s"
  by (rule shown_ok_frame) simp_all

lemma shown_ok_local [simp]: "shown_ok owner (s\<lparr>sv_local := q\<rparr>) = shown_ok owner s"
  by (rule shown_ok_frame) simp_all

lemma shown_ok_device [simp]: "shown_ok owner (s\<lparr>sv_selectedDevice := q\<rparr>) = shown_ok owner s"
  by (rule shown_ok_frame) simp_all

lemma shown_ok_devices [simp]:
  "shown_ok owner (s\<lparr>sv_devices := ds, sv_devicesLastOkAt := n\<rparr>) = shown_ok owner s"
  "shown_ok owner (s\<lparr>sv_devicesError := e\<rparr>) = shown_ok owner s"
  by (rule shown_ok_frame; simp)+

lemma shown_ok_loading [simp]:
  "shown_ok owner (s\<lparr>sv_loading := b\<rparr>) = shown_ok owner s"
  "shown_ok owner (s\<lparr>sv_threadLoading := b\<rparr>) = shown_ok owner s"
  "shown_ok owner (s\<lparr>sv_messagesError := e\<rparr>) = shown_ok owner s"
  by (rule shown_ok_frame; simp)+

lemma layout_ok:
  assumes "shown_ok owner s"
  shows "shown_ok owner (on_layout narrow s)"
proof -
  have "shown_ok owner (s\<lparr>sv_narrow := narrow\<rparr>)" using assms by simp
  from this select_first_ok [OF this, of True False] show ?thesis
    unfolding on_layout_def Let_def if_distrib [of "shown_ok owner"] if_bool_eq_conj by blast
qed

lemma mounted_ok: "shown_ok owner s \<Longrightarrow> shown_ok owner (mounted s)"
  by (simp add: mounted_def)

lemma device_selected_ok: "shown_ok owner s \<Longrightarrow> shown_ok owner (handleSelectDevice d sync silent s)"
  using clear_ok [of owner "s\<lparr>sv_selectedDevice := q\<rparr>" False for q]
  by (simp add: handleSelectDevice_def Let_def)

lemma after_devices_ok: "shown_ok owner s \<Longrightarrow> shown_ok owner (after_devices a s)"
  using mount_continue_ok by (simp add: after_devices_def fetchMessagesAndThread_def split: device_followup.split)

lemma devices_answer_ok:
  assumes s: "shown_ok owner s"
  shows "shown_ok owner (on_devices now seq r s)"
proof (cases "sv_deviceTasks s seq")
  case (Some after)
  let ?s1 = "s\<lparr>sv_deviceTasks := (sv_deviceTasks s)(seq := None)\<rparr>"
  have s1: "shown_ok owner ?s1" using s by simp
  have "shown_ok owner (apply_devices now r ?s1)"
    using s clear_ok [of owner "s\<lparr>sv_deviceTasks := (sv_deviceTasks s)(seq := None), sv_devices := ds,
        sv_devicesLastOkAt := n, sv_selectedDevice := q\<rparr>" False for ds n q]
    by (simp add: apply_devices_def Let_def split: service_result.split)
  then have "shown_ok owner (if seq \<noteq> sv_deviceSeq ?s1 then ?s1 else apply_devices now r ?s1)"
    using s1 by presburger
  then show ?thesis
    unfolding on_devices_def Some Let_def option.case by (rule after_devices_ok)
qed (use s in \<open>simp add: on_devices_def\<close>)

lemma after_list_ok: "shown_ok owner s \<Longrightarrow> shown_ok owner (after_list a b s)"
  using mount_continue_ok ensure_ok by (simp add: after_list_def split: list_followup.split)

lemma shown_ok_threads:
  "shown_ok owner s \<Longrightarrow> list_all (\<lambda>t. th_key t \<noteq> []) ts \<Longrightarrow>
   shown_ok owner (s\<lparr>sv_threads := ts, sv_messagesLastOkAt := n\<rparr>)"
  by (simp add: shown_ok_def owned_def wanted_def current_def list_all_iff)

definition threads_keyed :: "sms_thread list service_result \<Rightarrow> bool" where
  "threads_keyed r \<longleftrightarrow> (case r of Success ts \<Rightarrow> list_all (\<lambda>t. th_key t \<noteq> []) ts | Failure _ \<Rightarrow> True)"

lemma list_answer_ok:
  assumes s: "shown_ok owner s" and r: "threads_keyed r"
  shows "shown_ok owner (on_list now seq r s)"
proof (cases "sv_listTasks s seq")
  case (Some task)
  let ?s1 = "s\<lparr>sv_listTasks := (sv_listTasks s)(seq := None)\<rparr>"
  have s1: "shown_ok owner ?s1" using s by simp
  have "shown_ok owner (apply_list now (lt_silent task) r ?s1)"
    using s1 r shown_ok_threads [OF s1] by (cases r) (simp_all add: apply_list_def threads_keyed_def Let_def)
  then show ?thesis
    unfolding on_list_def Some Let_def option.case using s1 after_list_ok by presburger
qed (use s in \<open>simp add: on_list_def\<close>)

text \<open>A successful answer holds messages of the thread that was asked for.\<close>

definition answer_owned :: "(sms_message \<Rightarrow> jstr) \<Rightarrow> sms_view \<Rightarrow> nat \<Rightarrow> sms_message list service_result \<Rightarrow> bool" where
  "answer_owned owner s seq r \<longleftrightarrow>
     (case sv_threadTasks s seq of
        None \<Rightarrow> True
      | Some task \<Rightarrow> (case r of Success ms \<Rightarrow> list_all (\<lambda>m. owner m = th_key (tt_thread task)) ms | Failure _ \<Rightarrow> False))"

lemma thread_answer_ok:
  assumes s: "shown_ok owner s" and r: "answer_owned owner s seq r"
  shows "shown_ok owner (on_thread now seq r s)"
proof (cases "sv_threadTasks s seq")
  case (Some task)
  let ?s1 = "s\<lparr>sv_threadTasks := (sv_threadTasks s)(seq := None)\<rparr>"
  obtain ms where ms: "r = Success ms" "\<forall>m\<in>set ms. owner m = th_key (tt_thread task)"
    using r Some by (cases r) (simp_all add: answer_owned_def list_all_iff)
  show ?thesis
  proof (cases "seq = sv_threadSeq s")
    case True
    then have "sv_selectedKey s = [] \<or> th_key (tt_thread task) = sv_selectedKey s"
      using s Some by (simp add: shown_ok_def current_def)
    then have "shown_ok owner (?s1\<lparr>sv_messages := ms, sv_hasMore := h\<rparr>)" for h
      using s ms(2) True by (auto simp: shown_ok_def owned_def current_def)
    then show ?thesis
      using True Some ms(1) by (simp add: on_thread_def apply_thread_def Let_def)
  next
    case False
    then have "shown_ok owner ?s1"
      using s by (simp add: shown_ok_def owned_def wanted_def current_def)
    then show ?thesis using False Some by (simp add: on_thread_def Let_def)
  qed
qed (use s in \<open>simp add: on_thread_def\<close>)

lemma poll_ok: "shown_ok owner s \<Longrightarrow> shown_ok owner (pollRefresh s)"
  by (simp add: pollRefresh_def fetchMessagesAndThread_def)

section \<open>Reachable states\<close>

text \<open>Events as the page raises them: a pick is one of the listed threads, thread keys are not empty,
  messages belong to the thread that was asked for. Requests for messages succeed and no older page is
  loaded.\<close>

fun event_ok :: "(sms_message \<Rightarrow> jstr) \<Rightarrow> sms_view \<Rightarrow> sms_event \<Rightarrow> bool" where
  "event_ok owner s (PickThread key sync silent) = list_ex (\<lambda>t. th_key t = key) (sv_threads s)"
| "event_ok owner s (ListAnswer now seq r) = threads_keyed r"
| "event_ok owner s (ThreadAnswer now seq r) = answer_owned owner s seq r"
| "event_ok owner s LoadMore = False"
| "event_ok owner s (MoreAnswer r) = False"
| "event_ok owner s _ = True"

inductive sms_reach :: "clock \<Rightarrow> (sms_message \<Rightarrow> jstr) \<Rightarrow> sms_view \<Rightarrow> bool"
  for dm :: clock and owner :: "sms_message \<Rightarrow> jstr" where
  start: "sms_reach dm owner (initial_sms device contact local narrow)"
| step: "sms_reach dm owner s \<Longrightarrow> event_ok owner s e \<Longrightarrow> sms_reach dm owner (sms_step dm e s)"

lemma initial_ok: "shown_ok owner (initial_sms device contact local narrow)"
  by (simp add: shown_ok_def initial_sms_def current_def owned_def)

lemma pick_ok:
  "shown_ok owner s \<Longrightarrow> list_ex (\<lambda>t. th_key t = key) (sv_threads s) \<Longrightarrow>
   shown_ok owner (selectThread key sync silent s)"
  unfolding list_ex_iff by (metis find_key_some selectThread_ok)

lemma sms_step_ok: "shown_ok owner s \<Longrightarrow> event_ok owner s e \<Longrightarrow> shown_ok owner (sms_step dm e s)"
  by (cases e)
     (simp_all add: mounted_ok poll_ok refreshAll_def fetchMessagesAndThread_def layout_ok pick_ok
        device_selected_ok backToList_def clear_ok devices_answer_ok list_answer_ok thread_answer_ok
        thread_deleted_def message_deleted_def)

lemma sms_reach_ok: "sms_reach dm owner s \<Longrightarrow> shown_ok owner s"
  by (induction rule: sms_reach.induct) (simp_all add: initial_ok sms_step_ok)

section \<open>Two interleavings that go wrong\<close>

definition thread_named :: "jstr \<Rightarrow> sms_thread" where
  "thread_named k = \<lparr>th_key = k, th_imsi = k, th_peer = k, th_deviceId = None, th_lastTs = 1, th_lastSmsId = 1,
     th_lastMessage = [], th_lastDeviceName = None, th_localPhone = [], th_peerLower = k, th_lastMessageLower = []\<rparr>"

definition message_numbered :: "int \<Rightarrow> jstr \<Rightarrow> sms_message" where
  "message_numbered n k = \<lparr>sm_id = n, sm_imsi = k, sm_peer = k, sm_content = [], sm_type = 1, sm_timestamp = [],
     sm_sender = k, sm_status = 1, sm_device_name = []\<rparr>"

abbreviation sms_run :: "clock \<Rightarrow> sms_event list \<Rightarrow> sms_view \<Rightarrow> sms_view" where
  "sms_run dm es s \<equiv> fold (sms_step dm) es s"

definition two_threads :: "sms_thread list service_result" where
  "two_threads = Success [thread_named [97], thread_named [98]]"

definition fresh_sms :: sms_view where
  "fresh_sms = initial_sms None None \<lparr>st_avail = True, st_room = True, st_items = Map.empty\<rparr> False"

text \<open>A page of older messages arrives after another thread was picked: both threads are shown
  mixed.\<close>

lemma history_of_other_thread:
  "let s = sms_run (\<lambda>_. Some 0) [RefreshList, ListAnswer 1 1 two_threads,
             ThreadAnswer 1 1 (Success (replicate 80 (message_numbered 9 [97]))),
             LoadMore, PickThread [98] False False,
             ThreadAnswer 2 2 (Success [message_numbered 7 [98]]),
             MoreAnswer (Success [message_numbered 1 [97]])] fresh_sms
   in sv_selectedKey s = [98] \<and> map sm_peer (sv_messages s) = [[97], [98]]"
  by code_simp

text \<open>A silent refresh overtakes a visible one: the loading mark stays although nothing is loading, and
  from then on polling does nothing.\<close>

lemma thread_loading_stuck:
  "let s = sms_run (\<lambda>_. Some 0) [RefreshList, ListAnswer 1 1 two_threads, ThreadAnswer 1 1 (Success []), Poll,
             PickThread [98] False False, ListAnswer 1 2 two_threads,
             ThreadAnswer 2 2 (Success []), ThreadAnswer 2 3 (Success [])] fresh_sms
   in sv_threadLoading s \<and> map (sv_threadTasks s) [0..<4] = replicate 4 None \<and> sv_threadSeq s = 3"
  by code_simp

lemma poll_blocked: "sv_threadLoading s \<Longrightarrow> pollRefresh s = s"
  by (simp add: pollRefresh_def)

section \<open>Properties\<close>



end
