(* ===== verification/Stores.thy ===== *)
theory Stores
  imports Interfaces Services Connection
begin

text \<open>
  The stores of \<open>web/src/stores\<close>: dashboard, logs, proxy instances, upstream proxies and
  devices. A fetch is split at its \<open>await\<close>; the part after it gets the service's result and
  the time. The stores that follow the common pattern are interpretations of \<open>fetch_action\<close>.
\<close>

section \<open>\<open>stores/dashboard.ts\<close>\<close>

record dashboard_store =
  db_devices :: jsval
  db_devicesLoading :: bool
  db_devicesLastOkAt :: "int option"
  db_devicesError :: "app_error option"
  db_analysis :: traffic_analysis
  db_analysisLoading :: bool
  db_analysisLastOkAt :: "int option"
  db_analysisError :: "app_error option"

definition initial_dashboard :: dashboard_store where
  "initial_dashboard = \<lparr>db_devices = JArr [], db_devicesLoading = False, db_devicesLastOkAt = None,
     db_devicesError = None, db_analysis = createEmptyTrafficAnalysis, db_analysisLoading = False,
     db_analysisLastOkAt = None, db_analysisError = None\<rparr>"

definition db_fetchDevices_start :: "dashboard_store \<Rightarrow> dashboard_store" where
  "db_fetchDevices_start s = s\<lparr>db_devicesLoading := True, db_devicesError := None\<rparr>"

definition db_fetchDevices_finish :: "int \<Rightarrow> jsval service_result \<Rightarrow> dashboard_store \<Rightarrow> dashboard_store" where
  "db_fetchDevices_finish now r s =
     (case r of
        Success d \<Rightarrow> s\<lparr>db_devices := d, db_devicesLastOkAt := Some now, db_devicesLoading := False\<rparr>
      | Failure e \<Rightarrow> s\<lparr>db_devicesError := Some e, db_devicesLoading := False\<rparr>)"

definition db_fetchAnalysis_start :: "dashboard_store \<Rightarrow> dashboard_store" where
  "db_fetchAnalysis_start s = s\<lparr>db_analysisLoading := True, db_analysisError := None\<rparr>"

definition db_fetchAnalysis_finish :: "int \<Rightarrow> traffic_analysis service_result \<Rightarrow> dashboard_store \<Rightarrow> dashboard_store" where
  "db_fetchAnalysis_finish now r s =
     (case r of
        Success d \<Rightarrow> s\<lparr>db_analysis := d, db_analysisLastOkAt := Some now, db_analysisLoading := False\<rparr>
      | Failure e \<Rightarrow> s\<lparr>db_analysis := createEmptyTrafficAnalysis, db_analysisError := Some e,
          db_analysisLoading := False\<rparr>)"

interpretation dashboard_devices: fetch_action db_fetchDevices_start db_fetchDevices_finish
  db_devicesLoading db_devicesError db_devicesLastOkAt db_devices "\<lambda>d. d" "\<lambda>v. v"
  by unfold_locales
     (simp_all add: db_fetchDevices_start_def db_fetchDevices_finish_def split: service_result.split)

interpretation dashboard_analysis: fetch_action db_fetchAnalysis_start db_fetchAnalysis_finish
  db_analysisLoading db_analysisError db_analysisLastOkAt db_analysis "\<lambda>d. d" "\<lambda>_. createEmptyTrafficAnalysis"
  by unfold_locales
     (simp_all add: db_fetchAnalysis_start_def db_fetchAnalysis_finish_def split: service_result.split)

section \<open>\<open>stores/logs.ts\<close>\<close>

record log_entry =
  le_time :: jstr
  le_level :: jstr
  le_caller :: jstr
  le_message :: jstr
  le_fields :: "jstr option"

record logs_store =
  lg_logs :: "log_entry list"
  lg_loading :: bool
  lg_lastOkAt :: "int option"
  lg_error :: "app_error option"

definition initial_logs :: logs_store where
  "initial_logs = \<lparr>lg_logs = [], lg_loading = False, lg_lastOkAt = None, lg_error = None\<rparr>"

definition append_entry :: "nat \<Rightarrow> 'a list \<Rightarrow> 'a \<Rightarrow> 'a list" where
  "append_entry mx ls e =
     (let l = ls @ [e] in if length l > mx then slice_from (- int mx) l else l)"

definition logs_append :: "nat \<Rightarrow> log_entry \<Rightarrow> logs_store \<Rightarrow> logs_store" where
  "logs_append mx e s = s\<lparr>lg_logs := append_entry mx (lg_logs s) e\<rparr>"

definition fetchHistory_start :: "logs_store \<Rightarrow> logs_store" where
  "fetchHistory_start s = s\<lparr>lg_loading := True, lg_error := None\<rparr>"

definition fetchHistory_finish :: "int \<Rightarrow> log_entry list service_result \<Rightarrow> logs_store \<Rightarrow> logs_store" where
  "fetchHistory_finish now r s =
     (case r of
        Success d \<Rightarrow> s\<lparr>lg_logs := d, lg_lastOkAt := Some now, lg_loading := False\<rparr>
      | Failure e \<Rightarrow> s\<lparr>lg_error := Some e, lg_loading := False\<rparr>)"

definition logs_clear :: "logs_store \<Rightarrow> logs_store" where
  "logs_clear s = s\<lparr>lg_logs := []\<rparr>"

interpretation logs_fetch: fetch_action fetchHistory_start fetchHistory_finish
  lg_loading lg_error lg_lastOkAt lg_logs "\<lambda>d. d" "\<lambda>v. v"
  by unfold_locales
     (simp_all add: fetchHistory_start_def fetchHistory_finish_def split: service_result.split)

lemma append_entry_bounded_log: "0 < mx \<Longrightarrow> bounded_log (append_entry mx) mx"
  by unfold_locales
     (simp_all add: append_entry_def Let_def slice_from_last)

interpretation log_window: bounded_log "append_entry 1000 :: log_entry list \<Rightarrow> _" 1000
  by (rule append_entry_bounded_log) simp

lemma logs_append_run: "lg_logs (fold (logs_append mx) es s) = foldl (append_entry mx) (lg_logs s) es"
  by (induction es arbitrary: s) (simp_all add: logs_append_def)

section \<open>\<open>stores/proxy.ts\<close>\<close>

record proxy_store =
  px_instances :: jsval
  px_devices :: jsval
  px_statuses :: jsval
  px_loading :: bool
  px_lastOkAt :: "int option"
  px_error :: "app_error option"

definition proxy_fetchOverview_start :: "proxy_store \<Rightarrow> proxy_store" where
  "proxy_fetchOverview_start s = s\<lparr>px_loading := True, px_error := None\<rparr>"

text \<open>None: reading a field of a null body throws after the \<open>await\<close>, and \<open>loading\<close> stays.\<close>

definition proxy_fetchOverview_finish :: "int \<Rightarrow> jsval service_result \<Rightarrow> proxy_store \<Rightarrow> proxy_store" where
  "proxy_fetchOverview_finish now r s =
     (case r of
        Success d \<Rightarrow>
          if nullish d then s
          else s\<lparr>px_instances := list_or_empty (jfield d ''instances''),
                 px_devices := list_or_empty (jfield d ''devices''),
                 px_statuses := list_or_empty (jfield d ''status''),
                 px_lastOkAt := Some now, px_loading := False\<rparr>
      | Failure e \<Rightarrow> s\<lparr>px_error := Some e, px_loading := False\<rparr>)"

text \<open>\<open>Object.fromEntries\<close>: of two statuses with one identifier the later wins.\<close>

definition statusMap :: "proxy_store \<Rightarrow> jstr \<Rightarrow> jsval option" where
  "statusMap s = map_of (rev (map (\<lambda>v. (to_string (jfield v ''id''), v)) (elems (px_statuses s))))"

section \<open>\<open>stores/upstream-proxy.ts\<close>\<close>

record upstream_rule =
  ur_country_code :: jstr
  ur_country_name :: jstr
  ur_mccs :: "jstr list"
  ur_upstream_proxy_id :: jstr
  ur_enabled :: bool

record upstream_store =
  up_proxies :: jsval
  up_countries :: jsval
  up_countryRules :: "upstream_rule list"
  up_loading :: bool
  up_lastOkAt :: "int option"
  up_error :: "app_error option"

definition upstream_fetchAll_start :: "upstream_store \<Rightarrow> upstream_store" where
  "upstream_fetchAll_start s = s\<lparr>up_loading := True, up_error := None\<rparr>"

definition note_error :: "app_error \<Rightarrow> upstream_store \<Rightarrow> upstream_store" where
  "note_error e s = (if up_error s = None then s\<lparr>up_error := Some e\<rparr> else s)"

definition upstream_fetchAll_finish ::
    "int \<Rightarrow> jsval service_result \<Rightarrow> jsval service_result \<Rightarrow> upstream_rule list service_result \<Rightarrow>
     upstream_store \<Rightarrow> upstream_store" where
  "upstream_fetchAll_finish now rp rc rr s =
     (let s1 = (case rp of Success d \<Rightarrow> s\<lparr>up_proxies := d\<rparr> | Failure e \<Rightarrow> s\<lparr>up_error := Some e\<rparr>);
          s2 = (case rc of Success d \<Rightarrow> s1\<lparr>up_countries := d\<rparr> | Failure e \<Rightarrow> note_error e s1);
          s3 = (case rr of Success d \<Rightarrow> s2\<lparr>up_countryRules := d\<rparr> | Failure e \<Rightarrow> note_error e s2);
          s4 = (if is_ok rp \<and> is_ok rc \<and> is_ok rr then s3\<lparr>up_lastOkAt := Some now\<rparr> else s3)
      in s4\<lparr>up_loading := False\<rparr>)"

definition getRulesForProxy :: "jstr \<Rightarrow> upstream_store \<Rightarrow> upstream_rule list" where
  "getRulesForProxy proxyId s = filter (\<lambda>rule. ur_upstream_proxy_id rule = proxyId) (up_countryRules s)"

definition getRuleForCountry :: "jstr \<Rightarrow> upstream_store \<Rightarrow> upstream_rule option" where
  "getRuleForCountry countryCode s =
     find (\<lambda>rule. ur_country_code rule = to_upper (trim countryCode)) (up_countryRules s)"

section \<open>\<open>stores/devices.ts\<close>\<close>

record devices_store =
  dv_list :: jsval
  dv_deviceLimit :: jnum
  dv_detail :: jsval
  dv_discovered :: "jsval list"
  dv_config :: jsval
  dv_lastOkAt :: "int option"
  dv_error :: "app_error option"
  dv_operatorScans :: "jstr \<Rightarrow> jsval option"
  dv_scanStreams :: "jstr \<Rightarrow> jsval stream option"

definition initial_devices :: devices_store where
  "initial_devices = \<lparr>dv_list = JArr [], dv_deviceLimit = Fin 0, dv_detail = JNull, dv_discovered = [],
     dv_config = JNull, dv_lastOkAt = None, dv_error = None, dv_operatorScans = Map.empty,
     dv_scanStreams = Map.empty\<rparr>"

definition dv_fetchList :: "int \<Rightarrow> (jsval \<times> jnum) service_result \<Rightarrow> devices_store \<Rightarrow> devices_store" where
  "dv_fetchList now r s =
     (case r of
        Success d \<Rightarrow> s\<lparr>dv_list := fst d, dv_deviceLimit := snd d, dv_lastOkAt := Some now, dv_error := None\<rparr>
      | Failure e \<Rightarrow> s\<lparr>dv_error := Some e\<rparr>)"

definition dv_fetchDetail :: "jsval service_result \<Rightarrow> devices_store \<Rightarrow> devices_store" where
  "dv_fetchDetail r s = (case r of Success d \<Rightarrow> s\<lparr>dv_detail := d\<rparr> | Failure _ \<Rightarrow> s)"

definition dv_fetchConfig :: "jsval service_result \<Rightarrow> devices_store \<Rightarrow> devices_store" where
  "dv_fetchConfig r s = (case r of Success d \<Rightarrow> s\<lparr>dv_config := d\<rparr> | Failure _ \<Rightarrow> s)"

definition dv_fetchDiscovered :: "jsval service_result \<Rightarrow> devices_store \<Rightarrow> devices_store" where
  "dv_fetchDiscovered r s = (case r of Success d \<Rightarrow> s\<lparr>dv_discovered := elems d\<rparr> | Failure _ \<Rightarrow> s)"

text \<open>The stream of an operator scan. \<open>parse\<close> is \<open>JSON.parse\<close>; the payloads are objects.\<close>

definition scan_finished :: "jsval \<Rightarrow> bool" where
  "scan_finished data \<longleftrightarrow> jfield data ''status'' \<noteq> jlit ''running''"

definition scan_options :: "(jstr \<Rightarrow> jsval outcome) \<Rightarrow> jstr \<Rightarrow> jsval stream_options" where
  "scan_options parse dev =
     \<lparr>eo_path = dev_url dev ''/operator_selection/scan/stream'',
      eo_sse = \<lparr>so_event_name = js ''operator_scan'', so_parse = parse\<rparr>, eo_delay = Some 2000,
      eo_pause_on = (\<lambda>e. case e of OnEvent data \<Rightarrow> scan_finished data | _ \<Rightarrow> False)\<rparr>"

definition getOperatorScan :: "jstr \<Rightarrow> devices_store \<Rightarrow> jsval option" where
  "getOperatorScan dev s = dv_operatorScans s dev"

definition getOrCreateOperatorScanStream :: "jstr \<Rightarrow> jstr \<Rightarrow> devices_store \<Rightarrow> jsval stream" where
  "getOrCreateOperatorScanStream token dev s =
     (case dv_scanStreams s dev of Some st \<Rightarrow> st | None \<Rightarrow> initial_stream [] token)"

definition set_stream :: "jstr \<Rightarrow> jsval stream \<Rightarrow> devices_store \<Rightarrow> devices_store" where
  "set_stream dev st s = s\<lparr>dv_scanStreams := (dv_scanStreams s)(dev \<mapsto> st)\<rparr>"

definition startOperatorScan ::
    "(jstr \<Rightarrow> jsval outcome) \<Rightarrow> jstr \<Rightarrow> jstr \<Rightarrow> devices_store \<Rightarrow> devices_store" where
  "startOperatorScan parse token dev s =
     set_stream dev (setPaused (scan_options parse dev) False (getOrCreateOperatorScanStream token dev s)) s"

definition resumeOperatorScan ::
    "(jstr \<Rightarrow> jsval outcome) \<Rightarrow> jstr \<Rightarrow> jstr \<Rightarrow> devices_store \<Rightarrow> devices_store" where
  "resumeOperatorScan parse token dev s =
     (case getOperatorScan dev s of
        Some cur \<Rightarrow> if jfield cur ''status'' = jlit ''running'' then startOperatorScan parse token dev s else s
      | None \<Rightarrow> s)"

definition clearOperatorScan :: "jstr \<Rightarrow> devices_store \<Rightarrow> devices_store" where
  "clearOperatorScan dev s =
     s\<lparr>dv_scanStreams := (dv_scanStreams s)(dev := None), dv_operatorScans := (dv_operatorScans s)(dev := None)\<rparr>"

fun event_data :: "'t emission \<Rightarrow> 't list" where
  "event_data (OnEvent d) = [d]"
| "event_data _ = []"

text \<open>An event of the platform for the stream of \<open>dev\<close>: each delivered scan replaces the last.\<close>

definition scan_stream_event ::
    "(jstr \<Rightarrow> jsval outcome) \<Rightarrow> jstr \<Rightarrow> stream_event \<Rightarrow> devices_store \<Rightarrow> devices_store" where
  "scan_stream_event parse dev e s =
     (case dv_scanStreams s dev of
        None \<Rightarrow> s
      | Some st \<Rightarrow>
          (let st' = stream_step (scan_options parse dev) e st;
               new = concat (map event_data (drop (length (es_out st)) (es_out st')))
           in (set_stream dev st' s)\<lparr>dv_operatorScans :=
                (if new = [] then dv_operatorScans s else (dv_operatorScans s)(dev \<mapsto> last new))\<rparr>))"

section \<open>A finished scan is the end of its stream\<close>

text \<open>What the platform does to a stream; the other events are calls of the store.\<close>

fun platform_event :: "stream_event \<Rightarrow> bool" where
  "platform_event (Responds _ _ _) = True"
| "platform_event (Rejects _ _) = True"
| "platform_event (Delivers _ _) = True"
| "platform_event (Ends _) = True"
| "platform_event (Reconnects _) = True"
| "platform_event _ = False"

definition silent_stream :: "'t stream \<Rightarrow> bool" where
  "silent_stream st \<longleftrightarrow> es_paused st \<and> es_live st = Map.empty \<and> es_armed st = []"

lemma silent_step: "silent_stream st \<Longrightarrow> platform_event e \<Longrightarrow> stream_step opt e st = st"
  by (cases e) (simp_all add: silent_stream_def on_response_def stream_failed_def on_chunk_def on_end_def on_timer_def)

lemma es_out_helpers [simp]:
  "es_out (disconnect st) = es_out st" "es_out (reconnectLater opt st) = es_out st"
  "es_out (connect opt st) = es_out st" "es_out (stream_failed opt c m st) = es_out st"
  by (simp_all add: disconnect_def reconnectLater_def connect_def stream_failed_def Let_def)

lemma quiet_events_out:
  "es_out (on_response opt c status b st) = es_out st" "es_out (on_end opt c st) = es_out st"
  "es_out (on_timer opt i st) = es_out st"
  by (simp_all add: on_response_def on_end_def on_timer_def Let_def split: option.split phase.split)

lemma callbacks_out [simp]: "es_out (run_callbacks opt es st) = es_out st @ es"
  by (simp add: run_callbacks_def Let_def setPaused_def)

lemma callbacks_silent:
  assumes "stream_wf st" and "\<exists>e\<in>set es. eo_pause_on opt e"
  shows "silent_stream (run_callbacks opt es st)"
proof -
  let ?st = "st\<lparr>es_out := es_out st @ es, es_paused := True\<rparr>"
  have "timers_fine ?st" "live_in_abort ?st"
    using wf_parts [OF assms(1)] by (simp_all add: timers_fine_def live_in_abort_def)
  from disconnect_effect [OF this] assms(2) show ?thesis
    by (simp add: run_callbacks_def setPaused_def silent_stream_def)
qed

lemma chunk_out:
  assumes "stream_wf st"
  shows "\<exists>es. es_out (on_chunk opt c chunk st) = es_out st @ es \<and>
     ((\<exists>e\<in>set es. eo_pause_on opt e) \<longrightarrow> silent_stream (on_chunk opt c chunk st))"
proof (cases "\<exists>p. es_live st c = Some (Reading p)")
  case True
  then obtain p where p: "es_live st c = Some (Reading p)" ..
  obtain es r where f: "feed (eo_sse opt) p chunk = (es, r)" by fastforce
  let ?s = "run_callbacks opt es st"
  have "es_out (on_chunk opt c chunk st) = es_out st @ es"
    by (simp add: on_chunk_def p f Let_def split: sum.split)
  moreover have "silent_stream (on_chunk opt c chunk st)" if "\<exists>e\<in>set es. eo_pause_on opt e"
  proof -
    have s: "silent_stream ?s" using callbacks_silent [OF assms that] .
    then have "es_live ?s c = None" by (simp add: silent_stream_def)
    then have "on_chunk opt c chunk st = ?s"
      by (simp add: on_chunk_def p f Let_def stream_failed_def split: sum.split)
    with s show ?thesis by simp
  qed
  ultimately show ?thesis by blast
next
  case False
  then have "on_chunk opt c chunk st = st" by (auto simp: on_chunk_def split: option.split phase.split)
  then show ?thesis by (intro exI [of _ "[]"]) simp
qed

lemma platform_out:
  assumes "stream_wf st" and "platform_event e"
  shows "\<exists>es. es_out (stream_step opt e st) = es_out st @ es \<and>
     ((\<exists>x\<in>set es. eo_pause_on opt x) \<longrightarrow> silent_stream (stream_step opt e st))"
  using assms chunk_out [OF assms(1)] by (cases e) (simp_all add: quiet_events_out)

definition new_scans :: "(jstr \<Rightarrow> jsval outcome) \<Rightarrow> jstr \<Rightarrow> stream_event \<Rightarrow> jsval stream \<Rightarrow> jsval list" where
  "new_scans parse dev e st =
     concat (map event_data (drop (length (es_out st)) (es_out (stream_step (scan_options parse dev) e st))))"

lemma scan_event_unfold:
  "dv_scanStreams s dev = Some st \<Longrightarrow> scan_stream_event parse dev e s =
     (set_stream dev (stream_step (scan_options parse dev) e st) s)\<lparr>dv_operatorScans :=
        (if new_scans parse dev e st = [] then dv_operatorScans s
         else (dv_operatorScans s)(dev \<mapsto> last (new_scans parse dev e st)))\<rparr>"
  by (simp add: scan_stream_event_def new_scans_def Let_def)

lemma finished_scan_silent:
  assumes "stream_wf st" and "platform_event e" and "d \<in> set (new_scans parse dev e st)" and "scan_finished d"
  shows "silent_stream (stream_step (scan_options parse dev) e st)"
proof -
  let ?opt = "scan_options parse dev"
  obtain es where es: "es_out (stream_step ?opt e st) = es_out st @ es"
      "(\<exists>x\<in>set es. eo_pause_on ?opt x) \<longrightarrow> silent_stream (stream_step ?opt e st)"
    using platform_out [OF assms(1,2)] by blast
  then obtain x where x: "x \<in> set es" "d \<in> set (event_data x)"
    using assms(3) by (auto simp: new_scans_def simp del: stream_step.simps)
  from x(2) have "x = OnEvent d" by (cases x) simp_all
  with assms(4) have "eo_pause_on ?opt x" by (simp add: scan_options_def)
  with es(2) x(1) show ?thesis by blast
qed

lemma silent_scan_event:
  assumes "dv_scanStreams s dev = Some st" and "silent_stream st" and "platform_event e"
  shows "scan_stream_event parse dev e s = s"
proof -
  have "stream_step (scan_options parse dev) e st = st" using silent_step assms(2,3) by blast
  then show ?thesis
    using assms(1) by (simp add: scan_event_unfold new_scans_def set_stream_def fun_upd_idem)
qed

lemma silent_scan_events:
  "dv_scanStreams s dev = Some st \<Longrightarrow> silent_stream st \<Longrightarrow> list_all platform_event es \<Longrightarrow>
   fold (scan_stream_event parse dev) es s = s"
  by (induction es) (simp_all add: silent_scan_event)

section \<open>Facts about the upstream proxies\<close>

lemma country_rule_code: "getRuleForCountry c s = Some r \<Longrightarrow> ur_country_code r = to_upper (trim c) \<and> r \<in> set (up_countryRules s)"
  unfolding getRuleForCountry_def by (drule find_SomeD) simp

section \<open>Properties\<close>

text \<open>The dashboard and the log page show what the last fetch gave: after any fetches that end with a
  success and then only failures, the data of that success and its time are still there (the traffic
  analysis is emptied instead), no fetch is marked as running, and an error is shown iff there was a
  failure after it.\<close>

lemma stores_follow_fetches:
  assumes "list_all dashboard_devices.failed es" and "list_all logs_fetch.failed ls"
    and "list_all dashboard_analysis.failed ts"
  shows "(let s = dashboard_devices.fetches (qs @ (now, Success d) # es) s0 in
       db_devices s = d \<and> db_devicesLastOkAt s = Some now \<and> \<not> db_devicesLoading s) \<and>
     (let s = logs_fetch.fetches (ps @ (now, Success l) # ls) l0 in
       lg_logs s = l \<and> lg_lastOkAt s = Some now \<and> \<not> lg_loading s) \<and>
     (let s = dashboard_analysis.fetches (rs @ (now, Success t) # ts) s0 in
       db_analysis s = (if ts = [] then t else createEmptyTrafficAnalysis) \<and>
       db_analysisLastOkAt s = Some now \<and> \<not> db_analysisLoading s) \<and>
     db_devicesError (dashboard_devices.fetches (qs @ [(now, r)]) s0) =
       (case r of Success _ \<Rightarrow> None | Failure e \<Rightarrow> Some e)"
  using dashboard_devices.fetches_shown [OF assms(1)] logs_fetch.fetches_shown [OF assms(2)]
    dashboard_analysis.fetches_shown [OF assms(3)]
  by (simp add: Let_def dashboard_devices.fetches_idle logs_fetch.fetches_idle
      dashboard_analysis.fetches_idle dashboard_devices.fetches_failure)

lemma stores_follow_fetches_example:
  "db_devices (dashboard_devices.fetches ([] @ (7, Success (JArr [JNull])) # [(9, Failure (plain_error (js ''x'')))])
     initial_dashboard) = JArr [JNull]"
proof -
  have "list_all dashboard_devices.failed [(9, Failure (plain_error (js ''x'')))]"
    by (simp add: dashboard_devices.failed_def)
  moreover have "list_all logs_fetch.failed []" "list_all dashboard_analysis.failed []" by simp_all
  ultimately have "let s = dashboard_devices.fetches ([] @ (7, Success (JArr [JNull])) # [(9, Failure (plain_error (js ''x'')))])
     initial_dashboard in db_devices s = JArr [JNull] \<and> db_devicesLastOkAt s = Some 7 \<and> \<not> db_devicesLoading s"
    by (rule stores_follow_fetches [THEN conjunct1])
  then show ?thesis by (simp add: Let_def)
qed

text \<open>The log page keeps the latest lines: once a line has been appended, the list is the last \<open>max\<close>
  entries of everything loaded and appended, in order, for every positive limit.\<close>

lemma logs_keep_latest:
  assumes "0 < mx" and "es \<noteq> []"
  shows "lg_logs (fold (logs_append mx) es s) =
       drop (length (lg_logs s @ es) - mx) (lg_logs s @ es) \<and>
     length (lg_logs (fold (logs_append mx) es s)) \<le> mx"
  using bounded_log.run_window_any [OF append_entry_bounded_log [OF assms(1)] assms(2), of "lg_logs s"]
  by (simp add: logs_append_run)

definition line_of :: "string \<Rightarrow> log_entry" where
  "line_of m = \<lparr>le_time = [], le_level = js ''info'', le_caller = [], le_message = js m, le_fields = None\<rparr>"

lemma logs_keep_latest_example:
  "map le_message (lg_logs (fold (logs_append 2) [line_of ''a'', line_of ''b'', line_of ''c''] initial_logs)) = [js ''b'', js ''c'']"
  using logs_keep_latest [of 2 "[line_of ''a'', line_of ''b'', line_of ''c'']" initial_logs]
  by (simp add: initial_logs_def line_of_def numeral_2_eq_2)

text \<open>Three lists are fetched together and the error names the first that failed: each list is replaced
  exactly when its own request succeeded, the time of success moves only if all three did, and nothing
  is left loading.\<close>

lemma upstream_fetch_all:
  "let s' = upstream_fetchAll_finish now rp rc rr (upstream_fetchAll_start s) in
   \<not> up_loading s' \<and>
   up_error s' = (case (rp, rc, rr) of
      (Failure e, _, _) \<Rightarrow> Some e | (_, Failure e, _) \<Rightarrow> Some e | (_, _, Failure e) \<Rightarrow> Some e | _ \<Rightarrow> None) \<and>
   up_proxies s' = (case rp of Success d \<Rightarrow> d | Failure _ \<Rightarrow> up_proxies s) \<and>
   up_countries s' = (case rc of Success d \<Rightarrow> d | Failure _ \<Rightarrow> up_countries s) \<and>
   up_countryRules s' = (case rr of Success d \<Rightarrow> d | Failure _ \<Rightarrow> up_countryRules s) \<and>
   up_lastOkAt s' = (if is_ok rp \<and> is_ok rc \<and> is_ok rr then Some now else up_lastOkAt s)"
  by (cases rp; cases rc; cases rr)
     (simp_all add: upstream_fetchAll_finish_def upstream_fetchAll_start_def note_error_def Let_def)

text \<open>A finished operator scan ends its stream: when the server delivers a scan that is no longer
  running, the stream is paused with no request open and no reconnect pending, and whatever the platform
  does afterwards, nothing changes any more until the scan is started again.\<close>

lemma operator_scan_ends:
  assumes "dv_scanStreams s dev = Some st" and "stream_wf st" and "platform_event e"
    and "d \<in> set (new_scans parse dev e st)" and "scan_finished d" and "list_all platform_event es"
  shows "let s1 = scan_stream_event parse dev e s in
     (\<exists>st1. dv_scanStreams s1 dev = Some st1 \<and> es_paused st1 \<and> es_live st1 = Map.empty \<and> es_armed st1 = []) \<and>
     fold (scan_stream_event parse dev) es s1 = s1"
proof -
  let ?st = "stream_step (scan_options parse dev) e st"
  have sil: "silent_stream ?st" using finished_scan_silent assms(2-5) by blast
  have str: "dv_scanStreams (scan_stream_event parse dev e s) dev = Some ?st"
    using scan_event_unfold [OF assms(1)] by (simp add: set_stream_def)
  show ?thesis
    using silent_scan_events [OF str sil assms(6)] sil str by (simp add: Let_def silent_stream_def)
qed

definition scan_sample :: jsval where
  "scan_sample = JObj [(js ''status'', jlit ''complete'')]"

definition scan_parse :: "jstr \<Rightarrow> jsval outcome" where
  "scan_parse t = Inr scan_sample"

definition scan_chunk :: jstr where
  "scan_chunk = js ''event: operator_scan'' @ [10] @ js ''data: x'' @ [10, 10]"

lemma operator_scan_ends_example:
  "let dev = js ''d1'';
       st0 = initial_stream [] (js ''t'');
       st = stream_step (scan_options scan_parse dev) (Responds 0 200 True) (setPaused (scan_options scan_parse dev) False st0);
       s1 = scan_stream_event scan_parse dev (Delivers 0 scan_chunk) (set_stream dev st initial_devices)
   in fold (scan_stream_event scan_parse dev) [Ends 0, Reconnects 1] s1 = s1"
proof -
  let ?o = "scan_options scan_parse (js ''d1'')"
  let ?st0 = "initial_stream [] (js ''t'') :: jsval stream"
  let ?st = "stream_step ?o (Responds 0 200 True) (setPaused ?o False ?st0)"
  have w: "stream_wf ?st" by (intro stream_step_wf setPaused_wf initial_stream_wf)
  have live: "es_live ?st 0 = Some (Reading (([], []), []))" "es_out ?st = []"
    by (simp_all add: on_response_def setPaused_def connect_def disconnect_def clearReconnectTimer_def initial_stream_def)
  have "fst (feed \<lparr>so_event_name = js ''operator_scan'', so_parse = scan_parse\<rparr> (([], []), []) scan_chunk) =
      [OnEvent scan_sample, OnRaw (js ''operator_scan'') (js ''x'')]"
    by (simp add: feed_def drain_eq read_text_def with_rest_def scan_chunk_def process_line_def dispatch_def
        chomp_def starts_with_def trim_def trim_start_def is_space_def scan_parse_def js_def)
  then have "scan_sample \<in> set (new_scans scan_parse (js ''d1'') (Delivers 0 scan_chunk) ?st)"
    using live by (simp add: new_scans_def on_chunk_def scan_options_def Let_def case_prod_beta split: sum.split)
  moreover have "scan_finished scan_sample" by (simp add: scan_finished_def scan_sample_def)
  ultimately show ?thesis
    using operator_scan_ends [of "set_stream (js ''d1'') ?st initial_devices" "js ''d1''" ?st "Delivers 0 scan_chunk"
        scan_sample scan_parse "[Ends 0, Reconnects 1]"] w
    by (simp add: set_stream_def Let_def del: stream_step.simps)
qed

end
