(* ===== verification/Bridge.thy ===== *)
theory Bridge
  imports Storage JsValue
begin

text \<open>
  The script injected into a carrier's web sheet (\<open>internal/websheet/bridge.js\<close>): it sends
  the carrier page's absolute paths through the proxy, offers the page the callback objects the
  carriers expect, recognises AT\&T's validated address, and reports every callback to the server,
  to the window that shows the sheet and to the page's own storage.

  The three constants the server fills in and what the browser says of the page are the record
  \<open>bridge_env\<close>; \<open>JSON.parse\<close> is the parameter \<open>parse\<close>. What leaves the script
  (events, messages, requests) is kept in the order it is sent. Posting a message or an event is
  taken not to throw; storage may.
\<close>

record bridge_env =
  be_callbackURL :: jstr
  be_prefix :: jstr
  be_token :: jstr
  be_href :: jstr
  be_nested :: bool  \<comment> \<open>\<open>window.top !== window.parent\<close>\<close>

datatype shell_target = ShellParent | ShellTop | ShellChannel

record bridge =
  br_attPosted :: bool
  br_store :: storage
  br_events :: "(jstr \<times> jsval) list"
  br_shell :: "(shell_target \<times> jsval) list"
  br_requests :: "(jstr \<times> jsval) list"

definition odsaStorageKey :: jstr where
  "odsaStorageKey = js ''ts43-go.odsa.callbacks''"

definition vowifiStorageKey :: jstr where
  "vowifiStorageKey = js ''vowifi-go.vowifi.callbacks''"

definition shellStorageKey :: jstr where
  "shellStorageKey = js ''vohive-websheet-complete''"

definition loaded_bridge :: "storage \<Rightarrow> bridge" where
  "loaded_bridge st = \<lparr>br_attPosted = False, br_store = st, br_events = [], br_shell = [], br_requests = []\<rparr>"

section \<open>Paths\<close>

definition api_path :: jstr where
  "api_path = js ''/api/websheets/''"

text \<open>None: the token holds a lone surrogate and \<open>encodeURIComponent\<close> throws.\<close>

definition append_token :: "jstr \<Rightarrow> jstr \<Rightarrow> jstr option" where
  "append_token token s =
     (if token = [] \<or> \<not> starts_with s api_path then Some s
      else
        let hash = dropWhile (\<lambda>c. c \<noteq> 35) s; withoutHash = takeWhile (\<lambda>c. c \<noteq> 35) s;
            sep = (if 63 \<in> set withoutHash then js ''&'' else js ''?'')
        in map_option (\<lambda>t. withoutHash @ sep @ js ''token='' @ t @ hash) (encode_uri_component token))"

definition appendWebsheetToken :: "bridge_env \<Rightarrow> jsval \<Rightarrow> jsval option" where
  "appendWebsheetToken en v =
     (case v of JStr s \<Rightarrow> map_option JStr (append_token (be_token en) s) | _ \<Rightarrow> Some v)"

definition rewriteCarrierPath :: "bridge_env \<Rightarrow> jsval \<Rightarrow> jsval option" where
  "rewriteCarrierPath en v =
     (case v of
        JStr s \<Rightarrow>
          if be_prefix en = [] then Some v
          else if take 1 s \<noteq> js ''/'' \<or> starts_with s (js ''//'') then Some v
          else if starts_with s api_path then Some v
          else appendWebsheetToken en (JStr (be_prefix en @ s))
      | _ \<Rightarrow> Some v)"

text \<open>The arguments of the carrier page's own \<open>fetch\<close>: a text, or a request object.\<close>

definition fetchMethod :: "jsval \<Rightarrow> jsval \<Rightarrow> jstr" where
  "fetchMethod input init =
     (if truthy (jfield init ''method'') then to_upper (to_string (jfield init ''method''))
      else if is_object input \<and> truthy (jfield input ''method'') then to_upper (to_string (jfield input ''method''))
      else js ''GET'')"

definition fetchURL :: "jsval \<Rightarrow> jstr" where
  "fetchURL input =
     (case input of
        JStr s \<Rightarrow> s
      | _ \<Rightarrow> if is_object input \<and> truthy (jfield input ''url'') then text_or_empty (jfield input ''url'') else [])"

text \<open>What the wrapped \<open>fetch\<close> passes on to the browser.\<close>

definition sent_input :: "bridge_env \<Rightarrow> jsval \<Rightarrow> jsval option" where
  "sent_input en input = (case input of JStr _ \<Rightarrow> rewriteCarrierPath en input | _ \<Rightarrow> Some input)"

text \<open>The request under which the wrapped \<open>fetch\<close> looks at the response: its method and its
  address as the page gave it.\<close>

definition fetch_request :: "jsval \<Rightarrow> jsval \<Rightarrow> jstr \<times> jstr" where
  "fetch_request input init = (fetchMethod input init, fetchURL input)"

text \<open>\<open>open\<close> of XMLHttpRequest: what it notes for the response, and the address passed on.\<close>

definition xhr_open :: "bridge_env \<Rightarrow> jsval \<Rightarrow> jsval \<Rightarrow> (jstr \<times> jstr) \<times> jsval option" where
  "xhr_open en http_method url =
     ((to_upper (to_string (or_else http_method (jlit ''GET''))), text_or_empty url), rewriteCarrierPath en url)"

section \<open>Reporting a callback\<close>

definition shellMessage :: "bridge_env \<Rightarrow> jsval \<Rightarrow> (jstr \<times> jsval) list" where
  "shellMessage en payload =
     [(js ''type'', jlit ''vohive-websheet-callback''), (js ''token'', JStr (be_token en)),
      (js ''callback'', payload)]"

definition notifyShell :: "bridge_env \<Rightarrow> jstr \<Rightarrow> jsval \<Rightarrow> bridge \<Rightarrow> bridge" where
  "notifyShell en nonce payload b =
     (let m = shellMessage en payload;
          text = (case stringify (JObj (m @ [(js ''nonce'', JStr nonce)])) of Some t \<Rightarrow> t | None \<Rightarrow> js ''undefined'')
      in b\<lparr>br_shell := br_shell b @ [(ShellParent, JObj m)] @
             (if be_nested en then [(ShellTop, JObj m)] else []) @ [(ShellChannel, JObj m)],
           br_store := try_set (br_store b) shellStorageKey text\<rparr>)"

text \<open>\<open>localStorage.getItem(key) || '[]'\<close>, parsed; None is any exception on the way.\<close>

definition read_callbacks :: "(jstr \<Rightarrow> jsval outcome) \<Rightarrow> jstr \<Rightarrow> storage \<Rightarrow> jsval option" where
  "read_callbacks parse key st =
     (case get_item st key of
        None \<Rightarrow> None
      | Some v \<Rightarrow>
          (case parse (case v of Some (c # cs) \<Rightarrow> c # cs | _ \<Rightarrow> js ''[]'') of Inl _ \<Rightarrow> None | Inr d \<Rightarrow> Some d))"

text \<open>\<open>push\<close> throws on a value that is no array.\<close>

definition push_callback :: "jsval list \<Rightarrow> jsval \<Rightarrow> jsval list" where
  "push_callback existing payload = slice_from (- 20) (existing @ [payload])"

definition appendStorage :: "(jstr \<Rightarrow> jsval outcome) \<Rightarrow> jstr \<Rightarrow> jsval \<Rightarrow> storage \<Rightarrow> storage" where
  "appendStorage parse key payload st =
     (case read_callbacks parse key st of
        Some (JArr existing) \<Rightarrow>
          (case stringify (JArr (push_callback existing payload)) of
             Some t \<Rightarrow> try_set st key t
           | None \<Rightarrow> st)
      | _ \<Rightarrow> st)"

definition storedCallbacks :: "(jstr \<Rightarrow> jsval outcome) \<Rightarrow> jstr \<Rightarrow> storage \<Rightarrow> jsval" where
  "storedCallbacks parse key st = (case read_callbacks parse key st of Some v \<Rightarrow> v | None \<Rightarrow> JArr [])"

definition dispatch_event :: "jstr \<Rightarrow> jsval \<Rightarrow> bridge \<Rightarrow> bridge" where
  "dispatch_event name detail b = b\<lparr>br_events := br_events b @ [(name, detail)]\<rparr>"

text \<open>\<open>now\<close> is the current time as ISO text, \<open>nonce\<close> as milliseconds. The request itself
  goes through the wrapped \<open>fetch\<close>, whose exception is caught.\<close>

definition payload_sent :: "bridge_env \<Rightarrow> jstr \<Rightarrow> (jstr \<times> jsval) list \<Rightarrow> jsval" where
  "payload_sent en now al =
     JObj (assoc_set (js ''href'') (JStr (be_href en))
       (if truthy (jfield (JObj al) ''at'') then al else assoc_set (js ''at'') (JStr now) al))"

definition send_callback :: "bridge_env \<Rightarrow> jsval \<Rightarrow> bridge \<Rightarrow> bridge" where
  "send_callback en payload b =
     (case sent_input en (JStr (be_callbackURL en)) of
        Some (JStr url) \<Rightarrow> b\<lparr>br_requests := br_requests b @ [(url, payload)]\<rparr>
      | _ \<Rightarrow> b)"

definition post :: "bridge_env \<Rightarrow> (jstr \<Rightarrow> jsval outcome) \<Rightarrow> jstr \<Rightarrow> jstr \<Rightarrow> (jstr \<times> jsval) list \<Rightarrow> bridge \<Rightarrow> bridge" where
  "post en parse now nonce al b =
     (let p = payload_sent en now al;
          b1 = (if jfield p ''source'' = jlit ''odsa''
                then dispatch_event (js ''ts43-odsa-callback'') p
                       (b\<lparr>br_store := appendStorage parse odsaStorageKey p (br_store b)\<rparr>)
                else b);
          b2 = (if jfield p ''source'' = jlit ''vowifi''
                then dispatch_event (js ''vowifi-callback'') p
                       (b1\<lparr>br_store := appendStorage parse vowifiStorageKey p (br_store b1)\<rparr>)
                else b1)
      in send_callback en p (notifyShell en nonce p b2))"

section \<open>AT\&T's address form\<close>

definition e911_path :: jstr where
  "e911_path = js ''/sfservice/v1/address/e911/''"

definition address_status :: "jsval \<Rightarrow> jstr" where
  "address_status data =
     (let address = (if truthy (jfield data ''e911Address'') then jfield data ''e911Address'' else data)
      in to_lower (text_or_empty (jfield address ''status'')))"

text \<open>Whether a response is the one that says the address was accepted.\<close>

definition address_validated :: "(jstr \<Rightarrow> jsval outcome) \<Rightarrow> jstr \<Rightarrow> jstr \<Rightarrow> jstr \<Rightarrow> bool" where
  "address_validated parse http_method url text \<longleftrightarrow>
     http_method \<noteq> js ''GET'' \<and> text \<noteq> [] \<and> (url = [] \<or> str_includes url e911_path) \<and>
     (case parse text of Inl _ \<Rightarrow> False | Inr data \<Rightarrow> address_status data = js ''validated'')"

definition att_payload :: "(jstr \<times> jsval) list" where
  "att_payload =
     [(js ''source'', jlit ''vowifi''), (js ''controller'', jlit ''ATTDashboard''),
      (js ''method'', jlit ''e911AddressValidated''), (js ''event'', jlit ''entitlementChanged''),
      (js ''resultCode'', jlit ''success'')]"

definition inspectATTAddressResponse ::
    "bridge_env \<Rightarrow> (jstr \<Rightarrow> jsval outcome) \<Rightarrow> jstr \<Rightarrow> jstr \<Rightarrow> jstr \<Rightarrow> jstr \<Rightarrow> jstr \<Rightarrow> bridge \<Rightarrow> bridge" where
  "inspectATTAddressResponse en parse now nonce http_method url text b =
     (if br_attPosted b \<or> http_method = js ''GET'' \<or> text = [] then b
      else if url \<noteq> [] \<and> \<not> str_includes url e911_path then b
      else case parse text of
             Inl _ \<Rightarrow> b
           | Inr data \<Rightarrow>
               if address_status data = js ''validated''
               then post en parse now nonce att_payload (b\<lparr>br_attPosted := True\<rparr>)
               else b)"

section \<open>The callback objects\<close>

text \<open>\<open>ODSAServiceFlow\<close>: one constructor per function the page may call.\<close>

datatype odsa_call =
    ProfileReadyWithActivationCode jsval jsval jsval
  | ProfileReadyWithDefaultSmdp jsval jsval jsval
  | SelectionCompleted jsval jsval
  | FinishFlow jsval
  | DismissFlow
  | DeleteToken
  | CheckProfileServiceStatus
  | DeleteProfileInUse jsval

definition odsa_event :: "string \<Rightarrow> (string \<times> jsval) list \<Rightarrow> (jstr \<times> jsval) list" where
  "odsa_event name extra =
     [(js ''source'', jlit ''odsa''), (js ''controller'', jlit ''ODSAServiceFlow''),
      (js ''method'', jlit name), (js ''event'', jlit name)] @
     map (\<lambda>(k, v). (js k, or_else v (JStr []))) extra"

fun odsa_payload :: "odsa_call \<Rightarrow> (jstr \<times> jsval) list" where
  "odsa_payload (ProfileReadyWithActivationCode activationCode iccid imei) =
     odsa_event ''profileReadyWithActivationCode''
       [(''activationCode'', activationCode), (''iccid'', iccid), (''imei'', imei)]"
| "odsa_payload (ProfileReadyWithDefaultSmdp defaultSmdpAddress iccid imei) =
     odsa_event ''profileReadyWithDefaultSmdp''
       [(''defaultSmdpAddress'', defaultSmdpAddress), (''iccid'', iccid), (''imei'', imei)]"
| "odsa_payload (SelectionCompleted iccid imei) =
     odsa_event ''selectionCompleted'' [(''iccid'', iccid), (''imei'', imei)]"
| "odsa_payload (FinishFlow nextAction) = odsa_event ''finishFlow'' [(''nextAction'', nextAction)]"
| "odsa_payload DismissFlow = odsa_event ''dismissFlow'' []"
| "odsa_payload DeleteToken = odsa_event ''deleteToken'' []"
| "odsa_payload CheckProfileServiceStatus = odsa_event ''checkProfileServiceStatus'' []"
| "odsa_payload (DeleteProfileInUse iccid) = odsa_event ''deleteProfileInUse'' [(''iccid'', iccid)]"

definition vowifiEvent :: "jstr \<Rightarrow> jstr" where
  "vowifiEvent name =
     (if name = js ''entitlementChanged'' then js ''entitlementChanged''
      else if name \<in> set [js ''dismissFlow'', js ''cancelButtonClicked'', js ''CloseWebView'',
                         js ''closeWebView'', js ''onCloseWebView'']
      then js ''dismissFlow''
      else name)"

definition vowifiResult :: "jstr \<Rightarrow> jstr" where
  "vowifiResult event =
     (if event = js ''entitlementChanged'' then js ''success''
      else if event = js ''dismissFlow'' then js ''cancel'' else [])"

definition vowifi_payload :: "jstr \<Rightarrow> jstr \<Rightarrow> jsval list \<Rightarrow> (jstr \<times> jsval) list" where
  "vowifi_payload controller name args =
     (let event = (if name = js ''phoneServicesAccountStatusChanged'' \<and> take 1 args = [JBool True]
                   then js ''entitlementChanged'' else vowifiEvent name)
      in [(js ''source'', jlit ''vowifi''), (js ''controller'', JStr controller),
          (js ''method'', JStr name), (js ''event'', JStr event), (js ''args'', JArr args)] @
         (if vowifiResult event = [] then [] else [(js ''resultCode'', JStr (vowifiResult event))]))"

text \<open>
  A property of a controller object is the page's own, a function or some other value, or the
  function the script installs for this controller and method.
\<close>

datatype page_member = PageFunction nat | PageValue

type_synonym page_object = "jstr \<Rightarrow> page_member option"

datatype member = Own page_member | BridgeMethod jstr jstr

type_synonym controller_object = "jstr \<Rightarrow> member option"

definition is_function :: "member option \<Rightarrow> bool" where
  "is_function m = (case m of Some (Own (PageFunction _)) \<Rightarrow> True | Some (BridgeMethod _ _) \<Rightarrow> True | _ \<Rightarrow> False)"

definition as_controller :: "page_object \<Rightarrow> controller_object" where
  "as_controller obj j = map_option Own (obj j)"

definition install_method :: "jstr \<Rightarrow> jstr \<Rightarrow> controller_object \<Rightarrow> controller_object" where
  "install_method name m target =
     (if is_function (target m) then target else target(m \<mapsto> BridgeMethod name m))"

definition installVowifiController :: "jstr \<Rightarrow> jstr list \<Rightarrow> page_object option \<Rightarrow> controller_object" where
  "installVowifiController name methods existing =
     fold (install_method name) methods (case existing of Some obj \<Rightarrow> as_controller obj | None \<Rightarrow> Map.empty)"

definition vowifi_controllers :: "(jstr \<times> jstr list) list" where
  "vowifi_controllers =
     [(js ''VoWiFiWebServiceFlow'', map js [''entitlementChanged'', ''dismissFlow'']),
      (js ''WiFiCallingWebViewController'',
       map js [''cancelButtonClicked'', ''cancelButtonPressed'', ''phoneServicesAccountStatusChanged'',
               ''CloseWebView'', ''closeWebView'', ''onCloseWebView'']),
      (js ''NsdsWebSheetController'',
       map js [''entitlementChanged'', ''dismissFlow'', ''cancelButtonClicked'', ''cancelButtonPressed'',
               ''phoneServicesAccountStatusChanged'', ''CloseWebView'', ''closeWebView'', ''onCloseWebView''])]"

text \<open>The global objects of the page after the script has run.\<close>

definition installed :: "(jstr \<Rightarrow> page_object option) \<Rightarrow> jstr \<Rightarrow> controller_object option" where
  "installed page name =
     (case map_of vowifi_controllers name of
        None \<Rightarrow> map_option as_controller (page name)
      | Some methods \<Rightarrow> Some (installVowifiController name methods (page name)))"

section \<open>The life of a sheet\<close>

text \<open>
  What can happen after the script has run: a response reaches the page (the method and address of
  its request, as \<open>xhr_open\<close> and \<open>fetch_request\<close> note them, and its body), or the page
  calls one of the callbacks. Each event carries the time.
  A call of a function of the page's own does not reach the script.
\<close>

datatype bridge_event =
    PageResponse jstr jstr jstr
  | OdsaCall odsa_call
  | ControllerCall jstr jstr "jsval list"

definition bridge_step ::
    "bridge_env \<Rightarrow> (jstr \<Rightarrow> jsval outcome) \<Rightarrow> (jstr \<Rightarrow> page_object option) \<Rightarrow>
     jstr \<times> jstr \<times> bridge_event \<Rightarrow> bridge \<Rightarrow> bridge" where
  "bridge_step en parse page e b =
     (case e of (now, nonce, ev) \<Rightarrow>
       (case ev of
          PageResponse http_method url text \<Rightarrow> inspectATTAddressResponse en parse now nonce http_method url text b
        | OdsaCall c \<Rightarrow> post en parse now nonce (odsa_payload c) b
        | ControllerCall object name args \<Rightarrow>
            (case installed page object of
               None \<Rightarrow> b
             | Some target \<Rightarrow>
                 (case target name of
                    Some (BridgeMethod controller m) \<Rightarrow> post en parse now nonce (vowifi_payload controller m args) b
                  | _ \<Rightarrow> b))))"

definition bridge_run ::
    "bridge_env \<Rightarrow> (jstr \<Rightarrow> jsval outcome) \<Rightarrow> (jstr \<Rightarrow> page_object option) \<Rightarrow>
     (jstr \<times> jstr \<times> bridge_event) list \<Rightarrow> bridge \<Rightarrow> bridge" where
  "bridge_run en parse page es b = fold (bridge_step en parse page) es b"

section \<open>Facts\<close>

lemma payload_field:
  "j \<noteq> js ''at'' \<Longrightarrow> j \<noteq> js ''href'' \<Longrightarrow> jget (payload_sent en now al) j = jget (JObj al) j"
  by (simp add: payload_sent_def map_of_assoc_set)

lemma post_events:
  "br_events (post en parse now nonce al b) = br_events b @
     (if jfield (JObj al) ''source'' = jlit ''odsa'' then [(js ''ts43-odsa-callback'', payload_sent en now al)] else []) @
     (if jfield (JObj al) ''source'' = jlit ''vowifi'' then [(js ''vowifi-callback'', payload_sent en now al)] else [])"
  by (simp add: post_def Let_def payload_field notifyShell_def send_callback_def dispatch_event_def
      split: option.split jsval.split)

lemma post_flag: "br_attPosted (post en parse now nonce al b) = br_attPosted b"
  by (simp add: post_def Let_def notifyShell_def send_callback_def dispatch_event_def
      split: option.split jsval.split)

lemma push_callback_window: "push_callback xs p = drop (Suc (length xs) - 20) (xs @ [p])"
  using slice_from_last [of 20 "xs @ [p]"] by (simp add: push_callback_def)

interpretation callback_log: bounded_log push_callback 20
  by unfold_locales (simp_all add: push_callback_window)

subsection \<open>Installed controllers\<close>

lemma install_methods:
  "fold (install_method name) ms target m =
     (if is_function (target m) \<or> m \<notin> set ms then target m else Some (BridgeMethod name m))"
  by (induction ms arbitrary: target) (auto simp: install_method_def is_function_def)

lemma installed_bridge_method:
  "installed page object = Some target \<Longrightarrow> target name = Some (BridgeMethod controller m) \<Longrightarrow>
   controller = object \<and> m = name \<and> (\<exists>ms. (object, ms) \<in> set vowifi_controllers \<and> m \<in> set ms)"
  by (auto simp: installed_def installVowifiController_def install_methods as_controller_def
      split: option.splits if_splits dest: map_of_SomeD)

subsection \<open>AT\&T's completion\<close>

definition is_att :: "jstr \<times> jsval \<Rightarrow> bool" where
  "is_att e \<longleftrightarrow> jfield (snd e) ''controller'' = jlit ''ATTDashboard''"

definition validates :: "(jstr \<Rightarrow> jsval outcome) \<Rightarrow> jstr \<times> jstr \<times> bridge_event \<Rightarrow> bool" where
  "validates parse e =
     (case snd (snd e) of PageResponse http_method url text \<Rightarrow> address_validated parse http_method url text | _ \<Rightarrow> False)"

lemma inspect_validated:
  "inspectATTAddressResponse en parse now nonce http_method url text b =
     (if \<not> br_attPosted b \<and> address_validated parse http_method url text
      then post en parse now nonce att_payload (b\<lparr>br_attPosted := True\<rparr>) else b)"
  by (auto simp: inspectATTAddressResponse_def address_validated_def split: sum.splits)

lemma att_events [simp]: "filter is_att (br_events (post en parse now nonce att_payload b)) =
     filter is_att (br_events b) @ [(js ''vowifi-callback'', payload_sent en now att_payload)]"
  by (simp add: post_events att_payload_def is_att_def payload_field)

lemma odsa_not_att [simp]:
  "filter is_att (br_events (post en parse now nonce (odsa_payload c) b)) = filter is_att (br_events b)"
  by (cases c) (simp_all add: post_events odsa_event_def is_att_def payload_field)

lemma vowifi_not_att:
  "controller \<noteq> js ''ATTDashboard'' \<Longrightarrow>
   filter is_att (br_events (post en parse now nonce (vowifi_payload controller m xs) b)) = filter is_att (br_events b)"
  by (simp add: post_events vowifi_payload_def is_att_def payload_field Let_def)

lemma controller_not_att: "(c, ms) \<in> set vowifi_controllers \<Longrightarrow> c \<noteq> js ''ATTDashboard''"
  by (auto simp: vowifi_controllers_def)

lemma bridge_step_att:
  assumes "length (filter is_att (br_events b)) = (if br_attPosted b then 1 else 0)"
  shows "br_attPosted (bridge_step en parse page e b) = (br_attPosted b \<or> validates parse e) \<and>
     length (filter is_att (br_events (bridge_step en parse page e b))) =
       (if br_attPosted b \<or> validates parse e then 1 else 0)"
proof -
  obtain now nonce ev where e: "e = (now, nonce, ev)"
    by (rule prod_cases3)
  show ?thesis
  proof (cases ev)
    case (PageResponse http_method url body)
    then show ?thesis using assms
      by (simp add: e bridge_step_def inspect_validated validates_def post_flag)
  next
    case (OdsaCall c)
    then show ?thesis using assms by (simp add: e bridge_step_def validates_def post_flag)
  next
    case (ControllerCall object name xs)
    then show ?thesis using assms
      by (auto simp: e bridge_step_def validates_def post_flag vowifi_not_att controller_not_att
          dest!: installed_bridge_method split: option.split member.split)
  qed
qed

lemma bridge_run_att:
  "length (filter is_att (br_events b)) = (if br_attPosted b then 1 else 0) \<Longrightarrow>
   br_attPosted (bridge_run en parse page es b) = (br_attPosted b \<or> list_ex (validates parse) es) \<and>
   length (filter is_att (br_events (bridge_run en parse page es b))) =
     (if br_attPosted b \<or> list_ex (validates parse) es then 1 else 0)"
proof (induction es arbitrary: b)
  case (Cons e es)
  then show ?case
    using bridge_step_att [OF Cons.prems, of en parse page e]
      Cons.IH [of "bridge_step en parse page e b"]
    by (simp add: bridge_run_def disj_ac)
qed (simp add: bridge_run_def)

subsection \<open>Paths of the carrier\<close>

definition carrier_absolute :: "jstr \<Rightarrow> bool" where
  "carrier_absolute s \<longleftrightarrow> starts_with s (js ''/'') \<and> \<not> starts_with s (js ''//'') \<and> \<not> starts_with s api_path"

lemma rewrite_unfold:
  "be_prefix en \<noteq> [] \<Longrightarrow> rewriteCarrierPath en (JStr s) =
     (if carrier_absolute s then appendWebsheetToken en (JStr (be_prefix en @ s)) else Some (JStr s))"
  by (auto simp: rewriteCarrierPath_def carrier_absolute_def starts_with_def)

lemma api_path_prefix: "starts_with p api_path \<Longrightarrow> starts_with (p @ s) api_path"
  by (auto simp: starts_with_iff)

lemma hash_split:
  assumes "35 \<notin> set p" and "f = [] \<or> hd f = 35"
  shows "takeWhile (\<lambda>c. c \<noteq> 35) (p @ f) = p" and "dropWhile (\<lambda>c. c \<noteq> 35) (p @ f) = f"
proof -
  have "takeWhile (\<lambda>c. c \<noteq> 35) f = []" "dropWhile (\<lambda>c. c \<noteq> 35) f = f"
    using assms(2) by (cases f; simp)+
  then show "takeWhile (\<lambda>c. c \<noteq> 35) (p @ f) = p" "dropWhile (\<lambda>c. c \<noteq> 35) (p @ f) = f"
    using assms(1) by (subst takeWhile_append2 dropWhile_append2; auto)+
qed

lemma append_token_eq:
  assumes "starts_with p api_path" and "35 \<notin> set p" and "f = [] \<or> hd f = 35" and "token \<noteq> []"
    and "encode_uri_component token = Some t"
  shows "append_token token (p @ f) =
     Some (p @ (if 63 \<in> set p then js ''&'' else js ''?'') @ js ''token='' @ t @ f)"
  using assms hash_split [OF assms(2,3)] by (simp add: append_token_def Let_def api_path_prefix)

section \<open>Properties\<close>

text \<open>The carrier's paths go through the proxy once: an absolute path of the carrier is sent under the
  proxy's prefix, with the sheet's token added to its query in front of the fragment; full addresses,
  protocol-relative ones and the proxy's own paths are sent as they are, and rewriting a second time
  changes nothing.\<close>

lemma carrier_path_rewrite:
  assumes "starts_with (be_prefix en) api_path" and "be_token en \<noteq> []"
    and "encode_uri_component (be_token en) = Some t"
    and "35 \<notin> set (be_prefix en)" and "35 \<notin> set path" and "frag = [] \<or> hd frag = 35"
  shows "let sep = (if 63 \<in> set (be_prefix en @ path) then js ''&'' else js ''?'');
             sent = (if carrier_absolute (path @ frag)
                     then be_prefix en @ path @ sep @ js ''token='' @ t @ frag else path @ frag)
         in rewriteCarrierPath en (JStr (path @ frag)) = Some (JStr sent) \<and>
            rewriteCarrierPath en (JStr sent) = Some (JStr sent)"
proof -
  have ne: "be_prefix en \<noteq> []" using assms(1) by (auto simp: starts_with_def api_path_def js_def)
  have own: "\<not> carrier_absolute (be_prefix en @ s)" for s
    using api_path_prefix [OF assms(1)] by (simp add: carrier_absolute_def)
  have "append_token (be_token en) ((be_prefix en @ path) @ frag) =
      Some ((be_prefix en @ path) @ (if 63 \<in> set (be_prefix en @ path) then js ''&'' else js ''?'') @ js ''token='' @ t @ frag)"
    using assms by (intro append_token_eq) (simp_all add: api_path_prefix)
  then show ?thesis
    by (simp add: rewrite_unfold [OF ne] appendWebsheetToken_def own Let_def)
qed

definition sample_env :: bridge_env where
  "sample_env = \<lparr>be_callbackURL = js ''/api/websheets/s1/callback'', be_prefix = js ''/api/websheets/s1/proxy'',
     be_token = js ''t0k'', be_href = js ''https://sheet/'', be_nested = False\<rparr>"

lemma carrier_path_rewrite_example:
  "rewriteCarrierPath sample_env (JStr (js ''/account?x=1'' @ js ''#top'')) =
     Some (JStr (js ''/api/websheets/s1/proxy/account?x=1&token=t0k#top''))"
proof -
  have "encode_uri_component (js ''t0k'') = Some (js ''t0k'')"
    by (rule encode_unreserved) (simp add: js_def unreserved_def)
  then show ?thesis
    using carrier_path_rewrite [of sample_env "js ''t0k''" "js ''/account?x=1''" "js ''#top''"]
    by (simp add: sample_env_def Let_def carrier_absolute_def starts_with_def api_path_def js_def)
qed

text \<open>C16. The carrier's acceptance is reported once: whatever responses arrive and callbacks the page makes,
  the completion of AT\&T's address form is announced exactly once if some response to a request other
  than GET from the address service says that the address is validated, and never otherwise.\<close>

theorem att_completion_once:
  "length (filter is_att (br_events (bridge_run en parse page es (loaded_bridge st)))) =
     (if list_ex (validates parse) es then 1 else 0)"
  using bridge_run_att [of "loaded_bridge st" en parse page es] by (simp add: loaded_bridge_def)

lemma read_after_append:
  assumes "st_avail st" and "st_room st" and "read_callbacks parse key st = Some (JArr xs)"
    and "\<And>t. stringify (JArr (push_callback xs p)) = Some t \<Longrightarrow> parse t = Inr (JArr (push_callback xs p))"
  shows "read_callbacks parse key (appendStorage parse key p st) = Some (JArr (push_callback xs p))"
    and "st_avail (appendStorage parse key p st)" and "st_room (appendStorage parse key p st)"
proof -
  obtain c t where t: "stringify (JArr (push_callback xs p)) = Some (c # t)" by simp
  show "read_callbacks parse key (appendStorage parse key p st) = Some (JArr (push_callback xs p))"
    using assms(1,2) assms(4) [OF t] t
    by (simp add: appendStorage_def assms(3) try_set_def set_item_def del: stringify.simps)
       (simp add: read_callbacks_def get_item_def)
  show "st_avail (appendStorage parse key p st)" "st_room (appendStorage parse key p st)"
    using assms(1,2) t by (simp_all add: appendStorage_def assms(3) try_set_def set_item_def del: stringify.simps)
qed

text \<open>The page can read its last twenty callbacks: where storage works and \<open>JSON.parse\<close> gives back
  the lists that are written, the callbacks stored under a key are the last twenty reported, in
  order.\<close>

lemma stored_callbacks_latest:
  assumes "st_avail st" and "st_room st" and "st_items st key = None"
    and "parse (js ''[]'') = Inr (JArr [])"
    and "\<And>n t. n \<le> length ps \<Longrightarrow> stringify (JArr (foldl push_callback [] (take n ps))) = Some t \<Longrightarrow>
           parse t = Inr (JArr (foldl push_callback [] (take n ps)))"
  shows "storedCallbacks parse key (fold (appendStorage parse key) ps st) = JArr (drop (length ps - 20) ps)"
proof -
  have "n \<le> length ps \<Longrightarrow>
      st_avail (fold (appendStorage parse key) (take n ps) st) \<and>
      st_room (fold (appendStorage parse key) (take n ps) st) \<and>
      read_callbacks parse key (fold (appendStorage parse key) (take n ps) st) =
        Some (JArr (foldl push_callback [] (take n ps)))" for n
  proof (induction n)
    case 0
    then show ?case using assms(1-4) by (simp add: read_callbacks_def get_item_def)
  next
    case (Suc n)
    then have n: "n < length ps" by simp
    have tk: "take (Suc n) ps = take n ps @ [ps ! n]" using n by (rule take_Suc_conv_app_nth)
    show ?case
      using Suc.IH n assms(5) [OF Suc.prems] read_after_append
      by (simp add: tk del: stringify.simps)
  qed
  from this [of "length ps"] show ?thesis
    using callback_log.run_window [of "[]" ps] by (simp add: storedCallbacks_def)
qed

definition parse_sample :: "jstr \<Rightarrow> jsval outcome" where
  "parse_sample t = (if t = js ''[]'' then Inr (JArr []) else if t = js ''[true]'' then Inr (JArr [JBool True])
     else Inl (NativeErr (js ''SyntaxError'') [] None))"

lemma stored_callbacks_latest_example:
  "storedCallbacks parse_sample odsaStorageKey (appendStorage parse_sample odsaStorageKey (JBool True)
     \<lparr>st_avail = True, st_room = True, st_items = Map.empty\<rparr>) = JArr [JBool True]"
proof -
  have "stringify (JArr (foldl push_callback [] (take n [JBool True]))) = Some t \<Longrightarrow>
      parse_sample t = Inr (JArr (foldl push_callback [] (take n [JBool True])))" for n t
    by (cases n) (auto simp: push_callback_window parse_sample_def js_def)
  then show ?thesis
    using stored_callbacks_latest [of "\<lparr>st_avail = True, st_room = True, st_items = Map.empty\<rparr>"
        odsaStorageKey parse_sample "[JBool True]"]
    by (simp add: parse_sample_def del: stringify.simps)
qed

text \<open>The page keeps its own functions: after the script has run, every callback a carrier expects is a
  function; a function the page had is still there, everything the page had under another name is
  too, and no other object is touched.\<close>

lemma controllers_complete:
  "(case map_of vowifi_controllers name of
      None \<Rightarrow> installed page name = map_option as_controller (page name)
    | Some methods \<Rightarrow>
        (case installed page name of
           None \<Rightarrow> False
         | Some target \<Rightarrow>
             list_all (\<lambda>m. is_function (target m)) methods \<and>
             (case page name of
                None \<Rightarrow> target j = (if j \<in> set methods then Some (BridgeMethod name j) else None)
              | Some obj \<Rightarrow>
                  target j = (if j \<in> set methods \<and> \<not> is_function (as_controller obj j)
                              then Some (BridgeMethod name j) else as_controller obj j))))"
  by (auto simp: installed_def installVowifiController_def install_methods list_all_iff is_function_def
      split: option.splits)

end
