(* ===== verification/DevicesText.thy ===== *)
theory DevicesText
  imports Lifecycle MccMnc "HOL-Library.List_Lexorder" "HOL-Library.Multiset"
begin

text \<open>
  What the device page shows (\<open>views/Devices.vue\<close>, lines 123 to 415): the filtered and sorted
  device list, the operator name taken from the SIM card, and amounts of traffic as text.
\<close>

section \<open>Sorting with a comparison function\<close>

text \<open>
  \<open>list.sort(cmp)\<close> is stable; for a consistent comparison function every stable sort gives
  the same list, and this one is insertion. A comparison with an undefined order (\<open>NaN\<close>) counts
  as equal.
\<close>

fun js_insert :: "('a \<Rightarrow> 'a \<Rightarrow> bool) \<Rightarrow> 'a \<Rightarrow> 'a list \<Rightarrow> 'a list" where
  "js_insert after x [] = [x]"
| "js_insert after x (y # ys) = (if after x y then y # js_insert after x ys else x # y # ys)"

definition js_sort :: "('a \<Rightarrow> 'a \<Rightarrow> bool) \<Rightarrow> 'a list \<Rightarrow> 'a list" where
  "js_sort after xs = foldr (js_insert after) xs []"

lemma mset_js_sort [simp]: "mset (js_sort after xs) = mset xs"
proof -
  have "mset (js_insert after x ys) = add_mset x (mset ys)" for x ys
    by (induction ys) auto
  then show ?thesis by (induction xs) (simp_all add: js_sort_def)
qed

lemma js_sort_key:
  fixes f :: "'a \<Rightarrow> 'b::linorder"
  assumes "\<And>x y. x \<in> set xs \<Longrightarrow> y \<in> set xs \<Longrightarrow> after x y \<longleftrightarrow> f y < f x"
  shows "js_sort after xs = sort_key f xs"
proof -
  have ins: "\<forall>y\<in>set ys. after x y \<longleftrightarrow> f y < f x \<Longrightarrow> js_insert after x ys = insort_key f x ys" for x ys
    by (induction ys) auto
  show ?thesis using assms
    by (induction xs) (simp_all add: js_sort_def ins)
qed

text \<open>The same for a descending order: what comes out, read backwards, is sorted.\<close>

lemma js_sort_descending:
  fixes f :: "'a \<Rightarrow> 'b::linorder"
  assumes "\<And>x y. x \<in> set xs \<Longrightarrow> y \<in> set xs \<Longrightarrow> after x y \<longleftrightarrow> f x < f y"
  shows "sorted (map f (rev (js_sort after xs)))"
proof -
  have ins: "sorted_wrt (\<lambda>a b. f b \<le> f a) ys \<Longrightarrow> \<forall>y\<in>set ys. after x y \<longleftrightarrow> f x < f y \<Longrightarrow>
      sorted_wrt (\<lambda>a b. f b \<le> f a) (js_insert after x ys) \<and> set (js_insert after x ys) = insert x (set ys)" for x ys
    by (induction ys) auto
  have "set (js_sort after ys) = set ys" for ys
    using mset_js_sort [of after ys] by (metis set_mset_mset)
  then have "sorted_wrt (\<lambda>a b. f b \<le> f a) (js_sort after xs)"
    using assms by (induction xs) (simp_all add: js_sort_def ins)
  then show ?thesis by (simp add: sorted_wrt_map sorted_wrt_rev)
qed

section \<open>The device list\<close>

datatype status_filter = FilterAll | FilterOnline | FilterOffline
datatype sort_field = SortName | SortSignal
datatype sort_dir = Asc | Desc

definition status_matches :: "status_filter \<Rightarrow> jsval \<Rightarrow> bool" where
  "status_matches flt d =
     (case flt of
        FilterAll \<Rightarrow> True
      | FilterOnline \<Rightarrow> isControlOnline d
      | FilterOffline \<Rightarrow> \<not> truthy (jfield d ''running'') \<and> \<not> isRecoveryPhase (device_phase d))"

definition haystack :: "jsval \<Rightarrow> jstr" where
  "haystack d =
     to_lower (join_with (js '' '')
       [text_or_empty (jfield d ''id''), text_or_empty (jfield d ''name''),
        text_or_empty (jfield (jfield d ''modem'') ''iccid''),
        text_or_empty (jfield (jfield d ''modem'') ''imei''),
        text_or_empty (jfield d ''interface'')])"

definition query_matches :: "jstr \<Rightarrow> jsval \<Rightarrow> bool" where
  "query_matches query d \<longleftrightarrow>
     (let q = to_lower (trim query) in q = [] \<or> str_includes (haystack d) q)"

definition name_key :: "jsval \<Rightarrow> jstr" where
  "name_key d = to_lower (text_or_empty (or_else (jfield d ''name'') (jfield d ''id'')))"

definition signal_of :: "jsval \<Rightarrow> jnum" where
  "signal_of d = to_number (if_nullish (jfield (jfield d ''modem'') ''signal_dbm'') (jint (- 999)))"

text \<open>\<open>x - y > 0\<close>; a difference that is \<open>NaN\<close> is not.\<close>

fun num_greater :: "jnum \<Rightarrow> jnum \<Rightarrow> bool" where
  "num_greater (Fin a) (Fin b) \<longleftrightarrow> b < a"
| "num_greater PosInf (Fin b) \<longleftrightarrow> True"
| "num_greater PosInf NegInf \<longleftrightarrow> True"
| "num_greater (Fin a) NegInf \<longleftrightarrow> True"
| "num_greater _ _ \<longleftrightarrow> False"

definition list_after :: "sort_field \<Rightarrow> sort_dir \<Rightarrow> jsval \<Rightarrow> jsval \<Rightarrow> bool" where
  "list_after field dir a b =
     (case (field, dir) of
        (SortName, Asc) \<Rightarrow> name_key b < name_key a
      | (SortName, Desc) \<Rightarrow> name_key a < name_key b
      | (SortSignal, Asc) \<Rightarrow> num_greater (signal_of a) (signal_of b)
      | (SortSignal, Desc) \<Rightarrow> num_greater (signal_of b) (signal_of a))"

definition filteredDevices :: "status_filter \<Rightarrow> jstr \<Rightarrow> sort_field \<Rightarrow> sort_dir \<Rightarrow> jsval list \<Rightarrow> jsval list" where
  "filteredDevices flt query field dir devices =
     js_sort (list_after field dir) (filter (query_matches query) (filter (status_matches flt) devices))"

section \<open>The operator named by the SIM card\<close>

definition normalizeSPN :: "jsval \<Rightarrow> jstr" where
  "normalizeSPN v = trim (to_string (if_nullish v (JStr [])))"

definition firstQueryValue :: "jsval \<Rightarrow> jstr" where
  "firstQueryValue v =
     (case v of
        JArr vs \<Rightarrow> to_string (if_nullish (case vs of [] \<Rightarrow> JUndef | x # _ \<Rightarrow> x) (JStr []))
      | _ \<Rightarrow> to_string (if_nullish v (JStr [])))"

definition nativeMccMnc :: "jsval \<Rightarrow> jstr" where
  "nativeMccMnc modem =
     (let mcc = normalizeSPN (jfield modem ''native_mcc''); mnc = normalizeSPN (jfield modem ''native_mnc'')
      in if mcc \<noteq> [] \<and> mnc \<noteq> [] then mcc @ mnc else [])"

definition pnnDisplayName :: "jsval \<Rightarrow> jstr" where
  "pnnDisplayName r =
     (let full = normalizeSPN (jfield r ''full_name'')
      in if full \<noteq> [] then full else normalizeSPN (jfield r ''short_name''))"

fun first_name :: "jsval list \<Rightarrow> jstr" where
  "first_name [] = []"
| "first_name (r # rs) = (if pnnDisplayName r \<noteq> [] then pnnDisplayName r else first_name rs)"

definition firstPNNName :: "jsval \<Rightarrow> jstr" where
  "firstPNNName records = first_name (elems records)"

text \<open>The loop over the digits of a pattern of the network's length.\<close>

fun digits_match :: "jstr \<Rightarrow> jstr \<Rightarrow> bool" where
  "digits_match (p # ps) (n # ns) = (if p \<noteq> 120 \<and> p \<noteq> n then False else digits_match ps ns)"
| "digits_match _ _ = True"

definition oplMatchesNativePLMN :: "jsval \<Rightarrow> jstr \<Rightarrow> bool" where
  "oplMatchesNativePLMN oplPLMN nativePLMN =
     (let pat = to_lower (normalizeSPN oplPLMN) in
      if pat = [] \<or> nativePLMN = [] then False
      else if pat = nativePLMN then True
      else if \<not> str_includes pat (js ''x'')
      then length pat < length nativePLMN \<and> starts_with nativePLMN pat
      else if length pat \<noteq> length nativePLMN then False
      else digits_match pat nativePLMN)"

fun opl_name :: "jsval list \<Rightarrow> jstr \<Rightarrow> jsval list \<Rightarrow> jstr" where
  "opl_name pnn native [] = []"
| "opl_name pnn native (opl # opls) =
     (if \<not> oplMatchesNativePLMN (jfield opl ''plmn'') native then opl_name pnn native opls
      else
        let n = to_number (if_nullish (jfield opl ''pnn_record'') (jint 0)) in
        if \<not> truthy (JNum n) then opl_name pnn native opls
        else
          let name = (case find (\<lambda>r. jfield r ''record'' = JNum n) pnn of
                        None \<Rightarrow> pnnDisplayName JUndef | Some r \<Rightarrow> pnnDisplayName r)
          in if name \<noteq> [] then name else opl_name pnn native opls)"

definition is_array :: "jsval \<Rightarrow> bool" where
  "is_array v = (case v of JArr _ \<Rightarrow> True | _ \<Rightarrow> False)"

definition pnnNameFromOPL :: "jsval \<Rightarrow> jstr" where
  "pnnNameFromOPL modem =
     (let native = nativeMccMnc modem in
      if native = [] \<or> \<not> is_array (jfield modem ''opl'') \<or> \<not> is_array (jfield modem ''pnn'') then []
      else opl_name (elems (jfield modem ''pnn'')) native (elems (jfield modem ''opl'')))"

type_synonym mcc_index = "(jstr \<Rightarrow> mcc_row option) option"

definition flagForMccMnc :: "mcc_index \<Rightarrow> jstr \<Rightarrow> jstr" where
  "flagForMccMnc idx code =
     (case idx of
        None \<Rightarrow> []
      | Some ix \<Rightarrow> (case ix code of None \<Rightarrow> [] | Some row \<Rightarrow> isoToFlagEmoji (mr_iso row)))"

definition formatNamedOperator :: "mcc_index \<Rightarrow> jstr \<Rightarrow> jstr \<Rightarrow> jstr" where
  "formatNamedOperator idx name code =
     (let flag = flagForMccMnc idx code in
      if code = [] then (if flag \<noteq> [] then flag @ js '' '' @ name else name)
      else (if flag \<noteq> [] then flag @ js '' '' else []) @ name @ js '' ('' @ code @ js '')'')"

definition formatMccMncOperator :: "mcc_index \<Rightarrow> jstr \<Rightarrow> jstr" where
  "formatMccMncOperator idx code =
     (if code = [] then code
      else case idx of
        None \<Rightarrow> code
      | Some ix \<Rightarrow>
          (case ix code of
             None \<Rightarrow> code
           | Some row \<Rightarrow>
               let name = (if normalizeSPN (JStr (mr_network row)) \<noteq> [] then normalizeSPN (JStr (mr_network row))
                           else normalizeSPN (JStr (mr_country row)))
               in if name \<noteq> [] then formatNamedOperator idx name code else code))"

definition selectedSimOperatorDisplay :: "mcc_index \<Rightarrow> jsval option \<Rightarrow> jstr" where
  "selectedSimOperatorDisplay idx device =
     (case device of
        None \<Rightarrow> js ''--''
      | Some d \<Rightarrow>
          let modem = jfield d ''modem'';
              spn = normalizeSPN (jfield modem ''native_spn'');
              pnn = (if pnnNameFromOPL modem \<noteq> [] then pnnNameFromOPL modem else firstPNNName (jfield modem ''pnn''));
              mccmnc = nativeMccMnc modem
          in if spn \<noteq> [] then formatNamedOperator idx spn mccmnc
             else if pnn \<noteq> [] then formatNamedOperator idx pnn mccmnc
             else if mccmnc \<noteq> [] then formatMccMncOperator idx mccmnc else js ''--'')"

section \<open>Amounts as text\<close>

text \<open>\<open>x.toFixed(d)\<close>: the nearest decimal, the larger of two equally near ones; from
  \<open>10^21\<close> on the number's own text.\<close>

definition pad_zeros :: "nat \<Rightarrow> jstr \<Rightarrow> jstr" where
  "pad_zeros n s = replicate (n - length s) 48 @ s"

fun toFixed :: "nat \<Rightarrow> jnum \<Rightarrow> jstr" where
  "toFixed d (Fin r) =
     (if \<bar>r\<bar> \<ge> 10 ^ 21 then show_rat r
      else
        let n = nat \<lfloor>\<bar>r\<bar> * 10 ^ d + 1 / 2\<rfloor>; digits = pad_zeros (Suc d) (show_nat n);
            k = length digits - d
        in (if r < 0 then js ''-'' else []) @ take k digits @ (if d = 0 then [] else js ''.'' @ drop k digits))"
| "toFixed d n = show_num n"

fun num_or_zero :: "jnum \<Rightarrow> jnum" where
  "num_or_zero NaN = Fin 0"
| "num_or_zero n = n"

fun at_least_1024 :: "jnum \<Rightarrow> bool" where
  "at_least_1024 (Fin r) \<longleftrightarrow> 1024 \<le> r"
| "at_least_1024 PosInf \<longleftrightarrow> True"
| "at_least_1024 _ \<longleftrightarrow> False"

fun div_1024 :: "jnum \<Rightarrow> jnum" where
  "div_1024 (Fin r) = Fin (r / 1024)"
| "div_1024 n = n"

text \<open>The loop: \<open>n\<close> is how many units are left, \<open>i\<close> the unit reached.\<close>

fun scale :: "nat \<Rightarrow> jnum \<Rightarrow> nat \<Rightarrow> jnum \<times> nat" where
  "scale 0 v i = (v, i)"
| "scale (Suc n) v i = (if at_least_1024 v then scale n (div_1024 v) (Suc i) else (v, i))"

definition formatBytes :: "jsval \<Rightarrow> jstr" where
  "formatBytes bytes =
     (case scale 3 (num_or_zero (to_number bytes)) 0 of
        (v, i) \<Rightarrow> toFixed (if i = 0 then 0 else 1) v @ js '' '' @ map js [''B'', ''KB'', ''MB'', ''GB''] ! i)"

definition formatBytesPerSecond :: "jsval \<Rightarrow> jstr" where
  "formatBytesPerSecond bps =
     (case scale 3 (num_or_zero (to_number bps)) 0 of
        (v, i) \<Rightarrow> toFixed (if i = 0 then 0 else 1) v @ map js [''B/s'', ''KB/s'', ''MB/s'', ''GB/s''] ! i)"

section \<open>Facts\<close>

lemma digits_match_iff:
  "length ps = length ns \<Longrightarrow> digits_match ps ns \<longleftrightarrow> list_all2 (\<lambda>p n. p = 120 \<or> p = n) ps ns"
  by (induction ps ns rule: list_induct2) auto

lemma includes_one: "str_includes s [c] \<longleftrightarrow> c \<in> set s"
  by (simp add: str_includes_iff sublist_def in_set_conv_decomp)

lemma pattern_match:
  "(if p = [] \<or> native = [] then False
    else if p = native then True
    else if \<not> str_includes p [120] then length p < length native \<and> starts_with native p
    else if length p \<noteq> length native then False else digits_match p native) \<longleftrightarrow>
   p \<noteq> [] \<and> native \<noteq> [] \<and>
   (if 120 \<in> set p then list_all2 (\<lambda>c n. c = 120 \<or> c = n) p native else prefix p native)"
proof (cases "p = native")
  case True
  then show ?thesis by (simp add: list_all2_refl)
next
  case False
  then have "prefix p native \<Longrightarrow> length p < length native"
    by (metis prefix_length_less strict_prefix_def)
  moreover have "list_all2 (\<lambda>c n. c = 120 \<or> c = n) p native \<Longrightarrow> length p = length native"
    by (rule list_all2_lengthD)
  ultimately show ?thesis
    using False by (auto simp: includes_one starts_with_iff digits_match_iff)
qed

definition signal_rat :: "jsval \<Rightarrow> rat" where
  "signal_rat d = (case signal_of d of Fin r \<Rightarrow> r | _ \<Rightarrow> 0)"

definition has_signal_number :: "jsval \<Rightarrow> bool" where
  "has_signal_number d = (case signal_of d of Fin _ \<Rightarrow> True | _ \<Rightarrow> False)"

lemma signal_after:
  "has_signal_number a \<Longrightarrow> has_signal_number b \<Longrightarrow>
   num_greater (signal_of a) (signal_of b) \<longleftrightarrow> signal_rat b < signal_rat a"
  by (auto simp: has_signal_number_def signal_rat_def split: jnum.splits)

definition listed :: "status_filter \<Rightarrow> jstr \<Rightarrow> jsval list \<Rightarrow> jsval list" where
  "listed flt query devices = filter (\<lambda>d. status_matches flt d \<and> query_matches query d) devices"

lemma filteredDevices_sorts: "filteredDevices flt query field dir devices = js_sort (list_after field dir) (listed flt query devices)"
  by (simp add: filteredDevices_def listed_def conj_commute)

lemma scale_3:
  "0 \<le> v \<Longrightarrow> scale 3 (Fin v) 0 =
     (if v < 1024 then (Fin v, 0) else if v < 1024 ^ 2 then (Fin (v / 1024), 1)
      else if v < 1024 ^ 3 then (Fin (v / 1024 ^ 2), 2) else (Fin (v / 1024 ^ 3), 3))"
  by (simp add: numeral_3_eq_3 numeral_2_eq_2)

section \<open>Properties\<close>

text \<open>The device list is the devices that match, sorted: filtering and sorting loses and invents nothing;
  by name the list is sorted in the chosen direction and devices of equal name keep their order;
  by signal it is sorted, unknown signals counting as -999 dBm.\<close>

lemma device_list_sorted:
  assumes "list_all has_signal_number devices"
  shows "mset (filteredDevices flt query field dir devices) =
       filter_mset (\<lambda>d. status_matches flt d \<and> query_matches query d) (mset devices) \<and>
     sorted (map name_key (filteredDevices flt query SortName Asc devices)) \<and>
     filter (\<lambda>d. name_key d = k) (filteredDevices flt query SortName Asc devices) =
       filter (\<lambda>d. name_key d = k) (filter (\<lambda>d. status_matches flt d \<and> query_matches query d) devices) \<and>
     sorted (map name_key (rev (filteredDevices flt query SortName Desc devices))) \<and>
     sorted (map signal_rat (filteredDevices flt query SortSignal Asc devices)) \<and>
     sorted (map signal_rat (rev (filteredDevices flt query SortSignal Desc devices)))"
proof -
  have sig: "\<And>x. x \<in> set (listed flt query devices) \<Longrightarrow> has_signal_number x"
    using assms by (auto simp: listed_def list_all_iff)
  have nm: "js_sort (list_after SortName Asc) (listed flt query devices) = sort_key name_key (listed flt query devices)"
    by (rule js_sort_key) (simp add: list_after_def)
  have "sorted (map name_key (rev (js_sort (list_after SortName Desc) (listed flt query devices))))"
    by (rule js_sort_descending) (simp add: list_after_def)
  moreover have "js_sort (list_after SortSignal Asc) (listed flt query devices) = sort_key signal_rat (listed flt query devices)"
    by (rule js_sort_key) (simp add: list_after_def signal_after sig)
  moreover have "sorted (map signal_rat (rev (js_sort (list_after SortSignal Desc) (listed flt query devices))))"
    by (rule js_sort_descending) (simp add: list_after_def signal_after sig)
  ultimately show ?thesis
    unfolding filteredDevices_sorts nm
    by (simp add: sort_key_stable) (simp add: listed_def)
qed

definition device_named :: "string \<Rightarrow> int \<Rightarrow> jsval" where
  "device_named n dbm = JObj [(js ''id'', jlit n), (js ''name'', jlit n), (js ''modem'', JObj [(js ''signal_dbm'', jint dbm)])]"

lemma device_list_sorted_example:
  "map (\<lambda>d. jfield d ''id'') (filteredDevices FilterAll [] SortSignal Asc [device_named ''a'' (- 70), device_named ''b'' (- 90)]) =
     map jlit [''b'', ''a''] \<and>
   sorted (map signal_rat (filteredDevices FilterAll [] SortSignal Asc [device_named ''a'' (- 70), device_named ''b'' (- 90)]))"
proof -
  have "list_all has_signal_number [device_named ''a'' (- 70), device_named ''b'' (- 90)]"
    by (simp add: has_signal_number_def signal_of_def device_named_def if_nullish_def)
  from device_list_sorted [OF this, of FilterAll "[]"] show ?thesis
    by (simp add: filteredDevices_def js_sort_def query_matches_def status_matches_def list_after_def signal_of_def
        device_named_def if_nullish_def to_lower_def)
qed

text \<open>A pattern of the SIM's operator list matches a network exactly when it should: with \<open>x\<close> in it,
  digit for digit, an \<open>x\<close> standing for any digit; without, when it is the code or its beginning.
  Case and surrounding white space do not matter.\<close>

lemma opl_match_exact:
  "oplMatchesNativePLMN v native \<longleftrightarrow>
     (let p = to_lower (trim (to_string (if_nullish v (JStr [])))) in
      0 < length p \<and> 0 < length native \<and>
      (if 120 \<in> set p then list_all2 (\<lambda>c n. c = 120 \<or> c = n) p native else prefix p native))"
  by (simp add: oplMatchesNativePLMN_def normalizeSPN_def Let_def pattern_match js_def cong: if_cong)

end
