(* ===== verification/DeviceTraffic.thy ===== *)
theory DeviceTraffic
  imports DevicesText Texts
begin

text \<open>
  The traffic shown for the selected device (\<open>views/Devices.vue\<close>, lines 402 to 476): the speed
  from the server's realtime frames or else from the device's own counters, and the bytes of the last
  minute.
\<close>

section \<open>Arithmetic on numbers\<close>

fun num_add :: "jnum \<Rightarrow> jnum \<Rightarrow> jnum" where
  "num_add (Fin a) (Fin b) = Fin (a + b)"
| "num_add NaN _ = NaN"
| "num_add _ NaN = NaN"
| "num_add PosInf NegInf = NaN"
| "num_add NegInf PosInf = NaN"
| "num_add PosInf _ = PosInf"
| "num_add NegInf _ = NegInf"
| "num_add (Fin _) n = n"

text \<open>\<open>Math.max(0, n)\<close>.\<close>

fun max_zero :: "jnum \<Rightarrow> jnum" where
  "max_zero (Fin r) = Fin (max 0 r)"
| "max_zero NegInf = Fin 0"
| "max_zero n = n"

fun num_div :: "jnum \<Rightarrow> rat \<Rightarrow> jnum" where
  "num_div (Fin a) d = Fin (a / d)"
| "num_div n d = n"

definition num_sum :: "jnum list \<Rightarrow> jnum" where
  "num_sum ns = foldl num_add (Fin 0) ns"

section \<open>The state\<close>

record traffic_sample =
  sa_at :: int
  sa_rxBytes :: jnum
  sa_txBytes :: jnum

record traffic_view =
  tv_speedRx :: jstr
  tv_speedTx :: jstr
  tv_minuteRx :: jstr
  tv_minuteTx :: jstr
  tv_activeUntil :: int
  tv_window :: "traffic_sample list"

definition initial_traffic :: traffic_view where
  "initial_traffic = \<lparr>tv_speedRx = [], tv_speedTx = [], tv_minuteRx = [], tv_minuteTx = [],
     tv_activeUntil = 0, tv_window = []\<rparr>"

definition realtimeTrafficWindowMs :: int where
  "realtimeTrafficWindowMs = 60000"

section \<open>The last minute\<close>

definition setRollingTrafficWindowStatus :: "jstr \<Rightarrow> traffic_view \<Rightarrow> traffic_view" where
  "setRollingTrafficWindowStatus v s = s\<lparr>tv_window := [], tv_minuteRx := v, tv_minuteTx := v\<rparr>"

definition resetRollingTrafficWindow :: "traffic_view \<Rightarrow> traffic_view" where
  "resetRollingTrafficWindow s = s\<lparr>tv_window := [], tv_minuteRx := [], tv_minuteTx := []\<rparr>"

definition sample_at :: "int \<Rightarrow> jsval \<Rightarrow> jsval \<Rightarrow> traffic_sample" where
  "sample_at now rxDeltaBytes txDeltaBytes =
     \<lparr>sa_at = now, sa_rxBytes = max_zero (num_or_zero (to_number rxDeltaBytes)),
      sa_txBytes = max_zero (num_or_zero (to_number txDeltaBytes))\<rparr>"

definition updateRollingTrafficWindow :: "jsval \<Rightarrow> jsval \<Rightarrow> int \<Rightarrow> traffic_view \<Rightarrow> traffic_view" where
  "updateRollingTrafficWindow rxDeltaBytes txDeltaBytes now s =
     (let cutoff = now - realtimeTrafficWindowMs;
          w = filter (\<lambda>x. cutoff \<le> sa_at x) (tv_window s) @ [sample_at now rxDeltaBytes txDeltaBytes]
      in s\<lparr>tv_window := w,
           tv_minuteRx := formatBytes (JNum (num_sum (map sa_rxBytes w))),
           tv_minuteTx := formatBytes (JNum (num_sum (map sa_txBytes w)))\<rparr>)"

section \<open>The speed\<close>

definition set_speed :: "jstr \<Rightarrow> jstr \<Rightarrow> traffic_view \<Rightarrow> traffic_view" where
  "set_speed rx tx s = s\<lparr>tv_speedRx := rx, tv_speedTx := tx\<rparr>"

definition counter_speed :: "jsval \<Rightarrow> jstr" where
  "counter_speed v =
     formatBytesPerSecond (JNum (num_div (max_zero (to_number (if_nullish v (jint 0)))) 60))"

definition updateTrafficSpeedFromSelected :: "int \<Rightarrow> jsval option \<Rightarrow> traffic_view \<Rightarrow> traffic_view" where
  "updateTrafficSpeedFromSelected now detail s =
     (case detail of
        None \<Rightarrow> resetRollingTrafficWindow (set_speed [] [] s)
      | Some d \<Rightarrow>
          if \<not> truthy (jfield d ''network_connected'') \<or> \<not> truthy (jfield d ''traffic_raw'') \<or>
             jfield (jfield d ''traffic_meta'') ''status'' \<noteq> jlit ''ok''
          then resetRollingTrafficWindow (set_speed [] [] s)
          else if now < tv_activeUntil s then s
          else resetRollingTrafficWindow
                 (set_speed (counter_speed (jfield (jfield d ''traffic_raw'') ''bytes_received''))
                    (counter_speed (jfield (jfield d ''traffic_raw'') ''bytes_sent'')) s))"

definition frame_speed :: "jsval \<Rightarrow> jstr" where
  "frame_speed v = formatBytesPerSecond (JNum (max_zero (num_or_zero (to_number v))))"

definition handleRealtimeTrafficEvent :: "int \<Rightarrow> jstr \<Rightarrow> jsval \<Rightarrow> traffic_view \<Rightarrow> traffic_view" where
  "handleRealtimeTrafficEvent now selectedId data s =
     (if \<not> truthy data \<or> jfield data ''device_id'' \<noteq> JStr selectedId then s
      else
        let s1 = s\<lparr>tv_activeUntil := now + 2500\<rparr>; status = jfield data ''status'' in
        if status = jlit ''ok'' then
          updateRollingTrafficWindow (jfield data ''rx_delta_bytes'') (jfield data ''tx_delta_bytes'') now
            (set_speed (frame_speed (jfield data ''rx_bps'')) (frame_speed (jfield data ''tx_bps'')) s1)
        else if status = jlit ''waiting_sample'' then
          setRollingTrafficWindowStatus tx_waiting_sample (set_speed tx_waiting_sample tx_waiting_sample s1)
        else if status = jlit ''reset'' then
          setRollingTrafficWindowStatus (formatBytes (jint 0))
            (set_speed (formatBytesPerSecond (jint 0)) (formatBytesPerSecond (jint 0)) s1)
        else setRollingTrafficWindowStatus tx_sampling_lost (set_speed tx_sampling_lost tx_sampling_lost s1))"

section \<open>Facts\<close>

text \<open>Samples as the frames bring them: time, received, sent.\<close>

definition add_frame :: "int \<times> jsval \<times> jsval \<Rightarrow> traffic_view \<Rightarrow> traffic_view" where
  "add_frame f s = updateRollingTrafficWindow (fst (snd f)) (snd (snd f)) (fst f) s"

definition sample_of :: "int \<times> jsval \<times> jsval \<Rightarrow> traffic_sample" where
  "sample_of f = sample_at (fst f) (fst (snd f)) (snd (snd f))"

lemma add_frame_window:
  "tv_window (add_frame f s) = filter (\<lambda>x. fst f - realtimeTrafficWindowMs \<le> sa_at x) (tv_window s) @ [sample_of f]"
  by (simp add: add_frame_def updateRollingTrafficWindow_def sample_of_def Let_def)

lemma add_frame_minute:
  "tv_minuteRx (add_frame f s) = formatBytes (JNum (num_sum (map sa_rxBytes (tv_window (add_frame f s)))))"
  "tv_minuteTx (add_frame f s) = formatBytes (JNum (num_sum (map sa_txBytes (tv_window (add_frame f s)))))"
  by (simp_all add: add_frame_def updateRollingTrafficWindow_def Let_def)

lemma sample_of_at [simp]: "sa_at (sample_of f) = fst f"
  by (simp add: sample_of_def sample_at_def)

definition within_minute :: "int \<Rightarrow> (int \<times> jsval \<times> jsval) list \<Rightarrow> traffic_sample list" where
  "within_minute now fs = map sample_of (filter (\<lambda>f. now - realtimeTrafficWindowMs \<le> fst f) fs)"

lemma add_frames_window:
  "sorted (map fst (fs @ [f])) \<Longrightarrow> tv_window s = [] \<Longrightarrow>
   tv_window (fold add_frame (fs @ [f]) s) = within_minute (fst f) (fs @ [f])"
proof (induction fs arbitrary: f rule: rev_induct)
  case Nil
  then show ?case by (simp add: add_frame_window within_minute_def realtimeTrafficWindowMs_def)
next
  case (snoc g fs)
  then have IH: "tv_window (fold add_frame (fs @ [g]) s) = within_minute (fst g) (fs @ [g])"
    and le: "fst g \<le> fst f" by (simp_all add: sorted_append)
  have "filter (\<lambda>x. fst f - realtimeTrafficWindowMs \<le> sa_at x) (within_minute (fst g) (fs @ [g])) =
      within_minute (fst f) (fs @ [g])"
    using le by (auto simp: within_minute_def filter_map o_def intro!: arg_cong [where f = "map sample_of"] filter_cong)
  then show ?case
    using IH by (simp add: add_frame_window) (simp add: within_minute_def realtimeTrafficWindowMs_def)
qed

section \<open>Properties\<close>



end
