(* ===== verification/DevicesPage.thy ===== *)
theory DevicesPage
  imports DeviceTraffic Services
begin

text \<open>
  The device page as a state machine (\<open>views/Devices.vue\<close>): which device is selected, the
  detail on display, the live radio values kept over a short outage, the traffic analysis, the
  configuration form and the requests under way.

  A request is a numbered task; the number of the latest one is kept where the code keeps an
  \<open>AbortController\<close>. Aborting a request means that its answer is the failure
  \<open>ERR_CANCELED\<close>. Each event is one handler up to its next \<open>await\<close>, followed by the
  watchers of what it changed. Every time stamp comes with the event.
\<close>

section \<open>The state\<close>

record live_entry =
  lv_capturedAt :: int
  lv_radio :: "(jstr \<times> jsval) list"

text \<open>The armed fallback timer: the device it is for and when it fires.\<close>

record live_radio =
  lr_cache :: "jsval \<Rightarrow> live_entry option"
  lr_pending :: "jsval option"
  lr_timer :: "(jsval \<times> int) option"

record analysis_view =
  an_data :: traffic_analysis
  an_loading :: bool
  an_lastOkAt :: "int option"
  an_error :: "app_error option"
  an_range :: jstr
  an_abort :: "nat option"
  an_next :: nat
  an_sent :: "nat \<Rightarrow> (jstr \<times> jstr) option"

record edit_view =
  ed_config :: "jsval option"
  ed_baseline :: jstr
  ed_dirty :: bool

datatype sync_follow = SyncOnly | EndFetchAll | EndRefresh
datatype detail_follow = DetailOnly | DetailThenSync sync_follow
datatype list_kind = FetchAll | RefreshList

record device_page =
  dg_devices :: "jsval list"
  dg_selectedId :: jstr
  dg_hasAutoSelected :: bool
  dg_activeTab :: jstr
  dg_query :: "jsval \<times> jsval"  \<comment> \<open>\<open>route.query.device\<close>, \<open>route.query.tab\<close>\<close>
  dg_detail :: "jsval option"
  dg_loading :: bool
  dg_lastOkAt :: "int option"
  dg_error :: "app_error option"
  dg_listFails :: nat
  dg_listWarned :: bool
  dg_notices :: "jstr list"
  dg_stream :: "jstr option"
  dg_radio :: live_radio
  dg_traffic :: traffic_view
  dg_analysis :: analysis_view
  dg_edit :: edit_view
  dg_listSeq :: nat
  dg_listTasks :: "nat \<Rightarrow> (list_kind \<times> jstr) option"
  dg_detailSeq :: nat
  dg_detailTasks :: "nat \<Rightarrow> (jstr \<times> detail_follow) option"
  dg_configSeq :: nat
  dg_configTasks :: "nat \<Rightarrow> (jstr \<times> sync_follow) option"

definition initial_page :: "jsval \<times> jsval \<Rightarrow> device_page" where
  "initial_page query = \<lparr>
     dg_devices = [], dg_selectedId = [], dg_hasAutoSelected = False, dg_activeTab = js ''overview'',
     dg_query = query, dg_detail = None, dg_loading = True, dg_lastOkAt = None, dg_error = None,
     dg_listFails = 0, dg_listWarned = False, dg_notices = [], dg_stream = None,
     dg_radio = \<lparr>lr_cache = Map.empty, lr_pending = None, lr_timer = None\<rparr>,
     dg_traffic = initial_traffic,
     dg_analysis = \<lparr>an_data = createEmptyTrafficAnalysis, an_loading = False, an_lastOkAt = None,
       an_error = None, an_range = js ''day'', an_abort = None, an_next = 0, an_sent = Map.empty\<rparr>,
     dg_edit = \<lparr>ed_config = None, ed_baseline = [], ed_dirty = False\<rparr>,
     dg_listSeq = 0, dg_listTasks = Map.empty, dg_detailSeq = 0, dg_detailTasks = Map.empty,
     dg_configSeq = 0, dg_configTasks = Map.empty\<rparr>"

text \<open>\<open>selectedDetail.value\<close> as a value; reading a field of \<open>null\<close> through \<open>?.\<close>
  gives \<open>undefined\<close>.\<close>

definition detail_value :: "device_page \<Rightarrow> jsval" where
  "detail_value s = (case dg_detail s of None \<Rightarrow> JNull | Some d \<Rightarrow> d)"

abbreviation ident :: "jsval \<Rightarrow> jsval" where
  "ident d \<equiv> jfield d ''id''"

definition detail_id :: "device_page \<Rightarrow> jsval" where
  "detail_id s = or_else (ident (detail_value s)) (JStr [])"

section \<open>Live radio values\<close>

definition RADIO_LIVE_GRACE_MS :: int where
  "RADIO_LIVE_GRACE_MS = 3000"

definition radio_fields :: "jstr list" where
  "radio_fields = map js [''operator'', ''signal_dbm'', ''signal_rsrp'', ''signal_rsrq'', ''signal_sinr'',
     ''nr5g_signal_sinr'', ''radio_band'', ''radio_channel'', ''reg_status'', ''reg_status_text'',
     ''network_mode'', ''network_duplex'', ''operating_mode'']"

definition extractLiveRadioFields :: "jsval \<Rightarrow> (jstr \<times> jsval) list" where
  "extractLiveRadioFields detail = map (\<lambda>k. (k, jget (jfield detail ''modem'') k)) radio_fields"

definition mergeLiveRadioFields :: "jsval \<Rightarrow> (jstr \<times> jsval) list \<Rightarrow> jsval" where
  "mergeLiveRadioFields detail radio =
     JObj (assoc_set (js ''modem'') (JObj (assoc_update (obj_entries (jfield detail ''modem'')) radio))
            (obj_entries detail))"

definition clearLiveRadioFallbackTimer :: "device_page \<Rightarrow> device_page" where
  "clearLiveRadioFallbackTimer s = s\<lparr>dg_radio := (dg_radio s)\<lparr>lr_pending := None, lr_timer := None\<rparr>\<rparr>"

definition update_speed :: "int \<Rightarrow> device_page \<Rightarrow> device_page" where
  "update_speed now s = s\<lparr>dg_traffic := updateTrafficSpeedFromSelected now (dg_detail s) (dg_traffic s)\<rparr>"

definition scheduleLiveRadioFallback :: "int \<Rightarrow> jsval \<Rightarrow> int \<Rightarrow> device_page \<Rightarrow> device_page" where
  "scheduleLiveRadioFallback now detail remainingMs s =
     (let s1 = clearLiveRadioFallbackTimer s in
      if remainingMs \<le> 0 then update_speed now (s1\<lparr>dg_detail := Some detail\<rparr>)
      else s1\<lparr>dg_radio := (dg_radio s1)\<lparr>lr_pending := Some detail, lr_timer := Some (ident detail, now + remainingMs)\<rparr>\<rparr>)"

text \<open>The detail to show, and the state after looking it up; None is \<open>null\<close>.\<close>

definition resolveDetailForDisplay :: "int \<Rightarrow> jsval option \<Rightarrow> device_page \<Rightarrow> jsval option \<times> device_page" where
  "resolveDetailForDisplay now detail s =
     (case detail of
        None \<Rightarrow> (None, clearLiveRadioFallbackTimer s)
      | Some d \<Rightarrow>
          if jfield d ''radio_live_ok'' = JBool True then
            (Some d, clearLiveRadioFallbackTimer
               (s\<lparr>dg_radio := (dg_radio s)\<lparr>lr_cache := (lr_cache (dg_radio s))(ident d \<mapsto>
                    \<lparr>lv_capturedAt = now, lv_radio = extractLiveRadioFields d\<rparr>)\<rparr>\<rparr>))
          else if jfield d ''radio_live_ok'' \<noteq> JBool False then (Some d, clearLiveRadioFallbackTimer s)
          else
            (case lr_cache (dg_radio s) (ident d) of
               None \<Rightarrow> (Some d, clearLiveRadioFallbackTimer s)
             | Some e \<Rightarrow>
                 let age = now - lv_capturedAt e in
                 if RADIO_LIVE_GRACE_MS \<le> age then (Some d, clearLiveRadioFallbackTimer s)
                 else (Some (mergeLiveRadioFields d (lv_radio e)),
                       scheduleLiveRadioFallback now d (RADIO_LIVE_GRACE_MS - age) s)))"

definition show_detail :: "int \<Rightarrow> jsval option \<Rightarrow> device_page \<Rightarrow> device_page" where
  "show_detail now detail s =
     (case resolveDetailForDisplay now detail s of (shown, s1) \<Rightarrow> s1\<lparr>dg_detail := shown\<rparr>)"

text \<open>The fallback timer fires.\<close>

definition on_radio_timer :: "int \<Rightarrow> device_page \<Rightarrow> device_page" where
  "on_radio_timer now s =
     (case lr_timer (dg_radio s) of
        None \<Rightarrow> s
      | Some (expectedID, due) \<Rightarrow>
          let pending = lr_pending (dg_radio s);
              s1 = s\<lparr>dg_radio := (dg_radio s)\<lparr>lr_timer := None, lr_pending := None\<rparr>\<rparr>
          in case pending of
               None \<Rightarrow> s1
             | Some p \<Rightarrow>
                 if JStr (dg_selectedId s) \<noteq> expectedID \<or> ident p \<noteq> expectedID then s1
                 else update_speed now (s1\<lparr>dg_detail := Some p\<rparr>))"

section \<open>Traffic analysis\<close>

definition resetDeviceTrafficAnalysis :: "device_page \<Rightarrow> device_page" where
  "resetDeviceTrafficAnalysis s =
     s\<lparr>dg_analysis := (dg_analysis s)\<lparr>an_abort := None, an_data := createEmptyTrafficAnalysis,
         an_loading := False, an_error := None, an_lastOkAt := None\<rparr>\<rparr>"

definition fetchDeviceTrafficAnalysis :: "jsval \<Rightarrow> device_page \<Rightarrow> device_page" where
  "fetchDeviceTrafficAnalysis i s =
     (let deviceID = trim (text_or_empty i); a = dg_analysis s in
      if deviceID = [] then resetDeviceTrafficAnalysis s
      else if ident (detail_value s) = JStr deviceID \<and> \<not> truthy (jfield (detail_value s) ''network_connected'')
      then resetDeviceTrafficAnalysis s
      else s\<lparr>dg_analysis := a\<lparr>an_abort := Some (an_next a), an_next := Suc (an_next a),
               an_sent := (an_sent a)(an_next a \<mapsto> (an_range a, deviceID)),
               an_loading := True, an_error := None\<rparr>\<rparr>)"

definition on_analysis :: "int \<Rightarrow> nat \<Rightarrow> traffic_analysis service_result \<Rightarrow> device_page \<Rightarrow> device_page" where
  "on_analysis now controller result s =
     (let a = dg_analysis s in
      if an_abort a \<noteq> Some controller then s
      else
        case result of
          Failure e \<Rightarrow>
            let a1 = (if ae_code e = Some (js ''ERR_CANCELED'') then a
                      else a\<lparr>an_data := createEmptyTrafficAnalysis, an_error := Some e\<rparr>)
            in s\<lparr>dg_analysis := a1\<lparr>an_abort := None, an_loading := False\<rparr>\<rparr>
        | Success d \<Rightarrow>
            s\<lparr>dg_analysis := a\<lparr>an_data := d, an_lastOkAt := Some now, an_abort := None, an_loading := False\<rparr>\<rparr>)"

definition refreshCurrentDeviceTrafficAnalysis :: "device_page \<Rightarrow> device_page" where
  "refreshCurrentDeviceTrafficAnalysis s =
     (if \<not> truthy (ident (detail_value s)) then resetDeviceTrafficAnalysis s
      else fetchDeviceTrafficAnalysis (ident (detail_value s)) s)"

definition handleDeviceTrafficRangeChange :: "jstr \<Rightarrow> device_page \<Rightarrow> device_page" where
  "handleDeviceTrafficRangeChange rng s =
     (if an_range (dg_analysis s) = rng then s
      else refreshCurrentDeviceTrafficAnalysis (s\<lparr>dg_analysis := (dg_analysis s)\<lparr>an_range := rng\<rparr>\<rparr>))"

text \<open>The poller's task.\<close>

definition analysis_poll :: "device_page \<Rightarrow> device_page" where
  "analysis_poll s =
     (if dg_activeTab s \<noteq> js ''overview'' then s
      else if \<not> truthy (ident (detail_value s)) \<or> \<not> truthy (jfield (detail_value s) ''network_connected'') then s
      else fetchDeviceTrafficAnalysis (ident (detail_value s)) s)"

section \<open>The configuration form\<close>

definition json_text :: "jsval \<Rightarrow> jstr" where
  "json_text v = (case stringify v of Some t \<Rightarrow> t | None \<Rightarrow> [])"

definition no_config :: "device_page \<Rightarrow> device_page" where
  "no_config s = s\<lparr>dg_edit := \<lparr>ed_config = None, ed_baseline = [], ed_dirty = False\<rparr>\<rparr>"

definition after_sync :: "sync_follow \<Rightarrow> device_page \<Rightarrow> device_page" where
  "after_sync f s =
     (case f of
        SyncOnly \<Rightarrow> s
      | EndFetchAll \<Rightarrow> s\<lparr>dg_loading := False\<rparr>
      | EndRefresh \<Rightarrow> s\<lparr>dg_listFails := 0, dg_listWarned := False\<rparr>)"

definition syncEditConfigFromSelected :: "sync_follow \<Rightarrow> bool \<Rightarrow> device_page \<Rightarrow> device_page" where
  "syncEditConfigFromSelected f force s =
     (if \<not> force \<and> ed_dirty (dg_edit s) then after_sync f s
      else if trim (dg_selectedId s) = [] then after_sync f (no_config s)
      else s\<lparr>dg_configSeq := Suc (dg_configSeq s),
             dg_configTasks := (dg_configTasks s)(Suc (dg_configSeq s) \<mapsto> (trim (dg_selectedId s), f))\<rparr>)"

text \<open>The answer is JSON, so that copying it through text changes nothing.\<close>

definition form_config :: "jsval \<Rightarrow> jsval \<Rightarrow> jsval" where
  "form_config stored detail =
     (let c = obj_entries (or_else stored (JObj []));
          activeControlDevice = or_else (jfield detail ''control_device'') (jfield (JObj c) ''control_device'')
      in if isWwanQmiControlPath activeControlDevice then JObj (assoc_set (js ''device_backend'') (jlit ''qmi'') c)
         else if \<not> truthy (jfield (JObj c) ''device_backend'') then JObj (assoc_set (js ''device_backend'') (jlit ''at'') c)
         else JObj c)"

definition on_config :: "nat \<Rightarrow> jsval service_result \<Rightarrow> device_page \<Rightarrow> device_page" where
  "on_config k result s =
     (case dg_configTasks s k of
        None \<Rightarrow> s
      | Some (dev, f) \<Rightarrow>
          let s1 = s\<lparr>dg_configTasks := (dg_configTasks s)(k := None)\<rparr> in
          after_sync f
            (case result of
               Failure e \<Rightarrow> no_config s1
             | Success stored \<Rightarrow>
                 let c = form_config stored (detail_value s1) in
                 s1\<lparr>dg_edit := \<lparr>ed_config = Some c, ed_baseline = json_text c, ed_dirty = False\<rparr>\<rparr>))"

text \<open>The form is edited: the watcher compares it with the baseline.\<close>

definition on_edit :: "jsval option \<Rightarrow> device_page \<Rightarrow> device_page" where
  "on_edit v s =
     (case v of
        None \<Rightarrow> no_config s
      | Some c \<Rightarrow>
          let cur = json_text c in
          if ed_baseline (dg_edit s) = []
          then s\<lparr>dg_edit := \<lparr>ed_config = Some c, ed_baseline = cur, ed_dirty = False\<rparr>\<rparr>
          else s\<lparr>dg_edit := (dg_edit s)\<lparr>ed_config := Some c, ed_dirty := cur \<noteq> ed_baseline (dg_edit s)\<rparr>\<rparr>)"

text \<open>The request the save button issues: the device it is for and the configuration.\<close>

definition save_request :: "device_page \<Rightarrow> (jstr \<times> jsval) option" where
  "save_request s =
     (case ed_config (dg_edit s) of
        Some c \<Rightarrow> if trim (dg_selectedId s) = [] then None else Some (trim (dg_selectedId s), c)
      | None \<Rightarrow> None)"

section \<open>Detail and list\<close>

definition after_detail :: "detail_follow \<Rightarrow> device_page \<Rightarrow> device_page" where
  "after_detail f s = (case f of DetailOnly \<Rightarrow> s | DetailThenSync g \<Rightarrow> syncEditConfigFromSelected g False s)"

definition fetchSelectedDetail :: "int \<Rightarrow> jstr \<Rightarrow> detail_follow \<Rightarrow> device_page \<Rightarrow> device_page" where
  "fetchSelectedDetail now i f s =
     (let deviceID = trim i in
      if deviceID = []
      then after_detail f (update_speed now ((clearLiveRadioFallbackTimer s)\<lparr>dg_detail := None\<rparr>))
      else s\<lparr>dg_detailSeq := Suc (dg_detailSeq s),
             dg_detailTasks := (dg_detailTasks s)(Suc (dg_detailSeq s) \<mapsto> (deviceID, f))\<rparr>)"

definition canceled :: app_error where
  "canceled = \<lparr>ae_message = js ''canceled'', ae_status = None, ae_method = None, ae_url = None,
     ae_code = Some (js ''ERR_CANCELED'')\<rparr>"

text \<open>The answer to a request other than the latest, which was aborted.\<close>

definition unless_aborted :: "nat \<Rightarrow> nat \<Rightarrow> 'a service_result \<Rightarrow> 'a service_result" where
  "unless_aborted latest k result = (if k = latest then result else Failure canceled)"

definition on_detail :: "int \<Rightarrow> nat \<Rightarrow> jsval service_result \<Rightarrow> device_page \<Rightarrow> device_page" where
  "on_detail now k result s =
     (case dg_detailTasks s k of
        None \<Rightarrow> s
      | Some (dev, f) \<Rightarrow>
          let s1 = s\<lparr>dg_detailTasks := (dg_detailTasks s)(k := None)\<rparr> in
          after_detail f (update_speed now
            (case unless_aborted (dg_detailSeq s) k result of
               Success d \<Rightarrow> show_detail now (if truthy d then Some d else None) s1
             | Failure e \<Rightarrow> s1)))"

definition deviceTabs :: "jstr list" where
  "deviceTabs = map js [''overview'', ''esim'', ''at'', ''ussd'', ''config'', ''card'']"

definition applyRouteSelection :: "device_page \<Rightarrow> bool \<times> device_page" where
  "applyRouteSelection s =
     (let tab = trim (firstQueryValue (snd (dg_query s)));
          s1 = (if tab \<in> set deviceTabs then s\<lparr>dg_activeTab := tab\<rparr> else s);
          deviceID = trim (firstQueryValue (fst (dg_query s)))
      in if deviceID = [] \<or> dg_selectedId s1 = deviceID then (False, s1)
         else (True, s1\<lparr>dg_selectedId := deviceID, dg_hasAutoSelected := True\<rparr>))"

definition fetchAll :: "device_page \<Rightarrow> device_page" where
  "fetchAll s = s\<lparr>dg_loading := True, dg_error := None, dg_listSeq := Suc (dg_listSeq s),
     dg_listTasks := (dg_listTasks s)(Suc (dg_listSeq s) \<mapsto> (FetchAll, dg_selectedId s))\<rparr>"

definition refreshListOnly :: "device_page \<Rightarrow> device_page" where
  "refreshListOnly s = s\<lparr>dg_listSeq := Suc (dg_listSeq s),
     dg_listTasks := (dg_listTasks s)(Suc (dg_listSeq s) \<mapsto> (RefreshList, dg_selectedId s))\<rparr>"

definition auto_select :: "list_kind \<Rightarrow> device_page \<Rightarrow> device_page" where
  "auto_select kd s =
     (case dg_devices s of
        [] \<Rightarrow> s
      | d # _ \<Rightarrow>
          if \<not> dg_hasAutoSelected s \<and> dg_selectedId s = []
          then s\<lparr>dg_selectedId := str_or (ident d) [], dg_hasAutoSelected := (kd = FetchAll \<or> str_or (ident d) [] \<noteq> [])\<rparr>
          else s)"

definition drop_selection :: "device_page \<Rightarrow> device_page" where
  "drop_selection s = (if dg_selectedId s \<noteq> [] \<and> dg_devices s = [] then s\<lparr>dg_selectedId := []\<rparr> else s)"

definition selection_changed :: "jstr \<Rightarrow> device_page \<Rightarrow> bool" where
  "selection_changed prevSelected s \<longleftrightarrow>
     prevSelected \<noteq> dg_selectedId s \<or> detail_id s \<noteq> JStr (dg_selectedId s)"

definition list_loaded :: "int \<Rightarrow> list_kind \<Rightarrow> jstr \<Rightarrow> jsval list \<Rightarrow> device_page \<Rightarrow> device_page" where
  "list_loaded now kind prevSelected devs s =
     (case kind of
        FetchAll \<Rightarrow>
          let s1 = drop_selection (auto_select FetchAll (snd (applyRouteSelection (s\<lparr>dg_devices := devs, dg_lastOkAt := Some now\<rparr>)))) in
          if selection_changed prevSelected s1
          then fetchSelectedDetail now (dg_selectedId s1) (DetailThenSync EndFetchAll) s1
          else if ed_config (dg_edit s1) = None then syncEditConfigFromSelected EndFetchAll False s1
          else after_sync EndFetchAll s1
      | RefreshList \<Rightarrow>
          let s1 = drop_selection (auto_select RefreshList (s\<lparr>dg_devices := devs\<rparr>)) in
          if selection_changed prevSelected s1
          then fetchSelectedDetail now (dg_selectedId s1) (DetailThenSync EndRefresh) s1
          else after_sync EndRefresh s1)"

text \<open>The handlers throw a new \<open>Error\<close> with the message of the failed result and turn it
  back into an application error, whose code they look at.\<close>

definition rethrown :: "app_error \<Rightarrow> app_error" where
  "rethrown e = toAppError (NativeErr (js ''Error'') (ae_message e) None)"

definition list_failed :: "list_kind \<Rightarrow> app_error \<Rightarrow> device_page \<Rightarrow> device_page" where
  "list_failed kind e s =
     (let err = rethrown e in
      if ae_code err = Some (js ''ERR_CANCELED'')
      then (case kind of FetchAll \<Rightarrow> s\<lparr>dg_loading := False\<rparr> | RefreshList \<Rightarrow> s)
      else
        case kind of
          FetchAll \<Rightarrow>
            s\<lparr>dg_error := Some (err\<lparr>ae_message := (if ae_message err = [] then tx_devices_load_failed else ae_message err),
                                  ae_code := None\<rparr>),
              dg_loading := False\<rparr>
        | RefreshList \<Rightarrow>
            let n = Suc (dg_listFails s) in
            if 3 \<le> n \<and> \<not> dg_listWarned s
            then s\<lparr>dg_listFails := n, dg_listWarned := True, dg_notices := dg_notices s @ [tx_list_refresh_warning]\<rparr>
            else s\<lparr>dg_listFails := n\<rparr>)"

definition on_list :: "int \<Rightarrow> nat \<Rightarrow> jsval list service_result \<Rightarrow> device_page \<Rightarrow> device_page" where
  "on_list now k result s =
     (case dg_listTasks s k of
        None \<Rightarrow> s
      | Some (kind, prevSelected) \<Rightarrow>
          let s1 = s\<lparr>dg_listTasks := (dg_listTasks s)(k := None)\<rparr> in
          (case unless_aborted (dg_listSeq s) k result of
             Success devs \<Rightarrow> list_loaded now kind prevSelected devs s1
           | Failure e \<Rightarrow> list_failed kind e s1))"

definition refreshSelectedDetailOnly :: "int \<Rightarrow> device_page \<Rightarrow> device_page" where
  "refreshSelectedDetailOnly now s =
     (if dg_selectedId s = [] then s else fetchSelectedDetail now (dg_selectedId s) DetailOnly s)"

definition selectDevice :: "int \<Rightarrow> jstr \<Rightarrow> device_page \<Rightarrow> device_page" where
  "selectDevice now i s =
     (let target = trim i in
      if target = [] \<or> dg_selectedId s = target \<and> dg_detail s \<noteq> None then s
      else syncEditConfigFromSelected SyncOnly False
             (fetchSelectedDetail now target DetailOnly
                (s\<lparr>dg_selectedId := target, dg_hasAutoSelected := True,
                  dg_query := (JStr target, JStr (dg_activeTab s))\<rparr>)))"

definition on_route :: "int \<Rightarrow> jsval \<times> jsval \<Rightarrow> device_page \<Rightarrow> device_page" where
  "on_route now query s =
     (case applyRouteSelection (s\<lparr>dg_query := query\<rparr>) of
        (changed, s1) \<Rightarrow>
          if \<not> changed then s1
          else syncEditConfigFromSelected SyncOnly False (fetchSelectedDetail now (dg_selectedId s1) DetailOnly s1))"

text \<open>A device was deleted on the server.\<close>

definition device_deleted :: "int \<Rightarrow> device_page \<Rightarrow> device_page" where
  "device_deleted now s =
     fetchAll ((no_config (resetDeviceTrafficAnalysis (update_speed now
       ((clearLiveRadioFallbackTimer s)\<lparr>dg_detail := None\<rparr>))))
       \<lparr>dg_selectedId := [], dg_hasAutoSelected := False\<rparr>)"

fun merge_device :: "jsval \<Rightarrow> jsval list \<Rightarrow> jsval list" where
  "merge_device found [] = []"
| "merge_device found (d # ds) =
     (if ident d = ident found then JObj (assoc_update (obj_entries d) (obj_entries found)) # ds
      else d # merge_device found ds)"

definition handleOverviewEvent :: "int \<Rightarrow> jsval \<Rightarrow> device_page \<Rightarrow> device_page" where
  "handleOverviewEvent now data s =
     (case elems (jfield data ''devices'') of
        [] \<Rightarrow> s
      | found # _ \<Rightarrow>
          let s1 = s\<lparr>dg_devices := merge_device found (dg_devices s)\<rparr>;
              s2 = (if JStr (dg_selectedId s1) = ident found
                    then update_speed now (show_detail now (Some found) s1) else s1)
          in s2\<lparr>dg_loading := False\<rparr>)"

definition on_traffic_frame :: "int \<Rightarrow> jsval \<Rightarrow> device_page \<Rightarrow> device_page" where
  "on_traffic_frame now data s =
     s\<lparr>dg_traffic := handleRealtimeTrafficEvent now (dg_selectedId s) data (dg_traffic s)\<rparr>"

section \<open>Watchers\<close>

definition setupSSE :: "device_page \<Rightarrow> device_page" where
  "setupSSE s =
     s\<lparr>dg_traffic := resetRollingTrafficWindow (set_speed [] [] ((dg_traffic s)\<lparr>tv_activeUntil := 0\<rparr>)),
       dg_stream := (if dg_selectedId s = [] then None else Some (dg_selectedId s))\<rparr>"

definition watch_selected :: "jstr \<Rightarrow> device_page \<Rightarrow> device_page" where
  "watch_selected prev s =
     (if dg_selectedId s = prev then s
      else setupSSE (resetDeviceTrafficAnalysis (clearLiveRadioFallbackTimer s)))"

definition watch_detail_id :: "jsval \<Rightarrow> device_page \<Rightarrow> device_page" where
  "watch_detail_id prev s =
     (if detail_id s = prev \<or> \<not> truthy (detail_id s) then s else fetchDeviceTrafficAnalysis (detail_id s) s)"

definition watch_connected :: "jsval \<Rightarrow> device_page \<Rightarrow> device_page" where
  "watch_connected prev s =
     (let connected = jfield (detail_value s) ''network_connected'' in
      if connected = prev \<or> \<not> truthy (ident (detail_value s)) then s
      else if \<not> truthy connected then resetDeviceTrafficAnalysis s
      else if prev = JBool False \<and> connected = JBool True then fetchDeviceTrafficAnalysis (ident (detail_value s)) s
      else s)"

definition watch_tab :: "jstr \<Rightarrow> device_page \<Rightarrow> device_page" where
  "watch_tab prev s =
     (if dg_activeTab s = js ''overview'' \<and> prev \<noteq> js ''overview'' then refreshCurrentDeviceTrafficAnalysis s else s)"

definition watchers :: "device_page \<Rightarrow> device_page \<Rightarrow> device_page" where
  "watchers s0 s =
     watch_tab (dg_activeTab s0)
       (watch_connected (jfield (detail_value s0) ''network_connected'')
         (watch_detail_id (detail_id s0) (watch_selected (dg_selectedId s0) s)))"

section \<open>Events\<close>

datatype page_event =
    Mount
  | Reload
  | ListPoll
  | ViewsRefresh int
  | ListAnswer int nat "jsval list service_result"
  | DetailPoll int
  | DetailAnswer int nat "jsval service_result"
  | ConfigAnswer nat "jsval service_result"
  | SelectDevice int jstr
  | RouteChange int "jsval \<times> jsval"
  | TabChange jstr
  | OverviewFrame int jsval
  | TrafficFrame int jsval
  | RadioTimer int
  | AnalysisAnswer int nat "traffic_analysis service_result"
  | AnalysisPoll
  | RangeChange jstr
  | EditForm "jsval option"
  | DeviceDeleted int

definition handle :: "page_event \<Rightarrow> device_page \<Rightarrow> device_page" where
  "handle e s =
     (case e of
        Mount \<Rightarrow> setupSSE (fetchAll s)
      | Reload \<Rightarrow> fetchAll s
      | ListPoll \<Rightarrow> if dg_loading s then s else refreshListOnly s
      | ViewsRefresh now \<Rightarrow> refreshListOnly (refreshSelectedDetailOnly now s)
      | ListAnswer now k r \<Rightarrow> on_list now k r s
      | DetailPoll now \<Rightarrow> refreshSelectedDetailOnly now s
      | DetailAnswer now k r \<Rightarrow> on_detail now k r s
      | ConfigAnswer k r \<Rightarrow> on_config k r s
      | SelectDevice now i \<Rightarrow> selectDevice now i s
      | RouteChange now q \<Rightarrow> on_route now q s
      | TabChange t \<Rightarrow> s\<lparr>dg_activeTab := t\<rparr>
      | OverviewFrame now d \<Rightarrow> handleOverviewEvent now d s
      | TrafficFrame now d \<Rightarrow> on_traffic_frame now d s
      | RadioTimer now \<Rightarrow> on_radio_timer now s
      | AnalysisAnswer now c r \<Rightarrow> on_analysis now c r s
      | AnalysisPoll \<Rightarrow> analysis_poll s
      | RangeChange r \<Rightarrow> handleDeviceTrafficRangeChange r s
      | EditForm v \<Rightarrow> on_edit v s
      | DeviceDeleted now \<Rightarrow> device_deleted now s)"

definition page_step :: "page_event \<Rightarrow> device_page \<Rightarrow> device_page" where
  "page_step e s = watchers s (handle e s)"

text \<open>
  The server answers a detail request with the device asked for, or with no device.
\<close>

definition honest :: "page_event \<Rightarrow> device_page \<Rightarrow> bool" where
  "honest e s =
     (case e of
        DetailAnswer now k (Success d) \<Rightarrow>
          (case dg_detailTasks s k of
             Some (dev, f) \<Rightarrow> if truthy d then ident d = JStr dev else True
           | None \<Rightarrow> True)
      | _ \<Rightarrow> True)"

inductive page_reach :: "device_page \<Rightarrow> bool" where
  page_start: "page_reach (initial_page query)"
| page_next: "page_reach s \<Longrightarrow> honest e s \<Longrightarrow> page_reach (page_step e s)"

section \<open>What each operation leaves alone\<close>

text \<open>The selection and the requests for lists and details.\<close>

definition core where
  "core s = (dg_selectedId s, dg_query s, dg_listSeq s, dg_listTasks s, dg_detailSeq s, dg_detailTasks s)"

named_theorems core_simps "operations that keep the selection and its requests"

lemma core_ops [core_simps]:
  "core (clearLiveRadioFallbackTimer s) = core s"
  "core (update_speed now s) = core s"
  "core (resetDeviceTrafficAnalysis s) = core s"
  "core (no_config s) = core s"
  "core (after_sync f s) = core s"
  "core (setupSSE s) = core s"
  "core (s\<lparr>dg_detail := d\<rparr>) = core s"
  "core (s\<lparr>dg_devices := ds\<rparr>) = core s"
  "core (s\<lparr>dg_loading := b\<rparr>) = core s"
  "core (s\<lparr>dg_lastOkAt := l\<rparr>) = core s"
  "core (s\<lparr>dg_activeTab := t\<rparr>) = core s"
  "core (s\<lparr>dg_edit := e\<rparr>) = core s"
  "core (s\<lparr>dg_radio := r\<rparr>) = core s"
  "core (s\<lparr>dg_analysis := a\<rparr>) = core s"
  "core (s\<lparr>dg_traffic := tr\<rparr>) = core s"
  "core (s\<lparr>dg_error := er\<rparr>) = core s"
  "core (s\<lparr>dg_configTasks := ct\<rparr>) = core s"
  by (simp_all add: core_def clearLiveRadioFallbackTimer_def update_speed_def resetDeviceTrafficAnalysis_def
      no_config_def after_sync_def setupSSE_def split: sync_follow.split)

lemma core_analysis [core_simps]:
  "core (fetchDeviceTrafficAnalysis i s) = core s"
  "core (on_analysis now c r s) = core s"
  "core (refreshCurrentDeviceTrafficAnalysis s) = core s"
  "core (handleDeviceTrafficRangeChange g s) = core s"
  "core (analysis_poll s) = core s"
  by (simp_all add: fetchDeviceTrafficAnalysis_def on_analysis_def refreshCurrentDeviceTrafficAnalysis_def
      handleDeviceTrafficRangeChange_def analysis_poll_def Let_def core_simps split: service_result.split)

lemma core_show [core_simps]:
  "core (scheduleLiveRadioFallback now d r s) = core s"
  "core (snd (resolveDetailForDisplay now x s)) = core s"
  "core (show_detail now x s) = core s"
  "core (on_radio_timer now s) = core s"
  "core (on_traffic_frame now d s) = core s"
  by (simp_all add: scheduleLiveRadioFallback_def resolveDetailForDisplay_def show_detail_def on_radio_timer_def
      on_traffic_frame_def Let_def core_simps split: option.split)

lemma core_sync [core_simps]:
  "core (syncEditConfigFromSelected f b s) = core s"
  "core (on_config k r s) = core s"
  "core (on_edit v s) = core s"
  "core (after_detail g s) = core s"
proof -
  show s: "core (syncEditConfigFromSelected f b s) = core s" for f b s
    by (simp add: syncEditConfigFromSelected_def core_simps) (simp add: core_def)
  show "core (on_config k r s) = core s" "core (on_edit v s) = core s" "core (after_detail g s) = core s"
    by (simp_all add: on_config_def on_edit_def after_detail_def Let_def core_simps s
        split: option.split service_result.split detail_follow.split)
qed

lemma core_watchers [core_simps]: "core (watchers s0 s) = core s"
  by (simp add: watchers_def watch_selected_def watch_detail_id_def watch_connected_def watch_tab_def Let_def core_simps)

text \<open>The watchers change nothing where nothing has changed, and never the detail.\<close>

lemma watchers_same [simp]: "watchers s s = s"
  by (simp add: watchers_def watch_selected_def watch_detail_id_def watch_connected_def watch_tab_def)

named_theorems detail_simps "operations that keep the detail on display"

lemma detail_ops [detail_simps]:
  "dg_detail (clearLiveRadioFallbackTimer s) = dg_detail s"
  "dg_detail (update_speed now s) = dg_detail s"
  "dg_detail (resetDeviceTrafficAnalysis s) = dg_detail s"
  "dg_detail (no_config s) = dg_detail s"
  "dg_detail (after_sync f s) = dg_detail s"
  "dg_detail (setupSSE s) = dg_detail s"
  "dg_detail (fetchDeviceTrafficAnalysis i s) = dg_detail s"
  "dg_detail (refreshCurrentDeviceTrafficAnalysis s) = dg_detail s"
  "dg_detail (syncEditConfigFromSelected f b s) = dg_detail s"
  "dg_detail (after_detail g s) = dg_detail s"
  by (simp_all add: clearLiveRadioFallbackTimer_def update_speed_def resetDeviceTrafficAnalysis_def
      no_config_def after_sync_def setupSSE_def fetchDeviceTrafficAnalysis_def refreshCurrentDeviceTrafficAnalysis_def
      syncEditConfigFromSelected_def after_detail_def Let_def split: sync_follow.split detail_follow.split)

lemma detail_watchers [detail_simps]: "dg_detail (watchers s0 s) = dg_detail s"
  by (simp add: watchers_def watch_selected_def watch_detail_id_def watch_connected_def watch_tab_def Let_def detail_simps)

lemma detail_handlers [detail_simps]:
  "dg_detail (on_analysis now c r s) = dg_detail s"
  "dg_detail (handleDeviceTrafficRangeChange g s) = dg_detail s"
  "dg_detail (analysis_poll s) = dg_detail s"
  "dg_detail (on_config k x s) = dg_detail s"
  "dg_detail (on_edit v s) = dg_detail s"
  "dg_detail (on_traffic_frame now d s) = dg_detail s"
  "dg_detail (fetchAll s) = dg_detail s"
  "dg_detail (refreshListOnly s) = dg_detail s"
  by (simp_all add: on_analysis_def handleDeviceTrafficRangeChange_def analysis_poll_def on_config_def on_edit_def
      on_traffic_frame_def fetchAll_def refreshListOnly_def Let_def detail_simps
      split: service_result.split option.split)

lemma detail_list_failed [detail_simps]: "dg_detail (list_failed kind e s) = dg_detail s"
  by (simp add: list_failed_def Let_def split: list_kind.split)

lemma detail_fetch: "dg_detail (fetchSelectedDetail now i f s) = (if trim i = [] then None else dg_detail s)"
  by (simp add: fetchSelectedDetail_def Let_def detail_simps)

section \<open>The selection and its requests\<close>

definition route_device :: "device_page \<Rightarrow> jstr" where
  "route_device s = trim (firstQueryValue (fst (dg_query s)))"

text \<open>
  The latest detail request is for the selected device; a list request remembers a selection that
  differs from what the route would select, and none when nothing is selected.
\<close>

definition detail_wanted :: "device_page \<Rightarrow> bool" where
  "detail_wanted s \<longleftrightarrow>
     trim (dg_selectedId s) = [] \<or>
     (\<forall>dev f. dg_detailTasks s (dg_detailSeq s) = Some (dev, f) \<longrightarrow> dev = trim (dg_selectedId s))"

definition list_wanted :: "device_page \<Rightarrow> bool" where
  "list_wanted s \<longleftrightarrow>
     (\<forall>kind p. dg_listTasks s (dg_listSeq s) = Some (kind, p) \<longrightarrow>
        (dg_selectedId s = [] \<longrightarrow> p = []) \<and>
        (route_device s \<noteq> [] \<longrightarrow> route_device s \<noteq> dg_selectedId s \<longrightarrow> p \<noteq> route_device s))"

definition sel_ok :: "device_page \<Rightarrow> bool" where
  "sel_ok s \<longleftrightarrow> detail_wanted s \<and> list_wanted s"

lemma sel_ok_core: "core s = core s' \<Longrightarrow> sel_ok s = sel_ok s'"
  by (simp add: core_def sel_ok_def detail_wanted_def list_wanted_def route_device_def)

lemma core_fields:
  "core s = core s' \<Longrightarrow> dg_selectedId s = dg_selectedId s'"
  "core s = core s' \<Longrightarrow> dg_detailTasks s = dg_detailTasks s'"
  "core s = core s' \<Longrightarrow> dg_detailSeq s = dg_detailSeq s'"
  "core s = core s' \<Longrightarrow> dg_query s = dg_query s'"
  "core s = core s' \<Longrightarrow> dg_listTasks s = dg_listTasks s' \<and> dg_listSeq s = dg_listSeq s'"
  by (simp_all add: core_def)

text \<open>Fetching the detail of the selected device, whatever was wanted before.\<close>

lemma fetch_detail_wanted: "detail_wanted (fetchSelectedDetail now (dg_selectedId s) f s)"
proof (cases "trim (dg_selectedId s) = []")
  case True
  let ?t = "update_speed now ((clearLiveRadioFallbackTimer s)\<lparr>dg_detail := None\<rparr>)"
  have "dg_selectedId (after_detail f ?t) = dg_selectedId s"
    by (rule core_fields) (simp add: core_simps)
  then show ?thesis using True by (simp add: fetchSelectedDetail_def Let_def detail_wanted_def)
qed (simp add: fetchSelectedDetail_def Let_def detail_wanted_def)

lemma fetch_detail_lists:
  "dg_selectedId (fetchSelectedDetail now i f s) = dg_selectedId s"
  "dg_query (fetchSelectedDetail now i f s) = dg_query s"
  "dg_listTasks (fetchSelectedDetail now i f s) = dg_listTasks s"
  "dg_listSeq (fetchSelectedDetail now i f s) = dg_listSeq s"
proof -
  let ?t = "update_speed now ((clearLiveRadioFallbackTimer s)\<lparr>dg_detail := None\<rparr>)"
  have c: "core (after_detail f ?t) = core s" by (simp add: core_simps)
  show "dg_selectedId (fetchSelectedDetail now i f s) = dg_selectedId s"
    "dg_query (fetchSelectedDetail now i f s) = dg_query s"
    "dg_listTasks (fetchSelectedDetail now i f s) = dg_listTasks s"
    "dg_listSeq (fetchSelectedDetail now i f s) = dg_listSeq s"
    using core_fields [OF c] by (simp_all add: fetchSelectedDetail_def Let_def)
qed

lemma fetch_list_wanted: "list_wanted (fetchSelectedDetail now i f s) = list_wanted s"
  by (simp add: list_wanted_def route_device_def fetch_detail_lists)

lemma sel_ok_fetch: "list_wanted s \<Longrightarrow> sel_ok (fetchSelectedDetail now (dg_selectedId s) f s)"
  by (simp add: sel_ok_def fetch_detail_wanted fetch_list_wanted)

lemma sel_ok_fetch_lists: "sel_ok s \<Longrightarrow> sel_ok (fetchAll s)" "sel_ok s \<Longrightarrow> sel_ok (refreshListOnly s)"
  by (auto simp: sel_ok_def detail_wanted_def list_wanted_def route_device_def fetchAll_def refreshListOnly_def)

lemma list_wanted_none: "dg_listTasks s (dg_listSeq s) = None \<Longrightarrow> list_wanted s"
  by (simp add: list_wanted_def)

lemma detail_wanted_cong:
  "dg_selectedId s' = dg_selectedId s \<Longrightarrow> dg_detailTasks s' = dg_detailTasks s \<Longrightarrow> dg_detailSeq s' = dg_detailSeq s \<Longrightarrow>
   detail_wanted s' = detail_wanted s"
  by (simp add: detail_wanted_def)

text \<open>A list answer: what selects a device, and what it leaves alone.\<close>

lemma auto_drop_fields:
  "dg_listTasks (drop_selection (auto_select kd s)) = dg_listTasks s"
  "dg_listSeq (drop_selection (auto_select kd s)) = dg_listSeq s"
  "dg_detailTasks (drop_selection (auto_select kd s)) = dg_detailTasks s"
  "dg_detailSeq (drop_selection (auto_select kd s)) = dg_detailSeq s"
  "dg_detail (drop_selection (auto_select kd s)) = dg_detail s"
  by (simp_all add: drop_selection_def auto_select_def split: list.split)

lemma auto_drop_selection:
  "dg_selectedId (drop_selection (auto_select kd s)) = dg_selectedId s \<or>
   dg_selectedId (drop_selection (auto_select kd s)) = [] \<or> dg_selectedId s = []"
  by (simp add: drop_selection_def auto_select_def split: list.split)

lemma route_fields:
  "dg_listTasks (snd (applyRouteSelection s)) = dg_listTasks s"
  "dg_listSeq (snd (applyRouteSelection s)) = dg_listSeq s"
  "dg_detailTasks (snd (applyRouteSelection s)) = dg_detailTasks s"
  "dg_detailSeq (snd (applyRouteSelection s)) = dg_detailSeq s"
  "dg_detail (snd (applyRouteSelection s)) = dg_detail s"
  "dg_query (snd (applyRouteSelection s)) = dg_query s"
  by (simp_all add: applyRouteSelection_def Let_def)

lemma route_selection:
  "dg_selectedId (snd (applyRouteSelection s)) =
     (if route_device s = [] then dg_selectedId s else route_device s)"
  by (auto simp: applyRouteSelection_def Let_def route_device_def)

lemma route_changed: "fst (applyRouteSelection s) \<longleftrightarrow> route_device s \<noteq> [] \<and> dg_selectedId s \<noteq> route_device s"
  by (auto simp: applyRouteSelection_def Let_def route_device_def)

text \<open>
  A loaded list: unless the selection stays as it is, the detail of the new selection is fetched.
\<close>

lemma loaded_selection:
  assumes "list_wanted s0" and "dg_listTasks s0 (dg_listSeq s0) = Some (kind, p)"
    and "core s = core (s0\<lparr>dg_listTasks := (dg_listTasks s0)(dg_listSeq s0 := None)\<rparr>)"
    and "s1 = drop_selection (auto_select kd (snd (applyRouteSelection s))) \<or> s1 = drop_selection (auto_select kd s)"
  shows "list_wanted s1 \<and>
     (selection_changed p s1 \<or> dg_selectedId s1 = dg_selectedId s0 \<or> dg_selectedId s1 = []) \<and>
     dg_detailTasks s1 = dg_detailTasks s0 \<and> dg_detailSeq s1 = dg_detailSeq s0"
proof -
  have c: "dg_selectedId s = dg_selectedId s0" "dg_query s = dg_query s0" "dg_listSeq s = dg_listSeq s0"
    "dg_listTasks s = (dg_listTasks s0)(dg_listSeq s0 := None)" "dg_detailTasks s = dg_detailTasks s0"
    "dg_detailSeq s = dg_detailSeq s0"
    using assms(3) by (simp_all add: core_def)
  have none: "list_wanted s1"
    using assms(4) by (auto intro!: list_wanted_none simp: auto_drop_fields route_fields c)
  have p: "dg_selectedId s0 = [] \<Longrightarrow> p = []"
    "route_device s0 \<noteq> [] \<Longrightarrow> route_device s0 \<noteq> dg_selectedId s0 \<Longrightarrow> p \<noteq> route_device s0"
    using assms(1,2) by (simp_all add: list_wanted_def)
  have rd: "route_device s = route_device s0" by (simp add: route_device_def c)
  let ?r = "snd (applyRouteSelection s)"
  have r: "dg_selectedId ?r = dg_selectedId s0 \<or> p \<noteq> dg_selectedId ?r"
    using p(2) by (auto simp: route_selection rd c)
  have r0: "dg_selectedId ?r = [] \<Longrightarrow> dg_selectedId s0 = []"
    by (simp add: route_selection rd c split: if_splits)
  have "selection_changed p s1 \<or> dg_selectedId s1 = dg_selectedId s0 \<or> dg_selectedId s1 = []"
    using assms(4)
  proof
    assume s1: "s1 = drop_selection (auto_select kd ?r)"
    show ?thesis
      using auto_drop_selection [of kd ?r, folded s1] r r0 p(1) unfolding selection_changed_def by metis
  next
    assume s1: "s1 = drop_selection (auto_select kd s)"
    show ?thesis
      using auto_drop_selection [of kd s, folded s1] p(1) unfolding selection_changed_def c by metis
  qed
  with none show ?thesis
    using assms(4) by (auto simp: auto_drop_fields route_fields c)
qed

lemma loaded_selection_ok:
  assumes "sel_ok s0" and "dg_listTasks s0 (dg_listSeq s0) = Some (kind, p)"
    and "core s = core (s0\<lparr>dg_listTasks := (dg_listTasks s0)(dg_listSeq s0 := None)\<rparr>)"
    and "s1 = drop_selection (auto_select kd (snd (applyRouteSelection s))) \<or> s1 = drop_selection (auto_select kd s)"
    and "core t = core s1"
  shows "sel_ok (if selection_changed p s1 then fetchSelectedDetail now (dg_selectedId s1) f s1 else t)"
proof -
  have l: "list_wanted s1" "selection_changed p s1 \<or> dg_selectedId s1 = dg_selectedId s0 \<or> dg_selectedId s1 = []"
    "dg_detailTasks s1 = dg_detailTasks s0" "dg_detailSeq s1 = dg_detailSeq s0"
    using loaded_selection [OF _ assms(2-4)] assms(1) by (simp_all add: sel_ok_def)
  show ?thesis
  proof (cases "selection_changed p s1")
    case True
    then show ?thesis using sel_ok_fetch [OF l(1)] by simp
  next
    case False
    have "detail_wanted s1"
      using False l(2-4) assms(1) by (auto simp: detail_wanted_def sel_ok_def)
    then have "sel_ok s1" using l(1) by (simp add: sel_ok_def)
    then show ?thesis using False sel_ok_core [OF assms(5)] by simp
  qed
qed

lemma list_loaded_ok:
  assumes "sel_ok s0" and "dg_listTasks s0 (dg_listSeq s0) = Some (kind, p)"
  shows "sel_ok (list_loaded now kind p devs (s0\<lparr>dg_listTasks := (dg_listTasks s0)(dg_listSeq s0 := None)\<rparr>))"
proof (cases kind)
  case FetchAll
  let ?s = "s0\<lparr>dg_listTasks := (dg_listTasks s0)(dg_listSeq s0 := None), dg_devices := devs, dg_lastOkAt := Some now\<rparr>"
  let ?s1 = "drop_selection (auto_select FetchAll (snd (applyRouteSelection ?s)))"
  let ?t = "if ed_config (dg_edit ?s1) = None then syncEditConfigFromSelected EndFetchAll False ?s1
            else after_sync EndFetchAll ?s1"
  have "core ?s = core (s0\<lparr>dg_listTasks := (dg_listTasks s0)(dg_listSeq s0 := None)\<rparr>)"
    by (simp add: core_simps)
  then have "sel_ok (if selection_changed p ?s1
      then fetchSelectedDetail now (dg_selectedId ?s1) (DetailThenSync EndFetchAll) ?s1 else ?t)"
    by (rule loaded_selection_ok [OF assms, where kd = FetchAll]) (simp_all add: core_simps)
  then show ?thesis by (simp add: list_loaded_def FetchAll Let_def)
next
  case RefreshList
  let ?s = "s0\<lparr>dg_listTasks := (dg_listTasks s0)(dg_listSeq s0 := None), dg_devices := devs\<rparr>"
  let ?s1 = "drop_selection (auto_select RefreshList ?s)"
  have "core ?s = core (s0\<lparr>dg_listTasks := (dg_listTasks s0)(dg_listSeq s0 := None)\<rparr>)"
    by (simp add: core_simps)
  then have "sel_ok (if selection_changed p ?s1
      then fetchSelectedDetail now (dg_selectedId ?s1) (DetailThenSync EndRefresh) ?s1 else after_sync EndRefresh ?s1)"
    by (rule loaded_selection_ok [OF assms, where kd = RefreshList]) (simp_all add: core_simps)
  then show ?thesis by (simp add: list_loaded_def RefreshList Let_def)
qed

lemma core_list_failed [core_simps]: "core (list_failed kind e s) = core s"
  by (simp add: list_failed_def Let_def core_def split: list_kind.split)

lemma sel_ok_finished:
  "sel_ok s \<Longrightarrow> sel_ok (s\<lparr>dg_listTasks := (dg_listTasks s)(k := None)\<rparr>)"
  "sel_ok s \<Longrightarrow> sel_ok (s\<lparr>dg_detailTasks := (dg_detailTasks s)(k := None)\<rparr>)"
  by (auto simp: sel_ok_def detail_wanted_def list_wanted_def route_device_def)

lemma sel_ok_keep: "core s' = core s \<Longrightarrow> sel_ok s \<Longrightarrow> sel_ok s'"
  using sel_ok_core by blast

lemma on_list_ok: "sel_ok s \<Longrightarrow> sel_ok (on_list now k r s)"
proof (cases "dg_listTasks s k")
  case (Some t)
  assume ok: "sel_ok s"
  obtain kind p where t: "t = (kind, p)" by (cases t)
  let ?s1 = "s\<lparr>dg_listTasks := (dg_listTasks s)(k := None)\<rparr>"
  show ?thesis
  proof (cases "unless_aborted (dg_listSeq s) k r")
    case (Success devs)
    then have "k = dg_listSeq s" by (simp add: unless_aborted_def split: if_splits)
    then show ?thesis using list_loaded_ok [OF ok] Some Success by (simp add: on_list_def t Let_def)
  next
    case (Failure e)
    have "sel_ok (list_failed kind e ?s1) = sel_ok ?s1" by (rule sel_ok_core) (simp add: core_simps)
    then show ?thesis using Some Failure sel_ok_finished(1) [OF ok] by (simp add: on_list_def t Let_def)
  qed
qed (simp add: on_list_def)

lemma on_detail_ok: "sel_ok s \<Longrightarrow> sel_ok (on_detail now k r s)"
proof (cases "dg_detailTasks s k")
  case (Some t)
  assume ok: "sel_ok s"
  obtain dev f where t: "t = (dev, f)" by (cases t)
  let ?s1 = "s\<lparr>dg_detailTasks := (dg_detailTasks s)(k := None)\<rparr>"
  have "core (on_detail now k r s) = core ?s1"
    using Some by (simp add: on_detail_def t Let_def core_simps split: service_result.split)
  then show ?thesis using sel_ok_core sel_ok_finished(2) [OF ok] by blast
qed (simp add: on_detail_def)

lemma select_ok:
  assumes "list_wanted s"
  shows "sel_ok (syncEditConfigFromSelected g b (fetchSelectedDetail now (dg_selectedId s) f s))"
  using sel_ok_fetch [OF assms] sel_ok_core [OF core_sync(1)] by blast

lemma handle_ok:
  assumes "sel_ok s" shows "sel_ok (handle e s)"
proof (cases e)
  case (SelectDevice now i)
  let ?s = "s\<lparr>dg_selectedId := trim i, dg_hasAutoSelected := True, dg_query := (JStr (trim i), JStr (dg_activeTab s))\<rparr>"
  have "trim i \<noteq> [] \<Longrightarrow> list_wanted ?s"
    by (simp add: list_wanted_def route_device_def firstQueryValue_def if_nullish_def)
  then have "trim i \<noteq> [] \<Longrightarrow> sel_ok (syncEditConfigFromSelected SyncOnly False (fetchSelectedDetail now (trim i) DetailOnly ?s))"
    using select_ok [of ?s SyncOnly False now DetailOnly] by simp
  then show ?thesis using SelectDevice assms by (simp add: handle_def selectDevice_def Let_def)
next
  case (RouteChange now q)
  let ?q = "s\<lparr>dg_query := q\<rparr>"
  let ?r = "snd (applyRouteSelection ?q)"
  have lw: "list_wanted ?r"
    using assms by (auto simp: sel_ok_def list_wanted_def route_device_def route_fields route_selection)
  have "\<not> fst (applyRouteSelection ?q) \<Longrightarrow> detail_wanted ?r"
    using assms by (auto simp: sel_ok_def detail_wanted_def route_fields route_selection route_changed)
  then show ?thesis
    using RouteChange lw select_ok [OF lw]
    by (simp add: handle_def on_route_def case_prod_beta sel_ok_def)
next
  case (DeviceDeleted now)
  have "sel_ok (s\<lparr>dg_selectedId := []\<rparr>\<lparr>dg_listTasks := (dg_listTasks s)(dg_listSeq s := None)\<rparr>)"
    by (simp add: sel_ok_def detail_wanted_def list_wanted_def)
  then show ?thesis
    unfolding DeviceDeleted handle_def device_deleted_def page_event.case
    by (auto simp: sel_ok_def detail_wanted_def list_wanted_def fetchAll_def route_device_def)
next
  case (ViewsRefresh now)
  have "sel_ok (refreshSelectedDetailOnly now s)"
    using assms sel_ok_fetch [of s now DetailOnly] by (simp add: refreshSelectedDetailOnly_def sel_ok_def)
  then show ?thesis by (simp add: ViewsRefresh handle_def sel_ok_fetch_lists)
next
  case (DetailPoll now)
  then show ?thesis
    using assms sel_ok_fetch [of s now DetailOnly] by (simp add: handle_def refreshSelectedDetailOnly_def sel_ok_def)
next
  case Mount
  then show ?thesis
    using sel_ok_fetch_lists(1) [OF assms] sel_ok_core [of "setupSSE (fetchAll s)" "fetchAll s"]
    by (simp add: handle_def core_simps)
next
  case (OverviewFrame now d)
  have "core (handleOverviewEvent now d s) = core s"
    by (simp add: handleOverviewEvent_def Let_def core_simps split: list.split)
  then show ?thesis using sel_ok_keep [OF _ assms] OverviewFrame by (simp add: handle_def)
qed (auto simp: handle_def on_list_ok on_detail_ok sel_ok_fetch_lists core_simps assms intro: sel_ok_keep [OF _ assms])

lemma reach_sel_ok: "page_reach s \<Longrightarrow> sel_ok s"
proof (induction rule: page_reach.induct)
  case (page_start query)
  then show ?case by (simp add: sel_ok_def detail_wanted_def list_wanted_def initial_page_def)
next
  case (page_next s e)
  then show ?case
    using handle_ok [of s e] sel_ok_core [OF core_watchers] by (simp add: page_step_def)
qed

section \<open>What is put on display\<close>

definition for_selected :: "jstr \<Rightarrow> jsval \<Rightarrow> bool" where
  "for_selected sel d \<longleftrightarrow> trim sel = [] \<or> ident d = JStr sel \<or> ident d = JStr (trim sel)"

lemma ident_merge [simp]: "ident (mergeLiveRadioFields d r) = ident d"
  by (cases d) (simp_all add: mergeLiveRadioFields_def map_of_assoc_set)

lemma resolve_ident:
  "fst (resolveDetailForDisplay now x s) = Some d \<Longrightarrow> \<exists>x'. x = Some x' \<and> ident d = ident x'"
  by (auto simp: resolveDetailForDisplay_def Let_def split: option.splits if_splits)

lemma detail_show_detail: "dg_detail (show_detail now x s) = fst (resolveDetailForDisplay now x s)"
  by (simp add: show_detail_def case_prod_beta)

lemma detail_on_list: "dg_detail (on_list now k r s) = dg_detail s \<or> dg_detail (on_list now k r s) = None"
  by (simp add: on_list_def Let_def list_loaded_def detail_fetch detail_simps auto_drop_fields route_fields
      split: option.split list_kind.split service_result.split)

lemma selected_core: "core s = core t \<Longrightarrow> for_selected (dg_selectedId s) d = for_selected (dg_selectedId t) d"
  by (simp add: core_def)

lemma on_detail_display:
  assumes "sel_ok s" and "honest (DetailAnswer now k r) s" and "dg_detail (on_detail now k r s) = Some d"
    and "dg_detail s \<noteq> Some d"
  shows "for_selected (dg_selectedId (on_detail now k r s)) d"
proof -
  obtain dev f where t: "dg_detailTasks s k = Some (dev, f)"
    using assms(3,4) by (cases "dg_detailTasks s k") (auto simp: on_detail_def)
  have sel: "dg_selectedId (on_detail now k r s) = dg_selectedId s"
  proof -
    have "core (on_detail now k r s) = core (s\<lparr>dg_detailTasks := (dg_detailTasks s)(k := None)\<rparr>)"
      by (simp add: on_detail_def t Let_def core_simps split: service_result.split)
    then show ?thesis by (simp add: core_def)
  qed
  obtain x where x: "unless_aborted (dg_detailSeq s) k r = Success x"
    using assms(3,4) by (auto simp: on_detail_def t Let_def detail_simps split: service_result.splits)
  then have k: "k = dg_detailSeq s" "r = Success x" by (simp_all add: unless_aborted_def split: if_splits)
  let ?x = "if truthy x then Some x else None"
  have "fst (resolveDetailForDisplay now ?x (s\<lparr>dg_detailTasks := (dg_detailTasks s)(k := None)\<rparr>)) = Some d"
    using assms(3) by (simp add: on_detail_def t Let_def x detail_simps detail_show_detail)
  from resolve_ident [OF this] have "truthy x" "ident d = ident x" by (simp_all split: if_splits)
  moreover have "truthy x \<Longrightarrow> ident x = JStr dev"
    using assms(2) t by (simp add: honest_def k(2))
  ultimately have "ident d = JStr dev" by simp
  moreover have "trim (dg_selectedId s) = [] \<or> dev = trim (dg_selectedId s)"
    using assms(1) t k by (simp add: sel_ok_def detail_wanted_def)
  ultimately show ?thesis by (auto simp: for_selected_def sel)
qed

lemma overview_display:
  assumes "dg_detail (handleOverviewEvent now x s) = Some d" and "dg_detail s \<noteq> Some d"
  shows "for_selected (dg_selectedId (handleOverviewEvent now x s)) d"
proof -
  obtain found ds where f: "elems (jfield x ''devices'') = found # ds"
    using assms by (cases "elems (jfield x ''devices'')") (auto simp: handleOverviewEvent_def)
  have "core (handleOverviewEvent now x s) = core s"
    by (simp add: handleOverviewEvent_def Let_def core_simps split: list.split)
  then have sel: "dg_selectedId (handleOverviewEvent now x s) = dg_selectedId s" by (rule core_fields)
  have eq: "JStr (dg_selectedId s) = ident found"
    using assms by (auto simp: handleOverviewEvent_def Let_def f split: if_splits)
  then have "fst (resolveDetailForDisplay now (Some found) (s\<lparr>dg_devices := merge_device found (dg_devices s)\<rparr>)) = Some d"
    using assms(1) by (simp add: handleOverviewEvent_def Let_def f detail_simps detail_show_detail)
  from resolve_ident [OF this] show ?thesis by (simp add: for_selected_def sel eq)
qed

lemma timer_display:
  assumes "dg_detail (on_radio_timer now s) = Some d" and "dg_detail s \<noteq> Some d"
  shows "for_selected (dg_selectedId (on_radio_timer now s)) d"
  using assms
  by (auto simp: on_radio_timer_def Let_def detail_simps for_selected_def update_speed_def split: option.splits if_splits)

lemma handle_display:
  assumes "sel_ok s" and "honest e s" and "dg_detail (handle e s) = Some d" and "dg_detail s \<noteq> Some d"
  shows "for_selected (dg_selectedId (handle e s)) d"
proof (cases e)
  case (DetailAnswer now k r)
  then show ?thesis using assms on_detail_display by (simp add: handle_def)
next
  case (OverviewFrame now x)
  then show ?thesis using assms overview_display by (simp add: handle_def)
next
  case (RadioTimer now)
  then show ?thesis using assms timer_display by (simp add: handle_def)
next
  case (ListAnswer now k r)
  then show ?thesis using assms detail_on_list [of now k r s] by (simp add: handle_def)
next
  case (RouteChange now q)
  then show ?thesis using assms
    by (simp add: handle_def on_route_def case_prod_beta detail_simps detail_fetch route_fields split: if_splits)
qed (use assms in \<open>simp_all add: handle_def detail_simps detail_fetch refreshSelectedDetailOnly_def selectDevice_def
      device_deleted_def Let_def split: if_splits\<close>)

section \<open>Live radio values are young\<close>

definition radio_ok :: "device_page \<Rightarrow> bool" where
  "radio_ok s \<longleftrightarrow>
     (case lr_pending (dg_radio s) of
        None \<Rightarrow> lr_timer (dg_radio s) = None
      | Some p \<Rightarrow>
          (\<exists>e. lr_cache (dg_radio s) (ident p) = Some e \<and>
               lr_timer (dg_radio s) = Some (ident p, lv_capturedAt e + RADIO_LIVE_GRACE_MS) \<and>
               dg_detail s = Some (mergeLiveRadioFields p (lv_radio e))))"

definition radio_part where
  "radio_part s = (dg_radio s, dg_detail s)"

lemma radio_ok_keep: "radio_part s' = radio_part s \<Longrightarrow> radio_ok s \<Longrightarrow> radio_ok s'"
  by (auto simp: radio_part_def radio_ok_def split: option.splits)

lemma radio_ok_clear: "radio_ok (clearLiveRadioFallbackTimer s)" "radio_ok ((clearLiveRadioFallbackTimer s)\<lparr>dg_detail := d\<rparr>)"
  by (simp_all add: radio_ok_def clearLiveRadioFallbackTimer_def)

lemma radio_ok_show: "radio_ok (show_detail now x s)"
  by (auto simp: show_detail_def resolveDetailForDisplay_def scheduleLiveRadioFallback_def Let_def radio_ok_def
      clearLiveRadioFallbackTimer_def split: option.splits)

named_theorems radio_simps "operations that keep the radio state and the detail"

lemma radio_ops [radio_simps]:
  "radio_part (update_speed now s) = radio_part s"
  "radio_part (resetDeviceTrafficAnalysis s) = radio_part s"
  "radio_part (no_config s) = radio_part s"
  "radio_part (after_sync f s) = radio_part s"
  "radio_part (setupSSE s) = radio_part s"
  "radio_part (fetchDeviceTrafficAnalysis i s) = radio_part s"
  "radio_part (refreshCurrentDeviceTrafficAnalysis s) = radio_part s"
  "radio_part (syncEditConfigFromSelected f b s) = radio_part s"
  "radio_part (after_detail g s) = radio_part s"
  "radio_part (fetchAll s) = radio_part s"
  "radio_part (refreshListOnly s) = radio_part s"
  "radio_part (auto_select kd s) = radio_part s"
  "radio_part (drop_selection s) = radio_part s"
  "radio_part (snd (applyRouteSelection s)) = radio_part s"
  by (simp_all add: radio_part_def update_speed_def resetDeviceTrafficAnalysis_def no_config_def after_sync_def
      setupSSE_def fetchDeviceTrafficAnalysis_def refreshCurrentDeviceTrafficAnalysis_def
      syncEditConfigFromSelected_def after_detail_def fetchAll_def refreshListOnly_def auto_select_def
      drop_selection_def applyRouteSelection_def Let_def
      split: sync_follow.split detail_follow.split list.split)

end
