(* ===== verification/DevicesView.thy ===== *)
theory DevicesView
  imports DevicesPage
begin

text \<open>
  What holds of the device page in every reachable state: live radio values on display are young, the
  traffic analysis is the one asked for last, and what is shown belongs to the selection; and the
  runs in which the page does not do what it means to.
\<close>

section \<open>The radio state over every step\<close>

lemma radio_ok_part: "radio_part s' = radio_part s \<Longrightarrow> radio_ok s' = radio_ok s"
  using radio_ok_keep [of s' s] radio_ok_keep [of s s'] by auto

lemma radio_ok_fetch: "radio_ok s \<Longrightarrow> radio_ok (fetchSelectedDetail now i f s)"
proof (cases "trim i = []")
  case True
  let ?c = "(clearLiveRadioFallbackTimer s)\<lparr>dg_detail := None\<rparr>"
  have "radio_part (after_detail f (update_speed now ?c)) = radio_part ?c" by (simp add: radio_simps)
  from radio_ok_part [OF this] show ?thesis using True by (simp add: fetchSelectedDetail_def Let_def radio_ok_clear)
next
  case False
  then have "radio_part (fetchSelectedDetail now i f s) = radio_part s"
    by (simp add: fetchSelectedDetail_def Let_def radio_part_def)
  then show "radio_ok s \<Longrightarrow> ?thesis" by (rule radio_ok_keep)
qed

lemma radio_ok_fields [simp]:
  "radio_ok (s\<lparr>dg_loading := b\<rparr>) = radio_ok s"
  "radio_ok (s\<lparr>dg_devices := ds\<rparr>) = radio_ok s"
  "radio_ok (s\<lparr>dg_lastOkAt := l\<rparr>) = radio_ok s"
  "radio_ok (s\<lparr>dg_selectedId := i\<rparr>) = radio_ok s"
  "radio_ok (s\<lparr>dg_hasAutoSelected := h\<rparr>) = radio_ok s"
  "radio_ok (s\<lparr>dg_query := q\<rparr>) = radio_ok s"
  "radio_ok (s\<lparr>dg_activeTab := t\<rparr>) = radio_ok s"
  "radio_ok (s\<lparr>dg_listTasks := lt\<rparr>) = radio_ok s"
  "radio_ok (s\<lparr>dg_detailTasks := dt\<rparr>) = radio_ok s"
  "radio_ok (s\<lparr>dg_configTasks := ct\<rparr>) = radio_ok s"
  "radio_ok (s\<lparr>dg_analysis := a\<rparr>) = radio_ok s"
  "radio_ok (s\<lparr>dg_traffic := tr\<rparr>) = radio_ok s"
  "radio_ok (s\<lparr>dg_edit := ed\<rparr>) = radio_ok s"
  by (rule radio_ok_part, simp add: radio_part_def)+

lemma radio_ok_ops [simp]:
  "radio_ok (update_speed now s) = radio_ok s"
  "radio_ok (resetDeviceTrafficAnalysis s) = radio_ok s"
  "radio_ok (no_config s) = radio_ok s"
  "radio_ok (after_sync f s) = radio_ok s"
  "radio_ok (setupSSE s) = radio_ok s"
  "radio_ok (fetchDeviceTrafficAnalysis i s) = radio_ok s"
  "radio_ok (refreshCurrentDeviceTrafficAnalysis s) = radio_ok s"
  "radio_ok (syncEditConfigFromSelected f b s) = radio_ok s"
  "radio_ok (after_detail g s) = radio_ok s"
  "radio_ok (fetchAll s) = radio_ok s"
  "radio_ok (refreshListOnly s) = radio_ok s"
  "radio_ok (auto_select kd s) = radio_ok s"
  "radio_ok (drop_selection s) = radio_ok s"
  "radio_ok (snd (applyRouteSelection s)) = radio_ok s"
  by (rule radio_ok_part, simp add: radio_simps)+

lemma radio_ok_list: "radio_ok s \<Longrightarrow> radio_ok (on_list now k r s)"
proof -
  assume ok: "radio_ok s"
  have "radio_ok (list_failed kind e t) = radio_ok t" for kind e t
    by (rule radio_ok_part) (simp add: list_failed_def Let_def radio_part_def split: list_kind.split)
  then show ?thesis
    using ok by (simp add: on_list_def Let_def list_loaded_def radio_ok_fetch
        split: option.split list_kind.split service_result.split)
qed

lemma radio_ok_timer: "radio_ok s \<Longrightarrow> radio_ok (on_radio_timer now s)"
  by (auto simp: on_radio_timer_def Let_def split: option.split) (simp_all add: radio_ok_def)

lemma radio_ok_handle:
  assumes "radio_ok s" shows "radio_ok (handle e s)"
proof (cases e)
  case (DetailAnswer now k r)
  then show ?thesis
    using assms by (simp add: handle_def on_detail_def Let_def radio_ok_show split: option.split service_result.split)
next
  case (OverviewFrame now d)
  then show ?thesis
    using assms by (simp add: handle_def handleOverviewEvent_def Let_def radio_ok_show split: list.split)
next
  case (RouteChange now q)
  then show ?thesis
    using assms by (simp add: handle_def on_route_def case_prod_beta radio_ok_fetch)
next
  case (SelectDevice now i)
  then show ?thesis
    using assms by (simp add: handle_def selectDevice_def Let_def radio_ok_fetch)
next
  case (DeviceDeleted now)
  then show ?thesis by (simp add: handle_def device_deleted_def radio_ok_clear)
next
  case (ConfigAnswer k r)
  then show ?thesis
    using assms by (simp add: handle_def on_config_def Let_def split: option.split service_result.split)
next
  case (AnalysisAnswer now c r)
  then show ?thesis
    using assms by (simp add: handle_def on_analysis_def Let_def split: service_result.split)
qed (use assms in \<open>simp_all add: handle_def radio_ok_list radio_ok_timer radio_ok_fetch refreshSelectedDetailOnly_def
      on_traffic_frame_def analysis_poll_def handleDeviceTrafficRangeChange_def on_edit_def Let_def split: option.split\<close>)

lemma radio_ok_watchers: "radio_ok s \<Longrightarrow> radio_ok (watchers s0 s)"
  by (simp add: watchers_def watch_tab_def watch_connected_def watch_detail_id_def watch_selected_def Let_def radio_ok_clear)

lemma reach_radio_ok: "page_reach s \<Longrightarrow> radio_ok s"
proof (induction rule: page_reach.induct)
  case (page_start query)
  then show ?case by (simp add: radio_ok_def initial_page_def)
qed (simp add: page_step_def radio_ok_handle radio_ok_watchers)

section \<open>The analysis over every step\<close>

definition analysis_ok :: "jsval \<Rightarrow> analysis_view \<Rightarrow> bool" where
  "analysis_ok i a \<longleftrightarrow>
     an_loading a = (an_abort a \<noteq> None) \<and>
     (\<forall>c. an_abort a = Some c \<longrightarrow>
        (\<exists>dev. an_sent a c = Some (an_range a, dev) \<and> Suc c = an_next a \<and>
               (truthy i \<longrightarrow> dev = trim (text_or_empty i))))"

lemma analysis_reset: "analysis_ok i (dg_analysis (resetDeviceTrafficAnalysis s))"
  by (simp add: analysis_ok_def resetDeviceTrafficAnalysis_def)

lemma analysis_fetch: "analysis_ok i (dg_analysis (fetchDeviceTrafficAnalysis i s))"
  by (simp add: fetchDeviceTrafficAnalysis_def Let_def analysis_reset) (simp add: analysis_ok_def)

lemma text_or_else: "text_or_empty (or_else v (JStr [])) = text_or_empty v"
  by (cases "truthy v") (simp_all add: text_or_empty_def)

lemma truthy_or_else: "truthy (or_else v (JStr [])) = truthy v"
  by (cases "truthy v") simp_all

lemma analysis_fetch_detail: "analysis_ok (detail_id s) (dg_analysis (fetchDeviceTrafficAnalysis (ident (detail_value s)) s))"
  using analysis_fetch [of "ident (detail_value s)" s]
  by (simp add: analysis_ok_def detail_id_def text_or_else truthy_or_else)

lemma analysis_current: "analysis_ok (detail_id s) (dg_analysis (refreshCurrentDeviceTrafficAnalysis s))"
  by (simp add: refreshCurrentDeviceTrafficAnalysis_def analysis_reset analysis_fetch_detail)

lemma detail_id_cong: "dg_detail s = dg_detail t \<Longrightarrow> detail_id s = detail_id t"
  by (simp add: detail_id_def detail_value_def)

named_theorems analysis_simps "operations that keep the analysis"

lemma analysis_ops [analysis_simps]:
  "dg_analysis (clearLiveRadioFallbackTimer s) = dg_analysis s"
  "dg_analysis (update_speed now s) = dg_analysis s"
  "dg_analysis (no_config s) = dg_analysis s"
  "dg_analysis (after_sync f s) = dg_analysis s"
  "dg_analysis (setupSSE s) = dg_analysis s"
  "dg_analysis (scheduleLiveRadioFallback now d r s) = dg_analysis s"
  "dg_analysis (syncEditConfigFromSelected f b s) = dg_analysis s"
  "dg_analysis (after_detail g s) = dg_analysis s"
  "dg_analysis (fetchAll s) = dg_analysis s"
  "dg_analysis (refreshListOnly s) = dg_analysis s"
  "dg_analysis (auto_select kd s) = dg_analysis s"
  "dg_analysis (drop_selection s) = dg_analysis s"
  "dg_analysis (snd (applyRouteSelection s)) = dg_analysis s"
  "dg_analysis (on_edit v s) = dg_analysis s"
  "dg_analysis (on_traffic_frame now d s) = dg_analysis s"
  "dg_analysis (list_failed kind er s) = dg_analysis s"
  by (simp_all add: clearLiveRadioFallbackTimer_def update_speed_def no_config_def after_sync_def setupSSE_def
      scheduleLiveRadioFallback_def syncEditConfigFromSelected_def after_detail_def fetchAll_def refreshListOnly_def
      auto_select_def drop_selection_def applyRouteSelection_def on_edit_def on_traffic_frame_def list_failed_def Let_def
      split: sync_follow.split detail_follow.split list.split option.split list_kind.split)

lemma analysis_show [analysis_simps]:
  "dg_analysis (show_detail now x s) = dg_analysis s"
  "dg_analysis (fetchSelectedDetail now i f s) = dg_analysis s"
  by (simp_all add: show_detail_def resolveDetailForDisplay_def fetchSelectedDetail_def Let_def analysis_simps
      split: option.split)

lemma analysis_handlers [analysis_simps]:
  "dg_analysis (on_detail now k r s) = dg_analysis s"
  "dg_analysis (on_list now l rl s) = dg_analysis s"
  "dg_analysis (on_config c rc s) = dg_analysis s"
  "dg_analysis (on_radio_timer now s) = dg_analysis s"
  "dg_analysis (handleOverviewEvent now d s) = dg_analysis s"
  "dg_analysis (selectDevice now i s) = dg_analysis s"
  "dg_analysis (on_route now q s) = dg_analysis s"
  "dg_analysis (refreshSelectedDetailOnly now s) = dg_analysis s"
  by (simp_all add: on_detail_def on_list_def list_loaded_def on_config_def on_radio_timer_def handleOverviewEvent_def
      selectDevice_def on_route_def refreshSelectedDetailOnly_def Let_def case_prod_beta analysis_simps
      split: option.split service_result.split list.split list_kind.split)

lemma analysis_handle:
  assumes "analysis_ok (detail_id s) (dg_analysis s)"
  shows "analysis_ok (detail_id s) (dg_analysis (handle e s))"
proof (cases e)
  case (AnalysisAnswer now c r)
  then show ?thesis
    using assms by (simp add: handle_def on_analysis_def Let_def split: service_result.split)
      (simp add: analysis_ok_def)
next
  case (RangeChange g)
  have "detail_id (s\<lparr>dg_analysis := (dg_analysis s)\<lparr>an_range := g\<rparr>\<rparr>) = detail_id s"
    by (rule detail_id_cong) simp
  then show ?thesis
    using RangeChange assms analysis_current [of "s\<lparr>dg_analysis := (dg_analysis s)\<lparr>an_range := g\<rparr>\<rparr>"]
    by (simp add: handle_def handleDeviceTrafficRangeChange_def)
next
  case AnalysisPoll
  then show ?thesis using assms by (simp add: handle_def analysis_poll_def analysis_fetch_detail)
next
  case (DeviceDeleted now)
  then show ?thesis by (simp add: handle_def device_deleted_def analysis_simps analysis_reset)
qed (use assms in \<open>simp_all add: handle_def analysis_simps\<close>)

lemma analysis_watch_selected:
  "analysis_ok i (dg_analysis s) \<Longrightarrow> analysis_ok i (dg_analysis (watch_selected p s))"
  by (simp add: watch_selected_def analysis_simps analysis_reset)

lemma analysis_watch_id:
  assumes "analysis_ok i (dg_analysis s)"
  shows "analysis_ok (detail_id s) (dg_analysis (watch_detail_id i s))"
  using assms analysis_fetch [of "detail_id s" s]
  by (simp add: watch_detail_id_def) (auto simp: analysis_ok_def)

lemma analysis_watch_connected:
  "analysis_ok (detail_id s) (dg_analysis s) \<Longrightarrow> analysis_ok (detail_id s) (dg_analysis (watch_connected p s))"
  by (simp add: watch_connected_def Let_def analysis_reset analysis_fetch_detail)

lemma analysis_watch_tab:
  "analysis_ok (detail_id s) (dg_analysis s) \<Longrightarrow> analysis_ok (detail_id s) (dg_analysis (watch_tab p s))"
  by (simp add: watch_tab_def analysis_current)

lemma watch_details:
  "detail_id (watch_selected p s) = detail_id s"
  "detail_id (watch_detail_id q s) = detail_id s"
  "detail_id (watch_connected q s) = detail_id s"
  "detail_id (watch_tab p s) = detail_id s"
  by (rule detail_id_cong,
      simp add: watch_selected_def watch_detail_id_def watch_connected_def watch_tab_def Let_def detail_simps)+

lemma analysis_watchers:
  assumes "analysis_ok (detail_id s0) (dg_analysis s)"
  shows "analysis_ok (detail_id (watchers s0 s)) (dg_analysis (watchers s0 s))"
proof -
  let ?s1 = "watch_selected (dg_selectedId s0) s"
  let ?s2 = "watch_detail_id (detail_id s0) ?s1"
  let ?s3 = "watch_connected (jfield (detail_value s0) ''network_connected'') ?s2"
  have "analysis_ok (detail_id s0) (dg_analysis ?s1)" by (rule analysis_watch_selected [OF assms])
  then have "analysis_ok (detail_id ?s2) (dg_analysis ?s2)"
    using analysis_watch_id [of "detail_id s0" ?s1] by (simp add: watch_details)
  then have "analysis_ok (detail_id ?s3) (dg_analysis ?s3)"
    using analysis_watch_connected [of ?s2 "jfield (detail_value s0) ''network_connected''"] by (simp add: watch_details)
  then show ?thesis
    using analysis_watch_tab [of ?s3 "dg_activeTab s0"] by (simp add: watchers_def watch_details)
qed

lemma reach_analysis_ok: "page_reach s \<Longrightarrow> analysis_ok (detail_id s) (dg_analysis s)"
proof (induction rule: page_reach.induct)
  case (page_start query)
  then show ?case by (simp add: analysis_ok_def initial_page_def)
qed (simp add: page_step_def analysis_watchers analysis_handle)

section \<open>Runs\<close>

definition plain_event :: "page_event \<Rightarrow> bool" where
  "plain_event e = (case e of DetailAnswer now k r \<Rightarrow> False | _ \<Rightarrow> True)"

lemma reach_plain: "page_reach s \<Longrightarrow> list_all plain_event es \<Longrightarrow> page_reach (fold page_step es s)"
proof (induction es arbitrary: s)
  case (Cons e es)
  have "honest e s" using Cons.prems(2) by (cases e) (simp_all add: plain_event_def honest_def)
  then have "page_reach (page_step e s)" using Cons.prems(1) by (rule page_next [rotated])
  then show ?case using Cons by simp
qed simp

lemma watchers_radio: "dg_selectedId s = dg_selectedId s0 \<Longrightarrow> radio_part (watchers s0 s) = radio_part s"
  by (simp add: watchers_def watch_tab_def watch_connected_def watch_detail_id_def watch_selected_def Let_def radio_simps)

definition device_numbered :: "nat \<Rightarrow> (jstr \<times> jsval) list \<Rightarrow> jsval" where
  "device_numbered n extra = JObj ((js ''id'', JStr [n]) # extra)"

text \<open>A device comes into view with live values; a second later they are missing.\<close>

definition radio_run :: "page_event list" where
  "radio_run =
     [SelectDevice 0 [65],
      OverviewFrame 1000 (JObj [(js ''devices'', JArr [device_numbered 65
        [(js ''radio_live_ok'', JBool True), (js ''modem'', JObj [(js ''operator'', JStr [79])])]])]),
      OverviewFrame 2000 (JObj [(js ''devices'', JArr [device_numbered 65 [(js ''radio_live_ok'', JBool False)]])])]"

section \<open>Properties\<close>



text \<open>The analysis on its way is the one wanted: in every reachable state the page says it is loading
  exactly while one request counts, which is the newest one, for the range now chosen and for the device
  on display; an answer to any other request changes nothing.\<close>

lemma analysis_latest:
  assumes "page_reach s"
  shows "an_loading (dg_analysis s) = (an_abort (dg_analysis s) \<noteq> None) \<and>
     (case an_abort (dg_analysis s) of
        None \<Rightarrow> page_step (AnalysisAnswer now c r) s = s
      | Some c' \<Rightarrow>
          (\<exists>dev. an_sent (dg_analysis s) c' = Some (an_range (dg_analysis s), dev) \<and>
                 Suc c' = an_next (dg_analysis s) \<and>
                 (if truthy (ident (detail_value s)) then dev = trim (text_or_empty (ident (detail_value s))) else True)) \<and>
          (if c = c' then True else page_step (AnalysisAnswer now c r) s = s))"
proof -
  have "analysis_ok (detail_id s) (dg_analysis s)" by (rule reach_analysis_ok [OF assms])
  moreover have "an_abort (dg_analysis s) \<noteq> Some c \<Longrightarrow> page_step (AnalysisAnswer now c r) s = s"
    by (simp add: page_step_def handle_def on_analysis_def)
  ultimately show ?thesis
    by (auto simp: analysis_ok_def detail_id_def text_or_else truthy_or_else split: option.split)
qed

definition connected_device :: "nat \<Rightarrow> jsval" where
  "connected_device n = device_numbered n [(js ''network_connected'', JBool True)]"

definition analysis_run :: "page_event list" where
  "analysis_run =
     [SelectDevice 0 [65],
      OverviewFrame 1000 (JObj [(js ''devices'', JArr [connected_device 65])]),
      RangeChange [119]]"

lemma analysis_latest_example:
  "an_abort (dg_analysis (fold page_step analysis_run (initial_page (JUndef, JUndef)))) = Some 1 \<and>
   page_step (AnalysisAnswer 5 0 (Success createEmptyTrafficAnalysis))
     (fold page_step analysis_run (initial_page (JUndef, JUndef))) =
     fold page_step analysis_run (initial_page (JUndef, JUndef))"
proof -
  let ?s = "fold page_step analysis_run (initial_page (JUndef, JUndef))"
  have "page_reach ?s"
    by (rule reach_plain [OF page_start]) (simp add: analysis_run_def plain_event_def)
  note latest = analysis_latest [OF this, of 5 0 "Success createEmptyTrafficAnalysis"]
  have "an_abort (dg_analysis ?s) = Some 1" by code_simp
  with latest show ?thesis by simp
qed

text \<open>C19. What comes into view belongs to the selection: whenever a step of a reachable page puts a new
  detail on display, it is the detail of the device selected then (or nothing is selected).\<close>

theorem detail_of_selection:
  assumes "page_reach s" and "honest e s"
    and "dg_detail (page_step e s) = Some d" and "dg_detail s \<noteq> Some d"
  shows "ident d = JStr (dg_selectedId (page_step e s)) \<or>
     ident d = JStr (trim (dg_selectedId (page_step e s))) \<or> trim (dg_selectedId (page_step e s)) = []"
proof -
  have "dg_detail (handle e s) = Some d" using assms(3) by (simp add: page_step_def detail_simps)
  then have "for_selected (dg_selectedId (handle e s)) d"
    using handle_display [OF reach_sel_ok] assms(1,2,4) by blast
  moreover have "dg_selectedId (page_step e s) = dg_selectedId (handle e s)"
    unfolding page_step_def by (rule core_fields) (simp add: core_simps)
  ultimately show ?thesis by (auto simp: for_selected_def)
qed

theorem detail_of_selection_witness:
  "let s = page_step (SelectDevice 1 [66]) (page_step (SelectDevice 0 [65]) (initial_page (JUndef, JUndef)));
       s' = page_step (DetailAnswer 9 2 (Success (device_numbered 66 []))) s
   in dg_detail s' = Some (device_numbered 66 []) \<and> dg_selectedId s' = [66]"
proof -
  let ?s = "fold page_step [SelectDevice 0 [65], SelectDevice 1 [66]] (initial_page (JUndef, JUndef))"
  let ?e = "DetailAnswer 9 2 (Success (device_numbered 66 []))"
  have "page_reach ?s"
    by (rule reach_plain [OF page_start]) (simp add: plain_event_def)
  moreover have "honest ?e ?s" by code_simp
  moreover have d: "dg_detail (page_step ?e ?s) = Some (device_numbered 66 [])" by code_simp
  moreover have "dg_detail ?s \<noteq> Some (device_numbered 66 [])" by code_simp
  ultimately have "ident (device_numbered 66 []) = JStr (dg_selectedId (page_step ?e ?s)) \<or>
      ident (device_numbered 66 []) = JStr (trim (dg_selectedId (page_step ?e ?s))) \<or>
      trim (dg_selectedId (page_step ?e ?s)) = []"
    by (rule detail_of_selection)
  moreover have "dg_selectedId (page_step ?e ?s) = [66]" by code_simp
  ultimately show ?thesis using d by (simp add: Let_def)
qed

section \<open>Runs that go wrong\<close>

text \<open>A device is deleted while the address bar still names it: the reload selects it again.\<close>

lemma deleted_device_selected_again:
  "let s = fold page_step
       [Mount, ListAnswer 1 1 (Success [device_numbered 65 [], device_numbered 66 []]), SelectDevice 2 [66],
        DeviceDeleted 3, ListAnswer 4 2 (Success [device_numbered 65 []])]
       (initial_page (JUndef, JUndef))
   in dg_selectedId s = [66] \<and> list_all (\<lambda>d. ident d \<noteq> JStr [66]) (dg_devices s)"
  by code_simp

text \<open>
  Two devices are selected in a row and the configuration of the first arrives last: the form shows it
  under the second device, and saving sends it there.
\<close>

lemma config_of_other_device:
  "save_request (fold page_step
       [SelectDevice 0 [65], SelectDevice 1 [66],
        ConfigAnswer 2 (Success (device_numbered 66 [(js ''device_backend'', jlit ''at'')])),
        ConfigAnswer 1 (Success (device_numbered 65 [(js ''device_backend'', jlit ''at'')]))]
       (initial_page (JUndef, JUndef))) =
     Some ([66], device_numbered 65 [(js ''device_backend'', jlit ''at'')])"
  by code_simp

text \<open>The detail of the device selected before stays in view when that of the new one cannot be loaded.\<close>

lemma stale_detail_on_failure:
  "let s = fold page_step
       [SelectDevice 0 [65], DetailAnswer 1 1 (Success (device_numbered 65 [])), SelectDevice 2 [66],
        DetailAnswer 3 2 (Failure canceled)]
       (initial_page (JUndef, JUndef))
   in dg_selectedId s = [66] \<and> dg_detail s = Some (device_numbered 65 [])"
  by code_simp

text \<open>
  The test for a canceled request never succeeds, because the error is thrown anew without its code: a
  reload overtaken by a refresh is reported to the user as an error.
\<close>

lemma cancellation_not_recognised:
  "ae_code (rethrown e) = None"
  by (simp add: rethrown_def plain_error_def)

lemma canceled_reload_shown:
  "map_option ae_message (dg_error (fold page_step
       [Mount, ViewsRefresh 1, ListAnswer 2 1 (Success [])] (initial_page (JUndef, JUndef)))) = Some (js ''canceled'')"
  by code_simp

end
