(* ===== verification/LineReader.thy ===== *)
theory LineReader
  imports EventStream
begin

text \<open>
  A reader of lines from a chunked text that may stop in the middle: the loop of
  \<open>components/DeviceEsimTab.vue\<close> that follows a download. Unlike the event stream client it
  ends for good at the first line that says so. The state and what a line does to it are parameters.
\<close>

section \<open>The loop\<close>

text \<open>What a line does: the new state, and whether reading stops there.\<close>

type_synonym 's line_step = "'s \<Rightarrow> jstr \<Rightarrow> 's \<times> bool"

function line_loop :: "'s line_step \<Rightarrow> 's \<Rightarrow> jstr \<Rightarrow> ('s \<times> bool) \<times> jstr" where
  "line_loop step s buffer =
     (if nl \<notin> set buffer then ((s, False), buffer)
      else
        let line = chomp (takeWhile (\<lambda>c. c \<noteq> nl) buffer); rest = tl (dropWhile (\<lambda>c. c \<noteq> nl) buffer)
        in case step s line of
             (s', True) \<Rightarrow> ((s', True), rest)
           | (s', False) \<Rightarrow> line_loop step s' rest)"
  by pat_completeness auto

termination line_loop
  by (relation "measure (\<lambda>(step, s, b). length b)") (auto simp: drain_rest_shorter)

declare line_loop.simps [simp del]

fun read_chunks :: "'s line_step \<Rightarrow> 's \<Rightarrow> jstr \<Rightarrow> jstr list \<Rightarrow> ('s \<times> bool) \<times> jstr" where
  "read_chunks step s buffer [] = ((s, False), buffer)"
| "read_chunks step s buffer (c # cs) =
     (case line_loop step s (buffer @ c) of
        ((s', True), rest) \<Rightarrow> ((s', True), rest)
      | ((s', False), rest) \<Rightarrow> read_chunks step s' rest cs)"

section \<open>Reference: line by line\<close>

fun until_stop :: "'s line_step \<Rightarrow> 's \<Rightarrow> jstr list \<Rightarrow> 's \<times> bool" where
  "until_stop step s [] = (s, False)"
| "until_stop step s (l # ls) =
     (case step s (chomp l) of (s', True) \<Rightarrow> (s', True) | (s', False) \<Rightarrow> until_stop step s' ls)"

lemma until_stop_append:
  "until_stop step s (ls @ ms) =
     (case until_stop step s ls of (s', True) \<Rightarrow> (s', True) | (s', False) \<Rightarrow> until_stop step s' ms)"
  by (induction ls arbitrary: s) (auto split: prod.split bool.split)

definition complete_lines :: "jstr \<Rightarrow> jstr list" where
  "complete_lines t = butlast (split_on nl t)"

lemma line_loop_eq:
  "fst (line_loop step s buffer) = until_stop step s (complete_lines buffer) \<and>
   (\<not> snd (fst (line_loop step s buffer)) \<longrightarrow> snd (line_loop step s buffer) = last (split_on nl buffer))"
proof (induction step s buffer rule: line_loop.induct)
  case (1 step s buffer)
  show ?case
  proof (cases "nl \<in> set buffer")
    case False
    then show ?thesis
      by (simp add: line_loop.simps [of step s buffer] complete_lines_def split_on_free)
  next
    case True
    obtain s' stop where st: "step s (chomp (takeWhile (\<lambda>c. c \<noteq> nl) buffer)) = (s', stop)" by fastforce
    show ?thesis
    proof (cases stop)
      case True
      then show ?thesis
        using \<open>nl \<in> set buffer\<close> st
        by (simp add: line_loop.simps [of step s buffer] complete_lines_def split_on_first)
    next
      case False
      have IH: "fst (line_loop step s' (tl (dropWhile (\<lambda>c. c \<noteq> nl) buffer))) =
          until_stop step s' (complete_lines (tl (dropWhile (\<lambda>c. c \<noteq> nl) buffer))) \<and>
        (\<not> snd (fst (line_loop step s' (tl (dropWhile (\<lambda>c. c \<noteq> nl) buffer)))) \<longrightarrow>
           snd (line_loop step s' (tl (dropWhile (\<lambda>c. c \<noteq> nl) buffer))) =
           last (split_on nl (tl (dropWhile (\<lambda>c. c \<noteq> nl) buffer))))"
        using "1.IH" [OF _ refl refl st [symmetric]] True False by simp
      then show ?thesis
        using True st False
        by (simp add: line_loop.simps [of step s buffer] complete_lines_def split_on_first)
    qed
  qed
qed

text \<open>However the text is cut into chunks, the state is that of reading its complete lines in order.\<close>

lemma read_chunks_eq:
  "fst (read_chunks step s buffer cs) =
     (if cs = [] then (s, False) else until_stop step s (complete_lines (buffer @ concat cs)))"
proof (induction cs arbitrary: s buffer)
  case (Cons c cs)
  let ?b = "buffer @ c"
  obtain s' stop rest where l: "line_loop step s ?b = ((s', stop), rest)" by (metis prod.collapse)
  have u: "until_stop step s (complete_lines ?b) = (s', stop)"
    using line_loop_eq [of step s ?b] l by simp
  have cl: "complete_lines (?b @ t) = complete_lines ?b @ complete_lines (last (split_on nl ?b) @ t)" for t
    by (simp only: complete_lines_def split_on_append [of nl ?b t] butlast_append split_on_nonempty if_False)
  show ?case
  proof (cases stop)
    case True
    then show ?thesis
      using l u cl [of "concat cs"] by (simp add: until_stop_append)
  next
    case False
    then have rest: "rest = last (split_on nl ?b)" using line_loop_eq [of step s ?b] l by simp
    have free: "complete_lines rest = []"
    proof -
      have "nl \<notin> set (last (split_on nl t))" for t
        by (induction t) (auto split: list.splits if_splits)
      then show ?thesis by (simp add: rest complete_lines_def split_on_free)
    qed
    show ?thesis
      using l u False cl [of "concat cs"] rest Cons.IH [of s' rest] free
      by (auto simp: until_stop_append)
  qed
qed simp

end
