(* ===== verification/EsimTab.thy ===== *)
theory EsimTab
  imports Esim LineReader Notices Storage
begin

text \<open>
  The eSIM tab of a device (\<open>components/DeviceEsimTab.vue\<close>): overview and profile requests,
  the activation code field, renaming, deleting, notifications, and the download of a profile whose
  progress the server streams. Requests are numbered tasks; an event is one handler up to its next
  \<open>await\<close>. \<open>JSON.parse\<close> is the parameter \<open>parse\<close>.
\<close>

section \<open>The state\<close>

record download_form =
  df_smdp :: jstr
  df_matchingId :: jstr
  df_confirmationCode :: jstr
  df_aidHex :: jstr
  df_imei :: jstr

datatype overview_follow = OverviewOnly | EndDownload | EndDelete

record esim_tab =
  et_deviceId :: jstr
  et_active :: bool
  et_deviceImei :: jstr
  et_loading :: bool
  et_profilesRefreshing :: bool
  et_chip :: jsval
  et_profiles :: "esim_group list"
  et_switching :: "jstr option"
  et_deleting :: "jstr option"
  et_renaming :: "jstr option"
  et_renameValue :: jstr
  et_expandedPolicy :: "jstr option"
  et_notifications :: "jsval list"
  et_notificationsLoading :: bool
  et_dialogOpen :: bool
  et_retrying :: "jnum option"
  et_form :: download_form
  et_lastImeiDefault :: jstr
  et_requestId :: nat
  et_aborted :: bool
  et_tasks :: "nat \<Rightarrow> (bool \<times> jstr \<times> overview_follow) option"
  et_downloading :: bool
  et_progress :: jsval
  et_msg :: jsval
  et_error :: jsval
  et_session :: nat
  et_target :: jstr
  et_targetImei :: jstr
  et_buffer :: jstr
  et_reading :: bool
  et_delta :: "(jstr \<times> jstr) option"
  et_deltaTimer :: bool
  et_notices :: "(notice_kind \<times> jstr) list"

definition initial_tab :: "jstr \<Rightarrow> bool \<Rightarrow> jstr \<Rightarrow> esim_tab" where
  "initial_tab dev active imei = \<lparr>
     et_deviceId = dev, et_active = active, et_deviceImei = imei, et_loading = False,
     et_profilesRefreshing = False, et_chip = JNull, et_profiles = [], et_switching = None, et_deleting = None,
     et_renaming = None, et_renameValue = [], et_expandedPolicy = None, et_notifications = [],
     et_notificationsLoading = False, et_dialogOpen = False, et_retrying = None,
     et_form = \<lparr>df_smdp = [], df_matchingId = [], df_confirmationCode = [], df_aidHex = [], df_imei = []\<rparr>,
     et_lastImeiDefault = [], et_requestId = 0, et_aborted = False, et_tasks = Map.empty,
     et_downloading = False, et_progress = jint 0, et_msg = JStr [], et_error = JStr [], et_session = 0,
     et_target = [], et_targetImei = [], et_buffer = [], et_reading = False, et_delta = None,
     et_deltaTimer = False, et_notices = []\<rparr>"

definition notify :: "notice_kind \<Rightarrow> jstr \<Rightarrow> esim_tab \<Rightarrow> esim_tab" where
  "notify kind message s = s\<lparr>et_notices := et_notices s @ [(kind, message)]\<rparr>"

definition togglePolicyPanel :: "jstr \<Rightarrow> esim_tab \<Rightarrow> esim_tab" where
  "togglePolicyPanel iccid s =
     s\<lparr>et_expandedPolicy := (if et_expandedPolicy s = Some iccid then None else Some iccid)\<rparr>"

section \<open>The download form\<close>

definition applyDeviceImeiDefault :: "bool \<Rightarrow> esim_tab \<Rightarrow> esim_tab" where
  "applyDeviceImeiDefault force s =
     (let d = trim (et_deviceImei s);
          s1 = (if force \<or> df_imei (et_form s) = [] \<or> df_imei (et_form s) = et_lastImeiDefault s
                then s\<lparr>et_form := (et_form s)\<lparr>df_imei := d\<rparr>\<rparr> else s)
      in s1\<lparr>et_lastImeiDefault := d\<rparr>)"

definition http_prefix :: jstr where "http_prefix = js ''http://''"
definition https_prefix :: jstr where "https_prefix = js ''https://''"

text \<open>
  The watcher of the address field, run again while it changes the field itself; the second result
  is how often it reported a parsed activation code.
\<close>

function watch_smdp :: "download_form \<Rightarrow> nat \<Rightarrow> download_form \<times> nat" where
  "watch_smdp f n =
     (let v = df_smdp f in
      if v = [] then (f, n)
      else if starts_with v (js ''LPA:'') then
        (case split_on 36 v of
           p0 # p1 # p2 # ps \<Rightarrow> watch_smdp (f\<lparr>df_smdp := p1, df_matchingId := p2\<rparr>) (Suc n)
         | _ \<Rightarrow> (f, n))
      else if starts_with v http_prefix then watch_smdp (f\<lparr>df_smdp := drop 7 v\<rparr>) n
      else if starts_with v https_prefix then watch_smdp (f\<lparr>df_smdp := drop 8 v\<rparr>) n
      else (f, n))"
  by pat_completeness auto

lemma split_length: "split_on d s = p0 # p1 # ps \<Longrightarrow> length p1 < length s"
proof (induction s arbitrary: p0)
  case (Cons c s)
  have whole: "split_on d s = w # ws \<Longrightarrow> length w \<le> length s" for w ws
  proof (induction s arbitrary: w ws)
    case (Cons a s)
    then show ?case by (cases "split_on d s") (auto split: if_splits)
  qed simp
  show ?case
  proof (cases "c = d")
    case True
    then show ?thesis using Cons.prems whole by (auto simp: less_Suc_eq_le)
  next
    case False
    then obtain w where "split_on d s = w # p1 # ps"
      using Cons.prems by (cases "split_on d s") auto
    then show ?thesis using Cons.IH by fastforce
  qed
qed simp

termination watch_smdp
  by (relation "measure (\<lambda>(f, n). length (df_smdp f))") (auto dest!: split_length)

declare watch_smdp.simps [simp del]

definition on_smdp :: "jstr \<Rightarrow> esim_tab \<Rightarrow> esim_tab" where
  "on_smdp v s =
     (let (f, n) = watch_smdp ((et_form s)\<lparr>df_smdp := v\<rparr>) 0
      in s\<lparr>et_form := f, et_notices := et_notices s @ replicate n (InfoOk, tx_lpa_parsed)\<rparr>)"

section \<open>The note on space\<close>

definition normalizeAidHex :: "jstr \<Rightarrow> jstr" where
  "normalizeAidHex aidHex = to_upper (trim aidHex)"

definition clearRecentSpaceDelta :: "esim_tab \<Rightarrow> esim_tab" where
  "clearRecentSpaceDelta s = s\<lparr>et_deltaTimer := False, et_delta := None\<rparr>"

definition showRecentSpaceDelta :: "jstr \<Rightarrow> jsval \<Rightarrow> esim_tab \<Rightarrow> esim_tab" where
  "showRecentSpaceDelta aidHex spaceDelta s =
     (let a = normalizeAidHex aidHex; message = describeSpaceDelta spaceDelta in
      if a = [] \<or> message = [] then s
      else (clearRecentSpaceDelta s)\<lparr>et_delta := Some (a, message), et_deltaTimer := True\<rparr>)"

text \<open>The timer of 75 seconds fires.\<close>

definition on_delta_timer :: "esim_tab \<Rightarrow> esim_tab" where
  "on_delta_timer s = (if et_deltaTimer s then clearRecentSpaceDelta s else s)"

section \<open>Overview and profiles\<close>

definition chip_aids :: "jsval \<Rightarrow> jstr list option" where
  "chip_aids chip =
     (if truthy (jfield chip ''eids'')
      then Some (map (\<lambda>i. text_or_empty (jfield i ''aid'')) (elems (jfield chip ''eids''))) else None)"

definition fetchOverview :: "bool \<Rightarrow> overview_follow \<Rightarrow> esim_tab \<Rightarrow> esim_tab" where
  "fetchOverview refresh follow s =
     (let k = Suc (et_requestId s);
          s1 = s\<lparr>et_requestId := k, et_aborted := False,
                 et_tasks := (et_tasks s)(k \<mapsto> (refresh, df_aidHex (et_form s), follow))\<rparr>
      in if refresh then s1\<lparr>et_profilesRefreshing := True\<rparr> else s1\<lparr>et_loading := True\<rparr>)"

definition after_overview :: "overview_follow \<Rightarrow> esim_tab \<Rightarrow> esim_tab" where
  "after_overview f s =
     (case f of
        OverviewOnly \<Rightarrow> s
      | EndDownload \<Rightarrow> s\<lparr>et_downloading := False\<rparr>
      | EndDelete \<Rightarrow> s\<lparr>et_deleting := None\<rparr>)"

definition overview_done :: "bool \<Rightarrow> jstr \<Rightarrow> (jsval \<times> esim_group list) service_result \<Rightarrow> esim_tab \<Rightarrow> esim_tab" where
  "overview_done refresh currentAidHex result s =
     (let s1 = (case result of
                  Success (chip, groups) \<Rightarrow>
                    s\<lparr>et_chip := chip, et_profiles := groups,
                      et_form := (et_form s)\<lparr>df_aidHex := pickNextDownloadAid (chip_aids chip) currentAidHex\<rparr>\<rparr>
                | Failure e \<Rightarrow>
                    if ae_code e = Some (js ''ERR_CANCELED'') then s
                    else notify InfoError (result_message e tx_esim_info_failed) s)
      in if refresh then s1\<lparr>et_profilesRefreshing := False\<rparr> else s1\<lparr>et_loading := False\<rparr>)"

definition tab_canceled :: app_error where
  "tab_canceled = \<lparr>ae_message = js ''canceled'', ae_status = None, ae_method = None, ae_url = None,
     ae_code = Some (js ''ERR_CANCELED'')\<rparr>"

text \<open>An answer to any request but the newest is dropped, its loading mark with it.\<close>

definition on_overview :: "nat \<Rightarrow> (jsval \<times> esim_group list) service_result \<Rightarrow> esim_tab \<Rightarrow> esim_tab" where
  "on_overview k result s =
     (case et_tasks s k of
        None \<Rightarrow> s
      | Some (refresh, cur, follow) \<Rightarrow>
          let s1 = s\<lparr>et_tasks := (et_tasks s)(k := None)\<rparr> in
          after_overview follow
            (if k \<noteq> et_requestId s then s1
             else overview_done refresh cur (if et_aborted s then Failure tab_canceled else result) s1))"

definition fetchProfiles_start :: "esim_tab \<Rightarrow> esim_tab" where
  "fetchProfiles_start s = s\<lparr>et_profilesRefreshing := True\<rparr>"

definition fetchProfiles_finish :: "esim_group list service_result \<Rightarrow> esim_tab \<Rightarrow> esim_tab" where
  "fetchProfiles_finish result s =
     (case result of
        Success groups \<Rightarrow> s\<lparr>et_profiles := groups, et_profilesRefreshing := False\<rparr>
      | Failure e \<Rightarrow> (notify InfoError (result_message e tx_esim_profiles_failed) s)\<lparr>et_profilesRefreshing := False\<rparr>)"

text \<open>The device or the tab changes.\<close>

definition on_device :: "jstr \<Rightarrow> bool \<Rightarrow> esim_tab \<Rightarrow> esim_tab" where
  "on_device newId newActive s =
     (let s1 = s\<lparr>et_deviceId := newId, et_active := newActive, et_aborted := True, et_expandedPolicy := None\<rparr> in
      if newId = [] \<or> \<not> newActive then s1
      else
        let s2 = (clearRecentSpaceDelta s1)\<lparr>et_chip := JNull, et_profiles := [],
                   et_form := (et_form s1)\<lparr>df_aidHex := []\<rparr>\<rparr>
        in fetchOverview False OverviewOnly (applyDeviceImeiDefault True s2))"

text \<open>The tab goes away.\<close>

definition on_unmount :: "esim_tab \<Rightarrow> esim_tab" where
  "on_unmount s = (clearRecentSpaceDelta s)\<lparr>et_aborted := True\<rparr>"

definition on_imei :: "jstr \<Rightarrow> esim_tab \<Rightarrow> esim_tab" where
  "on_imei imei s = applyDeviceImeiDefault False (s\<lparr>et_deviceImei := imei\<rparr>)"

section \<open>Switching, renaming, deleting\<close>

definition switch_action :: "int \<Rightarrow> jstr" where
  "switch_action currentState = (if currentState = 1 then tx_disable else tx_enable)"

text \<open>The user has confirmed; then the server has answered.\<close>

definition switch_start :: "jstr \<Rightarrow> esim_tab \<Rightarrow> esim_tab" where
  "switch_start iccid s = s\<lparr>et_switching := Some iccid\<rparr>"

definition switch_finish :: "jstr \<Rightarrow> int \<Rightarrow> jstr \<Rightarrow> bool service_result \<Rightarrow> esim_tab \<Rightarrow> esim_tab" where
  "switch_finish iccid currentState aidHex result s =
     (let action = switch_action currentState in
      (case result of
         Success _ \<Rightarrow>
           (notify InfoOk (js ''Profile '' @ action @ tx_success) s)
             \<lparr>et_profiles := applyOptimisticActiveState (et_profiles s) iccid aidHex\<rparr>
       | Failure e \<Rightarrow> notify InfoError (error_text (ae_message e) (action @ tx_failed)) s)
      \<lparr>et_switching := None\<rparr>)"

definition startRename :: "jstr \<Rightarrow> jstr \<Rightarrow> esim_tab \<Rightarrow> esim_tab" where
  "startRename iccid currentName s = s\<lparr>et_renaming := Some iccid, et_renameValue := currentName\<rparr>"

definition cancelRename :: "esim_tab \<Rightarrow> esim_tab" where
  "cancelRename s = s\<lparr>et_renaming := None, et_renameValue := []\<rparr>"

text \<open>The name to send; None: the field is blank and nothing is sent.\<close>

definition saveRename_name :: "esim_tab \<Rightarrow> jstr option" where
  "saveRename_name s = (let name = trim (et_renameValue s) in if name = [] then None else Some name)"

definition saveRename_start :: "esim_tab \<Rightarrow> esim_tab" where
  "saveRename_start s = (if saveRename_name s = None then notify InfoWarning tx_name_empty s else s)"

definition saveRename_finish :: "bool service_result \<Rightarrow> esim_tab \<Rightarrow> esim_tab" where
  "saveRename_finish result s =
     (case result of
        Success _ \<Rightarrow> fetchProfiles_start ((notify InfoOk tx_rename_done s)\<lparr>et_renaming := None\<rparr>)
      | Failure e \<Rightarrow> notify InfoError (error_text (ae_message e) tx_rename_failed) s)"

text \<open>The prompt asks for the last four digits; closing it counts as the empty text. Whether the
  profile is deleted:\<close>

definition last4 :: "jstr \<Rightarrow> jstr" where
  "last4 iccid = slice_from (- 4) iccid"

definition delete_confirmed :: "jstr \<Rightarrow> jstr option \<Rightarrow> bool" where
  "delete_confirmed iccid answer \<longleftrightarrow> (case answer of None \<Rightarrow> [] | Some t \<Rightarrow> t) = last4 iccid"

definition delete_start :: "jstr \<Rightarrow> esim_tab \<Rightarrow> esim_tab" where
  "delete_start iccid s = s\<lparr>et_deleting := Some iccid\<rparr>"

definition show_notice :: "operation_notice \<Rightarrow> esim_tab \<Rightarrow> esim_tab" where
  "show_notice n s = notify (if on_tone n = WarningNotice then InfoWarning else InfoOk) (on_message n) s"

text \<open>The answer: the warning and the change of space.\<close>

definition delete_finish :: "jstr \<Rightarrow> (jstr \<times> jsval) service_result \<Rightarrow> esim_tab \<Rightarrow> esim_tab" where
  "delete_finish aidHex result s =
     (case result of
        Success (warning, delta) \<Rightarrow>
          fetchOverview True EndDelete
            (show_notice (describeDeleteResultNotice warning delta) (showRecentSpaceDelta aidHex delta s))
      | Failure e \<Rightarrow> (notify InfoError (error_text (ae_message e) tx_delete_failed) s)\<lparr>et_deleting := None\<rparr>)"

section \<open>Notifications\<close>

definition fetchNotifications_start :: "esim_tab \<Rightarrow> esim_tab" where
  "fetchNotifications_start s = s\<lparr>et_notificationsLoading := True\<rparr>"

definition fetchNotifications_finish :: "jsval list service_result \<Rightarrow> esim_tab \<Rightarrow> esim_tab" where
  "fetchNotifications_finish result s =
     (case result of
        Success its \<Rightarrow> s\<lparr>et_notifications := its, et_notificationsLoading := False\<rparr>
      | Failure e \<Rightarrow> (notify InfoError (result_message e tx_notifications_failed) s)\<lparr>et_notificationsLoading := False\<rparr>)"

definition openNotificationsDialog :: "esim_tab \<Rightarrow> esim_tab" where
  "openNotificationsDialog s = fetchNotifications_start (s\<lparr>et_dialogOpen := True\<rparr>)"

definition retry_allowed :: "jsval \<Rightarrow> esim_tab \<Rightarrow> bool" where
  "retry_allowed item s \<longleftrightarrow> truthy (jfield item ''can_retry'') \<and> et_retrying s = None"

definition retry_start :: "jsval \<Rightarrow> esim_tab \<Rightarrow> esim_tab" where
  "retry_start item s =
     (if retry_allowed item s then s\<lparr>et_retrying := Some (to_number (jfield item ''sequence_number''))\<rparr> else s)"

definition put_dialog :: "notification_dialog \<Rightarrow> esim_tab \<Rightarrow> esim_tab" where
  "put_dialog d s = s\<lparr>et_dialogOpen := nd_isOpen d, et_notifications := nd_items d, et_retrying := nd_retryingSequenceNumber d\<rparr>"

text \<open>The notification was sent (its message), or sending it failed.\<close>

definition retry_sent :: "jstr service_result \<Rightarrow> esim_tab \<Rightarrow> esim_tab" where
  "retry_sent result s =
     (case result of
        Success message \<Rightarrow> notify InfoOk message (s\<lparr>et_retrying := None\<rparr>)
      | Failure e \<Rightarrow>
          notify InfoError (result_message e tx_notification_retry_failed)
            (put_dialog (reconcileEsimNotificationDialogState (et_dialogOpen s) (et_notifications s) (et_notifications s) None) s))"

definition retry_refreshed :: "jsval \<Rightarrow> jsval list service_result \<Rightarrow> esim_tab \<Rightarrow> esim_tab" where
  "retry_refreshed item result s =
     (case result of
        Failure e \<Rightarrow> notify InfoWarning (error_text (ae_message e) tx_notification_refresh_failed) s
      | Success its \<Rightarrow>
          put_dialog (reconcileEsimNotificationDialogState (et_dialogOpen s) (et_notifications s) its
                        (Some (to_number (jfield item ''sequence_number'')))) s)"

section \<open>Downloading a profile\<close>

definition download_target :: "esim_tab \<Rightarrow> jstr" where
  "download_target s =
     (let a = df_aidHex (et_form s) in if a \<noteq> [] then a else pickNextDownloadAid (chip_aids (et_chip s)) [])"

text \<open>The query of the request.\<close>

definition download_params :: "esim_tab \<Rightarrow> (jstr \<times> jstr) list" where
  "download_params s =
     (let f = et_form s; opt = (\<lambda>k v. if v = [] then [] else [(js k, v)]) in
      [(js ''smdp'', df_smdp f)] @ opt ''matching_id'' (df_matchingId f) @
      opt ''confirmation_code'' (df_confirmationCode f) @ opt ''aid_hex'' (download_target s) @
      opt ''imei'' (trim (df_imei f)))"

definition download_url :: "jstr \<Rightarrow> esim_tab \<Rightarrow> jstr" where
  "download_url base s =
     base @ js ''/devices/'' @ et_deviceId s @ js ''/esim/actions/download?'' @ search_params (download_params s)"

text \<open>Storage that is not available throws before the request is sent.\<close>

definition download_header :: "storage \<Rightarrow> jstr option" where
  "download_header st =
     (case get_item st (js ''token'') of
        None \<Rightarrow> None
      | Some t \<Rightarrow> Some (js ''Bearer '' @ (case t of Some x \<Rightarrow> x | None \<Rightarrow> [])))"

definition downloadProfile :: "esim_tab \<Rightarrow> esim_tab" where
  "downloadProfile s =
     (if df_smdp (et_form s) = [] then notify InfoWarning tx_smdp_missing s
      else s\<lparr>et_session := Suc (et_session s), et_downloading := True, et_progress := jint 0,
             et_msg := JStr tx_connecting, et_error := JStr [], et_target := download_target s,
             et_targetImei := df_imei (et_form s), et_buffer := [], et_reading := True\<rparr>)"

definition download_failed :: "exn \<Rightarrow> esim_tab \<Rightarrow> esim_tab" where
  "download_failed err s =
     (if \<not> truthy (et_error s) then s\<lparr>et_error := JStr (errorMessage err tx_download_failed)\<rparr> else s)
     \<lparr>et_downloading := False, et_reading := False\<rparr>"

definition event_of :: "jsval \<Rightarrow> download_event" where
  "event_of v = \<lparr>de_step = text_or_empty (jfield v ''step''), de_msg = text_or_empty (jfield v ''msg''),
     de_pct = to_number (jfield v ''pct''), de_warning = text_or_empty (jfield v ''warning''),
     de_space_delta = jfield v ''space_delta''\<rparr>"

text \<open>One event of the stream: the state, and whether the stream is over.\<close>

definition download_event_step :: "jsval \<Rightarrow> esim_tab \<Rightarrow> esim_tab \<times> bool" where
  "download_event_step evt s =
     (if nullish evt then (s, False)
      else if jfield evt ''step'' = jlit ''error'' then
        (s\<lparr>et_error := (if jfield evt ''code'' = jlit ''euicc_insufficient_memory'' then JStr tx_euicc_full
                       else jfield evt ''msg''),
           et_downloading := False\<rparr>, True)
      else
        let s1 = s\<lparr>et_progress := jfield evt ''pct'', et_msg := jfield evt ''msg''\<rparr> in
        if jfield evt ''step'' = jlit ''done'' then
          (fetchOverview True EndDownload
             ((show_notice (describeDownloadTerminalNotice (event_of evt))
                (showRecentSpaceDelta (et_target s1) (jfield evt ''space_delta'') s1))
              \<lparr>et_form := \<lparr>df_smdp = [], df_matchingId = [], df_confirmationCode = [],
                 df_aidHex = et_target s1, df_imei = et_targetImei s1\<rparr>\<rparr>), True)
        else (s1, False))"

definition download_line :: "(jstr \<Rightarrow> jsval outcome) \<Rightarrow> esim_tab line_step" where
  "download_line parse s line =
     (if \<not> starts_with line (js ''data:'') then (s, False)
      else case parse (trim (drop 5 line)) of Inl _ \<Rightarrow> (s, False) | Inr evt \<Rightarrow> download_event_step evt s)"

definition on_download_chunk :: "(jstr \<Rightarrow> jsval outcome) \<Rightarrow> jstr \<Rightarrow> esim_tab \<Rightarrow> esim_tab" where
  "on_download_chunk parse chunk s =
     (if \<not> et_reading s then s
      else case line_loop (download_line parse) s (et_buffer s @ chunk) of
             ((s', stop), rest) \<Rightarrow> s'\<lparr>et_buffer := rest, et_reading := \<not> stop\<rparr>)"

text \<open>The stream ends.\<close>

definition download_closed :: "esim_tab \<Rightarrow> esim_tab" where
  "download_closed s = (if et_reading s then s\<lparr>et_reading := False, et_downloading := False\<rparr> else s)"

section \<open>Facts on the address field\<close>

definition settled :: "jstr \<Rightarrow> bool" where
  "settled v \<longleftrightarrow> \<not> starts_with v http_prefix \<and> \<not> starts_with v https_prefix \<and>
     (if starts_with v (js ''LPA:'') then length (split_on 36 v) < 3 else True)"

lemma prefixes_differ:
  "starts_with v (js ''LPA:'') \<Longrightarrow> \<not> starts_with v http_prefix \<and> \<not> starts_with v https_prefix"
  "v = [] \<Longrightarrow> \<not> starts_with v http_prefix \<and> \<not> starts_with v https_prefix \<and> \<not> starts_with v (js ''LPA:'')"
  by (auto simp: starts_with_iff http_prefix_def https_prefix_def js_def prefix_def)

lemma watch_settled_id: "settled (df_smdp f) \<Longrightarrow> watch_smdp f n = (f, n)"
  by (subst watch_smdp.simps) (auto simp: settled_def Let_def split: list.split)

lemma watch_settles:
  "watch_smdp f n = (f', m) \<Longrightarrow>
   settled (df_smdp f') \<and> n \<le> m \<and> df_confirmationCode f' = df_confirmationCode f \<and>
   df_aidHex f' = df_aidHex f \<and> df_imei f' = df_imei f \<and> (m = n \<longrightarrow> df_matchingId f' = df_matchingId f)"
proof (induction f n rule: watch_smdp.induct)
  case (1 f n)
  let ?v = "df_smdp f"
  consider "?v = []" | "?v \<noteq> []" "starts_with ?v (js ''LPA:'')"
    | "?v \<noteq> []" "\<not> starts_with ?v (js ''LPA:'')" "starts_with ?v http_prefix"
    | "?v \<noteq> []" "\<not> starts_with ?v (js ''LPA:'')" "\<not> starts_with ?v http_prefix" "starts_with ?v https_prefix"
    | "?v \<noteq> []" "\<not> starts_with ?v (js ''LPA:'')" "\<not> starts_with ?v http_prefix" "\<not> starts_with ?v https_prefix"
    by blast
  then show ?case
  proof cases
    case a: 1
    then show ?thesis using "1.prems" prefixes_differ(2) [OF a] by (subst (asm) watch_smdp.simps) (auto simp: settled_def)
  next
    case 2
    show ?thesis
    proof (cases "length (split_on 36 ?v) < 3")
      case True
      then have "watch_smdp f n = (f, n)"
        using 2 prefixes_differ(1) [OF 2(2)] by (intro watch_settled_id) (simp add: settled_def)
      then show ?thesis using "1.prems" 2 True prefixes_differ(1) [OF 2(2)] by (simp add: settled_def)
    next
      case False
      then obtain p0 p1 p2 ps where p: "split_on 36 ?v = p0 # p1 # p2 # ps"
        by (metis (no_types) length_Cons list.exhaust list.size(3) not_less_eq numeral_3_eq_3 zero_less_Suc)
      then have "watch_smdp f n = watch_smdp (f\<lparr>df_smdp := p1, df_matchingId := p2\<rparr>) (Suc n)"
        using 2 by (subst watch_smdp.simps) (simp add: Let_def)
      then show ?thesis
        using "1.IH"(1) [OF refl 2(1,2) p refl refl] "1.prems" by auto
    qed
  next
    case 3
    then have "watch_smdp f n = watch_smdp (f\<lparr>df_smdp := drop 7 ?v\<rparr>) n"
      by (subst watch_smdp.simps) (simp add: Let_def)
    then show ?thesis using "1.IH"(2) [OF refl 3] "1.prems" by simp
  next
    case 4
    then have "watch_smdp f n = watch_smdp (f\<lparr>df_smdp := drop 8 ?v\<rparr>) n"
      by (subst watch_smdp.simps) (simp add: Let_def)
    then show ?thesis using "1.IH"(3) [OF refl 4] "1.prems" by simp
  next
    case 5
    then show ?thesis using "1.prems" by (subst (asm) watch_smdp.simps) (auto simp: settled_def)
  qed
qed

section \<open>Facts on the download\<close>

text \<open>Reading does not look at the buffer, nor at the mark that it is going on.\<close>

definition with_reader :: "jstr \<Rightarrow> bool \<Rightarrow> esim_tab \<Rightarrow> esim_tab" where
  "with_reader b r s = s\<lparr>et_buffer := b, et_reading := r\<rparr>"

lemma with_reader_twice [simp]: "with_reader b r (with_reader b' r' s) = with_reader b r s"
  by (simp add: with_reader_def)

lemma event_step_reader:
  "download_event_step evt (with_reader b r s) =
     (with_reader b r (fst (download_event_step evt s)), snd (download_event_step evt s))"
  by (simp add: download_event_step_def with_reader_def Let_def fetchOverview_def show_notice_def notify_def
      showRecentSpaceDelta_def clearRecentSpaceDelta_def)

lemma line_reader:
  "download_line parse (with_reader b r s) line =
     (with_reader b r (fst (download_line parse s line)), snd (download_line parse s line))"
  by (simp add: download_line_def event_step_reader split: sum.split)

lemma until_stop_reader:
  "until_stop (download_line parse) (with_reader b r s) ls =
     (with_reader b r (fst (until_stop (download_line parse) s ls)), snd (until_stop (download_line parse) s ls))"
  by (induction ls arbitrary: s) (auto simp: line_reader split: prod.split bool.split)

lemma read_chunks_reader:
  "fst (read_chunks (download_line parse) (with_reader b r s) buf cs) =
     (with_reader b r (fst (fst (read_chunks (download_line parse) s buf cs))),
      snd (fst (read_chunks (download_line parse) s buf cs)))"
  by (simp add: read_chunks_eq until_stop_reader)

text \<open>The state the component keeps is that of the reader, chunk after chunk.\<close>

lemma chunks_read:
  assumes "et_reading s" and "read_chunks (download_line parse) s (et_buffer s) cs = ((s', stop), rest)"
  shows "with_reader [] True (fold (on_download_chunk parse) cs s) = with_reader [] True s' \<and>
     et_reading (fold (on_download_chunk parse) cs s) = (\<not> stop)"
  using assms
proof (induction cs arbitrary: s s' stop rest)
  case Nil
  then show ?case by simp
next
  case (Cons c cs)
  obtain t st r where l: "line_loop (download_line parse) s (et_buffer s @ c) = ((t, st), r)"
    by (metis prod.collapse)
  have step: "on_download_chunk parse c s = with_reader r (\<not> st) t"
    using Cons.prems(1) l by (simp add: on_download_chunk_def with_reader_def)
  show ?case
  proof (cases st)
    case True
    have "fold (on_download_chunk parse) cs (with_reader r False t) = with_reader r False t"
      by (induction cs) (simp_all add: on_download_chunk_def with_reader_def)
    then show ?thesis using Cons.prems l step True by (auto simp: with_reader_def)
  next
    case False
    obtain u stop2 rest2 where u: "read_chunks (download_line parse) (with_reader r True t) r cs = ((u, stop2), rest2)"
      by (metis prod.collapse)
    have IH: "with_reader [] True (fold (on_download_chunk parse) cs (with_reader r True t)) = with_reader [] True u \<and>
        et_reading (fold (on_download_chunk parse) cs (with_reader r True t)) = (\<not> stop2)"
      using Cons.IH [of "with_reader r True t" u stop2 rest2] u by (simp add: with_reader_def)
    have "read_chunks (download_line parse) t r cs = ((s', stop), rest)"
      using Cons.prems(2) l False by simp
    then have "(u, stop2) = (with_reader r True s', stop)"
      using read_chunks_reader [of parse r True t r cs] u by simp
    then show ?thesis using IH step False by simp
  qed
qed

section \<open>Behaviour worth noting\<close>

text \<open>A refresh overtaken by a change of device leaves its mark: whatever the two requests answer, the
  tab keeps showing that the profiles are being refreshed.\<close>

lemma refreshing_stuck:
  assumes "et_tasks s (Suc (et_requestId s)) = None" and "dev \<noteq> []"
  defines "k \<equiv> Suc (et_requestId s)"
  shows "et_profilesRefreshing
    (on_overview (Suc k) r2 (on_overview k r1 (on_device dev True (fetchOverview True OverviewOnly s))))"
  using assms
  by (auto simp: on_overview_def on_device_def fetchOverview_def applyDeviceImeiDefault_def Let_def
      clearRecentSpaceDelta_def after_overview_def overview_done_def notify_def split: service_result.split)

text \<open>For a profile without an ICCID, closing the prompt counts as confirming it.\<close>

lemma cancel_confirms: "delete_confirmed iccid None \<longleftrightarrow> iccid = []"
  by (cases iccid) (auto simp: delete_confirmed_def last4_def slice_from_def)

text \<open>A stream that closes without a last event ends the download with neither success nor error.\<close>

lemma closed_silently:
  "et_reading s \<Longrightarrow> \<not> et_downloading (download_closed s) \<and> et_error (download_closed s) = et_error s \<and>
     et_notices (download_closed s) = et_notices s"
  by (simp add: download_closed_def)

text \<open>A change of device leaves a download going, whose end then refreshes the other device.\<close>

lemma download_survives: "et_downloading (on_device dev act s) = et_downloading s \<and> et_reading (on_device dev act s) = et_reading s"
  by (simp add: on_device_def fetchOverview_def applyDeviceImeiDefault_def Let_def clearRecentSpaceDelta_def)

section \<open>Properties\<close>

text \<open>C20. Whatever chunks the answer of a download arrives in, the tab ends up exactly as if it had
  read the complete lines of the whole text in order up to the first that ends the download, and it
  reads on only if there was none.\<close>

theorem download_stream_exact:
  assumes "et_reading s" and "et_buffer s = []" and "cs \<noteq> []"
  shows "(with_reader [] True (fold (on_download_chunk parse) cs s),
          \<not> et_reading (fold (on_download_chunk parse) cs s)) =
         until_stop (download_line parse) s (complete_lines (concat cs))"
proof -
  obtain s' stop rest where r: "read_chunks (download_line parse) s (et_buffer s) cs = ((s', stop), rest)"
    by (metis prod.collapse)
  have "until_stop (download_line parse) s (complete_lines (concat cs)) = (s', stop)"
    using read_chunks_eq [of "download_line parse" s "et_buffer s" cs] r assms(2,3) by simp
  moreover have "with_reader [] True s = s" using assms(1,2) by (simp add: with_reader_def)
  ultimately show ?thesis
    using chunks_read [OF assms(1) r] until_stop_reader [of parse "[]" True s "complete_lines (concat cs)"]
    by simp
qed

definition example_parse :: "jstr \<Rightarrow> jsval outcome" where
  "example_parse t = (if t = js ''E'' then Inr (JObj [(js ''step'', jlit ''error''), (js ''msg'', jlit ''no'')])
     else Inr (JObj [(js ''step'', jlit ''load''), (js ''pct'', jint 40)]))"

definition example_chunks :: "jstr list" where
  "example_chunks = [js ''da'', js ''ta: L'' @ [13, 10] @ js ''data:E'', [10]]"

theorem download_stream_exact_witness:
  "(let t = fold (on_download_chunk example_parse) example_chunks ((initial_tab [] True [])\<lparr>et_reading := True\<rparr>)
    in (with_reader [] True t, \<not> et_reading t)) =
   until_stop (download_line example_parse) ((initial_tab [] True [])\<lparr>et_reading := True\<rparr>)
     [js ''data: L'' @ [13], js ''data:E'']"
proof -
  have "complete_lines (concat example_chunks) = [js ''data: L'' @ [13], js ''data:E'']" by code_simp
  then show ?thesis
    using download_stream_exact [of "(initial_tab [] True [])\<lparr>et_reading := True\<rparr>" example_chunks example_parse]
    by (simp add: Let_def initial_tab_def example_chunks_def)
qed

text \<open>C21. Pasting into the address field settles: whatever is entered, the watcher comes to rest; the
  address it leaves starts with no \<open>http\<close> prefix and holds no full activation code, nothing but
  the address and the matching identifier changes (the latter only if a code was taken apart), and an
  ordinary code \<open>LPA:1$address$id\<close> fills in exactly these two.\<close>

theorem smdp_settles:
  "(case watch_smdp f n of (f', m) \<Rightarrow>
      settled (df_smdp f') \<and> watch_smdp f' m = (f', m) \<and>
      f' = f\<lparr>df_smdp := df_smdp f', df_matchingId := df_matchingId f'\<rparr> \<and>
      (if m = n then df_matchingId f' = df_matchingId f else n < m)) \<and>
   (if 36 \<notin> set (host @ mid) \<and> settled host
    then watch_smdp (f\<lparr>df_smdp := js ''LPA:1'' @ [36] @ host @ [36] @ mid\<rparr>) n =
           (f\<lparr>df_smdp := host, df_matchingId := mid\<rparr>, Suc n)
    else True)"
proof -
  have "settled (df_smdp f') \<and> watch_smdp f' m = (f', m) \<and>
      f' = f\<lparr>df_smdp := df_smdp f', df_matchingId := df_matchingId f'\<rparr> \<and>
      (if m = n then df_matchingId f' = df_matchingId f else n < m)" if "watch_smdp f n = (f', m)" for f' m
    using watch_settles [OF that] watch_settled_id by (cases f; cases f') auto
  moreover have "watch_smdp (f\<lparr>df_smdp := js ''LPA:1'' @ [36] @ host @ [36] @ mid\<rparr>) n =
      (f\<lparr>df_smdp := host, df_matchingId := mid\<rparr>, Suc n)" if "36 \<notin> set (host @ mid)" "settled host"
  proof -
    have sp: "split_on 36 (js ''LPA:1'' @ [36] @ host @ [36] @ mid) = [js ''LPA:1'', host, mid]"
      using that(1) split_on_append_sep [of 36 "js ''LPA:1''"] by (simp add: split_on_append_sep split_on_free js_def)
    have "watch_smdp (f\<lparr>df_smdp := js ''LPA:1'' @ [36] @ host @ [36] @ mid\<rparr>) n =
        watch_smdp (f\<lparr>df_smdp := host, df_matchingId := mid\<rparr>) (Suc n)"
      using sp by (subst watch_smdp.simps) (simp add: Let_def starts_with_def, simp add: js_def)
    then show ?thesis using that(2) by (simp add: watch_settled_id)
  qed
  ultimately show ?thesis by (auto split: prod.split)
qed

end
