(* ===== verification/ProxyPage.thy ===== *)
theory ProxyPage
  imports Notices Stores Lifecycle
begin

text \<open>
  The page of the proxies (\<open>views/Proxy.vue\<close>): the list of outbound instances, its form and
  what is sent to the server; the upstream proxies, their form and the rules that bind countries to
  them. Every handler is the part up to its \<open>await\<close> and the parts that follow an answer.
\<close>

section \<open>Outbound instances\<close>

record proxy_instance =
  pi_id :: jstr
  pi_name :: jstr
  pi_device_id :: jstr
  pi_enabled :: bool
  pi_mode :: jstr
  pi_listen_addr :: jstr
  pi_listen_port :: int
  pi_auth_enabled :: bool
  pi_username :: jstr
  pi_password :: "jstr option"

record proxy_page =
  pp_marks :: load_marks
  pp_instances :: "proxy_instance list"
  pp_devices :: "jstr list"
  pp_saving :: bool
  pp_drawerOpen :: bool
  pp_editing :: "jstr option"
  pp_form :: proxy_instance
  pp_sent :: "proxy_instance list list"
  pp_notices :: "notice list"

definition any_addr :: jstr where "any_addr = js ''0.0.0.0''"

definition empty_form :: "jstr \<Rightarrow> proxy_instance" where
  "empty_form dev = \<lparr>pi_id = [], pi_name = [], pi_device_id = dev, pi_enabled = True, pi_mode = js ''socks5'',
     pi_listen_addr = any_addr, pi_listen_port = 1080, pi_auth_enabled = False, pi_username = [],
     pi_password = Some []\<rparr>"

definition initial_proxy_page :: proxy_page where
  "initial_proxy_page = \<lparr>pp_marks = \<lparr>lm_first = True, lm_refreshing = False, lm_error = None\<rparr>,
     pp_instances = [], pp_devices = [], pp_saving = False, pp_drawerOpen = False, pp_editing = None,
     pp_form = empty_form [], pp_sent = [], pp_notices = []\<rparr>"

definition pp_notify :: "notice_kind \<Rightarrow> jstr \<Rightarrow> proxy_page \<Rightarrow> proxy_page" where
  "pp_notify kind message s = s\<lparr>pp_notices := pp_notices s @ [(kind, message)]\<rparr>"

definition with_mode :: "proxy_instance \<Rightarrow> proxy_instance" where
  "with_mode i = i\<lparr>pi_mode := error_text (pi_mode i) (js ''socks5'')\<rparr>"

text \<open>The status of an instance: running as the store's table says, else not.\<close>

definition instance_running :: "proxy_store \<Rightarrow> proxy_instance \<Rightarrow> bool" where
  "instance_running st i =
     (case statusMap st (pi_id i) of None \<Rightarrow> False | Some v \<Rightarrow> truthy v \<and> truthy (jfield v ''running''))"

text \<open>Replacing the form; the watcher clears the credentials when authentication goes off.\<close>

definition put_form :: "proxy_instance \<Rightarrow> proxy_page \<Rightarrow> proxy_page" where
  "put_form f s =
     s\<lparr>pp_form := (if pi_auth_enabled f \<noteq> pi_auth_enabled (pp_form s) \<and> \<not> pi_auth_enabled f
                  then f\<lparr>pi_username := [], pi_password := Some []\<rparr> else f)\<rparr>"

section \<open>Loading, starting and stopping\<close>

definition pp_fetchOverview :: "load_use \<Rightarrow> proxy_page \<Rightarrow> proxy_page" where
  "pp_fetchOverview use s = s\<lparr>pp_marks := load_begins use (pp_marks s)\<rparr>"

text \<open>The answer: instances and devices.\<close>

definition overview_answer ::
    "load_use \<Rightarrow> (proxy_instance list \<times> jstr list) service_result \<Rightarrow> proxy_page \<Rightarrow> proxy_page" where
  "overview_answer use r s =
     (case r of
        Success (its, devs) \<Rightarrow>
          s\<lparr>pp_instances := map with_mode its, pp_devices := devs,
            pp_marks := load_ends use tx_proxy_load_failed None (pp_marks s)\<rparr>
      | Failure e \<Rightarrow> s\<lparr>pp_marks := load_ends use tx_proxy_load_failed (Some e) (pp_marks s)\<rparr>)"

definition pp_saveConfig :: "proxy_page \<Rightarrow> proxy_page" where
  "pp_saveConfig s = s\<lparr>pp_saving := True, pp_sent := pp_sent s @ [pp_instances s]\<rparr>"

text \<open>Saved: the list is loaded again and \<open>saving\<close> stays until that is over.\<close>

definition saved_answer :: "bool service_result \<Rightarrow> proxy_page \<Rightarrow> proxy_page" where
  "saved_answer r s =
     (case r of
        Success _ \<Rightarrow> pp_fetchOverview PlainLoad (pp_notify InfoOk tx_config_saved s)
      | Failure e \<Rightarrow> (pp_notify InfoError (error_text (ae_message e) tx_save_failed) s)\<lparr>pp_saving := False\<rparr>)"

definition saved_overview ::
    "(proxy_instance list \<times> jstr list) service_result \<Rightarrow> proxy_page \<Rightarrow> proxy_page" where
  "saved_overview r s = (overview_answer PlainLoad r s)\<lparr>pp_saving := False\<rparr>"

datatype instance_action = StartInstance | StopInstance | RestartInstance

definition action_texts :: "instance_action \<Rightarrow> jstr \<times> jstr" where
  "action_texts a =
     (case a of
        StartInstance \<Rightarrow> (tx_started, tx_start_failed)
      | StopInstance \<Rightarrow> (tx_stopped, tx_stop_failed)
      | RestartInstance \<Rightarrow> (tx_restarted, tx_restart_failed))"

definition action_answer :: "instance_action \<Rightarrow> bool service_result \<Rightarrow> proxy_page \<Rightarrow> proxy_page" where
  "action_answer a r s =
     (case r of
        Success _ \<Rightarrow> pp_fetchOverview PlainLoad (pp_notify InfoOk (fst (action_texts a)) s)
      | Failure e \<Rightarrow> pp_notify InfoError (error_text (ae_message e) (snd (action_texts a))) s)"

definition pollEnabled :: "proxy_page \<Rightarrow> bool" where
  "pollEnabled s \<longleftrightarrow> \<not> lm_first (pp_marks s) \<and> pp_instances s \<noteq> []"

section \<open>The form\<close>

definition pp_resetForm :: "proxy_page \<Rightarrow> proxy_page" where
  "pp_resetForm s = put_form (empty_form (case pp_devices s of [] \<Rightarrow> [] | d # _ \<Rightarrow> d)) s"

definition openDrawer_new :: "int \<Rightarrow> proxy_page \<Rightarrow> proxy_page" where
  "openDrawer_new now s =
     (let s1 = pp_resetForm (s\<lparr>pp_editing := None\<rparr>)
      in s1\<lparr>pp_form := (pp_form s1)\<lparr>pi_id := js ''proxy-'' @ show_int now,
              pi_listen_port := 10800 + int (length (pp_instances s1))\<rparr>, pp_drawerOpen := True\<rparr>)"

definition openDrawer :: "proxy_instance \<Rightarrow> proxy_page \<Rightarrow> proxy_page" where
  "openDrawer inst s = (put_form (with_mode inst) (s\<lparr>pp_editing := Some (pi_id inst)\<rparr>))\<lparr>pp_drawerOpen := True\<rparr>"

text \<open>The answer with all settings of the instance, whatever the form shows by then.\<close>

definition instance_answer :: "proxy_instance service_result \<Rightarrow> proxy_page \<Rightarrow> proxy_page" where
  "instance_answer r s = (case r of Success d \<Rightarrow> put_form (with_mode d) s | Failure e \<Rightarrow> s)"

text \<open>The checks of the form: a warning, or the instance that is stored.\<close>

definition checked_form :: "proxy_instance \<Rightarrow> jstr + proxy_instance" where
  "checked_form f =
     (if pi_id f = [] then Inl tx_instance_id_missing
      else if pi_device_id f = [] then Inl tx_device_missing
      else if pi_mode f \<noteq> js ''socks5'' \<and> pi_mode f \<noteq> js ''http'' then Inl tx_mode_unknown
      else if pi_listen_port f \<le> 0 \<or> 65535 < pi_listen_port f then Inl tx_port_invalid
      else
        let g = f\<lparr>pi_listen_addr := error_text (pi_listen_addr f) any_addr\<rparr> in
        if pi_auth_enabled f then
          (let u = trim (pi_username f); p = trim (case pi_password f of None \<Rightarrow> [] | Some w \<Rightarrow> w) in
           if u = [] \<or> p = [] then Inl tx_credentials_missing
           else Inr (g\<lparr>pi_username := u, pi_password := Some p\<rparr>))
        else Inr (g\<lparr>pi_username := [], pi_password := Some []\<rparr>))"

text \<open>Replace the first instance with the identifier.\<close>

fun replace_first :: "jstr \<Rightarrow> proxy_instance \<Rightarrow> proxy_instance list \<Rightarrow> proxy_instance list" where
  "replace_first k f [] = []"
| "replace_first k f (i # xs) = (if pi_id i = k then f # xs else i # replace_first k f xs)"

definition saveForm :: "proxy_page \<Rightarrow> proxy_page" where
  "saveForm s =
     (case checked_form (pp_form s) of
        Inl w \<Rightarrow> pp_notify InfoWarning w s
      | Inr f \<Rightarrow>
          (case pp_editing s of
             Some k \<Rightarrow>
               pp_saveConfig (s\<lparr>pp_instances := replace_first k f (pp_instances s), pp_drawerOpen := False\<rparr>)
           | None \<Rightarrow>
               if pi_id f \<in> pi_id ` set (pp_instances s) then pp_notify InfoWarning tx_instance_exists s
               else pp_saveConfig (s\<lparr>pp_instances := pp_instances s @ [f], pp_drawerOpen := False\<rparr>)))"

text \<open>The user has confirmed.\<close>

definition deleteInstance :: "jstr \<Rightarrow> proxy_page \<Rightarrow> proxy_page" where
  "deleteInstance k s = pp_saveConfig (s\<lparr>pp_instances := filter (\<lambda>i. pi_id i \<noteq> k) (pp_instances s)\<rparr>)"

definition formatModeLabel :: "jstr \<Rightarrow> jstr" where
  "formatModeLabel m = (if m = js ''http'' then js ''HTTP'' else js ''SOCKS5'')"

section \<open>Upstream proxies\<close>

record upstream_form =
  uf_id :: jstr
  uf_name :: jstr
  uf_addr :: jstr
  uf_username :: jstr
  uf_password :: "jstr option"
  uf_enabled :: bool

record upstream_page =
  ug_marks :: load_marks
  ug_drawerOpen :: bool
  ug_editing :: bool
  ug_form :: upstream_form
  ug_ruleDrawerOpen :: bool
  ug_target :: "jstr option"
  ug_country :: jstr
  ug_notices :: "notice list"

definition empty_upstream :: upstream_form where
  "empty_upstream = \<lparr>uf_id = [], uf_name = [], uf_addr = [], uf_username = [], uf_password = Some [],
     uf_enabled = True\<rparr>"

definition initial_upstream_page :: upstream_page where
  "initial_upstream_page = \<lparr>ug_marks = \<lparr>lm_first = True, lm_refreshing = False, lm_error = None\<rparr>,
     ug_drawerOpen = False, ug_editing = False, ug_form = empty_upstream, ug_ruleDrawerOpen = False,
     ug_target = None, ug_country = [], ug_notices = []\<rparr>"

definition ug_notify :: "notice_kind \<Rightarrow> jstr \<Rightarrow> upstream_page \<Rightarrow> upstream_page" where
  "ug_notify kind message s = s\<lparr>ug_notices := ug_notices s @ [(kind, message)]\<rparr>"

definition fetchUpstream :: "load_use \<Rightarrow> upstream_page \<Rightarrow> upstream_page" where
  "fetchUpstream use s = s\<lparr>ug_marks := load_begins use (ug_marks s)\<rparr>"

text \<open>Only the first of the three answers the store waits for counts as the result.\<close>

definition upstream_answer :: "load_use \<Rightarrow> jsval service_result \<Rightarrow> upstream_page \<Rightarrow> upstream_page" where
  "upstream_answer use r s =
     s\<lparr>ug_marks := load_ends use tx_upstream_load_failed
        (case r of Success _ \<Rightarrow> None | Failure e \<Rightarrow> Some e) (ug_marks s)\<rparr>"

definition openUpstreamDrawer :: "upstream_form option \<Rightarrow> upstream_page \<Rightarrow> upstream_page" where
  "openUpstreamDrawer proxy s =
     (case proxy of
        None \<Rightarrow> s\<lparr>ug_editing := False, ug_form := empty_upstream, ug_drawerOpen := True\<rparr>
      | Some p \<Rightarrow>
          s\<lparr>ug_editing := True, ug_drawerOpen := True,
            ug_form := (if uf_password p = Some (js ''****'') then p\<lparr>uf_password := Some []\<rparr> else p)\<rparr>)"

datatype upstream_request = CreateUpstream upstream_form | UpdateUpstream jstr upstream_form

definition trimmed_upstream :: "upstream_form \<Rightarrow> upstream_form" where
  "trimmed_upstream f = f\<lparr>uf_id := trim (uf_id f), uf_name := trim (uf_name f), uf_addr := trim (uf_addr f)\<rparr>"

text \<open>The form is turned down with a warning, or a request is sent.\<close>

definition saveUpstreamForm :: "upstream_page \<Rightarrow> upstream_page \<times> upstream_request option" where
  "saveUpstreamForm s =
     (let f = trimmed_upstream (ug_form s); w = upstreamProxyAddressWarning (JStr (uf_addr f)) in
      if uf_id f = [] then (ug_notify InfoWarning tx_id_missing s, None)
      else if uf_addr f = [] then (ug_notify InfoWarning tx_addr_missing s, None)
      else if w \<noteq> [] then (ug_notify InfoWarning w s, None)
      else (s, Some (if ug_editing s then UpdateUpstream (uf_id f) f else CreateUpstream f)))"

definition upstream_saved :: "upstream_request \<Rightarrow> bool service_result \<Rightarrow> upstream_page \<Rightarrow> upstream_page" where
  "upstream_saved req r s =
     (let (done, failed) = (case req of CreateUpstream _ \<Rightarrow> (tx_upstream_created, tx_create_failed)
                            | UpdateUpstream _ _ \<Rightarrow> (tx_upstream_updated, tx_update_failed)) in
      case r of
        Success _ \<Rightarrow> fetchUpstream PlainLoad ((ug_notify InfoOk done s)\<lparr>ug_drawerOpen := False\<rparr>)
      | Failure e \<Rightarrow> ug_notify InfoError (error_text (ae_message e) failed) s)"

definition upstream_deleted :: "bool service_result \<Rightarrow> upstream_page \<Rightarrow> upstream_page" where
  "upstream_deleted r s =
     (case r of
        Success _ \<Rightarrow> fetchUpstream PlainLoad (ug_notify InfoOk tx_upstream_deleted s)
      | Failure e \<Rightarrow> ug_notify InfoError (error_text (ae_message e) tx_delete_failed) s)"

definition upPollEnabled :: "jstr \<Rightarrow> upstream_page \<Rightarrow> bool" where
  "upPollEnabled activeTab s \<longleftrightarrow> \<not> lm_first (ug_marks s) \<and> activeTab = js ''upstream''"

section \<open>Country rules\<close>

definition openCountryRuleDrawer :: "jstr \<Rightarrow> upstream_page \<Rightarrow> upstream_page" where
  "openCountryRuleDrawer proxy s = s\<lparr>ug_target := Some proxy, ug_country := [], ug_ruleDrawerOpen := True\<rparr>"

definition availableCountries :: "upstream_store \<Rightarrow> upstream_page \<Rightarrow> jsval list" where
  "availableCountries st s =
     (case ug_target s of
        None \<Rightarrow> []
      | Some p \<Rightarrow>
          filter (\<lambda>c. case getRuleForCountry (text_or_empty (jfield c ''country_code'')) st of
                        None \<Rightarrow> True | Some r \<Rightarrow> ur_upstream_proxy_id r = p)
            (elems (up_countries st)))"

definition currentProxyCountryRules :: "upstream_store \<Rightarrow> upstream_page \<Rightarrow> upstream_rule list" where
  "currentProxyCountryRules st s =
     (case ug_target s of None \<Rightarrow> [] | Some p \<Rightarrow> getRulesForProxy p st)"

definition upstreamProxiesWithRuleCount :: "upstream_store \<Rightarrow> (jsval \<times> nat) list" where
  "upstreamProxiesWithRuleCount st =
     map (\<lambda>p. (p, length (getRulesForProxy (text_or_empty (jfield p ''id'')) st))) (elems (up_proxies st))"

text \<open>The rule to send: the country and the proxy.\<close>

definition doUpsertCountryRule :: "upstream_page \<Rightarrow> upstream_page \<times> (jstr \<times> jstr) option" where
  "doUpsertCountryRule s =
     (case ug_target s of
        Some p \<Rightarrow> if ug_country s \<noteq> [] then (s, Some (ug_country s, p))
                   else (ug_notify InfoWarning tx_country_missing s, None)
      | None \<Rightarrow> (ug_notify InfoWarning tx_country_missing s, None))"

definition rule_saved :: "bool service_result \<Rightarrow> upstream_page \<Rightarrow> upstream_page" where
  "rule_saved r s =
     (case r of
        Success _ \<Rightarrow> fetchUpstream PlainLoad ((ug_notify InfoOk tx_rule_saved s)\<lparr>ug_country := []\<rparr>)
      | Failure e \<Rightarrow> ug_notify InfoError (error_text (ae_message e) tx_rule_failed) s)"

definition rule_deleted :: "bool service_result \<Rightarrow> upstream_page \<Rightarrow> upstream_page" where
  "rule_deleted r s =
     (case r of
        Success _ \<Rightarrow> fetchUpstream PlainLoad (ug_notify InfoOk tx_rule_deleted s)
      | Failure e \<Rightarrow> ug_notify InfoError (error_text (ae_message e) tx_rule_delete_failed) s)"

definition middle_dot :: jstr where "middle_dot = [32, 0x00B7, 32]"

definition formatCountryLabel :: "jstr \<Rightarrow> jstr \<Rightarrow> jstr list \<Rightarrow> jstr" where
  "formatCountryLabel code name mccs =
     code @ middle_dot @ error_text name code @
     (if mccs = [] then [] else middle_dot @ js ''MCC '' @ join_with (js ''/'') mccs)"

section \<open>Facts\<close>

text \<open>What the list stands for: a table by identifier.\<close>

definition instance_table :: "proxy_instance list \<Rightarrow> jstr \<Rightarrow> proxy_instance option" where
  "instance_table xs = map_of (map (\<lambda>i. (pi_id i, i)) xs)"

lemma table_dom: "dom (instance_table xs) = pi_id ` set xs"
  by (force simp: instance_table_def dom_map_of_conv_image_fst image_image)

lemma table_append_new:
  "pi_id f \<notin> pi_id ` set xs \<Longrightarrow> instance_table (xs @ [f]) = (instance_table xs)(pi_id f \<mapsto> f)"
  by (induction xs) (auto simp: instance_table_def fun_upd_twist)

lemma table_replace:
  "\<lbrakk>k \<in> pi_id ` set xs; pi_id f = k\<rbrakk> \<Longrightarrow> instance_table (replace_first k f xs) = (instance_table xs)(k \<mapsto> f)"
  by (induction xs) (auto simp: instance_table_def fun_upd_twist)

lemma replace_first_missing: "k \<notin> pi_id ` set xs \<Longrightarrow> replace_first k f xs = xs"
  by (induction xs) auto

lemma replace_first_ids: "pi_id f = k \<Longrightarrow> map pi_id (replace_first k f xs) = map pi_id xs"
  by (induction xs) auto

lemma table_filter: "instance_table (filter (\<lambda>i. pi_id i \<noteq> k) xs) = (instance_table xs)(k := None)"
  by (induction xs) (auto simp: instance_table_def fun_eq_iff)

text \<open>What the server may be sent for an instance of the form.\<close>

definition instance_valid :: "proxy_instance \<Rightarrow> bool" where
  "instance_valid i \<longleftrightarrow>
     pi_id i \<noteq> [] \<and> pi_device_id i \<noteq> [] \<and> pi_mode i \<in> {js ''socks5'', js ''http''} \<and>
     0 < pi_listen_port i \<and> pi_listen_port i < 65536 \<and> pi_listen_addr i \<noteq> [] \<and>
     (if pi_auth_enabled i then pi_username i \<noteq> [] \<and> pi_password i \<notin> {None, Some []}
      else pi_username i = [] \<and> pi_password i = Some [])"

lemma checked_form_valid: "checked_form f = Inr g \<Longrightarrow> instance_valid g \<and> pi_id g = pi_id f"
  by (auto simp: checked_form_def instance_valid_def error_text_def any_addr_def js_def Let_def
      split: if_splits option.splits)

text \<open>The table the form asks for; None: the identifier is taken.\<close>

definition table_save ::
    "jstr option \<Rightarrow> proxy_instance \<Rightarrow> (jstr \<Rightarrow> proxy_instance option) \<Rightarrow> (jstr \<Rightarrow> proxy_instance option) option" where
  "table_save editing f m =
     (case editing of
        None \<Rightarrow> if m (pi_id f) = None then Some (m(pi_id f \<mapsto> f)) else None
      | Some k \<Rightarrow> if m k = None then Some m else Some (m(k \<mapsto> f)))"

lemma table_None: "instance_table xs k = None \<longleftrightarrow> k \<notin> pi_id ` set xs"
  using table_dom [of xs] by blast

lemma save_refines:
  assumes "distinct (map pi_id (pp_instances s))"
    and "case pp_editing s of None \<Rightarrow> True | Some k \<Rightarrow> pi_id (pp_form s) = k"
  shows "case checked_form (pp_form s) of
      Inl w \<Rightarrow> saveForm s = pp_notify InfoWarning w s
    | Inr f \<Rightarrow> instance_valid f \<and>
        (case table_save (pp_editing s) f (instance_table (pp_instances s)) of
           None \<Rightarrow> saveForm s = pp_notify InfoWarning tx_instance_exists s
         | Some m \<Rightarrow> instance_table (pp_instances (saveForm s)) = m \<and>
             distinct (map pi_id (pp_instances (saveForm s))) \<and>
             pp_sent (saveForm s) = pp_sent s @ [pp_instances (saveForm s)] \<and>
             pp_saving (saveForm s) \<and> \<not> pp_drawerOpen (saveForm s))"
proof (cases "checked_form (pp_form s)")
  case (Inl w)
  then show ?thesis by (simp add: saveForm_def)
next
  case (Inr f)
  note v = checked_form_valid [OF Inr]
  show ?thesis
  proof (cases "pp_editing s")
    case None
    then show ?thesis
      using Inr v assms(1)
      by (auto simp: saveForm_def table_save_def table_None table_append_new pp_saveConfig_def)
  next
    case (Some k)
    then have "pi_id f = k" using assms(2) v by simp
    then show ?thesis
      using Inr v assms(1) Some
      by (auto simp: saveForm_def table_save_def table_None table_replace replace_first_missing
          replace_first_ids pp_saveConfig_def)
  qed
qed

section \<open>Behaviour worth noting\<close>

text \<open>An instance is opened, another one right after; the settings of the first arrive late and fill the
  form of the second. Saving then stores the first in place of the second: the list sent has it twice.\<close>

definition two_instances :: proxy_page where
  "two_instances = (let f = (empty_form (js ''d''))\<lparr>pi_id := js ''a''\<rparr> in
     initial_proxy_page\<lparr>pp_instances := [f, f\<lparr>pi_id := js ''b''\<rparr>]\<rparr>)"

lemma other_instance_saved:
  "(let a = hd (pp_instances two_instances); b = last (pp_instances two_instances)
    in map (map pi_id) (pp_sent (saveForm
         (instance_answer (Success a) (instance_answer (Success b) (openDrawer b (openDrawer a two_instances)))))))
   = [[js ''a'', js ''a'']]"
  by code_simp

text \<open>The instance being edited vanishes from the list (a poll replaced it): saving sends the list without
  the edited form and closes the drawer as if it had been stored.\<close>

lemma vanished_edit_dropped:
  assumes "pp_editing s = Some k" and "k \<notin> pi_id ` set (pp_instances s)" and "checked_form (pp_form s) = Inr f"
  shows "pp_instances (saveForm s) = pp_instances s \<and> pp_sent (saveForm s) = pp_sent s @ [pp_instances s] \<and>
     \<not> pp_drawerOpen (saveForm s)"
  using assms by (simp add: saveForm_def replace_first_missing pp_saveConfig_def)

text \<open>Deleting the only instance stops the polling, even when the server refuses the change.\<close>

lemma last_deleted_stops_polling:
  "pp_instances s = [i] \<Longrightarrow> \<not> pollEnabled (saved_answer (Failure e) (deleteInstance (pi_id i) s))"
  by (simp add: pollEnabled_def saved_answer_def deleteInstance_def pp_saveConfig_def pp_notify_def)

text \<open>A country offered for a proxy is free or bound to that proxy.\<close>

lemma offered_countries:
  "c \<in> set (availableCountries st s) \<Longrightarrow>
   c \<in> set (elems (up_countries st)) \<and>
     (case getRuleForCountry (text_or_empty (jfield c ''country_code'')) st of
        None \<Rightarrow> True | Some r \<Rightarrow> r \<in> set (currentProxyCountryRules st s))"
  by (cases "ug_target s")
    (auto simp: availableCountries_def currentProxyCountryRules_def getRulesForProxy_def getRuleForCountry_def
      dest: find_SomeD split: option.splits)

section \<open>Property\<close>


definition example_page :: proxy_page where
  "example_page = (let f = (empty_form (js ''d''))\<lparr>pi_id := js ''a''\<rparr> in
     initial_proxy_page\<lparr>pp_instances := [f, f\<lparr>pi_id := js ''b''\<rparr>], pp_editing := Some (js ''b''),
       pp_form := f\<lparr>pi_id := js ''b'', pi_listen_port := 8080, pi_listen_addr := []\<rparr>\<rparr>)"


end
