(* ===== verification/TrafficPanel.thy ===== *)
theory TrafficPanel
  imports DeviceTraffic Interfaces Services
begin

text \<open>
  The traffic analysis panel (\<open>components/TrafficAnalysisPanel.vue\<close>): amounts and times as
  text, totals, the series of the chart and what its tooltip lists, and the loading of the chart module.
  The local calendar is the parameter \<open>date_of\<close> (\<open>new Date(text)\<close> in local time, None when it
  is not a date). Markup and colours of the chart are left out.
\<close>

section \<open>Amounts and times\<close>

definition panel_formatBytes :: "jsval \<Rightarrow> jstr" where
  "panel_formatBytes bytes =
     (case scale 4 (num_or_zero (to_number bytes)) 0 of
        (v, i) \<Rightarrow> toFixed (if i = 0 then 0 else 2) v @ js '' '' @ map js [''B'', ''KB'', ''MB'', ''GB'', ''TB''] ! i)"

record local_time =
  lt_year :: int
  lt_month :: int
  lt_day :: int
  lt_hour :: int

type_synonym local_dates = "jstr \<Rightarrow> local_time option"

definition parsePeriodStart :: "local_dates \<Rightarrow> jsval \<Rightarrow> local_time option" where
  "parsePeriodStart date_of v =
     (case v of JStr t \<Rightarrow> if trim t = [] then None else date_of t | _ \<Rightarrow> None)"

definition pad2 :: "int \<Rightarrow> jstr" where
  "pad2 n = pad_zeros 2 (show_int n)"

definition formatLocalDate :: "local_time \<Rightarrow> jstr" where
  "formatLocalDate d =
     show_int (lt_year d) @ js ''-'' @ pad2 (lt_month d) @ js ''-'' @ pad2 (lt_day d)"

definition formatLocalHour :: "local_time \<Rightarrow> jstr" where
  "formatLocalHour d = pad2 (lt_hour d) @ js '':00''"

definition formatLocalDateHour :: "local_time \<Rightarrow> jstr" where
  "formatLocalDateHour d = formatLocalDate d @ js '' '' @ formatLocalHour d"

definition formatTrafficAxisTime :: "local_dates \<Rightarrow> jstr \<Rightarrow> jsval \<Rightarrow> jstr \<Rightarrow> jstr" where
  "formatTrafficAxisTime date_of rng periodStart fallback =
     (case parsePeriodStart date_of periodStart of
        None \<Rightarrow> fallback
      | Some d \<Rightarrow>
          if rng = js ''day'' then formatLocalHour d else pad2 (lt_month d) @ js ''-'' @ pad2 (lt_day d))"

definition formatTrafficTooltipTime :: "local_dates \<Rightarrow> jstr \<Rightarrow> jsval \<Rightarrow> jsval \<Rightarrow> jsval" where
  "formatTrafficTooltipTime date_of rng periodStart fallback =
     (case parsePeriodStart date_of periodStart of
        None \<Rightarrow> if_nullish fallback (JStr [])
      | Some d \<Rightarrow> JStr (if rng = js ''day'' then formatLocalDateHour d else formatLocalDate d))"

definition formatTrafficBucketTime :: "local_dates \<Rightarrow> jstr \<Rightarrow> jsval \<Rightarrow> jsval" where
  "formatTrafficBucketTime date_of rng bucket =
     (case parsePeriodStart date_of (jfield bucket ''period_start'') of
        None \<Rightarrow> or_else (jfield bucket ''bucket'') (JStr [])
      | Some d \<Rightarrow> JStr (if rng = js ''day'' then formatLocalDateHour d else formatLocalDate d))"

definition rangeText :: "jstr \<Rightarrow> jstr" where
  "rangeText rng =
     (if rng = js ''day'' then tx_today else if rng = js ''week'' then tx_this_week
      else if rng = js ''month'' then tx_this_month else tx_this_period)"

text \<open>The range to announce; other values of the control are ignored.\<close>

definition handleRangeChange :: "jsval \<Rightarrow> jstr option" where
  "handleRangeChange v =
     (case v of JStr t \<Rightarrow> if t \<in> {js ''day'', js ''week'', js ''month''} then Some t else None | _ \<Rightarrow> None)"

section \<open>Totals\<close>

definition bucket_sum :: "string \<Rightarrow> jsval list \<Rightarrow> jnum" where
  "bucket_sum key bs = num_sum (map (\<lambda>b. num_or_zero (to_number (jfield b key))) bs)"

definition analysisTotal :: "traffic_analysis \<Rightarrow> jnum \<times> jnum \<times> jnum" where
  "analysisTotal a =
     (let bs = elems (ta_buckets a); rx = bucket_sum ''rx_bytes'' bs; tx = bucket_sum ''tx_bytes'' bs
      in (rx, tx, num_add rx tx))"

record unit_choice =
  uc_label :: jstr
  uc_divisor :: rat
  uc_decimals :: nat

fun at_least :: "rat \<Rightarrow> jnum \<Rightarrow> bool" where
  "at_least b (Fin r) \<longleftrightarrow> b \<le> r"
| "at_least b PosInf \<longleftrightarrow> True"
| "at_least b _ \<longleftrightarrow> False"

definition pickUnit :: "jnum \<Rightarrow> unit_choice" where
  "pickUnit maxBytes =
     (if at_least (1024 * 1024 * 1024) maxBytes
      then \<lparr>uc_label = js ''GB'', uc_divisor = 1024 * 1024 * 1024, uc_decimals = 2\<rparr>
      else if at_least (1024 * 1024) maxBytes
      then \<lparr>uc_label = js ''MB'', uc_divisor = 1024 * 1024, uc_decimals = 2\<rparr>
      else if at_least 1024 maxBytes then \<lparr>uc_label = js ''KB'', uc_divisor = 1024, uc_decimals = 2\<rparr>
      else \<lparr>uc_label = js ''B'', uc_divisor = 1, uc_decimals = 0\<rparr>)"

text \<open>\<open>Math.max\<close>: \<open>NaN\<close> as soon as one is.\<close>

fun num_max :: "jnum \<Rightarrow> jnum \<Rightarrow> jnum" where
  "num_max NaN _ = NaN"
| "num_max _ NaN = NaN"
| "num_max (Fin a) (Fin b) = Fin (max a b)"
| "num_max PosInf _ = PosInf"
| "num_max _ PosInf = PosInf"
| "num_max NegInf n = n"
| "num_max n NegInf = n"

section \<open>The series\<close>

fun array_or_empty :: "jsval \<Rightarrow> jsval list" where
  "array_or_empty (JArr vs) = vs"
| "array_or_empty _ = []"

definition item_at :: "jsval \<Rightarrow> nat \<Rightarrow> jsval" where
  "item_at v i = (if i < length (array_or_empty v) then array_or_empty v ! i else JUndef)"

definition chart_devices :: "jsval \<Rightarrow> jstr list" where
  "chart_devices chart = map to_string (array_or_empty (jfield chart ''devices''))"

text \<open>\<open>Number(series[dev]?.[idx] || 0)\<close>.\<close>

definition amount_at :: "jsval \<Rightarrow> nat \<Rightarrow> jstr \<Rightarrow> jnum" where
  "amount_at chart i dev = to_number (or_else (item_at (jget (jfield chart ''series'') dev) i) (jint 0))"

definition totalBytesByTs :: "jsval \<Rightarrow> jnum list" where
  "totalBytesByTs chart =
     map (\<lambda>i. num_sum (map (amount_at chart i) (chart_devices chart)))
       [0..<length (array_or_empty (jfield chart ''timestamps''))]"

definition displayTimestamps :: "local_dates \<Rightarrow> jstr \<Rightarrow> jsval \<Rightarrow> jstr list" where
  "displayTimestamps date_of rng chart =
     (let ts = array_or_empty (jfield chart ''timestamps'') in
      map (\<lambda>i. formatTrafficAxisTime date_of rng (item_at (jfield chart ''period_starts'') i) (text_or_empty (ts ! i)))
        [0..<length ts])"

datatype panel_mode = GlobalPanel | DevicePanel

fun positive :: "jnum \<Rightarrow> bool" where
  "positive (Fin r) \<longleftrightarrow> 0 < r"
| "positive PosInf \<longleftrightarrow> True"
| "positive _ \<longleftrightarrow> False"

definition hasChartData :: "panel_mode \<Rightarrow> jsval \<Rightarrow> bool" where
  "hasChartData mode chart \<longleftrightarrow>
     truthy chart \<and> array_or_empty (jfield chart ''timestamps'') \<noteq> [] \<and>
     (mode = DevicePanel \<or> chart_devices chart \<noteq> []) \<and> list_ex positive (totalBytesByTs chart)"

definition deviceSeriesName :: "jsval \<Rightarrow> jsval \<Rightarrow> jstr" where
  "deviceSeriesName deviceLabel chart =
     (let l = trim (text_or_empty deviceLabel) in
      if l \<noteq> [] then l
      else case chart_devices chart of d # _ \<Rightarrow> if d \<noteq> [] then d else tx_current_device | [] \<Rightarrow> tx_current_device)"

definition chart_unit :: "jsval \<Rightarrow> unit_choice" where
  "chart_unit chart = pickUnit (foldl num_max (Fin 0) (totalBytesByTs chart))"

text \<open>The lines of the chart, by name: in the global mode the total and then each device.\<close>

definition total_series :: "jsval \<Rightarrow> jnum list" where
  "total_series chart = map (\<lambda>v. num_div v (uc_divisor (chart_unit chart))) (totalBytesByTs chart)"

definition device_series :: "jsval \<Rightarrow> jstr \<Rightarrow> jnum list" where
  "device_series chart dev =
     map (\<lambda>v. num_div (to_number (or_else v (jint 0))) (uc_divisor (chart_unit chart)))
       (array_or_empty (jget (jfield chart ''series'') dev))"

definition chart_lines :: "panel_mode \<Rightarrow> jsval \<Rightarrow> jsval \<Rightarrow> (jstr \<times> jnum list) list" where
  "chart_lines mode deviceLabel chart =
     (case mode of
        DevicePanel \<Rightarrow> [(deviceSeriesName deviceLabel chart, total_series chart)]
      | GlobalPanel \<Rightarrow>
          (tx_total_traffic, total_series chart) # map (\<lambda>d. (d, device_series chart d)) (chart_devices chart))"

section \<open>The tooltip\<close>

text \<open>The points the chart library passes: the line's name and the value at the pointer.\<close>

type_synonym tooltip_item = "jstr \<times> jsval"

definition item_value :: "tooltip_item \<Rightarrow> jnum" where
  "item_value p = num_or_zero (to_number (snd p))"

record tooltip =
  tt_total :: jnum
  tt_rows :: "(jstr \<times> jnum) list"
  tt_others :: "(nat \<times> jnum) option"

definition global_tooltip :: "tooltip_item list \<Rightarrow> tooltip" where
  "global_tooltip its =
     (let total = find (\<lambda>p. fst p = tx_total_traffic) its;
          devs = js_sort (\<lambda>a b. num_greater (item_value b) (item_value a))
                   (filter (\<lambda>p. fst p \<noteq> tx_total_traffic) its);
          others = drop 6 devs
      in \<lparr>tt_total = (case total of None \<Rightarrow> Fin 0 | Some p \<Rightarrow> item_value p),
          tt_rows = map (\<lambda>p. (fst p, item_value p)) (take 6 devs),
          tt_others = (if others = [] then None else Some (length others, num_sum (map item_value others)))\<rparr>)"

definition amount_text :: "unit_choice \<Rightarrow> jnum \<Rightarrow> jstr" where
  "amount_text u v = toFixed (uc_decimals u) v @ js '' '' @ uc_label u"

text \<open>In the mode of one device: its name and the value.\<close>

definition device_tooltip :: "jstr \<Rightarrow> tooltip_item list \<Rightarrow> jstr \<times> jnum" where
  "device_tooltip name its = (name, case its of [] \<Rightarrow> Fin 0 | p # _ \<Rightarrow> item_value p)"

text \<open>The first line: the time of the first point.\<close>

definition tooltip_time :: "local_dates \<Rightarrow> jstr \<Rightarrow> jsval \<Rightarrow> nat option \<Rightarrow> jsval \<Rightarrow> jsval" where
  "tooltip_time date_of rng chart dataIndex axisLabel =
     formatTrafficTooltipTime date_of rng
       (case dataIndex of None \<Rightarrow> JUndef | Some i \<Rightarrow> item_at (jfield chart ''period_starts'') i)
       (if_nullish axisLabel (JStr []))"

section \<open>Loading the chart module\<close>

text \<open>
  Every run of \<open>ensureChartLoaded\<close> is a waiter: its attempt and the import it awaits, or it
  sleeps before its second attempt. Imports are numbered; several waiters may share one.
\<close>

record chart_loader =
  cl_component :: bool
  cl_error :: "jstr option"
  cl_loading :: bool
  cl_promise :: "nat option"
  cl_imports :: "nat list"
  cl_next :: nat
  cl_waiting :: "(nat \<times> nat) list"
  cl_sleeping :: nat

definition initial_loader :: chart_loader where
  "initial_loader = \<lparr>cl_component = False, cl_error = None, cl_loading = False, cl_promise = None,
     cl_imports = [], cl_next = 0, cl_waiting = [], cl_sleeping = 0\<rparr>"

definition formatChartLoadError :: "exn \<Rightarrow> jstr" where
  "formatChartLoadError err =
     (case err of
        AxiosErr e \<Rightarrow> ax_name e @ js '': '' @ ax_message e
      | NativeErr name message stack \<Rightarrow> name @ js '': '' @ message
      | Thrown (JStr t) \<Rightarrow> t
      | Thrown v \<Rightarrow> (case stringify v of None \<Rightarrow> tx_chart_failed | Some t \<Rightarrow> if t = [] then tx_chart_failed else t))"

definition chunk_load_patterns :: "jstr list" where
  "chunk_load_patterns = map js [''loading chunk'', ''chunkloaderror'', ''dynamically imported module'',
     ''importing a module script failed'', ''failed to fetch dynamically imported module'']"

definition isChunkLoadLikeError :: "exn \<Rightarrow> bool" where
  "isChunkLoadLikeError err =
     (let msg = (case err of AxiosErr e \<Rightarrow> ax_message e | NativeErr name message stack \<Rightarrow> message
                 | Thrown (JStr t) \<Rightarrow> t | Thrown v \<Rightarrow> [])
      in list_ex (str_includes (to_lower msg)) chunk_load_patterns)"

text \<open>An import that is no longer under way has succeeded, since one that fails is forgotten.\<close>

definition load_attempt :: "nat \<Rightarrow> chart_loader \<Rightarrow> chart_loader" where
  "load_attempt n s =
     (case cl_promise s of
        Some p \<Rightarrow>
          if p \<in> set (cl_imports s) then s\<lparr>cl_waiting := cl_waiting s @ [(n, p)]\<rparr>
          else s\<lparr>cl_loading := False\<rparr>
      | None \<Rightarrow>
          s\<lparr>cl_loading := True, cl_error := None, cl_promise := Some (cl_next s),
            cl_imports := cl_imports s @ [cl_next s], cl_next := Suc (cl_next s),
            cl_waiting := cl_waiting s @ [(n, cl_next s)]\<rparr>)"

definition ensureChartLoaded :: "chart_loader \<Rightarrow> chart_loader" where
  "ensureChartLoaded s = (if cl_component s then s else load_attempt 1 s)"

text \<open>One waiter of an import that failed goes on.\<close>

definition waiter_fails :: "exn \<Rightarrow> nat \<Rightarrow> chart_loader \<Rightarrow> chart_loader" where
  "waiter_fails err n s =
     (let s1 = s\<lparr>cl_promise := None\<rparr> in
      if n < 2 \<and> isChunkLoadLikeError err then s1\<lparr>cl_sleeping := Suc (cl_sleeping s1)\<rparr>
      else s1\<lparr>cl_error := Some (formatChartLoadError err), cl_loading := False\<rparr>)"

text \<open>The watcher of the chart's options runs, the user retries, an import ends, a pause is over.\<close>

datatype chart_event = ChartNeeded | ChartRetry | ImportEnds nat "exn option" | PauseOver

fun chart_step :: "chart_event \<Rightarrow> chart_loader \<Rightarrow> chart_loader" where
  "chart_step ChartNeeded s =
     (if \<not> cl_component s \<and> cl_error s = None then ensureChartLoaded s else s)"
| "chart_step ChartRetry s = ensureChartLoaded (s\<lparr>cl_error := None, cl_promise := None\<rparr>)"
| "chart_step (ImportEnds p r) s =
     (if p \<notin> set (cl_imports s) then s
      else
        let ws = map fst (filter (\<lambda>w. snd w = p) (cl_waiting s));
            s1 = s\<lparr>cl_imports := filter (\<lambda>q. q \<noteq> p) (cl_imports s),
                   cl_waiting := filter (\<lambda>w. snd w \<noteq> p) (cl_waiting s)\<rparr>
        in case r of
             None \<Rightarrow> (if ws = [] then s1 else s1\<lparr>cl_loading := False\<rparr>)\<lparr>cl_component := True\<rparr>
           | Some err \<Rightarrow> fold (waiter_fails err) ws s1)"
| "chart_step PauseOver s =
     (if cl_sleeping s = 0 then s else load_attempt 2 (s\<lparr>cl_sleeping := cl_sleeping s - 1\<rparr>))"

section \<open>Facts on the series\<close>

lemma num_sum_Fin: "num_sum (map (\<lambda>x. Fin (g x)) xs) = Fin (sum_list (map g xs))"
proof -
  have "foldl num_add (Fin a) (map (\<lambda>x. Fin (g x)) xs) = Fin (a + sum_list (map g xs))" for a
    by (induction xs arbitrary: a) (simp_all add: add.assoc)
  then show ?thesis by (simp add: num_sum_def)
qed

lemma num_sum_map: "(\<And>x. x \<in> set xs \<Longrightarrow> h x = Fin (g x)) \<Longrightarrow> num_sum (map h xs) = Fin (sum_list (map g xs))"
  using num_sum_Fin [of g xs] by (metis map_cong)

lemma sum_of_mset:
  fixes v :: "'a \<Rightarrow> rat"
  assumes "mset xs = mset ys"
  shows "sum_list (map v xs) = sum_list (map v ys)"
  using arg_cong [OF assms, of "\<lambda>m. sum_mset (image_mset v m)"] by (simp flip: sum_mset_sum_list)

text \<open>The points at a place of the chart, as the library passes them: a line too short has none there.\<close>

definition points_at :: "nat \<Rightarrow> (jstr \<times> jnum list) list \<Rightarrow> tooltip_item list" where
  "points_at i ls = map (\<lambda>(n, vs). (n, if i < length vs then JNum (vs ! i) else JUndef)) ls"

fun rat_of :: "jnum \<Rightarrow> rat" where
  "rat_of (Fin r) = r"
| "rat_of _ = 0"

lemma num_greater_Fin: "num_greater (Fin a) (Fin b) \<longleftrightarrow> b < a" by simp

lemma device_point:
  assumes "amount_at chart i d = Fin r"
  shows "item_value (d, if i < length (device_series chart d) then JNum (device_series chart d ! i) else JUndef) =
    Fin (r / uc_divisor (chart_unit chart))"
  using assms
  by (cases "i < length (array_or_empty (jget (jfield chart ''series'') d))")
    (auto simp: item_value_def device_series_def amount_at_def item_at_def or_else_def)

lemma total_point:
  assumes "i < length (array_or_empty (jfield chart ''timestamps''))"
    and "\<And>d. d \<in> set (chart_devices chart) \<Longrightarrow> amount_at chart i d = Fin (r d)"
  shows "i < length (total_series chart) \<and> total_series chart ! i =
    Fin (sum_list (map (\<lambda>d. r d / uc_divisor (chart_unit chart)) (chart_devices chart)))"
proof -
  have "num_sum (map (amount_at chart i) (chart_devices chart)) = Fin (sum_list (map r (chart_devices chart)))"
    by (rule num_sum_map) (rule assms(2))
  moreover have "sum_list (map r ds) / c = sum_list (map (\<lambda>d. r d / c) ds)" for ds :: "jstr list" and c
    by (induction ds) (simp_all add: add_divide_distrib)
  ultimately show ?thesis
    using assms(1) by (simp add: total_series_def totalBytesByTs_def)
qed

lemma points_of_devices:
  "points_at i (chart_lines GlobalPanel lb chart) =
   (tx_total_traffic, if i < length (total_series chart) then JNum (total_series chart ! i) else JUndef) #
   map (\<lambda>d. (d, if i < length (device_series chart d) then JNum (device_series chart d ! i) else JUndef))
     (chart_devices chart)"
  by (simp add: points_at_def chart_lines_def)

section \<open>Facts on loading\<close>

definition loader_ok :: "chart_loader \<Rightarrow> bool" where
  "loader_ok s \<longleftrightarrow>
     (cl_loading s \<longrightarrow> cl_waiting s \<noteq> [] \<or> 0 < cl_sleeping s) \<and>
     (\<forall>w \<in> set (cl_waiting s). fst w \<in> {1, 2} \<and> snd w \<in> set (cl_imports s)) \<and>
     (\<forall>q \<in> set (cl_imports s). q < cl_next s) \<and>
     (case cl_promise s of None \<Rightarrow> True
      | Some p \<Rightarrow> if p \<in> set (cl_imports s) then p \<in> snd ` set (cl_waiting s) else cl_component s) \<and>
     (0 < cl_next s \<longrightarrow> cl_component s \<or> cl_error s \<noteq> None \<or> cl_waiting s \<noteq> [] \<or> 0 < cl_sleeping s)"

lemma waiters_fail:
  "fold (waiter_fails err) ws s =
     (if ws = [] then s else
        s\<lparr>cl_promise := None,
          cl_sleeping := cl_sleeping s + length (filter (\<lambda>n. n < 2 \<and> isChunkLoadLikeError err) ws),
          cl_error := (if list_all (\<lambda>n. n < 2 \<and> isChunkLoadLikeError err) ws then cl_error s
                       else Some (formatChartLoadError err)),
          cl_loading := (if list_all (\<lambda>n. n < 2 \<and> isChunkLoadLikeError err) ws then cl_loading s else False)\<rparr>)"
  by (induction ws arbitrary: s) (auto simp: waiter_fails_def Let_def)

lemma load_attempt_ok:
  assumes "loader_ok (s\<lparr>cl_sleeping := cl_sleeping s + k\<rparr>)" and "n \<in> {1, 2}"
  shows "loader_ok (load_attempt n s)"
  using assms by (force simp: loader_ok_def load_attempt_def split: option.splits if_splits)

lemma chart_step_ok: "loader_ok s \<Longrightarrow> loader_ok (chart_step e s)"
proof (cases e)
  case ChartNeeded
  then show "loader_ok s \<Longrightarrow> ?thesis"
    using load_attempt_ok [of s 0 1] by (simp add: ensureChartLoaded_def)
next
  case ChartRetry
  assume "loader_ok s"
  then show ?thesis
    using ChartRetry by (auto simp: ensureChartLoaded_def load_attempt_def loader_ok_def split: option.splits if_splits)
next
  case PauseOver
  assume "loader_ok s"
  then show ?thesis
    using PauseOver load_attempt_ok [of "s\<lparr>cl_sleeping := cl_sleeping s - 1\<rparr>" 1 2] by (auto simp: ensureChartLoaded_def)
next
  case (ImportEnds p r)
  assume "loader_ok s"
  then show ?thesis
    using ImportEnds by (cases r) (auto simp: loader_ok_def waiters_fail Let_def filter_empty_conv list_all_iff split: option.splits if_splits)
qed

text \<open>The tooltip of a total and the points of devices with finite values.\<close>

lemma tooltip_of:
  fixes v :: "tooltip_item \<Rightarrow> rat" and w :: jsval and ps :: "tooltip_item list"
  assumes "\<And>x. x \<in> set ps \<Longrightarrow> item_value x = Fin (v x) \<and> fst x \<noteq> tx_total_traffic"
  defines "t \<equiv> global_tooltip ((tx_total_traffic, w) # ps)"
  defines "devs \<equiv> js_sort (\<lambda>a b. num_greater (item_value b) (item_value a)) ps"
  shows "mset devs = mset ps \<and> tt_total t = item_value (tx_total_traffic, w) \<and>
    tt_rows t = map (\<lambda>x. (fst x, Fin (v x))) (take 6 devs) \<and>
    tt_others t = (if drop 6 devs = [] then None
                   else Some (length (drop 6 devs), Fin (sum_list (map v (drop 6 devs))))) \<and>
    sorted (map v (rev (take 6 devs))) \<and>
    (\<forall>x \<in> set (drop 6 devs). \<forall>y \<in> set (take 6 devs). v x \<le> v y)"
proof (intro conjI)
  show m: "mset devs = mset ps" by (simp add: devs_def)
  have val: "x \<in> set devs \<Longrightarrow> item_value x = Fin (v x)" for x
    using mset_eq_setD [OF m] assms(1) by blast
  have f: "filter (\<lambda>x. fst x \<noteq> tx_total_traffic) ps = ps" using assms(1) by (simp add: filter_id_conv)
  show "tt_total t = item_value (tx_total_traffic, w)" by (simp add: t_def global_tooltip_def Let_def)
  show "tt_rows t = map (\<lambda>x. (fst x, Fin (v x))) (take 6 devs)"
    using val by (auto simp: t_def global_tooltip_def Let_def f devs_def [symmetric] dest: in_set_takeD)
  show "tt_others t = (if drop 6 devs = [] then None
           else Some (length (drop 6 devs), Fin (sum_list (map v (drop 6 devs)))))"
    using num_sum_map [of "drop 6 devs" item_value v] val
    by (auto simp: t_def global_tooltip_def Let_def f devs_def [symmetric] dest: in_set_dropD)
  have "sorted (map v (rev devs))"
    unfolding devs_def by (rule js_sort_descending) (simp add: assms(1))
  moreover have "rev devs = rev (drop 6 devs) @ rev (take 6 devs)"
    by (metis append_take_drop_id rev_append)
  ultimately have s: "sorted (map v (rev (drop 6 devs)) @ map v (rev (take 6 devs)))" by simp
  then show "sorted (map v (rev (take 6 devs)))" by (simp add: sorted_append)
  show "\<forall>x \<in> set (drop 6 devs). \<forall>y \<in> set (take 6 devs). v x \<le> v y"
    using s by (auto simp: sorted_append)
qed

lemma tooltip_accounts:
  fixes v :: "tooltip_item \<Rightarrow> rat" and w :: jsval and ps :: "tooltip_item list"
  assumes "\<And>x. x \<in> set ps \<Longrightarrow> item_value x = Fin (v x) \<and> fst x \<noteq> tx_total_traffic"
    and total: "item_value (tx_total_traffic, w) = Fin (sum_list (map v ps))"
  defines "t \<equiv> global_tooltip ((tx_total_traffic, w) # ps)"
  defines "rest \<equiv> (case tt_others t of None \<Rightarrow> (0, Fin 0) | Some x \<Rightarrow> x)"
  shows "length (tt_rows t) \<le> 6 \<and> length (tt_rows t) + fst rest = length ps \<and>
    sorted (map (rat_of \<circ> snd) (rev (tt_rows t))) \<and>
    tt_total t = num_add (num_sum (map snd (tt_rows t))) (snd rest) \<and>
    (\<exists>others. mset (map fst (tt_rows t) @ map fst others) = mset (map fst ps) \<and> set others \<subseteq> set ps \<and>
      (\<forall>x \<in> set others. \<forall>row \<in> set (tt_rows t). v x \<le> rat_of (snd row)))"
proof -
  define devs where "devs = js_sort (\<lambda>a b. num_greater (item_value b) (item_value a)) ps"
  define top bot where "top = take 6 devs" and "bot = drop 6 devs"
  note T = tooltip_of [of ps v w, OF assms(1), folded t_def devs_def top_def bot_def]
  have m: "mset devs = mset ps" using T by blast
  have devs: "devs = top @ bot" by (simp add: top_def bot_def)
  have rest: "rest = (length bot, Fin (sum_list (map v bot)))" using T by (simp add: rest_def)
  have rows: "tt_rows t = map (\<lambda>x. (fst x, Fin (v x))) top" using T by blast
  have "length top \<le> 6" by (simp add: top_def)
  moreover have "length top + length bot = length ps"
    using mset_eq_length [OF m] by (simp add: devs)
  moreover have "sum_list (map v ps) = sum_list (map v top) + sum_list (map v bot)"
    using sum_of_mset [OF m, of v] by (simp add: devs)
  moreover have "mset (map fst top @ map fst bot) = mset (map fst ps)"
    using arg_cong [OF m, of "image_mset fst"] by (simp add: devs)
  moreover have "set bot \<subseteq> set ps" using mset_eq_setD [OF m] by (auto simp: devs)
  moreover have "num_sum (map (\<lambda>x. Fin (v x)) top) = Fin (sum_list (map v top))" by (rule num_sum_Fin)
  ultimately show ?thesis
    using T total by (auto simp: rest rows o_def rev_map intro!: exI [of _ bot])
qed

section \<open>Properties\<close>


definition example_chart :: jsval where
  "example_chart = obj [(''timestamps'', JArr [jlit ''t'']), (''devices'', JArr [jlit ''a'', jlit ''b'']),
     (''series'', obj [(''a'', JArr [jint 5]), (''b'', JArr [jint 3])])]"

definition example_amount :: "jstr \<Rightarrow> rat" where
  "example_amount d = (if d = js ''a'' then 5 else 3)"


interpretation charts: free_system "\<lambda>s e. chart_step e s" loader_ok
  by unfold_locales (rule chart_step_ok)

text \<open>However the chart is asked for, retried and its imports end, loading never gets stuck: once it
  was asked for, the chart is there, or an error is shown, or some run is still at work; the mark of
  loading is on only while a run is at work; and each run awaits an import that is under way, its first
  or its second.\<close>

lemma chart_load_ends:
  "let s = fold chart_step es initial_loader in
   (0 < cl_next s \<longrightarrow> cl_component s \<or> cl_error s \<noteq> None \<or> cl_waiting s \<noteq> [] \<or> 0 < cl_sleeping s) \<and>
   (cl_loading s \<longrightarrow> cl_waiting s \<noteq> [] \<or> 0 < cl_sleeping s) \<and>
   (\<forall>w \<in> set (cl_waiting s). fst w \<in> {1, 2} \<and> snd w \<in> set (cl_imports s))"
proof -
  have "loader_ok initial_loader" by (simp add: loader_ok_def initial_loader_def)
  then have "loader_ok (fold chart_step es initial_loader)" by (rule charts.fold_always)
  then show ?thesis by (auto simp: loader_ok_def Let_def)
qed

lemma chart_load_ends_example:
  "let s = fold chart_step
       [ChartNeeded, ImportEnds 0 (Some (NativeErr [] (js ''Loading chunk 3'') None)), PauseOver,
        ImportEnds 1 (Some (NativeErr [] (js ''Loading chunk 3'') None))] initial_loader
   in cl_error s \<noteq> None \<and> \<not> cl_loading s"
proof -
  let ?s = "fold chart_step
       [ChartNeeded, ImportEnds 0 (Some (NativeErr [] (js ''Loading chunk 3'') None)), PauseOver,
        ImportEnds 1 (Some (NativeErr [] (js ''Loading chunk 3'') None))] initial_loader"
  have "\<not> cl_component ?s \<and> cl_waiting ?s = [] \<and> cl_sleeping ?s = 0 \<and> 0 < cl_next ?s" by code_simp
  then show ?thesis
    using chart_load_ends [of "[ChartNeeded, ImportEnds 0 (Some (NativeErr [] (js ''Loading chunk 3'') None)), PauseOver,
        ImportEnds 1 (Some (NativeErr [] (js ''Loading chunk 3'') None))]"]
    by (simp add: Let_def del: chart_step.simps fold_simps)
qed

end
