(* ===== verification/Websheet.thy ===== *)
theory Websheet
  imports Bridge
begin

text \<open>
  The dialog that shows a carrier's web sheet (\<open>components/CarrierWebsheetDialog.vue\<close>) and
  its conversation with the script in the sheet (\<open>Bridge\<close>). \<open>query_token\<close> is how the
  browser reads the \<open>token\<close> of an address (None: no valid address); the parent component
  closes the dialog when it is told to.
\<close>

section \<open>The dialog\<close>

datatype sheet_request = RelayCallback jstr jsval | ReportDone jstr

record sheet_dialog =
  sd_open :: bool
  sd_websheet :: "(jstr \<times> jstr) option"
  sd_loaded :: bool
  sd_completing :: bool
  sd_requests :: "sheet_request list"
  sd_done :: nat

definition shown_sheet :: "jstr \<Rightarrow> jstr \<Rightarrow> sheet_dialog" where
  "shown_sheet ident url = \<lparr>sd_open = True, sd_websheet = Some (ident, url), sd_loaded = False,
     sd_completing = False, sd_requests = [], sd_done = 0\<rparr>"

definition sheet_id :: "sheet_dialog \<Rightarrow> jstr" where
  "sheet_id s = (case sd_websheet s of None \<Rightarrow> [] | Some w \<Rightarrow> fst w)"

definition iframeSrc :: "sheet_dialog \<Rightarrow> jstr" where
  "iframeSrc s = (case sd_websheet s of None \<Rightarrow> [] | Some w \<Rightarrow> snd w)"

definition websheetToken :: "(jstr \<Rightarrow> jstr option) \<Rightarrow> sheet_dialog \<Rightarrow> jstr" where
  "websheetToken query_token s =
     (if iframeSrc s = [] then [] else case query_token (iframeSrc s) of None \<Rightarrow> [] | Some t \<Rightarrow> t)"

text \<open>Another sheet is shown.\<close>

definition on_websheet :: "(jstr \<times> jstr) option \<Rightarrow> sheet_dialog \<Rightarrow> sheet_dialog" where
  "on_websheet w s =
     (let s1 = s\<lparr>sd_websheet := w\<rparr> in
      if map_option fst w \<noteq> map_option fst (sd_websheet s) then s1\<lparr>sd_loaded := False\<rparr> else s1)"

text \<open>A failure of the request is only logged.\<close>

definition sendCallback :: "jsval \<Rightarrow> sheet_dialog \<Rightarrow> sheet_dialog" where
  "sendCallback callback s =
     (if sheet_id s = [] \<or> \<not> is_object callback then s
      else s\<lparr>sd_requests := sd_requests s @ [RelayCallback (sheet_id s) callback]\<rparr>)"

text \<open>Telling the parent, which closes the dialog.\<close>

definition sheet_done :: "sheet_dialog \<Rightarrow> sheet_dialog" where
  "sheet_done s = s\<lparr>sd_done := Suc (sd_done s), sd_open := False, sd_completing := False\<rparr>"

definition completeWebsheet :: "sheet_dialog \<Rightarrow> sheet_dialog" where
  "completeWebsheet s =
     (if sd_completing s then s
      else if sheet_id s = [] then sheet_done s
      else s\<lparr>sd_completing := True, sd_requests := sd_requests s @ [ReportDone (sheet_id s)]\<rparr>)"

text \<open>The server has answered, or the request failed.\<close>

definition on_done_answer :: "sheet_dialog \<Rightarrow> sheet_dialog" where
  "on_done_answer s = (if sd_completing s then sheet_done s else s)"

definition isTerminalCallback :: "jsval \<Rightarrow> bool" where
  "isTerminalCallback callback \<longleftrightarrow>
     \<not> is_object callback \<or>
     (let v = to_lower (to_string (if_nullish (jfield callback ''event'')
                (if_nullish (jfield callback ''method'') (if_nullish (jfield callback ''resultCode'') (JStr [])))))
      in v = [] \<or> \<not> str_includes v (js ''phoneservicesaccountstatuschanged''))"

definition isCurrentWebsheetMessage :: "(jstr \<Rightarrow> jstr option) \<Rightarrow> sheet_dialog \<Rightarrow> jsval \<Rightarrow> bool" where
  "isCurrentWebsheetMessage query_token s data \<longleftrightarrow>
     is_object data \<and> jfield data ''type'' = jlit ''vohive-websheet-callback'' \<and>
     (let current = websheetToken query_token s;
          incoming = (case jfield data ''token'' of JStr t \<Rightarrow> t | _ \<Rightarrow> [])
      in current = [] \<or> incoming = [] \<or> incoming = current)"

definition handleShellMessage :: "(jstr \<Rightarrow> jstr option) \<Rightarrow> jsval \<Rightarrow> sheet_dialog \<Rightarrow> sheet_dialog" where
  "handleShellMessage query_token data s =
     (if \<not> sd_open s \<or> \<not> isCurrentWebsheetMessage query_token s data then s
      else if isTerminalCallback (jfield data ''callback'') then completeWebsheet s
      else sendCallback (jfield data ''callback'') s)"

text \<open>A change of the storage: its key and new value.\<close>

definition onStorage ::
    "(jstr \<Rightarrow> jstr option) \<Rightarrow> (jstr \<Rightarrow> jsval outcome) \<Rightarrow> jstr \<Rightarrow> jstr \<Rightarrow> sheet_dialog \<Rightarrow> sheet_dialog" where
  "onStorage query_token parse key newValue s =
     (if key \<noteq> shellStorageKey \<or> newValue = [] then s
      else case parse newValue of Inl _ \<Rightarrow> s | Inr d \<Rightarrow> handleShellMessage query_token d s)"

section \<open>Behaviour worth noting\<close>

text \<open>A message needs no token: any window that can post to the page ends the sheet.\<close>

lemma forged_message_completes:
  "sd_open s \<Longrightarrow> handleShellMessage qt (JObj [(js ''type'', jlit ''vohive-websheet-callback'')]) s = completeWebsheet s"
  by (simp add: handleShellMessage_def isCurrentWebsheetMessage_def isTerminalCallback_def js_def)

section \<open>What the script in the sheet posts\<close>

lemma post_shell:
  "br_shell (post en parse now nonce al b) = br_shell b @
     [(ShellParent, JObj (shellMessage en (payload_sent en now al)))] @
     (if be_nested en then [(ShellTop, JObj (shellMessage en (payload_sent en now al)))] else []) @
     [(ShellChannel, JObj (shellMessage en (payload_sent en now al)))]"
  by (simp add: post_def send_callback_def notifyShell_def dispatch_event_def Let_def split: option.split jsval.split)

lemma shell_message_current:
  assumes "websheetToken qt s \<in> {be_token en, []}"
  shows "isCurrentWebsheetMessage qt s (JObj (shellMessage en p @ ms))"
  using assms by (auto simp: isCurrentWebsheetMessage_def shellMessage_def js_def)

lemma shell_message_handled:
  assumes "sd_open s" and "websheetToken qt s \<in> {be_token en, []}"
  shows "handleShellMessage qt (JObj (shellMessage en p @ ms)) s =
    (if isTerminalCallback p then completeWebsheet s else sendCallback p s)"
  using assms shell_message_current [OF assms(2)]
  by (simp add: handleShellMessage_def shellMessage_def js_def)

section \<open>Runs\<close>

text \<open>A message from a window or the channel, a change of the storage, an answer to the report.\<close>

datatype sheet_event = ShellMessage jsval | StorageChange jstr jstr | DoneAnswered

definition sheet_step ::
    "(jstr \<Rightarrow> jstr option) \<Rightarrow> (jstr \<Rightarrow> jsval outcome) \<Rightarrow> sheet_event \<Rightarrow> sheet_dialog \<Rightarrow> sheet_dialog" where
  "sheet_step query_token parse e s =
     (case e of
        ShellMessage d \<Rightarrow> handleShellMessage query_token d s
      | StorageChange k v \<Rightarrow> onStorage query_token parse k v s
      | DoneAnswered \<Rightarrow> on_done_answer s)"

definition reports :: "sheet_dialog \<Rightarrow> sheet_request list" where
  "reports s = filter (\<lambda>r. case r of ReportDone _ \<Rightarrow> True | RelayCallback _ _ \<Rightarrow> False) (sd_requests s)"

definition sheet_ok :: "jstr \<Rightarrow> jstr \<Rightarrow> sheet_dialog \<Rightarrow> bool" where
  "sheet_ok ident url s \<longleftrightarrow>
     sd_websheet s = Some (ident, url) \<and>
     reports s = (if sd_open s \<and> \<not> sd_completing s then [] else [ReportDone ident]) \<and>
     sd_done s = (if sd_open s then 0 else 1) \<and> (sd_completing s \<longrightarrow> sd_open s)"

lemma message_ok: "\<lbrakk>ident \<noteq> []; sheet_ok ident url s\<rbrakk> \<Longrightarrow> sheet_ok ident url (handleShellMessage qt d s)"
  by (auto simp: sheet_ok_def handleShellMessage_def completeWebsheet_def sendCallback_def sheet_id_def reports_def
      split: if_splits)

lemma sheet_step_ok: "\<lbrakk>ident \<noteq> []; sheet_ok ident url s\<rbrakk> \<Longrightarrow> sheet_ok ident url (sheet_step qt parse e s)"
proof (cases e)
  case DoneAnswered
  then show "sheet_ok ident url s \<Longrightarrow> ?thesis"
    by (auto simp: sheet_step_def on_done_answer_def sheet_done_def sheet_ok_def reports_def split: if_splits)
qed (auto simp: sheet_step_def onStorage_def message_ok split: sum.split)

interpretation sheets: free_system "\<lambda>s e. sheet_step qt parse e s" "\<lambda>s. ident \<noteq> [] \<and> sheet_ok ident url s" for qt parse ident url
  by unfold_locales (simp add: sheet_step_ok)

lemma sheet_run_ok: "\<lbrakk>ident \<noteq> []; sheet_ok ident url s\<rbrakk> \<Longrightarrow> sheet_ok ident url (fold (sheet_step qt parse) es s)"
  using sheets.fold_always by blast

section \<open>Property\<close>

text \<open>C24. The dialog and the script in the sheet agree on one completion: whatever messages, storage
  changes and answers come, at most one report is sent, and the dialog closes exactly when the parent is
  told, once; and while it is open every message the script posts is understood: a terminal callback
  has the report sent (unless that is under way), any other is relayed to the server.\<close>

theorem sheet_completion_once:
  assumes "ident \<noteq> []" and "url \<noteq> []" and "query_token url = Some (be_token en)"
  shows "let s = fold (sheet_step query_token parse) es (shown_sheet ident url);
             p = payload_sent en now al
         in length (reports s) \<le> 1 \<and> sd_done s \<le> 1 \<and> (sd_open s \<longleftrightarrow> sd_done s = 0) \<and>
            (\<forall>(t, m) \<in> set (drop (length (br_shell b)) (br_shell (post en parse now nonce al b))).
               handleShellMessage query_token m s =
                 (if \<not> sd_open s then s
                  else if \<not> isTerminalCallback p then s\<lparr>sd_requests := sd_requests s @ [RelayCallback ident p]\<rparr>
                  else if sd_completing s then s
                  else s\<lparr>sd_completing := True, sd_requests := sd_requests s @ [ReportDone ident]\<rparr>))"
proof -
  define s where "s = fold (sheet_step query_token parse) es (shown_sheet ident url)"
  have "sheet_ok ident url (shown_sheet ident url)" by (simp add: sheet_ok_def shown_sheet_def reports_def)
  then have ok: "sheet_ok ident url s" unfolding s_def by (rule sheet_run_ok [OF assms(1)])
  then have tok: "websheetToken query_token s \<in> {be_token en, []}" and i: "sheet_id s = ident"
    using assms(2,3) by (simp_all add: sheet_ok_def websheetToken_def iframeSrc_def sheet_id_def)
  have obj: "\<not> isTerminalCallback (payload_sent en now al) \<Longrightarrow> is_object (payload_sent en now al)"
    by (simp add: isTerminalCallback_def)
  have "handleShellMessage query_token (JObj (shellMessage en (payload_sent en now al))) s =
      (if \<not> sd_open s then s
       else if \<not> isTerminalCallback (payload_sent en now al)
       then s\<lparr>sd_requests := sd_requests s @ [RelayCallback ident (payload_sent en now al)]\<rparr>
       else if sd_completing s then s
       else s\<lparr>sd_completing := True, sd_requests := sd_requests s @ [ReportDone ident]\<rparr>)"
    using shell_message_handled [OF _ tok, of "payload_sent en now al" "[]"] assms(1) obj
    by (simp add: completeWebsheet_def sendCallback_def i handleShellMessage_def)
  then show ?thesis
    using ok by (auto simp: Let_def s_def [symmetric] post_shell sheet_ok_def)
qed

definition example_sheet_env :: bridge_env where
  "example_sheet_env = \<lparr>be_callbackURL = js ''/cb'', be_prefix = [], be_token = js ''t0k'', be_href = [], be_nested = False\<rparr>"

theorem sheet_completion_once_witness:
  "let s = fold (sheet_step (\<lambda>_. Some (js ''t0k'')) (\<lambda>_. Inr JNull))
         [ShellMessage (JObj (shellMessage example_sheet_env (JObj att_payload))), DoneAnswered,
          ShellMessage (JObj (shellMessage example_sheet_env (JObj att_payload)))] (shown_sheet [49] [47])
   in length (reports s) \<le> 1 \<and> (sd_open s \<longleftrightarrow> sd_done s = 0)"
proof -
  have i: "[49 :: nat] \<noteq> []" and u: "[47 :: nat] \<noteq> []" by simp_all
  have t: "(\<lambda>_. Some (js ''t0k'')) [47] = Some (be_token example_sheet_env)" by (simp add: example_sheet_env_def)
  show ?thesis
    using sheet_completion_once [OF i u t, where parse = "\<lambda>_. Inr JNull"] unfolding Let_def by blast
qed

end
