(* ===== verification/DeviceTabs.thy ===== *)
theory DeviceTabs
  imports DevicesApi Notices Lifecycle Esim
begin

text \<open>
  Three tabs of a device: the USSD terminal (\<open>components/DeviceUssdTab.vue\<close>), the AT terminal
  (\<open>components/DeviceAtTab.vue\<close>) and what the overview derives from a device
  (\<open>components/DeviceOverviewTab.vue\<close>; classes of the style sheet are left out).
\<close>

section \<open>The USSD terminal\<close>

datatype ussd_kind = UssdReq | UssdRes | UssdErr | UssdSys

record ussd_entry =
  ue_ts :: int
  ue_kind :: ussd_kind
  ue_content :: jstr
  ue_dcs :: jsval
  ue_channel :: jsval

record ussd_tab =
  ut_cmd :: jstr
  ut_timeoutMs :: jnum
  ut_sending :: bool
  ut_sessionId :: jstr
  ut_sessionChannel :: jstr
  ut_history :: "ussd_entry list"

definition initial_ussd :: ussd_tab where
  "initial_ussd = \<lparr>ut_cmd = [], ut_timeoutMs = Fin 45000, ut_sending = False, ut_sessionId = [],
     ut_sessionChannel = [], ut_history = []\<rparr>"

definition isMultiRound :: "ussd_tab \<Rightarrow> bool" where
  "isMultiRound s \<longleftrightarrow> ut_sessionId s \<noteq> []"

definition inputPlaceholder :: "ussd_tab \<Rightarrow> jstr" where
  "inputPlaceholder s = (if isMultiRound s then tx_ussd_option else tx_ussd_example)"

definition endSession :: "ussd_tab \<Rightarrow> ussd_tab" where
  "endSession s = s\<lparr>ut_sessionId := [], ut_sessionChannel := []\<rparr>"

definition push_entry :: "int \<Rightarrow> ussd_kind \<Rightarrow> jstr \<Rightarrow> jsval \<Rightarrow> jsval \<Rightarrow> ussd_tab \<Rightarrow> ussd_tab" where
  "push_entry now kind content dcs channel s =
     s\<lparr>ut_history := ut_history s @ [\<lparr>ue_ts = now, ue_kind = kind, ue_content = content, ue_dcs = dcs,
        ue_channel = channel\<rparr>]\<rparr>"

definition ussd_timeout :: "ussd_tab \<Rightarrow> jsval" where
  "ussd_timeout s = or_else (JNum (ut_timeoutMs s)) (jint 45000)"

datatype ussd_call = StartUSSD jstr jsval | ContinueUSSD jstr jstr jsval

text \<open>What goes to the server for each.\<close>

definition ussd_call_result :: "http \<Rightarrow> jstr \<Rightarrow> ussd_call \<Rightarrow> ussd_reply service_result" where
  "ussd_call_result http dev c =
     (case c of
        StartUSSD cmd t \<Rightarrow> sendUSSD http dev (obj [(''command'', JStr cmd), (''timeout_ms'', t)])
      | ContinueUSSD sid cmd t \<Rightarrow>
          continueUSSD http dev (obj [(''session_id'', JStr sid), (''input'', JStr cmd), (''timeout_ms'', t)]))"

definition sendUSSD_start :: "int \<Rightarrow> ussd_tab \<Rightarrow> ussd_tab \<times> ussd_call option" where
  "sendUSSD_start now s =
     (let cmd = trim (ut_cmd s) in
      if cmd = [] then (s, None)
      else ((push_entry now UssdReq cmd JUndef JUndef s)\<lparr>ut_sending := True, ut_cmd := []\<rparr>,
            Some (if isMultiRound s then ContinueUSSD (ut_sessionId s) cmd (ussd_timeout s)
                  else StartUSSD cmd (ussd_timeout s))))"

definition reply_text :: "ussd_reply \<Rightarrow> jstr" where
  "reply_text d = to_string (or_else (us_text d) (or_else (us_rawText d) (JStr tx_empty_reply)))"

text \<open>Whether the network waits for another input.\<close>

definition reply_continues :: "ussd_reply \<Rightarrow> bool" where
  "reply_continues d \<longleftrightarrow> us_status d = jint 1 \<and> truthy (us_sessionId d)"

definition on_reply :: "int \<Rightarrow> ussd_reply \<Rightarrow> ussd_tab \<Rightarrow> ussd_tab" where
  "on_reply now d s =
     (let s1 = (if truthy (us_channel d) then s\<lparr>ut_sessionChannel := to_string (us_channel d)\<rparr> else s) in
      if us_status d = jint 5
      then endSession (push_entry now UssdErr (tx_network_unsupported @ reply_text d) (us_dcs d) (us_channel d) s1)
      else if us_status d = jint 2
      then endSession (push_entry now UssdErr (tx_network_ended @ reply_text d) (us_dcs d) (us_channel d) s1)
      else
        let s2 = push_entry now UssdRes (reply_text d) (us_dcs d) (us_channel d) s1 in
        if reply_continues d then s2\<lparr>ut_sessionId := to_string (us_sessionId d)\<rparr> else endSession s2)"

definition sendUSSD_finish :: "int \<Rightarrow> ussd_reply service_result \<Rightarrow> ussd_tab \<Rightarrow> ussd_tab" where
  "sendUSSD_finish now r s =
     (case r of
        Success d \<Rightarrow> on_reply now d s
      | Failure e \<Rightarrow>
          endSession (push_entry now UssdErr (error_text (ae_message e) tx_request_error) JUndef JUndef s))
     \<lparr>ut_sending := False\<rparr>"

text \<open>The service answers a result and never throws, so a failure counts like a success.\<close>

definition cancelSession_finish :: "int \<Rightarrow> bool service_result \<Rightarrow> ussd_tab \<Rightarrow> ussd_tab" where
  "cancelSession_finish now r s = endSession (push_entry now UssdSys tx_session_canceled JUndef JUndef s)"

definition ussd_clearHistory :: "ussd_tab \<Rightarrow> ussd_tab" where
  "ussd_clearHistory s = endSession (s\<lparr>ut_history := []\<rparr>)"

section \<open>The AT terminal\<close>

record at_entry =
  ae_ts :: int
  ae_cmd :: jstr
  ae_ok :: jsval
  ae_response :: jsval

record at_tab =
  at_cmd :: jstr
  at_timeoutMs :: jnum
  at_sending :: bool
  at_history :: "at_entry list"

definition hasATPort :: "jsval \<Rightarrow> bool" where
  "hasATPort atPort \<longleftrightarrow> trim (text_or_empty atPort) \<noteq> []"

definition canUseATTerminal :: "bool \<Rightarrow> jsval \<Rightarrow> bool" where
  "canUseATTerminal running atPort \<longleftrightarrow> running \<and> hasATPort atPort"

definition unavailableTitle :: "bool \<Rightarrow> jsval \<Rightarrow> jstr" where
  "unavailableTitle running atPort =
     (if \<not> running then tx_not_running else if \<not> hasATPort atPort then tx_no_at_port else tx_at_unavailable)"

definition unavailableDescription :: "bool \<Rightarrow> jsval \<Rightarrow> jstr \<Rightarrow> jstr" where
  "unavailableDescription running atPort backendMode =
     (if \<not> running then tx_not_running_hint
      else if \<not> hasATPort atPort \<and> backendMode = js ''qmi'' then tx_qmi_only_hint
      else if \<not> hasATPort atPort then tx_no_at_port_hint
      else tx_at_later_hint)"

definition on_template :: "jstr \<Rightarrow> at_tab \<Rightarrow> at_tab" where
  "on_template v s = (let cmd = trim v in if cmd \<noteq> [] then s\<lparr>at_cmd := cmd\<rparr> else s)"

definition sendAT_start :: "at_tab \<Rightarrow> at_tab \<times> (jstr \<times> jsval) option" where
  "sendAT_start s =
     (let cmd = trim (at_cmd s) in
      if cmd = [] then (s, None)
      else (s\<lparr>at_sending := True, at_cmd := []\<rparr>,
            Some (cmd, obj [(''cmd'', JStr cmd), (''timeout_ms'', or_else (JNum (at_timeoutMs s)) (jint 10000))])))"

definition sendAT_finish :: "int \<Rightarrow> jstr \<Rightarrow> (jsval \<times> jsval) service_result \<Rightarrow> at_tab \<Rightarrow> at_tab" where
  "sendAT_finish now cmd r s =
     s\<lparr>at_sending := False,
       at_history := at_history s @
         [case r of
            Success (okay, response) \<Rightarrow> \<lparr>ae_ts = now, ae_cmd = cmd, ae_ok = okay, ae_response = response\<rparr>
          | Failure e \<Rightarrow> \<lparr>ae_ts = now, ae_cmd = cmd, ae_ok = JBool False,
                         ae_response = JStr (error_text (ae_message e) tx_request_error)\<rparr>]\<rparr>"

definition clearATHistory :: "at_tab \<Rightarrow> at_tab" where
  "clearATHistory s = s\<lparr>at_history := []\<rparr>"

section \<open>The overview\<close>

definition trafficStateLabel :: "jsval \<Rightarrow> jstr" where
  "trafficStateLabel device =
     (let status = jfield (jfield device ''traffic_meta'') ''status'' in
      if status = jlit ''waiting_sample'' then tx_waiting_sample
      else if status = jlit ''stale'' then tx_sampling_lost else [])"

definition trafficDisplay :: "jsval \<Rightarrow> jsval \<Rightarrow> jsval" where
  "trafficDisplay device v = (if trafficStateLabel device \<noteq> [] then JStr (trafficStateLabel device) else v)"

text \<open>The bytes of the last minute, else the device's own counter.\<close>

definition traffic_amount_display :: "string \<Rightarrow> jstr \<Rightarrow> jsval \<Rightarrow> jsval" where
  "traffic_amount_display key minute device =
     or_else (JStr minute) (trafficDisplay device (jfield (jfield device ''traffic'') key))"

definition trafficDownloadRateDisplay :: "jstr \<Rightarrow> jsval \<Rightarrow> jsval" where
  "trafficDownloadRateDisplay speed device =
     or_else (JStr speed) (or_else (trafficDisplay device (jfield (jfield device ''traffic'') ''rate'')) (jlit ''--''))"

definition trafficUploadRateDisplay :: "jstr \<Rightarrow> jsval \<Rightarrow> jsval" where
  "trafficUploadRateDisplay speed device =
     or_else (JStr speed) (or_else (JStr (trafficStateLabel device)) (jlit ''--''))"

definition readinessItems :: "jsval \<Rightarrow> (string \<times> bool) list" where
  "readinessItems device =
     (let rt = jfield device ''vowifi_runtime'' in
      map (\<lambda>(key, f). (key, truthy (jfield rt f)))
        [(''SIM'', ''sim_ready''), (''Access'', ''access_ready''), (''Tunnel'', ''tunnel_ready''),
         (''IMS'', ''ims_ready''), (''SMS'', ''sms_ready'')])"

datatype vowifi_status = VowifiOk | VowifiPartial | VowifiOff

definition vowifiStatus :: "jsval \<Rightarrow> vowifi_status" where
  "vowifiStatus device =
     (if \<not> truthy (jfield device ''vowifi_runtime'') then VowifiOff
      else if list_all snd (readinessItems device) then VowifiOk
      else if list_ex snd (readinessItems device) then VowifiPartial
      else VowifiOff)"

definition notReadyNames :: "jsval \<Rightarrow> string list" where
  "notReadyNames device = map fst (filter (\<lambda>i. \<not> snd i) (readinessItems device))"

definition vowifi_hasError :: "jsval \<Rightarrow> bool" where
  "vowifi_hasError device \<longleftrightarrow>
     truthy (jfield (jfield device ''vowifi_runtime'') ''last_error_class'') \<or>
     truthy (jfield (jfield device ''vowifi_runtime'') ''last_reason'')"

text \<open>The signal strength, where the value is one: a finite number that does not stand for none.\<close>

definition valid_dbm :: "jsval \<Rightarrow> rat option" where
  "valid_dbm v = (case v of JNum (Fin r) \<Rightarrow> if r \<noteq> 0 \<and> r \<noteq> - 999 then Some r else None | _ \<Rightarrow> None)"

definition device_dbm :: "jsval \<Rightarrow> rat option" where
  "device_dbm device = valid_dbm (jfield (jfield device ''modem'') ''signal_dbm'')"

definition signalLevel :: "jsval \<Rightarrow> nat" where
  "signalLevel device =
     (case device_dbm device of
        None \<Rightarrow> 0
      | Some d \<Rightarrow> if - 75 \<le> d then 5 else if - 85 \<le> d then 4 else if - 95 \<le> d then 3
                   else if - 105 \<le> d then 2 else 1)"

datatype signal_color = SignalGreen | SignalAmber | SignalRed | SignalGray

definition signalColor :: "jsval \<Rightarrow> signal_color" where
  "signalColor device =
     (case device_dbm device of
        None \<Rightarrow> SignalGray
      | Some d \<Rightarrow> if - 85 \<le> d then SignalGreen else if - 100 \<le> d then SignalAmber else SignalRed)"

definition flightModeEnabled :: "jsval \<Rightarrow> bool" where
  "flightModeEnabled device \<longleftrightarrow>
     truthy (jfield device ''vowifi_active'') \<or>
     jfield (jfield device ''modem'') ''operating_mode'' \<in> {jint 0, jint 4}"

definition flightModeStatusText :: "jsval \<Rightarrow> jstr" where
  "flightModeStatusText device = (if flightModeEnabled device then tx_yes else tx_no)"

definition vowifiStatusTone :: "jsval \<Rightarrow> tone" where
  "vowifiStatusTone device =
     (case vowifiStatus device of VowifiPartial \<Rightarrow> ToneWarning | VowifiOk \<Rightarrow> ToneSuccess | VowifiOff \<Rightarrow> ToneDanger)"

definition cellularStatusTone :: "jsval \<Rightarrow> tone" where
  "cellularStatusTone device =
     (if isRecoveryPhase (device_phase device) then ToneWarning
      else if \<not> isControlOnline device then ToneDanger
      else if isRadioRegistered device then ToneSuccess else ToneWarning)"

definition cellularStatusText :: "jsval \<Rightarrow> jstr" where
  "cellularStatusText device =
     (let phaseText = lifecycleStatusLabel (device_phase device);
          registration = jfield device ''registration_state_label'' in
      if phaseText \<noteq> [] \<and> device_phase device \<noteq> Some Online \<and> device_phase device \<noteq> Some Offline then phaseText
      else if \<not> isControlOnline device
      then (if truthy (jfield device ''running'') then tx_control_recovering else tx_offline)
      else if isRadioRegistered device then []
      else if registration = jlit ''searching'' then tx_searching
      else if registration = jlit ''denied'' then tx_denied
      else tx_not_registered)"

definition networkPanelMessage :: "jsval \<Rightarrow> jstr" where
  "networkPanelMessage device =
     (if \<not> truthy (jfield device ''network_enabled'') then tx_data_off
      else if \<not> truthy (jfield device ''network_connected'') then tx_data_disconnected else [])"

section \<open>Facts\<close>

lemma signal_color_level:
  "signalColor device = SignalGreen \<longleftrightarrow> 4 \<le> signalLevel device"
  "signalColor device = SignalGray \<longleftrightarrow> signalLevel device = 0"
  "signalColor device = SignalRed \<Longrightarrow> signalLevel device \<in> {1, 2}"
  by (cases "device_dbm device"; auto simp: signalColor_def signalLevel_def split: if_splits)+

lemma vowifi_ok_names: "truthy (jfield device ''vowifi_runtime'') \<Longrightarrow> vowifiStatus device = VowifiOk \<longleftrightarrow> notReadyNames device = []"
  by (auto simp: vowifiStatus_def notReadyNames_def filter_empty_conv list_all_iff list_ex_iff)

text \<open>A device whose control plane is unstable may be shown with a green light beside that text.\<close>

lemma unstable_but_green:
  "\<lbrakk>device_phase device = Some Degraded; isControlOnline device; isRadioRegistered device\<rbrakk> \<Longrightarrow>
   cellularStatusText device = tx_control_unstable \<and> cellularStatusTone device = ToneSuccess"
  by (simp add: cellularStatusText_def cellularStatusTone_def isRecoveryPhase_def tx_control_unstable_def)

text \<open>The light is green only beside no text or that one.\<close>

lemma green_means_registered:
  "cellularStatusTone device = ToneSuccess \<Longrightarrow> cellularStatusText device \<in> {[], tx_control_unstable}"
  by (cases "device_phase device" rule: lifecycleStatusLabel.cases)
    (auto simp: cellularStatusText_def cellularStatusTone_def isRecoveryPhase_def Let_def split: if_splits)

section \<open>Runs of the USSD terminal\<close>

datatype ussd_event =
    UssdType jstr
  | UssdSend int
  | UssdAnswer int "ussd_reply service_result"
  | UssdCanceled int "bool service_result"
  | UssdClear

definition ussd_step :: "ussd_event \<Rightarrow> ussd_tab \<Rightarrow> ussd_tab" where
  "ussd_step e s =
     (case e of
        UssdType t \<Rightarrow> s\<lparr>ut_cmd := t\<rparr>
      | UssdSend now \<Rightarrow> fst (sendUSSD_start now s)
      | UssdAnswer now r \<Rightarrow> sendUSSD_finish now r s
      | UssdCanceled now r \<Rightarrow> if isMultiRound s then cancelSession_finish now r s else s
      | UssdClear \<Rightarrow> ussd_clearHistory s)"

text \<open>The session the network left open: that of the last reply, if it asked for more and nothing
  ended it since.\<close>

fun session_left :: "ussd_event \<Rightarrow> jstr \<Rightarrow> jstr" where
  "session_left (UssdAnswer now (Success d)) sid = (if reply_continues d then to_string (us_sessionId d) else [])"
| "session_left (UssdAnswer now (Failure e)) sid = []"
| "session_left (UssdCanceled now r) sid = []"
| "session_left UssdClear sid = []"
| "session_left _ sid = sid"

lemma continues_status: "reply_continues d \<Longrightarrow> us_status d = jint 1 \<and> us_status d \<noteq> jint 5 \<and> us_status d \<noteq> jint 2"
  by (simp add: reply_continues_def)

lemma ussd_step_session: "ut_sessionId (ussd_step e s) = session_left e (ut_sessionId s)"
proof (cases "(e, ut_sessionId s)" rule: session_left.cases)
  case (1 now d sid)
  then show ?thesis
    using continues_status [of d]
    by (auto simp: ussd_step_def sendUSSD_finish_def on_reply_def endSession_def push_entry_def Let_def)
qed (auto simp: ussd_step_def sendUSSD_finish_def sendUSSD_start_def endSession_def push_entry_def isMultiRound_def
    cancelSession_finish_def ussd_clearHistory_def Let_def)

section \<open>Property\<close>


definition example_reply :: ussd_reply where
  "example_reply = \<lparr>us_status = jint 1, us_text = jlit ''1. Balance'', us_rawText = JStr [], us_dcs = jint 15,
     us_sessionId = jlit ''s7'', us_channel = jlit ''cs''\<rparr>"


end
