(* ===== verification/DeviceActions.thy ===== *)
theory DeviceActions
  imports DevicesPage Notices
begin

text \<open>
  The buttons of the device page (\<open>views/Devices.vue\<close>, lines 592 to 615 and 769 to 1039):
  rotating the address, reconnecting VoWiFi, restarting, scanning, saving, deleting, the address form
  and the dialog that adds a device. Confirmation boxes count as answered. What a handler asks of the
  page itself (\<open>DevicesPage\<close>) is kept in the order it is asked.
\<close>

section \<open>The state\<close>

datatype device_action =
  RotateIP | ReconnectVoWiFi | RebootModem | RescanDevices | SaveConfig | DeleteDevice | AddDevice | StartE911

datatype page_call = RefreshViews | RefreshViewsAfter int | FetchAllNow | SyncConfigForced | DeviceGone

record add_config =
  ac_id :: jstr
  ac_name :: jstr
  ac_interface :: jstr
  ac_modem_imei :: jstr
  ac_usb_path :: jstr
  ac_esim_transport :: jstr
  ac_at_port :: jstr
  ac_control_device :: jstr
  ac_device_backend :: jstr

record device_actions =
  da_busy :: "device_action \<Rightarrow> bool"
  da_websheet :: "jsval option"
  da_websheetOpen :: bool
  da_addOpen :: bool
  da_addSelected :: "jsval option"
  da_addConfig :: add_config
  da_discovering :: bool
  da_discovered :: "jsval list"
  da_cardPolicy :: "jsval option"
  da_notices :: "notice list"
  da_calls :: "page_call list"

definition empty_add :: add_config where
  "empty_add = \<lparr>ac_id = [], ac_name = [], ac_interface = [], ac_modem_imei = [], ac_usb_path = [],
     ac_esim_transport = js ''at'', ac_at_port = [], ac_control_device = [], ac_device_backend = js ''at''\<rparr>"

definition initial_actions :: device_actions where
  "initial_actions = \<lparr>da_busy = \<lambda>_. False, da_websheet = None, da_websheetOpen = False, da_addOpen = False,
     da_addSelected = None, da_addConfig = empty_add, da_discovering = False, da_discovered = [],
     da_cardPolicy = None, da_notices = [], da_calls = []\<rparr>"

definition say :: "notice_kind \<Rightarrow> jstr \<Rightarrow> device_actions \<Rightarrow> device_actions" where
  "say kind message s = s\<lparr>da_notices := da_notices s @ [(kind, message)]\<rparr>"

definition ask :: "page_call list \<Rightarrow> device_actions \<Rightarrow> device_actions" where
  "ask cs s = s\<lparr>da_calls := da_calls s @ cs\<rparr>"

definition busy :: "device_action \<Rightarrow> bool \<Rightarrow> device_actions \<Rightarrow> device_actions" where
  "busy a v s = s\<lparr>da_busy := (da_busy s)(a := v)\<rparr>"

text \<open>An action whose request failed, or whose later steps threw.\<close>

definition action_failed :: "device_action \<Rightarrow> jstr \<Rightarrow> jstr \<Rightarrow> device_actions \<Rightarrow> device_actions" where
  "action_failed a message fallback s = busy a False (say InfoError (error_text message fallback) s)"

section \<open>Rotating, reconnecting, restarting\<close>

text \<open>Whether there is a device to act on; the selected list entry must be connected to rotate.\<close>

definition has_selection :: "jstr \<Rightarrow> bool" where
  "has_selection selectedId \<longleftrightarrow> trim selectedId \<noteq> []"

definition rotateIP_start :: "jstr \<Rightarrow> bool \<Rightarrow> device_actions \<Rightarrow> device_actions" where
  "rotateIP_start selectedId linked s =
     (if \<not> has_selection selectedId then s
      else if \<not> linked then say InfoWarning tx_network_not_connected s
      else busy RotateIP True s)"

definition rotateIP_sent :: "bool service_result \<Rightarrow> device_actions \<Rightarrow> device_actions" where
  "rotateIP_sent r s =
     (case r of
        Success _ \<Rightarrow> ask [RefreshViews] (say InfoOk tx_rotate_sent s)
      | Failure e \<Rightarrow> action_failed RotateIP (ae_message e) tx_rotate_failed s)"

text \<open>The refresh it waits for is over; its error counts as the action's.\<close>

definition rotateIP_refreshed :: "app_error option \<Rightarrow> device_actions \<Rightarrow> device_actions" where
  "rotateIP_refreshed err s =
     (case err of
        None \<Rightarrow> busy RotateIP False (ask [RefreshViewsAfter 1500] s)
      | Some e \<Rightarrow> action_failed RotateIP (ae_message e) tx_rotate_failed s)"

definition action_start :: "device_action \<Rightarrow> jstr \<Rightarrow> device_actions \<Rightarrow> device_actions" where
  "action_start a selectedId s = (if \<not> has_selection selectedId then s else busy a True s)"

definition reconnectVoWiFi_sent :: "bool service_result \<Rightarrow> device_actions \<Rightarrow> device_actions" where
  "reconnectVoWiFi_sent r s =
     (case r of
        Success _ \<Rightarrow>
          busy ReconnectVoWiFi False (ask [RefreshViews, RefreshViewsAfter 4000] (say InfoOk tx_reconnect_sent s))
      | Failure e \<Rightarrow> action_failed ReconnectVoWiFi (ae_message e) tx_reconnect_failed s)"

definition rebootModem_sent :: "bool service_result \<Rightarrow> device_actions \<Rightarrow> device_actions" where
  "rebootModem_sent r s =
     (case r of
        Success _ \<Rightarrow>
          busy RebootModem False (ask [RefreshViews, RefreshViewsAfter 5000] (say InfoOk tx_reboot_sent s))
      | Failure e \<Rightarrow> action_failed RebootModem (ae_message e) tx_command_failed s)"

definition rescan_start :: "device_actions \<Rightarrow> device_actions" where
  "rescan_start s = busy RescanDevices True s"

definition rescan_sent :: "bool service_result \<Rightarrow> device_actions \<Rightarrow> device_actions" where
  "rescan_sent r s =
     (case r of
        Success _ \<Rightarrow> ask [FetchAllNow] (say InfoOk tx_rescan_done s)
      | Failure e \<Rightarrow> action_failed RescanDevices (ae_message e) tx_rescan_failed s)"

text \<open>\<open>fetchAll\<close>, which never throws, is over.\<close>

definition all_fetched :: "device_action \<Rightarrow> device_actions \<Rightarrow> device_actions" where
  "all_fetched a s = busy a False s"

section \<open>The address form\<close>

definition openE911_start :: "jstr \<Rightarrow> device_actions \<Rightarrow> device_actions" where
  "openE911_start selectedId s =
     (if \<not> has_selection selectedId \<or> da_busy s StartE911 then s else busy StartE911 True s)"

definition openE911_finish :: "jsval service_result \<Rightarrow> device_actions \<Rightarrow> device_actions" where
  "openE911_finish r s =
     (case r of
        Success w \<Rightarrow> busy StartE911 False (s\<lparr>da_websheet := Some w, da_websheetOpen := True\<rparr>)
      | Failure e \<Rightarrow> action_failed StartE911 (ae_message e) tx_e911_failed s)"

definition finishE911Websheet :: "device_actions \<Rightarrow> device_actions" where
  "finishE911Websheet s = ask [RefreshViews] (s\<lparr>da_websheetOpen := False, da_websheet := None\<rparr>)"

section \<open>Saving and deleting\<close>

definition saveConfig_start :: "device_page \<Rightarrow> device_actions \<Rightarrow> device_actions" where
  "saveConfig_start p s = (if save_request p = None then s else busy SaveConfig True s)"

text \<open>The answer: whether a restart is needed, and a warning. The form counts as unchanged from now.\<close>

definition saveConfig_sent :: "(bool \<times> jstr) service_result \<Rightarrow> device_actions \<Rightarrow> device_actions" where
  "saveConfig_sent r s =
     (case r of
        Success (requiresRestart, warning) \<Rightarrow>
          ask [RefreshViews]
            (if warning \<noteq> [] then say InfoWarning warning s
             else if requiresRestart then say InfoWarning tx_saved_restart s
             else say InfoOk tx_config_saved s)
      | Failure e \<Rightarrow> action_failed SaveConfig (ae_message e) tx_save_failed s)"

definition saved_form :: "edit_view \<Rightarrow> edit_view" where
  "saved_form v =
     (case ed_config v of
        None \<Rightarrow> v\<lparr>ed_dirty := False\<rparr>
      | Some c \<Rightarrow> v\<lparr>ed_dirty := False, ed_baseline := DevicesPage.json_text c\<rparr>)"

definition saveConfig_refreshed :: "app_error option \<Rightarrow> device_actions \<Rightarrow> device_actions" where
  "saveConfig_refreshed err s =
     (case err of
        None \<Rightarrow> ask [SyncConfigForced] s
      | Some e \<Rightarrow> action_failed SaveConfig (ae_message e) tx_save_failed s)"

definition deleteDevice_sent :: "bool service_result \<Rightarrow> device_actions \<Rightarrow> device_actions" where
  "deleteDevice_sent r s =
     (case r of
        Success _ \<Rightarrow> ask [DeviceGone, FetchAllNow] (say InfoOk tx_device_deleted s)
      | Failure e \<Rightarrow> action_failed DeleteDevice (ae_message e) tx_delete_failed s)"

section \<open>Adding a device\<close>

definition addableDiscovered :: "device_actions \<Rightarrow> jsval list" where
  "addableDiscovered s = filter (\<lambda>d. \<not> truthy (jfield d ''configured'')) (da_discovered s)"

definition refreshDiscovered_start :: "device_actions \<Rightarrow> device_actions" where
  "refreshDiscovered_start s = s\<lparr>da_discovering := True\<rparr>"

definition refreshDiscovered_finish :: "jsval list service_result \<Rightarrow> device_actions \<Rightarrow> device_actions" where
  "refreshDiscovered_finish r s =
     (case r of Success l \<Rightarrow> s\<lparr>da_discovered := l\<rparr> | Failure _ \<Rightarrow> s)\<lparr>da_discovering := False\<rparr>"

definition openAddDialog :: "device_actions \<Rightarrow> device_actions" where
  "openAddDialog s =
     refreshDiscovered_start (s\<lparr>da_addOpen := True, da_addSelected := None, da_addConfig := empty_add\<rparr>)"

definition discovered_backend :: "jsval \<Rightarrow> jstr" where
  "discovered_backend d =
     (let mode = to_lower (text_or_empty (jfield d ''mode'')); path = jfield d ''control_path'' in
      if mode = js ''mbim'' then js ''mbim''
      else if isWwanQmiControlPath path \<or> (mode = js ''qmi'' \<and> truthy path) then js ''qmi''
      else js ''at'')"

definition applyDiscoveredToAddConfig :: "jsval option \<Rightarrow> add_config \<Rightarrow> add_config" where
  "applyDiscoveredToAddConfig sel c =
     (case sel of
        None \<Rightarrow> c
      | Some d \<Rightarrow>
          c\<lparr>ac_interface := text_or_empty (jfield d ''net_interface''), ac_at_port := text_or_empty (jfield d ''at_port''),
            ac_control_device := text_or_empty (jfield d ''control_path''), ac_modem_imei := text_or_empty (jfield d ''imei''),
            ac_usb_path := text_or_empty (jfield d ''usb_path''), ac_device_backend := discovered_backend d\<rparr>)"

definition selectDiscoveredForAdd :: "jsval \<Rightarrow> device_actions \<Rightarrow> device_actions" where
  "selectDiscoveredForAdd d s =
     (if truthy (jfield d ''degraded'') then say InfoWarning tx_degraded_device s
      else s\<lparr>da_addSelected := Some d, da_addConfig := applyDiscoveredToAddConfig (Some d) (da_addConfig s)\<rparr>)"

text \<open>None: nothing is selected and no request is sent.\<close>

definition addDevice_start :: "device_actions \<Rightarrow> device_actions \<times> add_config option" where
  "addDevice_start s =
     (case da_addSelected s of
        None \<Rightarrow> (busy AddDevice False (say InfoWarning tx_choose_device s), None)
      | Some d \<Rightarrow>
          let c = applyDiscoveredToAddConfig (Some d) (da_addConfig s)
          in (busy AddDevice True (s\<lparr>da_addConfig := c\<rparr>), Some c))"

definition addDevice_sent :: "(jstr \<times> bool) service_result \<Rightarrow> device_actions \<Rightarrow> device_actions" where
  "addDevice_sent r s =
     (case r of
        Success (warning, started) \<Rightarrow>
          ask [FetchAllNow]
            ((if warning \<noteq> [] then say InfoWarning warning s
              else if started then say InfoOk tx_device_started s
              else say InfoOk tx_device_added s)\<lparr>da_addOpen := False\<rparr>)
      | Failure e \<Rightarrow> action_failed AddDevice (ae_message e) tx_add_failed s)"

section \<open>The card policy\<close>

text \<open>None: no card, and nothing is requested.\<close>

definition fetchCardPolicy_start :: "jsval \<Rightarrow> device_actions \<Rightarrow> device_actions \<times> jstr option" where
  "fetchCardPolicy_start iccid s =
     (if \<not> truthy iccid then (s\<lparr>da_cardPolicy := None\<rparr>, None) else (s, Some (to_string iccid)))"

definition fetchCardPolicy_finish :: "jsval service_result \<Rightarrow> device_actions \<Rightarrow> device_actions" where
  "fetchCardPolicy_finish r s = (case r of Success p \<Rightarrow> s\<lparr>da_cardPolicy := Some p\<rparr> | Failure _ \<Rightarrow> s)"

text \<open>Copying: None where the text is a placeholder.\<close>

definition copy_text_of :: "jsval \<Rightarrow> jstr option" where
  "copy_text_of v =
     (let t = trim (to_string (if_nullish v (JStr []))) in
      if t = [] \<or> t = js ''--'' \<or> t = js ''---'' then None else Some t)"

section \<open>Facts\<close>

text \<open>What is added is the discovered device, whatever the form was given in between, and a backend
  other than the three never appears.\<close>

lemma added_as_discovered:
  assumes "addDevice_start s = (t, Some c)"
  shows "\<exists>d. da_addSelected s = Some d \<and> ac_at_port c = text_or_empty (jfield d ''at_port'') \<and>
     ac_control_device c = text_or_empty (jfield d ''control_path'') \<and>
     ac_modem_imei c = text_or_empty (jfield d ''imei'') \<and> ac_device_backend c = discovered_backend d \<and>
     ac_name c = ac_name (da_addConfig s) \<and> da_busy t AddDevice"
  using assms by (auto simp: addDevice_start_def applyDiscoveredToAddConfig_def Let_def busy_def split: option.splits)

lemma discovered_backend_cases: "discovered_backend d \<in> {js ''mbim'', js ''qmi'', js ''at''}"
  by (simp add: discovered_backend_def Let_def)

text \<open>A rotation that was sent is reported as failed when the refresh after it fails.\<close>

lemma rotation_reported_failed:
  "da_notices (rotateIP_refreshed (Some e) (rotateIP_sent (Success b) s)) =
     da_notices s @ [(InfoOk, tx_rotate_sent), (InfoError, error_text (ae_message e) tx_rotate_failed)]"
  by (simp add: rotateIP_refreshed_def rotateIP_sent_def action_failed_def say_def ask_def busy_def)

text \<open>The policy asked for one card is shown although another card is in place by then.\<close>

lemma policy_of_other_card:
  "da_cardPolicy (fetchCardPolicy_finish (Success p1) (fetchCardPolicy_finish (Success p2)
     (fst (fetchCardPolicy_start (JStr i2) (fst (fetchCardPolicy_start (JStr i1) s)))))) = Some p1"
  by (simp add: fetchCardPolicy_finish_def)

end
