(* ===== verification/LogsPage.thy ===== *)
theory LogsPage
  imports Stores
begin

text \<open>
  The log page (\<open>views/Logs.vue\<close>): the event stream client (\<open>Connection\<close>) and the log
  store (\<open>Stores\<close>) under the page's filter and pause switch. \<open>parse\<close> is
  \<open>JSON.parse\<close> of an entry, \<open>local_text\<close> how the browser writes a time. Scrolling and the
  download itself are left out; style classes are constructors.
\<close>

section \<open>The state\<close>

record logs_page =
  lv_stream :: "log_entry stream"
  lv_store :: logs_store
  lv_connected :: bool
  lv_paused :: bool
  lv_autoScroll :: bool
  lv_level :: jstr
  lv_search :: jstr

definition maxLogs :: nat where "maxLogs = 1000"

definition any_level :: jstr where "any_level = js ''all''"

definition level_query :: "jstr \<Rightarrow> (jstr \<times> jsval) list" where
  "level_query level = [(js ''level'', JStr (if level = any_level then [] else level))]"

definition logs_options :: "(jstr \<Rightarrow> log_entry outcome) \<Rightarrow> log_entry stream_options" where
  "logs_options parse = \<lparr>eo_path = js ''/logs/stream'', eo_sse = \<lparr>so_event_name = js ''log'', so_parse = parse\<rparr>,
     eo_delay = None, eo_pause_on = \<lambda>_. False\<rparr>"

definition initial_logs_page :: "logs_store \<Rightarrow> jstr \<Rightarrow> logs_page" where
  "initial_logs_page st token = \<lparr>lv_stream = initial_stream (level_query any_level) token, lv_store = st,
     lv_connected = False, lv_paused = False, lv_autoScroll = True, lv_level = any_level, lv_search = []\<rparr>"

section \<open>Filter and export\<close>

definition filteredLogs :: "logs_page \<Rightarrow> log_entry list" where
  "filteredLogs p =
     (let ls = lg_logs (lv_store p);
          byLevel = (if lv_level p = any_level then ls
                     else filter (\<lambda>l. to_lower (le_level l) = to_lower (lv_level p)) ls);
          q = to_lower (lv_search p)
      in if trim (lv_search p) = [] then byLevel
         else filter (\<lambda>l. str_includes (to_lower (le_message l)) q \<or> str_includes (to_lower (le_caller l)) q \<or>
                (case le_fields l of None \<Rightarrow> False | Some f \<Rightarrow> f \<noteq> [] \<and> str_includes (to_lower f) q)) byLevel)"

definition pad_end :: "nat \<Rightarrow> jstr \<Rightarrow> jstr" where
  "pad_end n s = s @ replicate (n - length s) 32"

definition export_line :: "(jstr \<Rightarrow> jstr) \<Rightarrow> log_entry \<Rightarrow> jstr" where
  "export_line local_text l =
     js ''['' @ local_text (le_time l) @ js ''] '' @ pad_end 5 (to_upper (le_level l)) @ js '' '' @ le_caller l @
     js '' '' @ le_message l @
     (case le_fields l of None \<Rightarrow> [] | Some f \<Rightarrow> if f = [] then [] else js '' '' @ f)"

definition exportLogs :: "(jstr \<Rightarrow> jstr) \<Rightarrow> logs_page \<Rightarrow> jstr" where
  "exportLogs local_text p = join_with [10] (map (export_line local_text) (filteredLogs p))"

text \<open>The name of the file; \<open>stamp\<close> is the current time in ISO form.\<close>

definition export_name :: "jstr \<Rightarrow> jstr" where
  "export_name stamp = js ''logs-'' @ take 10 stamp @ js ''.txt''"

text \<open>A line on screen: its colour, its time and its level. The local fields of a time (year, month, day,
  hour, minute, second) are a parameter, None for an invalid date, whose fields are all NaN.\<close>

datatype level_class = PurpleLevel | BlueLevel | YellowLevel | RedLevel | BoldRedLevel | GrayLevel

definition getLevelClass :: "jstr \<Rightarrow> level_class" where
  "getLevelClass level =
     (let l = to_lower level in
      if l = js ''debug'' then PurpleLevel else if l = js ''info'' then BlueLevel
      else if l = js ''warn'' then YellowLevel else if l = js ''error'' then RedLevel
      else if l = js ''fatal'' then BoldRedLevel else GrayLevel)"

definition pad_start_two :: "jstr \<Rightarrow> jstr" where
  "pad_start_two s = replicate (2 - length s) 48 @ s"

definition formatDateTime :: "(jstr \<Rightarrow> (int \<times> int \<times> int \<times> int \<times> int \<times> int) option) \<Rightarrow> jstr \<Rightarrow> jstr" where
  "formatDateTime date_fields isoTime =
     (let (yyyy, parts) =
        (case date_fields isoTime of
           None \<Rightarrow> (js ''NaN'', replicate 5 (js ''NaN''))
         | Some (y, mo, d, h, mi, sec) \<Rightarrow> (show_int y, map (pad_start_two \<circ> show_int) [mo, d, h, mi, sec])) in
      yyyy @ 45 # parts ! 0 @ 45 # parts ! 1 @ 32 # parts ! 2 @ 58 # parts ! 3 @ 58 # parts ! 4)"

lemma invalid_date_shown: "formatDateTime (\<lambda>_. None) t = js ''NaN-NaN-NaN NaN:NaN:NaN''"
  by (simp add: formatDateTime_def js_def)

section \<open>Connecting and pausing\<close>

definition logs_connect :: "(jstr \<Rightarrow> log_entry outcome) \<Rightarrow> logs_page \<Rightarrow> logs_page" where
  "logs_connect parse p =
     p\<lparr>lv_connected := False, lv_stream := setPaused (logs_options parse) False (lv_stream p)\<rparr>"

definition logs_disconnect :: "logs_page \<Rightarrow> logs_page" where
  "logs_disconnect p = p\<lparr>lv_stream := disconnect (lv_stream p), lv_connected := False\<rparr>"

definition togglePause :: "(jstr \<Rightarrow> log_entry outcome) \<Rightarrow> logs_page \<Rightarrow> logs_page" where
  "togglePause parse p =
     (let v = \<not> lv_paused p;
          p1 = p\<lparr>lv_paused := v, lv_stream := setPaused (logs_options parse) v (lv_stream p)\<rparr>
      in if v then p1 else logs_connect parse p1)"

definition clearLogs :: "logs_page \<Rightarrow> logs_page" where
  "clearLogs p = p\<lparr>lv_store := logs_clear (lv_store p)\<rparr>"

definition on_level :: "(jstr \<Rightarrow> log_entry outcome) \<Rightarrow> jstr \<Rightarrow> logs_page \<Rightarrow> logs_page" where
  "on_level parse level p =
     (if level = lv_level p then p
      else
        let p1 = p\<lparr>lv_level := level, lv_stream := setQuery (level_query level) (lv_stream p)\<rparr>
        in if lv_paused p1 then p1 else logs_connect parse p1)"

text \<open>The history has arrived; then the page connects, whatever happened in between.\<close>

definition loadHistory_start :: "logs_page \<Rightarrow> logs_page" where
  "loadHistory_start p = p\<lparr>lv_store := fetchHistory_start (lv_store p)\<rparr>"

definition history_loaded ::
    "(jstr \<Rightarrow> log_entry outcome) \<Rightarrow> int \<Rightarrow> log_entry list service_result \<Rightarrow> logs_page \<Rightarrow> logs_page" where
  "history_loaded parse now r p = logs_connect parse (p\<lparr>lv_store := fetchHistory_finish now r (lv_store p)\<rparr>)"

section \<open>The network\<close>

fun emitted :: "'t emission \<Rightarrow> 't list" where
  "emitted (OnEvent t) = [t]"
| "emitted (OnRaw name payload) = []"

text \<open>What the network and the timers do; the client's own calls are not among it.\<close>

fun from_outside :: "stream_event \<Rightarrow> bool" where
  "from_outside (Responds c status body) = True"
| "from_outside (Rejects c message) = True"
| "from_outside (Delivers c chunk) = True"
| "from_outside (Ends c) = True"
| "from_outside (Reconnects i) = True"
| "from_outside _ = False"

definition opened :: "stream_event \<Rightarrow> log_entry stream \<Rightarrow> log_entry stream \<Rightarrow> bool" where
  "opened e s s' \<longleftrightarrow>
     (case e of Responds c status body \<Rightarrow> es_live s c = Some Fetching \<and> is_reading (es_live s' c) | _ \<Rightarrow> False)"

definition logs_network :: "(jstr \<Rightarrow> log_entry outcome) \<Rightarrow> stream_event \<Rightarrow> logs_page \<Rightarrow> logs_page" where
  "logs_network parse e p =
     (if \<not> from_outside e then p
      else
        let s = lv_stream p; s' = stream_step (logs_options parse) e s;
            entries = concat (map emitted (drop (length (es_out s)) (es_out s')))
        in p\<lparr>lv_stream := s', lv_connected := (if opened e s s' then True else lv_connected p),
             lv_store := (if lv_paused p then lv_store p else fold (logs_append maxLogs) entries (lv_store p))\<rparr>)"

datatype logs_event =
  LogsNetwork stream_event | LogsPause | LogsLevel jstr | LogsSearch jstr | LogsClear | LogsScroll bool

definition logs_step :: "(jstr \<Rightarrow> log_entry outcome) \<Rightarrow> logs_event \<Rightarrow> logs_page \<Rightarrow> logs_page" where
  "logs_step parse e p =
     (case e of
        LogsNetwork ev \<Rightarrow> logs_network parse ev p
      | LogsPause \<Rightarrow> togglePause parse p
      | LogsLevel l \<Rightarrow> on_level parse l p
      | LogsSearch q \<Rightarrow> p\<lparr>lv_search := q\<rparr>
      | LogsClear \<Rightarrow> clearLogs p
      | LogsScroll v \<Rightarrow> p\<lparr>lv_autoScroll := v\<rparr>)"

section \<open>What a stream asks for\<close>

definition asks :: "'t stream_options \<Rightarrow> 't stream \<Rightarrow> bool" where
  "asks opt s \<longleftrightarrow> es_live s = Map.empty \<or>
     (es_sent s \<noteq> [] \<and> last (es_sent s) = (buildUrl opt s, es_token s))"

lemma buildUrl_cong: "es_query s' = es_query s \<Longrightarrow> buildUrl opt s' = buildUrl opt s"
  by (simp add: buildUrl_def)

lemma clear_more [simp]:
  "es_query (clearReconnectTimer s) = es_query s" "es_token (clearReconnectTimer s) = es_token s"
  "es_sent (clearReconnectTimer s) = es_sent s"
  by (auto simp: clearReconnectTimer_def split: option.split)

lemma disconnect_more [simp]:
  "es_query (disconnect s) = es_query s" "es_token (disconnect s) = es_token s" "es_sent (disconnect s) = es_sent s"
  "es_paused (disconnect s) = es_paused s" "es_out (disconnect s) = es_out s"
  by (simp_all add: disconnect_def Let_def)

lemma asks_fewer:
  assumes "asks opt s" and "dom (es_live s') \<subseteq> dom (es_live s)"
    and "es_query s' = es_query s" "es_token s' = es_token s" "es_sent s' = es_sent s"
  shows "asks opt s'"
  using assms buildUrl_cong [OF assms(3)] by (auto simp: asks_def)

lemma disconnect_fewer: "dom (es_live (disconnect s)) \<subseteq> dom (es_live s)"
  by (auto simp: disconnect_def Let_def dom_def split: option.splits if_splits)

lemma asks_disconnect: "asks opt s \<Longrightarrow> asks opt (disconnect s)"
  by (rule asks_fewer) (simp_all add: disconnect_fewer)

lemma asks_connect: "asks opt s \<Longrightarrow> asks opt (connect opt s)"
proof (cases "es_paused (disconnect s)")
  case True
  then show "asks opt s \<Longrightarrow> asks opt (connect opt s)" by (simp add: connect_def Let_def asks_disconnect)
next
  case False
  then show "asks opt (connect opt s)" by (simp add: connect_def Let_def asks_def buildUrl_def)
qed

lemma asks_reconnect: "asks opt s \<Longrightarrow> asks opt (reconnectLater opt s)"
  by (rule asks_fewer [of opt s]) (auto simp: reconnectLater_def Let_def)

lemma asks_paused: "asks opt (s\<lparr>es_paused := v\<rparr>) = asks opt s"
  by (simp add: asks_def buildUrl_def)

lemma asks_setPaused: "asks opt s \<Longrightarrow> asks opt (setPaused opt v s)"
  by (simp add: setPaused_def asks_disconnect asks_connect asks_paused)

lemma asks_failed: "asks opt s \<Longrightarrow> asks opt (stream_failed opt c m s)"
proof -
  assume a: "asks opt s"
  have "asks opt (s\<lparr>es_live := (es_live s)(c := None), es_connected := False, es_error := m\<rparr>)"
    by (rule asks_fewer [OF a]) auto
  then show ?thesis by (simp add: stream_failed_def a asks_reconnect)
qed

lemma asks_callbacks: "asks opt s \<Longrightarrow> asks opt (run_callbacks opt es s)"
proof -
  assume a: "asks opt s"
  have "asks opt (s\<lparr>es_out := es_out s @ es\<rparr>)" by (rule asks_fewer [OF a]) auto
  then show ?thesis by (simp add: run_callbacks_def Let_def asks_setPaused)
qed

lemma asks_step: "\<lbrakk>asks opt s; from_outside e\<rbrakk> \<Longrightarrow> asks opt (stream_step opt e s)"
proof (cases e)
  case (Responds c status body)
  assume a: "asks opt s"
  have "asks opt (s\<lparr>es_connected := True, es_error := [], es_live := (es_live s)(c \<mapsto> Reading (([], []), []))\<rparr>)"
    if "es_live s c = Some Fetching" by (rule asks_fewer [OF a]) (use that in auto)
  then show ?thesis by (simp add: Responds on_response_def a asks_failed)
next
  case (Delivers c chunk)
  assume a: "asks opt s"
  have upd: "asks opt (t\<lparr>es_live := (es_live t)(c \<mapsto> x)\<rparr>)" if "asks opt t" "es_live t c \<noteq> None" for t x
    by (rule asks_fewer [OF that(1)]) (use that(2) in auto)
  show ?thesis
    using a asks_callbacks [OF a]
    by (auto simp: Delivers on_chunk_def asks_failed Let_def upd
        split: option.split phase.split prod.split sum.split)
next
  case (Ends c)
  assume a: "asks opt s"
  have "asks opt (s\<lparr>es_live := (es_live s)(c := None), es_connected := False\<rparr>)" by (rule asks_fewer [OF a]) auto
  then show ?thesis
    by (auto simp: Ends on_end_def Let_def a asks_reconnect split: option.split phase.split)
next
  case (Reconnects i)
  assume a: "asks opt s"
  have "asks opt (s\<lparr>es_armed := filter (\<lambda>a. fst a \<noteq> i) (es_armed s), es_timer := None\<rparr>)" by (rule asks_fewer [OF a]) auto
  then show ?thesis by (simp add: Reconnects on_timer_def Let_def a asks_connect)
qed (simp_all add: asks_failed)

section \<open>What the network leaves alone\<close>

lemma connect_keeps [simp]:
  "es_query (connect opt s) = es_query s" "es_paused (connect opt s) = es_paused s"
  by (simp_all add: connect_def Let_def)

lemma reconnect_keeps [simp]:
  "es_query (reconnectLater opt s) = es_query s" "es_paused (reconnectLater opt s) = es_paused s"
  by (simp_all add: reconnectLater_def Let_def)

lemma failed_keeps [simp]:
  "es_query (stream_failed opt c m s) = es_query s" "es_paused (stream_failed opt c m s) = es_paused s"
  by (simp_all add: stream_failed_def)

lemma outside_keeps:
  assumes "from_outside e" and "eo_pause_on opt = (\<lambda>_. False)"
  shows "es_query (stream_step opt e s) = es_query s \<and> es_paused (stream_step opt e s) = es_paused s"
proof (cases e)
  case (Delivers c chunk)
  then show ?thesis
    using assms(2) by (auto simp: on_chunk_def run_callbacks_def Let_def split: option.split phase.split prod.split sum.split)
qed (use assms in \<open>auto simp: on_response_def on_end_def on_timer_def Let_def split: option.split phase.split\<close>)

lemma append_entry_length: "0 < mx \<Longrightarrow> length (append_entry mx ls e) \<le> mx"
  by (auto simp: append_entry_def Let_def slice_from_last)

lemma appends_length:
  "0 < mx \<Longrightarrow> length (lg_logs (fold (logs_append mx) es st)) \<le> max mx (length (lg_logs st))"
proof (induction es arbitrary: st)
  case (Cons e es)
  show ?case
    using Cons.IH [of "logs_append mx e st"] append_entry_length [OF Cons.prems, of "lg_logs st" e] Cons.prems
    by (simp add: logs_append_def)
qed simp

definition logs_ok :: "(jstr \<Rightarrow> log_entry outcome) \<Rightarrow> nat \<Rightarrow> logs_page \<Rightarrow> bool" where
  "logs_ok parse n p \<longleftrightarrow>
     stream_wf (lv_stream p) \<and> asks (logs_options parse) (lv_stream p) \<and>
     es_query (lv_stream p) = level_query (lv_level p) \<and> es_paused (lv_stream p) = lv_paused p \<and>
     length (lg_logs (lv_store p)) \<le> max maxLogs n"

lemma setPaused_keeps [simp]:
  "es_query (setPaused opt v s) = es_query s" "es_paused (setPaused opt v s) = v"
  by (simp_all add: setPaused_def)

lemma paused_quiet: "\<lbrakk>stream_wf s; es_paused s\<rbrakk> \<Longrightarrow> es_live s = Map.empty"
  by (simp add: stream_wf_def)

lemma logs_connect_ok:
  assumes "logs_ok parse n p" and "\<not> lv_paused p"
  shows "logs_ok parse n (logs_connect parse p)"
  using assms by (simp add: logs_ok_def logs_connect_def setPaused_wf asks_setPaused)

lemma logs_network_ok:
  assumes "logs_ok parse n p"
  shows "logs_ok parse n (logs_network parse e p)"
proof (cases "from_outside e")
  case True
  have keeps: "es_query (stream_step (logs_options parse) e (lv_stream p)) = es_query (lv_stream p)"
    "es_paused (stream_step (logs_options parse) e (lv_stream p)) = es_paused (lv_stream p)"
    using outside_keeps [OF True, of "logs_options parse" "lv_stream p"] by (simp_all add: logs_options_def)
  have "length (lg_logs (fold (logs_append maxLogs) es (lv_store p))) \<le> max maxLogs n" for es
    using appends_length [of maxLogs es "lv_store p"] assms unfolding logs_ok_def maxLogs_def by linarith
  then show ?thesis
    using assms True keeps by (auto simp: logs_ok_def logs_network_def Let_def stream_step_wf asks_step)
qed (simp add: logs_network_def assms)

lemma logs_step_ok:
  assumes "logs_ok parse n p"
  shows "logs_ok parse n (logs_step parse e p)"
proof (cases e)
  case LogsPause
  have "logs_ok parse n (p\<lparr>lv_paused := v, lv_stream := setPaused (logs_options parse) v (lv_stream p)\<rparr>)" for v
    using assms by (simp add: logs_ok_def setPaused_wf asks_setPaused)
  then show ?thesis
    using LogsPause by (simp add: logs_step_def togglePause_def Let_def logs_connect_ok)
next
  case (LogsLevel l)
  let ?p = "p\<lparr>lv_level := l, lv_stream := setQuery (level_query l) (lv_stream p)\<rparr>"
  show ?thesis
  proof (cases "lv_paused p")
    case True
    then have "es_live (lv_stream p) = Map.empty" using assms paused_quiet [of "lv_stream p"] by (simp add: logs_ok_def)
    then have "logs_ok parse n ?p" using assms by (simp add: logs_ok_def setQuery_def asks_def)
    then show ?thesis using LogsLevel True assms by (simp add: logs_step_def on_level_def)
  next
    case False
    have "stream_wf (setQuery (level_query l) (lv_stream p))" using assms by (simp add: logs_ok_def setQuery_def)
    then have w: "timers_fine (setQuery (level_query l) (lv_stream p))" "live_in_abort (setQuery (level_query l) (lv_stream p))"
      by (rule wf_parts)+
    let ?s = "(setQuery (level_query l) (lv_stream p))\<lparr>es_paused := False\<rparr>"
    have "es_live (disconnect ?s) = Map.empty" using disconnect_effect(2) [of ?s] w by simp
    then have "asks (logs_options parse) (connect (logs_options parse) ?s)"
      by (simp add: connect_def Let_def asks_def buildUrl_def)
    then have "logs_ok parse n (logs_connect parse ?p)"
      using assms False w
      by (simp add: logs_ok_def logs_connect_def setPaused_def connect_wf) (simp add: setQuery_def)
    then show ?thesis using LogsLevel False assms by (simp add: logs_step_def on_level_def)
  qed
next
  case (LogsNetwork ev)
  then show ?thesis using logs_network_ok [OF assms] by (simp add: logs_step_def)
qed (use assms in \<open>simp_all add: logs_step_def clearLogs_def logs_clear_def logs_ok_def\<close>)

interpretation log_view: free_system "\<lambda>p e. logs_step parse e p" "logs_ok parse n" for parse n
  by unfold_locales (rule logs_step_ok)

lemma logs_run_ok: "logs_ok parse n p \<Longrightarrow> logs_ok parse n (fold (logs_step parse) es p)"
  by (rule log_view.fold_always)

lemma logs_mounted_ok:
  assumes "length (lg_logs (fetchHistory_finish now r st)) \<le> n"
  shows "logs_ok parse n (history_loaded parse now r (initial_logs_page st token))"
proof -
  have "asks opt (initial_stream q tok)" for opt :: "log_entry stream_options" and q tok
    by (simp add: asks_def initial_stream_def)
  then show ?thesis
    using assms
    by (simp add: logs_ok_def history_loaded_def logs_connect_def initial_logs_page_def setPaused_wf initial_stream_wf
        asks_setPaused max.coboundedI2) (simp add: initial_stream_def)
qed

section \<open>Behaviour worth noting\<close>

text \<open>The page connects when the history arrives although the user has paused it by then: the stream
  runs while the page drops what it delivers.\<close>

lemma paused_but_connected:
  "let p = history_loaded parse now r (togglePause parse (initial_logs_page st token))
   in lv_paused p \<and> \<not> es_paused (lv_stream p) \<and> es_live (lv_stream p) \<noteq> Map.empty"
  by (simp add: history_loaded_def logs_connect_def togglePause_def Let_def setPaused_def connect_def
      initial_logs_page_def initial_stream_def)

text \<open>It connects as well when the user has left it meanwhile, and nothing disconnects that stream.\<close>

lemma left_but_connected:
  "es_live (lv_stream (history_loaded parse now r (logs_disconnect (initial_logs_page st token)))) \<noteq> Map.empty"
  by (simp add: history_loaded_def logs_connect_def logs_disconnect_def Let_def setPaused_def connect_def
      initial_logs_page_def initial_stream_def)

text \<open>A connection that breaks or is paused leaves the page's own mark of being connected.\<close>

lemma mark_of_connection_stays:
  "lv_connected (logs_network parse (Ends c) p) = lv_connected p"
  "lv_paused (togglePause parse p) \<Longrightarrow> lv_connected (togglePause parse p) = lv_connected p"
  by (auto simp: logs_network_def opened_def togglePause_def Let_def logs_connect_def split: if_splits)

section \<open>Property\<close>



end
