(* ===== verification/LoginPage.thy ===== *)
theory LoginPage
  imports Auth Notices
begin

text \<open>
  \<open>web/src/views/Login.vue\<close> over the token store of \<open>Auth\<close>: the form, the request for a
  token and the way back to the page a 401 interrupted. How the router reads the \<open>redirect\<close>
  query out of the location hash is the parameter \<open>route_query\<close>; the router's own navigations are
  the list of pushed paths. The pause of 600 ms before the request is part of the event that brings
  its answer.
\<close>

section \<open>The page\<close>

record login_page =
  lg_world :: auth_world
  lg_username :: jstr
  lg_password :: jstr
  lg_loading :: bool
  lg_notices :: "notice list"
  lg_pushed :: "jstr list"

definition open_login :: "auth_world \<Rightarrow> login_page" where
  "open_login w = \<lparr>lg_world = w, lg_username = [], lg_password = [], lg_loading = False, lg_notices = [], lg_pushed = []\<rparr>"

definition login_says :: "notice_kind \<Rightarrow> jstr \<Rightarrow> login_page \<Rightarrow> login_page" where
  "login_says k msg s = s\<lparr>lg_notices := lg_notices s @ [(k, msg)]\<rparr>"

definition handleLogin :: "login_page \<Rightarrow> login_page" where
  "handleLogin s =
     (if lg_username s = [] \<or> lg_password s = [] then login_says InfoWarning tx_enter_credentials s
      else s\<lparr>lg_loading := True\<rparr>)"

text \<open>The path saved by the 401 handler, if the session storage can be read.\<close>

definition saved_redirect :: "auth_world \<Rightarrow> jstr" where
  "saved_redirect w = (case get_item (aw_session w) redirect_key of Some (Some p) \<Rightarrow> p | _ \<Rightarrow> [])"

definition forget_redirect :: "auth_world \<Rightarrow> auth_world" where
  "forget_redirect w =
     (case remove_item (aw_session w) redirect_key of None \<Rightarrow> w | Some sess \<Rightarrow> w\<lparr>aw_session := sess\<rparr>)"

definition go_on :: "jstr \<Rightarrow> login_page \<Rightarrow> login_page" where
  "go_on wanted s =
     (let target = if wanted = [] then saved_redirect (lg_world s) else wanted in
      if target = [] then s\<lparr>lg_pushed := lg_pushed s @ [js ''/'']\<rparr>
      else s\<lparr>lg_world := forget_redirect (lg_world s), lg_pushed := lg_pushed s @ [target]\<rparr>)"

text \<open>The answer to the request; decoding a malformed query throws, which ends the handler.\<close>

definition handleLogin_answer ::
    "(jstr \<Rightarrow> jstr option) \<Rightarrow> int \<Rightarrow> jsval outcome \<Rightarrow> login_page \<Rightarrow> login_page" where
  "handleLogin_answer route_query now r s =
     (case login now r (lg_world s) of
        (w, False) \<Rightarrow> login_says InfoError tx_login_failed (s\<lparr>lg_world := w, lg_loading := False\<rparr>)
      | (w, True) \<Rightarrow>
          let s1 = login_says InfoOk tx_welcome (s\<lparr>lg_world := w, lg_loading := False\<rparr>) in
          case route_query (aw_hash w) of
            Some (c # q) \<Rightarrow>
              (case decode_uri_component (c # q) of None \<Rightarrow> s1 | Some p \<Rightarrow> go_on p s1)
          | _ \<Rightarrow> go_on [] s1)"

section \<open>The way back after a 401\<close>

text \<open>While the user keeps failing, the world stays ready to return to \<open>p\<close>.\<close>

definition awaits :: "jstr \<Rightarrow> jstr \<Rightarrow> auth_world \<Rightarrow> bool" where
  "awaits p enc w \<longleftrightarrow>
     st_avail (aw_local w) \<and> st_room (aw_local w) \<and> get_item (aw_session w) redirect_key = Some (Some p) \<and>
     aw_hash w \<in> {js ''#/login'', js ''#/login?redirect='' @ enc}"

lemma logout_frame:
  "aw_session (fst (logout w)) = aw_session w" "aw_hash (fst (logout w)) = aw_hash w"
  "st_avail (aw_local (fst (logout w))) = st_avail (aw_local w)"
  "st_room (aw_local (fst (logout w))) = st_room (aw_local w)"
  by (auto simp: logout_def remove_item_def Let_def)

lemma leave_awaits: "awaits p enc w \<Longrightarrow> awaits p enc (leave_session w)"
  using logout_frame [of w] by (auto simp: awaits_def leave_session_def split: prod.splits bool.splits)

lemma debug_awaits [simp]: "awaits p enc (w\<lparr>aw_debug := c\<rparr>) = awaits p enc w"
  by (simp add: awaits_def)

lemma awaits_on_login: "awaits p enc w \<Longrightarrow> starts_with (current_path (aw_hash w)) (js ''/login'')"
  by (auto simp: awaits_def current_path_def starts_with_def js_def)

lemma failure_awaits: "awaits p enc w \<Longrightarrow> awaits p enc (on_response_error now err w)"
  using awaits_on_login [of p enc w] by (simp add: on_response_error_def Let_def leave_awaits)

lemma expired_awaits:
  assumes "response_status err = Some 401" and "st_avail (aw_local w)" and "st_room (aw_local w)"
    and "st_avail (aw_session w)" and "st_room (aw_session w)"
    and "\<not> starts_with (current_path (aw_hash w)) (js ''/login'')"
    and "encode_uri_component (current_path (aw_hash w)) = Some enc"
  shows "awaits (current_path (aw_hash w)) enc (on_response_error now err w)"
proof -
  let ?w = "w\<lparr>aw_debug := recordApiError now err (aw_debug w)\<rparr>"
  obtain sess where sess: "set_item (aw_session ?w) redirect_key (current_path (aw_hash w)) = Some sess"
    using assms(4,5) by (auto simp: set_item_def)
  let ?w2 = "?w\<lparr>aw_session := sess, aw_debug := recordAuthEvent
      \<lparr>aev_ts = now, aev_redirect_to = Some (current_path (aw_hash w))\<rparr> (aw_debug ?w),
      aw_hash := js ''#/login?redirect='' @ enc\<rparr>"
  obtain w3 where w3: "logout ?w2 = (w3, False)"
    using logout_avail [of ?w2] assms(2) by auto
  have "on_response_error now err w = w3"
    using assms(1,6,7) sess w3 by (simp add: on_response_error_def redirect_to_login_def Let_def)
  moreover have "awaits (current_path (aw_hash w)) enc w3"
    using logout_frame [of ?w2] w3 assms(2,3) ls.get_set_same [OF sess] by (simp add: awaits_def)
  ultimately show ?thesis by simp
qed

definition failed_logins :: "(jstr \<Rightarrow> jstr option) \<Rightarrow> (int \<times> exn) list \<Rightarrow> login_page \<Rightarrow> login_page" where
  "failed_logins route_query tries s = foldl (\<lambda>s (now, err). handleLogin_answer route_query now (Inl err) s) s tries"

lemma failed_logins_awaits:
  "awaits p enc (lg_world s) \<Longrightarrow>
   awaits p enc (lg_world (failed_logins parse tries s)) \<and> lg_pushed (failed_logins parse tries s) = lg_pushed s"
  by (induction tries arbitrary: s)
     (auto simp: failed_logins_def handleLogin_answer_def login_says_def failure_awaits)

lemma current_path_nonempty: "current_path h \<noteq> []"
  by (simp add: current_path_def Let_def js_def)

lemma successful_login:
  assumes "awaits p enc (lg_world s)" and "p \<noteq> []" and "37 \<notin> set p"
    and "route_query (js ''#/login'') = None" and "route_query (js ''#/login?redirect='' @ enc) = Some p"
    and "text_or_empty (jfield data ''token'') = token"
  shows "let s' = handleLogin_answer route_query now (Inr data) s in
    lg_pushed s' = lg_pushed s @ [p] \<and> aw_token (lg_world s') = token \<and> \<not> lg_loading s' \<and>
    get_item (aw_session (lg_world s')) redirect_key = Some None"
proof -
  obtain local' where l: "set_item (aw_local (lg_world s)) token_key token = Some local'"
    using assms(1) by (auto simp: awaits_def set_item_def)
  define w where "w = lg_world s\<lparr>aw_token := token, aw_local := local', aw_header := Some (bearer token)\<rparr>"
  have w: "login now (Inr data) (lg_world s) = (w, True)"
    using l assms(6) by (simp add: w_def Let_def)
  have saved: "saved_redirect w = p"
    using assms(1) by (simp add: awaits_def saved_redirect_def w_def)
  obtain sess where sess: "remove_item (aw_session w) redirect_key = Some sess"
    using assms(1) by (auto simp: awaits_def get_item_def remove_item_def w_def split: if_splits)
  then have forgotten: "get_item sess redirect_key = Some None"
    by (auto simp: remove_item_def get_item_def split: if_splits)
  obtain c q where p: "p = c # q" using assms(2) by (cases p) auto
  have decoded: "decode_uri_component p = Some p" using assms(3) by (rule decode_plain)
  have "aw_hash w \<in> {js ''#/login'', js ''#/login?redirect='' @ enc}"
    using assms(1) by (simp add: awaits_def w_def)
  then have "handleLogin_answer route_query now (Inr data) s =
      go_on [] (login_says InfoOk tx_welcome (s\<lparr>lg_world := w, lg_loading := False\<rparr>)) \<or>
    handleLogin_answer route_query now (Inr data) s =
      go_on p (login_says InfoOk tx_welcome (s\<lparr>lg_world := w, lg_loading := False\<rparr>))"
    unfolding handleLogin_answer_def w using assms(4,5) decoded p
    by (auto simp del: login.simps decode_uri_component.simps)
  then show ?thesis
    using saved sess forgotten assms(2)
    by (auto simp: go_on_def login_says_def Let_def forget_redirect_def w_def)
qed

section \<open>Properties\<close>

text \<open>A session that a 401 ended is taken up where it was: on a page whose storages work, when a request
  of a page with a plain path is answered with 401, then however many attempts to log in fail and for
  whatever reason, the first login that succeeds leads to exactly that path once, with the saved path
  used up and the user authenticated.\<close>

lemma login_returns:
  assumes "response_status err = Some 401"
    and "st_avail (aw_local w)" "st_room (aw_local w)" "st_avail (aw_session w)" "st_room (aw_session w)"
    and "\<not> starts_with (current_path (aw_hash w)) (js ''/login'')" and "37 \<notin> set (current_path (aw_hash w))"
    and "encode_uri_component (current_path (aw_hash w)) = Some enc"
    and "route_query (js ''#/login'') = None"
    and "route_query (js ''#/login?redirect='' @ enc) = Some (current_path (aw_hash w))"
    and "text_or_empty (jfield data ''token'') \<noteq> []"
  shows "let s = handleLogin_answer route_query t2 (Inr data)
               (failed_logins route_query tries (open_login (on_response_error t1 err w)))
         in lg_pushed s = [current_path (aw_hash w)] \<and> isAuthenticated (lg_world s) \<and> \<not> lg_loading s \<and>
            get_item (aw_session (lg_world s)) redirect_key = Some None"
proof -
  define s where "s = failed_logins route_query tries (open_login (on_response_error t1 err w))"
  have "awaits (current_path (aw_hash w)) enc (lg_world s)" and pushed: "lg_pushed s = []"
    using failed_logins_awaits [of _ enc "open_login (on_response_error t1 err w)"] expired_awaits [OF assms(1-6,8), of t1]
    unfolding s_def by (auto simp: open_login_def)
  from successful_login [OF this(1) current_path_nonempty assms(7,9,10) refl, of t2 data] show ?thesis
    using assms(11) pushed by (simp add: s_def [symmetric] isAuthenticated_def Let_def)
qed

lemma login_returns_example:
  "lg_pushed (handleLogin_answer (\<lambda>h. if h = js ''#/login?redirect=%2Fproxy'' then Some (js ''/proxy'') else None) 9
     (Inr (JObj [(js ''token'', jlit ''t2'')]))
     (failed_logins (\<lambda>h. if h = js ''#/login?redirect=%2Fproxy'' then Some (js ''/proxy'') else None)
        [(2, err_401), (3, NativeErr (js ''Error'') [] None)] (open_login (on_response_error 1 err_401 sample_world)))) =
   [js ''/proxy'']"
proof -
  let ?query = "\<lambda>h. if h = js ''#/login?redirect=%2Fproxy'' then Some (js ''/proxy'') else None"
  have path: "current_path (aw_hash sample_world) = js ''/proxy''"
    by (simp add: current_path_def sample_world_def js_def)
  have "encode_uri_component (js ''/proxy'') = Some (js ''%2Fproxy'')"
    by (simp add: encode_uri_component_def js_def is_high_def is_low_def unreserved_def pct_def utf8_def hex_digit_def)
  then show ?thesis
    using login_returns [of err_401 sample_world "js ''%2Fproxy''" ?query "JObj [(js ''token'', jlit ''t2'')]" 9
        "[(2, err_401), (3, NativeErr (js ''Error'') [] None)]" 1] path
    by (simp add: Let_def js_def starts_with_def) (simp add: err_401_def sample_world_def response_status_def)
qed

text \<open>A path with a percent sign is decoded once too often: the router has decoded the query already.\<close>

lemma redirect_decoded_twice:
  assumes "aw_local w = \<lparr>st_avail = True, st_room = True, st_items = m\<rparr>" and "route_query (aw_hash w) = Some (js ''/sms?q=%2541'')"
  shows "lg_pushed (handleLogin_answer route_query now (Inr (JObj [(js ''token'', jlit ''t'')])) (open_login w)) = [js ''/sms?q=%41'']"
  using assms by (simp add: handleLogin_answer_def set_item_def open_login_def login_says_def go_on_def Let_def
      js_def pct_char_def hex_value_def from_code_point_def)

text \<open>Or the handler stops with the user logged in on the login page.\<close>

lemma redirect_not_decodable:
  assumes "aw_local w = \<lparr>st_avail = True, st_room = True, st_items = m\<rparr>" and "route_query (aw_hash w) = Some (js ''/sms?q=100%'')"
  shows "lg_pushed (handleLogin_answer route_query now (Inr (JObj [(js ''token'', jlit ''t'')])) (open_login w)) = []"
  using assms by (simp add: handleLogin_answer_def set_item_def open_login_def login_says_def Let_def
      js_def pct_char_def)

end
