(* ===== verification/OperatorDialog.thy ===== *)
theory OperatorDialog
  imports Stores Notices
begin

text \<open>
  \<open>web/src/components/OperatorSelectionDialog.vue\<close> over the scan streams of
  \<open>stores/devices.ts\<close>: the current selection, choosing a network, starting and resuming a
  scan, and announcing how a scan ended. The parent opens and closes the dialog and names the device.
\<close>

section \<open>State\<close>

record operator_dialog =
  od_open :: bool
  od_deviceId :: jstr
  od_store :: devices_store
  od_loading :: bool
  od_current :: "jsval option"
  od_lastKey :: jstr
  od_notices :: "notice list"
  od_updated :: nat
  od_requests :: "jsval list"

definition initial_dialog :: "jstr \<Rightarrow> devices_store \<Rightarrow> operator_dialog" where
  "initial_dialog dev st = \<lparr>od_open = False, od_deviceId = dev, od_store = st, od_loading = False,
     od_current = None, od_lastKey = [], od_notices = [], od_updated = 0, od_requests = []\<rparr>"

definition od_say :: "notice_kind \<Rightarrow> jstr \<Rightarrow> operator_dialog \<Rightarrow> operator_dialog" where
  "od_say k msg s = s\<lparr>od_notices := od_notices s @ [(k, msg)]\<rparr>"

section \<open>What the dialog shows\<close>

definition scanState :: "operator_dialog \<Rightarrow> jsval option" where
  "scanState s = (if od_deviceId s = [] then None else getOperatorScan (od_deviceId s) (od_store s))"

definition scan_field :: "operator_dialog \<Rightarrow> string \<Rightarrow> jsval" where
  "scan_field s k = (case scanState s of None \<Rightarrow> JUndef | Some v \<Rightarrow> jfield v k)"

definition scanning :: "operator_dialog \<Rightarrow> bool" where
  "scanning s \<longleftrightarrow> scan_field s ''status'' = jlit ''running''"

definition candidates :: "operator_dialog \<Rightarrow> jsval" where
  "candidates s = or_else (scan_field s ''candidates'') (JArr [])"

definition scanMessage :: "operator_dialog \<Rightarrow> jsval" where
  "scanMessage s = or_else (scan_field s ''message'') (JStr [])"

definition scanRetryable :: "operator_dialog \<Rightarrow> bool" where
  "scanRetryable s \<longleftrightarrow> truthy (scan_field s ''retryable'')"

definition scanError :: "operator_dialog \<Rightarrow> jsval" where
  "scanError s = (if scanRetryable s then JStr [] else or_else (scan_field s ''error'') (JStr []))"

text \<open>\<open>rats?.find(rat => !!rat)\<close>; \<open>undefined\<close> when there is none.\<close>

definition firstCandidateRAT :: "jsval \<Rightarrow> jsval" where
  "firstCandidateRAT candidate =
     (case List.find truthy (elems (jfield candidate ''rats'')) of None \<Rightarrow> JUndef | Some r \<Rightarrow> r)"

definition ratDisplay :: "jsval \<Rightarrow> jstr" where
  "ratDisplay candidate =
     (let rats = filter truthy (elems (jfield candidate ''rats'')) in
      if rats = [] then js ''--'' else join_with (js '' / '') (map (\<lambda>r. to_upper (to_string r)) rats))"

text \<open>The class of the message line: the branch for errors that can be retried.\<close>

datatype line_tone = AmberLine | RedLine | BlueLine

definition message_tone :: "operator_dialog \<Rightarrow> line_tone" where
  "message_tone s = (if truthy (scanError s) then (if scanRetryable s then AmberLine else RedLine) else BlueLine)"

section \<open>Handlers\<close>

definition loadCurrent :: "operator_dialog \<Rightarrow> operator_dialog" where
  "loadCurrent s = (if od_deviceId s = [] then s else s\<lparr>od_loading := True\<rparr>)"

definition loadCurrent_answer :: "jsval service_result \<Rightarrow> operator_dialog \<Rightarrow> operator_dialog" where
  "loadCurrent_answer r s =
     (case r of
        Success d \<Rightarrow> s\<lparr>od_current := Some d\<rparr>
      | Failure e \<Rightarrow> od_say InfoError (error_text (ae_message e) tx_selection_failed) s)\<lparr>od_loading := False\<rparr>"

definition doScan :: "(jstr \<Rightarrow> jsval outcome) \<Rightarrow> jstr \<Rightarrow> operator_dialog \<Rightarrow> operator_dialog" where
  "doScan parse token s =
     (if od_deviceId s = [] \<or> scanning s then s
      else s\<lparr>od_store := startOperatorScan parse token (od_deviceId s) (od_store s)\<rparr>)"

definition automatic_payload :: jsval where
  "automatic_payload = obj [(''mode'', jlit ''automatic'')]"

definition manual_payload :: "jsval \<Rightarrow> jsval" where
  "manual_payload candidate =
     obj [(''mode'', jlit ''manual''), (''plmn'', jfield candidate ''plmn''),
       (''includes_pcs_digit'', jfield candidate ''includes_pcs_digit''), (''rat'', firstCandidateRAT candidate)]"

definition send_choice :: "jsval \<Rightarrow> operator_dialog \<Rightarrow> operator_dialog" where
  "send_choice payload s = s\<lparr>od_loading := True, od_requests := od_requests s @ [payload]\<rparr>"

definition setModeAuto :: "operator_dialog \<Rightarrow> operator_dialog" where
  "setModeAuto = send_choice automatic_payload"

definition setModeManual :: "jsval \<Rightarrow> operator_dialog \<Rightarrow> operator_dialog" where
  "setModeManual candidate = send_choice (manual_payload candidate)"

text \<open>The answer to a choice: after a success the selection is loaded again, and the answer to that
  ends the wait; without a device nothing is loaded.\<close>

definition choice_answer :: "jstr \<Rightarrow> 'a service_result \<Rightarrow> operator_dialog \<Rightarrow> operator_dialog" where
  "choice_answer done_text r s =
     (case r of
        Success _ \<Rightarrow>
          let s1 = loadCurrent ((od_say InfoOk done_text s)\<lparr>od_updated := Suc (od_updated s)\<rparr>) in
          if od_deviceId s = [] then s1\<lparr>od_loading := False\<rparr> else s1
      | Failure e \<Rightarrow> (od_say InfoError (error_text (ae_message e) tx_set_failed) s)\<lparr>od_loading := False\<rparr>)"

definition setModeAuto_answer :: "jsval service_result \<Rightarrow> operator_dialog \<Rightarrow> operator_dialog" where
  "setModeAuto_answer = choice_answer tx_selection_auto"

definition setModeManual_answer :: "jsval \<Rightarrow> jsval service_result \<Rightarrow> operator_dialog \<Rightarrow> operator_dialog" where
  "setModeManual_answer candidate = choice_answer (tx_network_locked @ to_string (jfield candidate ''plmn''))"

text \<open>The watcher of \<open>modelValue\<close>.\<close>

definition watch_open :: "(jstr \<Rightarrow> jsval outcome) \<Rightarrow> jstr \<Rightarrow> bool \<Rightarrow> operator_dialog \<Rightarrow> operator_dialog" where
  "watch_open parse token v s =
     (let s1 = s\<lparr>od_open := v\<rparr> in
      if v = od_open s \<or> \<not> v then s1
      else
        let s2 = loadCurrent s1 in
        if od_deviceId s = [] then s2
        else s2\<lparr>od_store := resumeOperatorScan parse token (od_deviceId s) (od_store s2)\<rparr>)"

text \<open>The watcher of the scan.\<close>

definition notify_key :: "jsval \<Rightarrow> jstr" where
  "notify_key scan = to_string (jfield scan ''scan_id'') @ 58 # to_string (jfield scan ''status'')"

definition scan_notices :: "jsval \<Rightarrow> notice list" where
  "scan_notices scan =
     (if jfield scan ''status'' = jlit ''complete'' then [(InfoOk, tx_scan_complete)]
      else if jfield scan ''status'' = jlit ''failed'' \<and> truthy (jfield scan ''retryable'')
      then [(InfoWarning, to_string (or_else (jfield scan ''message'') (JStr tx_scan_retry)))]
      else [])"

definition watch_scan :: "jsval option \<Rightarrow> operator_dialog \<Rightarrow> operator_dialog" where
  "watch_scan next s =
     (case next of
        None \<Rightarrow> s
      | Some scan \<Rightarrow>
          if \<not> od_open s \<or> notify_key scan = od_lastKey s then s
          else s\<lparr>od_notices := od_notices s @ scan_notices scan, od_lastKey := notify_key scan\<rparr>)"

text \<open>An event of the scan's stream: the store files what it delivers, and the watcher runs once after a
  chunk that delivered something.\<close>

definition dialog_stream_event ::
    "(jstr \<Rightarrow> jsval outcome) \<Rightarrow> stream_event \<Rightarrow> operator_dialog \<Rightarrow> operator_dialog" where
  "dialog_stream_event parse e s =
     (let s1 = s\<lparr>od_store := scan_stream_event parse (od_deviceId s) e (od_store s)\<rparr> in
      case dv_scanStreams (od_store s) (od_deviceId s) of
        None \<Rightarrow> s1
      | Some st \<Rightarrow> if new_scans parse (od_deviceId s) e st = [] then s1 else watch_scan (scanState s1) s1)"

section \<open>Announcing\<close>

text \<open>The scans that count: those whose key differs from the one before.\<close>

fun fresh_scans :: "jstr \<Rightarrow> jsval list \<Rightarrow> jsval list" where
  "fresh_scans key [] = []"
| "fresh_scans key (v # vs) = (if notify_key v = key then fresh_scans key vs else v # fresh_scans (notify_key v) vs)"

lemma watch_scans_notices:
  "od_open s \<Longrightarrow>
   od_notices (fold (watch_scan \<circ> Some) vs s) = od_notices s @ concat (map scan_notices (fresh_scans (od_lastKey s) vs))"
  by (induction vs arbitrary: s) (simp_all add: watch_scan_def)

lemma silent_dialog_event:
  assumes "dv_scanStreams (od_store s) (od_deviceId s) = Some st" and "silent_stream st" and "platform_event e"
  shows "dialog_stream_event parse e s = s"
proof -
  have "stream_step (scan_options parse (od_deviceId s)) e st = st" using silent_step assms(2,3) by blast
  then show ?thesis
    using silent_scan_event [OF assms] assms(1) by (simp add: dialog_stream_event_def new_scans_def)
qed

lemma silent_dialog_events:
  "dv_scanStreams (od_store s) (od_deviceId s) = Some st \<Longrightarrow> silent_stream st \<Longrightarrow> list_all platform_event es \<Longrightarrow>
   fold (dialog_stream_event parse) es s = s"
  by (induction es) (simp_all add: silent_dialog_event)

lemma delivered_dialog:
  assumes "dv_scanStreams (od_store s) (od_deviceId s) = Some st" and "od_deviceId s \<noteq> []"
    and "new_scans parse (od_deviceId s) e st = ds @ [d]" and "od_open s" and "notify_key d \<noteq> od_lastKey s"
  shows "dialog_stream_event parse e s =
    s\<lparr>od_store := scan_stream_event parse (od_deviceId s) e (od_store s),
      od_notices := od_notices s @ scan_notices d, od_lastKey := notify_key d\<rparr>"
  using assms scan_event_unfold [OF assms(1), of parse e]
  by (simp add: dialog_stream_event_def Let_def scanState_def getOperatorScan_def watch_scan_def set_stream_def)

text \<open>The amber tone is never used: the error it is meant for is blanked when it can be retried.\<close>

lemma amber_unreachable: "message_tone s \<noteq> AmberLine"
  by (simp add: message_tone_def scanError_def)

section \<open>Properties\<close>


definition scanning_store :: devices_store where
  "scanning_store =
     (let o' = scan_options scan_parse (js ''d1'') in
      set_stream (js ''d1'') (stream_step o' (Responds 0 200 True)
        (setPaused o' False (initial_stream [] (js ''t'')))) initial_devices)"


end
