(* ===== verification/DashboardPage.thy ===== *)
theory DashboardPage
  imports Polling Stores
begin

text \<open>
  \<open>web/src/views/Dashboard.vue\<close>: the page runs two pollers of \<open>Polling\<close> over the fetches of
  the dashboard store, and fetches by hand besides. A fetch handed to a poller or called by a handler
  stays in flight until its answer arrives; answers may arrive in any order.
\<close>

section \<open>Fetches, polled or not\<close>

text \<open>A request in flight: its number, whether a poller waits for it, and what it was asked for.\<close>

record 'a polled =
  pl_poll :: poll_state
  pl_pending :: "(nat \<times> bool \<times> 'a) list"
  pl_next :: nat

definition polled_start :: "poll_state \<Rightarrow> 'a polled" where
  "polled_start p = \<lparr>pl_poll = p, pl_pending = [], pl_next = 0\<rparr>"

definition send_request :: "bool \<Rightarrow> 'a \<Rightarrow> 'a polled \<Rightarrow> 'a polled" where
  "send_request polled x ch =
     ch\<lparr>pl_pending := pl_pending ch @ [(pl_next ch, polled, x)], pl_next := Suc (pl_next ch)\<rparr>"

text \<open>An event of the poller; when it starts the task, the request goes out.\<close>

definition task_began :: "poll_cfg \<Rightarrow> poll_event \<Rightarrow> 'a polled \<Rightarrow> bool" where
  "task_began c e ch \<longleftrightarrow> ps_tasks (pl_poll ch) < ps_tasks (scheduler_step c e (pl_poll ch))"

definition poll_channel :: "poll_cfg \<Rightarrow> poll_event \<Rightarrow> 'a \<Rightarrow> 'a polled \<Rightarrow> 'a polled" where
  "poll_channel c e x ch =
     (let ch1 = ch\<lparr>pl_poll := scheduler_step c e (pl_poll ch)\<rparr> in
      if task_began c e ch then send_request True x ch1 else ch1)"

text \<open>The fetches of the store end without throwing, whatever came back, so a poller sees a success.\<close>

definition settle_request :: "poll_cfg \<Rightarrow> nat \<Rightarrow> 'a polled \<Rightarrow> 'a polled" where
  "settle_request c i ch =
     (let ch1 = ch\<lparr>pl_pending := filter (\<lambda>q. fst q \<noteq> i) (pl_pending ch)\<rparr> in
      if list_ex (\<lambda>q. fst q = i \<and> fst (snd q)) (pl_pending ch)
      then ch1\<lparr>pl_poll := scheduler_step c (TaskSettles True) (pl_poll ch1)\<rparr> else ch1)"

section \<open>The page\<close>

definition devices_cfg :: poll_cfg where
  "devices_cfg = \<lparr>pc_interval = 5000, pc_immediate = True, pc_background = Some 15000, pc_factor = None,
     pc_max = Some 30000, pc_has_enabled = False\<rparr>"

definition analysis_cfg :: poll_cfg where
  "analysis_cfg = \<lparr>pc_interval = 60000, pc_immediate = False, pc_background = Some 120000, pc_factor = None,
     pc_max = Some 300000, pc_has_enabled = False\<rparr>"

record dash_page =
  dp_store :: dashboard_store
  dp_lastUpdatedAt :: "int option"
  dp_range :: jstr
  dp_devices :: "unit polled"
  dp_analysis :: "jstr polled"
  dp_pushed :: "jstr list"

definition open_dashboard :: "bool \<Rightarrow> dashboard_store \<Rightarrow> dash_page" where
  "open_dashboard hidden st = \<lparr>dp_store = st, dp_lastUpdatedAt = None, dp_range = js ''day'',
     dp_devices = polled_start (initial_poll devices_cfg True hidden),
     dp_analysis = polled_start (initial_poll analysis_cfg True hidden), dp_pushed = []\<rparr>"

definition totalCount :: "dash_page \<Rightarrow> nat" where
  "totalCount s = length (elems (db_devices (dp_store s)))"

definition onlineCount :: "dash_page \<Rightarrow> nat" where
  "onlineCount s = length (filter (\<lambda>d. truthy (jfield d ''healthy'')) (elems (db_devices (dp_store s))))"

definition offlineCount :: "dash_page \<Rightarrow> nat" where
  "offlineCount s = nat (max 0 (int (totalCount s) - int (onlineCount s)))"

definition fetchDevices :: "dash_page \<Rightarrow> dash_page" where
  "fetchDevices s = s\<lparr>dp_store := db_fetchDevices_start (dp_store s), dp_devices := send_request False () (dp_devices s)\<rparr>"

definition fetchTrafficAnalysis :: "dash_page \<Rightarrow> dash_page" where
  "fetchTrafficAnalysis s =
     s\<lparr>dp_store := db_fetchAnalysis_start (dp_store s), dp_analysis := send_request False (dp_range s) (dp_analysis s)\<rparr>"

definition devices_polled :: "poll_event \<Rightarrow> dash_page \<Rightarrow> dash_page" where
  "devices_polled e s =
     s\<lparr>dp_store := (if task_began devices_cfg e (dp_devices s) then db_fetchDevices_start (dp_store s) else dp_store s),
       dp_devices := poll_channel devices_cfg e () (dp_devices s)\<rparr>"

definition analysis_polled :: "poll_event \<Rightarrow> dash_page \<Rightarrow> dash_page" where
  "analysis_polled e s =
     s\<lparr>dp_store := (if task_began analysis_cfg e (dp_analysis s) then db_fetchAnalysis_start (dp_store s) else dp_store s),
       dp_analysis := poll_channel analysis_cfg e (dp_range s) (dp_analysis s)\<rparr>"

definition fetchDevices_answer :: "nat \<Rightarrow> int \<Rightarrow> jsval service_result \<Rightarrow> dash_page \<Rightarrow> dash_page" where
  "fetchDevices_answer i now r s =
     (if \<not> list_ex (\<lambda>q. fst q = i) (pl_pending (dp_devices s)) then s
      else s\<lparr>dp_store := db_fetchDevices_finish now r (dp_store s), dp_lastUpdatedAt := Some now,
             dp_devices := settle_request devices_cfg i (dp_devices s)\<rparr>)"

definition fetchTrafficAnalysis_answer ::
    "nat \<Rightarrow> int \<Rightarrow> traffic_analysis service_result \<Rightarrow> dash_page \<Rightarrow> dash_page" where
  "fetchTrafficAnalysis_answer i now r s =
     (if \<not> list_ex (\<lambda>q. fst q = i) (pl_pending (dp_analysis s)) then s
      else s\<lparr>dp_store := db_fetchAnalysis_finish now r (dp_store s),
             dp_analysis := settle_request analysis_cfg i (dp_analysis s)\<rparr>)"

definition handleAnalysisRangeChange :: "jstr \<Rightarrow> dash_page \<Rightarrow> dash_page" where
  "handleAnalysisRangeChange r s = (if dp_range s = r then s else fetchTrafficAnalysis (s\<lparr>dp_range := r\<rparr>))"

definition openDeviceOverview :: "jsval \<Rightarrow> dash_page \<Rightarrow> dash_page" where
  "openDeviceOverview ident s =
     (let dev = trim (text_or_empty ident) in if dev = [] then s else s\<lparr>dp_pushed := dp_pushed s @ [dev]\<rparr>)"

text \<open>Both pollers see the page come and go and the tab hide; their timers fire on their own. The first
  analysis is fetched when the browser is idle.\<close>

datatype dash_event =
    BothPollers poll_event
  | DevicesTimer nat
  | AnalysisTimer nat
  | BrowserIdle
  | RefreshClicked
  | AnalysisRefreshed
  | RangePicked jstr
  | DeviceOpened jsval
  | DevicesCame nat int "jsval service_result"
  | AnalysisCame nat int "traffic_analysis service_result"

fun shared_event :: "poll_event \<Rightarrow> bool" where
  "shared_event Mount = True"
| "shared_event Unmount = True"
| "shared_event (SetHidden h) = True"
| "shared_event _ = False"

fun dash_step :: "dash_page \<Rightarrow> dash_event \<Rightarrow> dash_page" where
  "dash_step s (BothPollers e) = (if shared_event e then analysis_polled e (devices_polled e s) else s)"
| "dash_step s (DevicesTimer i) = devices_polled (TimerFires i) s"
| "dash_step s (AnalysisTimer i) = analysis_polled (TimerFires i) s"
| "dash_step s BrowserIdle = fetchTrafficAnalysis s"
| "dash_step s RefreshClicked = fetchDevices s"
| "dash_step s AnalysisRefreshed = fetchTrafficAnalysis s"
| "dash_step s (RangePicked r) = handleAnalysisRangeChange r s"
| "dash_step s (DeviceOpened ident) = openDeviceOverview ident s"
| "dash_step s (DevicesCame i now r) = fetchDevices_answer i now r s"
| "dash_step s (AnalysisCame i now r) = fetchTrafficAnalysis_answer i now r s"

section \<open>The pollers and their requests\<close>

definition polled_count :: "'a polled \<Rightarrow> nat" where
  "polled_count ch = length (filter (\<lambda>q. fst (snd q)) (pl_pending ch))"

text \<open>The poller is well formed, waits for exactly the polled requests in flight, has never backed off, and
  request numbers are distinct.\<close>

definition channel_ok :: "poll_cfg \<Rightarrow> 'a polled \<Rightarrow> bool" where
  "channel_ok c ch \<longleftrightarrow> poll_wf (pl_poll ch) \<and> ps_tasks (pl_poll ch) = polled_count ch \<and>
     ps_current (pl_poll ch) = pc_interval c \<and> distinct (map fst (pl_pending ch)) \<and>
     (\<forall>q\<in>set (pl_pending ch). fst q < pl_next ch)"

lemma schedule_tasks [simp]: "ps_tasks (schedule d s) = ps_tasks s"
  by (simp add: schedule_def clearTimer_def set_timeout_def Let_def split: option.split)

lemma clear_tasks [simp]: "ps_tasks (clearTimer s) = ps_tasks s"
  by (simp add: clearTimer_def split: option.split)

lemma step_tasks:
  "(\<forall>b. e \<noteq> TaskSettles b) \<Longrightarrow>
   ps_tasks (scheduler_step c e s) = ps_tasks s \<or> ps_tasks (scheduler_step c e s) = Suc (ps_tasks s)"
  by (cases e) (auto simp: start_def stop_def trigger_def tick_def start_task_def)

lemma settle_tasks: "ps_tasks (scheduler_step c (TaskSettles b) s) = ps_tasks s - 1"
  by (simp add: task_settled_def Let_def)

lemma steady: "e \<noteq> TaskSettles False \<Longrightarrow> ps_current s = pc_interval c \<Longrightarrow> ps_current (scheduler_step c e s) = pc_interval c"
  using scheduler.other_current [of c e s] by auto

lemma send_ok: "\<not> polled \<Longrightarrow> channel_ok c ch \<Longrightarrow> channel_ok c (send_request polled x ch)"
  by (auto simp: channel_ok_def send_request_def polled_count_def)

lemma poll_channel_ok:
  assumes "channel_ok c ch" and "\<forall>b. e \<noteq> TaskSettles b"
  shows "channel_ok c (poll_channel c e x ch)"
  using assms step_tasks [OF assms(2), of c "pl_poll ch"] steady [of e "pl_poll ch" c] scheduler.step_wf [of "pl_poll ch" c e]
  by (auto simp: channel_ok_def poll_channel_def task_began_def send_request_def polled_count_def Let_def)

lemma removed_count:
  "distinct (map fst l) \<Longrightarrow> (i, True, x) \<in> set l \<Longrightarrow>
   length (filter (\<lambda>q. fst (snd q)) l) = Suc (length (filter (\<lambda>q. fst (snd q)) (filter (\<lambda>q. fst q \<noteq> i) l)))"
proof (induction l)
  case (Cons q l)
  show ?case
  proof (cases "fst q = i")
    case True
    with Cons.prems have "filter (\<lambda>q. fst q \<noteq> i) l = l" by (auto simp: filter_id_conv image_iff)
    moreover from True Cons.prems have "q = (i, True, x)" by (auto simp: image_iff)
    ultimately show ?thesis by simp
  next
    case False
    then show ?thesis using Cons by auto
  qed
qed simp

lemma other_count:
  "\<not> list_ex (\<lambda>q. fst q = i \<and> fst (snd q)) l \<Longrightarrow>
   filter (\<lambda>q. fst (snd q)) (filter (\<lambda>q. fst q \<noteq> i) l) = filter (\<lambda>q. fst (snd q)) l"
  by (induction l) auto

lemma settle_ok: "channel_ok c ch \<Longrightarrow> channel_ok c (settle_request c i ch)"
proof -
  assume ok: "channel_ok c ch"
  have d: "distinct (map fst (filter (\<lambda>q. fst q \<noteq> i) (pl_pending ch)))"
    using ok by (simp add: channel_ok_def distinct_map_filter)
  show ?thesis
  proof (cases "list_ex (\<lambda>q. fst q = i \<and> fst (snd q)) (pl_pending ch)")
    case True
    then obtain x where "(i, True, x) \<in> set (pl_pending ch)" by (auto simp: list_ex_iff)
    with ok have "polled_count ch = Suc (length (filter (\<lambda>q. fst (snd q)) (filter (\<lambda>q. fst q \<noteq> i) (pl_pending ch))))"
      using removed_count by (auto simp: channel_ok_def polled_count_def)
    with True ok d show ?thesis
      using settle_tasks [of c True "pl_poll ch"] scheduler.step_wf [of "pl_poll ch" c "TaskSettles True"]
        steady [of "TaskSettles True" "pl_poll ch" c]
      by (auto simp: channel_ok_def settle_request_def polled_count_def Let_def simp del: scheduler_step.simps)
  next
    case False
    with ok d other_count [OF False] show ?thesis
      by (auto simp: channel_ok_def settle_request_def polled_count_def Let_def)
  qed
qed

definition channel_alive :: "'a polled \<Rightarrow> bool" where
  "channel_alive ch \<longleftrightarrow> poll_alive (pl_poll ch)"

lemma settle_alive: "channel_ok c ch \<Longrightarrow> channel_alive ch \<Longrightarrow> channel_alive (settle_request c i ch)"
  using scheduler.step_alive by (auto simp: channel_ok_def channel_alive_def settle_request_def Let_def simp del: scheduler_step.simps)

lemma poll_channel_alive:
  "channel_ok c ch \<Longrightarrow> channel_alive ch \<or> e = Mount \<Longrightarrow> channel_alive (poll_channel c e x ch)"
  using scheduler.step_alive [of "pl_poll ch" c e] scheduler.mount_alive [of "pl_poll ch" c]
  by (auto simp: channel_ok_def channel_alive_def poll_channel_def send_request_def Let_def simp del: scheduler_step.simps)

lemma send_alive [simp]: "channel_alive (send_request polled x ch) = channel_alive ch"
  by (simp add: channel_alive_def send_request_def)

definition dash_ok :: "dash_page \<Rightarrow> bool" where
  "dash_ok s \<longleftrightarrow> channel_ok devices_cfg (dp_devices s) \<and> channel_ok analysis_cfg (dp_analysis s)"

definition dash_alive :: "dash_page \<Rightarrow> bool" where
  "dash_alive s \<longleftrightarrow> channel_alive (dp_devices s) \<and> channel_alive (dp_analysis s)"

lemmas dash_handler_defs = fetchDevices_def fetchTrafficAnalysis_def devices_polled_def analysis_polled_def
  fetchDevices_answer_def fetchTrafficAnalysis_answer_def handleAnalysisRangeChange_def openDeviceOverview_def Let_def

lemma shared_not_settle: "shared_event e \<Longrightarrow> e \<noteq> TaskSettles b"
  by auto

lemma dash_step_ok: "dash_ok s \<Longrightarrow> dash_ok (dash_step s e)"
  by (cases e) (auto simp: dash_ok_def dash_handler_defs poll_channel_ok settle_ok send_ok shared_not_settle)

lemma dash_step_alive: "dash_ok s \<Longrightarrow> dash_alive s \<or> e = BothPollers Mount \<Longrightarrow> dash_alive (dash_step s e)"
  by (cases e) (auto simp: dash_ok_def dash_alive_def dash_handler_defs poll_channel_alive settle_alive)

definition dash_run :: "dash_event list \<Rightarrow> dash_page \<Rightarrow> dash_page" where
  "dash_run es s = foldl dash_step s es"

interpretation pollings: free_system dash_step dash_ok
  by unfold_locales (rule dash_step_ok)

interpretation living: free_system dash_step "\<lambda>s. dash_ok s \<and> dash_alive s"
  by unfold_locales (simp add: dash_step_ok dash_step_alive)

lemma dash_run_ok: "dash_ok s \<Longrightarrow> dash_ok (dash_run es s)"
  unfolding dash_run_def by (rule pollings.always)

lemma dash_run_alive: "dash_ok s \<Longrightarrow> dash_alive s \<Longrightarrow> dash_alive (dash_run es s)"
  using living.always unfolding dash_run_def by blast

lemma open_dashboard_ok: "dash_ok (open_dashboard hidden st)"
  by (simp add: dash_ok_def open_dashboard_def channel_ok_def polled_start_def polled_count_def initial_wf)
     (simp add: initial_poll_def)

lemma channel_facts:
  "channel_ok c ch \<Longrightarrow> polled_count ch \<le> 1 \<and> length (ps_armed (pl_poll ch)) \<le> 1 \<and> ps_current (pl_poll ch) = pc_interval c \<and>
     (channel_alive ch \<longrightarrow> ps_stopped (pl_poll ch) \<or> polled_count ch = 1 \<or> length (ps_armed (pl_poll ch)) = 1)"
  by (cases "ps_armed (pl_poll ch)") (auto simp: channel_ok_def channel_alive_def poll_alive_def poll_wf_def)

section \<open>Properties\<close>

text \<open>C30. The dashboard polls steadily: from the moment it is mounted and whatever the user picks and the
  server answers, successes and failures in any order, each of its two pollers has at most one request in
  flight and one timer armed, is stopped or has one of the two, and keeps its own base interval.\<close>

theorem dashboard_polls_steadily:
  "let s = dash_run (pre @ BothPollers Mount # es) (open_dashboard hidden st) in
     polled_count (dp_devices s) \<le> 1 \<and> polled_count (dp_analysis s) \<le> 1 \<and>
     ps_current (pl_poll (dp_devices s)) = 5000 \<and> ps_current (pl_poll (dp_analysis s)) = 60000 \<and>
     (ps_stopped (pl_poll (dp_devices s)) \<or> polled_count (dp_devices s) = 1 \<or> length (ps_armed (pl_poll (dp_devices s))) = 1) \<and>
     (ps_stopped (pl_poll (dp_analysis s)) \<or> polled_count (dp_analysis s) = 1 \<or> length (ps_armed (pl_poll (dp_analysis s))) = 1)"
proof -
  let ?p = "dash_run pre (open_dashboard hidden st)" and ?s = "dash_run (pre @ BothPollers Mount # es) (open_dashboard hidden st)"
  have s: "?s = dash_run es (dash_step ?p (BothPollers Mount))" by (simp add: dash_run_def)
  have "dash_ok ?p" by (intro dash_run_ok open_dashboard_ok)
  then have "dash_ok ?s" "dash_alive ?s"
    unfolding s by (simp_all add: dash_run_ok dash_run_alive dash_step_ok dash_step_alive del: dash_step.simps)
  then show ?thesis
    using channel_facts [of devices_cfg "dp_devices ?s"] channel_facts [of analysis_cfg "dp_analysis ?s"]
    by (simp add: dash_ok_def dash_alive_def Let_def) (simp add: devices_cfg_def analysis_cfg_def)
qed

text \<open>Nothing ties an answer to the range it was asked for: picking another range while an answer is on its
  way shows the old range under the new name when that answer comes last.\<close>

lemma range_of_other:
  "db_analysis (dp_store (dash_run [BrowserIdle, RangePicked (js ''hour''), AnalysisCame 1 5 (Success hour), AnalysisCame 0 6 (Success day)]
     (open_dashboard hidden st))) = day \<and>
   dp_range (dash_run [BrowserIdle, RangePicked (js ''hour''), AnalysisCame 1 5 (Success hour), AnalysisCame 0 6 (Success day)]
     (open_dashboard hidden st)) = js ''hour''"
  by (simp add: dash_run_def dash_handler_defs open_dashboard_def polled_start_def send_request_def settle_request_def
      db_fetchAnalysis_start_def db_fetchAnalysis_finish_def js_def)

text \<open>The time of the last refresh is that of the last answer, good or bad.\<close>

lemma refresh_time_of_failure:
  "dp_lastUpdatedAt (dash_run [RefreshClicked, DevicesCame 0 now (Failure e)] (open_dashboard hidden st)) = Some now"
  by (simp add: dash_run_def dash_handler_defs open_dashboard_def polled_start_def send_request_def)

lemma counts_add_up: "onlineCount s + offlineCount s = totalCount s"
  using length_filter_le [of _ "elems (db_devices (dp_store s))"]
  by (simp add: onlineCount_def offlineCount_def totalCount_def nat_diff_distrib max_def)

end
