(* ===== verification/AppShell.thy ===== *)
theory AppShell
  imports Auth Notices
begin

text \<open>
  \<open>web/src/App.vue\<close> and \<open>web/src/layouts/AuthenticatedShell.vue\<close> over the token
  store of \<open>Auth\<close>: the theme, the weekly disclaimer and the request to remove the software;
  the sidebar, the drawer, the diagnostics panel and logging out. Local storage is that of the token
  store. A handler whose storage access throws stops there.
\<close>

section \<open>\<open>App.vue\<close>\<close>

definition DISCLAIMER_AGREED_AT_KEY :: jstr where
  "DISCLAIMER_AGREED_AT_KEY = js ''vohive_disclaimer_agreed_at''"

definition theme_key :: jstr where
  "theme_key = js ''theme''"

definition expectedConfirmText :: jstr where
  "expectedConfirmText = tx_agree"

record app =
  ap_world :: auth_world
  ap_route :: "route_name option"
  ap_isDark :: bool
  ap_htmlDark :: bool
  ap_showDisclaimer :: bool
  ap_confirmText :: jstr
  ap_notices :: "notice list"
  ap_uninstalls :: "jstr option list"
  ap_removed :: bool

definition canAccept :: "app \<Rightarrow> bool" where
  "canAccept s \<longleftrightarrow> ap_confirmText s = expectedConfirmText"

definition agreed_at :: "storage \<Rightarrow> jnum option option" where
  "agreed_at st = map_option (map_option number_of_text) (get_item st DISCLAIMER_AGREED_AT_KEY)"

text \<open>The watcher of \<open>isAuthenticated\<close>, which also runs once when the component is set up.\<close>

definition watch_authenticated :: "int \<Rightarrow> app \<Rightarrow> app" where
  "watch_authenticated now s =
     (if isAuthenticated (ap_world s) then
        (case agreed_at (aw_local (ap_world s)) of
           None \<Rightarrow> s
         | Some agreedAt \<Rightarrow>
             if shouldShowDisclaimer agreedAt now then s\<lparr>ap_confirmText := [], ap_showDisclaimer := True\<rparr> else s)
      else s\<lparr>ap_showDisclaimer := False\<rparr>)"

text \<open>None: reading the theme throws, so the application is not set up.\<close>

definition setup_app :: "int \<Rightarrow> route_name option \<Rightarrow> auth_world \<Rightarrow> app option" where
  "setup_app now route w =
     (case get_item (aw_local w) theme_key of
        None \<Rightarrow> None
      | Some theme \<Rightarrow>
          Some (watch_authenticated now
            \<lparr>ap_world = w, ap_route = route, ap_isDark = (theme = Some (js ''dark'')), ap_htmlDark = False,
             ap_showDisclaimer = False, ap_confirmText = [], ap_notices = [], ap_uninstalls = [], ap_removed = False\<rparr>))"

definition app_onMounted :: "app \<Rightarrow> app" where
  "app_onMounted s = (if ap_isDark s then s\<lparr>ap_htmlDark := True\<rparr> else s)"

definition keep_local :: "storage \<Rightarrow> app \<Rightarrow> app" where
  "keep_local st s = s\<lparr>ap_world := (ap_world s)\<lparr>aw_local := st\<rparr>\<rparr>"

definition toggleTheme :: "app \<Rightarrow> app" where
  "toggleTheme s =
     (let dark = \<not> ap_isDark s; s1 = s\<lparr>ap_isDark := dark\<rparr> in
      case set_item (aw_local (ap_world s)) theme_key (if dark then js ''dark'' else js ''light'') of
        None \<Rightarrow> s1
      | Some st \<Rightarrow> keep_local st (s1\<lparr>ap_htmlDark := dark\<rparr>))"

definition acceptDisclaimer :: "int \<Rightarrow> app \<Rightarrow> app" where
  "acceptDisclaimer now s =
     (if \<not> canAccept s then s
      else case set_item (aw_local (ap_world s)) DISCLAIMER_AGREED_AT_KEY (show_int now) of
        None \<Rightarrow> s
      | Some st \<Rightarrow> keep_local st (s\<lparr>ap_showDisclaimer := False\<rparr>))"

text \<open>The request goes out with the stored token, if there is one; whatever comes back, the page is
  replaced by the notice that the software is gone.\<close>

definition rejectDisclaimer :: "app \<Rightarrow> app" where
  "rejectDisclaimer s =
     (let s1 = s\<lparr>ap_notices := ap_notices s @ [(InfoWarning, tx_leaving)]\<rparr> in
      case stored_token (aw_local (ap_world s)) of
        None \<Rightarrow> s1
      | Some t \<Rightarrow> s1\<lparr>ap_uninstalls := ap_uninstalls s1 @ [if t = [] then None else Some (bearer t)]\<rparr>)"

definition uninstall_settled :: "app \<Rightarrow> app" where
  "uninstall_settled s = s\<lparr>ap_removed := True\<rparr>"

datatype shell_kind = AuthenticatedShell | UnauthenticatedShell

definition shell :: "app \<Rightarrow> shell_kind" where
  "shell s = (if isAuthenticated (ap_world s) \<and> ap_route s \<noteq> Some Login then AuthenticatedShell else UnauthenticatedShell)"

text \<open>Whatever the token store does is followed by the watcher when it changed \<open>isAuthenticated\<close>.\<close>

definition app_auth :: "int \<Rightarrow> auth_op \<Rightarrow> app \<Rightarrow> app" where
  "app_auth now op s =
     (let s1 = s\<lparr>ap_world := auth_step (ap_world s) op\<rparr> in
      if isAuthenticated (ap_world s1) = isAuthenticated (ap_world s) then s1 else watch_authenticated now s1)"

datatype app_event =
    AuthChanged int auth_op
  | AppMount
  | ThemeToggled
  | Confirmed jstr
  | Accepted int
  | Rejected
  | UninstallSettled
  | RouteShown "route_name option"

fun app_step :: "app \<Rightarrow> app_event \<Rightarrow> app" where
  "app_step s (AuthChanged now op) = app_auth now op s"
| "app_step s AppMount = app_onMounted s"
| "app_step s ThemeToggled = toggleTheme s"
| "app_step s (Confirmed t) = s\<lparr>ap_confirmText := t\<rparr>"
| "app_step s (Accepted now) = acceptDisclaimer now s"
| "app_step s Rejected = rejectDisclaimer s"
| "app_step s UninstallSettled = uninstall_settled s"
| "app_step s (RouteShown r) = s\<lparr>ap_route := r\<rparr>"

section \<open>\<open>AuthenticatedShell.vue\<close>\<close>

record shell_state =
  sh_world :: auth_world
  sh_collapsed :: bool
  sh_isMobile :: bool
  sh_drawerOpen :: bool
  sh_debugOpen :: bool
  sh_pushed :: "jstr list"

definition debug_open_key :: jstr where
  "debug_open_key = js ''debug_panel_open''"

definition syncIsMobile :: "bool \<Rightarrow> shell_state \<Rightarrow> shell_state" where
  "syncIsMobile narrow s =
     (let s1 = s\<lparr>sh_isMobile := narrow\<rparr> in if narrow then s1 else s1\<lparr>sh_drawerOpen := False\<rparr>)"

definition handleNavToggle :: "shell_state \<Rightarrow> shell_state" where
  "handleNavToggle s =
     (if sh_isMobile s then s\<lparr>sh_drawerOpen := True\<rparr> else s\<lparr>sh_collapsed := \<not> sh_collapsed s\<rparr>)"

definition save_debug_open :: "shell_state \<Rightarrow> shell_state" where
  "save_debug_open s =
     s\<lparr>sh_world := (sh_world s)\<lparr>aw_local := try_set (aw_local (sh_world s)) debug_open_key
         (if sh_debugOpen s then js ''1'' else js ''0'')\<rparr>\<rparr>"

text \<open>An assignment to \<open>debugOpen\<close>, with the watcher that stores it when it changed.\<close>

definition set_debug_open :: "bool \<Rightarrow> shell_state \<Rightarrow> shell_state" where
  "set_debug_open v s = (if v = sh_debugOpen s then s else save_debug_open (s\<lparr>sh_debugOpen := v\<rparr>))"

definition onKeydown :: "bool \<Rightarrow> bool \<Rightarrow> jstr \<Rightarrow> shell_state \<Rightarrow> shell_state" where
  "onKeydown ctrl shift key s =
     (if ctrl \<and> shift \<and> to_lower key = js ''d'' then set_debug_open (\<not> sh_debugOpen s) s else s)"

definition watch_open_request :: "int option \<Rightarrow> shell_state \<Rightarrow> shell_state" where
  "watch_open_request ts s = (case ts of None \<Rightarrow> s | Some t \<Rightarrow> if t = 0 then s else set_debug_open True s)"

text \<open>Mounting reads the width of the window and the stored mark; when reading the mark throws, the
  handler stops after the width.\<close>

definition shell_onMounted :: "bool \<Rightarrow> shell_state \<Rightarrow> shell_state" where
  "shell_onMounted narrow s =
     (let s1 = syncIsMobile narrow s in
      case get_item (aw_local (sh_world s1)) debug_open_key of
        None \<Rightarrow> s1
      | Some saved \<Rightarrow> set_debug_open (saved = Some (js ''1'')) s1)"

definition open_shell :: "auth_world \<Rightarrow> shell_state" where
  "open_shell w = \<lparr>sh_world = w, sh_collapsed = False, sh_isMobile = False, sh_drawerOpen = False,
     sh_debugOpen = False, sh_pushed = []\<rparr>"

text \<open>Logging out after the question was answered; when the storage throws, the page is not left.\<close>

definition handleLogout :: "bool \<Rightarrow> shell_state \<Rightarrow> shell_state" where
  "handleLogout confirmed s =
     (if \<not> confirmed then s
      else case logout (sh_world s) of
        (w, True) \<Rightarrow> s\<lparr>sh_world := w\<rparr>
      | (w, False) \<Rightarrow> s\<lparr>sh_world := w, sh_pushed := sh_pushed s @ [js ''/login'']\<rparr>)"

datatype shell_event =
    ShellMounted bool
  | Resized bool
  | NavToggled
  | KeyPressed bool bool jstr
  | RouteChanged
  | DrawerSet bool
  | PanelSet bool
  | OpenRequested "int option"
  | LogoutAnswered bool

fun shell_step :: "shell_state \<Rightarrow> shell_event \<Rightarrow> shell_state" where
  "shell_step s (ShellMounted narrow) = shell_onMounted narrow s"
| "shell_step s (Resized narrow) = syncIsMobile narrow s"
| "shell_step s NavToggled = handleNavToggle s"
| "shell_step s (KeyPressed ctrl shift key) = onKeydown ctrl shift key s"
| "shell_step s RouteChanged = s\<lparr>sh_drawerOpen := False\<rparr>"
| "shell_step s (DrawerSet v) = (if v then s else s\<lparr>sh_drawerOpen := False\<rparr>)"
| "shell_step s (PanelSet v) = set_debug_open v s"
| "shell_step s (OpenRequested ts) = watch_open_request ts s"
| "shell_step s (LogoutAnswered c) = handleLogout c s"

section \<open>What the token store leaves alone\<close>

text \<open>The operations of the token store write local storage under its own key only.\<close>

definition local_frame :: "auth_world \<Rightarrow> auth_world \<Rightarrow> bool" where
  "local_frame w v \<longleftrightarrow>
     (\<forall>k. k \<noteq> token_key \<longrightarrow> get_item (aw_local v) k = get_item (aw_local w) k) \<and>
     st_avail (aw_local v) = st_avail (aw_local w) \<and> st_room (aw_local v) = st_room (aw_local w)"

lemma local_frame_same: "aw_local v = aw_local w \<Longrightarrow> local_frame w v"
  by (simp add: local_frame_def)

lemma local_frame_trans: "local_frame w v \<Longrightarrow> local_frame v u \<Longrightarrow> local_frame w u"
  by (simp add: local_frame_def)

lemma local_frame_moved: "local_frame v u \<Longrightarrow> aw_local v = aw_local w \<Longrightarrow> local_frame w u"
  by (simp add: local_frame_def)

lemma logout_frames: "logout w = (v, b) \<Longrightarrow> local_frame w v"
  by (auto simp: local_frame_def logout_def remove_item_def get_item_def Let_def split: if_splits)

lemma leave_frames: "local_frame w (leave_session w)"
  by (auto simp: leave_session_def local_frame_same dest!: logout_frames split: prod.splits bool.splits)
     (simp add: local_frame_def)

lemma redirect_frames: "redirect_to_login now c w = (v, b) \<Longrightarrow> local_frame w v"
  by (auto simp: redirect_to_login_def Let_def local_frame_same dest!: logout_frames intro: local_frame_moved
      split: option.splits prod.splits)

lemma on_error_frames: "local_frame w (on_response_error now e w)"
proof -
  let ?w = "w\<lparr>aw_debug := recordApiError now e (aw_debug w)\<rparr>"
  obtain v b where v: "redirect_to_login now (current_path (aw_hash w)) ?w = (v, b)" by fastforce
  have moved: "local_frame w u" if "local_frame ?w u" for u
    using that by (rule local_frame_moved) simp
  have "local_frame ?w v" using v by (rule redirect_frames)
  then show ?thesis
    using v leave_frames [of v] leave_frames [of ?w] local_frame_same [of ?w w]
    by (cases b) (auto simp: on_response_error_def Let_def intro: moved local_frame_trans)
qed

lemma login_frames: "local_frame w (fst (login now r w))"
  by (cases r)
     (auto simp: Let_def on_error_frames local_frame_same local_frame_def [of _ "_\<lparr>aw_token := _, aw_local := _, aw_header := _\<rparr>"]
       ls.get_set_other set_item_def get_item_def split: option.splits if_splits)

lemma auth_step_frames: "local_frame w (auth_step w op)"
  using logout_frames [of w "fst (logout w)" "snd (logout w)"]
  by (cases op) (simp_all add: login_frames on_error_frames local_frame_same afterEach_def del: login.simps)

lemma app_keys [simp]:
  "DISCLAIMER_AGREED_AT_KEY \<noteq> token_key" "theme_key \<noteq> token_key" "DISCLAIMER_AGREED_AT_KEY \<noteq> theme_key"
  "theme_key \<noteq> DISCLAIMER_AGREED_AT_KEY" "debug_open_key \<noteq> token_key"
  by (simp_all add: DISCLAIMER_AGREED_AT_KEY_def theme_key_def token_key_def debug_open_key_def)

lemma auth_step_items:
  "k \<noteq> token_key \<Longrightarrow> get_item (aw_local (auth_step w op)) k = get_item (aw_local w) k"
  "st_avail (aw_local (auth_step w op)) = st_avail (aw_local w)"
  "st_room (aw_local (auth_step w op)) = st_room (aw_local w)"
  using auth_step_frames [of w op] by (simp_all add: local_frame_def)

lemma watch_fields [simp]:
  "ap_world (watch_authenticated now s) = ap_world s" "ap_isDark (watch_authenticated now s) = ap_isDark s"
  "ap_htmlDark (watch_authenticated now s) = ap_htmlDark s"
  by (auto simp: watch_authenticated_def split: option.splits)

section \<open>The weekly disclaimer\<close>

lemma show_nat_trim: "trim (show_nat n) = show_nat n"
proof (rule trim_id)
  have "48 \<le> hd (show_nat n) \<and> hd (show_nat n) \<le> 57" "48 \<le> last (show_nat n) \<and> last (show_nat n) \<le> 57"
    by (auto intro!: show_nat_digits [of _ n, THEN conjunct1] show_nat_digits [of _ n, THEN conjunct2])
  then show "\<not> is_space (hd (show_nat n))" "\<not> is_space (last (show_nat n))"
    unfolding is_space_def by auto
qed simp

lemma number_of_shown: "0 \<le> t \<Longrightarrow> number_of_text (show_int t) = Fin (of_int t)"
proof -
  assume "0 \<le> t"
  then have "show_int t = show_nat (nat t)" by (simp add: show_int_def)
  moreover have dec: "\<forall>c\<in>set (show_nat (nat t)). is_dec c"
    using show_nat_digits by (auto simp: is_dec_def)
  moreover obtain c r where "show_nat (nat t) = c # r" by (cases "show_nat (nat t)") auto
  moreover from this dec have "c \<noteq> 45" "c \<noteq> 43" by (auto simp: is_dec_def)
  moreover from dec have "takeWhile is_dec (show_nat (nat t)) = show_nat (nat t)" "dropWhile is_dec (show_nat (nat t)) = []"
    by (simp_all add: takeWhile_eq_all_conv dropWhile_eq_Nil_conv)
  then have "unsigned_number (show_nat (nat t)) = Fin (of_nat (nat t))"
    unfolding unsigned_number_def Let_def by (simp only:) (simp add: read_show_nat del: read_nat.simps)
  ultimately show ?thesis
    using \<open>0 \<le> t\<close> show_nat_trim [of "nat t"] by (simp add: number_of_text_def)
qed

text \<open>The store says that the user agreed at a time in the set.\<close>

definition agreed_in :: "int set \<Rightarrow> app \<Rightarrow> bool" where
  "agreed_in T s \<longleftrightarrow> (\<exists>a\<in>T. agreed_at (aw_local (ap_world s)) = Some (Some (Fin (of_int a))))"

lemma agreed_frame:
  "get_item (aw_local (ap_world v)) DISCLAIMER_AGREED_AT_KEY = get_item (aw_local (ap_world s)) DISCLAIMER_AGREED_AT_KEY \<Longrightarrow>
   agreed_in T s \<Longrightarrow> agreed_in T v"
  by (simp add: agreed_in_def agreed_at_def)

text \<open>The time of an event at which the disclaimer is looked at or agreed to.\<close>

fun disclaimer_time :: "app_event \<Rightarrow> int option" where
  "disclaimer_time (AuthChanged now op) = Some now"
| "disclaimer_time (Accepted now) = Some now"
| "disclaimer_time _ = None"

lemma watch_shows:
  "agreed_at (aw_local (ap_world s)) = Some (Some (Fin (of_int a))) \<Longrightarrow> isAuthenticated (ap_world s) \<Longrightarrow>
   ap_showDisclaimer (watch_authenticated u s) \<longleftrightarrow> a + DISCLAIMER_INTERVAL_MS \<le> u \<or> ap_showDisclaimer s"
  using disclaimer_agreed_now [of a u] by (auto simp: watch_authenticated_def)

lemma accept_agrees:
  assumes "canAccept s" and "set_item (aw_local (ap_world s)) DISCLAIMER_AGREED_AT_KEY (show_int t) \<noteq> None" and "0 \<le> t"
  shows "agreed_in {t} (acceptDisclaimer t s) \<and> \<not> ap_showDisclaimer (acceptDisclaimer t s)"
  using assms
  by (auto simp: acceptDisclaimer_def keep_local_def agreed_in_def agreed_at_def ls.get_set_same number_of_shown)

lemma accept_keeps:
  assumes "agreed_in T s" and "0 \<le> u"
  shows "agreed_in (insert u T) (acceptDisclaimer u s)"
  using assms
  by (auto simp: acceptDisclaimer_def keep_local_def agreed_in_def agreed_at_def ls.get_set_same number_of_shown
      split: option.splits)

lemma toggle_agreed: "agreed_in T s \<Longrightarrow> agreed_in T (toggleTheme s)"
  by (rule agreed_frame) (auto simp: toggleTheme_def keep_local_def Let_def ls.get_set_other split: option.split)

lemma other_agreed:
  "disclaimer_time e = None \<Longrightarrow> agreed_in T s \<Longrightarrow> agreed_in T (app_step s e)"
  by (cases e) (auto simp: toggle_agreed app_onMounted_def rejectDisclaimer_def uninstall_settled_def Let_def
      split: option.split elim!: agreed_frame [rotated])

lemma other_shows:
  "disclaimer_time e = None \<Longrightarrow> ap_showDisclaimer (app_step s e) = ap_showDisclaimer s"
  by (cases e) (auto simp: toggleTheme_def keep_local_def app_onMounted_def rejectDisclaimer_def uninstall_settled_def Let_def
      split: option.split)

lemma auth_agreed: "agreed_in T s \<Longrightarrow> agreed_in T (app_auth now op s)"
  by (rule agreed_frame) (simp_all add: app_auth_def Let_def auth_step_items)

lemma auth_quiet:
  assumes "agreed_in T s" and "\<not> ap_showDisclaimer s" and "\<forall>a\<in>T. u < a + DISCLAIMER_INTERVAL_MS"
  shows "\<not> ap_showDisclaimer (app_auth u op s)"
proof -
  let ?s = "s\<lparr>ap_world := auth_step (ap_world s) op\<rparr>"
  obtain a where a: "a \<in> T" "agreed_at (aw_local (ap_world ?s)) = Some (Some (Fin (of_int a)))"
    using assms(1) by (auto simp: agreed_in_def agreed_at_def auth_step_items)
  then show ?thesis
    using assms(2,3) watch_shows [OF a(2), of u]
    by (cases "isAuthenticated (ap_world ?s)") (auto simp: app_auth_def Let_def, auto simp: watch_authenticated_def)
qed

definition app_run :: "app_event list \<Rightarrow> app \<Rightarrow> app" where
  "app_run es s = foldl app_step s es"

definition within_week :: "int \<Rightarrow> app_event \<Rightarrow> bool" where
  "within_week t e = (case disclaimer_time e of None \<Rightarrow> True | Some u \<Rightarrow> t \<le> u \<and> u < t + DISCLAIMER_INTERVAL_MS)"

lemma week_step:
  assumes "0 \<le> t" and "within_week t e" and "agreed_in {t..} s" and "\<not> ap_showDisclaimer s"
  shows "agreed_in {t..} (app_step s e) \<and> \<not> ap_showDisclaimer (app_step s e)"
proof (cases "disclaimer_time e")
  case None
  with assms show ?thesis by (simp add: other_agreed other_shows)
next
  case (Some u)
  then have u: "t \<le> u" "u < t + DISCLAIMER_INTERVAL_MS" using assms(2) by (simp_all add: within_week_def)
  from Some consider op where "e = AuthChanged u op" | "e = Accepted u" by (cases e) auto
  then show ?thesis
  proof cases
    case 1
    with assms u show ?thesis by (simp add: auth_agreed auth_quiet)
  next
    case 2
    have "insert u {t..} = {t..}" using u by auto
    with 2 assms u accept_keeps [OF assms(3), of u] show ?thesis
      by (auto simp: acceptDisclaimer_def keep_local_def split: option.splits)
  qed
qed

lemma week_run:
  "0 \<le> t \<Longrightarrow> list_all (within_week t) es \<Longrightarrow> agreed_in {t..} s \<Longrightarrow> \<not> ap_showDisclaimer s \<Longrightarrow>
   \<not> ap_showDisclaimer (app_run es s)"
  by (induction es arbitrary: s) (simp_all add: app_run_def week_step)

text \<open>Without a further agreement the time stays the same.\<close>

fun is_accept :: "app_event \<Rightarrow> bool" where
  "is_accept (Accepted now) = True"
| "is_accept _ = False"

lemma no_accept_step: "\<not> is_accept e \<Longrightarrow> agreed_in T s \<Longrightarrow> agreed_in T (app_step s e)"
  by (cases e) (simp_all add: auth_agreed toggle_agreed other_agreed del: app_step.simps, simp_all add: auth_agreed)

interpretation unagreed: event_system app_step "\<lambda>e. \<not> is_accept e" "agreed_in T" for T
  by unfold_locales (rule no_accept_step)

lemma no_accept_run: "\<not> list_ex is_accept es \<Longrightarrow> agreed_in T s \<Longrightarrow> agreed_in T (app_run es s)"
  unfolding app_run_def by (rule unagreed.run_keeps) (simp_all add: list_all_iff list_ex_iff)

lemma login_after_week:
  assumes "agreed_in {t} s" and "t + DISCLAIMER_INTERVAL_MS \<le> u"
    and "\<not> isAuthenticated (ap_world s)" and "isAuthenticated (auth_step (ap_world s) op)"
  shows "ap_showDisclaimer (app_auth u op s)"
proof -
  let ?s = "s\<lparr>ap_world := auth_step (ap_world s) op\<rparr>"
  have "agreed_at (aw_local (ap_world ?s)) = Some (Some (Fin (of_int t)))"
    using assms(1) by (simp add: agreed_in_def agreed_at_def auth_step_items)
  from watch_shows [OF this, of u] assms show ?thesis by (simp add: app_auth_def Let_def)
qed

text \<open>The dialog is there only for a user who is logged in; storage stays usable.\<close>

definition shown_to_user :: "app \<Rightarrow> bool" where
  "shown_to_user s \<longleftrightarrow> (ap_showDisclaimer s \<longrightarrow> isAuthenticated (ap_world s))"

lemma watch_shown: "shown_to_user (watch_authenticated now s)"
  by (auto simp: shown_to_user_def watch_authenticated_def split: option.splits)

lemma app_step_shown: "shown_to_user s \<Longrightarrow> shown_to_user (app_step s e)"
proof (cases e)
  case (AuthChanged now op)
  moreover assume "shown_to_user s"
  ultimately show ?thesis
    using watch_shown [of now "s\<lparr>ap_world := auth_step (ap_world s) op\<rparr>"]
    by (auto simp: app_auth_def Let_def) (auto simp: shown_to_user_def)
qed (auto simp: shown_to_user_def toggleTheme_def acceptDisclaimer_def rejectDisclaimer_def app_onMounted_def
    uninstall_settled_def keep_local_def isAuthenticated_def Let_def split: option.splits)

lemma set_item_perms: "set_item st k v = Some st' \<Longrightarrow> st_avail st' = st_avail st \<and> st_room st' = st_room st"
  by (auto simp: set_item_def split: if_splits)

lemma app_step_storage:
  "st_avail (aw_local (ap_world (app_step s e))) = st_avail (aw_local (ap_world s)) \<and>
   st_room (aw_local (ap_world (app_step s e))) = st_room (aw_local (ap_world s))"
  by (cases e) (auto simp: app_auth_def Let_def auth_step_items toggleTheme_def acceptDisclaimer_def rejectDisclaimer_def
      app_onMounted_def uninstall_settled_def keep_local_def dest: set_item_perms split: option.splits)

lemma app_run_ok:
  "shown_to_user s \<Longrightarrow> shown_to_user (app_run es s) \<and>
     st_avail (aw_local (ap_world (app_run es s))) = st_avail (aw_local (ap_world s)) \<and>
     st_room (aw_local (ap_world (app_run es s))) = st_room (aw_local (ap_world s))"
  by (induction es arbitrary: s) (simp_all add: app_run_def app_step_shown app_step_storage)

lemma setup_ok: "setup_app now route w = Some s \<Longrightarrow> shown_to_user s \<and> ap_world s = w"
  by (auto simp: setup_app_def shown_to_user_def split: option.splits intro!: watch_shown [unfolded shown_to_user_def, rule_format])

section \<open>Theme, drawer and panel\<close>

text \<open>The theme on screen is the one a reload would start with.\<close>

definition theme_ok :: "app \<Rightarrow> bool" where
  "theme_ok s \<longleftrightarrow> st_avail (aw_local (ap_world s)) \<and> st_room (aw_local (ap_world s)) \<and>
     ap_htmlDark s = ap_isDark s \<and>
     (get_item (aw_local (ap_world s)) theme_key = Some (Some (js ''dark''))) = ap_isDark s"

lemma toggle_theme_ok: "theme_ok s \<Longrightarrow> theme_ok (toggleTheme s)"
  by (auto simp: theme_ok_def toggleTheme_def keep_local_def Let_def ls.get_set_same js_def set_item_def get_item_def
      split: option.split if_splits)

lemma theme_frame:
  "theme_ok s \<Longrightarrow> ap_htmlDark v = ap_htmlDark s \<Longrightarrow> ap_isDark v = ap_isDark s \<Longrightarrow>
   get_item (aw_local (ap_world v)) theme_key = get_item (aw_local (ap_world s)) theme_key \<Longrightarrow>
   st_avail (aw_local (ap_world v)) \<and> st_room (aw_local (ap_world v)) \<Longrightarrow> theme_ok v"
  by (simp add: theme_ok_def)

lemma app_step_theme_ok: "theme_ok s \<Longrightarrow> theme_ok (app_step s e)"
proof (cases e)
  case AppMount
  moreover assume "theme_ok s"
  ultimately show ?thesis by (auto simp: theme_ok_def app_onMounted_def)
next
  case (AuthChanged now op)
  moreover assume s: "theme_ok s"
  moreover have "theme_ok (app_auth now op s)"
    using s by (rule theme_frame) (use s in \<open>simp_all add: app_auth_def Let_def auth_step_items theme_ok_def\<close>)
  ultimately show ?thesis by simp
next
  case (Accepted now)
  moreover assume s: "theme_ok s"
  moreover have "theme_ok (acceptDisclaimer now s)"
    using s by (rule theme_frame) (use s in \<open>auto simp: acceptDisclaimer_def keep_local_def theme_ok_def ls.get_set_other
        dest: set_item_perms split: option.split\<close>)
  ultimately show ?thesis by simp
next
  case Rejected
  moreover assume s: "theme_ok s"
  moreover have "theme_ok (rejectDisclaimer s)"
    using s by (rule theme_frame) (use s in \<open>auto simp: rejectDisclaimer_def Let_def theme_ok_def split: option.split\<close>)
  ultimately show ?thesis by simp
qed (simp_all add: toggle_theme_ok uninstall_settled_def theme_frame, simp_all add: theme_ok_def)

lemma reload_keeps_theme:
  "theme_ok s \<Longrightarrow> \<exists>s'. setup_app now route (ap_world s) = Some s' \<and> ap_isDark s' = ap_isDark s \<and>
     ap_htmlDark (app_onMounted s') = ap_isDark s"
  by (cases "get_item (aw_local (ap_world s)) theme_key")
     (auto simp: theme_ok_def setup_app_def app_onMounted_def get_item_def split: if_splits)

text \<open>On a wide screen no drawer is open, and the stored mark of the panel is the panel's state once it has
  been moved.\<close>

definition panel_saved :: "shell_state \<Rightarrow> bool" where
  "panel_saved s \<longleftrightarrow> st_avail (aw_local (sh_world s)) \<and> st_room (aw_local (sh_world s)) \<and>
     (get_item (aw_local (sh_world s)) debug_open_key = Some (Some (js ''1''))) = sh_debugOpen s"

definition shell_ok :: "shell_state \<Rightarrow> bool" where
  "shell_ok s \<longleftrightarrow> (sh_drawerOpen s \<longrightarrow> sh_isMobile s) \<and> panel_saved s"

lemma set_debug_saved: "panel_saved s \<Longrightarrow> panel_saved (set_debug_open v s)"
  by (auto simp: panel_saved_def set_debug_open_def save_debug_open_def try_set_def set_item_def get_item_def js_def)

lemma set_debug_same: "panel_saved s \<Longrightarrow> set_debug_open (get_item (aw_local (sh_world s)) debug_open_key = Some (Some (js ''1''))) s = s"
  by (simp add: panel_saved_def set_debug_open_def)

lemma set_debug_drawer [simp]:
  "sh_drawerOpen (set_debug_open v s) = sh_drawerOpen s" "sh_isMobile (set_debug_open v s) = sh_isMobile s"
  by (simp_all add: set_debug_open_def save_debug_open_def)

lemma logout_saved: "panel_saved s \<Longrightarrow> panel_saved (handleLogout c s)"
  using logout_frames [of "sh_world s" "fst (logout (sh_world s))" "snd (logout (sh_world s))"]
  by (auto simp: panel_saved_def handleLogout_def local_frame_def split: prod.split bool.split)

lemma set_debug_ok: "shell_ok s \<Longrightarrow> shell_ok (set_debug_open v s)"
  by (simp add: shell_ok_def set_debug_saved)

lemma sync_ok: "shell_ok s \<Longrightarrow> shell_ok (syncIsMobile narrow s)"
  by (simp add: shell_ok_def panel_saved_def syncIsMobile_def Let_def)

lemma shell_step_ok: "shell_ok s \<Longrightarrow> shell_ok (shell_step s e)"
proof (cases e)
  case (ShellMounted narrow)
  moreover assume "shell_ok s"
  ultimately show ?thesis
    using sync_ok [of s narrow] by (auto simp: shell_ok_def shell_onMounted_def Let_def set_debug_saved split: option.splits)
next
  case (LogoutAnswered c)
  moreover assume "shell_ok s"
  ultimately show ?thesis
    by (auto simp: shell_ok_def logout_saved) (auto simp: handleLogout_def split: prod.splits bool.splits if_splits)
next
  case NavToggled
  moreover assume "shell_ok s"
  ultimately show ?thesis by (auto simp: shell_ok_def panel_saved_def handleNavToggle_def)
qed (simp_all add: set_debug_ok sync_ok onKeydown_def watch_open_request_def split: option.split,
    simp_all add: shell_ok_def panel_saved_def)

section \<open>Properties\<close>



end
