(* ===== verification/Boot.thy ===== *)
theory Boot
  imports TrafficPanel Collector
begin

text \<open>
  \<open>web/src/main.ts\<close>: the overlay that shows errors while the application starts, and the error
  handlers that feed it and the debug collector. The overlay is what its text element holds; its
  static markup is left out, as are the fonts.
\<close>

section \<open>Error texts\<close>

text \<open>\<open>JSON.stringify(v, null, 2)\<close>; the number is the indentation reached.\<close>

fun stringify_indent :: "nat \<Rightarrow> jsval \<Rightarrow> jstr option" where
  "stringify_indent n (JArr vs) =
     (if vs = [] then Some (js ''[]'')
      else Some ([91, 10] @ join_with [44, 10]
        (map (\<lambda>v. replicate (n + 2) 32 @
           (case stringify_indent (n + 2) v of None \<Rightarrow> js ''null'' | Some t \<Rightarrow> t)) vs) @ 10 # replicate n 32 @ [93]))"
| "stringify_indent n (JObj al) =
     (let ms = concat (map (\<lambda>(k, v). case stringify_indent (n + 2) v of
                 None \<Rightarrow> [] | Some t \<Rightarrow> [replicate (n + 2) 32 @ json_quote k @ [58, 32] @ t]) al) in
      if ms = [] then Some (js ''{}'')
      else Some ([123, 10] @ join_with [44, 10] ms @ 10 # replicate n 32 @ [125]))"
| "stringify_indent n v = stringify v"

definition text_of_error :: "jstr \<Rightarrow> jstr \<Rightarrow> jstr option \<Rightarrow> jstr" where
  "text_of_error name message stack =
     name @ js '': '' @ message @ [10, 10] @ (case stack of None \<Rightarrow> [] | Some t \<Rightarrow> t)"

text \<open>None is \<open>undefined\<close>.\<close>

fun toErrorText :: "exn \<Rightarrow> jstr option" where
  "toErrorText (AxiosErr e) = Some (text_of_error (ax_name e) (ax_message e) (ax_stack e))"
| "toErrorText (NativeErr name message stack) = Some (text_of_error name message stack)"
| "toErrorText (Thrown v) = (case v of JStr t \<Rightarrow> Some t | _ \<Rightarrow> stringify_indent 0 v)"

definition replace_unit :: "nat \<Rightarrow> jstr \<Rightarrow> jstr \<Rightarrow> jstr" where
  "replace_unit c r s = concat (map (\<lambda>x. if x = c then r else [x]) s)"

definition escapeHtml :: "jstr \<Rightarrow> jstr" where
  "escapeHtml text =
     replace_unit 39 (js ''&#39;'') (replace_unit 34 (js ''&quot;'') (replace_unit 62 (js ''&gt;'')
       (replace_unit 60 (js ''&lt;'') (replace_unit 38 (js ''&amp;'') text))))"

definition boot_patterns :: "jstr list" where
  "boot_patterns = map js [''loading chunk'', ''chunkloaderror'', ''dynamically imported module'',
     ''importing a module script failed'', ''failed to fetch dynamically imported module'']"

definition boot_chunk_error :: "exn \<Rightarrow> bool" where
  "boot_chunk_error err =
     (let msg = (case err of AxiosErr e \<Rightarrow> ax_message e | NativeErr name message stack \<Rightarrow> message
                 | Thrown v \<Rightarrow> str_or v [])
      in list_ex (str_includes (to_lower msg)) boot_patterns)"

text \<open>The traffic panel has the same test.\<close>

lemma chunk_errors_agree: "boot_chunk_error err = isChunkLoadLikeError err"
  by (auto simp: boot_chunk_error_def isChunkLoadLikeError_def boot_patterns_def chunk_load_patterns_def str_or_def
      split: exn.split jsval.split)

section \<open>The overlay\<close>

text \<open>The overlay is absent, or present with a text element that may not have been filled yet.\<close>

record boot =
  bo_finished :: bool
  bo_overlay :: "jstr option option"
  bo_debug :: collector
  bo_reloads :: nat

definition initial_boot :: boot where
  "initial_boot = \<lparr>bo_finished = False, bo_overlay = None, bo_debug = empty_collector, bo_reloads = 0\<rparr>"

definition note_js_error :: "int \<Rightarrow> exn \<Rightarrow> string \<Rightarrow> boot \<Rightarrow> boot" where
  "note_js_error now err source s = s\<lparr>bo_debug := recordJsError now err (Some (js source)) (bo_debug s)\<rparr>"

text \<open>Escaping \<open>undefined\<close> throws, which leaves the text element as it was.\<close>

definition showBootError :: "int \<Rightarrow> exn \<Rightarrow> bool \<Rightarrow> boot \<Rightarrow> boot" where
  "showBootError now err force s =
     (if bo_finished s \<and> \<not> force then s
      else
        let s1 = note_js_error now err ''boot'' s;
            filled = (case bo_overlay s of None \<Rightarrow> None | Some t \<Rightarrow> t)
        in s1\<lparr>bo_overlay := Some (case toErrorText err of None \<Rightarrow> filled | Some t \<Rightarrow> Some (escapeHtml t))\<rparr>)"

text \<open>\<open>ev.error || ev.message\<close>.\<close>

fun exn_truthy :: "exn \<Rightarrow> bool" where
  "exn_truthy (Thrown v) = truthy v"
| "exn_truthy _ = True"

definition error_or_message :: "exn \<Rightarrow> jsval \<Rightarrow> exn" where
  "error_or_message err message = (if exn_truthy err then err else Thrown message)"

definition report_error :: "int \<Rightarrow> exn \<Rightarrow> boot \<Rightarrow> boot" where
  "report_error now err s =
     (if \<not> bo_finished s \<or> boot_chunk_error err then showBootError now err (boot_chunk_error err) s else s)"

text \<open>The \<open>error\<close> event; \<open>script\<close> is the address of the script element it is about, if it is
  about one.\<close>

definition on_window_error :: "int \<Rightarrow> exn \<Rightarrow> jsval \<Rightarrow> jstr option \<Rightarrow> boot \<Rightarrow> boot" where
  "on_window_error now err message script s =
     (let e = error_or_message err message; s1 = note_js_error now e ''window.error'' s in
      case script of
        Some (c # src) \<Rightarrow> showBootError now (Thrown (JStr (tx_script_failed @ c # src))) True s1
      | _ \<Rightarrow> report_error now e s1)"

definition on_unhandled :: "int \<Rightarrow> exn \<Rightarrow> boot \<Rightarrow> boot" where
  "on_unhandled now reason s = report_error now reason (note_js_error now reason ''unhandledrejection'' s)"

definition on_vue_error :: "int \<Rightarrow> exn \<Rightarrow> boot \<Rightarrow> boot" where
  "on_vue_error now err s = report_error now err (note_js_error now err ''vue.errorHandler'' s)"

definition on_router_error :: "int \<Rightarrow> exn \<Rightarrow> boot \<Rightarrow> boot" where
  "on_router_error now err = showBootError now err True"

definition app_mounted :: "boot \<Rightarrow> boot" where
  "app_mounted s = s\<lparr>bo_finished := True\<rparr>"

definition overlay_click :: "jstr option \<Rightarrow> boot \<Rightarrow> boot" where
  "overlay_click action s =
     (if bo_overlay s = None then s
      else if action = Some (js ''continue'') then s\<lparr>bo_overlay := None\<rparr>
      else if action = Some (js ''reload'') then s\<lparr>bo_reloads := Suc (bo_reloads s)\<rparr>
      else s)"

datatype boot_event =
    WindowError int exn jsval "jstr option"
  | Unhandled int exn
  | VueError int exn
  | RouterError int exn
  | AppMounted
  | OverlayClick "jstr option"

fun boot_step :: "boot \<Rightarrow> boot_event \<Rightarrow> boot" where
  "boot_step s (WindowError now err message script) = on_window_error now err message script s"
| "boot_step s (Unhandled now reason) = on_unhandled now reason s"
| "boot_step s (VueError now err) = on_vue_error now err s"
| "boot_step s (RouterError now err) = on_router_error now err s"
| "boot_step s AppMounted = app_mounted s"
| "boot_step s (OverlayClick action) = overlay_click action s"

section \<open>Escaping\<close>

text \<open>The five replacements in turn are one replacement of each character, since only the first of them
  meets ampersands. Reading the entities back gives the text.\<close>

definition escape_unit :: "nat \<Rightarrow> jstr" where
  "escape_unit c =
     (if c = 38 then js ''&amp;'' else if c = 60 then js ''&lt;'' else if c = 62 then js ''&gt;''
      else if c = 34 then js ''&quot;'' else if c = 39 then js ''&#39;'' else [c])"

lemma replace_unit_append: "replace_unit c r (s @ t) = replace_unit c r s @ replace_unit c r t"
  by (simp add: replace_unit_def)

lemma escapeHtml_append: "escapeHtml (s @ t) = escapeHtml s @ escapeHtml t"
  by (simp add: escapeHtml_def replace_unit_append)

lemma escapeHtml_unit: "escapeHtml [c] = escape_unit c"
  by (simp add: escapeHtml_def escape_unit_def replace_unit_def js_def)

lemma escapeHtml_Cons: "escapeHtml (c # s) = escape_unit c @ escapeHtml s"
  using escapeHtml_append [of "[c]" s] by (simp add: escapeHtml_unit)

lemma escapeHtml_Nil [simp]: "escapeHtml [] = []"
  by (simp add: escapeHtml_def replace_unit_def)

lemma escapeHtml_units: "escapeHtml s = concat (map escape_unit s)"
  by (induction s) (simp_all add: escapeHtml_Cons)

definition markup_free :: "jstr \<Rightarrow> bool" where
  "markup_free h \<longleftrightarrow> set h \<inter> {60, 62, 34, 39} = {}"

lemma escape_unit_markup_free: "markup_free (escape_unit c)"
  by (simp add: markup_free_def escape_unit_def js_def)

lemma escapeHtml_markup_free: "markup_free (escapeHtml s)"
  using escape_unit_markup_free by (simp add: escapeHtml_units markup_free_def)

definition html_entities :: "(jstr \<times> nat) list" where
  "html_entities = [(js ''&amp;'', 38), (js ''&lt;'', 60), (js ''&gt;'', 62), (js ''&quot;'', 34), (js ''&#39;'', 39)]"

function unescape_html :: "jstr \<Rightarrow> jstr" where
  "unescape_html [] = []"
| "unescape_html (c # s) =
     (case List.find (\<lambda>(e, u). starts_with (c # s) e) html_entities of
        Some (e, u) \<Rightarrow> u # unescape_html (drop (length e - 1) s)
      | None \<Rightarrow> c # unescape_html s)"
  by pat_completeness auto
termination by (relation "measure length") simp_all

lemma unescape_escape_unit: "unescape_html (escape_unit c @ s) = c # unescape_html s"
  by (simp add: escape_unit_def html_entities_def starts_with_def js_def)

lemma unescape_escape: "unescape_html (escapeHtml s) = s"
  by (induction s) (simp_all add: escapeHtml_Cons unescape_escape_unit)

section \<open>What the overlay shows\<close>

text \<open>The text an event may put on the overlay.\<close>

fun event_text :: "boot_event \<Rightarrow> jstr option" where
  "event_text (WindowError now err message (Some (c # src))) = Some (tx_script_failed @ c # src)"
| "event_text (WindowError now err message _) = toErrorText (error_or_message err message)"
| "event_text (Unhandled now reason) = toErrorText reason"
| "event_text (VueError now err) = toErrorText err"
| "event_text (RouterError now err) = toErrorText err"
| "event_text _ = None"

definition overlay_ok :: "jstr set \<Rightarrow> boot \<Rightarrow> bool" where
  "overlay_ok ts s \<longleftrightarrow> (\<forall>h. bo_overlay s = Some (Some h) \<longrightarrow> h \<in> escapeHtml ` ts)"

lemma overlay_ok_mono: "overlay_ok ts s \<Longrightarrow> ts \<subseteq> us \<Longrightarrow> overlay_ok us s"
  by (auto simp: overlay_ok_def)

lemma note_overlay [simp]:
  "bo_overlay (note_js_error now err src s) = bo_overlay s" "bo_finished (note_js_error now err src s) = bo_finished s"
  by (simp_all add: note_js_error_def)

lemma show_overlay_ok:
  "overlay_ok ts s \<Longrightarrow> set_option (toErrorText err) \<subseteq> ts \<Longrightarrow> overlay_ok ts (showBootError now err force s)"
  by (auto simp: overlay_ok_def showBootError_def Let_def split: option.splits)

lemma report_overlay_ok:
  "overlay_ok ts s \<Longrightarrow> set_option (toErrorText err) \<subseteq> ts \<Longrightarrow> overlay_ok ts (report_error now err s)"
  by (simp add: report_error_def show_overlay_ok)

lemma note_overlay_ok: "overlay_ok ts s \<Longrightarrow> overlay_ok ts (note_js_error now err src s)"
  by (simp add: overlay_ok_def)

lemma boot_step_overlay_ok:
  "overlay_ok ts s \<Longrightarrow> set_option (event_text e) \<subseteq> ts \<Longrightarrow> overlay_ok ts (boot_step s e)"
  by (cases e rule: event_text.cases)
     (simp_all add: on_window_error_def on_unhandled_def on_vue_error_def on_router_error_def Let_def
       report_overlay_ok show_overlay_ok note_overlay_ok,
      auto simp: app_mounted_def overlay_click_def overlay_ok_def)

definition boot_run :: "boot_event list \<Rightarrow> boot" where
  "boot_run es = foldl boot_step initial_boot es"

definition event_texts :: "boot_event list \<Rightarrow> jstr set" where
  "event_texts es = (\<Union>e\<in>set es. set_option (event_text e))"

lemma boot_run_overlay_ok: "overlay_ok (event_texts es) (boot_run es)"
proof (induction es rule: rev_induct)
  case Nil
  then show ?case by (simp add: overlay_ok_def boot_run_def initial_boot_def)
next
  case (snoc e es)
  then have "overlay_ok (event_texts (es @ [e])) (boot_run es)"
    by (rule overlay_ok_mono) (auto simp: event_texts_def)
  then show ?case
    using boot_step_overlay_ok [of "event_texts (es @ [e])" "boot_run es" e] by (auto simp: boot_run_def event_texts_def)
qed

text \<open>Once the application is mounted an ordinary error is recorded, once, and shows nothing.\<close>

fun minor_error :: "boot_event \<Rightarrow> (int \<times> exn \<times> string) option" where
  "minor_error (WindowError now err message script) =
     (if script \<in> {None, Some []} \<and> \<not> boot_chunk_error (error_or_message err message)
      then Some (now, error_or_message err message, ''window.error'') else None)"
| "minor_error (Unhandled now reason) =
     (if boot_chunk_error reason then None else Some (now, reason, ''unhandledrejection''))"
| "minor_error (VueError now err) = (if boot_chunk_error err then None else Some (now, err, ''vue.errorHandler''))"
| "minor_error _ = None"

lemma minor_step:
  "bo_finished s \<Longrightarrow> minor_error e = Some (now, err, source) \<Longrightarrow> boot_step s e = note_js_error now err source s"
  by (cases e) (auto simp: on_window_error_def on_unhandled_def on_vue_error_def report_error_def Let_def
      split: if_splits option.splits)

lemma minor_steps:
  "bo_finished s \<Longrightarrow> list_all (\<lambda>e. minor_error e \<noteq> None) es \<Longrightarrow>
   foldl boot_step s es = foldl (\<lambda>s (now, err, source). note_js_error now err source s) s (List.map_filter minor_error es)"
  by (induction es arbitrary: s) (auto simp: minor_step List.map_filter_simps split: prod.splits)

text \<open>While the application starts, every error is recorded twice.\<close>

lemma recorded_twice:
  "length (co_js_errors (bo_debug (boot_run [Unhandled now err]))) = 2"
  by (simp add: boot_run_def initial_boot_def on_unhandled_def report_error_def showBootError_def Let_def note_js_error_def
      recordJsError_def empty_collector_def pushLimited_def)

section \<open>Properties\<close>

text \<open>C27. What the boot overlay shows is one of the errors, as text: whatever errors and clicks come, the
  markup written into the overlay has no character that could open a tag or leave an attribute, and
  decoding its entities gives exactly the text of an error that occurred.\<close>

theorem boot_overlay_escaped:
  "bo_overlay (boot_run es) = Some (Some h) \<Longrightarrow>
   markup_free h \<and> unescape_html h \<in> event_texts es \<and> escapeHtml (unescape_html h) = h"
  using boot_run_overlay_ok [of es] by (auto simp: overlay_ok_def escapeHtml_markup_free unescape_escape)

theorem boot_overlay_escaped_witness:
  "unescape_html (js ''Error: &lt;b&gt;&amp;'' @ [10, 10]) \<in>
     event_texts [RouterError 1 (NativeErr (js ''Error'') (js ''<b>&'') None)]"
proof -
  have "bo_overlay (boot_run [RouterError 1 (NativeErr (js ''Error'') (js ''<b>&'') None)]) =
      Some (Some (js ''Error: &lt;b&gt;&amp;'' @ [10, 10]))"
    by (simp add: boot_run_def initial_boot_def on_router_error_def showBootError_def text_of_error_def
        escapeHtml_units escape_unit_def js_def)
  then show ?thesis by (rule boot_overlay_escaped [THEN conjunct2, THEN conjunct1])
qed

end
