(* ===== verification/Panels.thy ===== *)
theory Panels
  imports DeviceActions Lifecycle
begin

text \<open>
  The scripts of the small device components of \<open>web/src/components\<close>: \<open>DeviceCard.vue\<close>,
  \<open>DeviceListPanel.vue\<close>, \<open>DeviceConfigTab.vue\<close>, \<open>DeviceAddDialog.vue\<close> (over
  \<open>DeviceActions\<close>), \<open>FieldRow.vue\<close> and \<open>ErrorState.vue\<close>. Classes of the style
  sheet are constructors; the local form of a time is the parameter \<open>locale_time\<close>.
\<close>

section \<open>\<open>DeviceCard.vue\<close>\<close>

definition displayNetworkMode :: "jsval \<Rightarrow> jstr" where
  "displayNetworkMode device =
     (let mode = trim (text_or_empty (jfield device ''network_mode''));
          duplex = trim (text_or_empty (jfield device ''network_duplex'')) in
      if mode = [] then [] else if duplex \<noteq> [] then duplex @ js '' '' @ mode else mode)"

datatype network_icon = WifiIcon | DataIcon | Icon5G | Icon4G | Icon3G

definition has_any :: "jstr \<Rightarrow> string list \<Rightarrow> bool" where
  "has_any m ws \<longleftrightarrow> list_ex (\<lambda>w. str_includes m (js w)) ws"

definition networkIcon :: "jsval \<Rightarrow> network_icon" where
  "networkIcon device =
     (let mode = displayNetworkMode device; m = to_upper mode in
      if truthy (jfield device ''vowifi_active'') then WifiIcon
      else if mode = [] then DataIcon
      else if has_any m [''5G'', ''NR''] then Icon5G
      else if has_any m [''4G'', ''LTE''] then Icon4G
      else if has_any m [''3G'', ''WCDMA'', ''HSPA'', ''UMTS''] then Icon3G
      else DataIcon)"

datatype network_color = EmeraldText | GrayText | PurpleText | BlueText | OrangeText

definition networkColor :: "jsval \<Rightarrow> network_color" where
  "networkColor device =
     (let mode = displayNetworkMode device; m = to_upper mode in
      if truthy (jfield device ''vowifi_active'') then EmeraldText
      else if mode = [] then GrayText
      else if has_any m [''5G'', ''NR''] then PurpleText
      else if has_any m [''4G'', ''LTE''] then BlueText
      else if has_any m [''3G''] then OrangeText
      else GrayText)"

text \<open>\<open>s.split(/\s+/).filter(Boolean)\<close>.\<close>

fun space_words :: "jstr \<Rightarrow> jstr list" where
  "space_words [] = []"
| "space_words (c # s) =
     (if is_space c then space_words s
      else case s of
        [] \<Rightarrow> [[c]]
      | d # t \<Rightarrow> if is_space d then [c] # space_words s
                 else case space_words s of [] \<Rightarrow> [[c]] | w # ws \<Rightarrow> (c # w) # ws)"

definition networkModeText :: "jsval \<Rightarrow> jstr" where
  "networkModeText device =
     (case space_words (trim (displayNetworkMode device)) of
        [] \<Rightarrow> [] | [w] \<Rightarrow> w | w # v # ws \<Rightarrow> v)"

definition hideNetworkModeOnNarrow :: "jsval \<Rightarrow> bool" where
  "hideNetworkModeOnNarrow device \<longleftrightarrow> to_upper (networkModeText device) = js ''LTE''"

definition hasValidSignalDbm :: "jsval \<Rightarrow> bool" where
  "hasValidSignalDbm dbm = (case dbm of JNum (Fin r) \<Rightarrow> r \<noteq> 0 \<and> r \<noteq> -999 | _ \<Rightarrow> False)"

definition dbm_above :: "jsval \<Rightarrow> int \<Rightarrow> bool" where
  "dbm_above dbm n = (case dbm of JNum (Fin r) \<Rightarrow> of_int n < r | _ \<Rightarrow> False)"

datatype signal_color = GrayBar | GreenBar | YellowBar | RedBar

definition getSignalColor :: "jsval \<Rightarrow> signal_color" where
  "getSignalColor dbm =
     (if \<not> hasValidSignalDbm dbm then GrayBar else if dbm_above dbm (-70) then GreenBar
      else if dbm_above dbm (-90) then YellowBar else RedBar)"

definition getSignalBars :: "jsval \<Rightarrow> nat" where
  "getSignalBars dbm =
     (if \<not> hasValidSignalDbm dbm then 0 else if dbm_above dbm (-70) then 4
      else if dbm_above dbm (-85) then 3 else if dbm_above dbm (-100) then 2 else 1)"

section \<open>\<open>DeviceListPanel.vue\<close>\<close>

definition joined_texts :: "jstr \<Rightarrow> jsval list \<Rightarrow> jstr" where
  "joined_texts sep vs = join_with sep (map to_string (filter truthy vs))"

definition text_else :: "jstr \<Rightarrow> jstr \<Rightarrow> jstr" where
  "text_else s d = (if s = [] then d else s)"

definition registrationText :: "jsval \<Rightarrow> jstr" where
  "registrationText d =
     (let phase = device_phase d; phaseText = lifecycleStatusLabel phase; modem = jfield d ''modem'';
          label = jfield d ''registration_state_label'' in
      if phaseText \<noteq> [] \<and> phase \<noteq> Some Online \<and> phase \<noteq> Some Offline then phaseText
      else if isRadioRegistered d
      then to_string (or_else (jfield modem ''operator'') (jlit ''--'')) @ [32, 183, 32] @
           text_else (joined_texts (js '' '') [jfield modem ''network_duplex'', jfield modem ''network_mode'']) (js ''--'')
      else if \<not> isControlOnline d then tx_control_plane_recovering
      else if label = jlit ''searching'' then tx_searching_network
      else if label = jlit ''denied'' then tx_registration_denied
      else tx_not_registered)"

definition dataNetworkText :: "jsval \<Rightarrow> jstr" where
  "dataNetworkText d =
     (if truthy (jfield d ''vowifi_enabled'') then []
      else if \<not> truthy (jfield d ''network_enabled'') then tx_data_off
      else if \<not> truthy (jfield d ''network_connected'') then tx_data_down
      else [])"

definition secondaryStatus :: "jsval \<Rightarrow> jstr" where
  "secondaryStatus d =
     (if truthy (jfield d ''vowifi_enabled'') then js ''WiFi-Calling''
      else join_with [32, 183, 32] (filter (\<lambda>t. t \<noteq> []) [registrationText d, dataNetworkText d]))"

section \<open>\<open>DeviceConfigTab.vue\<close>\<close>

text \<open>\<open>status?.a || config?.b\<close>.\<close>

definition active_field :: "jsval \<Rightarrow> jsval \<Rightarrow> string \<Rightarrow> jsval" where
  "active_field status config k = or_else (jfield status k) (jfield config k)"

definition config_qmi_only :: "jsval \<Rightarrow> jsval \<Rightarrow> bool" where
  "config_qmi_only status config = isWwanQmiControlPath (active_field status config ''control_device'')"

definition config_mbim_only :: "jsval \<Rightarrow> bool" where
  "config_mbim_only config \<longleftrightarrow> to_lower (text_or_empty (jfield config ''device_backend'')) = js ''mbim''"

fun set_backend :: "jstr \<Rightarrow> jsval \<Rightarrow> jsval" where
  "set_backend b (JObj al) = JObj (assoc_set (js ''device_backend'') (JStr b) al)"
| "set_backend b v = v"

text \<open>The tab and its watcher, which runs once at the start and whenever the lock changes.\<close>

record config_tab =
  ct_config :: jsval
  ct_locked :: bool

definition lock_changed :: "bool \<Rightarrow> jsval \<Rightarrow> jsval" where
  "lock_changed locked config = (if locked \<and> truthy config then set_backend (js ''qmi'') config else config)"

definition open_config_tab :: "jsval \<Rightarrow> jsval \<Rightarrow> config_tab" where
  "open_config_tab status config =
     (let l = config_qmi_only status config in \<lparr>ct_config = lock_changed l config, ct_locked = l\<rparr>)"

definition config_props :: "jsval \<Rightarrow> jsval \<Rightarrow> config_tab \<Rightarrow> config_tab" where
  "config_props status config s =
     (let l = config_qmi_only status config in
      if l = ct_locked s then s\<lparr>ct_config := config\<rparr> else \<lparr>ct_config = lock_changed l config, ct_locked = l\<rparr>)"

section \<open>\<open>DeviceAddDialog.vue\<close>\<close>

definition discoveryIdentity :: "jsval \<Rightarrow> jstr" where
  "discoveryIdentity d =
     (if \<not> truthy d then []
      else to_string (or_else (jfield d ''discovery_key'')
        (JStr (text_or_empty (jfield d ''usb_path'') @ 124 # text_or_empty (jfield d ''at_port'')))))"

definition isQmiDiscovery :: "jsval \<Rightarrow> bool" where
  "isQmiDiscovery d \<longleftrightarrow> truthy d \<and> to_lower (text_or_empty (jfield d ''mode'')) = js ''qmi''"

definition discoveryModeText :: "jsval \<Rightarrow> jstr" where
  "discoveryModeText d =
     (let mode = to_lower (to_string (or_else (jfield d ''mode'') (jlit ''unknown''))) in
      if mode \<in> set (map js [''qmi'', ''mbim'', ''ecm'', ''rndis'', ''ncm'']) then map (\<lambda>c. c - 32) mode
      else js ''UNKNOWN'')"

definition add_qmi_only :: "device_actions \<Rightarrow> bool" where
  "add_qmi_only s =
     isWwanQmiControlPath (or_else (case da_addSelected s of None \<Rightarrow> JUndef | Some d \<Rightarrow> jfield d ''control_path'')
       (JStr (ac_control_device (da_addConfig s))))"

definition add_mbim_only :: "device_actions \<Rightarrow> bool" where
  "add_mbim_only s \<longleftrightarrow>
     to_lower (text_or_empty (case da_addSelected s of None \<Rightarrow> JUndef | Some d \<Rightarrow> jfield d ''mode'')) = js ''mbim''"

definition add_backend :: "jstr \<Rightarrow> device_actions \<Rightarrow> device_actions" where
  "add_backend b s = s\<lparr>da_addConfig := (da_addConfig s)\<lparr>ac_device_backend := b\<rparr>\<rparr>"

text \<open>The two watchers, in their order, after a change from \<open>before\<close>.\<close>

definition add_watchers :: "device_actions \<Rightarrow> device_actions \<Rightarrow> device_actions" where
  "add_watchers before s =
     (let s1 = (if add_qmi_only s \<and> \<not> add_qmi_only before then add_backend (js ''qmi'') s else s) in
      if add_mbim_only s \<and> \<not> add_mbim_only before then add_backend (js ''mbim'') s1 else s1)"

definition dialog_selects :: "jsval \<Rightarrow> device_actions \<Rightarrow> device_actions" where
  "dialog_selects d s = add_watchers s (selectDiscoveredForAdd d s)"

section \<open>\<open>FieldRow.vue\<close>\<close>

record field_row =
  fr_value :: jsval
  fr_copyable :: bool
  fr_placeholder :: jstr
  fr_sensitive :: bool

definition displayValue :: "field_row \<Rightarrow> jstr" where
  "displayValue p =
     (let trimmed = trim (to_string (if_nullish (fr_value p) (JStr []))) in
      if trimmed \<noteq> [] then trimmed else text_else (fr_placeholder p) (js ''--''))"

definition canCopy :: "field_row \<Rightarrow> bool" where
  "canCopy p \<longleftrightarrow> fr_copyable p \<and> displayValue p \<notin> {[], js ''--'', js ''---''}"

definition titleValue :: "field_row \<Rightarrow> jstr" where
  "titleValue p =
     (if fr_sensitive p then []
      else if displayValue p = js ''--'' \<or> displayValue p = js ''---'' then [] else displayValue p)"

definition copy_field :: "copy_env \<Rightarrow> field_row \<Rightarrow> copy_effect list" where
  "copy_field env p = (if canCopy p then snd (copyToClipboard env (JStr (displayValue p)) tx_copied) else [])"

section \<open>\<open>ErrorState.vue\<close>\<close>

record error_state =
  es_statusCode :: "int option"
  es_requestMethod :: jstr
  es_requestUrl :: jstr
  es_lastSuccessAt :: "int option"

definition shown_number :: "int option \<Rightarrow> (int \<Rightarrow> jstr) \<Rightarrow> jstr list" where
  "shown_number n f = (case n of Some k \<Rightarrow> if k = 0 then [] else [f k] | None \<Rightarrow> [])"

definition metaText :: "(int \<Rightarrow> jstr) \<Rightarrow> error_state \<Rightarrow> jstr" where
  "metaText locale_time p =
     (let meth = to_upper (es_requestMethod p) in
      join_with [32, 183, 32]
        (shown_number (es_statusCode p) (\<lambda>n. js ''HTTP '' @ show_int n) @
         (if meth \<noteq> [] \<and> es_requestUrl p \<noteq> [] then [meth @ js '' '' @ es_requestUrl p]
          else if es_requestUrl p \<noteq> [] then [es_requestUrl p] else []) @
         shown_number (es_lastSuccessAt p) (\<lambda>t. tx_last_success @ locale_time t)))"

section \<open>Signals are ordered\<close>

text \<open>The colours from none to strong; a stronger signal never has a weaker colour nor fewer bars.\<close>

fun color_rank :: "signal_color \<Rightarrow> nat" where
  "color_rank GrayBar = 0"
| "color_rank RedBar = 1"
| "color_rank YellowBar = 2"
| "color_rank GreenBar = 3"

lemma color_rank_inj: "color_rank a = color_rank b \<Longrightarrow> a = b"
  by (cases a; cases b; simp)

instantiation signal_color :: linorder
begin

definition less_eq_signal_color :: "signal_color \<Rightarrow> signal_color \<Rightarrow> bool" where
  "a \<le> b \<longleftrightarrow> color_rank a \<le> color_rank b"

definition less_signal_color :: "signal_color \<Rightarrow> signal_color \<Rightarrow> bool" where
  "a < b \<longleftrightarrow> color_rank a < color_rank b"

instance
  by standard (auto simp: less_eq_signal_color_def less_signal_color_def dest: color_rank_inj)

end

lemma signal_mono:
  assumes "hasValidSignalDbm (JNum (Fin a))" and "hasValidSignalDbm (JNum (Fin b))" and "a \<le> b"
  shows "getSignalColor (JNum (Fin a)) \<le> getSignalColor (JNum (Fin b)) \<and>
    getSignalBars (JNum (Fin a)) \<le> getSignalBars (JNum (Fin b))"
  using assms by (auto simp: getSignalColor_def getSignalBars_def dbm_above_def less_eq_signal_color_def)

text \<open>Every valid signal is above no signal.\<close>

lemma valid_above_none: "hasValidSignalDbm v \<longleftrightarrow> GrayBar < getSignalColor v"
  by (simp add: getSignalColor_def less_signal_color_def)

section \<open>Facts\<close>

text \<open>Bars and colour of a signal: no bars exactly for a grey one, four exactly for a green one, and a red
  one never has more than two.\<close>

lemma dbm_above_mono: "dbm_above v m \<Longrightarrow> n \<le> m \<Longrightarrow> dbm_above v n"
  by (auto simp: dbm_above_def split: jsval.splits jnum.splits)

lemma signal_bars_color:
  "(getSignalBars v = 0 \<longleftrightarrow> getSignalColor v = GrayBar) \<and> (getSignalBars v = 4 \<longleftrightarrow> getSignalColor v = GreenBar) \<and>
   (getSignalColor v = RedBar \<longrightarrow> getSignalBars v \<le> 2) \<and> (getSignalBars v = 3 \<longrightarrow> getSignalColor v = YellowBar)"
  using dbm_above_mono [of v "-85" "-90"] by (auto simp: getSignalBars_def getSignalColor_def)

text \<open>A 3G mode named by its technology has the 3G icon and the colour of no mode at all.\<close>

lemma wcdma_gray:
  "networkIcon (JObj [(js ''network_mode'', jlit ''WCDMA'')]) = Icon3G \<and>
   networkColor (JObj [(js ''network_mode'', jlit ''WCDMA'')]) = GrayText"
  by (simp add: networkIcon_def networkColor_def displayNetworkMode_def has_any_def js_def trim_def trim_start_def
      is_space_def to_upper_def upper_unit_def starts_with_def Let_def)

text \<open>The second word of a mode is shown even when there is no duplex in front of it.\<close>

lemma mode_word_lost: "networkModeText (JObj [(js ''network_mode'', jlit ''5G NSA'')]) = js ''NSA''"
  by (simp add: networkModeText_def displayNetworkMode_def js_def trim_def trim_start_def is_space_def Let_def)

lemma secondary_nonempty: "secondaryStatus d \<noteq> []"
proof -
  have "registrationText d \<noteq> []"
    by (auto simp: registrationText_def Let_def tx_control_plane_recovering_def tx_searching_network_def
        tx_registration_denied_def tx_not_registered_def)
  then show ?thesis
    by (auto simp: secondaryStatus_def js_def)
qed

text \<open>The add dialog's watchers agree with the backend the page derives, but for a device in MBIM mode
  behind a QMI path.\<close>

lemma selected_locks:
  assumes "\<not> truthy (jfield d ''degraded'')"
  shows "add_qmi_only (selectDiscoveredForAdd d s) = isWwanQmiControlPath (jfield d ''control_path'')"
    and "add_mbim_only (selectDiscoveredForAdd d s) \<longleftrightarrow> to_lower (text_or_empty (jfield d ''mode'')) = js ''mbim''"
  using assms
  by (cases "truthy (jfield d ''control_path'')";
      simp add: add_qmi_only_def add_mbim_only_def selectDiscoveredForAdd_def applyDiscoveredToAddConfig_def isWwanQmiControlPath_def)+

lemma dialog_backend:
  assumes "\<not> truthy (jfield d ''degraded'')"
    and "\<not> (isWwanQmiControlPath (jfield d ''control_path'') \<and> to_lower (text_or_empty (jfield d ''mode'')) = js ''mbim'')"
  shows "ac_device_backend (da_addConfig (dialog_selects d s)) = discovered_backend d"
proof -
  have chosen: "ac_device_backend (da_addConfig (selectDiscoveredForAdd d s)) = discovered_backend d"
    using assms(1) by (simp add: selectDiscoveredForAdd_def applyDiscoveredToAddConfig_def)
  then show ?thesis
    using assms(2) selected_locks [OF assms(1), of s]
    by (auto simp: dialog_selects_def add_watchers_def add_backend_def Let_def discovered_backend_def)
qed

lemma watchers_locks:
  "add_qmi_only (add_watchers b s) = add_qmi_only s" "add_mbim_only (add_watchers b s) = add_mbim_only s"
  by (simp_all add: add_watchers_def add_backend_def add_qmi_only_def add_mbim_only_def Let_def)

lemma mbim_overruled:
  assumes "\<not> truthy (jfield d1 ''degraded'')" and "\<not> truthy (jfield d2 ''degraded'')"
    and "to_lower (text_or_empty (jfield d1 ''mode'')) = js ''mbim''"
    and "to_lower (text_or_empty (jfield d2 ''mode'')) = js ''mbim''"
    and "\<not> isWwanQmiControlPath (jfield d1 ''control_path'')" and "isWwanQmiControlPath (jfield d2 ''control_path'')"
  shows "ac_device_backend (da_addConfig (dialog_selects d2 (dialog_selects d1 s))) = js ''qmi''"
proof -
  have before: "add_mbim_only (dialog_selects d1 s)" "\<not> add_qmi_only (dialog_selects d1 s)"
    using selected_locks [OF assms(1), of s] assms(3,5) by (simp_all add: dialog_selects_def watchers_locks)
  then show ?thesis
    using selected_locks [OF assms(2), of "dialog_selects d1 s"] assms(4,6)
    by (simp add: dialog_selects_def [of d2] add_watchers_def add_backend_def Let_def)
qed

text \<open>What a row copies is what it shows, never a placeholder dash, and nothing is copied unless allowed.\<close>

lemma copied_is_shown:
  "copy_field env p \<noteq> [] \<Longrightarrow>
   fr_copyable p \<and> displayValue p \<noteq> js ''--'' \<and> copy_field env p = snd (copyToClipboard env (JStr (displayValue p)) tx_copied)"
  by (auto simp: copy_field_def canCopy_def split: if_splits)

end
