(* ===== verification/Diagnostics.thy ===== *)
theory Diagnostics
  imports AppShell Boot Panels
begin

text \<open>
  \<open>components/ErrorBoundary.vue\<close> and \<open>components/DebugPanel.vue\<close> over the debug
  collector, and how an error caught by the boundary opens the panel of the shell. The local calendar
  time of a download is a parameter of its handler.
\<close>

section \<open>\<open>ErrorBoundary.vue\<close>\<close>

record boundary =
  eb_message :: "jstr option"
  eb_details :: "jstr option"
  eb_renderKey :: nat
  eb_debug :: collector
  eb_local :: storage

definition auto_open_key :: jstr where
  "auto_open_key = js ''debug_panel_auto_open''"

definition boundary_reset :: "boundary \<Rightarrow> boundary" where
  "boundary_reset s = s\<lparr>eb_message := None, eb_details := None, eb_renderKey := Suc (eb_renderKey s)\<rparr>"

definition kept_stack :: "jstr option \<Rightarrow> jstr option" where
  "kept_stack stack = (case stack of Some (c # t) \<Rightarrow> Some (c # t) | _ \<Rightarrow> None)"

fun captured_text :: "exn \<Rightarrow> jstr option \<times> jstr option" where
  "captured_text (AxiosErr e) = (Some (ax_name e @ js '': '' @ ax_message e), kept_stack (ax_stack e))"
| "captured_text (NativeErr name message stack) = (Some (name @ js '': '' @ message), kept_stack stack)"
| "captured_text (Thrown v) = ((case v of JStr t \<Rightarrow> Some t | _ \<Rightarrow> stringify v), None)"

definition onErrorCaptured :: "int \<Rightarrow> exn \<Rightarrow> boundary \<Rightarrow> boundary" where
  "onErrorCaptured now err s =
     (let c = recordJsError now err (Some (js ''vue.errorCaptured'')) (eb_debug s);
          c' = (if get_item (eb_local s) auto_open_key = Some (Some (js ''1'')) then requestOpenPanel now c else c)
      in s\<lparr>eb_debug := c', eb_message := fst (captured_text err), eb_details := snd (captured_text err)\<rparr>)"

text \<open>The panel with the error is shown in place of the page when there is a message.\<close>

definition shows_error :: "boundary \<Rightarrow> bool" where
  "shows_error s \<longleftrightarrow> (case eb_message s of Some (c # t) \<Rightarrow> True | _ \<Rightarrow> False)"

section \<open>\<open>DebugPanel.vue\<close>\<close>

record debug_panel =
  dg_autoOpen :: bool
  dg_local :: storage
  dg_debug :: collector
  dg_notices :: "notice list"
  dg_downloads :: "(jstr \<times> jstr) list"

definition dg_say :: "notice_kind \<Rightarrow> jstr \<Rightarrow> debug_panel \<Rightarrow> debug_panel" where
  "dg_say k msg s = s\<lparr>dg_notices := dg_notices s @ [(k, msg)]\<rparr>"

text \<open>An assignment to \<open>autoOpen\<close>, with its watcher.\<close>

definition set_auto_open :: "bool \<Rightarrow> debug_panel \<Rightarrow> debug_panel" where
  "set_auto_open v s =
     (if v = dg_autoOpen s then s
      else s\<lparr>dg_autoOpen := v, dg_local := try_set (dg_local s) auto_open_key (if v then js ''1'' else js ''0'')\<rparr>)"

definition debug_onMounted :: "debug_panel \<Rightarrow> debug_panel" where
  "debug_onMounted s =
     (case get_item (dg_local s) auto_open_key of None \<Rightarrow> s | Some v \<Rightarrow> set_auto_open (v = Some (js ''1'')) s)"

definition snapshot_text :: "int \<Rightarrow> jstr \<Rightarrow> debug_panel \<Rightarrow> jsval" where
  "snapshot_text now href s =
     (case stringify_indent 0 (sanitizedSnapshot now href (dg_debug s)) of None \<Rightarrow> JUndef | Some t \<Rightarrow> JStr t)"

definition copySnapshot :: "copy_env \<Rightarrow> int \<Rightarrow> jstr \<Rightarrow> debug_panel \<Rightarrow> bool \<times> copy_effect list" where
  "copySnapshot env now href s = copyToClipboard env (snapshot_text now href s) tx_diagnostics_copied"

text \<open>Year, month, day, hour, minute, second.\<close>

definition snapshot_stamp :: "int list \<Rightarrow> jstr" where
  "snapshot_stamp parts =
     (case parts of
        [y, m, d, h, mi, sec] \<Rightarrow> show_int y @ pad2 m @ pad2 d @ js ''-'' @ pad2 h @ pad2 mi @ pad2 sec
      | _ \<Rightarrow> [])"

text \<open>\<open>works\<close>: the browser can make and click the link.\<close>

definition downloadSnapshot :: "bool \<Rightarrow> int list \<Rightarrow> int \<Rightarrow> jstr \<Rightarrow> debug_panel \<Rightarrow> debug_panel" where
  "downloadSnapshot works parts now href s =
     (if works
      then dg_say InfoOk tx_diagnostics_saved
        (s\<lparr>dg_downloads := dg_downloads s @
           [(js ''debug-'' @ snapshot_stamp parts @ js ''.json'', to_string (snapshot_text now href s))]\<rparr>)
      else dg_say InfoError tx_export_failed s)"

definition debug_clearAll :: "debug_panel \<Rightarrow> debug_panel" where
  "debug_clearAll s = dg_say InfoOk tx_cleared (s\<lparr>dg_debug := clearAll (dg_debug s)\<rparr>)"

section \<open>Facts\<close>

text \<open>With the mark set in storage, an error a page throws opens the panel of the shell and shows its text;
  retrying renders the page anew.\<close>

lemma captured_error_opens_panel:
  assumes "get_item (eb_local b) auto_open_key = Some (Some (js ''1''))" and "now \<noteq> 0"
  shows "sh_debugOpen (watch_open_request (co_open_panel (eb_debug (onErrorCaptured now (NativeErr n m st) b))) s) \<and>
    shows_error (onErrorCaptured now (NativeErr n m st) b) \<and>
    \<not> shows_error (boundary_reset (onErrorCaptured now (NativeErr n m st) b))"
  using assms
  by (simp add: onErrorCaptured_def requestOpenPanel_def watch_open_request_def set_debug_open_def save_debug_open_def
      shows_error_def boundary_reset_def js_def Let_def split: list.split)

text \<open>A value that has no JSON text leaves the boundary without a message: the page that threw it is
  rendered again at once.\<close>

lemma undefined_not_shown: "\<not> shows_error (onErrorCaptured now (Thrown JUndef) b)"
  by (simp add: onErrorCaptured_def shows_error_def Let_def)

text \<open>Nothing that leaves the panel leaks: the text copied and downloaded is that of a redacted value.\<close>

lemma exported_redacted:
  "\<exists>v. \<not> leaks v \<and> snapshot_text now href s = (case stringify_indent 0 v of None \<Rightarrow> JUndef | Some t \<Rightarrow> JStr t)"
  by (intro exI [of _ "sanitizedSnapshot now href (dg_debug s)"])
     (simp add: snapshot_text_def sanitizedSnapshot_def sanitizeAny_no_leak)

text \<open>The switch is what the next page load reads.\<close>

lemma auto_open_remembered:
  "st_avail (dg_local s) \<Longrightarrow> st_room (dg_local s) \<Longrightarrow> v \<noteq> dg_autoOpen s \<Longrightarrow>
   dg_autoOpen (debug_onMounted (set_auto_open v s\<lparr>dg_autoOpen := False\<rparr>)) = v"
  by (auto simp: set_auto_open_def debug_onMounted_def try_set_def set_item_def get_item_def js_def)

lemma cleared_bounded: "collector_bounded (dg_debug (debug_clearAll s))"
  by (simp add: debug_clearAll_def dg_say_def clearAll_def collector_bounded_def)

end
