(* ===== verification/SmsActions.thy ===== *)
theory SmsActions
  imports SmsView Notices
begin

text \<open>
  The rest of \<open>web/src/views/Sms.vue\<close>: sending, deleting with its question, the action sheet
  behind a long press, the panes of the two layouts and where the scroll position goes. The
  conversation view itself is \<open>SmsView\<close>; every handler here acts on it through its operations.
  Requests, questions and timers are numbered and come back as events.
\<close>

section \<open>Panes and scrolling\<close>

definition SMS_NARROW_BREAKPOINT :: int where
  "SMS_NARROW_BREAKPOINT = 980"

definition isNarrowLayout :: "int \<Rightarrow> bool" where
  "isNarrowLayout width \<longleftrightarrow> 0 < width \<and> width < SMS_NARROW_BREAKPOINT"

definition showDeviceSidebar :: "int \<Rightarrow> bool" where
  "showDeviceSidebar width \<longleftrightarrow> \<not> isNarrowLayout width"

definition showListPane :: "int \<Rightarrow> jstr \<Rightarrow> bool" where
  "showListPane width selected \<longleftrightarrow> \<not> isNarrowLayout width \<or> selected = []"

definition showDetailPane :: "int \<Rightarrow> jstr \<Rightarrow> bool" where
  "showDetailPane width selected \<longleftrightarrow> \<not> isNarrowLayout width \<or> selected \<noteq> []"

text \<open>An entry of the device column: identifier, label and light.\<close>

definition sidebar_entry :: "jsval \<Rightarrow> jsval \<times> jsval \<times> bool" where
  "sidebar_entry d =
     (jfield d ''id'', or_else (jfield d ''name'') (jfield d ''id''),
      truthy (jfield d ''running'') \<and>
      if_nullish (jfield d ''control_online'') (jfield d ''healthy'') = JBool True)"

definition deviceSidebarItems :: "sms_view \<Rightarrow> (jsval \<times> jsval \<times> bool) list" where
  "deviceSidebarItems v = (jlit ''all'', JStr tx_all_devices, True) # map sidebar_entry (sv_devices v)"

definition sendDeviceOptions :: "sms_view \<Rightarrow> (jsval \<times> jsval) list" where
  "sendDeviceOptions v =
     map (\<lambda>d. (JStr (to_string (or_else (jfield d ''name'') (jfield d ''id''))), jfield d ''id'')) (sv_devices v)"

text \<open>\<open>new Date(ms).toLocaleTimeString()\<close> is the parameter \<open>clock_text\<close>.\<close>

definition formatClock :: "(int \<Rightarrow> jstr) \<Rightarrow> int \<Rightarrow> jstr" where
  "formatClock clock_text ms = (if ms = 0 then [] else clock_text ms)"

text \<open>A scroll area, when it is on screen: content height, scroll position and visible height.\<close>

type_synonym scroll_area = "(rat \<times> rat \<times> rat) option"

definition isNearBottom :: "scroll_area \<Rightarrow> bool" where
  "isNearBottom wrap =
     (case wrap of None \<Rightarrow> True | Some (scrollHeight, scrollTop, clientHeight) \<Rightarrow>
        scrollHeight - (scrollTop + clientHeight) \<le> 160)"

text \<open>The position after older messages were put in front: what was in view stays in view.\<close>

definition history_scroll :: "rat \<Rightarrow> rat \<Rightarrow> rat \<Rightarrow> rat" where
  "history_scroll prevTop prevHeight nextHeight = prevTop + max 0 (nextHeight - prevHeight)"

lemma history_keeps_view:
  "prevHeight \<le> nextHeight \<Longrightarrow>
   nextHeight - history_scroll prevTop prevHeight nextHeight = prevHeight - prevTop"
  by (simp add: history_scroll_def)

text \<open>One of the two panes is on screen in the narrow layout, both in the wide one.\<close>

lemma panes: "showListPane w k \<noteq> showDetailPane w k \<longleftrightarrow> isNarrowLayout w"
  by (auto simp: showListPane_def showDetailPane_def)

section \<open>State\<close>

datatype sheet_target = ThreadTarget sms_thread | MessageTarget sms_message

text \<open>A request to delete: a message by its number, or a thread by device, card and contact.\<close>

datatype delete_call = DeleteMessage int | DeleteThread jstr jstr jstr

record sms_page =
  sp_view :: sms_view
  sp_width :: int
  sp_next :: nat
  sp_press :: "(nat \<times> sheet_target) option"
  sp_startX :: rat
  sp_startY :: rat
  sp_sheetOpen :: bool
  sp_target :: "sheet_target option"
  sp_questions :: "(nat \<times> sheet_target) list"
  sp_deletes :: "(nat \<times> sheet_target) list"
  sp_refreshing :: "(nat \<times> sheet_target \<times> jsval) list"
  sp_deletingMessage :: "int option"
  sp_deletingThread :: "jstr option"
  sp_deleted :: "delete_call list"
  sp_composer :: jstr
  sp_modalOpen :: bool
  sp_modalDevice :: jstr
  sp_modalPhone :: jstr
  sp_modalMessage :: jstr
  sp_sending :: bool
  sp_sends :: "(nat \<times> bool) list"
  sp_sent :: "jsval list"
  sp_timers :: nat
  sp_notices :: "notice list"

definition open_sms_page :: "sms_view \<Rightarrow> sms_page" where
  "open_sms_page v = \<lparr>sp_view = v, sp_width = 0, sp_next = 0, sp_press = None, sp_startX = 0, sp_startY = 0,
     sp_sheetOpen = False, sp_target = None, sp_questions = [], sp_deletes = [], sp_refreshing = [],
     sp_deletingMessage = None, sp_deletingThread = None, sp_deleted = [], sp_composer = [],
     sp_modalOpen = False, sp_modalDevice = [], sp_modalPhone = [], sp_modalMessage = [],
     sp_sending = False, sp_sends = [], sp_sent = [], sp_timers = 0, sp_notices = []\<rparr>"

definition sp_say :: "notice_kind \<Rightarrow> jstr \<Rightarrow> sms_page \<Rightarrow> sms_page" where
  "sp_say k msg s = s\<lparr>sp_notices := sp_notices s @ [(k, msg)]\<rparr>"

definition on_view :: "(sms_view \<Rightarrow> sms_view) \<Rightarrow> sms_page \<Rightarrow> sms_page" where
  "on_view f s = s\<lparr>sp_view := f (sp_view s)\<rparr>"

text \<open>The text of an error thrown on as \<open>new Error(message || fallback)\<close> and normalised again.\<close>

definition failure_text :: "jstr \<Rightarrow> jstr \<Rightarrow> app_error \<Rightarrow> jstr" where
  "failure_text label fallback e =
     label @ error_text
       (ae_message (toAppError (NativeErr (js ''Error'') (error_text (ae_message e) fallback) None))) tx_unknown_error"

section \<open>The long press\<close>

text \<open>A pointer: whether it is a mouse, and where.\<close>

type_synonym pointer = "bool \<times> rat \<times> rat"

definition clearLongPress :: "sms_page \<Rightarrow> sms_page" where
  "clearLongPress s = s\<lparr>sp_press := None\<rparr>"

definition startLongPress :: "sheet_target \<Rightarrow> pointer \<Rightarrow> sms_page \<Rightarrow> sms_page" where
  "startLongPress target e s =
     (case e of (mouse, x, y) \<Rightarrow>
        if \<not> isNarrowLayout (sp_width s) \<or> mouse then s
        else (clearLongPress s)\<lparr>sp_startX := x, sp_startY := y, sp_press := Some (sp_next s, target),
               sp_next := Suc (sp_next s)\<rparr>)"

definition moveLongPress :: "rat \<Rightarrow> rat \<Rightarrow> sms_page \<Rightarrow> sms_page" where
  "moveLongPress x y s =
     (if sp_press s = None then s
      else if 10 < \<bar>x - sp_startX s\<bar> \<or> 10 < \<bar>y - sp_startY s\<bar> then clearLongPress s else s)"

text \<open>The timer of 450 ms.\<close>

definition hold_timer :: "nat \<Rightarrow> sms_page \<Rightarrow> sms_page" where
  "hold_timer i s =
     (case sp_press s of
        Some (j, target) \<Rightarrow>
          if i = j then s\<lparr>sp_press := None, sp_target := Some target, sp_sheetOpen := True\<rparr> else s
      | None \<Rightarrow> s)"

definition openThreadActionSheet :: "sms_thread \<Rightarrow> pointer \<Rightarrow> sms_page \<Rightarrow> sms_page" where
  "openThreadActionSheet t = startLongPress (ThreadTarget t)"

definition openMessageActionSheet :: "sms_message \<Rightarrow> pointer \<Rightarrow> sms_page \<Rightarrow> sms_page" where
  "openMessageActionSheet m = startLongPress (MessageTarget m)"

definition closeActionSheet :: "sms_page \<Rightarrow> sms_page" where
  "closeActionSheet s = s\<lparr>sp_sheetOpen := False, sp_target := None\<rparr>"

definition onDetailScroll :: "rat \<Rightarrow> sms_page \<Rightarrow> sms_page" where
  "onDetailScroll scrollTop s =
     (let s1 = clearLongPress s in if scrollTop \<le> 80 then on_view loadMoreHistory s1 else s1)"

text \<open>The sheet is drawn in the narrow layout only.\<close>

definition sheet_shown :: "sms_page \<Rightarrow> bool" where
  "sheet_shown s \<longleftrightarrow> sp_sheetOpen s \<and> isNarrowLayout (sp_width s)"

section \<open>Deleting\<close>

definition put_question :: "sheet_target \<Rightarrow> sms_page \<Rightarrow> sms_page" where
  "put_question target s = s\<lparr>sp_questions := sp_questions s @ [(sp_next s, target)], sp_next := Suc (sp_next s)\<rparr>"

text \<open>The click: the same item must not be under way, and a message needs a number.\<close>

fun confirmDelete :: "sheet_target \<Rightarrow> sms_page \<Rightarrow> sms_page" where
  "confirmDelete (MessageTarget m) s =
     (if sm_id m = 0 \<or> sp_deletingMessage s = Some (sm_id m) then s else put_question (MessageTarget m) s)"
| "confirmDelete (ThreadTarget t) s =
     (if sp_deletingThread s = Some (th_key t) then s else put_question (ThreadTarget t) s)"

definition onActionSheetDelete :: "sms_page \<Rightarrow> sms_page" where
  "onActionSheetDelete s =
     (case sp_target s of None \<Rightarrow> closeActionSheet s | Some target \<Rightarrow> confirmDelete target (closeActionSheet s))"

definition delete_request :: "jstr \<Rightarrow> sheet_target \<Rightarrow> delete_call" where
  "delete_request device target =
     (case target of
        MessageTarget m \<Rightarrow> DeleteMessage (sm_id m)
      | ThreadTarget t \<Rightarrow>
          if device \<noteq> js ''all'' then DeleteThread device [] (th_peer t)
          else DeleteThread (js ''all'') (th_imsi t) (th_peer t))"

definition mark_deleting :: "sheet_target \<Rightarrow> bool \<Rightarrow> sms_page \<Rightarrow> sms_page" where
  "mark_deleting target on s =
     (case target of
        MessageTarget m \<Rightarrow> s\<lparr>sp_deletingMessage := (if on then Some (sm_id m) else None)\<rparr>
      | ThreadTarget t \<Rightarrow> s\<lparr>sp_deletingThread := (if on then Some (th_key t) else None)\<rparr>)"

text \<open>The answer to question \<open>i\<close>.\<close>

definition question_answered :: "nat \<Rightarrow> bool \<Rightarrow> sms_page \<Rightarrow> sms_page" where
  "question_answered i yes s =
     (case map_of (sp_questions s) i of
        None \<Rightarrow> s
      | Some target \<Rightarrow>
          (let s1 = s\<lparr>sp_questions := filter (\<lambda>q. fst q \<noteq> i) (sp_questions s)\<rparr> in
           if \<not> yes then s1
           else (mark_deleting target True s1)
             \<lparr>sp_deletes := sp_deletes s @ [(i, target)],
              sp_deleted := sp_deleted s @ [delete_request (sv_selectedDevice (sp_view s)) target]\<rparr>))"

fun after_delete :: "sheet_target \<Rightarrow> sms_page \<Rightarrow> sms_page" where
  "after_delete (MessageTarget m) s = on_view message_deleted (sp_say InfoOk tx_sms_deleted s)"
| "after_delete (ThreadTarget t) s = on_view (thread_deleted (th_key t)) (sp_say InfoOk tx_thread_deleted s)"

text \<open>The answer to a deletion; after a success the lists are loaded again, and the handler goes on when
  that has ended.\<close>

definition delete_answer :: "nat \<Rightarrow> jsval service_result \<Rightarrow> sms_page \<Rightarrow> sms_page" where
  "delete_answer i r s =
     (case map_of (sp_deletes s) i of
        None \<Rightarrow> s
      | Some target \<Rightarrow>
          (let s1 = s\<lparr>sp_deletes := filter (\<lambda>q. fst q \<noteq> i) (sp_deletes s)\<rparr> in
           case r of
             Failure e \<Rightarrow> mark_deleting target False
               (sp_say InfoError (failure_text tx_delete_failed_because tx_delete_failed e) s1)
           | Success d \<Rightarrow>
               (after_delete target s1)\<lparr>sp_refreshing := sp_refreshing s @ [(i, target, d)]\<rparr>))"

text \<open>The end of that refresh. Reading \<open>thread_empty\<close> of an answer without body throws; \<open>thrown\<close>
  is the engine's message.\<close>

definition refresh_ended :: "nat \<Rightarrow> jstr \<Rightarrow> sms_page \<Rightarrow> sms_page" where
  "refresh_ended i thrown s =
     (case map_of (sp_refreshing s) i of
        None \<Rightarrow> s
      | Some (target, d) \<Rightarrow>
          (let s1 = s\<lparr>sp_refreshing := filter (\<lambda>q. fst q \<noteq> i) (sp_refreshing s)\<rparr> in
           mark_deleting target False
             (case target of
                ThreadTarget t \<Rightarrow> s1
              | MessageTarget m \<Rightarrow>
                  if nullish d
                  then sp_say InfoError (tx_delete_failed_because @ error_text thrown tx_unknown_error) s1
                  else if truthy (jfield d ''thread_empty'') then on_view (clearSelectedThread True) s1
                  else s1)))"

section \<open>Sending\<close>

definition first_device :: "sms_view \<Rightarrow> jstr option" where
  "first_device v =
     (case sv_devices v of [] \<Rightarrow> None | d # ds \<Rightarrow> (case jfield d ''id'' of JStr x \<Rightarrow> Some x | _ \<Rightarrow> None))"

definition send_starts :: "bool \<Rightarrow> jsval \<Rightarrow> sms_page \<Rightarrow> sms_page" where
  "send_starts modal payload s =
     s\<lparr>sp_sending := True, sp_sends := sp_sends s @ [(sp_next s, modal)], sp_next := Suc (sp_next s),
       sp_sent := sp_sent s @ [payload]\<rparr>"

definition modal_opens :: "sms_page \<Rightarrow> sms_page" where
  "modal_opens s =
     s\<lparr>sp_modalPhone := [], sp_modalMessage := [], sp_modalOpen := True,
       sp_modalDevice := openSendModal (sv_selectedDevice (sp_view s)) (first_device (sp_view s))\<rparr>"

definition send_modal :: "sms_page \<Rightarrow> sms_page" where
  "send_modal s =
     (case handleSendModal (sp_modalDevice s) (sp_modalPhone s) (sp_modalMessage s) of
        None \<Rightarrow> sp_say InfoWarning tx_form_incomplete s
      | Some payload \<Rightarrow> send_starts True payload s)"

definition send_reply :: "sms_page \<Rightarrow> sms_page" where
  "send_reply s =
     (case sendToCurrentThread (sv_selectedDevice (sp_view s)) (selectedThread (sp_view s))
             (first_device (sp_view s)) (sp_composer s) of
        NothingToSend \<Rightarrow> s
      | NoDevice \<Rightarrow> sp_say InfoWarning tx_no_device s
      | SendPayload payload \<Rightarrow> send_starts False payload s)"

fun more_than_one :: "jnum \<Rightarrow> bool" where
  "more_than_one (Fin r) \<longleftrightarrow> 1 < r"
| "more_than_one PosInf \<longleftrightarrow> True"
| "more_than_one _ \<longleftrightarrow> False"

definition sent_text :: "jnum \<Rightarrow> jstr" where
  "sent_text parts =
     tx_sms_sent @ (if more_than_one parts then tx_parts_open @ to_string (JNum parts) @ tx_parts_close else [])"

text \<open>The answer to a message sent; a success arms the refresh of 800 ms.\<close>

definition send_answer :: "nat \<Rightarrow> jnum service_result \<Rightarrow> sms_page \<Rightarrow> sms_page" where
  "send_answer i r s =
     (case map_of (sp_sends s) i of
        None \<Rightarrow> s
      | Some modal \<Rightarrow>
          (let s1 = s\<lparr>sp_sends := filter (\<lambda>q. fst q \<noteq> i) (sp_sends s), sp_sending := False\<rparr> in
           case r of
             Failure e \<Rightarrow> sp_say InfoError (failure_text tx_sms_failed_because tx_sms_failed e) s1
           | Success parts \<Rightarrow>
               (let s2 = s1\<lparr>sp_timers := Suc (sp_timers s1)\<rparr> in
                if modal then (sp_say InfoOk (sent_text parts) s2)\<lparr>sp_modalOpen := False\<rparr>
                else s2\<lparr>sp_composer := []\<rparr>)))"

definition refresh_timer :: "sms_page \<Rightarrow> sms_page" where
  "refresh_timer s =
     (if sp_timers s = 0 then s
      else on_view (fetchMessagesAndThread False) (s\<lparr>sp_timers := sp_timers s - 1\<rparr>))"

section \<open>The page\<close>

definition syncSmsPageWidth :: "int \<Rightarrow> sms_page \<Rightarrow> sms_page" where
  "syncSmsPageWidth w s = on_view (on_layout (isNarrowLayout w)) (s\<lparr>sp_width := w\<rparr>)"

definition handleNarrowDeviceChange :: "jsval \<Rightarrow> sms_page \<Rightarrow> sms_page" where
  "handleNarrowDeviceChange v =
     on_view (handleSelectDevice (to_string (or_else v (jlit ''all''))) True False)"

text \<open>The events of the conversation view that are not this theory's own.\<close>

datatype sms_page_event =
    OnView sms_event
  | WidthIs int
  | DevicePicked jsval
  | Pressed sheet_target pointer
  | Moved rat rat
  | Released
  | DetailScrolled rat
  | HeldLong nat
  | SheetClosed
  | SheetDeletes
  | DeleteClicked sheet_target
  | QuestionAnswered nat bool
  | DeleteCame nat "jsval service_result"
  | RefreshEnded nat jstr
  | ModalOpened
  | ModalTyped jstr jstr jstr
  | ModalClosed
  | ModalSent
  | Typed jstr
  | ReplySent
  | SendCame nat "jnum service_result"
  | RefreshTimer
  | Unmounted

fun own_event :: "sms_event \<Rightarrow> bool" where
  "own_event (Layout n) = True"
| "own_event (ThreadDeleted k) = True"
| "own_event MessageDeleted = True"
| "own_event ThreadEmptied = True"
| "own_event _ = False"

fun sms_page_step :: "clock \<Rightarrow> sms_page_event \<Rightarrow> sms_page \<Rightarrow> sms_page" where
  "sms_page_step dm (OnView e) s = (if own_event e then s else on_view (sms_step dm e) s)"
| "sms_page_step dm (WidthIs w) s = syncSmsPageWidth w s"
| "sms_page_step dm (DevicePicked v) s = handleNarrowDeviceChange v s"
| "sms_page_step dm (Pressed target p) s = startLongPress target p s"
| "sms_page_step dm (Moved x y) s = moveLongPress x y s"
| "sms_page_step dm Released s = clearLongPress s"
| "sms_page_step dm (DetailScrolled y) s = onDetailScroll y s"
| "sms_page_step dm (HeldLong i) s = hold_timer i s"
| "sms_page_step dm SheetClosed s = closeActionSheet s"
| "sms_page_step dm SheetDeletes s = onActionSheetDelete s"
| "sms_page_step dm (DeleteClicked target) s = confirmDelete target s"
| "sms_page_step dm (QuestionAnswered i yes) s = question_answered i yes s"
| "sms_page_step dm (DeleteCame i r) s = delete_answer i r s"
| "sms_page_step dm (RefreshEnded i thrown) s = refresh_ended i thrown s"
| "sms_page_step dm ModalOpened s = modal_opens s"
| "sms_page_step dm (ModalTyped d p m) s = s\<lparr>sp_modalDevice := d, sp_modalPhone := p, sp_modalMessage := m\<rparr>"
| "sms_page_step dm ModalClosed s = s\<lparr>sp_modalOpen := False\<rparr>"
| "sms_page_step dm ModalSent s = send_modal s"
| "sms_page_step dm (Typed t) s = s\<lparr>sp_composer := t\<rparr>"
| "sms_page_step dm ReplySent s = send_reply s"
| "sms_page_step dm (SendCame i r) s = send_answer i r s"
| "sms_page_step dm RefreshTimer s = refresh_timer s"
| "sms_page_step dm Unmounted s = clearLongPress s"

section \<open>The page over the conversation view\<close>

lemmas view_ops = on_view_def sp_say_def clearLongPress_def startLongPress_def moveLongPress_def hold_timer_def
  closeActionSheet_def onDetailScroll_def put_question_def onActionSheetDelete_def mark_deleting_def question_answered_def
  delete_answer_def refresh_ended_def send_starts_def modal_opens_def send_modal_def send_reply_def
  send_answer_def refresh_timer_def syncSmsPageWidth_def handleNarrowDeviceChange_def

lemma confirmDelete_frame [simp]:
  "sp_view (confirmDelete target s) = sp_view s" "sp_press (confirmDelete target s) = sp_press s"
  "sp_target (confirmDelete target s) = sp_target s" "sp_startX (confirmDelete target s) = sp_startX s"
  "sp_startY (confirmDelete target s) = sp_startY s" "sp_deleted (confirmDelete target s) = sp_deleted s"
  "sp_width (confirmDelete target s) = sp_width s"
  by (cases target; simp add: put_question_def)+

lemma after_delete_frame [simp]:
  "sp_press (after_delete target s) = sp_press s" "sp_target (after_delete target s) = sp_target s"
  "sp_startX (after_delete target s) = sp_startX s" "sp_startY (after_delete target s) = sp_startY s"
  "sp_deleted (after_delete target s) = sp_deleted s" "sp_questions (after_delete target s) = sp_questions s"
  "sp_width (after_delete target s) = sp_width s"
  by (cases target; simp add: view_ops)+

text \<open>What a step of the page is for the conversation view.\<close>

definition view_events :: "sms_page_event \<Rightarrow> sms_page \<Rightarrow> sms_event list" where
  "view_events e s =
     (case e of
        OnView x \<Rightarrow> if own_event x then [] else [x]
      | WidthIs w \<Rightarrow> [Layout (isNarrowLayout w)]
      | DevicePicked v \<Rightarrow> [PickDevice (to_string (or_else v (jlit ''all''))) True False]
      | DetailScrolled y \<Rightarrow> if y \<le> 80 then [LoadMore] else []
      | DeleteCame i (Success d) \<Rightarrow>
          (case map_of (sp_deletes s) i of
             None \<Rightarrow> [] | Some (MessageTarget m) \<Rightarrow> [MessageDeleted] | Some (ThreadTarget t) \<Rightarrow> [ThreadDeleted (th_key t)])
      | RefreshEnded i thrown \<Rightarrow>
          (case map_of (sp_refreshing s) i of
             Some (MessageTarget m, d) \<Rightarrow> if \<not> nullish d \<and> truthy (jfield d ''thread_empty'') then [ThreadEmptied] else []
           | _ \<Rightarrow> [])
      | RefreshTimer \<Rightarrow> if sp_timers s = 0 then [] else [RefreshList]
      | _ \<Rightarrow> [])"

lemma page_view_steps:
  "sp_view (sms_page_step dm e s) = fold (sms_step dm) (view_events e s) (sp_view s)"
  by (cases e) (auto simp: view_ops view_events_def Let_def split: prod.splits option.splits service_result.splits
      sheet_target.splits send_request.splits)

text \<open>So the page shows the conversation that is selected, as the view does: the events of the page keep
  what is reachable reachable.\<close>

fun events_ok :: "clock \<Rightarrow> (sms_message \<Rightarrow> jstr) \<Rightarrow> sms_view \<Rightarrow> sms_event list \<Rightarrow> bool" where
  "events_ok dm owner v [] \<longleftrightarrow> True"
| "events_ok dm owner v (e # es) \<longleftrightarrow> event_ok owner v e \<and> events_ok dm owner (sms_step dm e v) es"

lemma reach_fold: "sms_reach dm owner v \<Longrightarrow> events_ok dm owner v es \<Longrightarrow> sms_reach dm owner (fold (sms_step dm) es v)"
  by (induction es arbitrary: v) (simp_all add: sms_reach.step)

lemma page_reaches:
  "sms_reach dm owner (sp_view s) \<Longrightarrow> events_ok dm owner (sp_view s) (view_events e s) \<Longrightarrow>
   sms_reach dm owner (sp_view (sms_page_step dm e s))"
  by (simp add: page_view_steps reach_fold)

section \<open>Nothing is deleted unasked\<close>

definition sms_page_run :: "clock \<Rightarrow> sms_view \<Rightarrow> sms_page_event list \<Rightarrow> sms_page" where
  "sms_page_run dm v es = fold (sms_page_step dm) es (open_sms_page v)"

lemma sms_page_run_simps [simp]:
  "sms_page_run dm v [] = open_sms_page v"
  "sms_page_run dm v (es @ [e]) = sms_page_step dm e (sms_page_run dm v es)"
  by (simp_all add: sms_page_run_def)

text \<open>What may happen to a press that goes on: no release, no scrolling, and no move beyond 10 pixels.\<close>

fun press_goes_on :: "pointer \<Rightarrow> sms_page_event \<Rightarrow> bool" where
  "press_goes_on p Released = False"
| "press_goes_on p (DetailScrolled y) = False"
| "press_goes_on p Unmounted = False"
| "press_goes_on p (Moved x y) \<longleftrightarrow> \<bar>x - fst (snd p)\<bar> \<le> 10 \<and> \<bar>y - snd (snd p)\<bar> \<le> 10"
| "press_goes_on p _ = True"

definition held :: "clock \<Rightarrow> sms_view \<Rightarrow> sms_page_event list \<Rightarrow> sheet_target \<Rightarrow> pointer \<Rightarrow> bool" where
  "held dm v es target p \<longleftrightarrow>
     (\<exists>a b. es = a @ Pressed target p # b \<and> \<not> fst p \<and> isNarrowLayout (sp_width (sms_page_run dm v a)) \<and>
        list_all (press_goes_on p) b)"

definition long_pressed :: "clock \<Rightarrow> sms_view \<Rightarrow> sms_page_event list \<Rightarrow> sheet_target \<Rightarrow> bool" where
  "long_pressed dm v es target \<longleftrightarrow> (\<exists>a i c p. es = a @ HeldLong i # c \<and> held dm v a target p)"

text \<open>The user meant the item: it was clicked for deletion or pressed long.\<close>

definition meant :: "clock \<Rightarrow> sms_view \<Rightarrow> sms_page_event list \<Rightarrow> sheet_target \<Rightarrow> bool" where
  "meant dm v es target \<longleftrightarrow> DeleteClicked target \<in> set es \<or> long_pressed dm v es target"

definition confirmed_call :: "clock \<Rightarrow> sms_view \<Rightarrow> sms_page_event list \<Rightarrow> delete_call \<Rightarrow> bool" where
  "confirmed_call dm v es c \<longleftrightarrow>
     (\<exists>a i b target. es = a @ QuestionAnswered i True # b \<and> meant dm v a target \<and>
        map_of (sp_questions (sms_page_run dm v a)) i = Some target \<and>
        c = delete_request (sv_selectedDevice (sp_view (sms_page_run dm v a))) target)"

lemma held_snoc: "held dm v es target p \<Longrightarrow> press_goes_on p e \<Longrightarrow> held dm v (es @ [e]) target p"
  unfolding held_def by fastforce

lemma held_now:
  "\<not> fst p \<Longrightarrow> isNarrowLayout (sp_width (sms_page_run dm v es)) \<Longrightarrow> held dm v (es @ [Pressed target p]) target p"
  unfolding held_def by fastforce

lemma long_pressed_snoc: "long_pressed dm v es target \<Longrightarrow> long_pressed dm v (es @ [e]) target"
  unfolding long_pressed_def by fastforce

lemma long_pressed_now: "held dm v es target p \<Longrightarrow> long_pressed dm v (es @ [HeldLong i]) target"
  unfolding long_pressed_def by blast

lemma meant_snoc: "meant dm v es target \<Longrightarrow> meant dm v (es @ [e]) target"
  unfolding meant_def by (auto intro: long_pressed_snoc)

lemma confirmed_snoc: "confirmed_call dm v es c \<Longrightarrow> confirmed_call dm v (es @ [e]) c"
  unfolding confirmed_call_def by fastforce

text \<open>Where a press, a sheet and a question come from.\<close>

definition press_ok :: "clock \<Rightarrow> sms_view \<Rightarrow> sms_page_event list \<Rightarrow> sms_page \<Rightarrow> bool" where
  "press_ok dm v es s \<longleftrightarrow>
     (\<forall>i target. sp_press s = Some (i, target) \<longrightarrow>
        (\<exists>p. held dm v es target p \<and> fst (snd p) = sp_startX s \<and> snd (snd p) = sp_startY s))"

definition sheet_ok :: "clock \<Rightarrow> sms_view \<Rightarrow> sms_page_event list \<Rightarrow> sms_page \<Rightarrow> bool" where
  "sheet_ok dm v es s \<longleftrightarrow> (\<forall>target. sp_target s = Some target \<longrightarrow> long_pressed dm v es target)"

definition questions_ok :: "clock \<Rightarrow> sms_view \<Rightarrow> sms_page_event list \<Rightarrow> sms_page \<Rightarrow> bool" where
  "questions_ok dm v es s \<longleftrightarrow> (\<forall>q\<in>set (sp_questions s). meant dm v es (snd q))"

lemma press_step:
  assumes s: "s = sms_page_run dm v es" and ok: "press_ok dm v es s"
  shows "press_ok dm v (es @ [e]) (sms_page_step dm e s)"
proof (cases "sp_press (sms_page_step dm e s)")
  case (Some q)
  have kept: "press_ok dm v (es @ [e]) (sms_page_step dm e s)"
    if "sp_press (sms_page_step dm e s) = sp_press s" "sp_startX (sms_page_step dm e s) = sp_startX s"
      "sp_startY (sms_page_step dm e s) = sp_startY s"
      "\<And>p. fst (snd p) = sp_startX s \<Longrightarrow> snd (snd p) = sp_startY s \<Longrightarrow> press_goes_on p e"
    using ok that unfolding press_ok_def by (metis held_snoc)
  show ?thesis
  proof (cases e)
    case (Pressed target p)
    show ?thesis
    proof (cases "fst p \<or> \<not> isNarrowLayout (sp_width s)")
      case True
      then have "sms_page_step dm e s = s" using Pressed by (cases p) (auto simp: startLongPress_def)
      then show ?thesis using kept Pressed by simp
    next
      case False
      then show ?thesis
        using s Pressed held_now [of p dm v es target] by (cases p) (auto simp: press_ok_def view_ops)
    qed
  qed (use Some kept in \<open>auto simp: view_ops Let_def split: option.splits prod.splits service_result.splits
        sheet_target.splits send_request.splits if_splits\<close>)
qed (simp add: press_ok_def)

lemma sheet_step:
  assumes s: "s = sms_page_run dm v es" and "press_ok dm v es s" and "sheet_ok dm v es s"
  shows "sheet_ok dm v (es @ [e]) (sms_page_step dm e s)"
  using assms(2,3) long_pressed_now [of dm v es]
  by (cases e) (auto simp: view_ops sheet_ok_def press_ok_def Let_def long_pressed_snoc split: option.splits prod.splits
      service_result.splits sheet_target.splits send_request.splits)

lemma questions_kept:
  "sheet_ok dm v es s \<Longrightarrow> questions_ok dm v es s \<Longrightarrow> (\<And>q. q \<in> set (sp_questions s') \<Longrightarrow>
     q \<in> set (sp_questions s) \<or> meant dm v (es @ [e]) (snd q)) \<Longrightarrow> questions_ok dm v (es @ [e]) s'"
  by (auto simp: questions_ok_def dest: meant_snoc)

lemma confirmDelete_questions:
  "q \<in> set (sp_questions (confirmDelete target s)) \<Longrightarrow> q \<in> set (sp_questions s) \<or> snd q = target"
  by (cases target) (auto simp: put_question_def split: if_splits)

lemma questions_step:
  assumes s: "s = sms_page_run dm v es" and "sheet_ok dm v es s" and "questions_ok dm v es s"
  shows "questions_ok dm v (es @ [e]) (sms_page_step dm e s)"
proof (rule questions_kept [OF assms(2,3)])
  fix q assume q: "q \<in> set (sp_questions (sms_page_step dm e s))"
  show "q \<in> set (sp_questions s) \<or> meant dm v (es @ [e]) (snd q)"
  proof (cases e)
    case (DeleteClicked target)
    then show ?thesis using q confirmDelete_questions [of q target s] by (auto simp: meant_def)
  next
    case SheetDeletes
    then show ?thesis
      using q assms(2) confirmDelete_questions [of q _ "closeActionSheet s"]
      by (auto simp: onActionSheetDelete_def sheet_ok_def meant_def closeActionSheet_def long_pressed_snoc split: option.splits)
  qed (use q in \<open>auto simp: view_ops Let_def split: option.splits prod.splits service_result.splits
        sheet_target.splits send_request.splits if_splits\<close>)
qed

lemma page_history_ok:
  "press_ok dm v es (sms_page_run dm v es) \<and> sheet_ok dm v es (sms_page_run dm v es) \<and>
   questions_ok dm v es (sms_page_run dm v es)"
  by (induction es rule: rev_induct)
     (simp_all add: press_step sheet_step questions_step, simp_all add: press_ok_def sheet_ok_def questions_ok_def open_sms_page_def)

lemma deleted_step:
  "sp_deleted (sms_page_step dm e s) = sp_deleted s \<or>
   (\<exists>i target. e = QuestionAnswered i True \<and> map_of (sp_questions s) i = Some target \<and>
      sp_deleted (sms_page_step dm e s) = sp_deleted s @ [delete_request (sv_selectedDevice (sp_view s)) target])"
  by (cases e) (auto simp: view_ops Let_def split: option.splits prod.splits service_result.splits
      sheet_target.splits send_request.splits if_splits)

text \<open>Every deletion the page requests was confirmed in its question, and the item in the question is
  one the user clicked to delete or pressed long: with a finger, in the narrow layout, without letting go,
  scrolling or moving more than 10 pixels until the timer fired.\<close>

lemma deletions_meant: "list_all (confirmed_call dm v es) (sp_deleted (sms_page_run dm v es))"
proof (induction es rule: rev_induct)
  case (snoc e es)
  let ?s = "sms_page_run dm v es"
  have old: "list_all (confirmed_call dm v (es @ [e])) (sp_deleted ?s)"
    using snoc by (auto simp: list_all_iff confirmed_snoc)
  have "confirmed_call dm v (es @ [e]) (delete_request (sv_selectedDevice (sp_view ?s)) target)"
    if "e = QuestionAnswered i True" "map_of (sp_questions ?s) i = Some target" for i target
  proof -
    have "(i, target) \<in> set (sp_questions ?s)" using that(2) by (rule map_of_SomeD)
    then have "meant dm v es target" using page_history_ok [of dm v es] by (auto simp: questions_ok_def)
    with that show ?thesis unfolding confirmed_call_def by blast
  qed
  with old deleted_step [of dm e ?s] show ?case by auto
qed (simp add: open_sms_page_def)

section \<open>What goes wrong\<close>

text \<open>The key Enter sends although a message is under way: pressed twice, it sends the same text twice.\<close>

lemma enter_sends_twice:
  assumes "sendToCurrentThread (sv_selectedDevice (sp_view s)) (selectedThread (sp_view s))
     (first_device (sp_view s)) (sp_composer s) = SendPayload payload"
  shows "sp_sent (send_reply (send_reply s)) = sp_sent s @ [payload, payload]"
  using assms by (simp add: send_reply_def send_starts_def)

text \<open>The first answer ends the mark although the second message is still under way.\<close>

lemma sending_mark_lost:
  assumes "map_of (sp_sends s) i = Some m" and "(j, m') \<in> set (sp_sends s)" and "j \<noteq> i"
  shows "\<not> sp_sending (send_answer i r s) \<and> sp_sends (send_answer i r s) \<noteq> []"
proof -
  have "(j, m') \<in> set (filter (\<lambda>q. fst q \<noteq> i) (sp_sends s))" using assms(2,3) by simp
  then have "filter (\<lambda>q. fst q \<noteq> i) (sp_sends s) \<noteq> []" by (metis list.set(1) emptyE)
  with assms(1) show ?thesis
    by (auto simp: send_answer_def sp_say_def Let_def split: service_result.split)
qed

text \<open>The answer to a reply clears the box whatever was typed since, in whichever conversation.\<close>

lemma composer_cleared:
  "map_of (sp_sends s) i = Some False \<Longrightarrow> sp_composer (send_answer i (Success parts) (s\<lparr>sp_composer := text\<rparr>)) = []"
  by (simp add: send_answer_def Let_def)

text \<open>Deleting the last message of a conversation closes the conversation that is open by then.\<close>

lemma emptied_clears_selection:
  assumes "map_of (sp_refreshing s) i = Some (MessageTarget m, d)" and "\<not> nullish d"
    and "truthy (jfield d ''thread_empty'')"
  shows "sv_selectedKey (sp_view (refresh_ended i thrown s)) = [] \<and> sv_messages (sp_view (refresh_ended i thrown s)) = []"
  using assms by (simp add: refresh_ended_def Let_def mark_deleting_def on_view_def clearSelectedThread_def replace_route_def)

text \<open>A refused deletion, and a refused message, leave the conversation as it was.\<close>

lemma refused_changes_nothing:
  "sp_view (delete_answer i (Failure e) s) = sp_view s" "sp_view (send_answer i (Failure e) s) = sp_view s"
  "sp_composer (send_answer i (Failure e) s) = sp_composer s"
  by (auto simp: delete_answer_def send_answer_def sp_say_def mark_deleting_def Let_def
      split: option.split sheet_target.split)

text \<open>What is sent goes to the contact on screen, with the text trimmed and not empty.\<close>

lemma reply_payload:
  assumes "sp_sent (send_reply s) \<noteq> sp_sent s"
  shows "\<exists>t payload. selectedThread (sp_view s) = Some t \<and> trim (sp_composer s) \<noteq> [] \<and>
    sp_sent (send_reply s) = sp_sent s @ [payload] \<and> jfield payload ''phone'' = JStr (th_peer t) \<and>
    jfield payload ''message'' = JStr (trim (sp_composer s))"
  using assms
  by (auto simp: send_reply_def sp_say_def send_starts_def sendToCurrentThread_def Let_def obj_def js_def split: option.splits if_splits)

text \<open>An example: a long press, the sheet, the question and its answer.\<close>

lemma long_press_deletes:
  "sp_deleted (sms_page_run (\<lambda>_. None) fresh_sms
     [WidthIs 400, Pressed (MessageTarget (message_numbered 9 [97])) (False, 5, 5), Moved 9 5, HeldLong 0,
      SheetDeletes, QuestionAnswered 1 True]) = [DeleteMessage 9]"
  by code_simp

lemma moved_finger_deletes_nothing:
  "sp_deleted (sms_page_run (\<lambda>_. None) fresh_sms
     [WidthIs 400, Pressed (MessageTarget (message_numbered 9 [97])) (False, 5, 5), Moved 16 5, HeldLong 0,
      SheetDeletes, QuestionAnswered 1 True]) = []"
  by code_simp

end
