(* ===== verification/PolicyPanels.thy ===== *)
theory PolicyPanels
  imports Policy Texts
begin

text \<open>
  The two components around the card policy switches: \<open>web/src/components/CardPolicyPanel.vue\<close>,
  which acts on the device at once and keeps IP version and APN, and
  \<open>EsimCardPolicyInline.vue\<close>, which loads the policy of its card itself and stores it as a whole
  unless the card is active in a device that is online. The calls they make are values here, with the
  executors of \<open>Policy\<close> as what running them answers.
\<close>

section \<open>Calls\<close>

datatype policy_call =
    StartNetwork jstr jsval jsval
  | StopNetwork jstr
  | EnableVoWiFi jstr
  | DisableVoWiFi jstr
  | SetFlight jstr bool
  | PutTriple jstr policy_mirror

fun run_call :: "http \<Rightarrow> policy_call \<Rightarrow> bool" where
  "run_call http (StartNetwork dev ip apn) = result_ok (startNetwork http dev (obj [(''ip_version'', ip), (''apn'', apn)]))"
| "run_call http (StopNetwork dev) = result_ok (stopNetwork http dev)"
| "run_call http (EnableVoWiFi dev) = result_ok (enableVoWiFi http dev)"
| "run_call http (DisableVoWiFi dev) = result_ok (disableVoWiFi http dev)"
| "run_call http (SetFlight dev on) = result_ok (setFlightMode http dev on)"
| "run_call http (PutTriple iccid m) = putTriple http iccid m"

definition live_call :: "jstr \<Rightarrow> jsval \<Rightarrow> jsval \<Rightarrow> policy_field \<Rightarrow> bool \<Rightarrow> policy_call" where
  "live_call dev ip apn f enabled =
     (case f of
        NetworkField \<Rightarrow> if enabled then StartNetwork dev ip apn else StopNetwork dev
      | VoWiFiField \<Rightarrow> if enabled then EnableVoWiFi dev else DisableVoWiFi dev
      | AirplaneField \<Rightarrow> SetFlight dev enabled)"

text \<open>\<open>policy ? {\<dots>} : null\<close>.\<close>

definition mirror :: "jsval \<Rightarrow> policy_mirror option" where
  "mirror policy =
     (if truthy policy
      then Some \<lparr>network_enabled = truthy (jfield policy ''network_enabled''),
             vowifi_enabled = truthy (jfield policy ''vowifi_enabled''),
             airplane_enabled = truthy (jfield policy ''airplane_enabled'')\<rparr>
      else None)"

section \<open>\<open>CardPolicyPanel.vue\<close>\<close>

record policy_panel =
  pa_deviceId :: jstr
  pa_iccid :: jstr
  pa_online :: bool
  pa_policy :: jsval
  pa_ipVersion :: jstr
  pa_apn :: jstr
  pa_toggles :: toggles
  pa_calls :: "(policy_field \<times> policy_call) list"

definition canToggle :: "policy_panel \<Rightarrow> bool" where
  "canToggle s \<longleftrightarrow> pa_online s \<and> pa_iccid s \<noteq> []"

definition sourceLabel :: "policy_panel \<Rightarrow> jstr" where
  "sourceLabel s =
     (if \<not> truthy (pa_policy s) then []
      else if jfield (pa_policy s) ''source'' = jlit ''user'' then tx_set_by_hand else tx_set_by_default)"

text \<open>The two watchers of a policy that arrives: the panel's own and that of the composable.\<close>

definition panel_policy :: "jsval \<Rightarrow> policy_panel \<Rightarrow> policy_panel" where
  "panel_policy p s =
     (let s1 = s\<lparr>pa_policy := p, pa_toggles := on_source (mirror p) (pa_toggles s)\<rparr> in
      if \<not> truthy p then s1
      else s1\<lparr>pa_ipVersion := to_string (or_else (jfield p ''ip_version'') (jlit ''v4'')),
              pa_apn := text_or_empty (jfield p ''apn'')\<rparr>)"

definition open_panel :: "jstr \<Rightarrow> jstr \<Rightarrow> bool \<Rightarrow> jsval \<Rightarrow> policy_panel" where
  "open_panel dev iccid online p =
     panel_policy p \<lparr>pa_deviceId = dev, pa_iccid = iccid, pa_online = online, pa_policy = JNull,
       pa_ipVersion = js ''v4'', pa_apn = [], pa_toggles = useCardPolicyToggles None, pa_calls = []\<rparr>"

definition panel_disabled :: "policy_field \<Rightarrow> policy_panel \<Rightarrow> bool" where
  "panel_disabled f s \<longleftrightarrow> \<not> canToggle s \<or> switch_disabled f (pa_toggles s)"

text \<open>Without a device the executor answers at once that it failed.\<close>

definition panel_click :: "policy_field \<Rightarrow> policy_panel \<Rightarrow> policy_panel" where
  "panel_click f s =
     (if panel_disabled f s then s
      else let enabled = \<not> get_field f (pt_local (pa_toggles s)); t = click_switch f (pa_toggles s) in
           if pa_deviceId s = [] then s\<lparr>pa_toggles := toggle_end f False t\<rparr>
           else s\<lparr>pa_toggles := t, pa_calls := pa_calls s @
                    [(f, live_call (pa_deviceId s) (JStr (pa_ipVersion s)) (JStr (pa_apn s)) f enabled)]\<rparr>)"

definition panel_answer :: "policy_field \<Rightarrow> bool \<Rightarrow> policy_panel \<Rightarrow> policy_panel" where
  "panel_answer f success s = s\<lparr>pa_toggles := toggle_end f success (pa_toggles s)\<rparr>"

lemma panel_execute_call:
  "panel_execute http dev ip apn f enabled next' \<longleftrightarrow>
     dev \<noteq> [] \<and> run_call http (live_call dev (JStr ip) (JStr apn) f enabled)"
  by (cases f) (simp_all add: panel_execute_def live_call_def)

section \<open>\<open>EsimCardPolicyInline.vue\<close>\<close>

record inline_panel =
  il_deviceId :: jstr
  il_iccid :: jstr
  il_isActiveCard :: bool
  il_deviceOnline :: bool
  il_policy :: jsval
  il_loadFailed :: bool
  il_loading :: bool
  il_toggles :: toggles
  il_calls :: "(policy_field \<times> policy_call) list"

definition open_inline :: "jstr \<Rightarrow> jstr \<Rightarrow> bool \<Rightarrow> bool \<Rightarrow> inline_panel" where
  "open_inline dev iccid active online = \<lparr>il_deviceId = dev, il_iccid = iccid, il_isActiveCard = active,
     il_deviceOnline = online, il_policy = JNull, il_loadFailed = False, il_loading = False,
     il_toggles = useCardPolicyToggles None, il_calls = []\<rparr>"

definition inline_stored :: "inline_panel \<Rightarrow> bool" where
  "inline_stored s = stored_mode (il_isActiveCard s) (il_deviceOnline s)"

definition inline_hint :: "inline_panel \<Rightarrow> jstr" where
  "inline_hint s =
     (if \<not> inline_stored s then []
      else if \<not> il_deviceOnline s then tx_offline_saved else tx_takes_effect_active)"

definition loadPolicy :: "inline_panel \<Rightarrow> inline_panel" where
  "loadPolicy s = s\<lparr>il_loading := True, il_loadFailed := False\<rparr>"

definition loadPolicy_answer :: "jsval service_result \<Rightarrow> inline_panel \<Rightarrow> inline_panel" where
  "loadPolicy_answer r s =
     (let s1 = s\<lparr>il_loading := False\<rparr> in
      case r of
        Success p \<Rightarrow> s1\<lparr>il_policy := p, il_toggles := on_source (mirror p) (il_toggles s1)\<rparr>
      | Failure e \<Rightarrow> s1\<lparr>il_loadFailed := True\<rparr>)"

definition inline_call :: "inline_panel \<Rightarrow> policy_field \<Rightarrow> bool \<Rightarrow> policy_mirror \<Rightarrow> policy_call" where
  "inline_call s f enabled next' =
     (if inline_stored s then PutTriple (il_iccid s) next'
      else live_call (il_deviceId s) (or_else (jfield (il_policy s) ''ip_version'') (jlit ''v4''))
             (or_else (jfield (il_policy s) ''apn'') (JStr [])) f enabled)"

text \<open>The switches are on screen once the policy is there.\<close>

definition inline_click :: "policy_field \<Rightarrow> inline_panel \<Rightarrow> inline_panel" where
  "inline_click f s =
     (if il_loading s \<or> il_loadFailed s \<or> switch_disabled f (il_toggles s) then s
      else let cur = pt_local (il_toggles s); enabled = \<not> get_field f cur in
           s\<lparr>il_toggles := click_switch f (il_toggles s),
             il_calls := il_calls s @ [(f, inline_call s f enabled (nextMirror cur f enabled))]\<rparr>)"

definition inline_answer :: "policy_field \<Rightarrow> bool \<Rightarrow> inline_panel \<Rightarrow> inline_panel" where
  "inline_answer f success s = s\<lparr>il_toggles := toggle_end f success (il_toggles s)\<rparr>"

lemma inline_execute_call:
  "inline_execute http (inline_stored s) (il_deviceId s) (il_iccid s) (il_policy s) f enabled next' =
     run_call http (inline_call s f enabled next')"
  by (cases f) (simp_all add: inline_execute_def inline_call_def live_call_def)

section \<open>A stored card and its server\<close>

text \<open>A card that is not live: calls may overlap and be answered in any order. The server takes the triple
  of the call it grants; a call it refuses is refused before anything else happens.\<close>

datatype stored_event = Clicked policy_field | Granted policy_field | Refused policy_field

definition sent_for :: "policy_field \<Rightarrow> inline_panel \<Rightarrow> policy_call option" where
  "sent_for f s = map_of (rev (il_calls s)) f"

definition server_takes :: "policy_call option \<Rightarrow> policy_mirror \<Rightarrow> policy_mirror" where
  "server_takes c srv = (case c of Some (PutTriple iccid m) \<Rightarrow> m | _ \<Rightarrow> srv)"

fun stored_step :: "stored_event \<Rightarrow> inline_panel \<times> policy_mirror \<Rightarrow> inline_panel \<times> policy_mirror" where
  "stored_step (Clicked f) (s, srv) = (inline_click f s, srv)"
| "stored_step (Granted f) (s, srv) =
     (if pt_flight (il_toggles s) f = None then (s, srv)
      else (inline_answer f True s, server_takes (sent_for f s) srv))"
| "stored_step (Refused f) (s, srv) =
     (if switch_disabled f (il_toggles s) then (s, srv) else (inline_answer f False (inline_click f s), srv))"

text \<open>What holds of the switches and the server's triple in between.\<close>

definition switches_ok :: "toggles \<Rightarrow> policy_mirror \<Rightarrow> bool" where
  "switches_ok t srv \<longleftrightarrow>
     exclusive srv \<and> (\<forall>f. pt_pending t f \<longleftrightarrow> pt_flight t f \<noteq> None) \<and>
     (\<forall>f v m. pt_flight t f = Some (v, m) \<longrightarrow> exclusive m) \<and>
     (network_enabled (pt_local t) \<longrightarrow> vowifi_enabled (pt_local t) \<longrightarrow> pt_pending t VoWiFiField) \<and>
     (network_enabled (pt_local t) \<longrightarrow> airplane_enabled (pt_local t) \<longrightarrow> pt_pending t AirplaneField) \<and>
     (pt_flight t = (\<lambda>_. None) \<longrightarrow> pt_local t = srv)"

lemma click_next_exclusive:
  assumes "switches_ok t srv" and "\<not> switch_disabled f t"
  shows "exclusive (nextMirror (pt_local t) f (\<not> get_field f (pt_local t)))"
  using assms by (cases f) (auto simp: switches_ok_def exclusive_def)

lemma click_switches_ok:
  assumes ok: "switches_ok t srv" and en: "\<not> switch_disabled f t"
  shows "switches_ok (click_switch f t) srv"
proof -
  have "pt_flight (click_switch f t) \<noteq> (\<lambda>_. None)"
    using en by (auto simp: click_switch_def toggle_begin_def Let_def fun_eq_iff)
  with ok en click_next_exclusive [OF ok en] show ?thesis
    by (cases f) (auto simp: switches_ok_def click_switch_def toggle_begin_def Let_def split: if_splits)
qed

lemma grant_switches_ok:
  assumes "switches_ok t srv" and "pt_flight t f = Some (v, m)"
  shows "switches_ok (toggle_end f True t) m \<and> pt_local (toggle_end f True t) = m"
  using assms by (auto simp: switches_ok_def toggle_end_def Let_def exclusive_def)

lemma refuse_switches:
  assumes "\<not> switch_disabled f t" and "\<not> pt_pending t f" and "pt_flight t f = None"
  shows "toggle_end f False (click_switch f t) = t\<lparr>pt_failed := (pt_failed t)(f := True)\<rparr>"
  using assms by (simp add: toggle_end_def click_switch_def toggle_begin_def Let_def fun_upd_idem)

lemma disabled_pending: "\<not> switch_disabled f t \<Longrightarrow> \<not> pt_pending t f"
  by (cases f) simp_all

text \<open>And of the panel: it is stored, and what is in flight is what was sent last for the switch.\<close>

definition stored_ok :: "jstr \<Rightarrow> inline_panel \<times> policy_mirror \<Rightarrow> bool" where
  "stored_ok iccid p \<longleftrightarrow>
     (case p of (s, srv) \<Rightarrow>
        switches_ok (il_toggles s) srv \<and> inline_stored s \<and> il_iccid s = iccid \<and>
        (\<forall>f v m. pt_flight (il_toggles s) f = Some (v, m) \<longrightarrow> sent_for f s = Some (PutTriple iccid m)) \<and>
        (\<forall>c\<in>set (il_calls s). \<exists>m. snd c = PutTriple iccid m \<and> exclusive m))"

lemma click_stored_ok:
  assumes ok: "stored_ok iccid (s, srv)"
  shows "stored_ok iccid (inline_click f s, srv)"
proof (cases "il_loading s \<or> il_loadFailed s \<or> switch_disabled f (il_toggles s)")
  case True
  then show ?thesis using ok by (auto simp: inline_click_def)
next
  case False
  have t: "switches_ok (il_toggles s) srv" using ok by (simp add: stored_ok_def)
  have "switches_ok (click_switch f (il_toggles s)) srv" by (rule click_switches_ok) (use t False in simp_all)
  moreover have "exclusive (nextMirror (pt_local (il_toggles s)) f (\<not> get_field f (pt_local (il_toggles s))))"
    by (rule click_next_exclusive) (use t False in simp_all)
  ultimately show ?thesis
    using ok False
    by (auto simp: stored_ok_def inline_click_def Let_def inline_stored_def inline_call_def sent_for_def
        click_switch_def toggle_begin_def map_add_def split: if_splits option.splits)
qed

lemma stored_step_ok: "stored_ok iccid p \<Longrightarrow> stored_ok iccid (stored_step e p)"
proof (cases p)
  fix s srv assume ok: "stored_ok iccid p" and p: "p = (s, srv)"
  have t: "switches_ok (il_toggles s) srv" using ok by (simp add: stored_ok_def p)
  show ?thesis
  proof (cases e)
    case (Clicked f)
    then show ?thesis using ok click_stored_ok by (simp add: p)
  next
    case (Granted f)
    show ?thesis
    proof (cases "pt_flight (il_toggles s) f")
      case (Some vm)
      then obtain v m where vm: "pt_flight (il_toggles s) f = Some (v, m)" by (cases vm) auto
      then have "server_takes (sent_for f s) srv = m" using ok by (simp add: stored_ok_def p server_takes_def)
      moreover have "g \<noteq> f" if "pt_flight (toggle_end f True (il_toggles s)) g = Some x" for g x
        using that vm by (auto simp: toggle_end_def Let_def split: if_splits)
      ultimately show ?thesis
        using Granted vm ok grant_switches_ok [OF t vm]
        by (auto simp: stored_ok_def p inline_answer_def inline_stored_def sent_for_def toggle_end_def Let_def split: if_splits)
    qed (use ok Granted in \<open>simp add: p\<close>)
  next
    case (Refused f)
    show ?thesis
    proof (cases "switch_disabled f (il_toggles s)")
      case False
      have none: "\<not> pt_pending (il_toggles s) f" "pt_flight (il_toggles s) f = None"
        using disabled_pending [OF False] t unfolding switches_ok_def by blast+
      have toggles: "il_toggles (inline_answer f False (inline_click f s)) =
          (if il_loading s \<or> il_loadFailed s then il_toggles s
           else (il_toggles s)\<lparr>pt_failed := (pt_failed (il_toggles s))(f := True)\<rparr>)"
        using refuse_switches [OF False none] False none toggle_end_def [of f False "il_toggles s"]
        by (simp add: inline_answer_def inline_click_def Let_def)
      have "stored_ok iccid (inline_click f s, srv)" using ok click_stored_ok by (simp add: p)
      then show ?thesis
        using Refused False ok none toggles
        by (auto simp: stored_ok_def p switches_ok_def inline_answer_def inline_stored_def sent_for_def
            inline_click_def Let_def map_add_def split: option.splits)
    qed (use ok Refused in \<open>simp add: p\<close>)
  qed
qed

interpretation stored: free_system "\<lambda>p e. stored_step e p" "stored_ok iccid" for iccid
  by unfold_locales (rule stored_step_ok)

lemma stored_run_ok: "stored_ok iccid p \<Longrightarrow> stored_ok iccid (fold stored_step es p)"
  by (rule stored.fold_always)

definition loaded_inline :: "jstr \<Rightarrow> jstr \<Rightarrow> bool \<Rightarrow> bool \<Rightarrow> jsval \<Rightarrow> inline_panel" where
  "loaded_inline dev iccid active online p =
     loadPolicy_answer (Success p) (loadPolicy (open_inline dev iccid active online))"

lemma loaded_stored_ok:
  assumes "mirror p = Some m" and "exclusive m" and "stored_mode active online"
  shows "stored_ok iccid (loaded_inline dev iccid active online p, m)"
  using assms
  by (auto simp: loaded_inline_def stored_ok_def switches_ok_def loadPolicy_answer_def loadPolicy_def open_inline_def
      on_source_def useCardPolicyToggles_def inline_stored_def exclusive_def)

section \<open>Properties\<close>



text \<open>The panel keeps the switches of the previous card while the policy of a new one is awaited, and they
  can be used.\<close>

lemma previous_card_shown:
  "pt_local (pa_toggles (panel_policy JNull s)) = pt_local (pa_toggles s) \<and>
   pa_apn (panel_policy JNull s) = pa_apn s"
  by (simp add: panel_policy_def mirror_def on_source_def Let_def)

text \<open>An answer for the previous card that comes after the policy of the new one overwrites its switches.\<close>

lemma answer_of_previous_card:
  assumes "pt_flight (pa_toggles s) f = Some (v, next')"
  shows "pt_local (pa_toggles (panel_answer f True (panel_policy p s))) = next'"
  using assms by (simp add: panel_answer_def panel_policy_def toggle_end_def on_source_def Let_def split: option.split)

text \<open>A switch that cannot be used, or a card that is not there, makes no call.\<close>

lemma no_card_no_call: "pa_iccid s = [] \<or> \<not> pa_online s \<Longrightarrow> panel_click f s = s"
  by (auto simp: panel_click_def panel_disabled_def canToggle_def)

end
