(* ===== verification/OverviewStream.thy ===== *)
theory OverviewStream
  imports DevicesPage Stores
begin

text \<open>
  The live stream of the device page (\<open>setupSSE\<close> of \<open>web/src/views/Devices.vue\<close> with its two
  watchers): the page of \<open>DevicesPage\<close> and the event streams of \<open>Connection\<close> run together. Every
  stream the page ever made stays in the state, since the platform may still have something for it;
  what a stream hands over goes into the page.
\<close>

section \<open>State\<close>

text \<open>\<open>lp_streams\<close>: the streams made so far with the device each was made for; \<open>lp_current\<close> is
  \<open>overviewStream\<close>.\<close>

record live_page =
  lp_page :: device_page
  lp_streams :: "(jstr \<times> jsval stream) list"
  lp_current :: "nat option"
  lp_left :: bool

definition overview_options :: "(jstr \<Rightarrow> jsval outcome) \<Rightarrow> jstr \<Rightarrow> jsval stream_options" where
  "overview_options parse dev =
     \<lparr>eo_path = js ''/devices/'' @ dev @ js ''/overview/stream'',
      eo_sse = \<lparr>so_event_name = js ''overview'', so_parse = parse\<rparr>, eo_delay = Some 3000, eo_pause_on = \<lambda>e. False\<rparr>"

definition open_live_page :: "device_page \<Rightarrow> live_page" where
  "open_live_page p = \<lparr>lp_page = p, lp_streams = [], lp_current = None, lp_left = False\<rparr>"

section \<open>Setting up\<close>

definition close_current :: "live_page \<Rightarrow> live_page" where
  "close_current s =
     (case lp_current s of
        None \<Rightarrow> s
      | Some k \<Rightarrow>
          (case lp_streams s ! k of (dev, st) \<Rightarrow> s\<lparr>lp_streams := (lp_streams s)[k := (dev, disconnect st)]\<rparr>))"

definition setup_stream :: "(jstr \<Rightarrow> jsval outcome) \<Rightarrow> jstr \<Rightarrow> live_page \<Rightarrow> live_page" where
  "setup_stream parse token s =
     (let s1 = (close_current s)\<lparr>lp_current := None\<rparr>; dev = dg_selectedId (lp_page s1) in
      if dev = [] then s1
      else s1\<lparr>lp_current := Some (length (lp_streams s1)),
              lp_streams := lp_streams s1 @ [(dev, connect (overview_options parse dev) (initial_stream [] token))]\<rparr>)"

text \<open>An event of the page; mounting and a new selection set the stream up.\<close>

definition live_page_event :: "(jstr \<Rightarrow> jsval outcome) \<Rightarrow> jstr \<Rightarrow> page_event \<Rightarrow> live_page \<Rightarrow> live_page" where
  "live_page_event parse token e s =
     (let s1 = s\<lparr>lp_page := page_step e (lp_page s)\<rparr> in
      if e = Mount \<or> dg_selectedId (lp_page s1) \<noteq> dg_selectedId (lp_page s) then setup_stream parse token s1 else s1)"

section \<open>What a stream hands over\<close>

text \<open>An overview goes to \<open>handleOverviewEvent\<close>; of the raw events only the frames of the traffic are
  looked at, and a malformed one is dropped.\<close>

definition take_emission :: "(jstr \<Rightarrow> jsval outcome) \<Rightarrow> int \<Rightarrow> jsval emission \<Rightarrow> device_page \<Rightarrow> device_page" where
  "take_emission parse now x p =
     (case x of
        OnEvent d \<Rightarrow> handleOverviewEvent now d p
      | OnRaw name payload \<Rightarrow>
          if name \<noteq> js ''traffic'' then p
          else (case parse payload of Inl err \<Rightarrow> p | Inr d \<Rightarrow> on_traffic_frame now d p))"

definition take_emissions :: "(jstr \<Rightarrow> jsval outcome) \<Rightarrow> int \<Rightarrow> jsval emission list \<Rightarrow> device_page \<Rightarrow> device_page" where
  "take_emissions parse now xs p =
     (if xs = [] then p else watchers p (fold (take_emission parse now) xs p))"

text \<open>An event of the platform for stream \<open>k\<close>.\<close>

definition live_stream_event ::
    "(jstr \<Rightarrow> jsval outcome) \<Rightarrow> int \<Rightarrow> nat \<Rightarrow> stream_event \<Rightarrow> live_page \<Rightarrow> live_page" where
  "live_stream_event parse now k e s =
     (if length (lp_streams s) \<le> k then s
      else case lp_streams s ! k of
        (dev, st) \<Rightarrow>
          (let st' = stream_step (overview_options parse dev) e st in
           s\<lparr>lp_streams := (lp_streams s)[k := (dev, st')],
             lp_page := take_emissions parse now (drop (length (es_out st)) (es_out st')) (lp_page s)\<rparr>))"

definition leave_page :: "live_page \<Rightarrow> live_page" where
  "leave_page s = (close_current s)\<lparr>lp_left := True\<rparr>"

datatype live_event = OnPage page_event | OnStream int nat stream_event | LeavesPage

text \<open>A page that was left handles nothing more; its streams may still be served by the platform.\<close>

fun live_step :: "(jstr \<Rightarrow> jsval outcome) \<Rightarrow> jstr \<Rightarrow> live_event \<Rightarrow> live_page \<Rightarrow> live_page" where
  "live_step parse token (OnPage e) s = (if lp_left s then s else live_page_event parse token e s)"
| "live_step parse token (OnStream now k e) s = (if platform_event e then live_stream_event parse now k e s else s)"
| "live_step parse token LeavesPage s = leave_page s"

inductive live_reach :: "(jstr \<Rightarrow> jsval outcome) \<Rightarrow> jstr \<Rightarrow> live_page \<Rightarrow> bool" for parse and token where
  live_start: "live_reach parse token (open_live_page (initial_page query))"
| live_next: "live_reach parse token s \<Longrightarrow> live_reach parse token (live_step parse token e s)"

section \<open>Invariant\<close>

definition idle_stream :: "'t stream \<Rightarrow> bool" where
  "idle_stream st \<longleftrightarrow> es_live st = Map.empty \<and> es_armed st = []"

lemma idle_step: "idle_stream st \<Longrightarrow> platform_event e \<Longrightarrow> stream_step opt e st = st"
  by (cases e) (simp_all add: idle_stream_def on_response_def stream_failed_def on_chunk_def on_end_def on_timer_def)

lemma disconnect_idle: "stream_wf st \<Longrightarrow> idle_stream (disconnect st)"
  using disconnect_effect wf_parts by (metis idle_stream_def)

definition live_ok :: "live_page \<Rightarrow> bool" where
  "live_ok s \<longleftrightarrow>
     list_all (\<lambda>x. stream_wf (snd x)) (lp_streams s) \<and>
     (\<forall>k<length (lp_streams s). lp_current s \<noteq> Some k \<or> lp_left s \<longrightarrow> idle_stream (snd (lp_streams s ! k))) \<and>
     (\<forall>k. lp_current s = Some k \<longrightarrow>
        k < length (lp_streams s) \<and> fst (lp_streams s ! k) = dg_selectedId (lp_page s))"

lemma close_current_fields [simp]:
  "lp_page (close_current s) = lp_page s" "lp_current (close_current s) = lp_current s" "lp_left (close_current s) = lp_left s"
  "length (lp_streams (close_current s)) = length (lp_streams s)"
  by (auto simp: close_current_def split: option.split prod.split)

text \<open>Closing leaves every stream idle.\<close>

lemma close_current_nth:
  "k < length (lp_streams s) \<Longrightarrow> lp_streams (close_current s) ! k =
     (if lp_current s = Some k then (fst (lp_streams s ! k), disconnect (snd (lp_streams s ! k))) else lp_streams s ! k)"
  by (auto simp: close_current_def nth_list_update split: option.split prod.split)

lemma close_all_idle:
  assumes "live_ok s"
  shows "list_all (\<lambda>x. stream_wf (snd x) \<and> idle_stream (snd x)) (lp_streams (close_current s))"
    and "\<And>k. k < length (lp_streams s) \<Longrightarrow> fst (lp_streams (close_current s) ! k) = fst (lp_streams s ! k)"
proof -
  have wf: "\<And>k. k < length (lp_streams s) \<Longrightarrow> stream_wf (snd (lp_streams s ! k))"
    using assms by (simp add: live_ok_def list_all_length)
  have idle: "\<And>k. k < length (lp_streams s) \<Longrightarrow> lp_current s \<noteq> Some k \<Longrightarrow> idle_stream (snd (lp_streams s ! k))"
    using assms by (simp add: live_ok_def)
  have closed: "stream_wf (disconnect st) \<and> idle_stream (disconnect st)" if "stream_wf st" for st :: "jsval stream"
    using that disconnect_wf wf_parts disconnect_idle by blast
  show "list_all (\<lambda>x. stream_wf (snd x) \<and> idle_stream (snd x)) (lp_streams (close_current s))"
    unfolding list_all_length using wf idle closed by (auto simp: close_current_nth)
  show "fst (lp_streams (close_current s) ! k) = fst (lp_streams s ! k)" if "k < length (lp_streams s)" for k
    using that by (simp add: close_current_nth)
qed

lemma idle_live_ok:
  assumes "list_all (\<lambda>x. stream_wf (snd x) \<and> idle_stream (snd x)) (lp_streams s)"
    and "\<And>k. lp_current s = Some k \<Longrightarrow> k < length (lp_streams s) \<and> fst (lp_streams s ! k) = dg_selectedId (lp_page s)"
  shows "live_ok s"
  using assms by (auto simp: live_ok_def list_all_length)

lemma leave_ok: "live_ok s \<Longrightarrow> live_ok (leave_page s)"
  unfolding leave_page_def
  by (rule idle_live_ok) (use close_all_idle [of s] in \<open>auto simp: live_ok_def\<close>)

lemma setup_stream_ok:
  assumes "list_all (\<lambda>x. stream_wf (snd x) \<and> idle_stream (snd x)) (lp_streams (close_current s))" and "\<not> lp_left s"
  shows "live_ok (setup_stream parse token s)"
  using assms connect_wf [OF wf_parts [OF initial_stream_wf]]
  by (auto simp: setup_stream_def live_ok_def list_all_length nth_append Let_def less_Suc_eq)

lemma close_current_page: "lp_streams (close_current (s\<lparr>lp_page := p\<rparr>)) = lp_streams (close_current s)"
  by (simp add: close_current_def split: option.split prod.split)

lemma page_event_ok:
  assumes "live_ok s" and "\<not> lp_left s"
  shows "live_ok (live_page_event parse token e s)"
proof -
  let ?s1 = "s\<lparr>lp_page := page_step e (lp_page s)\<rparr>"
  have "live_ok (setup_stream parse token ?s1)"
    by (rule setup_stream_ok) (use assms close_all_idle(1) in \<open>simp_all add: close_current_page\<close>)
  moreover have "live_ok ?s1" if "dg_selectedId (page_step e (lp_page s)) = dg_selectedId (lp_page s)"
    using assms that by (simp add: live_ok_def)
  ultimately show ?thesis by (simp add: live_page_event_def Let_def)
qed

text \<open>What a stream hands over never changes the selection.\<close>

lemma core_taken: "core (take_emission parse now x p) = core p"
proof -
  have "core (handleOverviewEvent now d p) = core p" for d
    by (simp add: handleOverviewEvent_def Let_def core_simps update_speed_def split: list.split)
  then show ?thesis
    by (cases x) (simp_all add: take_emission_def core_simps split: sum.split)
qed

lemma taken_selection: "dg_selectedId (take_emissions parse now xs p) = dg_selectedId p"
proof -
  have "core (fold (take_emission parse now) xs p) = core p" for xs p
    by (induction xs arbitrary: p) (simp_all add: core_taken)
  then have "core (take_emissions parse now xs p) = core p" by (simp add: take_emissions_def core_watchers)
  then show ?thesis by (rule core_fields)
qed

lemma stream_event_ok:
  assumes ok: "live_ok s" and e: "platform_event e"
  shows "live_ok (live_stream_event parse now k e s)"
proof (cases "k < length (lp_streams s)")
  case True
  obtain dev st where k: "lp_streams s ! k = (dev, st)" by fastforce
  have "stream_wf (snd (lp_streams s ! k))" using ok True by (simp add: live_ok_def list_all_length)
  then have "stream_wf (stream_step (overview_options parse dev) e st)" by (intro stream_step_wf) (simp add: k)
  moreover have "idle_stream st \<Longrightarrow> idle_stream (stream_step (overview_options parse dev) e st)"
    using idle_step [OF _ e] by metis
  ultimately show ?thesis
    using ok True k taken_selection
    by (auto simp: live_ok_def live_stream_event_def Let_def list_all_length nth_list_update simp del: stream_step.simps)
qed (use ok in \<open>simp add: live_stream_event_def\<close>)

lemma live_reach_ok: "live_reach parse token s \<Longrightarrow> live_ok s"
proof (induction rule: live_reach.induct)
  case (live_start query)
  then show ?case by (simp add: live_ok_def open_live_page_def)
next
  case (live_next s e)
  then show ?case by (cases e) (simp_all add: page_event_ok stream_event_ok leave_ok)
qed

section \<open>Properties\<close>

definition busy_stream :: "live_page \<Rightarrow> nat \<Rightarrow> bool" where
  "busy_stream s k \<longleftrightarrow> k < length (lp_streams s) \<and> \<not> idle_stream (snd (lp_streams s ! k))"

lemma idle_event_same:
  assumes "k < length (lp_streams s) \<Longrightarrow> idle_stream (snd (lp_streams s ! k))" and "platform_event e"
  shows "lp_page (live_stream_event parse now k e s) = lp_page s"
proof (cases "k < length (lp_streams s)")
  case True
  obtain dev st where k: "lp_streams s ! k = (dev, st)" by fastforce
  have "idle_stream st" using assms(1) [OF True] by (simp add: k)
  from idle_step [OF this assms(2)] show ?thesis
    by (simp add: live_stream_event_def k take_emissions_def Let_def)
qed (simp add: live_stream_event_def)

text \<open>C32. The live stream follows the selection: in every state the device page and its streams can reach, a
  stream that has a request open or a reconnect pending is the current one and was made for the device
  selected now, so there is at most one; and only what such a stream hands over changes the page. After
  the page was left, none is open.\<close>

theorem live_stream_follows:
  assumes "live_reach parse token s"
  shows "(busy_stream s k \<longrightarrow>
       lp_current s = Some k \<and> fst (lp_streams s ! k) = dg_selectedId (lp_page s) \<and> \<not> lp_left s) \<and>
     (lp_page (live_step parse token (OnStream now k e) s) \<noteq> lp_page s \<longrightarrow> busy_stream s k)"
proof -
  have ok: "live_ok s" using assms by (rule live_reach_ok)
  have same: "lp_page (live_step parse token (OnStream now k e) s) = lp_page s" if "\<not> busy_stream s k"
  proof (cases "platform_event e")
    case True
    have "idle_stream (snd (lp_streams s ! k))" if "k < length (lp_streams s)"
      using that \<open>\<not> busy_stream s k\<close> by (simp add: busy_stream_def)
    from idle_event_same [OF this True] True show ?thesis by simp
  qed simp
  have "busy_stream s k \<longrightarrow> lp_current s = Some k \<and> fst (lp_streams s ! k) = dg_selectedId (lp_page s) \<and> \<not> lp_left s"
    using ok by (auto simp: live_ok_def busy_stream_def)
  with same show ?thesis by blast
qed

definition one_selected :: live_page where
  "one_selected = live_step (\<lambda>t. Inr JNull) [] (OnPage (SelectDevice 1 [100])) (open_live_page (initial_page (JUndef, JUndef)))"

lemma one_selected_reach: "live_reach (\<lambda>t. Inr JNull) [] one_selected"
  unfolding one_selected_def by (rule live_reach.intros(2), rule live_reach.intros(1))

theorem live_stream_follows_witness:
  "lp_current one_selected = Some 0 \<and> fst (lp_streams one_selected ! 0) = [100] \<and> dg_selectedId (lp_page one_selected) = [100]"
proof -
  have "map_option (\<lambda>p. True) (es_live (snd (lp_streams one_selected ! 0)) 0) = Some True"
    "length (lp_streams one_selected) = 1" "dg_selectedId (lp_page one_selected) = [100]" by code_simp+
  moreover from this have "busy_stream one_selected 0" by (auto simp: busy_stream_def idle_stream_def)
  ultimately show ?thesis using live_stream_follows [OF one_selected_reach, of 0 0 "Ends 0"] by simp
qed

text \<open>The address of the stream holds the identifier as it is, without the encoding of a path segment: an
  identifier with a question mark asks for another resource.\<close>

lemma stream_address_unencoded: "eo_path (overview_options parse (js ''a?b'')) = js ''/devices/a?b/overview/stream''"
  by code_simp

text \<open>A malformed frame of the traffic is dropped and leaves the page as it was.\<close>

lemma malformed_traffic_dropped:
  "parse payload = Inl err \<Longrightarrow> take_emissions parse now [OnRaw (js ''traffic'') payload] p = p"
  by (simp add: take_emissions_def take_emission_def)

end
