(* ===== verification/AtTemplates.thy ===== *)
theory AtTemplates
  imports JsBase
begin

text \<open>
  \<open>web/src/constants/atTemplates.ts\<close>: the commands the AT terminal offers, in groups. A label is
  written as the source has it, with its Chinese words as UTF-16 units.
\<close>

type_synonym at_template = "jstr \<times> jstr"

definition AT_TEMPLATES :: "(jstr \<times> at_template list) list" where
  "AT_TEMPLATES =
  [
   ([0x57FA, 0x7840],
    [([0x8FDE, 0x901A, 0x6027] @ js '' (AT)'', js ''AT''),
     ([0x6A21, 0x5757, 0x4FE1, 0x606F] @ js '' (ATI)'', js ''ATI''),
     (js ''IMEI (AT+CGSN)'', js ''AT+CGSN''),
     (js ''ICCID (AT+QCCID)'', js ''AT+QCCID''),
     (js ''IMSI (AT+CIMI)'', js ''AT+CIMI''),
     ([0x4FE1, 0x53F7] @ js '' (AT+CSQ)'', js ''AT+CSQ''),
     ([0x8FD0, 0x8425, 0x5546] @ js '' (AT+COPS?)'', js ''AT+COPS?''),
     ([0x7F51, 0x7EDC, 0x6A21, 0x5F0F] @ js '' (AT+QNWINFO)'', js ''AT+QNWINFO''),
     ([0x6CE8, 0x518C, 0x72B6, 0x6001] @ js '' (AT+CREG?)'', js ''AT+CREG?''),
     ([0x56FA, 0x4EF6, 0x7248, 0x672C] @ js '' (AT+CGMR)'', js ''AT+CGMR''),
     (js ''APN (AT+CGDCONT?)'', js ''AT+CGDCONT?''),
     ([0x6240, 0x6709, 0x4FE1, 0x53F7] @ js '' (AT+QENG=\"servingcell\")'', js ''AT+QENG=\"servingcell\"'')]),
   ([0x7F51, 0x7EDC, 0x63A7, 0x5236],
    [([0x98DE, 0x884C, 0x6A21, 0x5F0F] @ js '' ON (AT+CFUN=0)'', js ''AT+CFUN=0''),
     ([0x98DE, 0x884C, 0x6A21, 0x5F0F] @ js '' OFF (AT+CFUN=1)'', js ''AT+CFUN=1''),
     ([0x91CD, 0x542F, 0x6A21, 0x7EC4] @ js '' (AT+CFUN=1,1)'', js ''AT+CFUN=1,1''),
     ([0x9644, 0x7740, 0x72B6, 0x6001] @ js '' (AT+CGATT?)'', js ''AT+CGATT?''),
     ([0x8131, 0x9644] @ js '' (AT+CGATT=0)'', js ''AT+CGATT=0''),
     ([0x9644, 0x7740] @ js '' (AT+CGATT=1)'', js ''AT+CGATT=1'')]),
   ([0x6F2B, 0x6E38, 0x670D, 0x52A1],
    [([0x5173, 0x95ED, 0x6F2B, 0x6E38] @ js '' (AT+QCFG=\"roamservice\",1,1)'', js ''AT+QCFG=\"roamservice\",1,1''),
     ([0x6062, 0x590D, 0x81EA, 0x52A8] @ js '' (AT+QCFG=\"roamservice\",255,1)'', js ''AT+QCFG=\"roamservice\",255,1'')]),
   (js ''USBNET / '' @ [0x6A21, 0x5F0F],
    [([0x67E5, 0x8BE2, 0x6A21, 0x5F0F] @ js '' (AT+QCFG=\"usbnet\"?)'', js ''AT+QCFG=\"usbnet\"?''),
     ([0x8BBE, 0x4E3A] @ js '' QMI (AT+QCFG=\"usbnet\",0)'', js ''AT+QCFG=\"usbnet\",0''),
     ([0x8BBE, 0x4E3A] @ js '' ECM (AT+QCFG=\"usbnet\",1)'', js ''AT+QCFG=\"usbnet\",1'')]),
   ([0x77ED, 0x4FE1] @ js '' / USSD'',
    [([0x5217, 0x51FA, 0x77ED, 0x4FE1] @ js '' (AT+CMGL=4)'', js ''AT+CMGL=4''),
     ([0x8BFB, 0x53D6, 0x77ED, 0x4FE1, 0x793A, 0x4F8B] @ js '' (AT+CMGR=1)'', js ''AT+CMGR=1''),
     ([0x5220, 0x9664, 0x6240, 0x6709, 0x77ED, 0x4FE1] @ js '' (AT+CMGD=1,4)'', js ''AT+CMGD=1,4''),
     (js ''USSD '' @ [0x793A, 0x4F8B] @ js '' (AT+CUSD=1,\"*100#\",15)'', js ''AT+CUSD=1,\"*100#\",15'')])
  ]"

definition all_templates :: "at_template list" where
  "all_templates = concat (map snd AT_TEMPLATES)"

text \<open>What is shown is what is sent: every label ends with its command in parentheses, every command begins
  with AT, and no command is offered twice.\<close>

definition shows_command :: "at_template \<Rightarrow> bool" where
  "shows_command t \<longleftrightarrow>
     (let tail = js '' ('' @ snd t @ js '')'' in drop (length (fst t) - length tail) (fst t) = tail)"

lemma templates_begin: "list_all (\<lambda>t. starts_with (snd t) (js ''AT'')) all_templates"
  by (simp add: all_templates_def AT_TEMPLATES_def starts_with_def js_def)

lemma templates_shown: "list_all shows_command all_templates"
  by (simp add: all_templates_def AT_TEMPLATES_def shows_command_def js_def)

lemma templates_distinct: "distinct (map snd all_templates)"
  by (simp add: all_templates_def AT_TEMPLATES_def)

end
