(* ===== verification/View.thy ===== *)
theory View
  imports JsValue
begin

text \<open>
  What a template puts on screen: a tree of texts and elements, an element with the attributes that matter
  to its use and a handler for each of its events. A handler takes the value the event carries and gives the
  event of the component, or None when it only concerns what the model leaves out. Boxes that only lay
  out their content are not nodes: their content stands in their place. The element library (Element Plus)
  is a parameter: which elements do not react (\<open>inert\<close>) and which are not drawn (\<open>hides\<close>).
\<close>

section \<open>Nodes\<close>

datatype attr = Disabled bool | Loading bool | Open bool | Attr string jsval

datatype 'e node =
    Text jstr
  | Elem string "attr list" "(string \<times> (jsval \<Rightarrow> 'e option)) list" "'e node list"

text \<open>The content of a child component, its emitted events made events of the parent.\<close>

fun embed :: "('a \<Rightarrow> 'b option) \<Rightarrow> 'a node \<Rightarrow> 'b node" where
  "embed f (Text t) = Text t"
| "embed f (Elem tag ats on kids) =
     Elem tag ats (map (\<lambda>(n, h). (n, \<lambda>v. Option.bind (h v) f)) on) (map (embed f) kids)"

section \<open>The element library\<close>

record ui_library =
  inert :: "string \<Rightarrow> attr list \<Rightarrow> bool"
  hides :: "string \<Rightarrow> attr list \<Rightarrow> bool"

text \<open>What its documentation promises: a disabled or loading control emits nothing; a closed dialog or drawer,
  a tab pane that is not the active one and an element with a false \<open>v-show\<close> are not there to be used.\<close>

definition respects_marks :: "ui_library \<Rightarrow> bool" where
  "respects_marks lib \<longleftrightarrow>
     (\<forall>tag ats. Disabled True \<in> set ats \<or> Loading True \<in> set ats \<longrightarrow> inert lib tag ats) \<and>
     (\<forall>tag ats. Open False \<in> set ats \<longrightarrow> hides lib tag ats)"

text \<open>The library that does just that.\<close>

definition plain_library :: ui_library where
  "plain_library = \<lparr>inert = \<lambda>tag ats. Disabled True \<in> set ats \<or> Loading True \<in> set ats,
     hides = \<lambda>tag ats. Open False \<in> set ats\<rparr>"

lemma plain_respects [simp]: "respects_marks plain_library"
  by (simp add: respects_marks_def plain_library_def)

section \<open>What the user can do and see\<close>

fun live :: "ui_library \<Rightarrow> 'e node \<Rightarrow> (jsval \<Rightarrow> 'e option) list" where
  "live lib (Text t) = []"
| "live lib (Elem tag ats on kids) =
     (if hides lib tag ats then []
      else (if inert lib tag ats then [] else map snd on) @ concat (map (live lib) kids))"

definition live_all :: "ui_library \<Rightarrow> 'e node list \<Rightarrow> (jsval \<Rightarrow> 'e option) list" where
  "live_all lib ns = concat (map (live lib) ns)"

definition offers :: "ui_library \<Rightarrow> 'e node list \<Rightarrow> 'e \<Rightarrow> bool" where
  "offers lib ns e \<longleftrightarrow> (\<exists>h\<in>set (live_all lib ns). \<exists>v. h v = Some e)"

fun shown :: "ui_library \<Rightarrow> 'e node \<Rightarrow> jstr list" where
  "shown lib (Text t) = [t]"
| "shown lib (Elem tag ats on kids) = (if hides lib tag ats then [] else concat (map (shown lib) kids))"

lemma live_mono: "respects_marks lib \<Longrightarrow> h \<in> set (live lib n) \<Longrightarrow> h \<in> set (live plain_library n)"
proof (induction n)
  case (Elem tag ats on kids)
  have marks: "inert lib tag ats \<or> \<not> inert plain_library tag ats" "hides lib tag ats \<or> \<not> hides plain_library tag ats"
    using Elem.prems(1) by (auto simp: respects_marks_def plain_library_def)
  from Elem.prems(2) have "\<not> hides lib tag ats"
      "h \<in> set (if inert lib tag ats then [] else map snd on) \<or> (\<exists>k\<in>set kids. h \<in> set (live lib k))"
    by (auto split: if_splits)
  with marks Elem.IH Elem.prems(1) show ?case by (auto split: if_splits)
qed simp

lemma offers_plain: "respects_marks lib \<Longrightarrow> offers lib ns e \<Longrightarrow> offers plain_library ns e"
  using live_mono [of lib] by (auto simp: offers_def live_all_def)

text \<open>What all events the user can raise satisfy; the rules look at every handler that is live.\<close>

definition only :: "('e \<Rightarrow> bool) \<Rightarrow> 'e node list \<Rightarrow> bool" where
  "only P ns \<longleftrightarrow> (\<forall>h\<in>set (live_all plain_library ns). \<forall>v. pred_option P (h v))"

lemma only_offers: "respects_marks lib \<Longrightarrow> only P ns \<Longrightarrow> offers lib ns e \<Longrightarrow> P e"
proof -
  assume "respects_marks lib" and all: "only P ns" and "offers lib ns e"
  then obtain h v where "h \<in> set (live_all plain_library ns)" and e: "h v = Some e"
    using offers_plain [of lib ns e] unfolding offers_def by blast
  then have "pred_option P (h v)" using all unfolding only_def by blast
  then show "P e" by (simp add: e)
qed

lemma only_Nil [simp]: "only P []"
  by (simp add: only_def live_all_def)

lemma only_append [simp]: "only P (ns @ ms) \<longleftrightarrow> only P ns \<and> only P ms"
  by (simp add: only_def live_all_def ball_Un)

lemma only_concat [simp]: "only P (concat nss) \<longleftrightarrow> (\<forall>ns\<in>set nss. only P ns)"
  by (induction nss) simp_all

lemma only_map [simp]: "only P (map f xs) \<longleftrightarrow> (\<forall>x\<in>set xs. only P [f x])"
  by (auto simp: only_def live_all_def)

lemma only_Cons: "only P (n # ns) \<longleftrightarrow> (\<forall>h\<in>set (live plain_library n). \<forall>v. pred_option P (h v)) \<and> only P ns"
  by (simp add: only_def live_all_def ball_Un)

lemma only_Text [simp]: "only P (Text t # ns) \<longleftrightarrow> only P ns"
  by (simp add: only_Cons)

lemma only_Elem [simp]:
  "only P (Elem tag ats on kids # ns) \<longleftrightarrow>
     (Open False \<notin> set ats \<longrightarrow>
       (Disabled True \<notin> set ats \<and> Loading True \<notin> set ats \<longrightarrow> (\<forall>c\<in>set on. \<forall>v. pred_option P (snd c v))) \<and>
       only P kids) \<and> only P ns"
proof -
  have "only P kids = (\<forall>k\<in>set kids. \<forall>h\<in>set (live plain_library k). \<forall>v. pred_option P (h v))"
    by (simp add: only_def live_all_def)
  then show ?thesis by (simp add: only_Cons plain_library_def ball_Un)
qed

lemma only_True [simp]: "only (\<lambda>e. True) ns"
  by (simp add: only_def option.pred_True)

lemma only_if [simp]: "only P (if c then ns else ms) \<longleftrightarrow> (c \<longrightarrow> only P ns) \<and> (\<not> c \<longrightarrow> only P ms)"
  by simp

lemma live_embed: "live lib (embed f n) = map (\<lambda>h v. Option.bind (h v) f) (live lib n)"
proof (induction n)
  case (Elem tag ats on kids)
  then have "concat (map (live lib \<circ> embed f) kids) = map (\<lambda>h v. Option.bind (h v) f) (concat (map (live lib) kids))"
    by (simp add: map_concat comp_def cong: map_cong)
  then show ?case by (simp add: comp_def case_prod_unfold)
qed simp

lemma only_embed [simp]: "only P (map (embed f) ns) \<longleftrightarrow> only (\<lambda>d. pred_option P (f d)) ns"
proof -
  have "pred_option P (Option.bind x f) = pred_option (\<lambda>d. pred_option P (f d)) x" for x
    by (cases x) simp_all
  then show ?thesis by (simp add: only_def live_all_def live_embed)
qed

text \<open>What the user can raise, whichever library that keeps its promises draws the page.\<close>

definition user_can :: "'e node list \<Rightarrow> 'e \<Rightarrow> bool" where
  "user_can ns e \<longleftrightarrow> (\<exists>lib. respects_marks lib \<and> offers lib ns e)"

lemma user_can_plain: "user_can ns e \<longleftrightarrow> offers plain_library ns e"
proof
  assume "user_can ns e"
  then obtain lib where "respects_marks lib" "offers lib ns e" unfolding user_can_def by (elim exE conjE)
  then show "offers plain_library ns e" by (rule offers_plain)
next
  assume "offers plain_library ns e"
  then show "user_can ns e" unfolding user_can_def using plain_respects by (intro exI conjI)
qed

lemma only_user: "only P ns \<Longrightarrow> user_can ns e \<Longrightarrow> P e"
  unfolding user_can_plain by (rule only_offers [OF plain_respects])

lemma user_can_only: "user_can ns e \<longleftrightarrow> \<not> only (\<lambda>d. d \<noteq> e) ns"
proof -
  have "pred_option (\<lambda>d. d \<noteq> e) x \<longleftrightarrow> x \<noteq> Some e" for x by (cases x) auto
  then show ?thesis by (simp add: user_can_plain offers_def only_def)
qed

lemma user_can_concat: "user_can (concat nss) e \<longleftrightarrow> (\<exists>ns\<in>set nss. user_can ns e)"
  unfolding user_can_only by simp

section \<open>What can be read\<close>

text \<open>Texts, and the attributes with a text; the content of a password field is not shown.\<close>

definition is_password :: "attr list \<Rightarrow> bool" where
  "is_password ats \<longleftrightarrow> Attr ''type'' (jlit ''password'') \<in> set ats"

fun attr_text :: "bool \<Rightarrow> attr \<Rightarrow> jsval list" where
  "attr_text hidden (Attr name v) = (if hidden \<and> name = ''model'' then [] else [v])"
| "attr_text hidden _ = []"

fun readable :: "'e node \<Rightarrow> jsval list" where
  "readable (Text t) = [JStr t]"
| "readable (Elem tag ats on kids) =
     concat (map (attr_text (is_password ats)) ats) @ concat (map readable kids)"

definition readable_all :: "'e node list \<Rightarrow> jsval list" where
  "readable_all ns = concat (map readable ns)"

lemma readable_parts [simp]:
  "readable_all [] = []"
  "readable_all (Text t # ns) = JStr t # readable_all ns"
  "readable_all (Elem tag ats on kids # ns) =
     concat (map (attr_text (is_password ats)) ats) @ readable_all kids @ readable_all ns"
  "readable_all (ns @ ms) = readable_all ns @ readable_all ms"
  by (simp_all add: readable_all_def)

lemma readable_concat [simp]: "readable_all (concat nss) = concat (map readable_all nss)"
  by (induction nss) simp_all

section \<open>Requests behind busy marks\<close>

text \<open>
  The requests of a page as the user drives it through what is on screen: the user raises what the view
  offers, the network answers what is pending, and the environment does the rest. \<open>asks\<close> says which
  request an event makes the page send, \<open>answers\<close> which one an event is the answer to.
\<close>

inductive driven ::
    "('s \<Rightarrow> 'e \<Rightarrow> bool) \<Rightarrow> ('e \<Rightarrow> bool) \<Rightarrow> ('e \<Rightarrow> 's \<Rightarrow> 's) \<Rightarrow> ('e \<Rightarrow> 's \<Rightarrow> 'k option) \<Rightarrow> ('e \<Rightarrow> 'k option) \<Rightarrow>
     ('s \<Rightarrow> bool) \<Rightarrow> 's \<Rightarrow> ('k \<Rightarrow> nat) \<Rightarrow> bool"
  for offered environment step asks answers initially
where
  opened: "initially s \<Longrightarrow> driven offered environment step asks answers initially s (\<lambda>_. 0)"
| used: "\<lbrakk>driven offered environment step asks answers initially s pending; offered s e \<or> environment e; answers e = None\<rbrakk> \<Longrightarrow>
    driven offered environment step asks answers initially (step e s)
      (case asks e s of None \<Rightarrow> pending | Some k \<Rightarrow> pending(k := Suc (pending k)))"
| answered: "\<lbrakk>driven offered environment step asks answers initially s pending; answers e = Some k; 0 < pending k\<rbrakk> \<Longrightarrow>
    driven offered environment step asks answers initially (step e s) (pending(k := pending k - 1))"

locale guarded_page =
  fixes offered :: "'s \<Rightarrow> 'e \<Rightarrow> bool" and environment :: "'e \<Rightarrow> bool" and step :: "'e \<Rightarrow> 's \<Rightarrow> 's"
    and asks :: "'e \<Rightarrow> 's \<Rightarrow> 'k option" and answers :: "'e \<Rightarrow> 'k option" and mark :: "'k \<Rightarrow> 's \<Rightarrow> bool"
  assumes offered_free: "offered s e \<Longrightarrow> asks e s = Some k \<Longrightarrow> \<not> mark k s"
    and environment_quiet: "environment e \<Longrightarrow> asks e s = None"
    and asked_marks: "asks e s = Some k \<Longrightarrow> mark k (step e s)"
    and answer_clears: "answers e = Some k \<Longrightarrow> \<not> mark k (step e s)"
    and mark_kept: "offered s e \<or> environment e \<or> answers e \<noteq> None \<Longrightarrow> asks e s \<noteq> Some k \<Longrightarrow> answers e \<noteq> Some k \<Longrightarrow>
      mark k (step e s) = mark k s"
    and answer_quiet: "answers e = Some k \<Longrightarrow> asks e s = None"
begin

lemma pending_marked:
  assumes "driven offered environment step asks answers initially s pending" and "\<And>s k. initially s \<Longrightarrow> \<not> mark k s"
  shows "pending k = (if mark k s then 1 else 0)"
  using assms(1)
proof (induction arbitrary: k)
  case (opened s)
  then show ?case using assms(2) by simp
next
  case (used s pending e)
  show ?case
  proof (cases "asks e s")
    case None
    then show ?thesis using used.IH [of k] mark_kept [of s e k] used.hyps(2,3) by auto
  next
    case (Some j)
    then have "\<not> mark j s" using used.hyps(2) offered_free environment_quiet by fastforce
    moreover have "mark j (step e s)" using Some by (rule asked_marks)
    ultimately show ?thesis
      using Some used.IH [of k] used.IH [of j] mark_kept [of s e k] used.hyps(2,3) by auto
  qed
next
  case (answered s pending e j)
  then show ?case
    using answer_clears [OF answered.hyps(2), of s] answer_quiet [OF answered.hyps(2), of s] mark_kept [of s e k]
      answered.hyps(2) answered.IH [of k] answered.IH [of j]
    by (auto split: if_splits)
qed

lemma one_at_a_time:
  assumes "driven offered environment step asks answers initially s pending" and "\<And>s k. initially s \<Longrightarrow> \<not> mark k s"
  shows "pending k \<le> 1"
  using pending_marked [OF assms, of k] by simp

end

end
