(* ===== verification/ViewTexts.thy ===== *)
theory ViewTexts
  imports JsBase
begin

text \<open>
  The texts of the templates, as UTF-16 code units; a name says what its text means.
\<close>

definition tv_end_user_licence_title :: jstr where
  "tv_end_user_licence_title =
     js ''VoHive '' @ [0x6700, 0x7EC8, 0x7528, 0x6237, 0x8BB8, 0x53EF, 0x4E0E, 0x514D, 0x8D23,
     0x58F0, 0x660E]"

definition tv_personal_tool_notice :: jstr where
  "tv_personal_tool_notice =
     [0x672C, 0x8F6F, 0x4EF6, 0xFF08] @ js ''VoHive'' @ [0xFF09, 0x5C5E, 0x4E8E, 0x4E2A, 0x4EBA,
     0x5F00, 0x53D1, 0x8005, 0x4E1A, 0x4F59, 0x65F6, 0x95F4, 0x5F00, 0x53D1, 0x7684, 0x5DE5,
     0x5177, 0x8F6F, 0x4EF6, 0xFF0C, 0x4EC5, 0x4F9B, 0x6280, 0x672F, 0x7814, 0x7A76, 0x3001,
     0x5B66, 0x4E60, 0x4EA4, 0x6D41, 0x548C, 0x4E2A, 0x4EBA, 0x5185, 0x90E8, 0x6D4B, 0x8BD5,
     0x4F7F, 0x7528, 0x3002]"

definition tv_no_commercial_use :: jstr where
  "tv_no_commercial_use =
     [0x4E25, 0x7981, 0x7528, 0x4E8E, 0x4EFB, 0x4F55, 0x5546, 0x4E1A, 0x7528, 0x9014]"

definition tv_no_production_use :: jstr where
  "tv_no_production_use =
     [0xFF0C, 0x4E25, 0x7981, 0x4F5C, 0x4E3A, 0x751F, 0x4EA7, 0x73AF, 0x5883, 0x7684, 0x57FA,
     0x7840, 0x8BBE, 0x65BD, 0x3002]"

definition tv_obey_the_law :: jstr where
  "tv_obey_the_law =
     [0x4F7F, 0x7528, 0x8005, 0x627F, 0x8BFA, 0x5C06, 0x4E25, 0x683C, 0x9075, 0x5B88, 0x6240,
     0x5728, 0x56FD, 0x5BB6, 0x6216, 0x5730, 0x533A, 0x7684, 0x76F8, 0x5173, 0x6CD5, 0x5F8B,
     0x6CD5, 0x89C4, 0x3002]"

definition tv_no_illegal_use :: jstr where
  "tv_no_illegal_use =
     [0x4E25, 0x7981, 0x5C06, 0x672C, 0x8F6F, 0x4EF6, 0x7528, 0x4E8E, 0x7535, 0x4FE1, 0x8BC8,
     0x9A97, 0x3001, 0x5783, 0x573E, 0x77ED, 0x4FE1, 0x53D1, 0x9001, 0x3001, 0x975E, 0x6CD5,
     0x7F51, 0x7EDC, 0x4EE3, 0x7406, 0x3001, 0x6E17, 0x900F, 0x6D4B, 0x8BD5, 0x7B49, 0x4EFB,
     0x4F55, 0x975E, 0x6CD5, 0x6216, 0x8FDD, 0x89C4, 0x573A, 0x666F]"

definition tv_full_stop :: jstr where
  "tv_full_stop =
     [0x3002]"

definition tv_may_have_defects :: jstr where
  "tv_may_have_defects =
     [0x672C, 0x8F6F, 0x4EF6, 0x6D89, 0x53CA, 0x5E95, 0x5C42] @ js '' Modem '' @ [0x901A,
     0x4FE1, 0x64CD, 0x4F5C, 0xFF0C, 0x53EF, 0x80FD, 0x5305, 0x542B, 0x672A, 0x77E5, 0x7684,
     0x7F3A, 0x9677, 0x3002, 0x5BF9, 0x4E8E, 0x56E0, 0x4F7F, 0x7528, 0x672C, 0x8F6F, 0x4EF6,
     0x5F15, 0x53D1, 0x7684, 0x786C, 0x4EF6, 0x635F, 0x574F, 0x3001, 0x901A, 0x4FE1, 0x8D44,
     0x8D39, 0x5F02, 0x5E38, 0x3001, 0x9690, 0x79C1, 0x6CC4, 0x9732, 0x7B49, 0x76F4, 0x63A5,
     0x6216, 0x95F4, 0x63A5, 0x635F, 0x5931, 0xFF0C]"

definition tv_user_is_liable :: jstr where
  "tv_user_is_liable =
     [0x7531, 0x4F7F, 0x7528, 0x8005, 0x81EA, 0x884C, 0x627F, 0x62C5, 0x6240, 0x6709, 0x8D23,
     0x4EFB]"

definition tv_click_means_accept :: jstr where
  "tv_click_means_accept =
     [0x4E00, 0x65E6, 0x70B9, 0x51FB, 0x7EE7, 0x7EED, 0x5373, 0x8868, 0x793A, 0x65E0, 0x6761,
     0x4EF6, 0x63A5, 0x53D7, 0x672C, 0x534F, 0x8BAE, 0x3002, 0x5982, 0x679C, 0x60A8, 0x62D2,
     0x7EDD, 0xFF0C, 0x672C, 0x8F6F, 0x4EF6, 0x5C06, 0x7ACB, 0x5373, 0x89E6, 0x53D1, 0x81EA,
     0x6BC1, 0x4E0E, 0x73AF, 0x5883, 0x6E05, 0x7406, 0x673A, 0x5236, 0x4EE5, 0x786E, 0x4FDD,
     0x8BBE, 0x5907, 0x5B89, 0x5168, 0x3002]"

definition tv_please_type :: jstr where
  "tv_please_type =
     [0x8BF7, 0x8F93, 0x5165, 0x300C]"

definition tv_to_unlock_the_button :: jstr where
  "tv_to_unlock_the_button =
     [0x300D, 0x4EE5, 0x89E3, 0x9501, 0x6309, 0x94AE]"

definition tv_please_type_colon :: jstr where
  "tv_please_type_colon =
     [0x8BF7, 0x8F93, 0x5165, 0xFF1A]"

definition tv_reject_and_uninstall :: jstr where
  "tv_reject_and_uninstall =
     [0x62D2, 0x7EDD, 0x5E76, 0x5378, 0x8F7D]"

definition tv_agree_and_go_on :: jstr where
  "tv_agree_and_go_on =
     [0x540C, 0x610F, 0x5E76, 0x7EE7, 0x7EED]"

definition tv_card_policy :: jstr where
  "tv_card_policy =
     [0x5361, 0x7B56, 0x7565]"

definition tv_switches_follow_the_card :: jstr where
  "tv_switches_follow_the_card =
     [0x7F51, 0x7EDC] @ js ''/VoWiFi '' @ [0x5F00, 0x5173, 0x8DDF, 0x7740] @ js '' SIM '' @
     [0x5361, 0x8D70, 0xFF0C, 0x5207, 0x6362, 0x5373, 0x65F6, 0x751F, 0x6548]"

definition tv_no_iccid_yet :: jstr where
  "tv_no_iccid_yet =
     [0x8BBE, 0x5907, 0x5C1A, 0x672A, 0x8BC6, 0x522B, 0x5230] @ js '' SIM '' @ [0x5361] @ js ''
     ICCID'' @ [0xFF0C, 0x7B56, 0x7565, 0x4E0D, 0x53EF, 0x64CD, 0x4F5C]"

definition tv_device_off_policy_shown_only :: jstr where
  "tv_device_off_policy_shown_only =
     [0x8BBE, 0x5907, 0x79BB, 0x7EBF, 0xFF0C, 0x7B56, 0x7565, 0x4EC5, 0x5C55, 0x793A, 0xFF0C,
     0x5207, 0x6362, 0x64CD, 0x4F5C, 0x5DF2, 0x7981, 0x7528]"

definition tv_current_card_iccid :: jstr where
  "tv_current_card_iccid =
     [0x5F53, 0x524D, 0x5361] @ js '' ICCID''"

definition tv_ip_version :: jstr where
  "tv_ip_version =
     js ''IP '' @ [0x7248, 0x672C]"

definition tv_ipv4_and_ipv6 :: jstr where
  "tv_ipv4_and_ipv6 =
     js ''IPv4 + IPv6'' @ [0xFF08, 0x53CC, 0x6808, 0xFF09]"

definition tv_applies_at_next_network_on :: jstr where
  "tv_applies_at_next_network_on =
     [0x4E0B, 0x6B21, 0x5F00, 0x542F, 0x7F51, 0x7EDC, 0x65F6, 0x751F, 0x6548]"

definition tv_apn_optional :: jstr where
  "tv_apn_optional =
     js ''APN'' @ [0xFF08, 0x53EF, 0x9009, 0xFF09]"

definition tv_empty_is_automatic :: jstr where
  "tv_empty_is_automatic =
     [0x7559, 0x7A7A, 0x81EA, 0x52A8, 0x8BC6, 0x522B]"

definition tv_turn_network_on :: jstr where
  "tv_turn_network_on =
     [0x5F00, 0x542F, 0x7F51, 0x7EDC]"

definition tv_not_with_vowifi_or_flight :: jstr where
  "tv_not_with_vowifi_or_flight =
     js ''VoWiFi/'' @ [0x98DE, 0x884C, 0x5F00, 0x542F, 0x65F6, 0x4E0D, 0x53EF, 0x7528]"

definition tv_not_in_effect :: jstr where
  "tv_not_in_effect =
     [0x672A, 0x751F, 0x6548]"

definition tv_vowifi_notice :: jstr where
  "tv_vowifi_notice =
     [0x542F, 0x7528, 0x540E, 0x8FDB, 0x98DE, 0x884C, 0x6A21, 0x5F0F, 0xFF0C, 0x4E0D, 0x652F,
     0x6301, 0x56FD, 0x5185, 0x8FD0, 0x8425, 0x5546]"

definition tv_flight_mode :: jstr where
  "tv_flight_mode =
     [0x98DE, 0x884C, 0x6A21, 0x5F0F]"

definition tv_radio_off :: jstr where
  "tv_radio_off =
     [0x5C04, 0x9891, 0x5173, 0x95ED, 0xFF0C, 0x65AD, 0x7F51, 0xFF1B] @ js ''VoWiFi '' @
     [0x5F00, 0x542F, 0x65F6, 0x7531, 0x5176, 0x63A5, 0x7BA1]"

definition tv_e911_address :: jstr where
  "tv_e911_address =
     js ''E911'' @ [0x5730, 0x5740]"

definition tv_loading_short :: jstr where
  "tv_loading_short =
     [0x52A0, 0x8F7D, 0x4E2D] @ js ''...''"

definition tv_debug_panel :: jstr where
  "tv_debug_panel =
     [0x8BCA, 0x65AD, 0x9762, 0x677F]"

definition tv_open_on_errors :: jstr where
  "tv_open_on_errors =
     [0x9519, 0x8BEF, 0x81EA, 0x52A8, 0x5F39, 0x51FA]"

definition tv_clear :: jstr where
  "tv_clear =
     [0x6E05, 0x7A7A]"

definition tv_export :: jstr where
  "tv_export =
     [0x5BFC, 0x51FA]"

definition tv_copy :: jstr where
  "tv_copy =
     [0x590D, 0x5236]"

definition tv_recent_routes :: jstr where
  "tv_recent_routes =
     [0x6700, 0x8FD1, 0x8DEF, 0x7531]"

definition tv_no_records :: jstr where
  "tv_no_records =
     [0x6682, 0x65E0, 0x8BB0, 0x5F55]"

definition tv_arrow_right :: jstr where
  "tv_arrow_right =
     [0x2192]"

definition tv_recent_api_errors :: jstr where
  "tv_recent_api_errors =
     [0x6700, 0x8FD1] @ js '' API '' @ [0x9519, 0x8BEF]"

definition tv_recent_js_errors :: jstr where
  "tv_recent_js_errors =
     [0x6700, 0x8FD1, 0x524D, 0x7AEF, 0x9519, 0x8BEF]"

definition tv_auth_events :: jstr where
  "tv_auth_events =
     [0x9274, 0x6743, 0x4E8B, 0x4EF6]"

definition tv_add_device_configuration :: jstr where
  "tv_add_device_configuration =
     [0x6DFB, 0x52A0, 0x8BBE, 0x5907, 0x914D, 0x7F6E]"

definition tv_choose_an_unconfigured_device :: jstr where
  "tv_choose_an_unconfigured_device =
     [0x9009, 0x62E9, 0x4E00, 0x4E2A, 0x201C, 0x672A, 0x914D, 0x7F6E, 0x201D, 0x7684, 0x8BBE,
     0x5907, 0xFF0C, 0x7CFB, 0x7EDF, 0x5C06, 0x81EA, 0x52A8, 0x586B, 0x5145] @ js '' AT '' @
     [0x7AEF, 0x53E3, 0x4E0E, 0x8BC6, 0x522B, 0x4FE1, 0x606F, 0x3002]"

definition tv_discovering_devices :: jstr where
  "tv_discovering_devices =
     [0x6B63, 0x5728, 0x63A2, 0x6D4B, 0x8BBE, 0x5907] @ js ''...''"

definition tv_imei_unreadable_cannot_add :: jstr where
  "tv_imei_unreadable_cannot_add =
     [0x65E0, 0x6CD5, 0x8BFB, 0x53D6] @ js '' IMEI'' @ [0xFF08, 0x63A7, 0x5236, 0x53E3, 0x53EF,
     0x80FD, 0x6302, 0x6B7B, 0xFF09, 0xFF0C, 0x6682, 0x4E0D, 0x53EF, 0x6DFB, 0x52A0, 0x3002]"

definition tv_nothing_to_add :: jstr where
  "tv_nothing_to_add =
     [0x6682, 0x65E0, 0x53EF, 0x6DFB, 0x52A0, 0x8BBE, 0x5907, 0xFF08, 0x6216, 0x7CFB, 0x7EDF,
     0x672A, 0x53D1, 0x73B0, 0x65B0, 0x7684, 0x6A21, 0x7EC4, 0xFF09]"

definition tv_chosen_device_state :: jstr where
  "tv_chosen_device_state =
     [0x9009, 0x5B9A, 0x8BBE, 0x5907, 0x72B6, 0x6001]"

definition tv_mode_colon :: jstr where
  "tv_mode_colon =
     [0x6A21, 0x5F0F] @ js '':''"

definition tv_qmi_only :: jstr where
  "tv_qmi_only =
     [0x4EC5] @ js '' QMI '' @ [0x540E, 0x7AEF]"

definition tv_mbim_only :: jstr where
  "tv_mbim_only =
     [0x4EC5] @ js '' MBIM '' @ [0x540E, 0x7AEF]"

definition tv_wwan_qmi_is_fixed :: jstr where
  "tv_wwan_qmi_is_fixed =
     [0x6B64, 0x7C7B] @ js '' WWAN QMI '' @ [0x8BBE, 0x5907, 0x8FD0, 0x884C, 0x540E, 0x7AEF,
     0x56FA, 0x5B9A, 0x4E3A] @ js '' QMI'' @ [0xFF1B] @ js ''AT '' @ [0x53E3, 0x4ECD, 0x4F1A,
     0x4FDD, 0x7559, 0x7ED9] @ js '' AT '' @ [0x7EC8, 0x7AEF, 0x3002]"

definition tv_example_ec20 :: jstr where
  "tv_example_ec20 =
     [0x4F8B, 0x5982] @ js '' ec20_3''"

definition tv_name :: jstr where
  "tv_name =
     [0x540D, 0x79F0]"

definition tv_display_name_optional :: jstr where
  "tv_display_name_optional =
     [0x663E, 0x793A, 0x540D, 0x79F0, 0xFF08, 0x53EF, 0x9009, 0xFF09]"

definition tv_imei_binding :: jstr where
  "tv_imei_binding =
     js ''IMEI '' @ [0x7ED1, 0x5B9A]"

definition tv_filled_from_discovery :: jstr where
  "tv_filled_from_discovery =
     [0x81EA, 0x52A8, 0x8BC6, 0x522B, 0xFF08, 0x4ECE, 0x53D1, 0x73B0, 0x8BBE, 0x5907, 0x586B,
     0x5145, 0xFF09]"

definition tv_usb_path :: jstr where
  "tv_usb_path =
     js ''USB '' @ [0x8DEF, 0x5F84]"

definition tv_network_interface :: jstr where
  "tv_network_interface =
     [0x7F51, 0x5361, 0x63A5, 0x53E3]"

definition tv_at_port :: jstr where
  "tv_at_port =
     js ''AT '' @ [0x7AEF, 0x53E3]"

definition tv_control_device :: jstr where
  "tv_control_device =
     [0x63A7, 0x5236, 0x8BBE, 0x5907]"

definition tv_device_backend_mode :: jstr where
  "tv_device_backend_mode =
     [0x8BBE, 0x5907, 0x540E, 0x7AEF, 0x6A21, 0x5F0F]"

definition tv_fixed_qmi_at_for_terminal :: jstr where
  "tv_fixed_qmi_at_for_terminal =
     [0x56FA, 0x5B9A] @ js '' QMI'' @ [0xFF0C] @ js ''AT '' @ [0x53E3, 0x4EC5, 0x7528, 0x4E8E,
     0x7EC8, 0x7AEF]"

definition tv_fixed_mbim_at_for_terminal :: jstr where
  "tv_fixed_mbim_at_for_terminal =
     [0x56FA, 0x5B9A] @ js '' MBIM'' @ [0xFF0C] @ js ''AT '' @ [0x53E3, 0x4EC5, 0x7528, 0x4E8E,
     0x7EC8, 0x7AEF]"

definition tv_at_serial_or_qmi :: jstr where
  "tv_at_serial_or_qmi =
     js ''AT='' @ [0x4E32, 0x53E3] @ js '' / QMI='' @ [0x7EAF] @ js '' QMI''"

definition tv_cancel :: jstr where
  "tv_cancel =
     [0x53D6, 0x6D88]"

definition tv_save :: jstr where
  "tv_save =
     [0x4FDD, 0x5B58]"

definition tv_at_terminal :: jstr where
  "tv_at_terminal =
     js ''AT '' @ [0x7EC8, 0x7AEF]"

definition tv_at_terminal_subtitle :: jstr where
  "tv_at_terminal_subtitle =
     [0x53D1, 0x9001] @ js '' AT '' @ [0x6307, 0x4EE4, 0x5E76, 0x67E5, 0x770B, 0x56DE, 0x663E,
     0xFF08, 0x591A, 0x884C, 0x54CD, 0x5E94, 0x4F1A, 0x5B8C, 0x6574, 0x8FD4, 0x56DE, 0xFF09]"

definition tv_no_at_session :: jstr where
  "tv_no_at_session =
     [0x6682, 0x65E0] @ js '' AT '' @ [0x4F1A, 0x8BDD, 0x8BB0, 0x5F55]"

definition tv_waiting_for_module :: jstr where
  "tv_waiting_for_module =
     [0x7B49, 0x5F85, 0x6A21, 0x7EC4, 0x54CD, 0x5E94] @ js ''...''"

definition tv_quick_templates :: jstr where
  "tv_quick_templates =
     [0x5FEB, 0x6377, 0x6307, 0x4EE4, 0x6A21, 0x677F]"

definition tv_choose_a_template :: jstr where
  "tv_choose_a_template =
     [0x9009, 0x62E9, 0x5E38, 0x7528, 0x547D, 0x4EE4, 0xFF08, 0x53EF, 0x9009, 0xFF09]"

definition tv_command :: jstr where
  "tv_command =
     [0x547D, 0x4EE4]"

definition tv_example_at_csq :: jstr where
  "tv_example_at_csq =
     [0x4F8B, 0x5982] @ js '' AT+CSQ ('' @ [0x53EF, 0x81EA, 0x7531, 0x7F16, 0x8F91] @ js '')''"

definition tv_timeout_ms :: jstr where
  "tv_timeout_ms =
     [0x8D85, 0x65F6] @ js ''(ms)''"

definition tv_actions :: jstr where
  "tv_actions =
     [0x64CD, 0x4F5C]"

definition tv_send :: jstr where
  "tv_send =
     [0x53D1, 0x9001]"

definition tv_detecting :: jstr where
  "tv_detecting =
     [0x68C0, 0x6D4B, 0x4E2D] @ js ''...''"

definition tv_signal_strength :: jstr where
  "tv_signal_strength =
     [0x4FE1, 0x53F7, 0x5F3A, 0x5EA6]"

definition tv_public_ip :: jstr where
  "tv_public_ip =
     [0x516C, 0x7F51] @ js '' IP''"

definition tv_device_configuration :: jstr where
  "tv_device_configuration =
     [0x8BBE, 0x5907, 0x914D, 0x7F6E]"

definition tv_stored_in_database :: jstr where
  "tv_stored_in_database =
     [0x914D, 0x7F6E, 0x5B58, 0x50A8, 0x5728, 0x6570, 0x636E, 0x5E93, 0x4E2D, 0xFF0C, 0x90E8,
     0x5206, 0x5B57, 0x6BB5, 0x53EF, 0x80FD, 0x9700, 0x8981, 0x91CD, 0x542F, 0x751F, 0x6548]"

definition tv_delete_device :: jstr where
  "tv_delete_device =
     [0x5220, 0x9664, 0x8BBE, 0x5907]"

definition tv_save_configuration :: jstr where
  "tv_save_configuration =
     [0x4FDD, 0x5B58, 0x914D, 0x7F6E]"

definition tv_display_name :: jstr where
  "tv_display_name =
     [0x663E, 0x793A, 0x540D, 0x79F0]"

definition tv_bound_when_added :: jstr where
  "tv_bound_when_added =
     [0x81EA, 0x52A8, 0x8BC6, 0x522B, 0xFF08, 0x6DFB, 0x52A0, 0x65F6, 0x7ED1, 0x5B9A, 0xFF09]"

definition tv_device_path :: jstr where
  "tv_device_path =
     [0x8BBE, 0x5907, 0x8DEF, 0x5F84]"

definition tv_found_by_the_system :: jstr where
  "tv_found_by_the_system =
     [0x7531, 0x7CFB, 0x7EDF, 0x81EA, 0x52A8, 0x63A2, 0x6D4B]"

definition tv_device_run_mode :: jstr where
  "tv_device_run_mode =
     [0x8BBE, 0x5907, 0x8FD0, 0x884C, 0x6A21, 0x5F0F]"

definition tv_device_fixed_qmi :: jstr where
  "tv_device_fixed_qmi =
     [0x6B64, 0x7C7B, 0x8BBE, 0x5907, 0x56FA, 0x5B9A] @ js '' QMI'' @ [0xFF0C] @ js ''AT '' @
     [0x53E3, 0x4EC5, 0x7528, 0x4E8E, 0x7EC8, 0x7AEF]"

definition tv_device_fixed_mbim :: jstr where
  "tv_device_fixed_mbim =
     [0x6B64, 0x7C7B, 0x8BBE, 0x5907, 0x56FA, 0x5B9A] @ js '' MBIM'' @ [0xFF0C] @ js ''AT '' @
     [0x53E3, 0x4EC5, 0x7528, 0x4E8E, 0x7EC8, 0x7AEF]"

definition tv_at_classic_or_qmi :: jstr where
  "tv_at_classic_or_qmi =
     js ''AT='' @ [0x4F20, 0x7EDF, 0x4E32, 0x53E3] @ js '' / QMI='' @ [0x7EAF] @ js '' QMI''"

definition tv_dot_public_ip :: jstr where
  "tv_dot_public_ip =
     [0x00B7] @ js '' '' @ [0x516C, 0x7F51] @ js '' IP:''"

definition tv_reconnect_vowifi :: jstr where
  "tv_reconnect_vowifi =
     [0x91CD, 0x8FDE] @ js '' VoWiFi''"

definition tv_rotate_ip :: jstr where
  "tv_rotate_ip =
     [0x5207, 0x6362] @ js '' IP''"

definition tv_reboot_module :: jstr where
  "tv_reboot_module =
     [0x91CD, 0x542F, 0x6A21, 0x7EC4]"

definition tv_text_messages :: jstr where
  "tv_text_messages =
     [0x77ED, 0x4FE1]"

definition tv_loading_device :: jstr where
  "tv_loading_device =
     [0x6B63, 0x5728, 0x52A0, 0x8F7D, 0x8BBE, 0x5907] @ js ''...''"

definition tv_firmware :: jstr where
  "tv_firmware =
     [0x56FA, 0x4EF6]"

definition tv_manual_refresh :: jstr where
  "tv_manual_refresh =
     [0x624B, 0x52A8, 0x5237, 0x65B0]"

definition tv_current_notifications :: jstr where
  "tv_current_notifications =
     [0x5F53, 0x524D, 0x901A, 0x77E5]"

definition tv_hide_sensitive :: jstr where
  "tv_hide_sensitive =
     [0x9690, 0x85CF, 0x654F, 0x611F, 0x4FE1, 0x606F]"

definition tv_show_sensitive :: jstr where
  "tv_show_sensitive =
     [0x663E, 0x793A, 0x654F, 0x611F, 0x4FE1, 0x606F]"

definition tv_available :: jstr where
  "tv_available =
     [0x53EF, 0x7528]"

definition tv_manufacturer_colon :: jstr where
  "tv_manufacturer_colon =
     [0x751F, 0x4EA7, 0x5546] @ js '':''"

definition tv_certificate_colon :: jstr where
  "tv_certificate_colon =
     [0x8BC1, 0x4E66] @ js '':''"

definition tv_source_colon :: jstr where
  "tv_source_colon =
     [0x6765, 0x6E90] @ js '':''"

definition tv_no_profile :: jstr where
  "tv_no_profile =
     [0x6682, 0x65E0] @ js '' Profile''"

definition tv_enter_a_new_name :: jstr where
  "tv_enter_a_new_name =
     [0x8F93, 0x5165, 0x65B0, 0x540D, 0x79F0]"

definition tv_switch_to_it :: jstr where
  "tv_switch_to_it =
     [0x5207, 0x6362]"

definition tv_rename :: jstr where
  "tv_rename =
     [0x6539, 0x540D]"

definition tv_policy :: jstr where
  "tv_policy =
     [0x7B56, 0x7565]"

definition tv_current_notification_list :: jstr where
  "tv_current_notification_list =
     [0x5F53, 0x524D, 0x901A, 0x77E5, 0x5217, 0x8868]"

definition tv_loading_notifications :: jstr where
  "tv_loading_notifications =
     [0x6B63, 0x5728, 0x52A0, 0x8F7D, 0x901A, 0x77E5] @ js ''...''"

definition tv_no_notification_to_show :: jstr where
  "tv_no_notification_to_show =
     [0x5F53, 0x524D, 0x6CA1, 0x6709, 0x53EF, 0x5C55, 0x793A, 0x7684, 0x901A, 0x77E5]"

definition tv_address :: jstr where
  "tv_address =
     [0x5730, 0x5740]"

definition tv_send_again :: jstr where
  "tv_send_again =
     [0x91CD, 0x53D1]"

definition tv_download_new_profile :: jstr where
  "tv_download_new_profile =
     [0x4E0B, 0x8F7D, 0x65B0] @ js '' Profile''"

definition tv_smdp_address_label :: jstr where
  "tv_smdp_address_label =
     js ''SM-DP+ '' @ [0x5730, 0x5740] @ js '' *''"

definition tv_example_smdp :: jstr where
  "tv_example_smdp =
     [0x4F8B, 0x5982] @ js '' rsp.truphone.com''"

definition tv_optional :: jstr where
  "tv_optional =
     [0x53EF, 0x9009]"

definition tv_confirmation_code :: jstr where
  "tv_confirmation_code =
     [0x786E, 0x8BA4, 0x7801]"

definition tv_imei_by_default :: jstr where
  "tv_imei_by_default =
     [0x9ED8, 0x8BA4, 0x4F7F, 0x7528, 0x8BBE, 0x5907] @ js '' IMEI'' @ [0xFF0C, 0x53EF, 0x4FEE,
     0x6539]"

definition tv_target_euicc :: jstr where
  "tv_target_euicc =
     [0x76EE, 0x6807] @ js '' eUICC''"

definition tv_choose_target_euicc :: jstr where
  "tv_choose_target_euicc =
     [0x9009, 0x62E9, 0x76EE, 0x6807] @ js '' eUICC''"

definition tv_closing_and_dash :: jstr where
  "tv_closing_and_dash =
     js '') '' @ [0x2014] @ js '' ''"

definition tv_space_available :: jstr where
  "tv_space_available =
     js '' '' @ [0x53EF, 0x7528]"

definition tv_start_download :: jstr where
  "tv_start_download =
     [0x5F00, 0x59CB, 0x4E0B, 0x8F7D]"

definition tv_no_euicc_found :: jstr where
  "tv_no_euicc_found =
     [0x672A, 0x68C0, 0x6D4B, 0x5230] @ js '' eUICC''"

definition tv_card_may_lack_euicc :: jstr where
  "tv_card_may_lack_euicc =
     [0x6B64] @ js ''SIM'' @ [0x5361, 0x53EF, 0x80FD, 0x4E0D, 0x652F, 0x6301] @ js '' eUICC '' @
     [0x529F, 0x80FD]"

definition tv_search_devices :: jstr where
  "tv_search_devices =
     [0x641C, 0x7D22, 0x8BBE, 0x5907] @ js '' / ICCID / IMEI / '' @ [0x7F51, 0x5361]"

definition tv_all_states :: jstr where
  "tv_all_states =
     [0x5168, 0x90E8, 0x72B6, 0x6001]"

definition tv_online_only :: jstr where
  "tv_online_only =
     [0x4EC5, 0x5728, 0x7EBF]"

definition tv_offline_only :: jstr where
  "tv_offline_only =
     [0x4EC5, 0x79BB, 0x7EBF]"

definition tv_sort :: jstr where
  "tv_sort =
     [0x6392, 0x5E8F]"

definition tv_sort_by_name :: jstr where
  "tv_sort_by_name =
     [0x6392, 0x5E8F, 0xFF1A, 0x540D, 0x79F0]"

definition tv_sort_by_signal :: jstr where
  "tv_sort_by_signal =
     [0x6392, 0x5E8F, 0xFF1A, 0x4FE1, 0x53F7]"

definition tv_direction :: jstr where
  "tv_direction =
     [0x65B9, 0x5411]"

definition tv_ascending :: jstr where
  "tv_ascending =
     [0x5347, 0x5E8F]"

definition tv_descending :: jstr where
  "tv_descending =
     [0x964D, 0x5E8F]"

definition tv_quota :: jstr where
  "tv_quota =
     [0x914D, 0x989D]"

definition tv_no_device :: jstr where
  "tv_no_device =
     [0x6682, 0x65E0, 0x8BBE, 0x5907]"

definition tv_add_a_device_first :: jstr where
  "tv_add_a_device_first =
     [0x70B9, 0x51FB, 0x53F3, 0x4E0A, 0x89D2, 0x201C, 0x6DFB, 0x52A0, 0x8BBE, 0x5907, 0x201D,
     0x5F00, 0x59CB, 0x63A5, 0x7BA1]"

definition tv_running_state :: jstr where
  "tv_running_state =
     [0x8FD0, 0x884C, 0x72B6, 0x6001]"

definition tv_wifi_calling_ready :: jstr where
  "tv_wifi_calling_ready =
     js ''WiFi-Calling '' @ [0x00B7] @ js '' '' @ [0x5168, 0x90E8, 0x5C31, 0x7EEA]"

definition tv_not_ready :: jstr where
  "tv_not_ready =
     [0x672A, 0x5C31, 0x7EEA]"

definition tv_vowifi_down :: jstr where
  "tv_vowifi_down =
     js ''VoWiFi '' @ [0x672A, 0x8FDE, 0x63A5]"

definition tv_details :: jstr where
  "tv_details =
     [0x8BE6, 0x60C5]"

definition tv_triangle_up :: jstr where
  "tv_triangle_up =
     [0x25B4]"

definition tv_triangle_down :: jstr where
  "tv_triangle_down =
     [0x25BE]"

definition tv_data_plane :: jstr where
  "tv_data_plane =
     [0x6570, 0x636E, 0x5E73, 0x9762]"

definition tv_last_reason :: jstr where
  "tv_last_reason =
     [0x6700, 0x540E, 0x539F, 0x56E0]"

definition tv_error_class :: jstr where
  "tv_error_class =
     [0x9519, 0x8BEF, 0x5206, 0x7C7B]"

definition tv_network_selection :: jstr where
  "tv_network_selection =
     [0x7F51, 0x7EDC, 0x9009, 0x62E9, 0x8BBE, 0x7F6E]"

definition tv_network_mode :: jstr where
  "tv_network_mode =
     [0x7F51, 0x7EDC, 0x6A21, 0x5F0F]"

definition tv_band :: jstr where
  "tv_band =
     [0x9891, 0x6BB5]"

definition tv_channel :: jstr where
  "tv_channel =
     [0x4FE1, 0x9053]"

definition tv_registration_state :: jstr where
  "tv_registration_state =
     [0x6CE8, 0x518C, 0x72B6, 0x6001]"

definition tv_sim_and_device :: jstr where
  "tv_sim_and_device =
     js ''SIM / '' @ [0x8BBE, 0x5907]"

definition tv_own_number :: jstr where
  "tv_own_number =
     [0x672C, 0x673A, 0x53F7, 0x7801]"

definition tv_settings :: jstr where
  "tv_settings =
     [0x8BBE, 0x7F6E]"

definition tv_current_esim :: jstr where
  "tv_current_esim =
     [0x5F53, 0x524D] @ js ''eSIM''"

definition tv_home_operator :: jstr where
  "tv_home_operator =
     [0x539F, 0x8FD0, 0x8425, 0x5546]"

definition tv_firmware_version :: jstr where
  "tv_firmware_version =
     [0x56FA, 0x4EF6, 0x7248, 0x672C]"

definition tv_run_mode :: jstr where
  "tv_run_mode =
     [0x8FD0, 0x884C, 0x6A21, 0x5F0F]"

definition tv_network :: jstr where
  "tv_network =
     [0x7F51, 0x7EDC]"

definition tv_private_ipv4 :: jstr where
  "tv_private_ipv4 =
     [0x5185, 0x7F51] @ js '' IPv4''"

definition tv_private_ipv6 :: jstr where
  "tv_private_ipv6 =
     [0x5185, 0x7F51] @ js '' IPv6''"

definition tv_public_ipv4 :: jstr where
  "tv_public_ipv4 =
     [0x5916, 0x7F51] @ js '' IPv4''"

definition tv_public_ipv6 :: jstr where
  "tv_public_ipv6 =
     [0x5916, 0x7F51] @ js '' IPv6''"

definition tv_minute_upload :: jstr where
  "tv_minute_upload =
     [0x8FD1] @ js ''1'' @ [0x5206, 0x949F, 0x4E0A, 0x4F20]"

definition tv_minute_download :: jstr where
  "tv_minute_download =
     [0x8FD1] @ js ''1'' @ [0x5206, 0x949F, 0x4E0B, 0x8F7D]"

definition tv_download_speed :: jstr where
  "tv_download_speed =
     [0x5B9E, 0x65F6, 0x4E0B, 0x8F7D, 0x901F, 0x7387]"

definition tv_upload_speed :: jstr where
  "tv_upload_speed =
     [0x5B9E, 0x65F6, 0x4E0A, 0x4F20, 0x901F, 0x7387]"

definition tv_ussd_terminal :: jstr where
  "tv_ussd_terminal =
     js ''USSD '' @ [0x4EA4, 0x4E92, 0x7EC8, 0x7AEF]"

definition tv_ussd_subtitle :: jstr where
  "tv_ussd_subtitle =
     [0x53D1, 0x9001] @ js '' USSD '' @ [0x4EE3, 0x7801] @ js '' ('' @ [0x5982] @ js '' *100#)
     '' @ [0x5E76, 0x7B49, 0x5F85, 0x7F51, 0x7EDC, 0x83DC, 0x5355, 0x54CD, 0x5E94]"

definition tv_session_goes_on :: jstr where
  "tv_session_goes_on =
     [0x591A, 0x8F6E, 0x4F1A, 0x8BDD, 0x4E2D]"

definition tv_cancel_session :: jstr where
  "tv_cancel_session =
     [0x53D6, 0x6D88, 0x4F1A, 0x8BDD]"

definition tv_no_ussd_session :: jstr where
  "tv_no_ussd_session =
     [0x6682, 0x65E0] @ js '' USSD '' @ [0x4F1A, 0x8BDD, 0x8BB0, 0x5F55]"

definition tv_waiting_for_network :: jstr where
  "tv_waiting_for_network =
     [0x7B49, 0x5F85, 0x7F51, 0x7EDC, 0x54CD, 0x5E94] @ js ''...''"

definition tv_menu_reply :: jstr where
  "tv_menu_reply =
     [0x83DC, 0x5355, 0x56DE, 0x590D]"

definition tv_command_or_reply :: jstr where
  "tv_command_or_reply =
     [0x547D, 0x4EE4] @ js '' / '' @ [0x56DE, 0x590D]"

definition tv_reply :: jstr where
  "tv_reply =
     [0x56DE, 0x590D]"

definition tv_empty_set_sign :: jstr where
  "tv_empty_set_sign =
     [0x2205]"

definition tv_render_again :: jstr where
  "tv_render_again =
     [0x91CD, 0x8BD5, 0x6E32, 0x67D3]"

definition tv_load_failed_short :: jstr where
  "tv_load_failed_short =
     [0x52A0, 0x8F7D, 0x5931, 0x8D25]"

definition tv_loading_policy :: jstr where
  "tv_loading_policy =
     [0x6B63, 0x5728, 0x52A0, 0x8F7D, 0x7B56, 0x7565] @ js ''...''"

definition tv_policy_load_failed :: jstr where
  "tv_policy_load_failed =
     [0x7B56, 0x7565, 0x52A0, 0x8F7D, 0x5931, 0x8D25]"

definition tv_retry :: jstr where
  "tv_retry =
     [0x91CD, 0x8BD5]"

definition tv_flight :: jstr where
  "tv_flight =
     [0x98DE, 0x884C]"

definition tv_operator_selection :: jstr where
  "tv_operator_selection =
     [0x8FD0, 0x8425, 0x5546, 0x7F51, 0x7EDC, 0x9009, 0x62E9]"

definition tv_current_mode :: jstr where
  "tv_current_mode =
     [0x5F53, 0x524D, 0x6A21, 0x5F0F]"

definition tv_automatic :: jstr where
  "tv_automatic =
     [0x81EA, 0x52A8]"

definition tv_manually_locked :: jstr where
  "tv_manually_locked =
     [0x624B, 0x52A8, 0x9501, 0x5B9A]"

definition tv_locked_plmn :: jstr where
  "tv_locked_plmn =
     [0x5DF2, 0x9501, 0x5B9A] @ js '' PLMN''"

definition tv_scanning :: jstr where
  "tv_scanning =
     [0x626B, 0x63CF, 0x4E2D] @ js ''...''"

definition tv_scan_networks :: jstr where
  "tv_scan_networks =
     [0x626B, 0x63CF, 0x53EF, 0x7528, 0x7F51, 0x7EDC]"

definition tv_back_to_automatic :: jstr where
  "tv_back_to_automatic =
     [0x6062, 0x590D, 0x81EA, 0x52A8, 0x9009, 0x7F51]"

definition tv_unknown_network :: jstr where
  "tv_unknown_network =
     [0x672A, 0x77E5, 0x7F51, 0x7EDC]"

definition tv_current :: jstr where
  "tv_current =
     [0x5F53, 0x524D]"

definition tv_bullet :: jstr where
  "tv_bullet =
     [0x2022]"

definition tv_lock :: jstr where
  "tv_lock =
     [0x9501, 0x5B9A]"

definition tv_searching_networks :: jstr where
  "tv_searching_networks =
     [0x6B63, 0x5728, 0x641C, 0x7D22, 0x5468, 0x56F4, 0x7F51, 0x7EDC, 0xFF0C, 0x8FD9, 0x53EF,
     0x80FD, 0x9700, 0x8981] @ js '' 1-3 '' @ [0x5206, 0x949F] @ js ''...''"

definition tv_refresh :: jstr where
  "tv_refresh =
     [0x5237, 0x65B0]"

definition tv_day :: jstr where
  "tv_day =
     [0x65E5]"

definition tv_week :: jstr where
  "tv_week =
     [0x5468]"

definition tv_month :: jstr where
  "tv_month =
     [0x6708]"

definition tv_network_off_no_analysis :: jstr where
  "tv_network_off_no_analysis =
     [0x7F51, 0x7EDC, 0x5DF2, 0x7981, 0x7528, 0xFF0C, 0x6682, 0x65E0, 0x6D41, 0x91CF, 0x5206,
     0x6790]"

definition tv_analysis_failed :: jstr where
  "tv_analysis_failed =
     [0x6D41, 0x91CF, 0x5206, 0x6790, 0x52A0, 0x8F7D, 0x5931, 0x8D25]"

definition tv_download :: jstr where
  "tv_download =
     [0x4E0B, 0x8F7D]"

definition tv_upload :: jstr where
  "tv_upload =
     [0x4E0A, 0x4F20]"

definition tv_total :: jstr where
  "tv_total =
     [0x5408, 0x8BA1]"

definition tv_chart_failed_short :: jstr where
  "tv_chart_failed_short =
     [0x6D41, 0x91CF, 0x56FE, 0x8868, 0x52A0, 0x8F7D, 0x5931, 0x8D25]"

definition tv_chart_again :: jstr where
  "tv_chart_again =
     [0x91CD, 0x8BD5, 0x56FE, 0x8868]"

definition tv_chart_loading :: jstr where
  "tv_chart_loading =
     [0x6D41, 0x91CF, 0x56FE, 0x8868, 0x52A0, 0x8F7D, 0x4E2D] @ js ''...''"

definition tv_no_chart_data :: jstr where
  "tv_no_chart_data =
     [0x6682, 0x65E0, 0x6D41, 0x91CF, 0x56FE, 0x8868, 0x6570, 0x636E]"

definition tv_time :: jstr where
  "tv_time =
     [0x65F6, 0x95F4]"

definition tv_loading_page :: jstr where
  "tv_loading_page =
     [0x6B63, 0x5728, 0x52A0, 0x8F7D, 0x9875, 0x9762, 0x2026]"

definition tv_preparing_page :: jstr where
  "tv_preparing_page =
     [0x6B63, 0x5728, 0x51C6, 0x5907, 0x9875, 0x9762, 0x7EC4, 0x4EF6, 0x4E0E, 0x8D44, 0x6E90]"

definition tv_device_monitor :: jstr where
  "tv_device_monitor =
     [0x8BBE, 0x5907, 0x76D1, 0x63A7]"

definition tv_dashboard_subtitle :: jstr where
  "tv_dashboard_subtitle =
     [0x5B9E, 0x65F6, 0x67E5, 0x770B, 0x8BBE, 0x5907, 0x72B6, 0x6001, 0x4E0E, 0x51FA, 0x53E3] @
     js '' IP''"

definition tv_device_total :: jstr where
  "tv_device_total =
     [0x8BBE, 0x5907, 0x603B, 0x6570]"

definition tv_last_refresh :: jstr where
  "tv_last_refresh =
     [0x6700, 0x8FD1, 0x5237, 0x65B0]"

definition tv_device_list_failed :: jstr where
  "tv_device_list_failed =
     [0x8BBE, 0x5907, 0x5217, 0x8868, 0x52A0, 0x8F7D, 0x5931, 0x8D25]"

definition tv_no_device_connected :: jstr where
  "tv_no_device_connected =
     [0x6682, 0x65E0, 0x8BBE, 0x5907, 0x63A5, 0x5165]"

definition tv_add_in_management :: jstr where
  "tv_add_in_management =
     [0x8BF7, 0x5148, 0x5728, 0x8BBE, 0x5907, 0x7BA1, 0x7406, 0x4E2D, 0x6DFB, 0x52A0, 0x6216,
     0x63A5, 0x7BA1, 0x8BBE, 0x5907]"

definition tv_device_management :: jstr where
  "tv_device_management =
     [0x8BBE, 0x5907, 0x7BA1, 0x7406]"

definition tv_devices_subtitle :: jstr where
  "tv_devices_subtitle =
     [0x67E5, 0x770B, 0x8BBE, 0x5907, 0x4FE1, 0x606F, 0x3001, 0x7F16, 0x8F91, 0x914D, 0x7F6E,
     0x3001, 0x6267, 0x884C] @ js '' AT '' @ [0x6307, 0x4EE4]"

definition tv_rescan :: jstr where
  "tv_rescan =
     [0x91CD, 0x65B0, 0x626B, 0x63CF]"

definition tv_add_device :: jstr where
  "tv_add_device =
     [0x6DFB, 0x52A0, 0x8BBE, 0x5907]"

definition tv_device_data_failed :: jstr where
  "tv_device_data_failed =
     [0x8BBE, 0x5907, 0x6570, 0x636E, 0x52A0, 0x8F7D, 0x5931, 0x8D25]"

definition tv_overview :: jstr where
  "tv_overview =
     [0x6982, 0x89C8]"

definition tv_device_analysis :: jstr where
  "tv_device_analysis =
     [0x5F53, 0x524D, 0x8BBE, 0x5907, 0x6D41, 0x91CF, 0x5206, 0x6790]"

definition tv_sampled_each_minute :: jstr where
  "tv_sampled_each_minute =
     [0x6570, 0x636E, 0x6BCF, 0x5206, 0x949F, 0x91C7, 0x6837, 0x4E00, 0x6B21, 0xFF0C, 0x6309,
     0x65E5] @ js ''/'' @ [0x5468] @ js ''/'' @ [0x6708, 0x805A, 0x5408]"

definition tv_ussd_terminal_tab :: jstr where
  "tv_ussd_terminal_tab =
     js ''USSD '' @ [0x7EC8, 0x7AEF]"

definition tv_configuration :: jstr where
  "tv_configuration =
     [0x914D, 0x7F6E]"

definition tv_login_subtitle :: jstr where
  "tv_login_subtitle =
     js ''4G '' @ [0x6A21, 0x7EC4, 0x7BA1, 0x7406, 0x540E, 0x53F0]"

definition tv_user_name :: jstr where
  "tv_user_name =
     [0x7528, 0x6237, 0x540D]"

definition tv_password :: jstr where
  "tv_password =
     [0x5BC6, 0x7801]"

definition tv_log_in :: jstr where
  "tv_log_in =
     [0x767B, 0x5F55]"

definition tv_live_log :: jstr where
  "tv_live_log =
     [0x5B9E, 0x65F6, 0x65E5, 0x5FD7]"

definition tv_log_subtitle :: jstr where
  "tv_log_subtitle =
     [0x67E5, 0x770B, 0x7CFB, 0x7EDF, 0x8FD0, 0x884C, 0x65E5, 0x5FD7, 0xFF0C, 0x652F, 0x6301,
     0x8FC7, 0x6EE4, 0x548C, 0x641C, 0x7D22]"

definition tv_resume :: jstr where
  "tv_resume =
     [0x7EE7, 0x7EED]"

definition tv_pause :: jstr where
  "tv_pause =
     [0x6682, 0x505C]"

definition tv_connected :: jstr where
  "tv_connected =
     [0x5DF2, 0x8FDE, 0x63A5]"

definition tv_not_connected :: jstr where
  "tv_not_connected =
     [0x672A, 0x8FDE, 0x63A5]"

definition tv_log_lines :: jstr where
  "tv_log_lines =
     [0x6761, 0x65E5, 0x5FD7]"

definition tv_follow_tail :: jstr where
  "tv_follow_tail =
     [0x81EA, 0x52A8, 0x8FFD, 0x5C3E]"

definition tv_log_level :: jstr where
  "tv_log_level =
     [0x65E5, 0x5FD7, 0x7EA7, 0x522B]"

definition tv_all :: jstr where
  "tv_all =
     [0x5168, 0x90E8]"

definition tv_search_logs :: jstr where
  "tv_search_logs =
     [0x641C, 0x7D22, 0x65E5, 0x5FD7, 0x5185, 0x5BB9] @ js ''...''"

definition tv_show :: jstr where
  "tv_show =
     [0x663E, 0x793A]"

definition tv_pieces :: jstr where
  "tv_pieces =
     [0x6761]"

definition tv_waiting_for_logs :: jstr where
  "tv_waiting_for_logs =
     [0x7B49, 0x5F85, 0x65E5, 0x5FD7] @ js ''...''"

definition tv_not_connected_to_logs :: jstr where
  "tv_not_connected_to_logs =
     [0x672A, 0x8FDE, 0x63A5, 0x5230, 0x65E5, 0x5FD7, 0x6D41]"

definition tv_proxy_management :: jstr where
  "tv_proxy_management =
     [0x4EE3, 0x7406, 0x7BA1, 0x7406]"

definition tv_proxy_subtitle :: jstr where
  "tv_proxy_subtitle =
     [0x7BA1, 0x7406, 0x672C, 0x5730, 0x51FA, 0x7AD9, 0x4EE3, 0x7406, 0x548C] @ js '' VoWiFi ''
     @ [0x6F2B, 0x6E38, 0x524D, 0x7F6E, 0x4EE3, 0x7406]"

definition tv_roaming_upstream_proxy :: jstr where
  "tv_roaming_upstream_proxy =
     [0x6F2B, 0x6E38, 0x524D, 0x7F6E, 0x4EE3, 0x7406]"

definition tv_local_outbound_proxy :: jstr where
  "tv_local_outbound_proxy =
     [0x672C, 0x5730, 0x51FA, 0x7AD9, 0x4EE3, 0x7406]"

definition tv_vowifi_roaming_proxy :: jstr where
  "tv_vowifi_roaming_proxy =
     js ''VoWiFi '' @ [0x6F2B, 0x6E38, 0x524D, 0x7F6E, 0x4EE3, 0x7406]"

definition tv_upstream_explanation :: jstr where
  "tv_upstream_explanation =
     js ''VoWiFi '' @ [0x901A, 0x8FC7] @ js '' Socks5 '' @ [0x4EE3, 0x7406, 0x7A7F, 0x900F,
     0x8FDE, 0x63A5, 0x6D77, 0x5916, 0x8FD0, 0x8425, 0x5546, 0x3002, 0x6CE8, 0x610F] @ js ''
     Socks5 '' @ [0x7AEF, 0x5FC5, 0x987B, 0x652F, 0x6301] @ js '' UDP Associate''"

definition tv_new_proxy :: jstr where
  "tv_new_proxy =
     [0x65B0, 0x589E, 0x4EE3, 0x7406]"

definition tv_no_upstream_proxy :: jstr where
  "tv_no_upstream_proxy =
     [0x6682, 0x65E0, 0x524D, 0x7F6E, 0x4EE3, 0x7406]"

definition tv_create_upstream_first :: jstr where
  "tv_create_upstream_first =
     [0x70B9, 0x51FB, 0x300C, 0x65B0, 0x589E, 0x4EE3, 0x7406, 0x300D, 0x521B, 0x5EFA] @ js ''
     Socks5 '' @ [0x524D, 0x7F6E, 0x4EE3, 0x7406, 0xFF0C, 0x518D, 0x6309, 0x56FD, 0x5BB6,
     0x914D, 0x7F6E] @ js '' VoWiFi '' @ [0x5206, 0x6D41, 0x89C4, 0x5219, 0xFF1B, 0x672A,
     0x914D, 0x7F6E, 0x56FD, 0x5BB6, 0x9ED8, 0x8BA4, 0x76F4, 0x8FDE]"

definition tv_dot_credentials :: jstr where
  "tv_dot_credentials =
     [0x00B7] @ js '' '' @ [0x9274, 0x6743] @ js '':''"

definition tv_country_rules_counted :: jstr where
  "tv_country_rules_counted =
     [0x4E2A, 0x56FD, 0x5BB6, 0x89C4, 0x5219]"

definition tv_country_rules :: jstr where
  "tv_country_rules =
     [0x56FD, 0x5BB6, 0x89C4, 0x5219]"

definition tv_local_outbound_instances :: jstr where
  "tv_local_outbound_instances =
     [0x672C, 0x5730, 0x51FA, 0x7AD9, 0x5B9E, 0x4F8B]"

definition tv_instances_explanation :: jstr where
  "tv_instances_explanation =
     [0x6BCF, 0x4E2A, 0x5B9E, 0x4F8B, 0x5FC5, 0x987B, 0x7ED1, 0x5B9A, 0x4E00, 0x4E2A, 0x7269,
     0x7406, 0x7F51, 0x7EDC, 0x63A5, 0x53E3, 0x63D0, 0x4F9B, 0x51FA, 0x53E3, 0x901A, 0x9053,
     0xFF0C, 0x901A, 0x5E38, 0x7528, 0x4E8E, 0x7279, 0x5B9A, 0x5206, 0x6D41, 0x548C] @ js ''IP''
     @ [0x6C60, 0x573A, 0x666F]"

definition tv_new_instance :: jstr where
  "tv_new_instance =
     [0x65B0, 0x589E, 0x5B9E, 0x4F8B]"

definition tv_no_instance :: jstr where
  "tv_no_instance =
     [0x6682, 0x65E0, 0x4EE3, 0x7406, 0x5B9E, 0x4F8B]"

definition tv_create_instance_first :: jstr where
  "tv_create_instance_first =
     [0x70B9, 0x51FB, 0x300C, 0x65B0, 0x589E, 0x5B9E, 0x4F8B, 0x300D, 0x521B, 0x5EFA, 0x7B2C,
     0x4E00, 0x4E2A, 0x5B9E, 0x4F8B]"

definition tv_dot_bound_to :: jstr where
  "tv_dot_bound_to =
     [0x00B7] @ js '' '' @ [0x7ED1, 0x5B9A] @ js '':''"

definition tv_running :: jstr where
  "tv_running =
     [0x8FD0, 0x884C, 0x4E2D]"

definition tv_with_account :: jstr where
  "tv_with_account =
     [0x8D26, 0x53F7, 0x8BA4, 0x8BC1]"

definition tv_without_account :: jstr where
  "tv_without_account =
     [0x514D, 0x8BA4, 0x8BC1]"

definition tv_edit_instance :: jstr where
  "tv_edit_instance =
     [0x7F16, 0x8F91, 0x4EE3, 0x7406, 0x5B9E, 0x4F8B]"

definition tv_create_instance :: jstr where
  "tv_create_instance =
     [0x65B0, 0x589E, 0x4EE3, 0x7406, 0x5B9E, 0x4F8B]"

definition tv_basic_settings :: jstr where
  "tv_basic_settings =
     [0x57FA, 0x7840, 0x8BBE, 0x7F6E]"

definition tv_instance_id :: jstr where
  "tv_instance_id =
     [0x5B9E, 0x4F8B] @ js '' ID''"

definition tv_unique_id :: jstr where
  "tv_unique_id =
     [0x552F, 0x4E00, 0x6807, 0x8BC6]"

definition tv_bound_device_required :: jstr where
  "tv_bound_device_required =
     [0x7ED1, 0x5B9A, 0x8BBE, 0x5907, 0xFF08, 0x5FC5, 0x586B, 0xFF09]"

definition tv_choose_a_device :: jstr where
  "tv_choose_a_device =
     [0x9009, 0x62E9, 0x8BBE, 0x5907]"

definition tv_proxy_mode :: jstr where
  "tv_proxy_mode =
     [0x4EE3, 0x7406, 0x6A21, 0x5F0F]"

definition tv_choose_proxy_mode :: jstr where
  "tv_choose_proxy_mode =
     [0x9009, 0x62E9, 0x4EE3, 0x7406, 0x6A21, 0x5F0F]"

definition tv_listen_address :: jstr where
  "tv_listen_address =
     [0x76D1, 0x542C, 0x5730, 0x5740]"

definition tv_listen_port :: jstr where
  "tv_listen_port =
     [0x76D1, 0x542C, 0x7AEF, 0x53E3]"

definition tv_enable_instance :: jstr where
  "tv_enable_instance =
     [0x542F, 0x7528, 0x5B9E, 0x4F8B]"

definition tv_not_started_when_off :: jstr where
  "tv_not_started_when_off =
     [0x7981, 0x7528, 0x540E, 0x5B9E, 0x4F8B, 0x4E0D, 0x4F1A, 0x81EA, 0x52A8, 0x542F, 0x52A8]"

definition tv_credential_settings :: jstr where
  "tv_credential_settings =
     [0x8BA4, 0x8BC1, 0x8BBE, 0x7F6E]"

definition tv_enable_credentials :: jstr where
  "tv_enable_credentials =
     [0x542F, 0x7528, 0x8D26, 0x53F7, 0x8BA4, 0x8BC1]"

definition tv_open_when_off :: jstr where
  "tv_open_when_off =
     [0x5173, 0x95ED, 0x540E, 0x5C06, 0x5141, 0x8BB8, 0x514D, 0x8BA4, 0x8BC1, 0x8FDE, 0x63A5]"

definition tv_example_user01 :: jstr where
  "tv_example_user01 =
     [0x4F8B, 0x5982] @ js '' user01''"

definition tv_enter_password :: jstr where
  "tv_enter_password =
     [0x8BF7, 0x8F93, 0x5165, 0x5BC6, 0x7801]"

definition tv_edit_upstream :: jstr where
  "tv_edit_upstream =
     [0x7F16, 0x8F91, 0x524D, 0x7F6E, 0x4EE3, 0x7406]"

definition tv_create_upstream :: jstr where
  "tv_create_upstream =
     [0x65B0, 0x589E, 0x524D, 0x7F6E, 0x4EE3, 0x7406]"

definition tv_proxy_information :: jstr where
  "tv_proxy_information =
     [0x4EE3, 0x7406, 0x4FE1, 0x606F]"

definition tv_proxy_id :: jstr where
  "tv_proxy_id =
     [0x4EE3, 0x7406] @ js '' ID''"

definition tv_unique_id_example :: jstr where
  "tv_unique_id_example =
     [0x552F, 0x4E00, 0x6807, 0x8BC6, 0xFF0C, 0x5982] @ js '' jp-proxy-01''"

definition tv_name_example_japan :: jstr where
  "tv_name_example_japan =
     [0x4F8B, 0x5982, 0xFF1A, 0x65E5, 0x672C, 0x4EE3, 0x7406]"

definition tv_socks5_address :: jstr where
  "tv_socks5_address =
     js ''Socks5 '' @ [0x5730, 0x5740]"

definition tv_socks5_address_example :: jstr where
  "tv_socks5_address_example =
     js ''host:port'' @ [0xFF0C, 0x4F8B, 0x5982] @ js '' 1.2.3.4:1080 '' @ [0x6216] @ js ''
     [2001:db8::1]:1080''"

definition tv_vowifi_through_proxy :: jstr where
  "tv_vowifi_through_proxy =
     js ''VoWiFi '' @ [0x901A, 0x8FC7, 0x6B64] @ js '' Socks5 '' @ [0x4EE3, 0x7406, 0x8FDE,
     0x63A5, 0x8FD0, 0x8425, 0x5546, 0xFF0C, 0x5B9E, 0x73B0, 0x8DE8, 0x533A, 0x57DF, 0x672C,
     0x5730] @ js '' VoWiFi'' @ [0x3002]"

definition tv_probed_when_saved :: jstr where
  "tv_probed_when_saved =
     [0x3002, 0x4FDD, 0x5B58, 0x65F6, 0x4F1A, 0x81EA, 0x52A8, 0x63A2, 0x6D4B] @ js '' Socks5 ''
     @ [0x63E1, 0x624B, 0x4E0E] @ js '' UDP Associate'' @ [0x3002]"

definition tv_enable_proxy :: jstr where
  "tv_enable_proxy =
     [0x542F, 0x7528, 0x4EE3, 0x7406]"

definition tv_rules_direct_when_off :: jstr where
  "tv_rules_direct_when_off =
     [0x7981, 0x7528, 0x540E, 0x7ED1, 0x5B9A, 0x5230, 0x8BE5, 0x4EE3, 0x7406, 0x7684, 0x56FD,
     0x5BB6, 0x89C4, 0x5219, 0x4F1A, 0x56DE, 0x9000, 0x4E3A, 0x76F4, 0x8FDE]"

definition tv_credentials_optional :: jstr where
  "tv_credentials_optional =
     [0x9274, 0x6743, 0x8BBE, 0x7F6E, 0xFF08, 0x53EF, 0x9009, 0xFF09]"

definition tv_empty_no_credentials :: jstr where
  "tv_empty_no_credentials =
     [0x7559, 0x7A7A, 0x5219, 0x514D, 0x9274, 0x6743]"

definition tv_empty_keeps_password :: jstr where
  "tv_empty_keeps_password =
     [0x7F16, 0x8F91, 0x5DF2, 0x6709, 0x4EE3, 0x7406, 0x65F6, 0x7559, 0x7A7A, 0x4F1A, 0x4FDD,
     0x6301, 0x539F, 0x5BC6, 0x7801, 0x4E0D, 0x53D8, 0x3002]"

definition tv_update :: jstr where
  "tv_update =
     [0x66F4, 0x65B0]"

definition tv_create :: jstr where
  "tv_create =
     [0x521B, 0x5EFA]"

definition tv_country_rules_dash :: jstr where
  "tv_country_rules_dash =
     [0x56FD, 0x5BB6, 0x89C4, 0x5219] @ js '' '' @ [0x2014] @ js '' ''"

definition tv_countries_routed_here :: jstr where
  "tv_countries_routed_here =
     [0x5DF2, 0x8DEF, 0x7531, 0x5230, 0x8BE5, 0x4EE3, 0x7406, 0x7684, 0x56FD, 0x5BB6]"

definition tv_no_country_rule :: jstr where
  "tv_no_country_rule =
     [0x6682, 0x65E0, 0x56FD, 0x5BB6, 0x89C4, 0x5219]"

definition tv_other_countries_direct :: jstr where
  "tv_other_countries_direct =
     [0x672A, 0x914D, 0x7F6E, 0x7684, 0x56FD, 0x5BB6, 0x4F1A, 0x9ED8, 0x8BA4, 0x76F4, 0x8FDE]"

definition tv_delete_rule :: jstr where
  "tv_delete_rule =
     [0x5220, 0x9664, 0x89C4, 0x5219]"

definition tv_add_country_rule :: jstr where
  "tv_add_country_rule =
     [0x6DFB, 0x52A0, 0x56FD, 0x5BB6, 0x89C4, 0x5219]"

definition tv_choose_a_country :: jstr where
  "tv_choose_a_country =
     [0x9009, 0x62E9, 0x56FD, 0x5BB6]"

definition tv_configured :: jstr where
  "tv_configured =
     [0x5DF2, 0x914D, 0x7F6E]"

definition tv_save_rule :: jstr where
  "tv_save_rule =
     [0x4FDD, 0x5B58, 0x89C4, 0x5219]"

definition tv_rules_explanation :: jstr where
  "tv_rules_explanation =
     [0x89C4, 0x5219, 0x6309] @ js '' SIM '' @ [0x5F52, 0x5C5E] @ js '' MCC '' @ [0x89E3,
     0x6790, 0x56FD, 0x5BB6, 0x3002, 0x4F8B, 0x5982] @ js '' US '' @ [0x4F1A, 0x8986, 0x76D6] @
     js '' MCC 310/311/312/313/314/315/316 '' @ [0x7B49, 0x8868, 0x5185, 0x5206, 0x7EC4, 0xFF1B,
     0x6CA1, 0x6709, 0x914D, 0x7F6E, 0x89C4, 0x5219, 0x7684, 0x56FD, 0x5BB6, 0x9ED8, 0x8BA4,
     0x76F4, 0x8FDE, 0x3002, 0x9700, 0x8981, 0x91CD, 0x542F] @ js '' VoWiFi '' @ [0x751F,
     0x6548, 0x3002]"

definition tv_system_settings :: jstr where
  "tv_system_settings =
     [0x7CFB, 0x7EDF, 0x8BBE, 0x7F6E]"

definition tv_settings_subtitle :: jstr where
  "tv_settings_subtitle =
     [0x7BA1, 0x7406, 0x7F51, 0x5173, 0x53C2, 0x6570, 0x4E0E, 0x8FD0, 0x884C, 0x4FE1, 0x606F]"

definition tv_security :: jstr where
  "tv_security =
     [0x5B89, 0x5168]"

definition tv_update_credentials_subtitle :: jstr where
  "tv_update_credentials_subtitle =
     [0x66F4, 0x65B0, 0x8BBF, 0x95EE, 0x51ED, 0x8BC1]"

definition tv_current_password :: jstr where
  "tv_current_password =
     [0x5F53, 0x524D, 0x5BC6, 0x7801]"

definition tv_masked_bullets :: jstr where
  "tv_masked_bullets =
     [0x2022, 0x2022, 0x2022, 0x2022, 0x2022, 0x2022, 0x2022, 0x2022]"

definition tv_new_password :: jstr where
  "tv_new_password =
     [0x65B0, 0x5BC6, 0x7801]"

definition tv_confirm_new_password :: jstr where
  "tv_confirm_new_password =
     [0x786E, 0x8BA4, 0x65B0, 0x5BC6, 0x7801]"

definition tv_update_credentials :: jstr where
  "tv_update_credentials =
     [0x66F4, 0x65B0, 0x51ED, 0x8BC1]"

definition tv_system_information :: jstr where
  "tv_system_information =
     [0x7CFB, 0x7EDF, 0x4FE1, 0x606F]"

definition tv_runtime_environment :: jstr where
  "tv_runtime_environment =
     [0x8FD0, 0x884C, 0x73AF, 0x5883]"

definition tv_version :: jstr where
  "tv_version =
     [0x7248, 0x672C]"

definition tv_check_update :: jstr where
  "tv_check_update =
     [0x68C0, 0x67E5, 0x66F4, 0x65B0]"

definition tv_new_version_found :: jstr where
  "tv_new_version_found =
     [0x53D1, 0x73B0, 0x65B0, 0x7248, 0x672C] @ js '':''"

definition tv_no_release_note :: jstr where
  "tv_no_release_note =
     [0x6682, 0x65E0, 0x66F4, 0x65B0, 0x8BF4, 0x660E]"

definition tv_update_and_restart :: jstr where
  "tv_update_and_restart =
     [0x7ACB, 0x5373, 0x66F4, 0x65B0, 0x5E76, 0x91CD, 0x542F]"

definition tv_build_time :: jstr where
  "tv_build_time =
     [0x6784, 0x5EFA, 0x65F6, 0x95F4]"

definition tv_configuration_path :: jstr where
  "tv_configuration_path =
     [0x914D, 0x7F6E, 0x8DEF, 0x5F84]"

definition tv_chat_group :: jstr where
  "tv_chat_group =
     [0x4EA4, 0x6D41, 0x7FA4]"

definition tv_api_documents :: jstr where
  "tv_api_documents =
     js ''API '' @ [0x6587, 0x6863]"

definition tv_openapi_page :: jstr where
  "tv_openapi_page =
     [0x6253, 0x5F00, 0x540E, 0x7AEF, 0x76F4, 0x51FA, 0x7684] @ js '' OpenAPI '' @ [0x9875,
     0x9762]"

definition tv_open_api_documents :: jstr where
  "tv_open_api_documents =
     [0x6253, 0x5F00] @ js '' API '' @ [0x6587, 0x6863]"

definition tv_notifications :: jstr where
  "tv_notifications =
     [0x901A, 0x77E5]"

definition tv_notification_channels :: jstr where
  "tv_notification_channels =
     js ''Telegram / '' @ [0x98DE, 0x4E66] @ js '' / QQ / Webhook''"

definition tv_save_notifications :: jstr where
  "tv_save_notifications =
     [0x4FDD, 0x5B58, 0x901A, 0x77E5, 0x914D, 0x7F6E]"

definition tv_loading_notification_settings :: jstr where
  "tv_loading_notification_settings =
     [0x6B63, 0x5728, 0x52A0, 0x8F7D, 0x901A, 0x77E5, 0x914D, 0x7F6E, 0x2026]"

definition tv_enable_telegram_bot :: jstr where
  "tv_enable_telegram_bot =
     [0x542F, 0x7528] @ js '' Telegram '' @ [0x673A, 0x5668, 0x4EBA]"

definition tv_example_number :: jstr where
  "tv_example_number =
     [0x4F8B, 0x5982] @ js '' 123456''"

definition tv_telegram_proxy_label :: jstr where
  "tv_telegram_proxy_label =
     js ''TG API '' @ [0x53CD, 0x4EE3, 0xFF08, 0x53EF, 0x9009, 0xFF09]"

definition tv_telegram_proxy_hint :: jstr where
  "tv_telegram_proxy_hint =
     [0x7559, 0x7A7A, 0x76F4, 0x8FDE] @ js '' api.telegram.org'' @ [0xFF1B, 0x9700, 0x8981,
     0x53CD, 0x4EE3, 0x65F6, 0x586B, 0x5199]"

definition tv_telegram_proxy_form :: jstr where
  "tv_telegram_proxy_form =
     [0x53CD, 0x5411, 0x4EE3, 0x7406, 0x5730, 0x5740] @ js '' ('' @ [0x4F8B, 0x5982] @ js ''
     https://api.telegram.org/bot%s/%s)''"

definition tv_http_proxy_label :: jstr where
  "tv_http_proxy_label =
     js ''HTTP '' @ [0x4EE3, 0x7406, 0xFF08, 0x53EF, 0x9009, 0xFF09]"

definition tv_example_http_proxy :: jstr where
  "tv_example_http_proxy =
     [0x4F8B, 0x5982] @ js '' http://127.0.0.1:7890''"

definition tv_http_proxy_hint :: jstr where
  "tv_http_proxy_hint =
     [0x7528, 0x4E8E, 0x8FDE, 0x63A5] @ js '' API '' @ [0x670D, 0x52A1, 0x5668, 0x7684] @ js ''
     HTTP '' @ [0x4EE3, 0x7406]"

definition tv_feishu_bot :: jstr where
  "tv_feishu_bot =
     [0x98DE, 0x4E66] @ js '' Bot''"

definition tv_enable_feishu_bot :: jstr where
  "tv_enable_feishu_bot =
     [0x542F, 0x7528, 0x98DE, 0x4E66, 0x673A, 0x5668, 0x4EBA]"

definition tv_groups_by_comma :: jstr where
  "tv_groups_by_comma =
     [0x591A, 0x4E2A, 0x7FA4, 0x7EC4, 0x7528, 0x82F1, 0x6587, 0x9017, 0x53F7, 0x5206, 0x9694]"

definition tv_feishu_chat_id_hint :: jstr where
  "tv_feishu_chat_id_hint =
     [0x98DE, 0x4E66, 0x7FA4, 0x804A, 0x7684] @ js '' Chat ID (oc_xxxx)'' @ [0xFF0C, 0x53EF,
     0x901A, 0x8FC7, 0x98DE, 0x4E66, 0x5F00, 0x653E, 0x5E73, 0x53F0] @ js '' API '' @ [0x83B7,
     0x53D6, 0xFF0C, 0x652F, 0x6301, 0x9017, 0x53F7, 0x5206, 0x9694, 0x591A, 0x4E2A, 0x7FA4,
     0x7EC4, 0x3002]"

definition tv_setup_notes :: jstr where
  "tv_setup_notes =
     [0x914D, 0x7F6E, 0x8BF4, 0x660E, 0xFF1A]"

definition tv_at_place :: jstr where
  "tv_at_place =
     [0x5728]"

definition tv_feishu_platform :: jstr where
  "tv_feishu_platform =
     [0x98DE, 0x4E66, 0x5F00, 0x653E, 0x5E73, 0x53F0]"

definition tv_create_feishu_app :: jstr where
  "tv_create_feishu_app =
     [0x521B, 0x5EFA, 0x81EA, 0x5EFA, 0x5E94, 0x7528, 0xFF0C, 0x542F, 0x7528, 0x300C, 0x673A,
     0x5668, 0x4EBA, 0x300D, 0x80FD, 0x529B]"

definition tv_feishu_long_connection :: jstr where
  "tv_feishu_long_connection =
     [0x5728, 0x300C, 0x4E8B, 0x4EF6, 0x4E0E, 0x56DE, 0x8C03] @ js '' '' @ [0x2192] @ js '' '' @
     [0x4E8B, 0x4EF6, 0x914D, 0x7F6E, 0x300D, 0x4E2D, 0x9009, 0x62E9, 0x300C, 0x4F7F, 0x7528,
     0x957F, 0x8FDE, 0x63A5, 0x63A5, 0x6536, 0x4E8B, 0x4EF6, 0x300D]"

definition tv_add_word :: jstr where
  "tv_add_word =
     [0x6DFB, 0x52A0]"

definition tv_and_word :: jstr where
  "tv_and_word =
     [0x548C]"

definition tv_permission_word :: jstr where
  "tv_permission_word =
     [0x6743, 0x9650]"

definition tv_enable_qq_bot :: jstr where
  "tv_enable_qq_bot =
     [0x542F, 0x7528] @ js '' QQ '' @ [0x673A, 0x5668, 0x4EBA]"

definition tv_qq_group_label :: jstr where
  "tv_qq_group_label =
     js ''Group IDs ('' @ [0x7FA4, 0x804A] @ js '')''"

definition tv_qq_group_hint :: jstr where
  "tv_qq_group_hint =
     [0x7FA4, 0x804A] @ js '' OpenID'' @ [0xFF0C, 0x591A, 0x4E2A, 0x4F7F, 0x7528, 0x9017,
     0x53F7, 0x5206, 0x9694]"

definition tv_qq_user_label :: jstr where
  "tv_qq_user_label =
     js ''User IDs ('' @ [0x79C1, 0x804A] @ js '')''"

definition tv_qq_user_hint :: jstr where
  "tv_qq_user_hint =
     [0x7528, 0x6237] @ js '' OpenID'' @ [0xFF0C, 0x591A, 0x4E2A, 0x4F7F, 0x7528, 0x9017,
     0x53F7, 0x5206, 0x9694]"

definition tv_qq_apply_address :: jstr where
  "tv_qq_apply_address =
     js ''QQbot'' @ [0x7533, 0x8BF7, 0x5730, 0x5740, 0xFF1A]"

definition tv_official_console :: jstr where
  "tv_official_console =
     [0x5B98, 0x65B9, 0x63A7, 0x5236, 0x53F0]"

definition tv_qq_openid_hint :: jstr where
  "tv_qq_openid_hint =
     [0x5411, 0x673A, 0x5668, 0x4EBA, 0x53D1, 0x9001, 0x6D88, 0x606F, 0x540E, 0xFF0C, 0x53BB,
     0x7CFB, 0x7EDF, 0x65E5, 0x5FD7, 0x67E5, 0x770B] @ js '' OpenID'' @ [0xFF0C, 0x586B, 0x5165,
     0x540E] @ js '' Bot '' @ [0x53EA, 0x5BF9, 0x5339, 0x914D, 0x7684, 0x4F1A, 0x8BDD, 0x8FDB,
     0x884C, 0x56DE, 0x590D, 0x548C, 0x63A8, 0x9001, 0x3002]"

definition tv_enable_bark :: jstr where
  "tv_enable_bark =
     [0x542F, 0x7528] @ js '' Bark '' @ [0x63A8, 0x9001]"

definition tv_test_notification :: jstr where
  "tv_test_notification =
     [0x6D4B, 0x8BD5, 0x901A, 0x77E5]"

definition tv_target_urls :: jstr where
  "tv_target_urls =
     [0x76EE, 0x6807] @ js '' URLs''"

definition tv_add_url :: jstr where
  "tv_add_url =
     [0x6DFB, 0x52A0] @ js '' URL''"

definition tv_no_bark_url :: jstr where
  "tv_no_bark_url =
     [0x5C1A, 0x672A, 0x914D, 0x7F6E, 0x4EFB, 0x4F55] @ js '' Bark URL'' @ [0xFF0C, 0x70B9,
     0x51FB, 0x53F3, 0x4FA7, 0x6DFB, 0x52A0, 0x6309, 0x94AE, 0x3002]"

definition tv_bark_group_label :: jstr where
  "tv_bark_group_label =
     [0x5206, 0x7EC4] @ js '' (Group)''"

definition tv_example_vohive :: jstr where
  "tv_example_vohive =
     [0x4F8B, 0x5982] @ js '' vohive''"

definition tv_bark_group_hint :: jstr where
  "tv_bark_group_hint =
     js ''iOS '' @ [0x8BBE, 0x5907, 0x4E0A, 0x7684, 0x901A, 0x77E5, 0x5206, 0x7EC4, 0x3002]"

definition tv_bark_level_label :: jstr where
  "tv_bark_level_label =
     [0x901A, 0x77E5, 0x7EA7, 0x522B] @ js '' (Level)''"

definition tv_choose_level :: jstr where
  "tv_choose_level =
     [0x9009, 0x62E9, 0x901A, 0x77E5, 0x7EA7, 0x522B]"

definition tv_level_time_sensitive :: jstr where
  "tv_level_time_sensitive =
     [0x65F6, 0x6548, 0x6027] @ js '' (timeSensitive)''"

definition tv_level_active :: jstr where
  "tv_level_active =
     [0x79EF, 0x6781] @ js '' (active)''"

definition tv_level_passive :: jstr where
  "tv_level_passive =
     [0x88AB, 0x52A8] @ js '' (passive)''"

definition tv_bark_level_hint :: jstr where
  "tv_bark_level_hint =
     js ''iOS '' @ [0x7684, 0x4E13, 0x6CE8, 0x6A21, 0x5F0F] @ js ''/'' @ [0x6253, 0x6270,
     0x89C4, 0x5219, 0x4F1A, 0x6839, 0x636E, 0x6B64, 0x7EA7, 0x522B, 0x51B3, 0x5B9A, 0x662F,
     0x5426, 0x4EAE, 0x5C4F, 0x3002]"

definition tv_bark_icon_label :: jstr where
  "tv_bark_icon_label =
     [0x56FE, 0x6807] @ js '' (Icon)''"

definition tv_bark_icon_hint :: jstr where
  "tv_bark_icon_hint =
     [0x56FE, 0x6807] @ js '' URL'' @ [0xFF0C, 0x53EF, 0x9009]"

definition tv_enable_email :: jstr where
  "tv_enable_email =
     [0x542F, 0x7528] @ js '' Email '' @ [0x63A8, 0x9001]"

definition tv_smtp_host :: jstr where
  "tv_smtp_host =
     js ''SMTP '' @ [0x4E3B, 0x673A]"

definition tv_smtp_port :: jstr where
  "tv_smtp_port =
     js ''SMTP '' @ [0x7AEF, 0x53E3]"

definition tv_use_ssl :: jstr where
  "tv_use_ssl =
     [0x4F7F, 0x7528] @ js '' SSL/TLS''"

definition tv_mail_user_label :: jstr where
  "tv_mail_user_label =
     [0x7528, 0x6237, 0x540D] @ js '' (Username)''"

definition tv_mail_account :: jstr where
  "tv_mail_account =
     [0x90AE, 0x7BB1, 0x8D26, 0x53F7]"

definition tv_mail_password_label :: jstr where
  "tv_mail_password_label =
     [0x5BC6, 0x7801] @ js '' (Password)''"

definition tv_mail_password_hint :: jstr where
  "tv_mail_password_hint =
     [0x90AE, 0x7BB1, 0x5BC6, 0x7801, 0x6216, 0x6388, 0x6743, 0x7801]"

definition tv_mail_from_label :: jstr where
  "tv_mail_from_label =
     [0x53D1, 0x4EF6, 0x4EBA, 0x5730, 0x5740] @ js '' (From)''"

definition tv_example_mail :: jstr where
  "tv_example_mail =
     [0x4F8B, 0x5982] @ js '' noreply@example.com''"

definition tv_mail_to_label :: jstr where
  "tv_mail_to_label =
     [0x6536, 0x4EF6, 0x4EBA, 0x5730, 0x5740] @ js '' (To)''"

definition tv_receivers_by_comma :: jstr where
  "tv_receivers_by_comma =
     [0x591A, 0x4E2A, 0x6536, 0x4EF6, 0x4EBA, 0x8BF7, 0x7528, 0x82F1, 0x6587, 0x9017, 0x53F7,
     0x5206, 0x9694]"

definition tv_enable_pushplus :: jstr where
  "tv_enable_pushplus =
     [0x542F, 0x7528] @ js '' Pushplus '' @ [0x63A8, 0x9001]"

definition tv_pushplus_token_hint :: jstr where
  "tv_pushplus_token_hint =
     js ''Pushplus '' @ [0x7528, 0x6237, 0x7684] @ js '' Token''"

definition tv_pushplus_topic_label :: jstr where
  "tv_pushplus_topic_label =
     [0x7FA4, 0x7EC4, 0x7F16, 0x7801] @ js '' (Topic)''"

definition tv_pushplus_topic_hint :: jstr where
  "tv_pushplus_topic_hint =
     [0x7FA4, 0x7EC4, 0x7F16, 0x7801, 0xFF0C, 0x4E0D, 0x586B, 0x5219, 0x53D1, 0x7ED9, 0x4E2A,
     0x4EBA]"

definition tv_pushplus_channel_label :: jstr where
  "tv_pushplus_channel_label =
     [0x6E20, 0x9053] @ js '' (Channel)''"

definition tv_choose_channel :: jstr where
  "tv_choose_channel =
     [0x9009, 0x62E9, 0x6E20, 0x9053]"

definition tv_channel_wechat :: jstr where
  "tv_channel_wechat =
     [0x5FAE, 0x4FE1] @ js '' (wechat)''"

definition tv_channel_cp :: jstr where
  "tv_channel_cp =
     [0x4F01, 0x4E1A, 0x5FAE, 0x4FE1] @ js '' (cp)''"

definition tv_channel_mail :: jstr where
  "tv_channel_mail =
     [0x90AE, 0x4EF6] @ js '' (mail)''"

definition tv_enable_webhook :: jstr where
  "tv_enable_webhook =
     [0x542F, 0x7528] @ js '' Webhook '' @ [0x63A8, 0x9001]"

definition tv_no_webhook_url :: jstr where
  "tv_no_webhook_url =
     [0x5C1A, 0x672A, 0x914D, 0x7F6E, 0x4EFB, 0x4F55] @ js '' Webhook URL'' @ [0xFF0C, 0x70B9,
     0x51FB, 0x53F3, 0x4FA7, 0x6DFB, 0x52A0, 0x6309, 0x94AE, 0x3002]"

definition tv_webhook_secret_label :: jstr where
  "tv_webhook_secret_label =
     [0x6570, 0x5B57, 0x7B7E, 0x540D, 0x5BC6, 0x94A5] @ js '' (Secret)''"

definition tv_webhook_secret_hint :: jstr where
  "tv_webhook_secret_hint =
     [0x7528, 0x4E8E] @ js '' HMAC-SHA256 '' @ [0x7B7E, 0x540D, 0xFF0C, 0x9009, 0x586B]"

definition tv_webhook_signature_hint :: jstr where
  "tv_webhook_signature_hint =
     [0x82E5, 0x914D, 0x7F6E, 0xFF0C, 0x5C06, 0x901A, 0x8FC7, 0x8BF7, 0x6C42, 0x5934] @ js ''
     X-Vohive-Signature '' @ [0x63D0, 0x4F9B] @ js '' payload '' @ [0x9A8C, 0x8BC1, 0x3002]"

definition tv_webhook_headers_label :: jstr where
  "tv_webhook_headers_label =
     [0x81EA, 0x5B9A, 0x4E49, 0x8BF7, 0x6C42, 0x5934] @ js '' (Headers)''"

definition tv_add_header :: jstr where
  "tv_add_header =
     [0x6DFB, 0x52A0] @ js '' Header''"

definition tv_no_header_yet :: jstr where
  "tv_no_header_yet =
     [0x5C1A, 0x672A, 0x914D, 0x7F6E, 0x81EA, 0x5B9A, 0x4E49, 0x8BF7, 0x6C42, 0x5934, 0xFF0C,
     0x4F8B, 0x5982] @ js '' Authorization'' @ [0x3001] @ js ''X-Api-Key '' @ [0x7B49, 0x3002]"

definition tv_choose_header_name :: jstr where
  "tv_choose_header_name =
     [0x9009, 0x62E9, 0x6216, 0x8F93, 0x5165] @ js '' Header '' @ [0x540D]"

definition tv_header_value_hint :: jstr where
  "tv_header_value_hint =
     [0x503C, 0xFF0C, 0x5982] @ js '' Bearer xxx''"

definition tv_reserved_headers :: jstr where
  "tv_reserved_headers =
     js ''Content-Type '' @ [0x4E0E] @ js '' X-Vohive-Signature '' @ [0x4E3A, 0x7CFB, 0x7EDF,
     0x4FDD, 0x7559, 0x5934, 0xFF0C, 0x81EA, 0x5B9A, 0x4E49, 0x540C, 0x540D, 0x5934, 0x4F1A,
     0x88AB, 0x5FFD, 0x7565, 0x3002]"

definition tv_text_template_label :: jstr where
  "tv_text_template_label =
     [0x6587, 0x672C, 0x6A21, 0x677F] @ js '' (Text Template)''"

definition tv_placeholders :: jstr where
  "tv_placeholders =
     [0x652F, 0x6301, 0x5360, 0x4F4D, 0x7B26, 0xFF1A]"

definition tv_list_comma :: jstr where
  "tv_list_comma =
     [0x3001]"

definition tv_empty_sends_text :: jstr where
  "tv_empty_sends_text =
     [0x3002, 0x7559, 0x7A7A, 0x5219, 0x76F4, 0x63A5, 0x53D1, 0x9001, 0x539F, 0x59CB] @ js ''
     text'' @ [0x3002]"

definition tv_request_timeout :: jstr where
  "tv_request_timeout =
     [0x8BF7, 0x6C42, 0x8D85, 0x65F6] @ js '' (ms)''"

definition tv_max_retries :: jstr where
  "tv_max_retries =
     [0x6700, 0x5927, 0x91CD, 0x8BD5, 0x6B21, 0x6570]"

definition tv_message_center :: jstr where
  "tv_message_center =
     [0x77ED, 0x4FE1, 0x4E2D, 0x5FC3]"

definition tv_messages_subtitle :: jstr where
  "tv_messages_subtitle =
     [0x6309, 0x8054, 0x7CFB, 0x4EBA, 0x805A, 0x5408, 0xFF0C, 0x70B9, 0x51FB, 0x8FDB, 0x5165,
     0x4F1A, 0x8BDD, 0x660E, 0x7EC6]"

definition tv_new_message :: jstr where
  "tv_new_message =
     [0x65B0, 0x5EFA, 0x77ED, 0x4FE1]"

definition tv_messages_load_failed :: jstr where
  "tv_messages_load_failed =
     [0x77ED, 0x4FE1, 0x52A0, 0x8F7D, 0x5931, 0x8D25]"

definition tv_device :: jstr where
  "tv_device =
     [0x8BBE, 0x5907]"

definition tv_all_devices_messages :: jstr where
  "tv_all_devices_messages =
     [0x6C47, 0x603B, 0x6240, 0x6709, 0x8BBE, 0x5907, 0x77ED, 0x4FE1]"

definition tv_search_contact :: jstr where
  "tv_search_contact =
     [0x641C, 0x7D22, 0x8054, 0x7CFB, 0x4EBA] @ js ''/'' @ [0x5185, 0x5BB9]"

definition tv_no_conversation :: jstr where
  "tv_no_conversation =
     [0x6682, 0x65E0, 0x4F1A, 0x8BDD]"

definition tv_wait_for_messages :: jstr where
  "tv_wait_for_messages =
     [0x7B49, 0x5F85, 0x8BBE, 0x5907, 0x6536, 0x5230, 0x77ED, 0x4FE1, 0x6216, 0x70B9, 0x51FB,
     0x201C, 0x65B0, 0x5EFA, 0x77ED, 0x4FE1, 0x201D]"

definition tv_delete_the_conversation_with :: jstr where
  "tv_delete_the_conversation_with =
     [0x5220, 0x9664, 0x4E0E] @ js '' ''"

definition tv_the_conversation :: jstr where
  "tv_the_conversation =
     js '' '' @ [0x7684, 0x5BF9, 0x8BDD]"

definition tv_delete_conversation :: jstr where
  "tv_delete_conversation =
     [0x5220, 0x9664, 0x5BF9, 0x8BDD]"

definition tv_back :: jstr where
  "tv_back =
     [0x8FD4, 0x56DE]"

definition tv_choose_conversation :: jstr where
  "tv_choose_conversation =
     [0x8BF7, 0x9009, 0x62E9, 0x4F1A, 0x8BDD]"

definition tv_own_number_colon :: jstr where
  "tv_own_number_colon =
     [0x672C, 0x673A, 0xFF1A]"

definition tv_device_colon :: jstr where
  "tv_device_colon =
     [0x8BBE, 0x5907, 0xFF1A]"

definition tv_newest :: jstr where
  "tv_newest =
     [0x6700, 0x65B0]"

definition tv_choose_one_conversation :: jstr where
  "tv_choose_one_conversation =
     [0x8BF7, 0x9009, 0x62E9, 0x4E00, 0x4E2A, 0x4F1A, 0x8BDD]"

definition tv_open_from_the_list :: jstr where
  "tv_open_from_the_list =
     [0x4ECE, 0x5DE6, 0x4FA7, 0x8054, 0x7CFB, 0x4EBA, 0x5217, 0x8868, 0x8FDB, 0x5165, 0x77ED,
     0x4FE1, 0x660E, 0x7EC6]"

definition tv_load_more :: jstr where
  "tv_load_more =
     [0x52A0, 0x8F7D, 0x66F4, 0x591A]"

definition tv_delete_message :: jstr where
  "tv_delete_message =
     [0x5220, 0x9664, 0x77ED, 0x4FE1] @ js '' ''"

definition tv_delete_message_short :: jstr where
  "tv_delete_message_short =
     [0x5220, 0x9664, 0x77ED, 0x4FE1]"

definition tv_sent_well :: jstr where
  "tv_sent_well =
     [0x53D1, 0x9001, 0x6210, 0x529F]"

definition tv_check_sign :: jstr where
  "tv_check_sign =
     [0x2713]"

definition tv_cross_sign :: jstr where
  "tv_cross_sign =
     [0x2717]"

definition tv_dot_about :: jstr where
  "tv_dot_about =
     [0x00B7] @ js '' '' @ [0x9884, 0x8BA1]"

definition tv_segments_dot :: jstr where
  "tv_segments_dot =
     [0x6BB5] @ js '' '' @ [0x00B7]"

definition tv_characters :: jstr where
  "tv_characters =
     [0x5B57]"

definition tv_reply_enter_sends :: jstr where
  "tv_reply_enter_sends =
     [0x56DE, 0x590D, 0xFF08] @ js ''Enter '' @ [0x53D1, 0x9001, 0xFF09]"

definition tv_send_message :: jstr where
  "tv_send_message =
     [0x53D1, 0x9001, 0x77ED, 0x4FE1]"

definition tv_sending_device :: jstr where
  "tv_sending_device =
     [0x53D1, 0x9001, 0x8BBE, 0x5907]"

definition tv_target_number :: jstr where
  "tv_target_number =
     [0x76EE, 0x6807, 0x53F7, 0x7801]"

definition tv_message_content :: jstr where
  "tv_message_content =
     [0x77ED, 0x4FE1, 0x5185, 0x5BB9]"

definition tv_enter_message :: jstr where
  "tv_enter_message =
     [0x8F93, 0x5165, 0x77ED, 0x4FE1, 0x5185, 0x5BB9] @ js ''...''"

definition tv_loading_dots :: jstr where
  "tv_loading_dots =
     [0x6B63, 0x5728, 0x52A0, 0x8F7D, 0x2026]"

definition tv_first_open_slow :: jstr where
  "tv_first_open_slow =
     [0x9996, 0x6B21, 0x6253, 0x5F00, 0x4F1A, 0x7A0D, 0x6162, 0xFF0C, 0x8D44, 0x6E90, 0x7F13,
     0x5B58, 0x540E, 0x4F1A, 0x66F4, 0x5FEB]"

end
