(* ===== verification/CommonViews.thy ===== *)
theory CommonViews
  imports View ViewTexts Panels
begin

text \<open>
  The templates of the small components every page is made of: \<open>EmptyState.vue\<close>,
  \<open>ErrorState.vue\<close>, \<open>ListSkeleton.vue\<close>, \<open>LoadingScreen.vue\<close>, \<open>PageHeader.vue\<close>,
  \<open>RefreshButton.vue\<close>, \<open>SwitchDark.vue\<close>, \<open>StatusLight.vue\<close> and \<open>FieldRow.vue\<close>. A
  view takes the props, the contents of its slots and the events of the page it is used on.
\<close>

text \<open>A symbol from the icon set.\<close>

abbreviation icon :: "string \<Rightarrow> 'e node" where
  "icon name \<equiv> Elem name [] [] []"

definition text_of :: "jstr option \<Rightarrow> jstr" where
  "text_of t = (case t of None \<Rightarrow> [] | Some x \<Rightarrow> x)"

text \<open>What \<open>{{ v }}\<close> puts on screen.\<close>

definition display :: "jsval \<Rightarrow> jstr" where
  "display v = (if nullish v then [] else to_string v)"

definition view_empty_state :: "jstr \<Rightarrow> jstr \<Rightarrow> 'e node list \<Rightarrow> 'e node list" where
  "view_empty_state title subtitle actions =
     [Text [0x2205], Text title] @ (if subtitle \<noteq> [] then [Text subtitle] else []) @ actions"

definition view_list_skeleton :: "nat \<Rightarrow> 'e node list" where
  "view_list_skeleton rows = [Elem ''el-skeleton'' [Attr ''rows'' (jint (if rows = 0 then 6 else int rows))] [] []]"

definition view_loading_screen :: "jstr \<Rightarrow> jstr \<Rightarrow> 'e node list" where
  "view_loading_screen title subtitle = [Text (js ''VH''), Text title, Text subtitle, Text (js ''loading'')]"

abbreviation default_loading_screen :: "'e node list" where
  "default_loading_screen \<equiv> view_loading_screen tv_loading_dots tv_first_open_slow"

definition view_page_header :: "jstr \<Rightarrow> jstr \<Rightarrow> 'e node list \<Rightarrow> 'e node list" where
  "view_page_header title subtitle actions =
     [Text title] @ (if subtitle \<noteq> [] then [Text subtitle] else []) @ actions"

definition view_refresh_button :: "bool \<Rightarrow> bool \<Rightarrow> (jsval \<Rightarrow> 'e option) \<Rightarrow> 'e node list" where
  "view_refresh_button loading disabled click =
     [Elem ''el-button'' [Loading loading, Disabled disabled] [(''click'', click)]
        [icon ''ArrowSync24Regular'', Text tv_refresh]]"

text \<open>The button emits the theme that is not on now.\<close>

definition view_switch_dark :: "bool \<Rightarrow> (bool \<Rightarrow> 'e) \<Rightarrow> 'e node list" where
  "view_switch_dark isDark toggle =
     [Elem ''el-button'' [] [(''click'', \<lambda>_. Some (toggle (\<not> isDark)))]
        [icon (if isDark then ''WeatherSunny24Regular'' else ''WeatherMoon24Regular'')]]"

definition view_status_light :: "tone \<Rightarrow> light_size \<Rightarrow> bool \<Rightarrow> 'e node list" where
  "view_status_light tone sz animated =
     [Elem ''span'' [Attr ''class'' (JStr (join_with (js '' '')
        [js ''rounded-full inline-block flex-shrink-0'', statusLightToneClass tone, statusLightSizeClass sz,
         statusLightAnimatedClass animated]))] [] []]"

text \<open>A click copies the value, which is the row's own affair.\<close>

definition view_field_row :: "jstr \<Rightarrow> field_row \<Rightarrow> 'e node list option \<Rightarrow> 'e node list" where
  "view_field_row label p slot =
     [Text label,
      Elem ''span''
        [Attr ''class'' (JArr [jlit (if canCopy p then ''cursor-pointer hover:underline'' else ''''),
           jlit (if fr_sensitive p then ''blur-sm select-none transition-all'' else '''')]),
         Attr ''title'' (JStr (titleValue p))] [(''click'', \<lambda>_. None)]
        (case slot of None \<Rightarrow> [Text (displayValue p)] | Some ns \<Rightarrow> ns)]"

abbreviation field_of :: "jsval \<Rightarrow> bool \<Rightarrow> bool \<Rightarrow> field_row" where
  "field_of value copyable sensitive \<equiv>
     \<lparr>fr_value = value, fr_copyable = copyable, fr_placeholder = [], fr_sensitive = sensitive\<rparr>"

definition view_error_state ::
    "(int \<Rightarrow> jstr) \<Rightarrow> jstr \<Rightarrow> jstr \<Rightarrow> jstr \<Rightarrow> error_state \<Rightarrow> jstr \<Rightarrow> (jsval \<Rightarrow> 'e option) \<Rightarrow> 'e node list" where
  "view_error_state locale_time title message details p retryText retry =
     [Text (text_else title tv_load_failed_short), Text message] @
     (if metaText locale_time p \<noteq> [] then [Text (metaText locale_time p)] else []) @
     (if details \<noteq> [] then [Text details] else []) @
     (if retryText \<noteq> [] then [Elem ''el-button'' [] [(''click'', retry)] [Text retryText]] else [])"

section \<open>What is legible\<close>

text \<open>Some elements are blurred by a class of the style sheet: their text is in the document but not legible.\<close>

definition blur :: "bool \<Rightarrow> jsval" where
  "blur hidden = jlit (if hidden then ''blur-sm select-none'' else [])"

definition is_blurred :: "attr list \<Rightarrow> bool" where
  "is_blurred ats \<longleftrightarrow>
     list_ex (\<lambda>a. case a of
         Attr name v \<Rightarrow> name = ''class'' \<and> (v = blur True \<or> jlit ''blur-sm select-none transition-all'' \<in> set (elems v))
       | _ \<Rightarrow> False) ats"

fun tip_text :: "attr \<Rightarrow> jsval list" where
  "tip_text (Attr name v) = (if name = ''class'' then [] else [v])"
| "tip_text _ = []"

fun legible :: "'e node \<Rightarrow> jsval list" where
  "legible (Text t) = [JStr t]"
| "legible (Elem tag ats on kids) =
     concat (map tip_text ats) @ (if is_blurred ats then [] else concat (map legible kids))"

definition legible_all :: "'e node list \<Rightarrow> jsval list" where
  "legible_all ns = concat (map legible ns)"

lemma legible_parts [simp]:
  "legible_all [] = []"
  "legible_all (Text t # ns) = JStr t # legible_all ns"
  "legible_all (Elem tag ats on kids # ns) =
     concat (map tip_text ats) @ (if is_blurred ats then [] else legible_all kids) @ legible_all ns"
  "legible_all (ns @ ms) = legible_all ns @ legible_all ms"
  by (simp_all add: legible_all_def)

lemma legible_concat [simp]: "legible_all (concat nss) = concat (map legible_all nss)"
  by (induction nss) simp_all

section \<open>What the user can do with them\<close>

lemma only_common [simp]:
  "only P (view_empty_state t s ns) = only P ns"
  "only P (view_list_skeleton n)"
  "only P (view_loading_screen t s)"
  "only P (view_page_header t s ns) = only P ns"
  "only P (view_status_light tn sz an)"
  "only P (view_field_row t fr None)"
  "only P (view_field_row t fr (Some ns)) = only P ns"
  by (auto simp: view_empty_state_def view_list_skeleton_def view_loading_screen_def view_page_header_def
      view_status_light_def view_field_row_def)

lemma only_buttons [simp]:
  "only P (view_refresh_button l d h) \<longleftrightarrow> (l \<or> d \<or> (\<forall>v. pred_option P (h v)))"
  "only P (view_switch_dark b tog) \<longleftrightarrow> P (tog (\<not> b))"
  "only P (view_error_state lt t m dt p r h) \<longleftrightarrow> (r \<noteq> [] \<longrightarrow> (\<forall>v. pred_option P (h v)))"
  by (auto simp: view_refresh_button_def view_switch_dark_def view_error_state_def)

end
