(* ===== verification/SettingsView.thy ===== *)
theory SettingsView
  imports SettingsPage CommonViews
begin

text \<open>
  The template of \<open>web/src/views/Settings.vue\<close> over the state of \<open>SettingsPage\<close>, and the
  page as the user drives it through what is on screen. The tab of the notification channels is a ref
  that only the template uses, so it is an argument; a bound field raises the edit of the form it belongs to.
\<close>

section \<open>Edits of the forms\<close>

definition edit_forms :: "(notification_forms \<Rightarrow> notification_forms) \<Rightarrow> settings_page \<Rightarrow> settings_event" where
  "edit_forms f s = FormsEdited (f (page_forms s))"

definition edit_telegram :: "(telegram_form \<Rightarrow> telegram_form) \<Rightarrow> settings_page \<Rightarrow> settings_event" where
  "edit_telegram f = edit_forms (nf_telegram_update f)"

definition edit_feishu :: "(feishu_form \<Rightarrow> feishu_form) \<Rightarrow> settings_page \<Rightarrow> settings_event" where
  "edit_feishu f = edit_forms (nf_feishu_update f)"

definition edit_qq :: "(qq_form \<Rightarrow> qq_form) \<Rightarrow> settings_page \<Rightarrow> settings_event" where
  "edit_qq f = edit_forms (nf_qq_update f)"

definition edit_email :: "(email_form \<Rightarrow> email_form) \<Rightarrow> settings_page \<Rightarrow> settings_event" where
  "edit_email f = edit_forms (nf_email_update f)"

definition edit_pushplus :: "(pushplus_form \<Rightarrow> pushplus_form) \<Rightarrow> settings_page \<Rightarrow> settings_event" where
  "edit_pushplus f = edit_forms (nf_pushplus_update f)"

definition edit_webhook :: "(webhook_settings \<Rightarrow> webhook_settings) \<Rightarrow> settings_page \<Rightarrow> settings_event" where
  "edit_webhook f = edit_forms (nf_webhook_update f)"

definition edit_bark :: "(bark_settings \<Rightarrow> bark_settings) \<Rightarrow> settings_page \<Rightarrow> settings_event" where
  "edit_bark f = edit_forms (nf_bark_update f)"

definition edit_password :: "(password_form \<Rightarrow> password_form) \<Rightarrow> settings_page \<Rightarrow> settings_event" where
  "edit_password f s = PasswordEdited (f (se_passwordForm (sp_store s)))"

definition COMMON_WEBHOOK_HEADERS :: "jstr list" where
  "COMMON_WEBHOOK_HEADERS = map js [''Authorization'', ''X-Api-Key'', ''X-Auth-Token'', ''X-Webhook-Token'',
     ''X-Signature'', ''X-Request-Id'', ''Accept'', ''User-Agent'']"

section \<open>The template\<close>

text \<open>The card of the password.\<close>

definition view_password ::
    "settings_page \<Rightarrow> settings_event node list" where
  "view_password s =
     [icon ''Key24Regular'', Text tv_security, Text tv_update_credentials_subtitle,
      Text tv_current_password,
      Elem ''el-input''
        [Attr ''model'' (JStr (pw_old_password (se_passwordForm (sp_store s)))),
         Attr ''type'' (jlit ''password''), Attr ''placeholder'' (JStr tv_masked_bullets)]
        [(''update'', \<lambda>v. Some (edit_password (pw_old_password_update (\<lambda>_. to_string v)) s))]
        [],
      Text tv_new_password,
      Elem ''el-input''
        [Attr ''model'' (JStr (pw_new_password (se_passwordForm (sp_store s)))),
         Attr ''type'' (jlit ''password''), Attr ''placeholder'' (JStr tv_masked_bullets)]
        [(''update'', \<lambda>v. Some (edit_password (pw_new_password_update (\<lambda>_. to_string v)) s))]
        [],
      Text tv_confirm_new_password,
      Elem ''el-input''
        [Attr ''model'' (JStr (pw_confirm_password (se_passwordForm (sp_store s)))),
         Attr ''type'' (jlit ''password''), Attr ''placeholder'' (JStr tv_masked_bullets)]
        [(''update'', \<lambda>v. Some (edit_password (pw_confirm_password_update (\<lambda>_. to_string v)) s))]
        [],
      Elem ''el-button''
        [Loading (se_changingPassword (sp_store s))]
        [(''click'', \<lambda>_. Some PasswordClicked)]
        [icon ''Save24Regular'', Text tv_update_credentials]]"

text \<open>The card of the system and its update.\<close>

definition view_system ::
    "settings_page \<Rightarrow> settings_event node list" where
  "view_system s =
     [icon ''Server24Regular'', Text tv_system_information, Text tv_runtime_environment] @
     view_field_row tv_version (field_of (jfield (se_systemInfo (sp_store s)) ''version'') False False)
       (Some ([Elem ''el-button'' [Loading (sp_checking s)] [(''click'', \<lambda>_. Some CheckClicked)]
          [Text tv_check_update],
        Text (to_string (or_else (jfield (se_systemInfo (sp_store s)) ''version'') (jlit ''Unknown'')))])) @
     (if truthy (jfield (sp_update s) ''has_update'') then
        [icon ''Alert24Regular'', Text tv_new_version_found,
         Text (to_string (jfield (sp_update s) ''latest_version'')),
         Text (to_string (or_else (jfield (sp_update s) ''release_note'') (JStr tv_no_release_note))),
         Elem ''el-button'' [Loading (sp_applying s)] [(''click'', \<lambda>_. Some ApplyClicked)]
           [Text tv_update_and_restart]]
      else []) @
     view_field_row tv_build_time (field_of (jfield (se_systemInfo (sp_store s)) ''build_time'') False False) None @
     view_field_row tv_configuration_path (field_of (jfield (se_systemInfo (sp_store s)) ''config'') True False) None @
     view_field_row tv_chat_group (field_of (jlit ''https://t.me/vohive'') True False) None @
     [icon ''DocumentText24Regular'', Text tv_api_documents, Text tv_openapi_page,
      Elem ''el-button''
        [Disabled (\<not> truthy (jfield (jfield (se_systemInfo (sp_store s)) ''docs'') ''swagger_ui''))]
        [(''click'', \<lambda>_. Some DocsClicked)]
        [icon ''DocumentText24Regular'', Text tv_open_api_documents]]"

definition view_telegram ::
    "jstr \<Rightarrow> settings_page \<Rightarrow> settings_event node list" where
  "view_telegram tab s =
     [Elem ''el-tab-pane''
        [Open (tab = js ''telegram''), Attr ''label'' (jlit ''Telegram Bot'')]
        []
        [Text tv_enable_telegram_bot,
         Elem ''el-switch''
           [Attr ''model'' (JBool (tg_enabled (nf_telegram (page_forms s))))]
           [(''update'', \<lambda>v. Some (edit_telegram (tg_enabled_update (\<lambda>_. truthy v)) s))]
           [],
         Text (js ''Bot Token''),
         Elem ''el-input''
           [Attr ''model'' (tg_bot_token (nf_telegram (page_forms s))),
            Disabled (\<not> tg_enabled (nf_telegram (page_forms s))),
            Attr ''placeholder'' (jlit ''xxxx:yyyy'')]
           [(''update'', \<lambda>v. Some (edit_telegram (tg_bot_token_update (\<lambda>_. v)) s))]
           [],
         Text (js ''Chat ID''),
         Elem ''el-input''
           [Attr ''model'' (tg_chat_id (nf_telegram (page_forms s))),
            Disabled (\<not> tg_enabled (nf_telegram (page_forms s))), Attr ''type'' (jlit ''number''),
            Attr ''placeholder'' (JStr tv_example_number)]
           [(''update'', \<lambda>v. Some (edit_telegram (tg_chat_id_update (\<lambda>_. v)) s))]
           [],
         Text (js ''Admin ID''),
         Elem ''el-input''
           [Attr ''model'' (tg_admin_id (nf_telegram (page_forms s))),
            Disabled (\<not> tg_enabled (nf_telegram (page_forms s))), Attr ''type'' (jlit ''number''),
            Attr ''placeholder'' (JStr tv_example_number)]
           [(''update'', \<lambda>v. Some (edit_telegram (tg_admin_id_update (\<lambda>_. v)) s))]
           [],
         Text tv_telegram_proxy_label,
         Elem ''el-input''
           [Attr ''model'' (tg_base_url (nf_telegram (page_forms s))),
            Disabled (\<not> tg_enabled (nf_telegram (page_forms s))),
            Attr ''placeholder'' (JStr tv_telegram_proxy_hint)]
           [(''update'', \<lambda>v. Some (edit_telegram (tg_base_url_update (\<lambda>_. v)) s))]
           [],
         Text tv_telegram_proxy_form, Text tv_http_proxy_label,
         Elem ''el-input''
           [Attr ''model'' (tg_proxy (nf_telegram (page_forms s))),
            Disabled (\<not> tg_enabled (nf_telegram (page_forms s))),
            Attr ''placeholder'' (JStr tv_example_http_proxy)]
           [(''update'', \<lambda>v. Some (edit_telegram (tg_proxy_update (\<lambda>_. v)) s))]
           [],
         Text tv_http_proxy_hint]]"

definition view_feishu ::
    "jstr \<Rightarrow> settings_page \<Rightarrow> settings_event node list" where
  "view_feishu tab s =
     [Elem ''el-tab-pane'' [Open (tab = js ''feishu''), Attr ''label'' (JStr tv_feishu_bot)] []
        [Text tv_enable_feishu_bot,
         Elem ''el-switch''
           [Attr ''model'' (JBool (fs_enabled (nf_feishu (page_forms s))))]
           [(''update'', \<lambda>v. Some (edit_feishu (fs_enabled_update (\<lambda>_. truthy v)) s))]
           [],
         Text (js ''App ID''),
         Elem ''el-input''
           [Attr ''model'' (fs_app_id (nf_feishu (page_forms s))),
            Disabled (\<not> fs_enabled (nf_feishu (page_forms s))),
            Attr ''placeholder'' (jlit ''cli_xxxx'')]
           [(''update'', \<lambda>v. Some (edit_feishu (fs_app_id_update (\<lambda>_. v)) s))]
           [],
         Text (js ''App Secret''),
         Elem ''el-input''
           [Attr ''model'' (fs_app_secret (nf_feishu (page_forms s))),
            Disabled (\<not> fs_enabled (nf_feishu (page_forms s))), Attr ''type'' (jlit ''password''),
            Attr ''placeholder'' (JStr tv_masked_bullets)]
           [(''update'', \<lambda>v. Some (edit_feishu (fs_app_secret_update (\<lambda>_. v)) s))]
           [],
         Text (js ''Chat IDs''),
         Elem ''el-input''
           [Attr ''model'' (JStr (fs_chat_ids (nf_feishu (page_forms s)))),
            Disabled (\<not> fs_enabled (nf_feishu (page_forms s))),
            Attr ''placeholder'' (JStr tv_groups_by_comma)]
           [(''update'', \<lambda>v. Some (edit_feishu (fs_chat_ids_update (\<lambda>_. to_string v)) s))]
           [],
         Text tv_feishu_chat_id_hint, Text tv_setup_notes, Text tv_at_place,
         Elem ''a'' [Attr ''href'' (jlit ''https://open.feishu.cn'')] [] [Text tv_feishu_platform],
         Text tv_create_feishu_app, Text tv_feishu_long_connection, Text tv_add_word,
         Text (js ''im:message''), Text tv_and_word, Text (js ''im:message:send_as_bot''),
         Text tv_permission_word]]"

definition view_qq ::
    "jstr \<Rightarrow> settings_page \<Rightarrow> settings_event node list" where
  "view_qq tab s =
     [Elem ''el-tab-pane'' [Open (tab = js ''qq''), Attr ''label'' (jlit ''QQ Bot'')] []
        [Text tv_enable_qq_bot,
         Elem ''el-switch''
           [Attr ''model'' (JBool (qq_enabled (nf_qq (page_forms s))))]
           [(''update'', \<lambda>v. Some (edit_qq (qq_enabled_update (\<lambda>_. truthy v)) s))]
           [],
         Text (js ''App ID''),
         Elem ''el-input''
           [Attr ''model'' (qq_app_id (nf_qq (page_forms s))),
            Disabled (\<not> qq_enabled (nf_qq (page_forms s))),
            Attr ''placeholder'' (jlit ''QQ Bot App ID'')]
           [(''update'', \<lambda>v. Some (edit_qq (qq_app_id_update (\<lambda>_. v)) s))]
           [],
         Text (js ''App Secret''),
         Elem ''el-input''
           [Attr ''model'' (qq_app_secret (nf_qq (page_forms s))),
            Disabled (\<not> qq_enabled (nf_qq (page_forms s))), Attr ''type'' (jlit ''password''),
            Attr ''placeholder'' (JStr tv_masked_bullets)]
           [(''update'', \<lambda>v. Some (edit_qq (qq_app_secret_update (\<lambda>_. v)) s))]
           [],
         Text tv_qq_group_label,
         Elem ''el-input''
           [Attr ''model'' (qq_group_ids (nf_qq (page_forms s))),
            Disabled (\<not> qq_enabled (nf_qq (page_forms s))),
            Attr ''placeholder'' (JStr tv_qq_group_hint)]
           [(''update'', \<lambda>v. Some (edit_qq (qq_group_ids_update (\<lambda>_. v)) s))]
           [],
         Text tv_qq_user_label,
         Elem ''el-input''
           [Attr ''model'' (qq_direct_ids (nf_qq (page_forms s))),
            Disabled (\<not> qq_enabled (nf_qq (page_forms s))),
            Attr ''placeholder'' (JStr tv_qq_user_hint)]
           [(''update'', \<lambda>v. Some (edit_qq (qq_direct_ids_update (\<lambda>_. v)) s))]
           [],
         Text tv_qq_apply_address,
         Elem ''a'' [Attr ''href'' (jlit ''https://q.qq.com/qqbot/openclaw/index.html'')] []
           [Text tv_official_console],
         Text tv_qq_openid_hint]]"

definition view_bark ::
    "jstr \<Rightarrow> settings_page \<Rightarrow> settings_event node list" where
  "view_bark tab s =
     [Elem ''el-tab-pane'' [Open (tab = js ''bark''), Attr ''label'' (jlit ''Bark'')] []
        ([Text tv_enable_bark,
         Elem ''el-button''
           [Loading (se_testingBark (sp_store s)),
            Disabled (\<not> bk_enabled (nf_bark (page_forms s)) \<or> \<not> hasValidBarkURLs s)]
           [(''click'', \<lambda>_. Some BarkTestClicked)]
           [Text tv_test_notification],
         Elem ''el-switch''
           [Attr ''model'' (JBool (bk_enabled (nf_bark (page_forms s))))]
           [(''update'', \<lambda>v. Some (edit_bark (bk_enabled_update (\<lambda>_. truthy v)) s))]
           [],
         Text tv_target_urls,
         Elem ''el-button''
           [Disabled (\<not> bk_enabled (nf_bark (page_forms s)))]
           [(''click'', \<lambda>_. Some BarkUrlAdded)]
           [icon ''Add20Regular'', Text tv_add_url]] @
        (if bk_urls (nf_bark (page_forms s)) = [] then
           [Text tv_no_bark_url]
         else []) @
        concat (map (\<lambda>(index, url).
           [Elem ''el-input''
              [Attr ''model'' url, Disabled (\<not> bk_enabled (nf_bark (page_forms s))),
               Attr ''placeholder'' (jlit ''https://api.day.app/YOUR_KEY/'')]
              [(''update'', \<lambda>v. Some (edit_bark (\<lambda>b. b\<lparr>bk_urls := (bk_urls b)[index := v]\<rparr>) s))]
              [],
            Elem ''el-button''
              [Disabled (\<not> bk_enabled (nf_bark (page_forms s)))]
              [(''click'', \<lambda>_. Some (BarkUrlRemoved index))]
              [icon ''Delete20Regular'']])
          (List.enumerate 0 (bk_urls (nf_bark (page_forms s))))) @
        [Text tv_bark_group_label,
         Elem ''el-input''
           [Attr ''model'' (bk_group (nf_bark (page_forms s))),
            Disabled (\<not> bk_enabled (nf_bark (page_forms s))),
            Attr ''placeholder'' (JStr tv_example_vohive)]
           [(''update'', \<lambda>v. Some (edit_bark (bk_group_update (\<lambda>_. v)) s))]
           [],
         Text tv_bark_group_hint, Text tv_bark_level_label,
         Elem ''el-select''
           [Attr ''model'' (bk_level (nf_bark (page_forms s))),
            Disabled (\<not> bk_enabled (nf_bark (page_forms s))),
            Attr ''placeholder'' (JStr tv_choose_level)]
           [(''update'', \<lambda>v. Some (edit_bark (bk_level_update (\<lambda>_. v)) s))]
           [Elem ''el-option''
              [Attr ''label'' (JStr tv_level_time_sensitive), Attr ''value'' (jlit ''timeSensitive'')]
              []
              [],
            Elem ''el-option''
              [Attr ''label'' (JStr tv_level_active), Attr ''value'' (jlit ''active'')]
              []
              [],
            Elem ''el-option''
              [Attr ''label'' (JStr tv_level_passive), Attr ''value'' (jlit ''passive'')]
              []
              []],
         Text tv_bark_level_hint, Text tv_bark_icon_label,
         Elem ''el-input''
           [Attr ''model'' (bk_icon (nf_bark (page_forms s))),
            Disabled (\<not> bk_enabled (nf_bark (page_forms s))),
            Attr ''placeholder'' (JStr tv_bark_icon_hint)]
           [(''update'', \<lambda>v. Some (edit_bark (bk_icon_update (\<lambda>_. v)) s))]
           []])]"

definition view_email ::
    "jstr \<Rightarrow> settings_page \<Rightarrow> settings_event node list" where
  "view_email tab s =
     [Elem ''el-tab-pane'' [Open (tab = js ''email''), Attr ''label'' (jlit ''Email'')] []
        [Text tv_enable_email,
         Elem ''el-button''
           [Loading (se_testingEmail (sp_store s)),
            Disabled (\<not> em_enabled (nf_email (page_forms s)) \<or> \<not> hasValidEmailConfig s)]
           [(''click'', \<lambda>_. Some EmailTestClicked)]
           [Text tv_test_notification],
         Elem ''el-switch''
           [Attr ''model'' (JBool (em_enabled (nf_email (page_forms s))))]
           [(''update'', \<lambda>v. Some (edit_email (em_enabled_update (\<lambda>_. truthy v)) s))]
           [],
         Text tv_smtp_host,
         Elem ''el-input''
           [Attr ''model'' (em_smtp_host (nf_email (page_forms s))),
            Disabled (\<not> em_enabled (nf_email (page_forms s))),
            Attr ''placeholder'' (jlit ''smtp.example.com'')]
           [(''update'', \<lambda>v. Some (edit_email (em_smtp_host_update (\<lambda>_. v)) s))]
           [],
         Text tv_smtp_port,
         Elem ''el-input''
           [Attr ''model'' (em_smtp_port (nf_email (page_forms s))),
            Disabled (\<not> em_enabled (nf_email (page_forms s))), Attr ''type'' (jlit ''number''),
            Attr ''placeholder'' (jlit ''465 / 587'')]
           [(''update'', \<lambda>v. Some (edit_email (em_smtp_port_update (\<lambda>_. v)) s))]
           [],
         Text tv_use_ssl,
         Elem ''el-switch''
           [Attr ''model'' (JBool (em_use_ssl (nf_email (page_forms s)))),
            Disabled (\<not> em_enabled (nf_email (page_forms s)))]
           [(''update'', \<lambda>v. Some (edit_email (em_use_ssl_update (\<lambda>_. truthy v)) s))]
           [],
         Text tv_mail_user_label,
         Elem ''el-input''
           [Attr ''model'' (em_username (nf_email (page_forms s))),
            Disabled (\<not> em_enabled (nf_email (page_forms s))),
            Attr ''placeholder'' (JStr tv_mail_account)]
           [(''update'', \<lambda>v. Some (edit_email (em_username_update (\<lambda>_. v)) s))]
           [],
         Text tv_mail_password_label,
         Elem ''el-input''
           [Attr ''model'' (em_password (nf_email (page_forms s))),
            Disabled (\<not> em_enabled (nf_email (page_forms s))), Attr ''type'' (jlit ''password''),
            Attr ''placeholder'' (JStr tv_mail_password_hint)]
           [(''update'', \<lambda>v. Some (edit_email (em_password_update (\<lambda>_. v)) s))]
           [],
         Text tv_mail_from_label,
         Elem ''el-input''
           [Attr ''model'' (em_from_address (nf_email (page_forms s))),
            Disabled (\<not> em_enabled (nf_email (page_forms s))),
            Attr ''placeholder'' (JStr tv_example_mail)]
           [(''update'', \<lambda>v. Some (edit_email (em_from_address_update (\<lambda>_. v)) s))]
           [],
         Text tv_mail_to_label,
         Elem ''el-input''
           [Attr ''model'' (JStr (em_to_addresses (nf_email (page_forms s)))),
            Disabled (\<not> em_enabled (nf_email (page_forms s))),
            Attr ''placeholder'' (JStr tv_receivers_by_comma)]
           [(''update'', \<lambda>v. Some (edit_email (em_to_addresses_update (\<lambda>_. to_string v)) s))]
           []]]"

definition view_pushplus ::
    "jstr \<Rightarrow> settings_page \<Rightarrow> settings_event node list" where
  "view_pushplus tab s =
     [Elem ''el-tab-pane'' [Open (tab = js ''pushplus''), Attr ''label'' (jlit ''Pushplus'')] []
        [Text tv_enable_pushplus,
         Elem ''el-switch''
           [Attr ''model'' (JBool (pp_enabled (nf_pushplus (page_forms s))))]
           [(''update'', \<lambda>v. Some (edit_pushplus (pp_enabled_update (\<lambda>_. truthy v)) s))]
           [],
         Text (js ''Token''),
         Elem ''el-input''
           [Attr ''model'' (pp_token (nf_pushplus (page_forms s))),
            Disabled (\<not> pp_enabled (nf_pushplus (page_forms s))),
            Attr ''placeholder'' (JStr tv_pushplus_token_hint)]
           [(''update'', \<lambda>v. Some (edit_pushplus (pp_token_update (\<lambda>_. v)) s))]
           [],
         Text tv_pushplus_topic_label,
         Elem ''el-input''
           [Attr ''model'' (pp_topic (nf_pushplus (page_forms s))),
            Disabled (\<not> pp_enabled (nf_pushplus (page_forms s))),
            Attr ''placeholder'' (JStr tv_pushplus_topic_hint)]
           [(''update'', \<lambda>v. Some (edit_pushplus (pp_topic_update (\<lambda>_. v)) s))]
           [],
         Text tv_pushplus_channel_label,
         Elem ''el-select''
           [Attr ''model'' (pp_channel (nf_pushplus (page_forms s))),
            Disabled (\<not> pp_enabled (nf_pushplus (page_forms s))),
            Attr ''placeholder'' (JStr tv_choose_channel)]
           [(''update'', \<lambda>v. Some (edit_pushplus (pp_channel_update (\<lambda>_. v)) s))]
           [Elem ''el-option''
              [Attr ''label'' (JStr tv_channel_wechat), Attr ''value'' (jlit ''wechat'')]
              []
              [],
            Elem ''el-option''
              [Attr ''label'' (jlit ''Webhook (webhook)''), Attr ''value'' (jlit ''webhook'')]
              []
              [],
            Elem ''el-option'' [Attr ''label'' (JStr tv_channel_cp), Attr ''value'' (jlit ''cp'')] [] [],
            Elem ''el-option''
              [Attr ''label'' (JStr tv_channel_mail), Attr ''value'' (jlit ''mail'')]
              []
              []]]]"

definition view_webhook ::
    "jstr \<Rightarrow> settings_page \<Rightarrow> settings_event node list" where
  "view_webhook tab s =
     [Elem ''el-tab-pane'' [Open (tab = js ''webhook''), Attr ''label'' (jlit ''Webhook'')] []
        ([Text tv_enable_webhook,
         Elem ''el-button''
           [Loading (se_testingWebhook (sp_store s)),
            Disabled (\<not> wh_enabled (nf_webhook (page_forms s)) \<or> \<not> hasValidWebhookURLs s)]
           [(''click'', \<lambda>_. Some WebhookTestClicked)]
           [Text tv_test_notification],
         Elem ''el-switch''
           [Attr ''model'' (JBool (wh_enabled (nf_webhook (page_forms s))))]
           [(''update'', \<lambda>v. Some (edit_webhook (wh_enabled_update (\<lambda>_. truthy v)) s))]
           [],
         Text tv_target_urls,
         Elem ''el-button''
           [Disabled (\<not> wh_enabled (nf_webhook (page_forms s)))]
           [(''click'', \<lambda>_. Some WebhookUrlAdded)]
           [icon ''Add20Regular'', Text tv_add_url]] @
        (if wh_urls (nf_webhook (page_forms s)) = [] then
           [Text tv_no_webhook_url]
         else []) @
        concat (map (\<lambda>(index, url).
           [Elem ''el-input''
              [Attr ''model'' url, Disabled (\<not> wh_enabled (nf_webhook (page_forms s))),
               Attr ''placeholder'' (jlit ''https://...'')]
              [(''update'', \<lambda>v. Some (edit_webhook (\<lambda>w. w\<lparr>wh_urls := (wh_urls w)[index := v]\<rparr>) s))]
              [],
            Elem ''el-button''
              [Disabled (\<not> wh_enabled (nf_webhook (page_forms s)))]
              [(''click'', \<lambda>_. Some (WebhookUrlRemoved index))]
              [icon ''Delete20Regular'']])
          (List.enumerate 0 (wh_urls (nf_webhook (page_forms s))))) @
        [Text tv_webhook_secret_label,
         Elem ''el-input''
           [Attr ''model'' (wh_secret (nf_webhook (page_forms s))),
            Disabled (\<not> wh_enabled (nf_webhook (page_forms s))),
            Attr ''placeholder'' (JStr tv_webhook_secret_hint)]
           [(''update'', \<lambda>v. Some (edit_webhook (wh_secret_update (\<lambda>_. v)) s))]
           [],
         Text tv_webhook_signature_hint, Text tv_webhook_headers_label,
         Elem ''el-button''
           [Disabled (\<not> wh_enabled (nf_webhook (page_forms s)))]
           [(''click'', \<lambda>_. Some HeaderAdded)]
           [icon ''Add20Regular'', Text tv_add_header]] @
        (if sp_rows s = [] then
           [Text tv_no_header_yet]
         else []) @
        concat (map (\<lambda>(index, row).
           [Elem ''el-select''
              [Attr ''model'' (hr_key row), Disabled (\<not> wh_enabled (nf_webhook (page_forms s))),
               Attr ''placeholder'' (JStr tv_choose_header_name)]
              [(''update'', \<lambda>v. Some (HeaderEdited index v (hr_value row)))]
              (concat (map (\<lambda>name.
                 [Elem ''el-option'' [Attr ''label'' (JStr name), Attr ''value'' (JStr name)] [] []])
                COMMON_WEBHOOK_HEADERS)),
            Elem ''el-input''
              [Attr ''model'' (hr_value row), Disabled (\<not> wh_enabled (nf_webhook (page_forms s))),
               Attr ''placeholder'' (JStr tv_header_value_hint)]
              [(''update'', \<lambda>v. Some (HeaderEdited index (hr_key row) v))]
              [],
            Elem ''el-button''
              [Disabled (\<not> wh_enabled (nf_webhook (page_forms s)))]
              [(''click'', \<lambda>_. Some (HeaderRemoved index))]
              [icon ''Delete20Regular'']])
          (List.enumerate 0 (sp_rows s))) @
        [Text tv_reserved_headers, Text tv_text_template_label,
         Elem ''el-input''
           [Attr ''model'' (wh_text_template (nf_webhook (page_forms s))),
            Disabled (\<not> wh_enabled (nf_webhook (page_forms s))), Attr ''type'' (jlit ''textarea''),
            Attr ''rows'' (jint 2), Attr ''placeholder'' (jlit ''{{device_label}} {{text}}'')]
           [(''update'', \<lambda>v. Some (edit_webhook (wh_text_template_update (\<lambda>_. v)) s))]
           [],
         Text tv_placeholders, Text (js ''{{text}}''), Text tv_list_comma, Text (js ''{{event}}''),
         Text tv_list_comma, Text (js ''{{timestamp}}''), Text tv_list_comma,
         Text (js ''{{device_id}}''), Text tv_list_comma, Text (js ''{{device_name}}''),
         Text tv_list_comma, Text (js ''{{device_label}}''), Text tv_empty_sends_text,
         Text tv_request_timeout,
         Elem ''el-input-number''
           [Attr ''model'' (wh_timeout_ms (nf_webhook (page_forms s))), Attr ''min'' (jint 1000),
            Attr ''max'' (jint 60000), Disabled (\<not> wh_enabled (nf_webhook (page_forms s)))]
           [(''update'', \<lambda>v. Some (edit_webhook (wh_timeout_ms_update (\<lambda>_. v)) s))]
           [],
         Text tv_max_retries,
         Elem ''el-input-number''
           [Attr ''model'' (wh_retry_max (nf_webhook (page_forms s))), Attr ''min'' (jint 0),
            Attr ''max'' (jint 10), Disabled (\<not> wh_enabled (nf_webhook (page_forms s)))]
           [(''update'', \<lambda>v. Some (edit_webhook (wh_retry_max_update (\<lambda>_. v)) s))]
           []])]"

definition view_settings ::
    "jstr \<Rightarrow> settings_page \<Rightarrow> settings_event node list" where
  "view_settings tab s =
     view_page_header tv_system_settings tv_settings_subtitle [] @
     view_password s @
     view_system s @
     [icon ''Alert24Regular'', Text tv_notifications, Text tv_notification_channels,
      Elem ''el-button''
        [Loading (se_savingNotifications (sp_store s)),
         Disabled (se_loadingNotifications (sp_store s))]
        [(''click'', \<lambda>_. Some SaveClicked)]
        [icon ''Save24Regular'', Text tv_save_notifications]] @
     (if se_loadingNotifications (sp_store s) then
        [Text tv_loading_notification_settings]
      else
        [Elem ''el-tabs'' [Attr ''model'' (JStr tab)] [(''update'', \<lambda>_. None)]
           (view_telegram tab s @
           view_feishu tab s @
           view_qq tab s @
           view_bark tab s @
           view_email tab s @
           view_pushplus tab s @
           view_webhook tab s)])"

lemmas settings_views = view_settings_def view_password_def view_system_def view_telegram_def view_feishu_def view_qq_def
  view_bark_def view_email_def view_pushplus_def view_webhook_def

lemmas settings_edits = edit_telegram_def edit_feishu_def edit_qq_def edit_email_def edit_pushplus_def edit_webhook_def
  edit_bark_def edit_password_def edit_forms_def

section \<open>The page as it is used\<close>

text \<open>The requests that stand behind a busy mark. The first loads run once, and the update has its own
  question in front of it.\<close>

datatype settings_call = SaveCall | WebhookTestCall | BarkTestCall | EmailTestCall | PasswordCall | CheckCall

fun settings_asks :: "settings_event \<Rightarrow> settings_page \<Rightarrow> settings_call option" where
  "settings_asks SaveClicked s = Some SaveCall"
| "settings_asks WebhookTestClicked s = Some WebhookTestCall"
| "settings_asks BarkTestClicked s = Some BarkTestCall"
| "settings_asks EmailTestClicked s = Some EmailTestCall"
| "settings_asks PasswordClicked s =
     (if pw_new_password (se_passwordForm (sp_store s)) \<noteq> pw_confirm_password (se_passwordForm (sp_store s)) then None
      else Some PasswordCall)"
| "settings_asks CheckClicked s = Some CheckCall"
| "settings_asks _ s = None"

fun settings_answers :: "settings_event \<Rightarrow> settings_call option" where
  "settings_answers (SaveCame now r) = Some SaveCall"
| "settings_answers (WebhookTestCame now r) = Some WebhookTestCall"
| "settings_answers (BarkTestCame now r) = Some BarkTestCall"
| "settings_answers (EmailTestCame now r) = Some EmailTestCall"
| "settings_answers (PasswordCame now r) = Some PasswordCall"
| "settings_answers (CheckCame r) = Some CheckCall"
| "settings_answers _ = None"

fun settings_mark :: "settings_call \<Rightarrow> settings_page \<Rightarrow> bool" where
  "settings_mark SaveCall s = se_savingNotifications (sp_store s)"
| "settings_mark WebhookTestCall s = se_testingWebhook (sp_store s)"
| "settings_mark BarkTestCall s = se_testingBark (sp_store s)"
| "settings_mark EmailTestCall s = se_testingEmail (sp_store s)"
| "settings_mark PasswordCall s = se_changingPassword (sp_store s)"
| "settings_mark CheckCall s = sp_checking s"

fun settings_environment :: "settings_event \<Rightarrow> bool" where
  "settings_environment PageOpened = True"
| "settings_environment (InfoCame now r) = True"
| "settings_environment (NotificationsCame now r) = True"
| "settings_environment (ApplyAnswered c) = True"
| "settings_environment (ApplyCame r) = True"
| "settings_environment _ = False"

definition settings_offered :: "settings_page \<Rightarrow> settings_event \<Rightarrow> bool" where
  "settings_offered s e \<longleftrightarrow> (\<exists>tab. user_can (view_settings tab s) e)"

lemma settings_only_free: "only (\<lambda>e. \<forall>k. settings_asks e s = Some k \<longrightarrow> \<not> settings_mark k s) (view_settings tab s)"
  unfolding settings_views by (auto simp: settings_edits)

lemma port_marks: "settings_mark k (watch_port b s) = settings_mark k s"
  by (cases k) (simp_all add: watch_port_def Let_def page_writes)

interpretation settings_ui: guarded_page settings_offered settings_environment "\<lambda>e s. settings_step s e"
    settings_asks settings_answers settings_mark
proof unfold_locales
  fix s e k
  show "settings_offered s e \<Longrightarrow> settings_asks e s = Some k \<Longrightarrow> \<not> settings_mark k s"
    using only_user [OF settings_only_free] unfolding settings_offered_def by blast
  show "settings_environment e \<Longrightarrow> settings_asks e s = None"
    by (cases e) simp_all
  show "settings_asks e s = Some k \<Longrightarrow> settings_mark k (settings_step s e)"
    by (cases e) (auto simp: settings_step_def port_marks settings_handler_defs page_writes settings_action_defs Let_def split: if_splits)
  show "settings_answers e = Some k \<Longrightarrow> \<not> settings_mark k (settings_step s e)"
    by (cases e) (auto simp: settings_step_def port_marks settings_handler_defs page_writes settings_action_defs Let_def
        split: service_result.split sum.split)
  show "settings_asks e s \<noteq> Some k \<Longrightarrow> settings_answers e \<noteq> Some k \<Longrightarrow>
      settings_mark k (settings_step s e) = settings_mark k s"
    by (cases e; cases k) (auto simp: settings_step_def port_marks settings_handler_defs page_writes settings_action_defs Let_def
        addWebhookHeader_def removeWebhookHeader_def edit_header_def watch_rows_def syncWebhookHeaderRowsFromSettings_def
        split: service_result.split sum.split option.split if_splits)
  show "settings_answers e = Some k \<Longrightarrow> settings_asks e s = None"
    by (cases e) simp_all
qed

lemma save_offered:
  "user_can (view_settings tab s) SaveClicked \<longleftrightarrow> \<not> se_savingNotifications (sp_store s) \<and> \<not> se_loadingNotifications (sp_store s)"
  unfolding user_can_only settings_views by (auto simp: settings_edits split: if_splits)

section \<open>Secrets on screen\<close>

text \<open>The page with the passwords and the application secrets taken out.\<close>

definition hide_secrets :: "settings_page \<Rightarrow> settings_page" where
  "hide_secrets = on_store (\<lambda>st. st\<lparr>se_passwordForm := DEFAULT_PASSWORD_FORM,
     se_forms := (se_forms st)\<lparr>nf_feishu := (nf_feishu (se_forms st))\<lparr>fs_app_secret := blank\<rparr>,
       nf_qq := (nf_qq (se_forms st))\<lparr>qq_app_secret := blank\<rparr>,
       nf_email := (nf_email (se_forms st))\<lparr>em_password := blank\<rparr>\<rparr>\<rparr>)"

text \<open>The bot's token and the key of the webhook's signature are not among them: they can be read on the page.\<close>

lemma telegram_token_readable:
  "tg_bot_token (nf_telegram (page_forms s)) \<in> set (readable_all (view_telegram tab s))"
  by (simp add: view_telegram_def is_password_def js_def)

lemma webhook_secret_readable:
  "wh_secret (nf_webhook (page_forms s)) \<in> set (readable_all (view_webhook tab s))"
  by (simp add: view_webhook_def is_password_def js_def)

section \<open>Properties\<close>

text \<open>C33. On the settings page as it is drawn, whatever the user clicks and in whatever order the answers come,
  at most one save, one test of each channel, one change of the password and one check for an update are under
  way, the mark of each says exactly whether it is, and the save button can be used exactly when no save is
  under way and the settings are not being loaded.\<close>

theorem settings_calls_single:
  assumes "driven settings_offered settings_environment (\<lambda>e s. settings_step s e) settings_asks settings_answers
    (\<lambda>s. \<exists>st. s = mounted_page st \<and> (\<forall>k. \<not> settings_mark k s)) s pending"
  shows "pending k \<le> 1 \<and> (settings_mark k s \<longleftrightarrow> pending k = 1) \<and>
    (user_can (view_settings tab s) SaveClicked \<longleftrightarrow> pending SaveCall = 0 \<and> \<not> se_loadingNotifications (sp_store s))"
proof -
  have marked: "pending j = (if settings_mark j s then 1 else 0)" for j
    using assms by (rule settings_ui.pending_marked) blast
  show ?thesis using marked [of SaveCall] by (simp add: marked [of k] save_offered)
qed

theorem settings_calls_single_witness:
  "\<not> user_can (view_settings (js ''qq'') (settings_step (mounted_page initial_settings) SaveClicked)) SaveClicked"
proof -
  let ?open = "\<lambda>s. \<exists>st. s = mounted_page st \<and> (\<forall>k. \<not> settings_mark k s)"
  have idle: "\<not> settings_mark k (mounted_page initial_settings)" for k
    by (cases k) (simp_all add: mounted_page_def initial_settings_def)
  have "settings_offered (mounted_page initial_settings) SaveClicked"
    by (simp add: settings_offered_def save_offered mounted_page_def initial_settings_def)
  then have "driven settings_offered settings_environment (\<lambda>e s. settings_step s e) settings_asks settings_answers ?open
      (settings_step (mounted_page initial_settings) SaveClicked) ((\<lambda>_. 0)(SaveCall := 1))"
    using driven.used [OF driven.opened [of ?open "mounted_page initial_settings"], of settings_offered SaveClicked
        settings_environment settings_answers "\<lambda>e s. settings_step s e" settings_asks] idle by auto
  from settings_calls_single [OF this] show ?thesis by simp
qed

text \<open>The passwords typed on the settings page, the application secrets of Feishu and QQ and the password of
  the mail account cannot be read on the page: whatever they are, every text and every readable field
  of the page is the same as if they were empty.\<close>

lemma secrets_masked:
  "readable_all (view_settings tab s) = readable_all (view_settings tab (hide_secrets s))"
  unfolding settings_views view_field_row_def view_page_header_def by (simp add: is_password_def hide_secrets_def on_store_def comp_def case_prod_unfold)

end
