(* ===== verification/ProxyView.thy ===== *)
theory ProxyView
  imports ProxyPage CommonViews
begin

text \<open>
  The template of \<open>web/src/views/Proxy.vue\<close> over the state of \<open>ProxyPage\<close> and the two proxy
  stores, with the page as one system of events: what the user does to it, the questions, and the answers
  of the server. The page notes the requests it sends. The devices of the select are those of the store.
\<close>

section \<open>The page as a whole\<close>

record proxies_page =
  pv_tab :: jstr
  pv_out :: proxy_page
  pv_up :: upstream_page
  pv_store :: proxy_store
  pv_upstream :: upstream_store

datatype proxies_event =
    TabChosen jstr
  | NewInstance int
  | EditInstance proxy_instance
  | InstanceEdited proxy_instance
  | InstanceSaved
  | InstanceDrawer bool
  | ActionClicked instance_action jstr
  | DeleteClicked jstr
  | OutboundRetry
  | NewUpstream
  | EditUpstream upstream_form
  | UpstreamEdited upstream_form
  | UpstreamSaved
  | UpstreamDrawer bool
  | UpstreamDeleteClicked jstr
  | UpstreamRetry
  | RulesOpened jstr
  | CountryPicked jstr
  | RuleSaved
  | RuleDeleteClicked jstr
  | RuleDrawer bool

datatype proxies_request =
    FetchOverview | SaveInstances "proxy_instance list" | InstanceAction instance_action jstr | GetInstance jstr
  | FetchUpstream | SendUpstream upstream_request | PutRule jstr jstr | DeleteRule jstr
  | AskDelete jstr | AskUpstreamDelete jstr

definition on_out :: "(proxy_page \<Rightarrow> proxy_page) \<Rightarrow> proxies_page \<Rightarrow> proxies_page" where
  "on_out f s = s\<lparr>pv_out := f (pv_out s)\<rparr>"

definition on_up :: "(upstream_page \<Rightarrow> upstream_page) \<Rightarrow> proxies_page \<Rightarrow> proxies_page" where
  "on_up f s = s\<lparr>pv_up := f (pv_up s)\<rparr>"

text \<open>What the user's event does at once, and the requests and questions that follow. Saving the form sends
  the instances it has put into the list, if it has.\<close>

definition save_requests :: "proxy_page \<Rightarrow> proxies_request list" where
  "save_requests s = map SaveInstances (drop (length (pp_sent s)) (pp_sent (saveForm s)))"

fun proxies_use :: "proxies_event \<Rightarrow> proxies_page \<Rightarrow> proxies_page \<times> proxies_request list" where
  "proxies_use (TabChosen t) s = (s\<lparr>pv_tab := t\<rparr>, [])"
| "proxies_use (NewInstance now) s = (on_out (openDrawer_new now) s, [])"
| "proxies_use (EditInstance i) s = (on_out (openDrawer i) s, [GetInstance (pi_id i)])"
| "proxies_use (InstanceEdited f) s = (on_out (put_form f) s, [])"
| "proxies_use InstanceSaved s = (on_out saveForm s, save_requests (pv_out s))"
| "proxies_use (InstanceDrawer b) s = (on_out (\<lambda>p. p\<lparr>pp_drawerOpen := b\<rparr>) s, [])"
| "proxies_use (ActionClicked a k) s = (s, [InstanceAction a k])"
| "proxies_use (DeleteClicked k) s = (s, [AskDelete k])"
| "proxies_use OutboundRetry s = (on_out (pp_fetchOverview PlainLoad) s, [FetchOverview])"
| "proxies_use NewUpstream s = (on_up (openUpstreamDrawer None) s, [])"
| "proxies_use (EditUpstream f) s = (on_up (openUpstreamDrawer (Some f)) s, [])"
| "proxies_use (UpstreamEdited f) s = (on_up (\<lambda>u. u\<lparr>ug_form := f\<rparr>) s, [])"
| "proxies_use UpstreamSaved s =
     (case saveUpstreamForm (pv_up s) of (u, r) \<Rightarrow> (s\<lparr>pv_up := u\<rparr>, map SendUpstream (case r of None \<Rightarrow> [] | Some q \<Rightarrow> [q])))"
| "proxies_use (UpstreamDrawer b) s = (on_up (\<lambda>u. u\<lparr>ug_drawerOpen := b\<rparr>) s, [])"
| "proxies_use (UpstreamDeleteClicked k) s = (s, [AskUpstreamDelete k])"
| "proxies_use UpstreamRetry s = (on_up (fetchUpstream PlainLoad) s, [FetchUpstream])"
| "proxies_use (RulesOpened k) s = (on_up (openCountryRuleDrawer k) s, [])"
| "proxies_use (CountryPicked c) s = (on_up (\<lambda>u. u\<lparr>ug_country := c\<rparr>) s, [])"
| "proxies_use RuleSaved s =
     (case doUpsertCountryRule (pv_up s) of (u, r) \<Rightarrow>
        (s\<lparr>pv_up := u\<rparr>, case r of None \<Rightarrow> [] | Some (c, p) \<Rightarrow> [PutRule c p]))"
| "proxies_use (RuleDeleteClicked c) s = (s, [DeleteRule c])"
| "proxies_use (RuleDrawer b) s = (on_up (\<lambda>u. u\<lparr>ug_ruleDrawerOpen := b\<rparr>) s, [])"

section \<open>What the template computes\<close>

text \<open>A proxy of the store as the form takes it.\<close>

definition upstream_of :: "jsval \<Rightarrow> upstream_form" where
  "upstream_of p = \<lparr>uf_id = text_or_empty (jfield p ''id''), uf_name = text_or_empty (jfield p ''name''),
     uf_addr = text_or_empty (jfield p ''addr''), uf_username = text_or_empty (jfield p ''username''),
     uf_password = jstr_of (jfield p ''password''), uf_enabled = truthy (jfield p ''enabled'')\<rparr>"

definition instance_error :: "proxy_store \<Rightarrow> proxy_instance \<Rightarrow> jsval" where
  "instance_error st i = (case statusMap st (pi_id i) of None \<Rightarrow> JUndef | Some v \<Rightarrow> jfield v ''last_error'')"

text \<open>\<open>devices.find(d => d.id === inst.device_id)?.name || inst.device_id\<close>.\<close>

definition bound_device :: "proxy_store \<Rightarrow> proxy_instance \<Rightarrow> jstr" where
  "bound_device st i =
     (let name = (case find (\<lambda>d. jfield d ''id'' = JStr (pi_device_id i)) (elems (px_devices st)) of
                    None \<Rightarrow> JUndef | Some d \<Rightarrow> jfield d ''name'')
      in to_string (or_else name (JStr (pi_device_id i))))"

definition device_option :: "jsval \<Rightarrow> jstr" where
  "device_option d = to_string (jfield d ''name'') @ js '' ('' @ to_string (jfield d ''interface'') @ js '')''"

definition target_name :: "proxies_page \<Rightarrow> jstr" where
  "target_name s =
     (case ug_target (pv_up s) of None \<Rightarrow> []
      | Some k \<Rightarrow> (case find (\<lambda>p. jfield p ''id'' = JStr k) (elems (up_proxies (pv_upstream s))) of
                     None \<Rightarrow> k | Some p \<Rightarrow> to_string (or_else (jfield p ''name'') (JStr k))))"

definition modeOptions :: "(jstr \<times> jstr) list" where
  "modeOptions = [(js ''SOCKS5'', js ''socks5''), (js ''HTTP'', js ''http'')]"

definition port_of :: "jsval \<Rightarrow> int" where
  "port_of v = (case to_number v of Fin r \<Rightarrow> \<lfloor>r\<rfloor> | _ \<Rightarrow> 0)"

definition country_texts :: "jsval \<Rightarrow> jstr list" where
  "country_texts c = map to_string (elems (jfield c ''mccs''))"

abbreviation country_code :: "jsval \<Rightarrow> jstr" where
  "country_code c \<equiv> text_or_empty (jfield c ''country_code'')"

abbreviation country_name :: "jsval \<Rightarrow> jstr" where
  "country_name c \<equiv> text_or_empty (jfield c ''country_name'')"

abbreviation tag_type :: "bool \<Rightarrow> string \<Rightarrow> string \<Rightarrow> jsval" where
  "tag_type c a b \<equiv> jlit (if c then a else b)"

section \<open>The template\<close>

text \<open>A row of the list of upstream proxies.\<close>

definition view_upstream ::
    "jsval \<Rightarrow> nat \<Rightarrow> proxies_event node list" where
  "view_upstream proxy ruleCount =
     [Elem ''span''
        [Attr ''class'' (jlit (if truthy (jfield proxy ''enabled'') then ''bg-green-500'' else ''bg-gray-300''))]
        []
        [],
      Text (to_string (or_else (jfield proxy ''name'') (jfield proxy ''id''))),
      Text (js ''Socks5 '' @ [0x00B7]), Text (to_string (jfield proxy ''addr''))] @
     (if truthy (jfield proxy ''username'') then
        [Text tv_dot_credentials, Text (to_string (jfield proxy ''username''))]
      else []) @
     [Elem ''el-tag''
        [Attr ''type'' (tag_type (truthy (jfield proxy ''enabled'')) ''success'' ''info'')]
        []
        [Text (if truthy (jfield proxy ''enabled'') then tx_enabled else tx_disabled)],
      icon ''Link24Regular'', Text (show_nat ruleCount), Text tv_country_rules_counted,
      Elem ''el-button''
        []
        [(''click'', \<lambda>_. Some (RulesOpened (text_or_empty (jfield proxy ''id''))))]
        [icon ''Link24Regular'', Text tv_country_rules],
      Elem ''el-button'' [] [(''click'', \<lambda>_. Some (EditUpstream (upstream_of proxy)))]
        [icon ''Edit24Regular''],
      Elem ''el-button''
        []
        [(''click'', \<lambda>_. Some (UpstreamDeleteClicked (text_or_empty (jfield proxy ''id''))))]
        [icon ''Delete24Regular'']]"

text \<open>The list of the upstream proxies.\<close>

definition view_upstreams ::
    "proxies_page \<Rightarrow> proxies_event node list" where
  "view_upstreams s =
     [Elem ''div'' [Open (pv_tab s = js ''upstream'')] []
        ((if lm_error (ug_marks (pv_up s)) \<noteq> None then
           view_error_state (\<lambda>_. []) tx_upstream_load_failed (fst (the (lm_error (ug_marks (pv_up s))))) []
             \<lparr>es_statusCode = snd (the (lm_error (ug_marks (pv_up s)))), es_requestMethod = [],
                  es_requestUrl = [], es_lastSuccessAt = None\<rparr>
             tv_retry (\<lambda>_. Some UpstreamRetry)
         else []) @
        [icon ''Earth24Regular'', Text tv_vowifi_roaming_proxy, Text tv_upstream_explanation,
         Elem ''el-button'' [] [(''click'', \<lambda>_. Some NewUpstream)]
           [icon ''Add24Regular'', Text tv_new_proxy]] @
        (if lm_first (ug_marks (pv_up s)) \<and> elems (up_proxies (pv_upstream s)) = [] then
           view_list_skeleton 2
         else if elems (up_proxies (pv_upstream s)) = [] then
           view_empty_state tv_no_upstream_proxy tv_create_upstream_first []
         else
           concat (map (\<lambda>(proxy, ruleCount). view_upstream proxy ruleCount) (upstreamProxiesWithRuleCount (pv_upstream s)))))]"

text \<open>A row of the list of instances.\<close>

definition view_instance ::
    "proxies_page \<Rightarrow> proxy_instance \<Rightarrow> proxies_event node list" where
  "view_instance s inst =
     [Elem ''span''
        [Attr ''class'' (jlit (if instance_running (pv_store s) inst then ''bg-green-500'' else ''bg-gray-300''))]
        []
        [],
      Text (text_else (pi_name inst) (pi_id inst)), Text (formatModeLabel (pi_mode inst)),
      Text [0x00B7], Text (pi_listen_addr inst), Text (js '':''),
      Text (show_int (pi_listen_port inst)), Text tv_dot_bound_to,
      Text (bound_device (pv_store s) inst)] @
     (if truthy (instance_error (pv_store s) inst) then
        [Text (to_string (instance_error (pv_store s) inst))]
      else []) @
     [Elem ''el-tag'' [Attr ''type'' (tag_type (pi_enabled inst) ''success'' ''info'')] []
        [Text (if pi_enabled inst then tx_enable else tx_disable)],
      Elem ''el-tag''
        [Attr ''type'' (tag_type (instance_running (pv_store s) inst) ''success'' ''danger'')]
        []
        [Text (if instance_running (pv_store s) inst then tv_running else tx_stopped)],
      Elem ''el-tag'' [] [] [Text (formatModeLabel (pi_mode inst))],
      Elem ''el-tag'' [Attr ''type'' (tag_type (pi_auth_enabled inst) ''warning'' ''info'')] []
        [Text (if pi_auth_enabled inst then tv_with_account else tv_without_account)]] @
     (if \<not> instance_running (pv_store s) inst then
        [Elem ''el-button''
           [Disabled (\<not> pi_enabled inst)]
           [(''click'', \<lambda>_. Some (ActionClicked StartInstance (pi_id inst)))]
           [icon ''Play24Regular'']]
      else []) @
     (if instance_running (pv_store s) inst then
        [Elem ''el-button''
           []
           [(''click'', \<lambda>_. Some (ActionClicked StopInstance (pi_id inst)))]
           [icon ''Stop24Regular'']]
      else []) @
     [Elem ''el-button''
        [Disabled (\<not> pi_enabled inst)]
        [(''click'', \<lambda>_. Some (ActionClicked RestartInstance (pi_id inst)))]
        [icon ''ArrowSync24Regular''],
      Elem ''el-button'' [] [(''click'', \<lambda>_. Some (EditInstance inst))]
        [icon ''Edit24Regular''],
      Elem ''el-button'' [] [(''click'', \<lambda>_. Some (DeleteClicked (pi_id inst)))]
        [icon ''Delete24Regular'']]"

text \<open>The list of the outbound instances.\<close>

definition view_instances ::
    "int \<Rightarrow> proxies_page \<Rightarrow> proxies_event node list" where
  "view_instances now s =
     [Elem ''div'' [Open (pv_tab s = js ''outbound'')] []
        ((if lm_error (pp_marks (pv_out s)) \<noteq> None then
           view_error_state (\<lambda>_. []) tx_proxy_load_failed (fst (the (lm_error (pp_marks (pv_out s))))) []
             \<lparr>es_statusCode = snd (the (lm_error (pp_marks (pv_out s)))), es_requestMethod = [],
                  es_requestUrl = [], es_lastSuccessAt = None\<rparr>
             tv_retry (\<lambda>_. Some OutboundRetry)
         else []) @
        [icon ''Router24Regular'', Text tv_local_outbound_instances, Text tv_instances_explanation,
         Elem ''el-button'' [] [(''click'', \<lambda>_. Some (NewInstance now))]
           [icon ''Add24Regular'', Text tv_new_instance]] @
        (if lm_first (pp_marks (pv_out s)) \<and> pp_instances (pv_out s) = [] then
           view_list_skeleton 3
         else if pp_instances (pv_out s) = [] then
           view_empty_state tv_no_instance tv_create_instance_first []
         else
           concat (map (\<lambda>inst. view_instance s inst) (pp_instances (pv_out s)))))]"

definition view_instance_form ::
    "proxies_page \<Rightarrow> proxies_event node list" where
  "view_instance_form s =
     [Elem ''el-drawer''
        [Open (pp_drawerOpen (pv_out s)),
         Attr ''title'' (JStr (if pp_editing (pv_out s) \<noteq> None then tv_edit_instance else tv_create_instance))]
        [(''update'', \<lambda>v. Some (InstanceDrawer (truthy v)))]
        ([Text tv_basic_settings, Text tv_instance_id,
         Elem ''el-input''
           [Attr ''model'' (JStr (pi_id (pp_form (pv_out s)))),
            Disabled (pp_editing (pv_out s) \<noteq> None), Attr ''placeholder'' (JStr tv_unique_id)]
           [(''update'', \<lambda>v. Some (InstanceEdited ((pp_form (pv_out s))\<lparr>pi_id := to_string v\<rparr>)))]
           [],
         Text tv_name,
         Elem ''el-input''
           [Attr ''model'' (JStr (pi_name (pp_form (pv_out s)))),
            Attr ''placeholder'' (JStr tv_display_name)]
           [(''update'', \<lambda>v. Some (InstanceEdited ((pp_form (pv_out s))\<lparr>pi_name := to_string v\<rparr>)))]
           [],
         Text tv_bound_device_required,
         Elem ''el-select''
           [Attr ''model'' (JStr (pi_device_id (pp_form (pv_out s)))),
            Attr ''placeholder'' (JStr tv_choose_a_device)]
           [(''update'', \<lambda>v. Some (InstanceEdited ((pp_form (pv_out s))\<lparr>pi_device_id := to_string v\<rparr>)))]
           (concat (map (\<lambda>d.
              [Elem ''el-option''
                 [Attr ''label'' (JStr (device_option d)), Attr ''value'' (jfield d ''id'')]
                 []
                 []])
             (elems (px_devices (pv_store s))))),
         Text tv_proxy_mode,
         Elem ''el-select''
           [Attr ''model'' (JStr (pi_mode (pp_form (pv_out s)))),
            Attr ''placeholder'' (JStr tv_choose_proxy_mode)]
           [(''update'', \<lambda>v. Some (InstanceEdited ((pp_form (pv_out s))\<lparr>pi_mode := to_string v\<rparr>)))]
           (concat (map (\<lambda>(label, value).
              [Elem ''el-option'' [Attr ''label'' (JStr label), Attr ''value'' (JStr value)] [] []])
             modeOptions)),
         Text tv_listen_address,
         Elem ''el-input''
           [Attr ''model'' (JStr (pi_listen_addr (pp_form (pv_out s)))),
            Attr ''placeholder'' (jlit ''0.0.0.0'')]
           [(''update'', \<lambda>v. Some (InstanceEdited ((pp_form (pv_out s))\<lparr>pi_listen_addr := to_string v\<rparr>)))]
           [],
         Text tv_listen_port,
         Elem ''el-input-number''
           [Attr ''model'' (jint (pi_listen_port (pp_form (pv_out s)))), Attr ''min'' (jint 1),
            Attr ''max'' (jint 65535)]
           [(''update'', \<lambda>v. Some (InstanceEdited ((pp_form (pv_out s))\<lparr>pi_listen_port := port_of v\<rparr>)))]
           [],
         Text tv_enable_instance, Text tv_not_started_when_off,
         Elem ''el-switch''
           [Attr ''model'' (JBool (pi_enabled (pp_form (pv_out s))))]
           [(''update'', \<lambda>v. Some (InstanceEdited ((pp_form (pv_out s))\<lparr>pi_enabled := truthy v\<rparr>)))]
           [],
         Text tv_credential_settings, Text tv_enable_credentials, Text tv_open_when_off,
         Elem ''el-switch''
           [Attr ''model'' (JBool (pi_auth_enabled (pp_form (pv_out s))))]
           [(''update'', \<lambda>v. Some (InstanceEdited ((pp_form (pv_out s))\<lparr>pi_auth_enabled := truthy v\<rparr>)))]
           []] @
        (if pi_auth_enabled (pp_form (pv_out s)) then
           [Text tv_user_name,
            Elem ''el-input''
              [Attr ''model'' (JStr (pi_username (pp_form (pv_out s)))),
               Attr ''placeholder'' (JStr tv_example_user01)]
              [(''update'', \<lambda>v. Some (InstanceEdited ((pp_form (pv_out s))\<lparr>pi_username := to_string v\<rparr>)))]
              [],
            Text tv_password,
            Elem ''el-input''
              [Attr ''model'' (JStr (case pi_password (pp_form (pv_out s)) of None \<Rightarrow> [] | Some w \<Rightarrow> w)),
               Attr ''type'' (jlit ''password''), Attr ''placeholder'' (JStr tv_enter_password)]
              [(''update'', \<lambda>v. Some (InstanceEdited ((pp_form (pv_out s))\<lparr>pi_password := Some (to_string v)\<rparr>)))]
              []]
         else []) @
        [Elem ''el-button'' [] [(''click'', \<lambda>_. Some (InstanceDrawer False))]
           [Text tv_cancel],
         Elem ''el-button'' [] [(''click'', \<lambda>_. Some InstanceSaved)] [Text tv_save]])]"

definition view_upstream_form ::
    "proxies_page \<Rightarrow> proxies_event node list" where
  "view_upstream_form s =
     [Elem ''el-drawer''
        [Open (ug_drawerOpen (pv_up s)),
         Attr ''title'' (JStr (if ug_editing (pv_up s) then tv_edit_upstream else tv_create_upstream))]
        [(''update'', \<lambda>v. Some (UpstreamDrawer (truthy v)))]
        [Text tv_proxy_information, Text tv_proxy_id,
         Elem ''el-input''
           [Attr ''model'' (JStr (uf_id (ug_form (pv_up s)))), Disabled (ug_editing (pv_up s)),
            Attr ''placeholder'' (JStr tv_unique_id_example)]
           [(''update'', \<lambda>v. Some (UpstreamEdited ((ug_form (pv_up s))\<lparr>uf_id := to_string v\<rparr>)))]
           [],
         Text tv_name,
         Elem ''el-input''
           [Attr ''model'' (JStr (uf_name (ug_form (pv_up s)))),
            Attr ''placeholder'' (JStr tv_name_example_japan)]
           [(''update'', \<lambda>v. Some (UpstreamEdited ((ug_form (pv_up s))\<lparr>uf_name := to_string v\<rparr>)))]
           [],
         Text tv_socks5_address,
         Elem ''el-input''
           [Attr ''model'' (JStr (uf_addr (ug_form (pv_up s)))),
            Attr ''placeholder'' (JStr tv_socks5_address_example)]
           [(''update'', \<lambda>v. Some (UpstreamEdited ((ug_form (pv_up s))\<lparr>uf_addr := to_string v\<rparr>)))]
           [],
         Text tv_vowifi_through_proxy, Text tx_ipv6_hint, Text tv_probed_when_saved,
         Text tv_enable_proxy, Text tv_rules_direct_when_off,
         Elem ''el-switch''
           [Attr ''model'' (JBool (uf_enabled (ug_form (pv_up s))))]
           [(''update'', \<lambda>v. Some (UpstreamEdited ((ug_form (pv_up s))\<lparr>uf_enabled := truthy v\<rparr>)))]
           [],
         Text tv_credentials_optional, Text tv_user_name,
         Elem ''el-input''
           [Attr ''model'' (JStr (uf_username (ug_form (pv_up s)))),
            Attr ''placeholder'' (JStr tv_empty_no_credentials)]
           [(''update'', \<lambda>v. Some (UpstreamEdited ((ug_form (pv_up s))\<lparr>uf_username := to_string v\<rparr>)))]
           [],
         Text tv_password,
         Elem ''el-input''
           [Attr ''model'' (JStr (case uf_password (ug_form (pv_up s)) of None \<Rightarrow> [] | Some w \<Rightarrow> w)),
            Attr ''type'' (jlit ''password''), Attr ''placeholder'' (JStr tv_empty_no_credentials)]
           [(''update'', \<lambda>v. Some (UpstreamEdited ((ug_form (pv_up s))\<lparr>uf_password := Some (to_string v)\<rparr>)))]
           [],
         Text tv_empty_keeps_password,
         Elem ''el-button'' [] [(''click'', \<lambda>_. Some (UpstreamDrawer False))]
           [Text tv_cancel],
         Elem ''el-button'' [] [(''click'', \<lambda>_. Some UpstreamSaved)]
           [Text (if ug_editing (pv_up s) then tv_update else tv_create)]]]"

definition view_rules ::
    "proxies_page \<Rightarrow> proxies_event node list" where
  "view_rules s =
     [Elem ''el-drawer''
        [Open (ug_ruleDrawerOpen (pv_up s)),
         Attr ''title'' (JStr (tv_country_rules_dash @ target_name s))]
        [(''update'', \<lambda>v. Some (RuleDrawer (truthy v)))]
        ([Text tv_countries_routed_here] @
        (if currentProxyCountryRules (pv_upstream s) (pv_up s) = [] then
           view_empty_state tv_no_country_rule tv_other_countries_direct []
         else
           concat (map (\<lambda>rule.
              [Text (ur_country_code rule), Text [0x00B7],
               Text (text_else (ur_country_name rule) (ur_country_code rule)), Text (js ''MCC''),
               Text (text_else (join_with (js ''/'') (ur_mccs rule)) (js ''-'')),
               Elem ''el-button''
                 []
                 [(''click'', \<lambda>_. Some (RuleDeleteClicked (ur_country_code rule)))]
                 [Text tv_delete_rule]])
             (currentProxyCountryRules (pv_upstream s) (pv_up s)))) @
        [Text tv_add_country_rule,
         Elem ''el-select''
           [Attr ''model'' (JStr (ug_country (pv_up s))),
            Attr ''placeholder'' (JStr tv_choose_a_country)]
           [(''update'', \<lambda>v. Some (CountryPicked (to_string v)))]
           (concat (map (\<lambda>country.
              [Elem ''el-option''
                 [Attr ''label'' (JStr (formatCountryLabel (country_code country) (country_name country) (country_texts country))),
                  Attr ''value'' (jfield country ''country_code'')]
                 []
                 ([Text (country_code country), Text [0x00B7],
                  Text (text_else (country_name country) (country_code country))] @
                 (if map_option ur_upstream_proxy_id (getRuleForCountry (country_code country) (pv_upstream s)) = ug_target (pv_up s) then
                    [Elem ''el-tag'' [] [] [Text tv_configured]]
                  else []) @
                 [Text (js ''MCC''), Text (join_with (js ''/'') (country_texts country))])])
             (availableCountries (pv_upstream s) (pv_up s)))),
         Elem ''el-button''
           [Disabled (ug_country (pv_up s) = [])]
           [(''click'', \<lambda>_. Some RuleSaved)]
           [icon ''Link24Regular'', Text tv_save_rule],
         Elem ''el-alert'' [] [] [Text tv_rules_explanation]])]"

definition view_proxies ::
    "int \<Rightarrow> proxies_page \<Rightarrow> proxies_event node list" where
  "view_proxies now s =
     view_page_header tv_proxy_management tv_proxy_subtitle [] @
     [Elem ''el-tabs''
        [Attr ''model'' (JStr (pv_tab s))]
        [(''update'', \<lambda>v. Some (TabChosen (to_string v)))]
        [Elem ''el-tab-pane'' [Attr ''name'' (jlit ''upstream'')] []
           ([icon ''Earth24Regular'', Text tv_roaming_upstream_proxy] @
           (if elems (up_proxies (pv_upstream s)) \<noteq> [] then
              [Text (show_nat (length (elems (up_proxies (pv_upstream s)))))]
            else [])),
         Elem ''el-tab-pane'' [Attr ''name'' (jlit ''outbound'')] []
           ([icon ''Router24Regular'', Text tv_local_outbound_proxy] @
           (if pp_instances (pv_out s) \<noteq> [] then
              [Text (show_nat (length (pp_instances (pv_out s))))]
            else []))]] @
     view_upstreams s @
     view_instances now s @
     view_instance_form s @
     view_upstream_form s @
     view_rules s"

lemmas proxies_views = view_proxies_def view_upstreams_def view_upstream_def view_instances_def view_instance_def
  view_instance_form_def view_upstream_form_def view_rules_def

section \<open>Actions and statuses\<close>

text \<open>When a button of an instance is there to be clicked.\<close>

fun action_fits :: "instance_action \<Rightarrow> proxy_store \<Rightarrow> proxy_instance \<Rightarrow> bool" where
  "action_fits StartInstance st i \<longleftrightarrow> pi_enabled i \<and> \<not> instance_running st i"
| "action_fits StopInstance st i \<longleftrightarrow> instance_running st i"
| "action_fits RestartInstance st i \<longleftrightarrow> pi_enabled i"

lemma row_offers:
  "user_can (view_instance s i) (ActionClicked a k) \<longleftrightarrow> pi_id i = k \<and> action_fits a (pv_store s) i"
  unfolding user_can_only view_instance_def by (cases a) auto

lemma rest_offers_no_action:
  "only (\<lambda>e. e \<noteq> ActionClicked a k) (view_upstreams s)" "only (\<lambda>e. e \<noteq> ActionClicked a k) (view_instance_form s)"
  "only (\<lambda>e. e \<noteq> ActionClicked a k) (view_upstream_form s)" "only (\<lambda>e. e \<noteq> ActionClicked a k) (view_rules s)"
  unfolding view_upstreams_def view_upstream_def view_instance_form_def view_upstream_form_def view_rules_def by auto

lemma list_offers:
  "user_can (view_instances now s) (ActionClicked a k) \<longleftrightarrow>
     pv_tab s = js ''outbound'' \<and> (\<exists>i\<in>set (pp_instances (pv_out s)). user_can (view_instance s i) (ActionClicked a k))"
  unfolding user_can_only view_instances_def by auto

section \<open>A form that can be sent twice\<close>

text \<open>The form of an upstream proxy stays open and its button free until the answer is there: a second click
  asks the server to create the same proxy again.\<close>

lemma upstream_created_twice:
  assumes "saveUpstreamForm (pv_up s) = (pv_up s, Some (CreateUpstream f))" and "ug_drawerOpen (pv_up s)"
  shows "proxies_use UpstreamSaved s = (s, [SendUpstream (CreateUpstream f)]) \<and>
    user_can (view_proxies now (fst (proxies_use UpstreamSaved s))) UpstreamSaved"
proof -
  have "\<not> only (\<lambda>e. e \<noteq> UpstreamSaved) (view_upstream_form s)"
    using assms(2) unfolding view_upstream_form_def by simp
  then have "user_can (view_proxies now s) UpstreamSaved" unfolding user_can_only view_proxies_def by simp
  then show ?thesis using assms(1) by simp
qed

section \<open>Passwords\<close>

definition no_password :: "proxy_instance \<Rightarrow> proxy_instance" where
  "no_password i = i\<lparr>pi_password := None\<rparr>"

definition without_passwords :: "proxies_page \<Rightarrow> proxies_page" where
  "without_passwords s =
     s\<lparr>pv_out := (pv_out s)\<lparr>pp_form := no_password (pp_form (pv_out s)), pp_instances := map no_password (pp_instances (pv_out s))\<rparr>,
       pv_up := (pv_up s)\<lparr>ug_form := (ug_form (pv_up s))\<lparr>uf_password := None\<rparr>\<rparr>\<rparr>"

lemma without_passwords_keeps:
  "pp_instances (pv_out (without_passwords s)) = map no_password (pp_instances (pv_out s))"
  "pv_store (without_passwords s) = pv_store s" "pv_upstream (without_passwords s) = pv_upstream s"
  "pv_tab (without_passwords s) = pv_tab s"
  "pp_marks (pv_out (without_passwords s)) = pp_marks (pv_out s)" "ug_marks (pv_up (without_passwords s)) = ug_marks (pv_up s)"
  by (simp_all add: without_passwords_def)

lemma row_readable: "readable_all (view_instance (without_passwords s) (no_password i)) = readable_all (view_instance s i)"
  unfolding view_instance_def
  by (simp add: no_password_def instance_running_def instance_error_def bound_device_def without_passwords_keeps)

lemma lists_readable:
  "readable_all (view_instances now (without_passwords s)) = readable_all (view_instances now s)"
  "readable_all (view_upstreams (without_passwords s)) = readable_all (view_upstreams s)"
  unfolding view_instances_def view_upstreams_def
  by (simp_all add: without_passwords_keeps row_readable comp_def view_empty_state_def view_list_skeleton_def view_error_state_def)

lemma rules_kept:
  "target_name (without_passwords s) = target_name s"
  "currentProxyCountryRules st (pv_up (without_passwords s)) = currentProxyCountryRules st (pv_up s)"
  "availableCountries st (pv_up (without_passwords s)) = availableCountries st (pv_up s)"
  "ug_target (pv_up (without_passwords s)) = ug_target (pv_up s)" "ug_country (pv_up (without_passwords s)) = ug_country (pv_up s)"
  by (simp_all add: target_name_def currentProxyCountryRules_def availableCountries_def without_passwords_def split: option.split)

lemma forms_readable:
  "readable_all (view_instance_form (without_passwords s)) = readable_all (view_instance_form s)"
  "readable_all (view_upstream_form (without_passwords s)) = readable_all (view_upstream_form s)"
  unfolding view_instance_form_def view_upstream_form_def
  by (simp_all add: without_passwords_def is_password_def no_password_def)

lemma rules_readable: "readable_all (view_rules (without_passwords s)) = readable_all (view_rules s)"
  unfolding view_rules_def without_passwords_keeps rules_kept
  by (simp add: view_empty_state_def)

section \<open>Properties\<close>


end
