(* ===== verification/SmsPageView.thy ===== *)
theory SmsPageView
  imports SmsActions CommonViews
begin

text \<open>
  The template of \<open>web/src/views/Sms.vue\<close> over the state of \<open>SmsActions\<close>: the device column,
  the list of conversations, the conversation, the action sheet and the dialog for a new message. Times as
  texts come from the browser, so they are fields of an argument. The events are those of the page.
\<close>

section \<open>What the template computes\<close>

record sms_env =
  se_clockText :: "int \<Rightarrow> jstr"
  se_localeTime :: "int \<Rightarrow> jstr"
  se_timeText :: "jstr \<Rightarrow> jstr"
  se_dateMs :: clock
  se_localDate :: calendar

text \<open>A pointer event: its kind and position; a number that is missing reads as 0.\<close>

definition coordinate :: "jsval \<Rightarrow> string \<Rightarrow> rat" where
  "coordinate e k = (case jfield e k of JNum (Fin r) \<Rightarrow> r | _ \<Rightarrow> 0)"

definition pointer_of :: "jsval \<Rightarrow> pointer" where
  "pointer_of e = (jfield e ''pointerType'' = jlit ''mouse'', coordinate e ''clientX'', coordinate e ''clientY'')"

text \<open>\<open>t.localPhone || t.lastDeviceName\<close>.\<close>

definition own_side :: "sms_thread \<Rightarrow> jstr" where
  "own_side t = text_else (th_localPhone t) (text_of (th_lastDeviceName t))"

definition detail_subtitle :: "sms_view \<Rightarrow> jstr" where
  "detail_subtitle v =
     (if sv_selectedDevice v = js ''all'' then
        (case selectedThread v of
           None \<Rightarrow> tx_all_devices
         | Some t \<Rightarrow> if own_side t \<noteq> [] then tv_own_number_colon @ own_side t else tx_all_devices)
      else tv_device_colon @ sv_selectedDevice v)"

definition encoding_text :: "encoding \<Rightarrow> jstr" where
  "encoding_text e = (case e of GSM7 \<Rightarrow> js ''GSM7'' | UCS2 \<Rightarrow> js ''UCS2'')"

section \<open>The template\<close>

definition view_device_column ::
    "sms_page \<Rightarrow> sms_page_event node list" where
  "view_device_column s =
     [Text tv_device] @
     concat (map (\<lambda>(ident, label, healthy).
        [Elem ''button''
           []
           [(''click'', \<lambda>_. Some (OnView (PickDevice (to_string ident) True False)))]
           ([Text (to_string label),
            Text (if ident = jlit ''all'' then tv_all_devices_messages else to_string ident)] @
           (if ident \<noteq> jlit ''all'' then
              [Elem ''span''
                 [Attr ''class'' (jlit (if healthy then ''bg-green-500'' else ''bg-red-500''))]
                 []
                 []]
            else []))])
       (deviceSidebarItems (sp_view s)))"

definition view_thread_row ::
    "sms_env \<Rightarrow> sms_page \<Rightarrow> sms_thread \<Rightarrow> sms_page_event node list" where
  "view_thread_row env s t =
     [Elem ''div''
        []
        [(''pointerdown'', \<lambda>v. Some (Pressed (ThreadTarget t) (pointer_of v))),
         (''pointermove'', \<lambda>v. Some (Moved (coordinate v ''clientX'') (coordinate v ''clientY''))),
         (''pointerup'', \<lambda>_. Some Released), (''pointercancel'', \<lambda>_. Some Released)]
        ([Elem ''button''
           []
           [(''click'', \<lambda>_. Some (OnView (PickThread (th_key t) True False)))]
           ([Text (th_peer t)] @
           (if isUnread (sv_selectedDevice (sp_view s)) t (sv_local (sp_view s)) then
              [Elem ''span'' [] [] []]
            else []) @
           [Text (th_lastMessage t), Text (formatClock (se_clockText env) (th_lastTs t))] @
           (if own_side t \<noteq> [] then
              [Text (own_side t)]
            else []))] @
        (if \<not> isNarrowLayout (sp_width s) then
           [Elem ''el-button''
              [Loading (sp_deletingThread s = Some (th_key t)),
               Attr ''aria-label'' (JStr (tv_delete_the_conversation_with @ th_peer t @ tv_the_conversation)),
               Attr ''title'' (JStr tv_delete_conversation)]
              [(''click'', \<lambda>_. Some (DeleteClicked (ThreadTarget t)))]
              [icon ''Delete24Regular'']]
         else []))]"

definition view_list_pane ::
    "sms_env \<Rightarrow> sms_page \<Rightarrow> sms_page_event node list" where
  "view_list_pane env s =
     (if isNarrowLayout (sp_width s) then
        [Elem ''el-select''
           [Attr ''model'' (JStr (sv_selectedDevice (sp_view s))),
            Attr ''placeholder'' (JStr tv_choose_a_device)]
           [(''change'', \<lambda>v. Some (DevicePicked v))]
           (concat (map (\<lambda>(ident, label, healthy).
              [Elem ''el-option'' [Attr ''label'' label, Attr ''value'' ident] [] []])
             (deviceSidebarItems (sp_view s))))]
      else []) @
     [Elem ''el-input''
        [Attr ''model'' (JStr (sv_search (sp_view s))), Attr ''placeholder'' (JStr tv_search_contact)]
        [(''update'', \<lambda>v. Some (OnView (Search (to_string v))))]
        []] @
     (if sv_loading (sp_view s) \<and> shown_threads (sp_view s) = [] then
        view_list_skeleton 10
      else if shown_threads (sp_view s) = [] then
        view_empty_state tv_no_conversation tv_wait_for_messages []
      else
        concat (map (\<lambda>t. view_thread_row env s t) (shown_threads (sp_view s))))"

definition view_message ::
    "sms_env \<Rightarrow> sms_page \<Rightarrow> sms_message \<Rightarrow> sms_page_event node list" where
  "view_message env s m =
     [Elem ''div''
        []
        [(''pointerdown'', \<lambda>v. Some (Pressed (MessageTarget m) (pointer_of v))),
         (''pointermove'', \<lambda>v. Some (Moved (coordinate v ''clientX'') (coordinate v ''clientY''))),
         (''pointerup'', \<lambda>_. Some Released), (''pointercancel'', \<lambda>_. Some Released)]
        ((if sm_type m = 1 then
           [Text (sm_sender m)]
         else []) @
        (if \<not> isNarrowLayout (sp_width s) \<and> sm_type m = 2 \<and> sm_device_name m \<noteq> [] then
           [Elem ''el-button''
              [Loading (sp_deletingMessage s = Some (sm_id m)),
               Attr ''aria-label'' (JStr (tv_delete_message @ show_int (sm_id m))),
               Attr ''title'' (JStr tv_delete_message_short)]
              [(''click'', \<lambda>_. Some (DeleteClicked (MessageTarget m)))]
              [icon ''Delete24Regular'']]
         else []) @
        (if sm_device_name m \<noteq> [] then
           [Text (sm_device_name m)]
         else []) @
        [Text (se_timeText env (sm_timestamp m))] @
        (if sm_type m = 2 \<and> sm_status m = 2 then
           [Elem ''span'' [Attr ''title'' (JStr tv_sent_well)] [] [Text tv_check_sign]]
         else if sm_type m = 2 \<and> sm_status m = 3 then
           [Elem ''span'' [Attr ''title'' (JStr tx_sms_failed)] [] [Text tv_cross_sign]]
         else []) @
        (if \<not> isNarrowLayout (sp_width s) \<and> (sm_type m \<noteq> 2 \<or> sm_device_name m = []) then
           [Elem ''el-button''
              [Loading (sp_deletingMessage s = Some (sm_id m)),
               Attr ''aria-label'' (JStr (tv_delete_message @ show_int (sm_id m))),
               Attr ''title'' (JStr tv_delete_message_short)]
              [(''click'', \<lambda>_. Some (DeleteClicked (MessageTarget m)))]
              [icon ''Delete24Regular'']]
         else []) @
        [Text (sm_content m)])]"

definition view_detail_pane ::
    "sms_env \<Rightarrow> sms_page \<Rightarrow> sms_page_event node list" where
  "view_detail_pane env s =
     (if isNarrowLayout (sp_width s) \<and> sv_selectedKey (sp_view s) \<noteq> [] then
        [Elem ''el-button'' [] [(''click'', \<lambda>_. Some (OnView Back))] [Text tv_back]]
      else []) @
     [Text (text_else (case selectedThread (sp_view s) of None \<Rightarrow> [] | Some t \<Rightarrow> th_peer t) tv_choose_conversation),
      Text (detail_subtitle (sp_view s))] @
     (if selectedThread (sp_view s) \<noteq> None then
        [Elem ''el-button'' [] [(''click'', \<lambda>_. None)] [Text tv_newest]]
      else []) @
     (if selectedThread (sp_view s) = None then
        view_empty_state tv_choose_one_conversation tv_open_from_the_list []
      else
        [Elem ''div''
           []
           [(''scroll'', \<lambda>v. Some (DetailScrolled (coordinate v ''scrollTop'')))]
           ((if canLoadMoreHistory (sp_view s) then
              [Elem ''el-button''
                 [Loading (sv_loadingMore (sp_view s))]
                 [(''click'', \<lambda>_. Some (OnView LoadMore))]
                 [Text tv_load_more]]
            else []) @
           concat (map (\<lambda>(day, ms).
              [Text day] @
              concat (map (\<lambda>m. view_message env s m) ms))
             (selectedThreadGroups (se_dateMs env) (se_localDate env) (selectedThread (sp_view s)) (sv_messages (sp_view s)))))]) @
     (if selectedThread (sp_view s) \<noteq> None then
        [Text (encoding_text (sg_encoding (estimateSegments (sp_composer s)))), Text tv_dot_about,
         Text (show_nat (sg_parts (estimateSegments (sp_composer s)))), Text tv_segments_dot,
         Text (show_nat (composerLen (sp_composer s))), Text tv_characters,
         Elem ''el-input''
           [Attr ''model'' (JStr (sp_composer s)), Attr ''type'' (jlit ''textarea''),
            Attr ''placeholder'' (JStr tv_reply_enter_sends)]
           [(''update'', \<lambda>v. Some (Typed (to_string v))),
            (''keydown'', \<lambda>_. Some ReplySent)]
           [],
         Elem ''el-button'' [Loading (sp_sending s)] [(''click'', \<lambda>_. Some ReplySent)]
           [icon ''Send24Regular'', Text tv_send]]
      else [])"

definition view_action_sheet ::
    "sms_page \<Rightarrow> sms_page_event node list" where
  "view_action_sheet s =
     [Elem ''div'' [] [(''click'', \<lambda>_. Some SheetClosed)]
        [Text tv_actions,
         Elem ''el-button'' [] [(''click'', \<lambda>_. Some SheetDeletes)]
           [icon ''Delete24Regular'',
            Text (case sp_target s of Some (ThreadTarget t) \<Rightarrow> tv_delete_conversation | _ \<Rightarrow> tv_delete_message_short)],
         Elem ''el-button'' [] [(''click'', \<lambda>_. Some SheetClosed)] [Text tv_cancel]]]"

definition view_send_dialog ::
    "sms_page \<Rightarrow> sms_page_event node list" where
  "view_send_dialog s =
     [Elem ''el-dialog''
        [Open (sp_modalOpen s), Attr ''title'' (JStr tv_send_message)]
        [(''update'', \<lambda>_. Some ModalClosed)]
        [Elem ''el-form-item'' [Attr ''label'' (JStr tv_sending_device)] []
           [Elem ''el-select''
              [Attr ''model'' (JStr (sp_modalDevice s)), Attr ''placeholder'' (JStr tv_choose_a_device)]
              [(''update'', \<lambda>v. Some (ModalTyped (to_string v) (sp_modalPhone s) (sp_modalMessage s)))]
              (concat (map (\<lambda>(label, value).
                 [Elem ''el-option'' [Attr ''label'' label, Attr ''value'' value] [] []])
                (sendDeviceOptions (sp_view s))))],
         Elem ''el-form-item'' [Attr ''label'' (JStr tv_target_number)] []
           [Elem ''el-input''
              [Attr ''model'' (JStr (sp_modalPhone s)), Attr ''placeholder'' (jlit ''+86138...'')]
              [(''update'', \<lambda>v. Some (ModalTyped (sp_modalDevice s) (to_string v) (sp_modalMessage s)))]
              []],
         Elem ''el-form-item'' [Attr ''label'' (JStr tv_message_content)] []
           [Elem ''el-input''
              [Attr ''model'' (JStr (sp_modalMessage s)), Attr ''type'' (jlit ''textarea''),
               Attr ''placeholder'' (JStr tv_enter_message)]
              [(''update'', \<lambda>v. Some (ModalTyped (sp_modalDevice s) (sp_modalPhone s) (to_string v)))]
              [],
            Text (encoding_text (sg_encoding (estimateSegments (sp_modalMessage s)))),
            Text tv_dot_about, Text (show_nat (sg_parts (estimateSegments (sp_modalMessage s)))),
            Text tv_segments_dot, Text (show_nat (length (code_points (sp_modalMessage s)))),
            Text tv_characters],
         Elem ''el-button'' [] [(''click'', \<lambda>_. Some ModalClosed)] [Text tv_cancel],
         Elem ''el-button'' [Loading (sp_sending s)] [(''click'', \<lambda>_. Some ModalSent)]
           [icon ''Send24Regular'', Text tv_send]]]"

definition view_sms ::
    "sms_env \<Rightarrow> sms_page \<Rightarrow> sms_page_event node list" where
  "view_sms env s =
     view_page_header tv_message_center tv_messages_subtitle
       (view_refresh_button (sv_loading (sp_view s)) False (\<lambda>_. Some (OnView RefreshAll)) @
       [Elem ''el-button'' [] [(''click'', \<lambda>_. Some ModalOpened)]
          [icon ''Send24Regular'', Text tv_new_message]]) @
     (if sv_devicesError (sp_view s) \<noteq> None then
        view_error_state (se_localeTime env) tv_device_list_failed (ae_message (the (sv_devicesError (sp_view s)))) []
          \<lparr>es_statusCode = ae_status (the (sv_devicesError (sp_view s))), es_requestMethod = text_of (ae_method (the (sv_devicesError (sp_view s)))),
               es_requestUrl = text_of (ae_url (the (sv_devicesError (sp_view s)))), es_lastSuccessAt = sv_devicesLastOkAt (sp_view s)\<rparr>
          tv_retry (\<lambda>_. Some (OnView RefreshDevices))
      else []) @
     (if sv_messagesError (sp_view s) \<noteq> None then
        view_error_state (se_localeTime env) tv_messages_load_failed (ae_message (the (sv_messagesError (sp_view s)))) []
          \<lparr>es_statusCode = ae_status (the (sv_messagesError (sp_view s))), es_requestMethod = text_of (ae_method (the (sv_messagesError (sp_view s)))),
               es_requestUrl = text_of (ae_url (the (sv_messagesError (sp_view s)))), es_lastSuccessAt = sv_messagesLastOkAt (sp_view s)\<rparr>
          tv_retry (\<lambda>_. Some (OnView RefreshAll))
      else []) @
     (if sv_loading (sp_view s) \<and> sv_threads (sp_view s) = [] then
        [icon ''Loading'']
      else []) @
     (if showDeviceSidebar (sp_width s) then
        view_device_column s
      else []) @
     (if showListPane (sp_width s) (sv_selectedKey (sp_view s)) then
        view_list_pane env s
      else []) @
     (if showDetailPane (sp_width s) (sv_selectedKey (sp_view s)) then
        view_detail_pane env s
      else []) @
     [Elem ''transition'' [Attr ''name'' (jlit ''sms-sheet-fade'')] []
        (if sheet_shown s then
           view_action_sheet s
         else [])] @
     view_send_dialog s"

lemmas sms_views = view_sms_def view_device_column_def view_list_pane_def view_thread_row_def view_detail_pane_def
  view_message_def view_action_sheet_def view_send_dialog_def

section \<open>What can be deleted from the screen\<close>

text \<open>The item an event of the user wants to delete, at once or by a long press.\<close>

fun target_of :: "sms_page_event \<Rightarrow> sheet_target option" where
  "target_of (DeleteClicked target) = Some target"
| "target_of (Pressed target p) = Some target"
| "target_of _ = None"

fun on_screen :: "sms_page \<Rightarrow> sheet_target \<Rightarrow> bool" where
  "on_screen s (ThreadTarget t) \<longleftrightarrow>
     showListPane (sp_width s) (sv_selectedKey (sp_view s)) \<and> t \<in> set (shown_threads (sp_view s))"
| "on_screen s (MessageTarget m) \<longleftrightarrow>
     showDetailPane (sp_width s) (sv_selectedKey (sp_view s)) \<and> selectedThread (sp_view s) \<noteq> None \<and>
     m \<in> set (sv_messages (sp_view s))"

lemma grouped_messages:
  assumes "(day, ms) \<in> set (selectedThreadGroups date_ms local_date sel all_ms)" and "m \<in> set ms"
  shows "m \<in> set all_ms"
proof -
  have "m \<in> set (concat (map snd (day_groups (message_day date_ms local_date) all_ms)))"
    using assms by (force simp: selectedThreadGroups_def split: option.splits)
  then show ?thesis using day_groups_facts [of "message_day date_ms local_date" all_ms] by simp
qed

abbreviation aims_at_screen :: "sms_page \<Rightarrow> sms_page_event \<Rightarrow> bool" where
  "aims_at_screen s e \<equiv> \<forall>target. target_of e = Some target \<longrightarrow> on_screen s target"

lemma rows_aim:
  "on_screen s (ThreadTarget t) \<Longrightarrow> only (aims_at_screen s) (view_thread_row env s t)"
  "on_screen s (MessageTarget m) \<Longrightarrow> only (aims_at_screen s) (view_message env s m)"
  unfolding view_thread_row_def view_message_def by simp_all

lemma frames_aim:
  "only (aims_at_screen s) (view_device_column s)" "only (aims_at_screen s) (view_action_sheet s)"
  "only (aims_at_screen s) (view_send_dialog s)"
  unfolding view_device_column_def view_action_sheet_def view_send_dialog_def by auto

lemma panes_aim:
  "showListPane (sp_width s) (sv_selectedKey (sp_view s)) \<Longrightarrow> only (aims_at_screen s) (view_list_pane env s)"
  "showDetailPane (sp_width s) (sv_selectedKey (sp_view s)) \<Longrightarrow> only (aims_at_screen s) (view_detail_pane env s)"
proof -
  assume "showDetailPane (sp_width s) (sv_selectedKey (sp_view s))"
  then have "only (aims_at_screen s) (view_message env s m)"
    if "selectedThread (sp_view s) = Some sel" "m \<in> set ms"
      "(day, ms) \<in> set (selectedThreadGroups (se_dateMs env) (se_localDate env) (Some sel) (sv_messages (sp_view s)))"
    for sel day ms m
    using grouped_messages [OF that(3,2)] that(1) by (intro rows_aim(2)) simp
  then show "only (aims_at_screen s) (view_detail_pane env s)"
    unfolding view_detail_pane_def by auto
qed (auto simp: view_list_pane_def rows_aim)

lemma sms_view_aims: "only (aims_at_screen s) (view_sms env s)"
  unfolding view_sms_def by (auto simp: panes_aim frames_aim)

text \<open>Both rows offer their button unless the item is being deleted, and only in the wide layout.\<close>

lemma thread_button:
  "user_can (view_thread_row env s t) (DeleteClicked (ThreadTarget t)) \<longleftrightarrow>
     \<not> isNarrowLayout (sp_width s) \<and> sp_deletingThread s \<noteq> Some (th_key t)"
  unfolding user_can_only view_thread_row_def by auto

lemma message_button:
  "user_can (view_message env s m) (DeleteClicked (MessageTarget m)) \<longleftrightarrow>
     \<not> isNarrowLayout (sp_width s) \<and> sp_deletingMessage s \<noteq> Some (sm_id m)"
  unfolding user_can_only view_message_def by auto

section \<open>Properties\<close>

text \<open>A run in which the user clicks and presses only what is on screen.\<close>

definition used_on_screen :: "sms_env \<Rightarrow> clock \<Rightarrow> sms_view \<Rightarrow> sms_page_event list \<Rightarrow> bool" where
  "used_on_screen env dm v es \<longleftrightarrow>
     (\<forall>a e b. es = a @ e # b \<longrightarrow> target_of e \<noteq> None \<longrightarrow> user_can (view_sms env (sms_page_run dm v a)) e)"

lemma used_aims:
  "used_on_screen env dm v (a @ e # b) \<Longrightarrow> target_of e = Some target \<Longrightarrow> on_screen (sms_page_run dm v a) target"
  using only_user [OF sms_view_aims, of env _ e] unfolding used_on_screen_def by blast

lemma meant_event: "meant dm v es target \<Longrightarrow> \<exists>a e b. es = a @ e # b \<and> target_of e = Some target"
proof -
  assume "meant dm v es target"
  then consider "DeleteClicked target \<in> set es" | a i c p where "es = a @ HeldLong i # c" "held dm v a target p"
    unfolding meant_def long_pressed_def by blast
  then show ?thesis
  proof cases
    case 1
    then obtain a b where "es = a @ DeleteClicked target # b" by (meson split_list)
    then show ?thesis by (intro exI [of _ a] exI [of _ "DeleteClicked target"] exI [of _ b]) simp
  next
    case 2
    then obtain a' b where "es = a' @ Pressed target p # b @ HeldLong i # c" unfolding held_def by auto
    then show ?thesis
      by (intro exI [of _ a'] exI [of _ "Pressed target p"] exI [of _ "b @ HeldLong i # c"]) simp
  qed
qed

text \<open>C35. Every deletion the SMS page requests is of a conversation or message that was on screen when the user
  clicked its button or began the long press on it, and was confirmed in its question: the item in the
  question is one the user clicked to delete or pressed long with a finger, in the narrow layout, without
  letting go, scrolling or moving more than 10 pixels until the timer fired.\<close>

theorem deletions_on_screen:
  assumes "used_on_screen env dm v es" and "c \<in> set (sp_deleted (sms_page_run dm v es))"
  shows "confirmed_call dm v es c \<and>
    (\<exists>a e b target device. es = a @ e # b \<and> target_of e = Some target \<and> on_screen (sms_page_run dm v a) target \<and>
       c = delete_request device target)"
proof -
  have conf: "confirmed_call dm v es c" using deletions_meant [of dm v es] assms(2) by (simp add: list_all_iff)
  then obtain a i b target device where es: "es = a @ QuestionAnswered i True # b" and m: "meant dm v a target"
    and c: "c = delete_request device target"
    unfolding confirmed_call_def by blast
  from meant_event [OF m] obtain a1 e b1 where a: "a = a1 @ e # b1" and e: "target_of e = Some target" by blast
  have split: "es = a1 @ e # (b1 @ QuestionAnswered i True # b)" by (simp add: es a)
  then have "on_screen (sms_page_run dm v a1) target" using used_aims e assms(1) by blast
  with conf split e c show ?thesis by blast
qed

lemma thread_press_offered:
  assumes "on_screen s (ThreadTarget th)"
  shows "user_can (view_sms env s) (Pressed (ThreadTarget th) (pointer_of v))"
  using assms unfolding user_can_only
  by (auto simp: view_sms_def view_list_pane_def view_thread_row_def intro!: bexI [of _ th])

definition example_thread :: sms_thread where
  "example_thread = \<lparr>th_key = js ''k'', th_imsi = js ''9'', th_peer = js ''10086'', th_deviceId = None, th_lastTs = 0,
     th_lastSmsId = 1, th_lastMessage = js ''hi'', th_lastDeviceName = None, th_localPhone = [],
     th_peerLower = js ''10086'', th_lastMessageLower = js ''hi''\<rparr>"

definition example_use :: "sms_page_event list" where
  "example_use = [WidthIs 400, Pressed (ThreadTarget example_thread) (False, 0, 0), HeldLong 0, SheetDeletes,
     QuestionAnswered 1 True]"

abbreviation example_sms :: sms_view where
  "example_sms \<equiv> fresh_sms\<lparr>sv_threads := [example_thread]\<rparr>"

lemma example_press:
  "user_can (view_sms env (sms_page_run (\<lambda>_. None) example_sms [WidthIs 400]))
     (Pressed (ThreadTarget example_thread) (False, 0, 0))"
proof -
  have "on_screen (sms_page_run (\<lambda>_. None) example_sms [WidthIs 400]) (ThreadTarget example_thread)" by code_simp
  moreover have "pointer_of JUndef = (False, 0, 0)" by code_simp
  ultimately show ?thesis using thread_press_offered [of _ example_thread env JUndef] by simp
qed

lemma example_on_screen: "used_on_screen env (\<lambda>_. None) example_sms example_use"
  unfolding used_on_screen_def example_use_def
  by (auto simp: Cons_eq_append_conv example_press)

theorem deletions_on_screen_witness:
  "confirmed_call (\<lambda>_. None) example_sms example_use (delete_request (js ''all'') (ThreadTarget example_thread))"
proof -
  have "delete_request (js ''all'') (ThreadTarget example_thread) \<in> set (sp_deleted (sms_page_run (\<lambda>_. None) example_sms example_use))"
    by code_simp
  then show ?thesis using deletions_on_screen [OF example_on_screen] by blast
qed

end
