(* ===== verification/PolicyViews.thy ===== *)
theory PolicyViews
  imports PolicyPanels CommonViews
begin

text \<open>
  The templates of \<open>CardPolicyPanel.vue\<close> and \<open>EsimCardPolicyInline.vue\<close> over the panels of
  \<open>PolicyPanels\<close>: which switch can be used, and that this is what the panels' own handlers ask for.
\<close>

section \<open>The templates\<close>

datatype panel_event =
    PolicyRetry
  | IpChosen jstr
  | ApnTyped jstr
  | SwitchUsed policy_field

definition view_policy_panel ::
    "policy_panel \<Rightarrow> panel_event node list" where
  "view_policy_panel s =
     [icon ''Sim24Regular'', Text tv_card_policy, Text tv_switches_follow_the_card,
      Elem ''div'' [Open (pa_iccid s = [])] [] [Text tv_no_iccid_yet],
      Elem ''div'' [Open (pa_iccid s \<noteq> [] \<and> \<not> pa_online s)] []
        [Text tv_device_off_policy_shown_only],
      Elem ''div'' [Open (pa_iccid s \<noteq> [])] []
        ([Text tv_current_card_iccid, Text (pa_iccid s)] @
        (if sourceLabel s \<noteq> [] then
           [Elem ''el-tag''
              [Attr ''type'' (jlit (if jfield (pa_policy s) ''source'' = jlit ''user'' then ''primary'' else ''info''))]
              []
              [Text (sourceLabel s)]]
         else []) @
        [Text tv_ip_version,
         Elem ''el-select''
           [Attr ''model'' (JStr (pa_ipVersion s)), Disabled (\<not> canToggle s)]
           [(''update'', \<lambda>v. Some (IpChosen (to_string v)))]
           [Elem ''el-option'' [Attr ''label'' (jlit ''IPv4''), Attr ''value'' (jlit ''v4'')] [] [],
            Elem ''el-option'' [Attr ''label'' (jlit ''IPv6''), Attr ''value'' (jlit ''v6'')] [] [],
            Elem ''el-option''
              [Attr ''label'' (JStr tv_ipv4_and_ipv6), Attr ''value'' (jlit ''v4v6'')]
              []
              []],
         Text tv_applies_at_next_network_on, Text tv_apn_optional,
         Elem ''el-input''
           [Attr ''model'' (JStr (pa_apn s)), Attr ''placeholder'' (JStr tv_empty_is_automatic),
            Disabled (\<not> canToggle s)]
           [(''update'', \<lambda>v. Some (ApnTyped (to_string v)))]
           [],
         Text tv_applies_at_next_network_on, Text tv_turn_network_on,
         Text tv_not_with_vowifi_or_flight] @
        (if pt_failed (pa_toggles s) NetworkField then
           [Text tv_not_in_effect]
         else []) @
        (if pt_pending (pa_toggles s) NetworkField then
           [icon ''Loading'']
         else []) @
        [Elem ''el-switch''
           [Attr ''model'' (JBool (network_enabled (pt_local (pa_toggles s)))),
            Disabled (\<not> canToggle s \<or> vowifi_enabled (pt_local (pa_toggles s)) \<or> airplane_enabled (pt_local (pa_toggles s)) \<or> pt_pending (pa_toggles s) NetworkField)]
           [(''change'', \<lambda>_. Some (SwitchUsed NetworkField))]
           [],
         Text (js ''VoWiFi''), Text tv_vowifi_notice] @
        (if pt_failed (pa_toggles s) VoWiFiField then
           [Text tv_not_in_effect]
         else []) @
        (if pt_pending (pa_toggles s) VoWiFiField then
           [icon ''Loading'']
         else []) @
        [Elem ''el-switch''
           [Attr ''model'' (JBool (vowifi_enabled (pt_local (pa_toggles s)))),
            Disabled (\<not> canToggle s \<or> pt_pending (pa_toggles s) VoWiFiField)]
           [(''change'', \<lambda>_. Some (SwitchUsed VoWiFiField))]
           [],
         Text tv_flight_mode, Text tv_radio_off] @
        (if pt_failed (pa_toggles s) AirplaneField then
           [Text tv_not_in_effect]
         else []) @
        (if pt_pending (pa_toggles s) AirplaneField then
           [icon ''Loading'']
         else []) @
        [Elem ''el-switch''
           [Attr ''model'' (JBool (airplane_enabled (pt_local (pa_toggles s)))),
            Disabled (\<not> canToggle s \<or> vowifi_enabled (pt_local (pa_toggles s)) \<or> pt_pending (pa_toggles s) AirplaneField)]
           [(''change'', \<lambda>_. Some (SwitchUsed AirplaneField))]
           []])]"

definition view_inline_policy ::
    "inline_panel \<Rightarrow> panel_event node list" where
  "view_inline_policy s =
     (if il_loading s then
        [icon ''Loading'', Text tv_loading_policy]
      else if il_loadFailed s then
        [Text tv_policy_load_failed,
         Elem ''el-button'' [] [(''click'', \<lambda>_. Some PolicyRetry)] [Text tv_retry]]
      else
        (if inline_hint s \<noteq> [] then
           [Text (inline_hint s)]
         else []) @
        [Text tv_network] @
        (if pt_failed (il_toggles s) NetworkField then
           [Text tv_not_in_effect]
         else []) @
        (if pt_pending (il_toggles s) NetworkField then
           [icon ''Loading'']
         else []) @
        [Elem ''el-switch''
           [Attr ''model'' (JBool (network_enabled (pt_local (il_toggles s)))),
            Disabled (vowifi_enabled (pt_local (il_toggles s)) \<or> airplane_enabled (pt_local (il_toggles s)) \<or> pt_pending (il_toggles s) NetworkField)]
           [(''change'', \<lambda>_. Some (SwitchUsed NetworkField))]
           [],
         Text (js ''VoWiFi'')] @
        (if pt_failed (il_toggles s) VoWiFiField then
           [Text tv_not_in_effect]
         else []) @
        (if pt_pending (il_toggles s) VoWiFiField then
           [icon ''Loading'']
         else []) @
        [Elem ''el-switch''
           [Attr ''model'' (JBool (vowifi_enabled (pt_local (il_toggles s)))),
            Disabled (pt_pending (il_toggles s) VoWiFiField)]
           [(''change'', \<lambda>_. Some (SwitchUsed VoWiFiField))]
           [],
         Text tv_flight] @
        (if pt_failed (il_toggles s) AirplaneField then
           [Text tv_not_in_effect]
         else []) @
        (if pt_pending (il_toggles s) AirplaneField then
           [icon ''Loading'']
         else []) @
        [Elem ''el-switch''
           [Attr ''model'' (JBool (airplane_enabled (pt_local (il_toggles s)))),
            Disabled (vowifi_enabled (pt_local (il_toggles s)) \<or> pt_pending (il_toggles s) AirplaneField)]
           [(''change'', \<lambda>_. Some (SwitchUsed AirplaneField))]
           []])"

section \<open>Which switch can be used\<close>

lemma panel_switch_offered: "user_can (view_policy_panel s) (SwitchUsed f) \<longleftrightarrow> \<not> panel_disabled f s"
  unfolding user_can_only view_policy_panel_def panel_disabled_def by (cases f) (auto simp: canToggle_def)

lemma inline_switch_offered:
  "user_can (view_inline_policy s) (SwitchUsed f) \<longleftrightarrow>
     \<not> il_loading s \<and> \<not> il_loadFailed s \<and> \<not> switch_disabled f (il_toggles s)"
  unfolding user_can_only view_inline_policy_def by (cases f) auto

text \<open>The address family and the APN can be edited exactly while the card and the device are there.\<close>

lemma panel_fields_offered:
  "user_can (view_policy_panel s) (ApnTyped a) \<longleftrightarrow> canToggle s \<and> a \<in> range to_string"
  "user_can (view_policy_panel s) (IpChosen a) \<longleftrightarrow> canToggle s \<and> a \<in> range to_string"
  unfolding user_can_only view_policy_panel_def by (auto simp: canToggle_def)

lemma begun_disabled: "switch_disabled f (toggle_begin f v t)"
  by (cases f) (simp_all add: toggle_begin_def Let_def)

section \<open>Properties\<close>

text \<open>A switch of either card policy panel can be used on screen exactly when its handler does
  something: using a switch that is not offered changes nothing, and using one that is offered marks it as
  pending, hands one call on, and takes it away until the answer; only a panel without a device has no call to make.\<close>

lemma policy_switches_fit:
  "(if user_can (view_policy_panel s) (SwitchUsed f)
    then (if pa_deviceId s = [] then pa_calls (panel_click f s) = pa_calls s
          else length (pa_calls (panel_click f s)) = Suc (length (pa_calls s)) \<and>
               \<not> user_can (view_policy_panel (panel_click f s)) (SwitchUsed f))
    else panel_click f s = s) \<and>
   (if user_can (view_inline_policy i) (SwitchUsed f)
    then length (il_calls (inline_click f i)) = Suc (length (il_calls i)) \<and>
         \<not> user_can (view_inline_policy (inline_click f i)) (SwitchUsed f)
    else inline_click f i = i)"
  unfolding panel_switch_offered inline_switch_offered
  by (simp add: panel_click_def inline_click_def Let_def panel_disabled_def click_switch_def begun_disabled)

end
