(* ===== verification/EsimTabView.thy ===== *)
theory EsimTabView
  imports EsimTab PolicyViews
begin

text \<open>
  The template of \<open>components/DeviceEsimTab.vue\<close> over the state of \<open>EsimTab\<close>. Blurring is a
  style class, so the classes of the blurred elements are kept. The inline policy panel of the expanded
  row is an argument, its events those of \<open>PolicyViews\<close>.
\<close>

section \<open>The template\<close>

datatype esim_event =
    RefreshClicked
  | NotificationsClicked
  | SensitiveClicked
  | NameTyped jstr
  | NameSaved jstr jstr
  | NameCanceled
  | SwitchClicked jstr int jstr
  | RenameClicked jstr jstr
  | PolicyClicked jstr
  | ProfileDeleteClicked jstr jstr jstr
  | InlinePolicy panel_event
  | NoticesDialog bool
  | RetryClicked jsval
  | FormEdited download_form
  | DownloadClicked

text \<open>What is on screen besides the tab's own state: whether sensitive values are shown, and the panel.\<close>

record esim_env =
  ee_showSensitive :: bool
  ee_inline :: inline_panel

definition iccid_of :: "esim_profile \<Rightarrow> jstr" where
  "iccid_of p = text_of (ep_iccid p)"

definition chip_eids :: "esim_tab \<Rightarrow> jsval list" where
  "chip_eids s = (if truthy (jfield (et_chip s) ''eids'') then elems (jfield (et_chip s) ''eids'') else [])"

definition exceeds :: "jsval \<Rightarrow> rat \<Rightarrow> bool" where
  "exceeds v r = (case to_number v of Fin q \<Rightarrow> r < q | PosInf \<Rightarrow> True | _ \<Rightarrow> False)"

abbreviation chip_text :: "jsval \<Rightarrow> string \<Rightarrow> jstr" where
  "chip_text v k \<equiv> display (jfield v k)"

text \<open>\<open>`eUICC #${Number(ei) + 1} (...${eid.eid.slice(-4)}) - ${eid.free_nvram} ...`\<close>.\<close>

definition eid_option :: "nat \<Rightarrow> jsval \<Rightarrow> jstr" where
  "eid_option i eid = js ''eUICC #'' @ show_nat (Suc i) @ js '' (...'' @ slice_from (- 4) (to_string (jfield eid ''eid'')) @
     tv_closing_and_dash @ to_string (jfield eid ''free_nvram'') @ tv_space_available"

definition has_pki :: "jsval \<Rightarrow> bool" where
  "has_pki eid \<longleftrightarrow>
     truthy (jfield eid ''manufacturer'') \<or> elems (jfield eid ''certificates'') \<noteq> [] \<or>
     truthy (jfield eid ''default_smdp_address'') \<or> truthy (jfield eid ''root_ds_address'') \<or>
     truthy (jfield eid ''sas_accreditation_number'') \<or> truthy (jfield eid ''info_source'')"

definition notificationDialogWidth :: jstr where
  "notificationDialogWidth = js ''min(500px, 80vw)''"

definition reaches :: "jsval \<Rightarrow> rat \<Rightarrow> bool" where
  "reaches v r = (case to_number v of Fin q \<Rightarrow> r \<le> q | PosInf \<Rightarrow> True | _ \<Rightarrow> False)"

definition view_chip ::
    "esim_env \<Rightarrow> esim_tab \<Rightarrow> esim_event node list" where
  "view_chip env s =
     [Text (js ''ESIM''),
      Text (to_string (or_else (jfield (et_chip s) ''sku_name'') (jlit ''eUICC'')))] @
     (if truthy (jfield (et_chip s) ''firmware'') then
        [Text tv_firmware, Text (chip_text (et_chip s) ''firmware'')]
      else []) @
     (if truthy (jfield (et_chip s) ''serial_number'') then
        [Text ([0x00B7] @ js '' SN:''),
         Elem ''span'' [Attr ''class'' (blur (\<not> ee_showSensitive env))] []
           [Text (chip_text (et_chip s) ''serial_number'')]]
      else []) @
     [Elem ''el-tooltip'' [Attr ''content'' (JStr tv_manual_refresh)] []
        [Elem ''el-button''
           [Loading (et_profilesRefreshing s)]
           [(''click'', \<lambda>_. Some RefreshClicked)]
           (if shouldShowEsimRefreshIcon (et_profilesRefreshing s) then
              [icon ''ArrowSync24Regular'']
            else [])],
      Elem ''el-tooltip'' [Attr ''content'' (JStr tv_current_notifications)] []
        [Elem ''el-button''
           [Loading (et_notificationsLoading s)]
           [(''click'', \<lambda>_. Some NotificationsClicked)]
           (if shouldShowEsimNotificationIcon (et_notificationsLoading s) then
              [icon ''Alert24Regular'']
            else [])],
      Elem ''el-tooltip''
        [Attr ''content'' (JStr (if ee_showSensitive env then tv_hide_sensitive else tv_show_sensitive))]
        []
        [Elem ''el-button'' [] [(''click'', \<lambda>_. Some SensitiveClicked)]
           (if ee_showSensitive env then
              [icon ''Eye24Regular'']
            else
              [icon ''EyeOff24Regular''])]]"

definition view_pki ::
    "esim_group \<Rightarrow> jsval \<Rightarrow> esim_event node list" where
  "view_pki grp eid =
     (if truthy (jfield eid ''manufacturer'') then
        [Text tv_manufacturer_colon, Text (chip_text eid ''manufacturer'')]
      else []) @
     (if elems (jfield eid ''certificates'') \<noteq> [] then
        [Text tv_certificate_colon,
         Text (join_with (js '' '' @ [0x00B7] @ js '' '') (map to_string (elems (jfield eid ''certificates''))))]
      else []) @
     (if truthy (jfield eid ''default_smdp_address'') then
        [Text (js ''Default SM-DP+:''), Text (chip_text eid ''default_smdp_address'')]
      else []) @
     (if truthy (jfield eid ''root_ds_address'') then
        [Text (js ''Root SM-DS:''), Text (chip_text eid ''root_ds_address'')]
      else []) @
     (if truthy (jfield eid ''sas_accreditation_number'') then
        [Text (js ''SAS:''), Text (chip_text eid ''sas_accreditation_number'')]
      else []) @
     (if truthy (jfield eid ''info_source'') then
        [Text tv_source_colon, Text (chip_text eid ''info_source'')]
      else [])"

definition view_profile ::
    "esim_env \<Rightarrow> esim_tab \<Rightarrow> esim_group \<Rightarrow> esim_profile \<Rightarrow> esim_event node list" where
  "view_profile env s grp p =
     (if et_renaming s \<noteq> Some (iccid_of p) then
        [Elem ''span''
           [Attr ''class'' (jlit (if ep_state p = 1 then ''bg-green-500'' else ''bg-gray-300 dark:bg-gray-600''))]
           []
           [],
         Text (text_else (ep_name p) (iccid_of p)),
         Elem ''el-tag'' [Attr ''type'' (jlit (if ep_state p = 1 then ''success'' else ''info''))] []
           [Text (ep_state_text p)],
         Text (ep_service_provider_name p),
         Elem ''span'' [Attr ''class'' (blur (\<not> ee_showSensitive env))] [] [Text (iccid_of p)]]
      else
        [Elem ''el-input''
           [Attr ''model'' (JStr (et_renameValue s)), Attr ''placeholder'' (JStr tv_enter_a_new_name),
            Attr ''autofocus'' (JBool True)]
           [(''update'', \<lambda>v. Some (NameTyped (to_string v))),
            (''keyup'', \<lambda>_. Some (NameSaved (iccid_of p) (eg_aid_hex grp))),
            (''keyup'', \<lambda>_. Some NameCanceled)]
           [],
         Elem ''el-button''
           []
           [(''click'', \<lambda>_. Some (NameSaved (iccid_of p) (eg_aid_hex grp)))]
           [Text tv_save],
         Elem ''el-button'' [] [(''click'', \<lambda>_. Some NameCanceled)] [Text tv_cancel]]) @
     (if et_renaming s \<noteq> Some (iccid_of p) then
        (if ep_state p \<noteq> 1 then
           [Elem ''el-button''
              [Loading (et_switching s = Some (iccid_of p))]
              [(''click'', \<lambda>_. Some (SwitchClicked (iccid_of p) (ep_state p) (eg_aid_hex grp)))]
              [Text tv_switch_to_it]]
         else []) @
        [Elem ''el-button''
           []
           [(''click'', \<lambda>_. Some (RenameClicked (iccid_of p) (ep_name p)))]
           [Text tv_rename],
         Elem ''el-button'' [] [(''click'', \<lambda>_. Some (PolicyClicked (iccid_of p)))]
           [Text tv_policy],
         Elem ''el-button''
           [Loading (et_deleting s = Some (iccid_of p))]
           [(''click'', \<lambda>_. Some (ProfileDeleteClicked (iccid_of p) (ep_name p) (eg_aid_hex grp)))]
           [Text tx_delete]]
      else []) @
     (if et_expandedPolicy s = Some (iccid_of p) then
        map (embed (\<lambda>e. Some (InlinePolicy e))) (view_inline_policy (ee_inline env))
      else [])"

definition view_group ::
    "esim_env \<Rightarrow> esim_tab \<Rightarrow> nat \<Rightarrow> esim_group \<Rightarrow> esim_event node list" where
  "view_group env s gi grp =
     [Text (js ''eUICC #''), Text (show_nat (Suc gi)),
      Elem ''span'' [Attr ''class'' (blur (\<not> ee_showSensitive env))] [] [Text (eg_eid grp)]] @
     (if truthy (jfield (et_chip s) ''eids'') then
        concat (map (\<lambda>eid.
           (if jfield eid ''eid'' = JStr (eg_eid grp) then
              [Elem ''span''
                 [Attr ''class'' (jlit (if exceeds (jfield eid ''free_nvram_bytes'') 100000 then ''bg-green-500'' else ''bg-yellow-500''))]
                 []
                 [],
               Text tv_available, Text (chip_text eid ''free_nvram'')] @
              (if map_option fst (et_delta s) = Some (normalizeAidHex (eg_aid_hex grp)) then
                 [Text (snd (the (et_delta s)))]
               else [])
            else []))
          (chip_eids s))
      else []) @
     (if truthy (jfield (et_chip s) ''eids'') then
        concat (map (\<lambda>eid.
           (if jfield eid ''eid'' = JStr (eg_eid grp) \<and> has_pki eid then
              view_pki grp eid
            else []))
          (chip_eids s))
      else []) @
     (if eg_profiles grp = [] then
        [Text tv_no_profile]
      else
        concat (map (\<lambda>p. view_profile env s grp p) (eg_profiles grp)))"

definition view_notices ::
    "esim_tab \<Rightarrow> esim_event node list" where
  "view_notices s =
     [Elem ''el-dialog''
        [Open (et_dialogOpen s), Attr ''title'' (JStr tv_current_notification_list),
         Attr ''width'' (JStr notificationDialogWidth)]
        [(''update'', \<lambda>_. Some (NoticesDialog False))]
        (if et_notificationsLoading s then
           [Text tv_loading_notifications]
         else if et_notifications s = [] then
           [Text tv_no_notification_to_show]
         else
           concat (map (\<lambda>item.
              [Text (js ''#''), Text (chip_text item ''sequence_number''),
               Elem ''el-tag'' [] []
                 [Text (formatEsimNotificationEvent (text_or_empty (jfield item ''event'')))]] @
              (if truthy (jfield item ''iccid'') then
                 [Text (js ''ICCID''), Text (chip_text item ''iccid'')]
               else []) @
              (if truthy (jfield item ''address'') then
                 [Text tv_address, Text (chip_text item ''address'')]
               else []) @
              (if truthy (jfield item ''aid_hex'') then
                 [Text (js ''AID''), Text (chip_text item ''aid_hex'')]
               else []) @
              [Elem ''el-button''
                 [Disabled (\<not> truthy (jfield item ''can_retry'')),
                  Loading (et_retrying s = Some (to_number (jfield item ''sequence_number'')))]
                 [(''click'', \<lambda>_. Some (RetryClicked item))]
                 [Text tv_send_again]])
             (et_notifications s)))]"

definition view_download ::
    "esim_tab \<Rightarrow> esim_event node list" where
  "view_download s =
     [icon ''Add24Regular'', Text tv_download_new_profile, Text tv_smdp_address_label,
      Elem ''el-input''
        [Attr ''model'' (JStr (df_smdp (et_form s))), Attr ''placeholder'' (JStr tv_example_smdp)]
        [(''update'', \<lambda>v. Some (FormEdited ((et_form s)\<lparr>df_smdp := to_string v\<rparr>)))]
        [],
      Text (js ''Matching ID''),
      Elem ''el-input''
        [Attr ''model'' (JStr (df_matchingId (et_form s))), Attr ''placeholder'' (JStr tv_optional)]
        [(''update'', \<lambda>v. Some (FormEdited ((et_form s)\<lparr>df_matchingId := to_string v\<rparr>)))]
        [],
      Text tv_confirmation_code,
      Elem ''el-input''
        [Attr ''model'' (JStr (df_confirmationCode (et_form s))),
         Attr ''placeholder'' (JStr tv_optional)]
        [(''update'', \<lambda>v. Some (FormEdited ((et_form s)\<lparr>df_confirmationCode := to_string v\<rparr>)))]
        [],
      Text (js ''IMEI''),
      Elem ''el-input''
        [Attr ''model'' (JStr (df_imei (et_form s))), Attr ''placeholder'' (JStr tv_imei_by_default)]
        [(''update'', \<lambda>v. Some (FormEdited ((et_form s)\<lparr>df_imei := to_string v\<rparr>)))]
        [],
      Text tv_target_euicc,
      Elem ''el-select''
        [Attr ''model'' (JStr (df_aidHex (et_form s))),
         Attr ''placeholder'' (JStr tv_choose_target_euicc)]
        [(''update'', \<lambda>v. Some (FormEdited ((et_form s)\<lparr>df_aidHex := to_string v\<rparr>)))]
        (concat (map (\<lambda>(ei, eid).
           [Elem ''el-option''
              [Attr ''label'' (JStr (eid_option ei eid)), Attr ''value'' (jfield eid ''aid'')]
              []
              []])
          (enumerate 0 (chip_eids s))))] @
     (if et_downloading s \<or> truthy (et_error s) then
        [Elem ''el-progress''
           [Attr ''percentage'' (et_progress s),
            Attr ''status'' (if truthy (et_error s) then jlit ''exception'' else if reaches (et_progress s) 100 then jlit ''success'' else JUndef),
            Attr ''duration'' (jint 8)]
           []
           [],
         Text (display (or_else (et_error s) (et_msg s)))]
      else []) @
     [Elem ''el-button''
        [Loading (et_downloading s), Disabled (et_downloading s)]
        [(''click'', \<lambda>_. Some DownloadClicked)]
        [icon ''ArrowDownload24Regular'', Text tv_start_download]]"

definition view_esim_tab ::
    "esim_env \<Rightarrow> esim_tab \<Rightarrow> esim_event node list" where
  "view_esim_tab env s =
     (if et_loading s then
        [Text (js ''ESIM'')]
      else
        (if truthy (et_chip s) then
           view_chip env s
         else []) @
        concat (map (\<lambda>(gi, grp). view_group env s gi grp) (enumerate 0 (et_profiles s))) @
        view_notices s @
        (if truthy (et_chip s) then
           view_download s
         else []) @
        (if et_profiles s = [] \<and> \<not> truthy (et_chip s) then
           view_empty_state tv_no_euicc_found tv_card_may_lack_euicc []
         else []))"

lemmas esim_views = view_esim_tab_def view_chip_def view_group_def view_pki_def view_profile_def view_notices_def
  view_download_def

section \<open>What the user can do\<close>

text \<open>The buttons of a profile: each while no such call for it is under way, and not while it is renamed.\<close>

lemma profile_buttons:
  "user_can (view_profile env s g p) (SwitchClicked iccid state aid) \<longleftrightarrow>
     iccid = iccid_of p \<and> state = ep_state p \<and> aid = eg_aid_hex g \<and>
     et_renaming s \<noteq> Some iccid \<and> ep_state p \<noteq> 1 \<and> et_switching s \<noteq> Some iccid"
  "user_can (view_profile env s g p) (ProfileDeleteClicked iccid name aid) \<longleftrightarrow>
     iccid = iccid_of p \<and> name = ep_name p \<and> aid = eg_aid_hex g \<and>
     et_renaming s \<noteq> Some iccid \<and> et_deleting s \<noteq> Some iccid"
  unfolding user_can_only view_profile_def view_inline_policy_def by auto


section \<open>What stays legible\<close>

text \<open>The notifications are listed with their ICCID and AID whether sensitive values are hidden or not.\<close>

lemma notices_legible:
  assumes "item \<in> set (et_notifications s)" and "\<not> et_notificationsLoading s" and "truthy (jfield item ''iccid'')"
  shows "JStr (display (jfield item ''iccid'')) \<in> set (legible_all (view_notices s))"
  using assms unfolding view_notices_def by (auto simp: is_blurred_def split: if_splits)

section \<open>Properties\<close>

text \<open>On the eSIM tab the ICCID in the row of a profile, neither being renamed nor unfolded, is out of sight
  exactly when sensitive values are hidden and the profile has a name: then the legible part of the row is
  the same for any other ICCID, and otherwise no two ICCIDs give the same row.\<close>

lemma profile_iccid_blurred:
  assumes "et_renaming s \<notin> {Some (iccid_of p), Some x}" and "et_expandedPolicy s \<notin> {Some (iccid_of p), Some x}"
  shows "legible_all (view_profile env s g (p\<lparr>ep_iccid := Some x\<rparr>)) = legible_all (view_profile env s g p) \<longleftrightarrow>
     \<not> ee_showSensitive env \<and> ep_name p \<noteq> [] \<or> x = iccid_of p"
  using assms
  by (auto simp: view_profile_def is_blurred_def blur_def js_def text_else_def iccid_of_def text_of_def)

definition nameless_profile :: esim_profile where
  "nameless_profile = \<lparr>ep_iccid = Some (js ''8986''), ep_name = [], ep_service_provider_name = [], ep_state = 1,
     ep_state_text = js ''on'', ep_class_text = None\<rparr>"

abbreviation hidden_env :: esim_env where
  "hidden_env \<equiv> \<lparr>ee_showSensitive = False, ee_inline = open_inline [] [] False False\<rparr>"

abbreviation example_group :: esim_group where
  "example_group \<equiv> \<lparr>eg_eid = [], eg_aid_hex = [], eg_profiles = []\<rparr>"

lemma profile_iccid_blurred_example:
  "legible_all (view_profile hidden_env (initial_tab [] True []) example_group (nameless_profile\<lparr>ep_iccid := Some []\<rparr>)) \<noteq>
   legible_all (view_profile hidden_env (initial_tab [] True []) example_group nameless_profile)"
proof -
  have "et_renaming (initial_tab [] True []) = None" "et_expandedPolicy (initial_tab [] True []) = None"
    by (simp_all add: initial_tab_def)
  then show ?thesis
    using profile_iccid_blurred [of "initial_tab [] True []" nameless_profile "[]" hidden_env example_group]
    by (simp add: nameless_profile_def iccid_of_def text_of_def js_def)
qed

end
