(* ===== verification/DevicePanelViews.thy ===== *)
theory DevicePanelViews
  imports TrafficPanel Websheet CommonViews
begin

text \<open>
  The templates of the components the device page and the dashboard are made of: \<open>DeviceCard.vue\<close>,
  \<open>DeviceListPanel.vue\<close>, \<open>DeviceDetailHeader.vue\<close>, \<open>DeviceDetailLoading.vue\<close>,
  \<open>DeviceConfigTab.vue\<close>, \<open>DeviceAddDialog.vue\<close>, \<open>TrafficAnalysisPanel.vue\<close> and
  \<open>CarrierWebsheetDialog.vue\<close>, over the scripts of \<open>Panels\<close>, \<open>TrafficPanel\<close> and
  \<open>Websheet\<close>. Their emitted events are the events of the views.
\<close>

section \<open>The card of the dashboard\<close>

datatype card_use = OpenDevice jsval

definition icon_tag :: "network_icon \<Rightarrow> string" where
  "icon_tag i = (case i of WifiIcon \<Rightarrow> ''Wifi124Regular'' | DataIcon \<Rightarrow> ''CellularData124Regular''
     | Icon5G \<Rightarrow> ''Cellular5G24Regular'' | Icon4G \<Rightarrow> ''Cellular4G24Regular'' | Icon3G \<Rightarrow> ''Cellular3G24Regular'')"

definition color_class :: "signal_color \<Rightarrow> string" where
  "color_class c = (case c of GrayBar \<Rightarrow> ''bg-gray-300 dark:bg-gray-600'' | GreenBar \<Rightarrow> ''bg-green-500''
     | YellowBar \<Rightarrow> ''bg-yellow-500'' | RedBar \<Rightarrow> ''bg-red-500'')"

definition view_device_card ::
    "jsval \<Rightarrow> card_use node list" where
  "view_device_card device =
     [Elem ''button'' [] [(''click'', \<lambda>_. Some (OpenDevice (jfield device ''id'')))]
        ([icon ''Sim24Regular'',
         Text (display (or_else (jfield device ''name'') (jfield device ''id'')))] @
        view_status_light (if truthy (jfield device ''healthy'') then ToneSuccess else ToneDanger) Md (truthy (jfield device ''healthy'')) @
        [Text (if truthy (jfield device ''healthy'') then tx_online else tx_offline),
         Elem (icon_tag (networkIcon device)) [] [] []] @
        (if \<not> truthy (jfield device ''vowifi_active'') \<and> truthy (jfield device ''network_mode'') \<and> networkModeText device \<noteq> [] then
           [Text (networkModeText device)]
         else []) @
        [Text (if truthy (jfield device ''vowifi_active'') then js ''Wi-Fi Calling'' else display (or_else (jfield device ''operator'') (JStr tv_detecting)))] @
        (if \<not> truthy (jfield device ''vowifi_active'') then
           [Elem ''div'' [Attr ''title'' (JStr tv_signal_strength)] []
              (concat (map (\<lambda>i.
                 [Elem ''div''
                    [Attr ''class'' (jlit (if i \<le> getSignalBars (jfield device ''signal_dbm'') then color_class (getSignalColor (jfield device ''signal_dbm'')) else ''bg-gray-200 dark:bg-gray-700''))]
                    []
                    []])
                [1..<5]) @
              [Text (display (jfield device ''signal_dbm'')), Text (js ''dBm'')])]
         else []) @
        [icon ''Globe24Regular'', Text tv_public_ip,
         Text (display (or_else (jfield device ''public_ip'') (jlit ''---'')))])]"

section \<open>The list of devices\<close>

record list_panel =
  lp_loading :: bool
  lp_query :: jstr
  lp_statusFilter :: jstr
  lp_sortKey :: jstr
  lp_sortDir :: jstr
  lp_devices :: "jsval list"
  lp_count :: nat
  lp_limit :: jnum

datatype list_use =
    QueryTyped jstr
  | StatusChosen jstr
  | SortKeyChosen jstr
  | SortDirChosen jstr
  | DeviceClicked jstr

fun at_most :: "jnum \<Rightarrow> rat \<Rightarrow> bool" where
  "at_most (Fin r) n \<longleftrightarrow> r \<le> n"
| "at_most NegInf n \<longleftrightarrow> True"
| "at_most _ n \<longleftrightarrow> False"

definition view_list_panel ::
    "list_panel \<Rightarrow> list_use node list" where
  "view_list_panel p =
     [Elem ''el-input''
        [Attr ''model'' (JStr (lp_query p)), Attr ''placeholder'' (JStr tv_search_devices)]
        [(''update'', \<lambda>v. Some (QueryTyped (to_string v)))]
        [],
      Elem ''el-select''
        [Attr ''model'' (JStr (lp_statusFilter p)), Attr ''placeholder'' (JStr tx_online)]
        [(''update'', \<lambda>v. Some (StatusChosen (to_string v)))]
        [Elem ''el-option'' [Attr ''label'' (JStr tv_all_states), Attr ''value'' (jlit ''all'')] []
           [],
         Elem ''el-option''
           [Attr ''label'' (JStr tv_online_only), Attr ''value'' (jlit ''online'')]
           []
           [],
         Elem ''el-option''
           [Attr ''label'' (JStr tv_offline_only), Attr ''value'' (jlit ''offline'')]
           []
           []],
      Elem ''el-select''
        [Attr ''model'' (JStr (lp_sortKey p)), Attr ''placeholder'' (JStr tv_sort)]
        [(''update'', \<lambda>v. Some (SortKeyChosen (to_string v)))]
        [Elem ''el-option''
           [Attr ''label'' (JStr tv_sort_by_name), Attr ''value'' (jlit ''name'')]
           []
           [],
         Elem ''el-option''
           [Attr ''label'' (JStr tv_sort_by_signal), Attr ''value'' (jlit ''signal'')]
           []
           []],
      Elem ''el-select''
        [Attr ''model'' (JStr (lp_sortDir p)), Attr ''placeholder'' (JStr tv_direction)]
        [(''update'', \<lambda>v. Some (SortDirChosen (to_string v)))]
        [Elem ''el-option'' [Attr ''label'' (JStr tv_ascending), Attr ''value'' (jlit ''asc'')] [] [],
         Elem ''el-option'' [Attr ''label'' (JStr tv_descending), Attr ''value'' (jlit ''desc'')] []
           []]] @
     (if positive (lp_limit p) then
        [Elem ''el-tag''
           [Attr ''type'' (jlit (if at_most (lp_limit p) (of_nat (lp_count p)) then ''warning'' else ''info''))]
           []
           [Text tv_quota, Text (show_nat (lp_count p)), Text (js ''/''), Text (show_num (lp_limit p))]]
      else []) @
     (if lp_loading p \<and> lp_devices p = [] then
        view_list_skeleton 8
      else if lp_devices p = [] then
        view_empty_state tv_no_device tv_add_a_device_first []
      else
        concat (map (\<lambda>d.
           [Elem ''button''
              []
              [(''click'', \<lambda>_. Some (DeviceClicked (to_string (jfield d ''id''))))]
              ([Text (display (or_else (jfield d ''name'') (jfield d ''id''))),
               Text (display (jfield d ''id'')), Text [0x00B7],
               Text (display (or_else (jfield d ''interface'') (jlit ''--''))), Text (secondaryStatus d)] @
              view_status_light (ls_tone (primaryLifecycleStatus d)) Sm (ls_animated (primaryLifecycleStatus d)) @
              [Elem ''el-tag'' [Attr ''type'' (JStr (ls_tag (primaryLifecycleStatus d)))] []
                 [Text (ls_label (primaryLifecycleStatus d))]])])
          (lp_devices p)))"

section \<open>The head of a device and its configuration\<close>

datatype header_use = CopyText jsval | RotateClicked | ReconnectClicked | RebootClicked | SmsClicked

record header_marks =
  hm_rotating :: bool
  hm_rebooting :: bool
  hm_reconnecting :: bool

definition view_detail_header ::
    "header_marks \<Rightarrow> jsval \<Rightarrow> header_use node list" where
  "view_detail_header m device =
     [Text (js ''V''), Text (display (or_else (jfield device ''name'') (jfield device ''id''))),
      Elem ''span'' [] [(''click'', \<lambda>_. Some (CopyText (jfield device ''id'')))]
        [Text (display (jfield device ''id''))],
      Text tv_dot_public_ip,
      Elem ''span''
        []
        [(''click'', \<lambda>_. Some (CopyText (or_else (jfield device ''public_ip'') (JStr []))))]
        [Text (display (or_else (jfield device ''public_ip'') (jlit ''---'')))]] @
     (if truthy (jfield device ''vowifi_enabled'') then
        [Elem ''el-button''
           [Loading (hm_reconnecting m)]
           [(''click'', \<lambda>_. Some ReconnectClicked)]
           [icon ''ArrowSync24Regular'', Text tv_reconnect_vowifi]]
      else
        [Elem ''el-button''
           [Loading (hm_rotating m), Disabled (\<not> truthy (jfield device ''network_connected''))]
           [(''click'', \<lambda>_. Some RotateClicked)]
           [icon ''ArrowSync24Regular'', Text tv_rotate_ip]]) @
     [Elem ''el-button'' [Loading (hm_rebooting m)] [(''click'', \<lambda>_. Some RebootClicked)]
        [icon ''Power24Regular'', Text tv_reboot_module],
      Elem ''el-button'' [] [(''click'', \<lambda>_. Some SmsClicked)]
        [icon ''Mail24Regular'', Text tv_text_messages]]"

definition view_detail_loading ::
    "'e node list" where
  "view_detail_loading =
     [Text tv_loading_device]"

datatype config_use = ConfigEdited string jsval | ConfigSaved | ConfigDeleted

text \<open>The tab without its own watcher: the form it is given, the device, and whether requests are under way.\<close>

record config_panel =
  cp_config :: jsval
  cp_status :: jsval
  cp_saving :: bool
  cp_deleting :: bool

abbreviation config_field :: "config_panel \<Rightarrow> string \<Rightarrow> jsval" where
  "config_field p k \<equiv> jfield (cp_config p) k"

abbreviation active_text :: "config_panel \<Rightarrow> string \<Rightarrow> jsval" where
  "active_text p k \<equiv> or_else (active_field (cp_status p) (cp_config p) k) (JStr [])"

definition view_config_tab ::
    "config_panel \<Rightarrow> config_use node list" where
  "view_config_tab p =
     [icon ''Router24Regular'', Text tv_device_configuration, Text tv_stored_in_database,
      Elem ''el-button'' [Loading (cp_deleting p)] [(''click'', \<lambda>_. Some ConfigDeleted)]
        [icon ''Delete24Regular'', Text tv_delete_device],
      Elem ''el-button'' [Loading (cp_saving p)] [(''click'', \<lambda>_. Some ConfigSaved)]
        [icon ''Save24Regular'', Text tv_save_configuration]] @
     (if truthy (cp_config p) then
        [Text (js ''ID''),
         Elem ''el-input''
           [Attr ''model'' (config_field p ''id''), Disabled True]
           [(''update'', \<lambda>v. Some (ConfigEdited ''id'' v))]
           [],
         Text tv_name,
         Elem ''el-input''
           [Attr ''model'' (config_field p ''name''), Attr ''placeholder'' (JStr tv_display_name)]
           [(''update'', \<lambda>v. Some (ConfigEdited ''name'' v))]
           [],
         Text tv_imei_binding,
         Elem ''el-input''
           [Attr ''model'' (config_field p ''modem_imei''), Disabled True,
            Attr ''placeholder'' (JStr tv_bound_when_added)]
           [(''update'', \<lambda>v. Some (ConfigEdited ''modem_imei'' v))]
           [],
         Text tv_device_path,
         Elem ''el-input''
           [Attr ''model'' (active_text p ''usb_path''), Disabled True,
            Attr ''placeholder'' (JStr tv_found_by_the_system)]
           []
           [],
         Text tv_network_interface,
         Elem ''el-input''
           [Attr ''model'' (active_text p ''interface''), Disabled True,
            Attr ''placeholder'' (JStr tv_found_by_the_system)]
           []
           [],
         Text tv_at_port,
         Elem ''el-input''
           [Attr ''model'' (active_text p ''at_port''), Disabled True,
            Attr ''placeholder'' (JStr tv_found_by_the_system)]
           []
           [],
         Text tv_control_device,
         Elem ''el-input''
           [Attr ''model'' (active_text p ''control_device''), Disabled True,
            Attr ''placeholder'' (JStr tv_found_by_the_system)]
           []
           [],
         Text tv_device_run_mode,
         Text (if config_qmi_only (cp_status p) (cp_config p) then tv_device_fixed_qmi else if config_mbim_only (cp_config p) then tv_device_fixed_mbim else tv_at_classic_or_qmi),
         Elem ''el-select''
           [Attr ''model'' (config_field p ''device_backend''), Attr ''placeholder'' (jlit ''AT''),
            Disabled (config_qmi_only (cp_status p) (cp_config p) \<or> config_mbim_only (cp_config p))]
           [(''update'', \<lambda>v. Some (ConfigEdited ''device_backend'' v))]
           ((if \<not> config_mbim_only (cp_config p) then
              [Elem ''el-option''
                 [Attr ''label'' (jlit ''AT''), Attr ''value'' (jlit ''at''),
                  Disabled (config_qmi_only (cp_status p) (cp_config p))]
                 []
                 []]
            else []) @
           (if \<not> config_mbim_only (cp_config p) then
              [Elem ''el-option''
                 [Attr ''label'' (jlit ''QMI''), Attr ''value'' (jlit ''qmi''),
                  Disabled (\<not> truthy (active_field (cp_status p) (cp_config p) ''control_device'') \<and> config_field p ''device_backend'' \<noteq> jlit ''qmi'')]
                 []
                 []]
            else []) @
           (if config_mbim_only (cp_config p) then
              [Elem ''el-option'' [Attr ''label'' (jlit ''MBIM''), Attr ''value'' (jlit ''mbim'')] [] []]
            else []))]
      else [])"

section \<open>The dialog for a new device\<close>

datatype add_use = AddDialogSet bool | FoundClicked jsval | AddEdited add_config | AddSaved

definition view_add_dialog ::
    "device_actions \<Rightarrow> add_use node list" where
  "view_add_dialog s =
     [Elem ''el-dialog''
        [Open (da_addOpen s), Attr ''title'' (JStr tv_add_device_configuration)]
        [(''update:model-value'', \<lambda>v. Some (AddDialogSet (truthy v)))]
        ([Text tv_choose_an_unconfigured_device] @
        (if da_discovering s then
           [icon ''ArrowSync24Regular'', Text tv_discovering_devices]
         else
           concat (map (\<lambda>d.
              [Elem ''button''
                 [Attr ''aria-disabled'' (JBool (truthy (jfield d ''degraded'')))]
                 [(''click'', \<lambda>_. Some (FoundClicked d))]
                 ([Text (display (or_else (jfield d ''net_interface'') (jlit ''--''))), Text [0x00B7],
                  Text (display (or_else (jfield d ''driver_name'') (jlit ''--''))),
                  Elem ''el-tag''
                    [Attr ''type'' (jlit (if isQmiDiscovery d then ''success'' else ''warning''))]
                    []
                    [Text (discoveryModeText d)],
                  Text (display (jfield d ''control_path'')), Text ([0x00B7] @ js '' AT:''),
                  Text (display (or_else (jfield d ''at_port'') (jlit ''--''))),
                  Text ([0x00B7] @ js '' IMEI:''), Text (display (or_else (jfield d ''imei'') (jlit ''--''))),
                  Text ([0x00B7] @ js '' USB:''),
                  Text (display (or_else (jfield d ''usb_path'') (jlit ''--'')))] @
                 (if truthy (jfield d ''degraded'') then
                    [Text tv_imei_unreadable_cannot_add]
                  else []))])
             (addableDiscovered s)) @
           (if addableDiscovered s = [] then
              [Text tv_nothing_to_add]
            else [])) @
        (if da_addSelected s \<noteq> None then
           [Text tv_chosen_device_state, Text tv_mode_colon,
            Elem ''el-tag''
              [Attr ''type'' (jlit (if isQmiDiscovery (the (da_addSelected s)) then ''success'' else ''warning''))]
              []
              [Text (discoveryModeText (the (da_addSelected s)))]] @
           (if add_qmi_only s then
              [Elem ''el-tag'' [] [] [Text tv_qmi_only]]
            else []) @
           (if add_mbim_only s then
              [Elem ''el-tag'' [] [] [Text tv_mbim_only]]
            else []) @
           (if add_qmi_only s then
              [Text tv_wwan_qmi_is_fixed]
            else [])
         else []) @
        [Text (js ''ID''),
         Elem ''el-input''
           [Attr ''model'' (JStr (ac_id (da_addConfig s))), Attr ''placeholder'' (JStr tv_example_ec20)]
           [(''update'', \<lambda>v. Some (AddEdited ((da_addConfig s)\<lparr>ac_id := to_string v\<rparr>)))]
           [],
         Text tv_name,
         Elem ''el-input''
           [Attr ''model'' (JStr (ac_name (da_addConfig s))),
            Attr ''placeholder'' (JStr tv_display_name_optional)]
           [(''update'', \<lambda>v. Some (AddEdited ((da_addConfig s)\<lparr>ac_name := to_string v\<rparr>)))]
           [],
         Text tv_imei_binding,
         Elem ''el-input''
           [Attr ''model'' (JStr (ac_modem_imei (da_addConfig s))), Disabled True,
            Attr ''placeholder'' (JStr tv_filled_from_discovery)]
           [(''update'', \<lambda>v. Some (AddEdited ((da_addConfig s)\<lparr>ac_modem_imei := to_string v\<rparr>)))]
           [],
         Text tv_usb_path,
         Elem ''el-input''
           [Attr ''model'' (JStr (ac_usb_path (da_addConfig s))), Disabled True]
           [(''update'', \<lambda>v. Some (AddEdited ((da_addConfig s)\<lparr>ac_usb_path := to_string v\<rparr>)))]
           [],
         Text tv_network_interface,
         Elem ''el-input''
           [Attr ''model'' (JStr (ac_interface (da_addConfig s))), Disabled True]
           [(''update'', \<lambda>v. Some (AddEdited ((da_addConfig s)\<lparr>ac_interface := to_string v\<rparr>)))]
           [],
         Text tv_at_port,
         Elem ''el-input''
           [Attr ''model'' (JStr (ac_at_port (da_addConfig s))), Disabled True]
           [(''update'', \<lambda>v. Some (AddEdited ((da_addConfig s)\<lparr>ac_at_port := to_string v\<rparr>)))]
           [],
         Text tv_control_device,
         Elem ''el-input''
           [Attr ''model'' (JStr (ac_control_device (da_addConfig s))), Disabled True]
           [(''update'', \<lambda>v. Some (AddEdited ((da_addConfig s)\<lparr>ac_control_device := to_string v\<rparr>)))]
           [],
         Text tv_device_backend_mode,
         Text (if add_qmi_only s then tv_fixed_qmi_at_for_terminal else if add_mbim_only s then tv_fixed_mbim_at_for_terminal else tv_at_serial_or_qmi),
         Elem ''el-select''
           [Attr ''model'' (JStr (ac_device_backend (da_addConfig s))),
            Attr ''placeholder'' (jlit ''AT''), Disabled (add_qmi_only s \<or> add_mbim_only s)]
           [(''update'', \<lambda>v. Some (AddEdited ((da_addConfig s)\<lparr>ac_device_backend := to_string v\<rparr>)))]
           ((if \<not> add_mbim_only s then
              [Elem ''el-option''
                 [Attr ''label'' (jlit ''AT''), Attr ''value'' (jlit ''at''), Disabled (add_qmi_only s)]
                 []
                 []]
            else []) @
           (if \<not> add_mbim_only s then
              [Elem ''el-option''
                 [Attr ''label'' (jlit ''QMI''), Attr ''value'' (jlit ''qmi''),
                  Disabled (ac_control_device (da_addConfig s) = [])]
                 []
                 []]
            else []) @
           (if add_mbim_only s then
              [Elem ''el-option'' [Attr ''label'' (jlit ''MBIM''), Attr ''value'' (jlit ''mbim'')] [] []]
            else [])),
         Elem ''el-button'' [] [(''click'', \<lambda>_. Some (AddDialogSet False))] [Text tv_cancel],
         Elem ''el-button'' [Loading (da_busy s AddDevice)] [(''click'', \<lambda>_. Some AddSaved)]
           [icon ''Save24Regular'', Text tv_save]])]"

section \<open>The traffic panel\<close>

datatype traffic_use = RangePicked jstr | TrafficRefresh | ChartRetryClicked

record traffic_panel =
  tp_title :: jstr
  tp_subtitle :: jstr
  tp_range :: jstr
  tp_mode :: panel_mode
  tp_disabled :: bool
  tp_loading :: bool
  tp_error :: "app_error option"
  tp_lastOkAt :: "int option"
  tp_analysis :: traffic_analysis
  tp_loader :: chart_loader

text \<open>\<open>!!chartOption\<close>.\<close>

definition has_chart :: "traffic_panel \<Rightarrow> bool" where
  "has_chart p \<longleftrightarrow> hasChartData (tp_mode p) (ta_chart (tp_analysis p))"

definition view_traffic_panel ::
    "(int \<Rightarrow> jstr) \<Rightarrow> local_dates \<Rightarrow> traffic_panel \<Rightarrow> traffic_use node list" where
  "view_traffic_panel locale_time date_of p =
     [Text (tp_title p), Text (tp_subtitle p),
      Elem ''el-radio-group''
        [Attr ''model'' (JStr (tp_range p)), Disabled (tp_disabled p)]
        [(''change'', \<lambda>v. map_option RangePicked (handleRangeChange v))]
        [Elem ''el-radio-button'' [Attr ''label'' (jlit ''day'')] [] [Text tv_day],
         Elem ''el-radio-button'' [Attr ''label'' (jlit ''week'')] [] [Text tv_week],
         Elem ''el-radio-button'' [Attr ''label'' (jlit ''month'')] [] [Text tv_month]]] @
     view_refresh_button (tp_loading p) (tp_disabled p) (\<lambda>_. Some TrafficRefresh) @
     (if tp_disabled p then
        [Text tv_network_off_no_analysis]
      else
        (if tp_error p \<noteq> None then
           view_error_state locale_time tv_analysis_failed (ae_message (the (tp_error p))) []
             \<lparr>es_statusCode = ae_status (the (tp_error p)), es_requestMethod = text_of (ae_method (the (tp_error p))),
                  es_requestUrl = text_of (ae_url (the (tp_error p))), es_lastSuccessAt = tp_lastOkAt p\<rparr>
             tv_retry (\<lambda>_. Some TrafficRefresh)
         else []) @
        [Text (rangeText (tp_range p)), Text tv_download,
         Text (panel_formatBytes (JNum (fst (analysisTotal (tp_analysis p))))),
         Text (rangeText (tp_range p)), Text tv_upload,
         Text (panel_formatBytes (JNum (fst (snd (analysisTotal (tp_analysis p)))))),
         Text (rangeText (tp_range p)), Text tv_total,
         Text (panel_formatBytes (JNum (snd (snd (analysisTotal (tp_analysis p))))))] @
        (if has_chart p \<and> cl_component (tp_loader p) then
           [Elem (''v-chart'') [] [] []]
         else if has_chart p \<and> text_of (cl_error (tp_loader p)) \<noteq> [] then
           view_error_state (\<lambda>_. []) tv_chart_failed_short (text_of (cl_error (tp_loader p))) []
             \<lparr>es_statusCode = None, es_requestMethod = [],
                  es_requestUrl = [], es_lastSuccessAt = None\<rparr>
             tv_chart_again (\<lambda>_. Some ChartRetryClicked)
         else if has_chart p \<and> cl_loading (tp_loader p) then
           [Text tv_chart_loading]
         else
           [Text tv_no_chart_data]) @
        [Elem ''el-table'' [Loading (tp_loading p)] []
           ([Text tv_time, Text tv_download, Text tv_upload, Text tv_total] @
            concat (map (\<lambda>row.
              [Text (display (formatTrafficBucketTime date_of (tp_range p) row))] @
              [Text (panel_formatBytes (jfield row ''rx_bytes''))] @
              [Text (panel_formatBytes (jfield row ''tx_bytes''))] @
              [Text (panel_formatBytes (jfield row ''total_bytes''))])
              (elems (ta_buckets (tp_analysis p)))))])"

section \<open>The web sheet\<close>

datatype sheet_use = SheetSet bool | SheetLoaded

definition view_websheet ::
    "jstr \<Rightarrow> sheet_dialog \<Rightarrow> sheet_use node list" where
  "view_websheet title s =
     [Elem ''el-dialog''
        [Open (sd_open s), Attr ''title'' (JStr (text_else title tv_e911_address))]
        [(''update:model-value'', \<lambda>v. Some (SheetSet (truthy v)))]
        ((if \<not> sd_loaded s then
           [Text tv_loading_short]
         else []) @
        (if iframeSrc s \<noteq> [] then
           [Elem ''iframe''
              [Attr ''src'' (JStr (iframeSrc s))]
              [(''load'', \<lambda>_. Some SheetLoaded)]
              []]
         else []))]"

section \<open>What the user can do\<close>

text \<open>The buttons of a device: one of the first two is there, each while its own request is not under way.\<close>

lemma header_offers:
  "user_can (view_detail_header m device) RotateClicked \<longleftrightarrow>
     \<not> truthy (jfield device ''vowifi_enabled'') \<and> truthy (jfield device ''network_connected'') \<and> \<not> hm_rotating m"
  "user_can (view_detail_header m device) ReconnectClicked \<longleftrightarrow>
     truthy (jfield device ''vowifi_enabled'') \<and> \<not> hm_reconnecting m"
  "user_can (view_detail_header m device) RebootClicked \<longleftrightarrow> \<not> hm_rebooting m"
  unfolding user_can_only view_detail_header_def by auto

lemma config_offers:
  "user_can (view_config_tab p) ConfigSaved \<longleftrightarrow> \<not> cp_saving p"
  "user_can (view_config_tab p) ConfigDeleted \<longleftrightarrow> \<not> cp_deleting p"
  unfolding user_can_only view_config_tab_def by auto

text \<open>Of the configuration the user can only edit the name and, unless the device fixes it, the backend.\<close>

lemma config_edits:
  "user_can (view_config_tab p) (ConfigEdited k v) \<longleftrightarrow>
     truthy (cp_config p) \<and> (k = ''name'' \<or>
       k = ''device_backend'' \<and> \<not> config_qmi_only (cp_status p) (cp_config p) \<and> \<not> config_mbim_only (cp_config p))"
  unfolding user_can_only view_config_tab_def by auto

lemma device_list_offers:
  "user_can (view_list_panel p) (DeviceClicked i) \<longleftrightarrow> (\<exists>d\<in>set (lp_devices p). i = to_string (jfield d ''id''))"
  unfolding user_can_only view_list_panel_def by auto

lemma card_offers: "user_can (view_device_card d) e \<longleftrightarrow> e = OpenDevice (jfield d ''id'')"
  unfolding user_can_only view_device_card_def by auto

lemma range_known: "handleRangeChange v = Some r \<Longrightarrow> r \<in> {js ''day'', js ''week'', js ''month''}"
  by (cases v) (auto simp: handleRangeChange_def split: if_splits)

lemma range_picked:
  "\<not> pred_option (\<lambda>d. d \<noteq> RangePicked r) (map_option RangePicked (handleRangeChange v)) \<Longrightarrow>
   r \<in> {js ''day'', js ''week'', js ''month''}"
  using range_known [of v r] by (cases "handleRangeChange v") auto

lemma traffic_offers:
  "user_can (view_traffic_panel lt dates p) TrafficRefresh \<Longrightarrow> \<not> tp_disabled p"
  "user_can (view_traffic_panel lt dates p) (RangePicked r) \<Longrightarrow>
     \<not> tp_disabled p \<and> r \<in> {js ''day'', js ''week'', js ''month''}"
  unfolding user_can_only view_traffic_panel_def
  by (auto dest: range_picked)

text \<open>The dialog shows devices that cannot be added with their buttons usable (\<open>aria-disabled\<close> only
  announces them as disabled); choosing one is refused by the handler.\<close>

lemma degraded_clickable:
  assumes "da_addOpen s" and "\<not> da_discovering s" and "d \<in> set (addableDiscovered s)" and "truthy (jfield d ''degraded'')"
  shows "user_can (view_add_dialog s) (FoundClicked d) \<and> da_addSelected (dialog_selects d s) = da_addSelected s"
proof -
  have "user_can (view_add_dialog s) (FoundClicked d)"
    using assms(1-3) unfolding user_can_only view_add_dialog_def by auto
  then show ?thesis
    using assms(4) by (simp add: dialog_selects_def selectDiscoveredForAdd_def add_watchers_def add_backend_def say_def Let_def)
qed

section \<open>Adding a device\<close>

text \<open>What the form of a new device can become on screen: the identifier and the name, and the backend unless the
  device fixes it.\<close>

lemma add_edits:
  assumes "user_can (view_add_dialog s) (AddEdited c)"
  shows "c = (da_addConfig s)\<lparr>ac_id := ac_id c, ac_name := ac_name c, ac_device_backend := ac_device_backend c\<rparr> \<and>
    (add_qmi_only s \<or> add_mbim_only s \<longrightarrow> ac_device_backend c = ac_device_backend (da_addConfig s))"
  using assms unfolding user_can_only view_add_dialog_def by auto

end
