(* ===== verification/DeviceTabViews.thy ===== *)
theory DeviceTabViews
  imports DeviceTabs AtTemplates OperatorDialog CommonViews
begin

text \<open>
  The templates of the overview, AT and USSD tabs of a device and of the dialog that chooses an operator
  (\<open>DeviceOverviewTab.vue\<close>, \<open>DeviceAtTab.vue\<close>, \<open>DeviceUssdTab.vue\<close>,
  \<open>OperatorSelectionDialog.vue\<close>). The local form of a time is a parameter.
\<close>

section \<open>The operator dialog\<close>

datatype dialog_use =
    DialogSet bool
  | ScanClicked
  | AutoClicked
  | CandidateClicked jsval

definition current_mode :: "operator_dialog \<Rightarrow> jsval" where
  "current_mode s = (case od_current s of None \<Rightarrow> JUndef | Some c \<Rightarrow> jfield c ''mode'')"

definition locked_plmn :: "operator_dialog \<Rightarrow> jstr" where
  "locked_plmn s = (case od_current s of None \<Rightarrow> [] | Some c \<Rightarrow> to_string (or_else (jfield c ''plmn'') (jlit ''--'')))"

definition view_operator_dialog ::
    "operator_dialog \<Rightarrow> dialog_use node list" where
  "view_operator_dialog s =
     [Elem ''el-dialog''
        [Open (od_open s), Attr ''title'' (JStr tv_operator_selection)]
        [(''update:model-value'', \<lambda>v. Some (DialogSet (truthy v)))]
        ([Text tv_current_mode,
         Text (if current_mode s = jlit ''automatic'' then tv_automatic else tv_manually_locked)] @
        (if current_mode s = jlit ''manual'' then
           [Text tv_locked_plmn, Text (locked_plmn s)]
         else []) @
        [Elem ''el-button'' [Loading (scanning s)] [(''click'', \<lambda>_. Some ScanClicked)]
           [Text (if scanning s then tv_scanning else tv_scan_networks)],
         Elem ''el-button''
           [Disabled (od_loading s \<or> current_mode s = jlit ''automatic'')]
           [(''click'', \<lambda>_. Some AutoClicked)]
           [Text tv_back_to_automatic]] @
        (if scanning s \<or> truthy (scanMessage s) \<or> truthy (scanError s) then
           [Text (display (or_else (scanError s) (scanMessage s)))]
         else []) @
        (if elems (candidates s) \<noteq> [] then
           concat (map (\<lambda>c.
              [Elem ''div'' [] [(''click'', \<lambda>_. Some (CandidateClicked c))]
                 ([Text (display (or_else (jfield c ''operator_name'') (or_else (jfield c ''short_name'') (JStr tv_unknown_network))))] @
                 (if jfield c ''status'' = jlit ''current'' then
                    [Text tv_current]
                  else if jfield c ''status'' = jlit ''forbidden'' then
                    [Text tx_disable]
                  else []) @
                 [Text (display (jfield c ''plmn'')), Text tv_bullet, Text (ratDisplay c),
                  Elem ''el-button'' [] [] [Text tv_lock]])])
             (elems (candidates s)))
         else if scanning s then
           [Text tv_searching_networks]
         else if scanRetryable s then
           [Text (display (or_else (scanMessage s) (JStr tx_scan_retry)))]
         else []))]"

section \<open>The overview\<close>

datatype overview_use =
    DetailToggled
  | OperatorsOpened
  | SensitiveToggled
  | EmergencySetup
  | InDialog dialog_use

record overview_tab =
  ov_device :: jsval
  ov_simOperator :: jstr
  ov_speedRx :: jstr
  ov_speedTx :: jstr
  ov_minuteRx :: jstr
  ov_minuteTx :: jstr
  ov_e911Starting :: bool
  ov_detail :: bool
  ov_dialog :: operator_dialog

text \<open>A value of the modem.\<close>

abbreviation modem :: "overview_tab \<Rightarrow> string \<Rightarrow> jsval" where
  "modem t k \<equiv> jfield (jfield (ov_device t) ''modem'') k"

abbreviation runtime :: "overview_tab \<Rightarrow> string \<Rightarrow> jsval" where
  "runtime t k \<equiv> jfield (jfield (ov_device t) ''vowifi_runtime'') k"

definition or_dashes :: "jsval \<Rightarrow> jsval" where
  "or_dashes v = or_else v (jlit ''--'')"

definition shown_signal :: "jsval \<Rightarrow> jstr" where
  "shown_signal v = to_string (if_nullish v (jlit ''--''))"

text \<open>\<open>[network_duplex, network_mode].filter(Boolean).join(' ')\<close>.\<close>

definition network_mode :: "overview_tab \<Rightarrow> jstr" where
  "network_mode t =
     join_with (js '' '') (map to_string (filter truthy [modem t ''network_duplex'', modem t ''network_mode'']))"

definition readiness_values :: "overview_tab \<Rightarrow> (string \<times> jsval) list" where
  "readiness_values t =
     [(''SIM'', runtime t ''sim_ready''), (''Access'', runtime t ''access_ready''), (''Tunnel'', runtime t ''tunnel_ready''),
      (''IMS'', runtime t ''ims_ready''), (''SMS'', runtime t ''sms_ready'')]"

definition ready_class :: "jsval \<Rightarrow> string" where
  "ready_class ready =
     (if ready = JBool True then ''bg-emerald-500 dark:bg-emerald-400''
      else if ready = JBool False then ''bg-red-500 dark:bg-red-400'' else ''bg-gray-200 dark:bg-white/10'')"

definition signalBarColor :: "jsval \<Rightarrow> string" where
  "signalBarColor device =
     (case signalColor device of
        SignalGreen \<Rightarrow> ''bg-emerald-500'' | SignalAmber \<Rightarrow> ''bg-amber-500'' | SignalRed \<Rightarrow> ''bg-red-500''
      | SignalGray \<Rightarrow> ''bg-gray-300 dark:bg-gray-600'')"

definition backend_name :: "jsval \<Rightarrow> string" where
  "backend_name mode =
     (if mode = jlit ''qmi'' then ''QMI'' else if mode = jlit ''mbim'' then ''MBIM''
      else if mode = jlit ''at'' then ''AT'' else ''Auto'')"

text \<open>\<open>computed(() => activeEsimProfileDisplayName(props.device))\<close>.\<close>

definition activeEsimProfileName :: "overview_tab \<Rightarrow> jstr" where
  "activeEsimProfileName t = activeEsimProfileDisplayName
     (jstr_of (jfield (ov_device t) ''active_esim_profile_name''))"

definition view_vowifi ::
    "overview_tab \<Rightarrow> overview_use node list" where
  "view_vowifi t =
     view_status_light (vowifiStatusTone (ov_device t)) Sm (vowifiStatus (ov_device t) \<noteq> VowifiOff) @
     (if vowifiStatus (ov_device t) = VowifiOk then
        [Text tv_wifi_calling_ready]
      else if vowifiStatus (ov_device t) = VowifiPartial then
        [Text (join_with (js '' '' @ [0x00B7] @ js '' '') (map js (notReadyNames (ov_device t)))),
         Text tv_not_ready]
      else
        [Text tv_vowifi_down]) @
     (if vowifiStatus (ov_device t) = VowifiPartial \<and> truthy (runtime t ''last_reason'') then
        [Text (display (runtime t ''last_reason''))]
      else []) @
     concat (map (\<lambda>(key, ready).
        [Elem ''div'' [Attr ''class'' (jlit (ready_class ready))] [] []])
       (readiness_values t)) @
     concat (map (\<lambda>(key, ready).
        [Text (js key)])
       (readiness_values t)) @
     [Elem ''button'' [] [(''click'', \<lambda>_. Some DetailToggled)]
        [Text tv_details,
         Text [if ov_detail t \<or> vowifi_hasError (ov_device t) then 0x25B4 else 0x25BE]]] @
     (if ov_detail t \<or> vowifi_hasError (ov_device t) then
        view_field_row tv_data_plane (field_of (or_dashes (runtime t ''dataplane_mode'')) False False) None @
        view_field_row tv_last_reason (field_of (or_dashes (runtime t ''last_reason'')) False False) None @
        view_field_row tv_error_class (field_of (or_dashes (runtime t ''last_error_class'')) True False) None
      else [])"

definition view_cellular ::
    "overview_tab \<Rightarrow> overview_use node list" where
  "view_cellular t =
     view_status_light (cellularStatusTone (ov_device t)) Sm (isRadioRegistered (ov_device t)) @
     (if isRadioRegistered (ov_device t) then
        [Text (display (or_dashes (modem t ''operator'')))] @
        (if truthy (modem t ''network_mode'') then
           [Text [0x00B7], Text (network_mode t)]
         else [])
      else
        [Text (cellularStatusText (ov_device t))]) @
     [Elem ''button''
        [Attr ''title'' (JStr tv_network_selection)]
        [(''click'', \<lambda>_. Some OperatorsOpened)]
        [icon ''Settings24Regular''],
      Text tv_signal_strength, Text (shown_signal (modem t ''signal_dbm'')), Text (js ''dBm''),
      Text (js ''RSRP''), Text (shown_signal (modem t ''signal_rsrp'')),
      Text (js ''&nbsp;'' @ [0x00B7] @ js ''&nbsp; RSRQ''),
      Text (shown_signal (modem t ''signal_rsrq'')),
      Text (js ''&nbsp;'' @ [0x00B7] @ js ''&nbsp; SINR''),
      Text (shown_signal (modem t ''signal_sinr''))] @
     (if modem t ''nr5g_signal_sinr'' \<noteq> JUndef then
        [Text (js ''&nbsp;'' @ [0x00B7] @ js ''&nbsp;NR5G SINR''),
         Text (display (modem t ''nr5g_signal_sinr''))]
      else []) @
     concat (map (\<lambda>i.
        [Elem ''div''
           [Attr ''class'' (jlit (if i \<le> signalLevel (ov_device t) then signalBarColor (ov_device t) else ''bg-gray-200 dark:bg-white/10''))]
           []
           []])
       [1..<6]) @
     view_field_row tv_network_mode (field_of (or_dashes (JStr (network_mode t))) False False) None @
     view_field_row tv_band (field_of (or_dashes (modem t ''radio_band'')) False False) None @
     view_field_row tv_channel (field_of (if truthy (modem t ''radio_channel'') then JStr (to_string (modem t ''radio_channel'')) else jlit ''--'') False False) None @
     view_field_row tv_registration_state (field_of (or_dashes (modem t ''reg_status_text'')) False False) None"

definition view_identity ::
    "bool \<Rightarrow> overview_tab \<Rightarrow> overview_use node list" where
  "view_identity visible t =
     [Text tv_sim_and_device,
      Elem ''div'' [] [(''click'', \<lambda>_. Some SensitiveToggled)]
        (if visible then
           [icon ''Eye24Regular'']
         else
           [icon ''EyeOff24Regular''])] @
     view_field_row (js ''IMEI'') (field_of (modem t ''imei'') True (\<not> visible)) None @
     view_field_row (js ''ICCID'') (field_of (modem t ''iccid'') True (\<not> visible)) None @
     view_field_row (js ''IMSI'') (field_of (modem t ''imsi'') True (\<not> visible)) None @
     view_field_row tv_own_number (field_of (or_dashes (jfield (ov_device t) ''local_phone'')) True (\<not> visible)) None @
     (if truthy (jfield (ov_device t) ''e911_setup_available'') then
        [Text tv_e911_address,
         Elem ''el-button''
           [Loading (ov_e911Starting t)]
           [(''click'', \<lambda>_. Some EmergencySetup)]
           [Text tv_settings]]
      else []) @
     (if activeEsimProfileName t \<noteq> [] then
        view_field_row tv_current_esim (field_of (JStr (activeEsimProfileName t)) True False) None
      else []) @
     view_field_row tv_home_operator (field_of (JStr (ov_simOperator t)) True False) None @
     view_field_row tv_firmware_version (field_of (modem t ''firmware'') True False) None @
     [Text tv_flight_mode, Text (flightModeStatusText (ov_device t))] @
     view_field_row tv_run_mode (field_of (jlit (backend_name (jfield (ov_device t) ''backend_mode''))) False False) None"

definition view_network ::
    "overview_tab \<Rightarrow> overview_use node list" where
  "view_network t =
     [Text tv_network] @
     (if networkPanelMessage (ov_device t) \<noteq> [] then
        [Text (networkPanelMessage (ov_device t))]
      else
        view_field_row tv_private_ipv4 (field_of (jfield (ov_device t) ''private_ip'') True False) None @
        view_field_row tv_private_ipv6 (field_of (jfield (ov_device t) ''private_ipv6'') True False) None @
        view_field_row tv_public_ipv4 (field_of (jfield (ov_device t) ''public_ip'') True False) None @
        view_field_row tv_public_ipv6 (field_of (jfield (ov_device t) ''public_ipv6'') True False) None @
        view_field_row tv_minute_upload (field_of (traffic_amount_display ''tx'' (ov_minuteTx t) (ov_device t)) False False) None @
        view_field_row tv_minute_download (field_of (traffic_amount_display ''rx'' (ov_minuteRx t) (ov_device t)) False False) None @
        view_field_row tv_download_speed (field_of (trafficDownloadRateDisplay (ov_speedRx t) (ov_device t)) False False) None @
        view_field_row tv_upload_speed (field_of (trafficUploadRateDisplay (ov_speedTx t) (ov_device t)) False False) None)"

definition view_overview_tab ::
    "bool \<Rightarrow> overview_tab \<Rightarrow> overview_use node list" where
  "view_overview_tab visible t =
     [Text tv_running_state] @
     (if truthy (jfield (ov_device t) ''vowifi_enabled'') then
        view_vowifi t
      else
        view_cellular t) @
     view_identity visible t @
     view_network t @
     (if truthy (jfield (ov_device t) ''id'') then
        map (embed (\<lambda>e. Some (InDialog e))) (view_operator_dialog (ov_dialog t))
      else [])"

section \<open>The terminals\<close>

text \<open>What happens in the USSD tab: the events of its runs, and those that do not change its state.\<close>

datatype ussd_use = InUssd ussd_event | UssdCancel | UssdTimeout jnum

datatype at_use =
    AtTyped jstr
  | AtTemplate jstr
  | AtTimeout jnum
  | AtSend
  | AtCleared
  | AtAnswer int jstr "(jsval \<times> jsval) service_result"

definition view_ussd_tab ::
    "(int \<Rightarrow> jstr) \<Rightarrow> int \<Rightarrow> ussd_tab \<Rightarrow> ussd_use node list" where
  "view_ussd_tab local_time now s =
     [icon ''Phone24Regular'', Text tv_ussd_terminal, Text tv_ussd_subtitle] @
     (if isMultiRound s then
        [Text tv_session_goes_on,
         Elem ''el-button'' [Disabled (ut_sending s)] [(''click'', \<lambda>_. Some UssdCancel)]
           [Text tv_cancel_session]]
      else []) @
     (if ut_history s = [] \<and> \<not> ut_sending s then
        [Text tv_no_ussd_session]
      else []) @
     concat (map (\<lambda>msg.
        (if ue_kind msg = UssdReq then
           [Text (ue_content msg), Text (local_time (ue_ts msg))]
         else if ue_kind msg = UssdSys then
           [Text (ue_content msg)]
         else
           [Text (ue_content msg), Text (local_time (ue_ts msg))] @
           (if ue_dcs msg \<noteq> JUndef then
              [Text (js ''DCS:''), Text (display (ue_dcs msg))]
            else []) @
           (if truthy (ue_channel msg) then
              [Text (js (if ue_channel msg = jlit ''vowifi'' then ''VoWiFi'' else ''CS''))]
            else [])))
       (ut_history s)) @
     (if ut_sending s then
        [Text tv_waiting_for_network]
      else []) @
     [Text (if isMultiRound s then tv_menu_reply else tv_command_or_reply),
      Elem ''el-input''
        [Attr ''model'' (JStr (ut_cmd s)), Attr ''placeholder'' (JStr (inputPlaceholder s)),
         Disabled (ut_sending s)]
        [(''update'', \<lambda>v. Some (InUssd (UssdType (to_string v)))),
         (''keyup'', \<lambda>_. Some (InUssd (UssdSend now)))]
        [],
      Text tv_timeout_ms,
      Elem ''el-input''
        [Attr ''model'' (JNum (ut_timeoutMs s)), Attr ''type'' (jlit ''number''),
         Attr ''placeholder'' (jlit ''45000'')]
        [(''update'', \<lambda>v. Some (UssdTimeout (to_number v)))]
        [],
      Text tv_actions,
      Elem ''el-button'' [] [(''click'', \<lambda>_. Some (InUssd UssdClear))] [Text tv_clear],
      Elem ''el-button''
        [Loading (ut_sending s), Disabled (ut_cmd s = [])]
        [(''click'', \<lambda>_. Some (InUssd (UssdSend now)))]
        [Text (if isMultiRound s then tv_reply else tv_send)]]"

definition view_at_tab ::
    "(int \<Rightarrow> jstr) \<Rightarrow> bool \<Rightarrow> jsval \<Rightarrow> jstr \<Rightarrow> jstr \<Rightarrow> at_tab \<Rightarrow> at_use node list" where
  "view_at_tab local_time running atPort backendMode template s =
     [icon ''Code24Regular'', Text tv_at_terminal, Text tv_at_terminal_subtitle] @
     (if \<not> canUseATTerminal running atPort then
        [icon ''Warning24Regular'', Text (unavailableTitle running atPort),
         Text (unavailableDescription running atPort backendMode)]
      else
        (if at_history s = [] \<and> \<not> at_sending s then
           [Text tv_no_at_session]
         else []) @
        concat (map (\<lambda>h.
           [Text (ae_cmd h), Text (local_time (ae_ts h)), Text (display (ae_response h)),
            Text (local_time (ae_ts h))])
          (at_history s)) @
        (if at_sending s then
           [Text tv_waiting_for_module]
         else []) @
        [Text tv_quick_templates,
         Elem ''el-select''
           [Attr ''model'' (JStr template), Attr ''placeholder'' (JStr tv_choose_a_template)]
           [(''update'', \<lambda>v. Some (AtTemplate (to_string (or_else v (JStr [])))))]
           (concat (map (\<lambda>(label, its).
              [Elem ''el-option-group'' [Attr ''label'' (JStr label)] []
                 (concat (map (\<lambda>(name, cmd).
                    [Elem ''el-option'' [Attr ''label'' (JStr name), Attr ''value'' (JStr cmd)] [] []])
                   its))])
             AT_TEMPLATES)),
         Text tv_command,
         Elem ''el-input''
           [Attr ''model'' (JStr (at_cmd s)), Attr ''placeholder'' (JStr tv_example_at_csq),
            Disabled (at_sending s)]
           [(''update'', \<lambda>v. Some (AtTyped (to_string v))), (''keyup'', \<lambda>_. Some AtSend)]
           [],
         Text tv_timeout_ms,
         Elem ''el-input''
           [Attr ''model'' (JNum (at_timeoutMs s)), Attr ''type'' (jlit ''number''),
            Attr ''placeholder'' (jlit ''10000'')]
           [(''update'', \<lambda>v. Some (AtTimeout (to_number v)))]
           [],
         Text tv_actions,
         Elem ''el-button'' [] [(''click'', \<lambda>_. Some AtCleared)] [Text tv_clear],
         Elem ''el-button''
           [Loading (at_sending s), Disabled (at_cmd s = [])]
           [(''click'', \<lambda>_. Some AtSend)]
           [Text tv_send]])"

lemmas overview_views = view_overview_tab_def view_vowifi_def view_cellular_def view_identity_def view_network_def

section \<open>The operator dialog\<close>

text \<open>The rows of the found networks stay usable while a choice is under way: a second click on the
  same row sends the same choice again.\<close>

lemma candidate_chosen_twice:
  assumes "od_open s" and "c \<in> set (elems (candidates s))"
  shows "user_can (view_operator_dialog (setModeManual c s)) (CandidateClicked c) \<and>
    od_requests (setModeManual c (setModeManual c s)) = od_requests s @ [manual_payload c, manual_payload c]"
proof -
  have same: "candidates (setModeManual c s) = candidates s" "od_open (setModeManual c s)"
    using assms(1) by (simp_all add: candidates_def scan_field_def scanState_def setModeManual_def send_choice_def)
  have "elems (candidates s) \<noteq> []" using assms(2) by auto
  then have "user_can (view_operator_dialog (setModeManual c s)) (CandidateClicked c)"
    using assms(2) same unfolding user_can_only view_operator_dialog_def by auto
  then show ?thesis by (simp add: setModeManual_def send_choice_def)
qed

text \<open>The scan and the return to automatic selection wait for each other's answers.\<close>

lemma dialog_offers:
  "user_can (view_operator_dialog s) ScanClicked \<longleftrightarrow> od_open s \<and> \<not> scanning s"
  "user_can (view_operator_dialog s) AutoClicked \<longleftrightarrow> od_open s \<and> \<not> od_loading s \<and> current_mode s \<noteq> jlit ''automatic''"
  unfolding user_can_only view_operator_dialog_def by auto

section \<open>Identity on the overview\<close>

text \<open>Two devices that differ in nothing but the numbers that identify the modem, the card and the line.\<close>

definition same_but_identity :: "jsval \<Rightarrow> jsval \<Rightarrow> bool" where
  "same_but_identity d d' \<longleftrightarrow> truthy d' = truthy d \<and>
     (\<forall>k. k \<notin> {''local_phone'', ''modem''} \<longrightarrow> jfield d' k = jfield d k) \<and>
     (\<forall>k. k \<notin> {''imei'', ''iccid'', ''imsi''} \<longrightarrow> jfield (jfield d' ''modem'') k = jfield (jfield d ''modem'') k)"

lemma identity_fields:
  assumes "same_but_identity d d'"
  shows "k \<notin> {''local_phone'', ''modem''} \<Longrightarrow> jfield d' k = jfield d k"
    and "k \<notin> {''imei'', ''iccid'', ''imsi''} \<Longrightarrow> jfield (jfield d' ''modem'') k = jfield (jfield d ''modem'') k"
  using assms by (auto simp: same_but_identity_def)

lemma identity_unused:
  assumes same: "same_but_identity d d'"
  shows "vowifiStatus d' = vowifiStatus d" "notReadyNames d' = notReadyNames d" "vowifi_hasError d' = vowifi_hasError d"
    "isRadioRegistered d' = isRadioRegistered d" "isControlOnline d' = isControlOnline d"
    "device_phase d' = device_phase d" "signalLevel d' = signalLevel d" "signalColor d' = signalColor d"
    "flightModeEnabled d' = flightModeEnabled d" "networkPanelMessage d' = networkPanelMessage d"
    "trafficStateLabel d' = trafficStateLabel d"
proof -
  note f = identity_fields [OF same]
  show "device_phase d' = device_phase d" by (simp add: device_phase_def f)
  then show "isControlOnline d' = isControlOnline d"
    using same by (simp add: isControlOnline_def f same_but_identity_def)
  show "vowifiStatus d' = vowifiStatus d" "notReadyNames d' = notReadyNames d" "vowifi_hasError d' = vowifi_hasError d"
    by (simp_all add: vowifiStatus_def notReadyNames_def vowifi_hasError_def readinessItems_def f)
  show "isRadioRegistered d' = isRadioRegistered d" by (simp add: isRadioRegistered_def f)
  show "signalLevel d' = signalLevel d" "signalColor d' = signalColor d"
    by (simp_all add: signalLevel_def signalColor_def device_dbm_def f)
  show "flightModeEnabled d' = flightModeEnabled d" "networkPanelMessage d' = networkPanelMessage d"
    "trafficStateLabel d' = trafficStateLabel d"
    by (simp_all add: flightModeEnabled_def networkPanelMessage_def trafficStateLabel_def f)
qed

lemma identity_unused_texts:
  assumes same: "same_but_identity d d'"
  shows "cellularStatusText d' = cellularStatusText d" "cellularStatusTone d' = cellularStatusTone d"
    "vowifiStatusTone d' = vowifiStatusTone d" "trafficDisplay d' v = trafficDisplay d v"
    "flightModeStatusText d' = flightModeStatusText d" "signalBarColor d' = signalBarColor d"
  by (simp_all add: cellularStatusText_def cellularStatusTone_def vowifiStatusTone_def trafficDisplay_def
      flightModeStatusText_def signalBarColor_def Let_def identity_fields [OF same] identity_unused [OF same])

lemma hidden_row:
  "legible_all (view_field_row label \<lparr>fr_value = v, fr_copyable = c, fr_placeholder = p, fr_sensitive = True\<rparr> None) =
     [JStr label, JStr []]"
  by (simp add: view_field_row_def is_blurred_def titleValue_def)

lemma panels_same:
  assumes same: "same_but_identity (ov_device t) d'"
  shows "view_vowifi (t\<lparr>ov_device := d'\<rparr>) = view_vowifi t" "view_cellular (t\<lparr>ov_device := d'\<rparr>) = view_cellular t"
    "view_network (t\<lparr>ov_device := d'\<rparr>) = view_network t"
    "legible_all (view_identity False (t\<lparr>ov_device := d'\<rparr>)) = legible_all (view_identity False t)"
proof -
  note f = identity_fields [OF same] identity_unused [OF same] identity_unused_texts [OF same]
  show "view_vowifi (t\<lparr>ov_device := d'\<rparr>) = view_vowifi t"
    by (simp add: view_vowifi_def readiness_values_def f)
  show "view_cellular (t\<lparr>ov_device := d'\<rparr>) = view_cellular t"
    by (simp add: view_cellular_def network_mode_def f)
  show "view_network (t\<lparr>ov_device := d'\<rparr>) = view_network t"
    by (simp add: view_network_def traffic_amount_display_def trafficDownloadRateDisplay_def
        trafficUploadRateDisplay_def f)
  show "legible_all (view_identity False (t\<lparr>ov_device := d'\<rparr>)) = legible_all (view_identity False t)"
    by (simp add: view_identity_def hidden_row activeEsimProfileName_def f)
qed

section \<open>One command at a time\<close>

fun ussd_use_step :: "ussd_use \<Rightarrow> ussd_tab \<Rightarrow> ussd_tab" where
  "ussd_use_step (InUssd e) s = ussd_step e s"
| "ussd_use_step UssdCancel s = s"
| "ussd_use_step (UssdTimeout n) s = s\<lparr>ut_timeoutMs := n\<rparr>"

fun ussd_asks :: "ussd_use \<Rightarrow> ussd_tab \<Rightarrow> unit option" where
  "ussd_asks (InUssd (UssdSend now)) s = (if trim (ut_cmd s) = [] then None else Some ())"
| "ussd_asks _ s = None"

fun ussd_answers :: "ussd_use \<Rightarrow> unit option" where
  "ussd_answers (InUssd (UssdAnswer now r)) = Some ()"
| "ussd_answers _ = None"

fun at_use_step :: "at_use \<Rightarrow> at_tab \<Rightarrow> at_tab" where
  "at_use_step (AtTyped t) s = s\<lparr>at_cmd := t\<rparr>"
| "at_use_step (AtTemplate t) s = on_template t s"
| "at_use_step (AtTimeout n) s = s\<lparr>at_timeoutMs := n\<rparr>"
| "at_use_step AtSend s = fst (sendAT_start s)"
| "at_use_step AtCleared s = clearATHistory s"
| "at_use_step (AtAnswer now cmd r) s = sendAT_finish now cmd r s"

fun at_asks :: "at_use \<Rightarrow> at_tab \<Rightarrow> unit option" where
  "at_asks AtSend s = (if trim (at_cmd s) = [] then None else Some ())"
| "at_asks _ s = None"

fun at_answers :: "at_use \<Rightarrow> unit option" where
  "at_answers (AtAnswer now cmd r) = Some ()"
| "at_answers _ = None"

text \<open>What the user can do in each at some time of day, and what else happens: the answer to a cancellation.\<close>

definition ussd_offered :: "ussd_tab \<Rightarrow> ussd_use \<Rightarrow> bool" where
  "ussd_offered s e \<longleftrightarrow> (\<exists>local_time now. user_can (view_ussd_tab local_time now s) e)"

definition at_offered :: "at_tab \<Rightarrow> at_use \<Rightarrow> bool" where
  "at_offered s e \<longleftrightarrow>
     (\<exists>local_time running atPort backendMode tpl. user_can (view_at_tab local_time running atPort backendMode tpl s) e)"

fun ussd_environment :: "ussd_use \<Rightarrow> bool" where
  "ussd_environment (InUssd (UssdCanceled now r)) = True"
| "ussd_environment _ = False"

lemma ussd_send_offered:
  "user_can (view_ussd_tab lt now s) (InUssd (UssdSend n)) \<longleftrightarrow> n = now \<and> \<not> ut_sending s"
  unfolding user_can_only view_ussd_tab_def by auto

lemma at_send_offered:
  "user_can (view_at_tab lt running port mode tpl s) AtSend \<longleftrightarrow> canUseATTerminal running port \<and> \<not> at_sending s"
  unfolding user_can_only view_at_tab_def by auto

lemma ussd_sending: "ut_sending (ussd_use_step e s) =
  (if ussd_asks e s = Some () then True else if ussd_answers e = Some () then False else ut_sending s)"
proof (cases e)
  case (InUssd d)
  then show ?thesis
    by (cases d) (simp_all add: ussd_step_def sendUSSD_start_def sendUSSD_finish_def push_entry_def Let_def
        cancelSession_finish_def endSession_def ussd_clearHistory_def)
qed simp_all

lemma at_sending_step: "at_sending (at_use_step e s) =
  (if at_asks e s = Some () then True else if at_answers e = Some () then False else at_sending s)"
  by (cases e) (simp_all add: on_template_def sendAT_start_def sendAT_finish_def clearATHistory_def Let_def)

interpretation ussd_ui: guarded_page ussd_offered ussd_environment ussd_use_step ussd_asks ussd_answers "\<lambda>k. ut_sending"
proof
  show "\<not> ut_sending s" if "ussd_offered s e" "ussd_asks e s = Some k" for s e k
    using that ussd_send_offered by (cases "(e, s)" rule: ussd_asks.cases) (auto simp: ussd_offered_def)
  show "ussd_asks e s = None" if "ussd_environment e" for e s
    using that by (cases e rule: ussd_environment.cases) simp_all
  show "ussd_asks e s = None" if "ussd_answers e = Some k" for e k s
    using that by (cases e rule: ussd_answers.cases) simp_all
  then show "\<not> ut_sending (ussd_use_step e s)" if "ussd_answers e = Some k" for e k s
    using that by (simp add: ussd_sending)
qed (auto simp: ussd_sending)

interpretation at_ui: guarded_page at_offered "\<lambda>e. False" at_use_step at_asks at_answers "\<lambda>k. at_sending"
proof
  show "\<not> at_sending s" if "at_offered s e" "at_asks e s = Some k" for s e k
    using that at_send_offered by (cases "(e, s)" rule: at_asks.cases) (auto simp: at_offered_def)
  show "at_asks e s = None" if "at_answers e = Some k" for e k s
    using that by (cases e rule: at_answers.cases) simp_all
  then show "\<not> at_sending (at_use_step e s)" if "at_answers e = Some k" for e k s
    using that by (simp add: at_sending_step)
qed (auto simp: at_sending_step)

section \<open>Properties\<close>

text \<open>C36. While sensitive values are hidden, the overview of a device shows nothing of who it is: replace the
  IMEI, the ICCID, the IMSI and the phone number by any others, and every legible text and tooltip of the tab
  stays the same.\<close>

theorem overview_identity_hidden:
  assumes "same_but_identity (ov_device t) d'"
  shows "legible_all (view_overview_tab False (t\<lparr>ov_device := d'\<rparr>)) = legible_all (view_overview_tab False t)"
  using panels_same [OF assms] identity_fields(1) [OF assms, of "''vowifi_enabled''"] identity_fields(1) [OF assms, of "''id''"]
  by (simp add: view_overview_tab_def)

definition example_device :: "string \<Rightarrow> jsval" where
  "example_device imei = obj [(''id'', jlit ''d1''), (''local_phone'', jlit imei),
     (''modem'', obj [(''imei'', jlit imei), (''signal_dbm'', jint (- 80))])]"

abbreviation example_overview :: overview_tab where
  "example_overview \<equiv> \<lparr>ov_device = example_device ''35'', ov_simOperator = [], ov_speedRx = [], ov_speedTx = [],
     ov_minuteRx = [], ov_minuteTx = [], ov_e911Starting = False, ov_detail = False,
     ov_dialog = initial_dialog [] initial_devices\<rparr>"

theorem overview_identity_hidden_witness:
  "legible_all (view_overview_tab False (example_overview\<lparr>ov_device := example_device ''86''\<rparr>)) =
   legible_all (view_overview_tab False example_overview)"
proof (rule overview_identity_hidden)
  show "same_but_identity (ov_device example_overview) (example_device ''86'')"
    by (auto simp: same_but_identity_def example_device_def obj_def)
qed

text \<open>C37. In each of the two terminals of a device, driven through what is on screen, at most one command is
  under way, its mark says exactly whether one is, and the next can be sent, by the button or the key
  Enter, exactly when none is (and, for AT, the terminal is available).\<close>

theorem terminals_one_command:
  assumes "driven ussd_offered ussd_environment ussd_use_step ussd_asks ussd_answers (\<lambda>s. \<not> ut_sending s) u pu"
    and "driven at_offered (\<lambda>e. False) at_use_step at_asks at_answers (\<lambda>s. \<not> at_sending s) a pa"
  shows "pu () \<le> 1 \<and> (ut_sending u \<longleftrightarrow> pu () = 1) \<and>
    (user_can (view_ussd_tab local_time now u) (InUssd (UssdSend now)) \<longleftrightarrow> pu () = 0) \<and>
    pa () \<le> 1 \<and> (at_sending a \<longleftrightarrow> pa () = 1) \<and>
    (user_can (view_at_tab local_time running port mode tpl a) AtSend \<longleftrightarrow> canUseATTerminal running port \<and> pa () = 0)"
  using ussd_ui.pending_marked [OF assms(1), of "()"] at_ui.pending_marked [OF assms(2), of "()"]
  by (simp add: ussd_send_offered at_send_offered)

theorem terminals_one_command_witness:
  "\<not> user_can (view_at_tab (\<lambda>_. []) True (jlit ''/dev/ttyUSB2'') [] []
     \<lparr>at_cmd = [], at_timeoutMs = Fin 0, at_sending = True, at_history = []\<rparr>) AtSend"
proof -
  let ?s = "\<lparr>at_cmd = js ''AT'', at_timeoutMs = Fin 0, at_sending = False, at_history = []\<rparr>"
  let ?t = "\<lparr>at_cmd = [], at_timeoutMs = Fin 0, at_sending = True, at_history = []\<rparr>"
  have port: "canUseATTerminal True (jlit ''/dev/ttyUSB2'')" by code_simp
  then have offered: "at_offered ?s AtSend"
    using at_send_offered [of "\<lambda>_. []" True "jlit ''/dev/ttyUSB2''" "[]" "[]" ?s, simplified]
    unfolding at_offered_def by blast
  have trimmed: "trim (js ''AT'') = js ''AT''" "js ''AT'' \<noteq> []" by code_simp+
  have step: "at_use_step AtSend ?s = ?t" "at_asks AtSend ?s = Some ()"
    by (simp_all add: sendAT_start_def trimmed Let_def)
  have a: "driven at_offered (\<lambda>e. False) at_use_step at_asks at_answers (\<lambda>s. \<not> at_sending s) ?t ((\<lambda>_. 0)(() := 1))"
    using driven.used [of at_offered "\<lambda>e. False" at_use_step at_asks at_answers "\<lambda>s. \<not> at_sending s" ?s "\<lambda>_. 0" AtSend]
      driven.opened [of "\<lambda>s. \<not> at_sending s" ?s at_offered "\<lambda>e. False" at_use_step at_asks at_answers] offered step
    by simp
  have u: "driven ussd_offered ussd_environment ussd_use_step ussd_asks ussd_answers (\<lambda>s. \<not> ut_sending s) initial_ussd (\<lambda>_. 0)"
    by (rule driven.opened) (simp add: initial_ussd_def)
  show ?thesis using terminals_one_command [OF u a] port by simp
qed

end
