(* ===== verification/DevicesPageView.thy ===== *)
theory DevicesPageView
  imports DevicePanelViews DeviceTabViews EsimTabView DevicesView
begin

text \<open>
  The template of \<open>views/Devices.vue\<close>: the device page as it is drawn, with the components of a device
  in its tabs, and its own events over \<open>DevicesPage\<close> and \<open>DeviceActions\<close>. The states of the
  components in the tabs and what else is on screen are an argument. A question is modal: nothing else can
  be used while it is open, so a click that opens one counts together with its confirmation.
\<close>

section \<open>The page and its events\<close>

record devices_screen =
  dn_page :: device_page
  dn_acts :: device_actions
  dn_query :: jstr
  dn_filter :: jstr
  dn_sortKey :: jstr
  dn_sortDir :: jstr
  dn_limit :: jnum

record devices_env =
  dx_sensitive :: bool
  dx_detail :: bool
  dx_dialog :: operator_dialog
  dx_esim :: esim_tab
  dx_inline :: inline_panel
  dx_at :: at_tab
  dx_template :: jstr
  dx_ussd :: ussd_tab
  dx_policy :: policy_panel
  dx_loader :: chart_loader
  dx_sheet :: sheet_dialog
  dx_sheetTitle :: jstr
  dx_now :: int
  dx_timeText :: "int \<Rightarrow> jstr"
  dx_dates :: local_dates
  dx_index :: mcc_index

datatype devices_use =
    FetchAllClicked
  | RescanClicked
  | AddOpened
  | ListUse list_use
  | HeaderUse header_use
  | TabPicked jstr
  | OverviewUse overview_use
  | TrafficUse traffic_use
  | EsimUse esim_event
  | AtUse at_use
  | UssdUse ussd_use
  | PolicyUse panel_event
  | ConfigUse config_use
  | AddUse add_use
  | SheetUse sheet_use

text \<open>The texts the controls of the list carry.\<close>

definition filter_of :: "jstr \<Rightarrow> status_filter" where
  "filter_of t = (if t = js ''online'' then FilterOnline else if t = js ''offline'' then FilterOffline else FilterAll)"

definition sort_of :: "jstr \<Rightarrow> sort_field" where
  "sort_of t = (if t = js ''signal'' then SortSignal else SortName)"

definition dir_of :: "jstr \<Rightarrow> sort_dir" where
  "dir_of t = (if t = js ''asc'' then Asc else Desc)"

definition shown_devices :: "devices_screen \<Rightarrow> jsval list" where
  "shown_devices s = filteredDevices (filter_of (dn_filter s)) (dn_query s) (sort_of (dn_sortKey s)) (dir_of (dn_sortDir s))
     (dg_devices (dn_page s))"

definition selectedListItem :: "device_page \<Rightarrow> jsval" where
  "selectedListItem p =
     (case find (\<lambda>d. jfield d ''id'' = JStr (dg_selectedId p)) (dg_devices p) of None \<Rightarrow> JNull | Some d \<Rightarrow> d)"

text \<open>\<open>selectedDevice\<close> is the detail.\<close>

abbreviation device :: "devices_screen \<Rightarrow> jsval" where
  "device s \<equiv> detail_value (dn_page s)"

abbreviation acting :: "devices_screen \<Rightarrow> device_action \<Rightarrow> bool" where
  "acting s a \<equiv> da_busy (dn_acts s) a"

section \<open>The props of the components\<close>

definition list_props :: "devices_screen \<Rightarrow> list_panel" where
  "list_props s = \<lparr>lp_loading = dg_loading (dn_page s), lp_query = dn_query s, lp_statusFilter = dn_filter s,
     lp_sortKey = dn_sortKey s, lp_sortDir = dn_sortDir s, lp_devices = shown_devices s,
     lp_count = length (dg_devices (dn_page s)), lp_limit = dn_limit s\<rparr>"

definition header_props :: "devices_screen \<Rightarrow> header_marks" where
  "header_props s = \<lparr>hm_rotating = acting s RotateIP, hm_rebooting = acting s RebootModem,
     hm_reconnecting = acting s ReconnectVoWiFi\<rparr>"

definition overview_props :: "devices_env \<Rightarrow> devices_screen \<Rightarrow> overview_tab" where
  "overview_props env s =
     (let t = dg_traffic (dn_page s) in
      \<lparr>ov_device = device s, ov_simOperator = selectedSimOperatorDisplay (dx_index env) (dg_detail (dn_page s)),
       ov_speedRx = tv_speedRx t, ov_speedTx = tv_speedTx t, ov_minuteRx = tv_minuteRx t, ov_minuteTx = tv_minuteTx t,
       ov_e911Starting = acting s StartE911, ov_detail = dx_detail env, ov_dialog = dx_dialog env\<rparr>)"

definition traffic_props :: "devices_env \<Rightarrow> devices_screen \<Rightarrow> traffic_panel" where
  "traffic_props env s =
     (let a = dg_analysis (dn_page s) in
      \<lparr>tp_title = tv_device_analysis, tp_subtitle = tv_sampled_each_minute,
       tp_range = an_range a, tp_mode = DevicePanel,
       tp_disabled = (\<not> truthy (jfield (device s) ''network_connected'')), tp_loading = an_loading a,
       tp_error = an_error a, tp_lastOkAt = an_lastOkAt a, tp_analysis = an_data a, tp_loader = dx_loader env\<rparr>)"

definition config_panel_props :: "devices_screen \<Rightarrow> config_panel" where
  "config_panel_props s = \<lparr>cp_config = (case ed_config (dg_edit (dn_page s)) of None \<Rightarrow> JNull | Some c \<Rightarrow> c),
     cp_status = device s, cp_saving = acting s SaveConfig, cp_deleting = acting s DeleteDevice\<rparr>"

section \<open>The template\<close>

definition view_device ::
    "devices_env \<Rightarrow> devices_screen \<Rightarrow> devices_use node list" where
  "view_device env s =
     map (embed (\<lambda>e. Some (HeaderUse e))) (view_detail_header (header_props s) (device s)) @
     [Elem ''el-tabs''
        [Attr ''model'' (JStr (dg_activeTab (dn_page s)))]
        [(''update'', \<lambda>v. Some (TabPicked (to_string v)))]
        [Elem ''el-tab-pane''
           [Open (dg_activeTab (dn_page s) = js ''overview''), Attr ''label'' (JStr tv_overview)]
           []
           (map (embed (\<lambda>e. Some (OverviewUse e))) (view_overview_tab (dx_sensitive env) (overview_props env s)) @
           map (embed (\<lambda>e. Some (TrafficUse e))) (view_traffic_panel (dx_timeText env) (dx_dates env) (traffic_props env s))),
         Elem ''el-tab-pane''
           [Open (dg_activeTab (dn_page s) = js ''esim''), Attr ''label'' (jlit ''eSIM'')]
           []
           (map (embed (\<lambda>e. Some (EsimUse e))) (view_esim_tab \<lparr>ee_showSensitive = dx_sensitive env, ee_inline = dx_inline env\<rparr> (dx_esim env))),
         Elem ''el-tab-pane''
           [Open (dg_activeTab (dn_page s) = js ''at''), Attr ''label'' (JStr tv_at_terminal)]
           []
           (map (embed (\<lambda>e. Some (AtUse e))) (view_at_tab (dx_timeText env) (truthy (jfield (device s) ''running'')) (jfield (device s) ''at_port'')
                  (text_or_empty (jfield (device s) ''backend_mode'')) (dx_template env) (dx_at env))),
         Elem ''el-tab-pane''
           [Open (dg_activeTab (dn_page s) = js ''ussd''), Attr ''label'' (JStr tv_ussd_terminal_tab)]
           []
           (map (embed (\<lambda>e. Some (UssdUse e))) (view_ussd_tab (dx_timeText env) (dx_now env) (dx_ussd env))),
         Elem ''el-tab-pane''
           [Open (dg_activeTab (dn_page s) = js ''card''), Attr ''label'' (JStr tv_card_policy)]
           []
           (map (embed (\<lambda>e. Some (PolicyUse e))) (view_policy_panel (dx_policy env))),
         Elem ''el-tab-pane''
           [Open (dg_activeTab (dn_page s) = js ''config''), Attr ''label'' (JStr tv_configuration)]
           []
           (map (embed (\<lambda>e. Some (ConfigUse e))) (view_config_tab (config_panel_props s)))]]"

definition view_devices ::
    "devices_env \<Rightarrow> devices_screen \<Rightarrow> devices_use node list" where
  "view_devices env s =
     view_page_header tv_device_management tv_devices_subtitle
       (view_refresh_button (dg_loading (dn_page s)) False (\<lambda>_. Some FetchAllClicked) @
       [Elem ''el-button''
          [Loading (acting s RescanDevices)]
          [(''click'', \<lambda>_. Some RescanClicked)]
          [icon ''ArrowSync24Regular'', Text tv_rescan],
        Elem ''el-button'' [] [(''click'', \<lambda>_. Some AddOpened)]
          [icon ''Add24Regular'', Text tv_add_device]]) @
     (if dg_error (dn_page s) \<noteq> None then
        view_error_state (dx_timeText env) tv_device_data_failed (ae_message (the (dg_error (dn_page s)))) []
          \<lparr>es_statusCode = ae_status (the (dg_error (dn_page s))), es_requestMethod = text_of (ae_method (the (dg_error (dn_page s)))),
               es_requestUrl = text_of (ae_url (the (dg_error (dn_page s)))), es_lastSuccessAt = dg_lastOkAt (dn_page s)\<rparr>
          tv_retry (\<lambda>_. Some FetchAllClicked)
      else []) @
     map (embed (\<lambda>e. Some (ListUse e))) (view_list_panel (list_props s)) @
     (if truthy (device s) then
        view_device env s
      else
        (if dg_loading (dn_page s) then
           view_detail_loading
         else
           [Text tv_no_device])) @
     map (embed (\<lambda>e. Some (AddUse e))) (view_add_dialog (dn_acts s)) @
     map (embed (\<lambda>e. Some (SheetUse e))) (view_websheet (dx_sheetTitle env) (dx_sheet env))"

section \<open>What happens on it\<close>

text \<open>What the user does, the answers to the requests of the actions, and what the rest of the page does
  (\<open>PageDoes\<close>).\<close>

datatype devices_event =
    UserDoes int devices_use
  | RotateSent "bool service_result"
  | RotateRefreshed "app_error option"
  | ReconnectSent "bool service_result"
  | RebootSent "bool service_result"
  | RescanSent "bool service_result"
  | AllFetched device_action
  | SheetOpened "jsval service_result"
  | SheetFinished
  | ConfigSent "(bool \<times> jstr) service_result"
  | ConfigRefreshed "app_error option"
  | DeleteSent "bool service_result"
  | AddSent "(jstr \<times> bool) service_result"
  | DiscoveredCame "jsval list service_result"
  | PageDoes page_event

definition on_page :: "(device_page \<Rightarrow> device_page) \<Rightarrow> devices_screen \<Rightarrow> devices_screen" where
  "on_page f s = s\<lparr>dn_page := f (dn_page s)\<rparr>"

definition on_acts :: "(device_actions \<Rightarrow> device_actions) \<Rightarrow> devices_screen \<Rightarrow> devices_screen" where
  "on_acts f s = s\<lparr>dn_acts := f (dn_acts s)\<rparr>"

text \<open>\<open>editConfig[k] = v\<close>.\<close>

definition edited_config :: "string \<Rightarrow> jsval \<Rightarrow> device_page \<Rightarrow> jsval option" where
  "edited_config k v p =
     map_option (\<lambda>c. case c of JObj al \<Rightarrow> JObj (assoc_set (js k) v al) | _ \<Rightarrow> c) (ed_config (dg_edit p))"

fun user_does :: "int \<Rightarrow> devices_use \<Rightarrow> devices_screen \<Rightarrow> devices_screen" where
  "user_does now FetchAllClicked s = on_page (page_step Reload) s"
| "user_does now RescanClicked s = on_acts rescan_start s"
| "user_does now AddOpened s = on_acts openAddDialog s"
| "user_does now (ListUse (QueryTyped t)) s = s\<lparr>dn_query := t\<rparr>"
| "user_does now (ListUse (StatusChosen t)) s = s\<lparr>dn_filter := t\<rparr>"
| "user_does now (ListUse (SortKeyChosen t)) s = s\<lparr>dn_sortKey := t\<rparr>"
| "user_does now (ListUse (SortDirChosen t)) s = s\<lparr>dn_sortDir := t\<rparr>"
| "user_does now (ListUse (DeviceClicked i)) s = on_page (page_step (SelectDevice now i)) s"
| "user_does now (HeaderUse RotateClicked) s =
     on_acts (rotateIP_start (dg_selectedId (dn_page s))
       (truthy (jfield (selectedListItem (dn_page s)) ''network_connected''))) s"
| "user_does now (HeaderUse ReconnectClicked) s = on_acts (action_start ReconnectVoWiFi (dg_selectedId (dn_page s))) s"
| "user_does now (HeaderUse RebootClicked) s = on_acts (action_start RebootModem (dg_selectedId (dn_page s))) s"
| "user_does now (HeaderUse u) s = s"
| "user_does now (TabPicked t) s = on_page (page_step (TabChange t)) s"
| "user_does now (OverviewUse EmergencySetup) s = on_acts (openE911_start (dg_selectedId (dn_page s))) s"
| "user_does now (TrafficUse (RangePicked r)) s = on_page (page_step (RangeChange r)) s"
| "user_does now (TrafficUse TrafficRefresh) s = on_page refreshCurrentDeviceTrafficAnalysis s"
| "user_does now (ConfigUse (ConfigEdited k v)) s =
     on_page (\<lambda>p. page_step (EditForm (edited_config k v p)) p) s"
| "user_does now (ConfigUse ConfigSaved) s = on_acts (saveConfig_start (dn_page s)) s"
| "user_does now (ConfigUse ConfigDeleted) s = on_acts (action_start DeleteDevice (dg_selectedId (dn_page s))) s"
| "user_does now (AddUse (AddDialogSet b)) s = on_acts (\<lambda>a. a\<lparr>da_addOpen := b\<rparr>) s"
| "user_does now (AddUse (FoundClicked d)) s = on_acts (dialog_selects d) s"
| "user_does now (AddUse (AddEdited c)) s = on_acts (\<lambda>a. add_watchers a (a\<lparr>da_addConfig := c\<rparr>)) s"
| "user_does now (AddUse AddSaved) s = on_acts (\<lambda>a. fst (addDevice_start a)) s"
| "user_does now (SheetUse (SheetSet b)) s = on_acts (\<lambda>a. a\<lparr>da_websheetOpen := b\<rparr>) s"
| "user_does now u s = s"

fun devices_step :: "devices_event \<Rightarrow> devices_screen \<Rightarrow> devices_screen" where
  "devices_step (UserDoes now u) s = user_does now u s"
| "devices_step (RotateSent r) s = on_acts (rotateIP_sent r) s"
| "devices_step (RotateRefreshed err) s = on_acts (rotateIP_refreshed err) s"
| "devices_step (ReconnectSent r) s = on_acts (reconnectVoWiFi_sent r) s"
| "devices_step (RebootSent r) s = on_acts (rebootModem_sent r) s"
| "devices_step (RescanSent r) s = on_acts (rescan_sent r) s"
| "devices_step (AllFetched a) s = on_acts (all_fetched a) s"
| "devices_step (SheetOpened r) s = on_acts (openE911_finish r) s"
| "devices_step SheetFinished s = on_acts finishE911Websheet s"
| "devices_step (ConfigSent r) s = on_acts (saveConfig_sent r) s"
| "devices_step (ConfigRefreshed err) s = on_acts (saveConfig_refreshed err) s"
| "devices_step (DeleteSent r) s = on_acts (deleteDevice_sent r) s"
| "devices_step (AddSent r) s = on_acts (addDevice_sent r) s"
| "devices_step (DiscoveredCame r) s = on_acts (refreshDiscovered_finish r) s"
| "devices_step (PageDoes e) s = on_page (page_step e) s"

section \<open>One action at a time\<close>

text \<open>The action a click asks for, if its handler goes on to send the request.\<close>

definition provided :: "bool \<Rightarrow> device_action \<Rightarrow> device_action option" where
  "provided c a = (if c then Some a else None)"

fun use_asks :: "devices_use \<Rightarrow> devices_screen \<Rightarrow> device_action option" where
  "use_asks RescanClicked s = Some RescanDevices"
| "use_asks (HeaderUse RotateClicked) s =
     provided (has_selection (dg_selectedId (dn_page s)) \<and>
       truthy (jfield (selectedListItem (dn_page s)) ''network_connected'')) RotateIP"
| "use_asks (HeaderUse ReconnectClicked) s = provided (has_selection (dg_selectedId (dn_page s))) ReconnectVoWiFi"
| "use_asks (HeaderUse RebootClicked) s = provided (has_selection (dg_selectedId (dn_page s))) RebootModem"
| "use_asks (OverviewUse EmergencySetup) s =
     provided (has_selection (dg_selectedId (dn_page s)) \<and> \<not> acting s StartE911) StartE911"
| "use_asks (ConfigUse ConfigSaved) s = provided (save_request (dn_page s) \<noteq> None) SaveConfig"
| "use_asks (ConfigUse ConfigDeleted) s = provided (has_selection (dg_selectedId (dn_page s))) DeleteDevice"
| "use_asks (AddUse AddSaved) s = provided (da_addSelected (dn_acts s) \<noteq> None) AddDevice"
| "use_asks u s = None"

fun devices_asks :: "devices_event \<Rightarrow> devices_screen \<Rightarrow> device_action option" where
  "devices_asks (UserDoes now u) s = use_asks u s"
| "devices_asks e s = None"

text \<open>The event with which an action is over: its request failed, or the refresh it waits for has ended.\<close>

definition failed :: "'a service_result \<Rightarrow> bool" where
  "failed r \<longleftrightarrow> (case r of Success _ \<Rightarrow> False | Failure _ \<Rightarrow> True)"

fun devices_answers :: "devices_event \<Rightarrow> device_action option" where
  "devices_answers (RotateSent r) = provided (failed r) RotateIP"
| "devices_answers (RotateRefreshed err) = Some RotateIP"
| "devices_answers (ReconnectSent r) = Some ReconnectVoWiFi"
| "devices_answers (RebootSent r) = Some RebootModem"
| "devices_answers (RescanSent r) = provided (failed r) RescanDevices"
| "devices_answers (AllFetched a) = Some a"
| "devices_answers (SheetOpened r) = Some StartE911"
| "devices_answers (ConfigSent r) = provided (failed r) SaveConfig"
| "devices_answers (ConfigRefreshed err) = provided (err \<noteq> None) SaveConfig"
| "devices_answers (DeleteSent r) = provided (failed r) DeleteDevice"
| "devices_answers (AddSent r) = provided (failed r) AddDevice"
| "devices_answers e = None"

definition devices_offered :: "devices_screen \<Rightarrow> devices_event \<Rightarrow> bool" where
  "devices_offered s e \<longleftrightarrow>
     (case e of UserDoes now u \<Rightarrow> \<exists>env. user_can (view_devices env s) u | _ \<Rightarrow> False)"

definition devices_environment :: "devices_event \<Rightarrow> bool" where
  "devices_environment e \<longleftrightarrow> (case e of UserDoes now u \<Rightarrow> False | _ \<Rightarrow> devices_answers e = None)"

text \<open>What the components offer: an action only while it is not under way.\<close>

abbreviation free_action :: "devices_screen \<Rightarrow> devices_use \<Rightarrow> bool" where
  "free_action s u \<equiv> pred_option (\<lambda>k. \<not> acting s k) (use_asks u s)"

lemma pred_provided [simp]: "pred_option P (provided c a) \<longleftrightarrow> (c \<longrightarrow> P a)"
  by (simp add: provided_def)

lemma list_free: "only (\<lambda>d. free_action s (ListUse d)) ns"
proof -
  have "free_action s (ListUse d)" for d by (cases d) simp_all
  then show ?thesis by simp
qed

lemma components_free:
  "only (\<lambda>d. free_action s (HeaderUse d)) (view_detail_header (header_props s) dev)"
  "only (\<lambda>d. free_action s (OverviewUse d)) (view_overview_tab visible (overview_props env s))"
  "only (\<lambda>d. free_action s (ConfigUse d)) (view_config_tab (config_panel_props s))"
  "only (\<lambda>d. free_action s (AddUse d)) (view_add_dialog (dn_acts s))"
proof -
  show "only (\<lambda>d. free_action s (HeaderUse d)) (view_detail_header (header_props s) dev)"
    by (simp add: view_detail_header_def header_props_def)
  show "only (\<lambda>d. free_action s (ConfigUse d)) (view_config_tab (config_panel_props s))"
    by (simp add: view_config_tab_def config_panel_props_def)
  show "only (\<lambda>d. free_action s (AddUse d)) (view_add_dialog (dn_acts s))"
    by (simp add: view_add_dialog_def)
  have "free_action s (OverviewUse d)" for d by (cases d) simp_all
  then show "only (\<lambda>d. free_action s (OverviewUse d)) (view_overview_tab visible (overview_props env s))" by simp
qed

lemma page_free: "only (free_action s) (view_devices env s)"
  unfolding view_devices_def view_device_def view_detail_loading_def
  by (simp add: components_free list_free del: only_map)

lemma offered_free: "devices_offered s (UserDoes now u) \<Longrightarrow> use_asks u s = Some k \<Longrightarrow> \<not> acting s k"
  using only_user [OF page_free, of _ s u] unfolding devices_offered_def by fastforce

text \<open>The marks move with the actions alone.\<close>

lemma marks_elsewhere:
  "da_busy (openAddDialog a) = da_busy a" "da_busy (dialog_selects d a) = da_busy a"
  "da_busy (add_watchers b a) = da_busy a" "da_busy (finishE911Websheet a) = da_busy a"
  "da_busy (refreshDiscovered_finish r a) = da_busy a"
  by (simp_all add: openAddDialog_def refreshDiscovered_start_def dialog_selects_def add_watchers_def add_backend_def
      selectDiscoveredForAdd_def say_def finishE911Websheet_def ask_def refreshDiscovered_finish_def Let_def
      split: service_result.split)

lemma acting_use:
  "acting (user_does now u s) k \<longleftrightarrow>
     (if use_asks u s = Some k then True
      else if u = AddUse AddSaved \<and> k = AddDevice then False else acting s k)"
  by (cases "(now, u, s)" rule: user_does.cases)
    (auto simp: on_acts_def on_page_def rescan_start_def rotateIP_start_def action_start_def openE911_start_def
      saveConfig_start_def addDevice_start_def marks_elsewhere busy_def say_def provided_def Let_def split: option.split)

text \<open>The marks after the answers.\<close>

lemma marks_answered:
  "da_busy (rotateIP_sent r a) = (if failed r then (da_busy a)(RotateIP := False) else da_busy a)"
  "da_busy (rotateIP_refreshed err a) = (da_busy a)(RotateIP := False)"
  "da_busy (reconnectVoWiFi_sent r a) = (da_busy a)(ReconnectVoWiFi := False)"
  "da_busy (rebootModem_sent r a) = (da_busy a)(RebootModem := False)"
  "da_busy (rescan_sent r a) = (if failed r then (da_busy a)(RescanDevices := False) else da_busy a)"
  "da_busy (all_fetched x a) = (da_busy a)(x := False)"
  "da_busy (openE911_finish r' a) = (da_busy a)(StartE911 := False)"
  "da_busy (saveConfig_refreshed err a) = (if err \<noteq> None then (da_busy a)(SaveConfig := False) else da_busy a)"
  "da_busy (deleteDevice_sent r a) = (if failed r then (da_busy a)(DeleteDevice := False) else da_busy a)"
  by (cases r; cases r'; cases err;
      simp add: rotateIP_sent_def rotateIP_refreshed_def reconnectVoWiFi_sent_def rebootModem_sent_def rescan_sent_def
        all_fetched_def openE911_finish_def saveConfig_refreshed_def deleteDevice_sent_def action_failed_def
        busy_def say_def ask_def failed_def)+

lemma marks_saved:
  "da_busy (saveConfig_sent r a) = (if failed r then (da_busy a)(SaveConfig := False) else da_busy a)"
  "da_busy (addDevice_sent r' a) = (if failed r' then (da_busy a)(AddDevice := False) else da_busy a)"
  by (cases r; cases r'; auto simp: saveConfig_sent_def addDevice_sent_def action_failed_def busy_def say_def ask_def
        failed_def split: prod.split)+

lemma acting_step:
  assumes "\<And>now. e \<noteq> UserDoes now (AddUse AddSaved)"
  shows "acting (devices_step e s) k \<longleftrightarrow>
    (if devices_asks e s = Some k then True else if devices_answers e = Some k then False else acting s k)"
proof (cases e)
  case (UserDoes now u)
  then show ?thesis using assms [of now] acting_use [of now u s k] by simp
qed (simp_all add: on_acts_def on_page_def marks_elsewhere marks_answered marks_saved provided_def)

interpretation devices_ui: guarded_page devices_offered devices_environment devices_step devices_asks devices_answers
  "\<lambda>k s. acting s k"
proof
  fix e :: devices_event and s k
  have saves: "\<not> acting s AddDevice" if "devices_offered s (UserDoes now (AddUse AddSaved))" for now
  proof -
    have "only (\<lambda>d. d = AddSaved \<longrightarrow> \<not> acting s AddDevice) (view_add_dialog (dn_acts s))"
      by (simp add: view_add_dialog_def)
    then have "only (\<lambda>u. u = AddUse AddSaved \<longrightarrow> \<not> acting s AddDevice) (view_devices env s)" for env
      unfolding view_devices_def view_device_def view_detail_loading_def by (simp del: only_map)
    then show ?thesis using that only_user unfolding devices_offered_def by fastforce
  qed
  show "\<not> acting s k" if "devices_offered s e" "devices_asks e s = Some k"
    using that offered_free by (cases e) (auto simp: devices_offered_def)
  show "devices_asks e s = None" if "devices_environment e"
    using that by (cases e) (simp_all add: devices_environment_def)
  show "acting (devices_step e s) k" if "devices_asks e s = Some k"
    using that acting_use by (cases e) auto
  show quiet: "devices_asks e s = None" if "devices_answers e = Some k"
    using that by (cases e) simp_all
  show "\<not> acting (devices_step e s) k" if "devices_answers e = Some k"
  proof -
    have "e \<noteq> UserDoes now u" for now u using that by auto
    then show ?thesis using acting_step [of e s k] quiet [OF that] that by simp
  qed
  show "acting (devices_step e s) k = acting s k"
    if "devices_offered s e \<or> devices_environment e \<or> devices_answers e \<noteq> None"
      "devices_asks e s \<noteq> Some k" "devices_answers e \<noteq> Some k"
  proof (cases "\<exists>now. e = UserDoes now (AddUse AddSaved)")
    case True
    then obtain now where e: "e = UserDoes now (AddUse AddSaved)" by blast
    then have "\<not> acting s AddDevice" using that(1) saves by (auto simp: devices_environment_def)
    then show ?thesis using that(2) acting_use [of now "AddUse AddSaved" s k] e by auto
  next
    case False
    then show ?thesis using acting_step [of e s k] that(2,3) by auto
  qed
qed

section \<open>Property\<close>


definition example_page :: device_page where
  "example_page = (initial_page (JUndef, JUndef))\<lparr>dg_selectedId := js ''d1'', dg_activeTab := js ''config'',
     dg_detail := Some (obj [(''id'', jlit ''d1'')])\<rparr>"

definition example_screen :: devices_screen where
  "example_screen = \<lparr>dn_page = example_page, dn_acts = initial_actions, dn_query = [], dn_filter = js ''all'',
     dn_sortKey = js ''name'', dn_sortDir = js ''asc'', dn_limit = Fin 0\<rparr>"

lemma example_reboot: "user_can (view_devices env example_screen) (HeaderUse RebootClicked)"
proof -
  have "only (\<lambda>u. pred_option (\<lambda>d. d \<noteq> HeaderUse RebootClicked) (Some (HeaderUse u)))
      (view_detail_header (header_props example_screen) (device example_screen)) = False"
    by (simp add: view_detail_header_def header_props_def example_screen_def initial_actions_def)
  moreover have "truthy (device example_screen)" by code_simp
  ultimately show ?thesis
    unfolding user_can_only view_devices_def view_device_def by (simp del: only_map)
qed


end
