(* ===== verification/DashboardView.thy ===== *)
theory DashboardView
  imports DashboardPage DevicePanelViews
begin

text \<open>
  The template of \<open>views/Dashboard.vue\<close> over the state of \<open>DashboardPage\<close>: counts, cards and the
  traffic panel. Its events are those of the page; the chart module loads on its own.
\<close>

section \<open>The template\<close>

definition tv_traffic_analysis_title :: jstr where
  "tv_traffic_analysis_title = [0x6D41, 0x91CF, 0x5206, 0x6790]"

text \<open>The events of the components as events of the page; what a panel keeps to itself is none.\<close>

fun card_event :: "card_use \<Rightarrow> dash_event option" where
  "card_event (OpenDevice i) = Some (DeviceOpened i)"

fun traffic_event :: "traffic_use \<Rightarrow> dash_event option" where
  "traffic_event (traffic_use.RangePicked r) = Some (dash_event.RangePicked r)"
| "traffic_event TrafficRefresh = Some AnalysisRefreshed"
| "traffic_event ChartRetryClicked = None"

definition analysis_props :: "chart_loader \<Rightarrow> dash_page \<Rightarrow> traffic_panel" where
  "analysis_props loader s =
     \<lparr>tp_title = tv_traffic_analysis_title, tp_subtitle = tv_sampled_each_minute, tp_range = dp_range s, tp_mode = GlobalPanel, tp_disabled = False,
      tp_loading = db_analysisLoading (dp_store s), tp_error = db_analysisError (dp_store s),
      tp_lastOkAt = db_analysisLastOkAt (dp_store s), tp_analysis = db_analysis (dp_store s), tp_loader = loader\<rparr>"

definition view_dashboard ::
    "(int \<Rightarrow> jstr) \<Rightarrow> local_dates \<Rightarrow> chart_loader \<Rightarrow> dash_page \<Rightarrow> dash_event node list" where
  "view_dashboard time_text dates loader s =
     view_page_header tv_device_monitor tv_dashboard_subtitle (view_refresh_button (db_devicesLoading (dp_store s)) False (\<lambda>_. Some (dash_event.RefreshClicked))) @
     [Text tv_device_total, Text (show_nat (totalCount s)), Text tx_online,
      Text (show_nat (onlineCount s)), Text tx_offline, Text (show_nat (offlineCount s)),
      Text tv_last_refresh,
      Text (case dp_lastUpdatedAt s of None \<Rightarrow> js ''--:--:--'' | Some t \<Rightarrow> if t = 0 then js ''--:--:--'' else time_text t)] @
     (if db_devicesError (dp_store s) \<noteq> None then
        view_error_state time_text tv_device_list_failed (ae_message (the (db_devicesError (dp_store s)))) []
          \<lparr>es_statusCode = ae_status (the (db_devicesError (dp_store s))), es_requestMethod = text_of (ae_method (the (db_devicesError (dp_store s)))),
               es_requestUrl = text_of (ae_url (the (db_devicesError (dp_store s)))), es_lastSuccessAt = db_devicesLastOkAt (dp_store s)\<rparr>
          tv_retry (\<lambda>_. Some (dash_event.RefreshClicked))
      else []) @
     (if db_devicesLoading (dp_store s) \<and> totalCount s = 0 then
        view_list_skeleton 10
      else if totalCount s = 0 then
        view_empty_state tv_no_device_connected tv_add_in_management []
      else
        concat (map (\<lambda>dev.
           map (embed card_event) (view_device_card dev))
          (elems (db_devices (dp_store s))))) @
     (if 0 < totalCount s \<or> \<not> db_devicesLoading (dp_store s) then
        map (embed traffic_event) (view_traffic_panel time_text dates (analysis_props loader s))
      else [])"

section \<open>What the user can do\<close>

text \<open>Every card opens its own device; a refresh waits for the one before.\<close>

lemma dashboard_opens:
  "user_can (view_dashboard time_text dates loader s) (DeviceOpened i) \<longleftrightarrow>
     (\<exists>d\<in>set (elems (db_devices (dp_store s))). i = jfield d ''id'')"
proof -
  have "only (\<lambda>e. e \<noteq> DeviceOpened i) (map (embed traffic_event) ns)" for ns
  proof -
    have "pred_option (\<lambda>e. e \<noteq> DeviceOpened i) (traffic_event d)" for d by (cases d) simp_all
    then show ?thesis by (simp del: only_map)
  qed
  moreover have "only (\<lambda>e. e \<noteq> DeviceOpened i) (map (embed card_event) (view_device_card d)) \<longleftrightarrow> i \<noteq> jfield d ''id''" for d
    by (auto simp: view_device_card_def view_status_light_def)
  ultimately show ?thesis
    unfolding user_can_only view_dashboard_def totalCount_def by (auto simp del: only_map)
qed

end
