(* ===== verification/ShellViews.thy ===== *)
theory ShellViews
  imports Diagnostics LoginPage CommonViews
begin

text \<open>
  The templates around the pages: \<open>ErrorBoundary.vue\<close>, \<open>DebugPanel.vue\<close>, both layouts and
  \<open>App.vue\<close>, and that of \<open>Login.vue\<close>. A layout takes the nodes of the page it shows, \<open>App.vue\<close>
  those of the layout; None stands for a component that is still loading. A menu with the mark \<open>router\<close>
  goes to the index of the item that is clicked. A form with a submit button is sent through that button,
  also by the key Enter, and not at all while it is disabled, so its handler stands at the button.
\<close>

section \<open>Error boundary and diagnostics panel\<close>

definition view_boundary :: "jstr \<Rightarrow> jstr \<Rightarrow> 'e \<Rightarrow> 'e node list \<Rightarrow> boundary \<Rightarrow> 'e node list" where
  "view_boundary title retryText retry slot b =
     (case eb_message b of
        Some (c # m) \<Rightarrow>
          view_error_state (\<lambda>_. []) (text_else title tx_render_failed) (c # m) (text_of (eb_details b))
            \<lparr>es_statusCode = None, es_requestMethod = [], es_requestUrl = [], es_lastSuccessAt = None\<rparr>
            (text_else retryText tv_render_again) (\<lambda>_. Some retry)
      | _ \<Rightarrow> slot)"

datatype debug_use = DebugOpenSet bool | AutoOpenSet bool | ClearClicked | ExportClicked | CopyClicked

text \<open>A part that is shown when it is there and not empty.\<close>

abbreviation given :: "jstr option \<Rightarrow> bool" where
  "given t \<equiv> text_of t \<noteq> []"

definition view_debug_panel ::
    "(int \<Rightarrow> jstr) \<Rightarrow> jstr \<Rightarrow> bool \<Rightarrow> debug_panel \<Rightarrow> debug_use node list" where
  "view_debug_panel time_text href opened d =
     [Elem ''el-drawer''
        [Open opened, Attr ''title'' (JStr tv_debug_panel)]
        [(''update'', \<lambda>v. Some (DebugOpenSet (truthy v)))]
        ([Text href, Text tv_open_on_errors,
         Elem ''el-switch''
           [Attr ''model'' (JBool (dg_autoOpen d))]
           [(''update'', \<lambda>v. Some (AutoOpenSet (truthy v)))]
           [],
         Elem ''el-button'' [] [(''click'', \<lambda>_. Some ClearClicked)] [Text tv_clear],
         Elem ''el-button'' [] [(''click'', \<lambda>_. Some ExportClicked)] [Text tv_export],
         Elem ''el-button'' [] [(''click'', \<lambda>_. Some CopyClicked)] [Text tv_copy],
         Text tv_recent_routes] @
        (if co_routes (dg_debug d) = [] then
           [Text tv_no_records]
         else
           concat (map (\<lambda>r.
              [Text (time_text (re_ts r)), Text (text_else (text_of (re_from r)) (js ''-'')),
               Text tv_arrow_right, Text (text_else (text_of (re_to r)) (js ''-''))] @
              (if given (re_name r) then
                 [Text (js ''(''), Text (text_of (re_name r)), Text (js '')'')]
               else []))
             (rev (co_routes (dg_debug d))))) @
        [Text tv_recent_api_errors] @
        (if co_api_errors (dg_debug d) = [] then
           [Text tv_no_records]
         else
           concat (map (\<lambda>a.
              [Text (time_text (ev_ts a))] @
              (if ev_status a \<noteq> None \<and> ev_status a \<noteq> Some 0 then
                 [Text (js ''HTTP''), Text (show_int (the (ev_status a))), Text [0x00B7]]
               else []) @
              (if given (ev_method a) then
                 [Text (to_upper (text_of (ev_method a)))]
               else []) @
              (if given (ev_url a) then
                 [Text (text_of (ev_url a))]
               else []) @
              [Text (ev_message a)])
             (rev (co_api_errors (dg_debug d))))) @
        [Text tv_recent_js_errors] @
        (if co_js_errors (dg_debug d) = [] then
           [Text tv_no_records]
         else
           concat (map (\<lambda>j.
              [Text (time_text (je_ts j))] @
              (if given (je_source j) then
                 [Text [0x00B7], Text (text_of (je_source j))]
               else []) @
              [Text (text_of (je_message j))] @
              (if given (je_stack j) then
                 [Text (text_of (je_stack j))]
               else []))
             (rev (co_js_errors (dg_debug d))))) @
        [Text tv_auth_events] @
        (if co_auth_events (dg_debug d) = [] then
           [Text tv_no_records]
         else
           concat (map (\<lambda>e.
              [Text (time_text (aev_ts e)), Text (js ''401_redirect'')] @
              (if given (aev_redirect_to e) then
                 [Text ([0x00B7] @ js '' redirect=''), Text (text_of (aev_redirect_to e))]
               else []))
             (rev (co_auth_events (dg_debug d))))))]"

section \<open>The layouts\<close>

definition tv_dashboard :: jstr where
  "tv_dashboard = [0x4EEA, 0x8868, 0x76D8]"

text \<open>The entries of the menu: path, label, symbol.\<close>

definition menuItems :: "(jstr \<times> jstr \<times> string) list" where
  "menuItems =
     [(js ''/'', tv_dashboard, ''Board24Regular''),
      (js ''/devices'', tv_device_management, ''Phone24Regular''),
      (js ''/proxy'', tv_proxy_management, ''Globe24Regular''),
      (js ''/sms'', tv_message_center, ''Mail24Regular''),
      (js ''/logs'', tv_live_log, ''DocumentText24Regular''),
      (js ''/settings'', tv_system_settings, ''Settings24Regular'')]"

datatype 'p shell_use =
    ThemeClicked
  | MenuPicked jstr
  | LogoutClicked
  | NavClicked
  | DrawerUsed bool
  | DebugUse debug_use
  | RenderAgain
  | PageUse 'p

definition view_menu_item :: "jstr \<times> jstr \<times> string \<Rightarrow> 'p shell_use node list" where
  "view_menu_item item =
     [Elem ''el-menu-item'' [Attr ''index'' (JStr (fst item))] [(''click'', \<lambda>_. Some (MenuPicked (fst item)))]
        [icon (snd (snd item)), Text (fst (snd item))]]"

text \<open>What the layout gets from outside: theme, route, address, the boundary around the page and the panel.\<close>

record 'p shell_env =
  sw_isDark :: bool
  sw_route :: "route_name option"
  sw_path :: jstr
  sw_href :: jstr
  sw_boundary :: boundary
  sw_debug :: debug_panel
  sw_page :: "'p node list option"

definition view_authenticated ::
    "(int \<Rightarrow> jstr) \<Rightarrow> 'p shell_env \<Rightarrow> shell_state \<Rightarrow> 'p shell_use node list" where
  "view_authenticated time_text w s =
     (if isAuthenticated (sh_world s) \<and> sw_route w \<noteq> Some Login then
        (if \<not> sh_isMobile s then
           [Elem ''el-aside''
              [Attr ''width'' (jlit (if sh_collapsed s then ''52px'' else ''232px''))]
              []
              ([Text (js ''V'')] @
              (if \<not> sh_collapsed s then
                 [Text (js ''VoHive'')]
               else []) @
              [Elem ''el-menu'' [Attr ''default-active'' (JStr (sw_path w))] []
                 (concat (map (\<lambda>item.
                    view_menu_item item)
                   menuItems))] @
              (if \<not> sh_collapsed s then
                 [icon ''Settings24Regular'', Text (js ''Admin''), Text (js ''Administrator''),
                  Elem ''el-button'' [] [(''click'', \<lambda>_. Some LogoutClicked)]
                    [icon ''SignOut24Regular'']]
               else []))]
         else []) @
        [Elem ''el-drawer''
           [Open (sh_drawerOpen s)]
           [(''update'', \<lambda>v. Some (DrawerUsed (truthy v)))]
           [Text (js ''V''), Text (js ''VoHive''),
            Elem ''el-menu'' [Attr ''default-active'' (JStr (sw_path w))] []
              (concat (map (\<lambda>item.
                 view_menu_item item)
                menuItems)),
            icon ''Settings24Regular'', Text (js ''Admin''), Text (js ''Administrator''),
            Elem ''el-button'' [] [(''click'', \<lambda>_. Some LogoutClicked)]
              [icon ''SignOut24Regular'']],
         Elem ''el-button'' [] [(''click'', \<lambda>_. Some NavClicked)]
           (if \<not> sh_isMobile s \<and> \<not> sh_collapsed s then
              [icon ''Fold'']
            else
              [icon ''Expand''])] @
        view_switch_dark (sw_isDark w) (\<lambda>_. ThemeClicked) @
        (if sw_page w \<noteq> None then
           view_boundary tx_render_failed [] RenderAgain (map (embed (\<lambda>u. Some (PageUse u))) (the (sw_page w))) (sw_boundary w)
         else
           view_loading_screen tv_loading_page tv_preparing_page) @
        map (embed (\<lambda>u. Some (DebugUse u))) (view_debug_panel time_text (sw_href w) (sh_debugOpen s) (sw_debug w))
      else [])"

definition view_unauthenticated ::
    "bool \<Rightarrow> 'p node list option \<Rightarrow> 'p shell_use node list" where
  "view_unauthenticated isDark page =
     view_switch_dark isDark (\<lambda>_. ThemeClicked) @
     (case page of
        None \<Rightarrow> view_loading_screen tv_loading_dots tv_first_open_slow
      | Some ns \<Rightarrow> map (embed (\<lambda>u. Some (PageUse u))) ns)"

section \<open>The application\<close>

datatype 'p app_use =
    ShellUse "'p shell_use"
  | ConfirmTyped jstr
  | AcceptClicked
  | RejectClicked

definition view_app ::
    "'p shell_use node list option \<Rightarrow> app \<Rightarrow> 'p app_use node list" where
  "view_app page s =
     (case page of
        None \<Rightarrow> view_loading_screen tv_loading_dots tv_first_open_slow
      | Some ns \<Rightarrow> map (embed (\<lambda>u. Some (ShellUse u))) ns) @
     (if ap_showDisclaimer s then
        [Text tv_end_user_licence_title, Text (js ''1''), Text tv_personal_tool_notice,
         Text tv_no_commercial_use, Text tv_no_production_use, Text (js ''2''), Text tv_obey_the_law,
         Text tv_no_illegal_use, Text tv_full_stop, Text (js ''3''), Text tv_may_have_defects,
         Text tv_user_is_liable, Text tv_full_stop, Text (js ''4''), Text tv_click_means_accept,
         Text tv_please_type, Text expectedConfirmText, Text tv_to_unlock_the_button,
         Elem ''input''
           [Attr ''type'' (jlit ''text''), Attr ''model'' (JStr (ap_confirmText s)),
            Attr ''placeholder'' (JStr (([0x8BF7, 0x8F93, 0x5165, 0xFF1A]) @ expectedConfirmText))]
           [(''update'', \<lambda>v. Some (ConfirmTyped (to_string v)))]
           [],
         Elem ''button'' [] [(''click'', \<lambda>_. Some RejectClicked)]
           [Text tv_reject_and_uninstall],
         Elem ''button''
           [Disabled (\<not> canAccept s)]
           [(''click'', \<lambda>_. Some AcceptClicked)]
           [Text tv_agree_and_go_on]]
      else [])"

section \<open>The login page\<close>

datatype login_use = UserTyped jstr | PasswordTyped jstr | LoginSubmitted

definition view_login ::
    "login_page \<Rightarrow> login_use node list" where
  "view_login s =
     [Text (js ''VH''), Text (js ''VoHive''), Text tv_login_subtitle, icon ''Person24Regular'',
      Elem ''input''
        [Attr ''model'' (JStr (lg_username s)), Attr ''placeholder'' (JStr tv_user_name),
         Attr ''type'' (jlit ''text'')]
        [(''update'', \<lambda>v. Some (UserTyped (to_string v)))]
        [],
      icon ''LockClosed24Regular'',
      Elem ''input''
        [Attr ''model'' (JStr (lg_password s)), Attr ''placeholder'' (JStr tv_password),
         Attr ''type'' (jlit ''password'')]
        [(''update'', \<lambda>v. Some (PasswordTyped (to_string v)))]
        [],
      Elem ''button''
        [Disabled (login_page.lg_loading s)]
        [(''click'', \<lambda>_. Some LoginSubmitted)]
        ((if login_page.lg_loading s then
           [Elem ''span'' [] [] []]
         else
           [Text tv_log_in]) @
        (if \<not> login_page.lg_loading s then
           [icon ''ArrowRight24Regular'']
         else [])),
      Text (js ''VoHive '' @ [0x00A9] @ js '' 2026'')]"

section \<open>What the user can do\<close>

lemma debug_offers: "user_can (view_debug_panel time_text href opened d) e \<longleftrightarrow> opened"
  unfolding user_can_only view_debug_panel_def by (cases e) (auto intro!: exI [of _ "JBool _"])

text \<open>The controls of the disclaimer are there with it, and the shell behind it stays usable: it is covered,
  but the keyboard reaches it.\<close>

lemma app_offers:
  "user_can (view_app page s) AcceptClicked \<longleftrightarrow> ap_showDisclaimer s \<and> canAccept s"
  "user_can (view_app page s) RejectClicked \<longleftrightarrow> ap_showDisclaimer s"
  unfolding user_can_only view_app_def view_loading_screen_def by (auto simp del: only_map split: option.split)

lemma shell_behind_overlay:
  "user_can (view_app (Some ns) s) (ShellUse u) \<longleftrightarrow> user_can ns u"
proof -
  have "pred_option (\<lambda>d. d \<noteq> ShellUse u) (Some (ShellUse v)) \<longleftrightarrow> v \<noteq> u" for v by simp
  then show ?thesis unfolding user_can_only view_app_def by (auto simp del: only_map)
qed

lemma boundary_free [simp]:
  "only P (view_boundary t r e slot b) \<longleftrightarrow> (if shows_error b then P e else only P slot)"
  by (auto simp: view_boundary_def shows_error_def text_else_def tv_render_again_def js_def split: option.split list.split)

lemma menu_item_free [simp]: "only P (view_menu_item item) \<longleftrightarrow> P (MenuPicked (fst item))"
  by (auto simp: view_menu_item_def)

text \<open>A page that failed to render is replaced by the button that renders it anew.\<close>

lemma failed_page_gone:
  "shows_error (sw_boundary w) \<Longrightarrow> \<not> user_can (view_authenticated time_text w s) (PageUse u)"
  unfolding user_can_only view_authenticated_def by (auto simp del: only_map)

text \<open>Logging out waits for a sidebar that is open.\<close>

lemma logout_offered:
  "user_can (view_authenticated time_text w s) LogoutClicked \<longleftrightarrow>
     isAuthenticated (sh_world s) \<and> sw_route w \<noteq> Some Login \<and> (\<not> sh_isMobile s \<and> \<not> sh_collapsed s \<or> sh_drawerOpen s)"
  unfolding user_can_only view_authenticated_def view_loading_screen_def
  by (auto simp del: only_map)

section \<open>The login form\<close>

datatype login_event = LoginUsed login_use | LoginAnswered int "jsval outcome"

fun login_step :: "(jstr \<Rightarrow> jstr option) \<Rightarrow> login_event \<Rightarrow> login_page \<Rightarrow> login_page" where
  "login_step q (LoginUsed (UserTyped t)) s = s\<lparr>lg_username := t\<rparr>"
| "login_step q (LoginUsed (PasswordTyped t)) s = s\<lparr>lg_password := t\<rparr>"
| "login_step q (LoginUsed LoginSubmitted) s = handleLogin s"
| "login_step q (LoginAnswered now r) s = handleLogin_answer q now r s"

fun login_asks :: "login_event \<Rightarrow> login_page \<Rightarrow> unit option" where
  "login_asks (LoginUsed LoginSubmitted) s = (if lg_username s = [] \<or> lg_password s = [] then None else Some ())"
| "login_asks _ s = None"

fun login_answers :: "login_event \<Rightarrow> unit option" where
  "login_answers (LoginAnswered _ _) = Some ()"
| "login_answers _ = None"

definition login_offered :: "login_page \<Rightarrow> login_event \<Rightarrow> bool" where
  "login_offered s e \<longleftrightarrow> (\<exists>u. e = LoginUsed u \<and> user_can (view_login s) u)"

lemma submit_offered: "user_can (view_login s) LoginSubmitted \<longleftrightarrow> \<not> login_page.lg_loading s"
  unfolding user_can_only view_login_def by simp

lemma answered_free: "\<not> login_page.lg_loading (handleLogin_answer q now r s)"
  by (auto simp: handleLogin_answer_def login_says_def go_on_def Let_def split: prod.split option.split bool.split list.split)

interpretation login_ui: guarded_page login_offered "\<lambda>e. False" "login_step q" login_asks login_answers "\<lambda>_. login_page.lg_loading"
proof
  fix s e and k :: unit
  show "login_asks e s = Some k \<Longrightarrow> \<not> login_page.lg_loading s" if "login_offered s e"
    using that by (auto simp: login_offered_def elim!: login_asks.elims simp: submit_offered split: if_splits)
  show "login_asks e s = Some k \<Longrightarrow> login_page.lg_loading (login_step q e s)"
    by (auto elim!: login_asks.elims simp: handleLogin_def split: if_splits)
  show "login_answers e = Some k \<Longrightarrow> \<not> login_page.lg_loading (login_step q e s)"
    by (cases e) (simp_all add: answered_free)
  show "login_asks e s \<noteq> Some k \<Longrightarrow> login_answers e \<noteq> Some k \<Longrightarrow> login_page.lg_loading (login_step q e s) = login_page.lg_loading s"
    by (cases "(q, e, s)" rule: login_step.cases) (auto simp: handleLogin_def login_says_def)
  show "login_answers e = Some k \<Longrightarrow> login_asks e s = None" by (cases e) simp_all
qed simp

text \<open>From a fresh form at most one request for a token is ever under way.\<close>

lemma one_login_request:
  "driven login_offered (\<lambda>e. False) (login_step q) login_asks login_answers (\<lambda>s. \<exists>w. s = open_login w) s pending \<Longrightarrow> pending () \<le> 1"
  by (erule login_ui.one_at_a_time) (auto simp: open_login_def)

section \<open>Menu and disclaimer\<close>

text \<open>The menu is on screen for a signed-in user whose sidebar is; it offers exactly the paths of the pages
  the navigation guard lets this user through to, other than the login page.\<close>

lemma menu_covers_routes:
  "user_can (view_authenticated time_text w s) (MenuPicked p) \<longleftrightarrow>
     sw_route w \<noteq> Some Login \<and> (\<not> sh_isMobile s \<or> sh_drawerOpen s) \<and>
     (\<exists>r. p = route_path r \<and> r \<noteq> Login \<and> beforeEach r (sh_world s) = None)"
proof -
  have items: "p \<in> fst ` set menuItems \<longleftrightarrow> (\<exists>r. p = route_path r \<and> r \<noteq> Login)"
  proof -
    have "(\<exists>r. p = route_path r \<and> r \<noteq> Login) \<longleftrightarrow> p \<in> route_path ` {Dashboard, SMS, Devices, Settings, Proxy, Logs}"
      using route_name.exhaust by auto
    then show ?thesis by (auto simp: menuItems_def route_path_def)
  qed
  have "user_can (view_authenticated time_text w s) (MenuPicked p) \<longleftrightarrow>
      isAuthenticated (sh_world s) \<and> sw_route w \<noteq> Some Login \<and> (\<not> sh_isMobile s \<or> sh_drawerOpen s) \<and> p \<in> fst ` set menuItems"
    unfolding user_can_only view_authenticated_def view_loading_screen_def by (auto simp del: only_map)
  then show ?thesis unfolding items by (auto simp: beforeEach_def requiresAuth_def)
qed

text \<open>From any start of the application and through any events, the button that removes the software is
  offered to a logged-in user only, the button to agree exactly when the disclaimer is on screen and the
  phrase was typed, and pressing that one takes the disclaimer away as long as the storage takes the time.\<close>

lemma disclaimer_controls:
  assumes "setup_app now route w = Some s0" and "s = app_run es s0"
  shows "(user_can (view_app page s) RejectClicked \<longrightarrow> isAuthenticated (ap_world s)) \<and>
    (user_can (view_app page s) AcceptClicked \<longleftrightarrow> ap_showDisclaimer s \<and> ap_confirmText s = expectedConfirmText) \<and>
    (user_can (view_app page s) AcceptClicked \<and> st_avail (aw_local (ap_world s)) \<and> st_room (aw_local (ap_world s)) \<longrightarrow>
       \<not> ap_showDisclaimer (app_step s (Accepted t)))"
proof -
  have "shown_to_user s" using setup_ok [OF assms(1)] app_run_ok [of s0 es] assms(2) by simp
  then show ?thesis
    unfolding app_offers by (auto simp: shown_to_user_def canAccept_def acceptDisclaimer_def keep_local_def set_item_def)
qed

lemma disclaimer_controls_example:
  "\<exists>s0. setup_app 0 None sample_world = Some s0 \<and> user_can (view_app None (app_run [] s0)) (RejectClicked :: login_use app_use) \<and>
     isAuthenticated (ap_world (app_run [] s0))"
proof -
  obtain s0 where s0: "setup_app 0 None sample_world = Some s0"
    by (simp add: setup_app_def get_item_def sample_world_def)
  have "ap_showDisclaimer (app_run [] s0)"
    using s0 by (auto simp: sample_world_def setup_app_def watch_authenticated_def agreed_at_def get_item_def isAuthenticated_def
        DISCLAIMER_AGREED_AT_KEY_def shouldShowDisclaimer_def app_run_def js_def)
  then have "user_can (view_app None (app_run [] s0)) (RejectClicked :: login_use app_use)" unfolding app_offers .
  with disclaimer_controls [OF s0 refl, of "None :: login_use shell_use node list option" "[]" 0] s0 show ?thesis by blast
qed

end
