(* ===== verification/LogsView.thy ===== *)
theory LogsView
  imports LogsPage CommonViews
begin

text \<open>
  The template of \<open>views/Logs.vue\<close> over the state of \<open>LogsPage\<close>. Its events are those of the page,
  and the export, which changes nothing.
\<close>

section \<open>The template\<close>

datatype logs_use = InLogs logs_event | ExportLogs

definition level_color :: "level_class \<Rightarrow> string" where
  "level_color c = (case c of PurpleLevel \<Rightarrow> ''text-purple-500'' | BlueLevel \<Rightarrow> ''text-blue-500''
     | YellowLevel \<Rightarrow> ''text-yellow-500'' | RedLevel \<Rightarrow> ''text-red-500'' | BoldRedLevel \<Rightarrow> ''text-red-600 font-bold''
     | GrayLevel \<Rightarrow> ''text-gray-500'')"

text \<open>The script assigns nothing but the empty text to it.\<close>

definition lastConnectError :: jstr where
  "lastConnectError = []"

text \<open>A line.\<close>

definition view_log_line ::
    "(jstr \<Rightarrow> (int \<times> int \<times> int \<times> int \<times> int \<times> int) option) \<Rightarrow> log_entry \<Rightarrow> logs_use node list" where
  "view_log_line date_fields entry =
     [Text (js ''[''), Text (formatDateTime date_fields (le_time entry)), Text (js '']''),
      Elem ''span'' [Attr ''class'' (jlit (level_color (getLevelClass (le_level entry))))] []
        [Text (pad_end 5 (to_upper (le_level entry)))],
      Elem ''span'' [Attr ''title'' (JStr (le_caller entry))] [] [Text (le_caller entry)],
      Text (le_message entry)] @
     (if text_of (le_fields entry) \<noteq> [] then
        [Text (text_of (le_fields entry))]
      else [])"

definition view_logs ::
    "(jstr \<Rightarrow> (int \<times> int \<times> int \<times> int \<times> int \<times> int) option) \<Rightarrow> logs_page \<Rightarrow> logs_use node list" where
  "view_logs date_fields p =
     view_page_header tv_live_log tv_log_subtitle
       ([Elem ''el-button'' [] [(''click'', \<lambda>_. Some (InLogs LogsPause))]
          [Elem (if lv_paused p then ''Play24Regular'' else ''Pause24Regular'') [] [] [],
           Text (if lv_paused p then tv_resume else tv_pause)],
        Elem ''el-button'' [] [(''click'', \<lambda>_. Some (InLogs LogsClear))]
          [icon ''Delete24Regular'', Text tv_clear],
        Elem ''el-button'' [] [(''click'', \<lambda>_. Some ExportLogs)]
          [icon ''ArrowDownload24Regular'', Text tv_export]]) @
     [Elem ''span''
        [Attr ''class'' (jlit (if lv_connected p then ''bg-green-500 animate-pulse'' else ''bg-red-500''))]
        []
        [],
      Text (if lv_connected p then tv_connected else tv_not_connected),
      Text (show_nat (length (lg_logs (lv_store p)))), Text tv_log_lines] @
     (if \<not> lv_connected p \<and> lastConnectError \<noteq> [] then
        [Elem ''span'' [Attr ''title'' (JStr lastConnectError)] [] [Text lastConnectError]]
      else []) @
     [Elem ''el-checkbox''
        [Attr ''model'' (JBool (lv_autoScroll p)), Attr ''label'' (JStr tv_follow_tail)]
        [(''update'', \<lambda>v. Some (InLogs (LogsScroll (truthy v))))]
        [],
      Elem ''el-select''
        [Attr ''model'' (JStr (lv_level p)), Attr ''placeholder'' (JStr tv_log_level)]
        [(''update'', \<lambda>v. Some (InLogs (LogsLevel (to_string v))))]
        [Elem ''el-option'' [Attr ''label'' (JStr tv_all), Attr ''value'' (jlit ''all'')] [] [],
         Elem ''el-option'' [Attr ''label'' (jlit ''DEBUG''), Attr ''value'' (jlit ''debug'')] [] [],
         Elem ''el-option'' [Attr ''label'' (jlit ''INFO''), Attr ''value'' (jlit ''info'')] [] [],
         Elem ''el-option'' [Attr ''label'' (jlit ''WARN''), Attr ''value'' (jlit ''warn'')] [] [],
         Elem ''el-option'' [Attr ''label'' (jlit ''ERROR''), Attr ''value'' (jlit ''error'')] [] []],
      Elem ''el-input''
        [Attr ''model'' (JStr (lv_search p)), Attr ''placeholder'' (JStr tv_search_logs)]
        [(''update'', \<lambda>v. Some (InLogs (LogsSearch (to_string v))))]
        [],
      Text tv_show, Text (show_nat (length (filteredLogs p))), Text (js ''/''),
      Text (show_nat (length (lg_logs (lv_store p)))), Text tv_pieces] @
     (if filteredLogs p = [] then
        [Text (if lv_connected p then tv_waiting_for_logs else tv_not_connected_to_logs)]
      else []) @
     concat (map (\<lambda>entry. view_log_line date_fields entry) (filteredLogs p))"

section \<open>What the user can do\<close>

lemma line_free [simp]: "only P (view_log_line date_fields entry)"
  by (simp add: view_log_line_def)

lemma any_text: "(\<forall>v. to_string v \<noteq> t) = False" "(\<forall>v. truthy v = (\<not> b)) = False"
  using to_string.simps(5) [of t] truthy.simps(3) [of b] by blast+

text \<open>Everything but the network is open to the user at any time.\<close>

lemma logs_offers:
  "user_can (view_logs date_fields p) u \<longleftrightarrow>
     u \<in> {ExportLogs, InLogs LogsPause, InLogs LogsClear} \<union> range (InLogs \<circ> LogsScroll) \<union> range (InLogs \<circ> LogsLevel) \<union>
       range (InLogs \<circ> LogsSearch)"
  unfolding user_can_only view_logs_def by (auto simp: image_iff any_text)

end
