(* ===== verification/ApiTypes.thy ===== *)
theory ApiTypes
  imports JsValue
begin

text \<open>
  The types the front end declares for what it exchanges with the server (\<open>types/api.ts\<close>,
  \<open>services/system.ts\<close>) and for the forms of \<open>stores/settings.ts\<close>, as data, and what it means for a
  dynamic value to have one. TypeScript erases its types, so that a declared type is a claim about values
  that nothing checks at run time; here it is a predicate on them. A number is one that JSON can carry, an
  optional field may be absent, and fields that are not declared are allowed, as in the language.
\<close>

section \<open>Types and values\<close>

datatype ts =
    TsString
  | TsNumber
  | TsBoolean
  | TsNull
  | TsLiteral jstr
  | TsArray ts
  | TsUnion "ts list"
  | TsObject "ts_field list"
  | TsRecord ts
and ts_field = Required string ts | Optional string ts

fun field_name :: "ts_field \<Rightarrow> string" where
  "field_name (Required k _) = k"
| "field_name (Optional k _) = k"

fun conforms :: "ts \<Rightarrow> jsval \<Rightarrow> bool" and conforms_field :: "ts_field \<Rightarrow> jsval \<Rightarrow> bool" where
  "conforms TsString v \<longleftrightarrow> (case v of JStr _ \<Rightarrow> True | _ \<Rightarrow> False)"
| "conforms TsNumber v \<longleftrightarrow> (case v of JNum (Fin _) \<Rightarrow> True | _ \<Rightarrow> False)"
| "conforms TsBoolean v \<longleftrightarrow> (case v of JBool _ \<Rightarrow> True | _ \<Rightarrow> False)"
| "conforms TsNull v \<longleftrightarrow> v = JNull"
| "conforms (TsLiteral t) v \<longleftrightarrow> v = JStr t"
| "conforms (TsArray t) v \<longleftrightarrow> (case v of JArr vs \<Rightarrow> list_all (\<lambda>x. conforms t x) vs | _ \<Rightarrow> False)"
| "conforms (TsUnion ts) v \<longleftrightarrow> list_ex (\<lambda>t. conforms t v) ts"
| "conforms (TsObject fs) v \<longleftrightarrow> (case v of JObj _ \<Rightarrow> list_all (\<lambda>f. conforms_field f v) fs | _ \<Rightarrow> False)"
| "conforms (TsRecord t) v \<longleftrightarrow> (case v of JObj al \<Rightarrow> list_all (\<lambda>kv. conforms t (snd kv)) al | _ \<Rightarrow> False)"
| "conforms_field (Required k t) v \<longleftrightarrow> conforms t (jfield v k)"
| "conforms_field (Optional k t) v \<longleftrightarrow> jfield v k = JUndef \<or> conforms t (jfield v k)"

text \<open>The type operators the declarations use: \<open>'a' | 'b'\<close>, \<open>Pick\<close> and \<open>Partial\<close>.\<close>

definition ts_one_of :: "string list \<Rightarrow> ts" where
  "ts_one_of xs = TsUnion (map (\<lambda>x. TsLiteral (js x)) xs)"

fun fields_of :: "ts \<Rightarrow> ts_field list" where
  "fields_of (TsObject fs) = fs"
| "fields_of _ = []"

definition ts_pick :: "ts \<Rightarrow> string list \<Rightarrow> ts" where
  "ts_pick t ks = TsObject (filter (\<lambda>f. field_name f \<in> set ks) (fields_of t))"

fun made_optional :: "ts_field \<Rightarrow> ts_field" where
  "made_optional (Required k t) = Optional k t"
| "made_optional (Optional k t) = Optional k t"

definition ts_partial :: "ts \<Rightarrow> ts" where
  "ts_partial t = TsObject (map made_optional (fields_of t))"

section \<open>The declarations\<close>

definition DeviceTrafficFormatted :: ts where
  "DeviceTrafficFormatted = TsObject
     [Optional ''tx'' TsString, Optional ''rx'' TsString, Optional ''rate'' TsString,
      Optional ''connections'' TsString, Optional ''active_conns'' TsString]"

definition DeviceTrafficRaw :: ts where
  "DeviceTrafficRaw = TsObject
     [Optional ''bytes_sent'' TsNumber, Optional ''bytes_received'' TsNumber,
      Optional ''connections'' TsNumber, Optional ''active_conns'' TsNumber]"

definition DeviceTrafficMeta :: ts where
  "DeviceTrafficMeta = TsObject
     [Optional ''interface'' TsString, Optional ''period_start'' TsString,
      Optional ''age_seconds'' TsNumber,
      Optional ''status'' (ts_one_of [''ok'', ''waiting_sample'', ''stale''])]"

definition RealtimeTrafficSnapshot :: ts where
  "RealtimeTrafficSnapshot = TsObject
     [Required ''device_id'' TsString, Optional ''interface'' TsString,
      Required ''source'' (TsLiteral (js ''qmi_wds'')), Required ''timestamp'' TsString,
      Required ''interval_ms'' TsNumber, Required ''rx_bps'' TsNumber,
      Required ''tx_bps'' TsNumber, Required ''rx_delta_bytes'' TsNumber,
      Required ''tx_delta_bytes'' TsNumber, Required ''total_rx_bytes'' TsNumber,
      Required ''total_tx_bytes'' TsNumber,
      Required ''status'' (ts_one_of [''ok'', ''waiting_sample'', ''reset'', ''error'']),
      Optional ''error'' TsString]"

definition VoWiFiRuntimeState :: ts where
  "VoWiFiRuntimeState = TsObject
     [Optional ''device_id'' TsString, Optional ''dataplane_mode'' TsString,
      Optional ''sim_ready'' TsBoolean, Optional ''access_ready'' TsBoolean,
      Optional ''tunnel_ready'' TsBoolean, Optional ''ims_ready'' TsBoolean,
      Optional ''sms_ready'' TsBoolean, Optional ''reg_status'' TsNumber,
      Optional ''reg_status_text'' TsString, Optional ''network_mode'' TsString,
      Optional ''last_error_class'' TsString, Optional ''last_error'' TsString,
      Optional ''last_reason'' TsString, Optional ''updated_at'' TsString]"

definition DeviceLifecyclePhase :: ts where
  "DeviceLifecyclePhase = ts_one_of
     [''offline'', ''rebooting'', ''usb_wait'', ''worker_starting'', ''qmi_starting'',
      ''recovering'', ''online'', ''degraded'', ''evicting'']"

definition DeviceConfigDTO :: ts where
  "DeviceConfigDTO = TsObject
     [Required ''id'' TsString, Required ''name'' TsString, Required ''interface'' TsString,
      Optional ''modem_imei'' TsString, Optional ''usb_path'' TsString,
      Optional ''apn'' TsString,
      Optional ''ip_version'' (ts_one_of [''v4'', ''v6'', ''v4v6'']),
      Optional ''esim_transport'' (ts_one_of [''at'', ''qmi'']),
      Optional ''network_enabled'' TsBoolean, Required ''at_port'' TsString,
      Required ''control_device'' TsString, Optional ''qmi_use_proxy'' TsBoolean,
      Optional ''qmi_proxy_path'' TsString, Optional ''qmi_proxy_executable'' TsString,
      Optional ''vowifi_enabled'' TsBoolean,
      Optional ''device_backend'' (ts_one_of [''at'', ''qmi'', ''mbim'']),
      Optional ''operator_selection_mode'' TsString,
      Optional ''operator_selection_plmn'' TsString,
      Optional ''operator_selection_rat'' TsString]"

definition PNNRecord :: ts where
  "PNNRecord = TsObject
     [Required ''record'' TsNumber, Optional ''full_name'' TsString,
      Optional ''short_name'' TsString, Optional ''raw_hex'' TsString]"

definition OPLRecord :: ts where
  "OPLRecord = TsObject
     [Required ''record'' TsNumber, Optional ''plmn'' TsString,
      Optional ''lac_start'' TsNumber, Optional ''lac_end'' TsNumber,
      Optional ''pnn_record'' TsNumber, Optional ''raw_hex'' TsString]"

definition SIMServiceTable :: ts where
  "SIMServiceTable = TsObject
     [Optional ''kind'' TsString, Optional ''raw_hex'' TsString,
      Optional ''enabled_services'' (TsArray TsNumber)]"

definition ModemStatus :: ts where
  "ModemStatus = TsObject
     [Optional ''imei'' TsString, Optional ''iccid'' TsString, Optional ''imsi'' TsString,
      Optional ''native_spn'' TsString, Optional ''native_mcc'' TsString,
      Optional ''native_mnc'' TsString, Optional ''gid1'' TsString, Optional ''gid2'' TsString,
      Optional ''pnn'' (TsArray PNNRecord), Optional ''opl'' (TsArray OPLRecord),
      Optional ''sim_service_table'' SIMServiceTable, Optional ''firmware'' TsString,
      Optional ''operator'' TsString, Optional ''network_mode'' TsString,
      Optional ''network_duplex'' TsString, Optional ''radio_band'' TsString,
      Optional ''radio_channel'' TsNumber, Optional ''apn'' TsString,
      Optional ''ims_status'' TsNumber, Optional ''signal_dbm'' TsNumber,
      Optional ''signal_rsrp'' TsNumber, Optional ''signal_rsrq'' TsNumber,
      Optional ''signal_sinr'' TsNumber, Optional ''nr5g_signal_sinr'' TsNumber,
      Optional ''reg_status'' TsNumber, Optional ''reg_status_text'' TsString,
      Optional ''lac'' TsString, Optional ''cell_id'' TsString,
      Optional ''usbnet_mode'' TsNumber, Optional ''operating_mode'' TsNumber]"

definition DeviceOverviewItem :: ts where
  "DeviceOverviewItem = TsObject
     [Required ''id'' TsString, Required ''name'' TsString, Required ''running'' TsBoolean,
      Required ''healthy'' TsBoolean, Optional ''control_online'' TsBoolean,
      Optional ''physical_present'' TsBoolean, Optional ''worker_running'' TsBoolean,
      Optional ''data_connected'' TsBoolean, Optional ''radio_registered'' TsBoolean,
      Optional ''lifecycle_phase'' DeviceLifecyclePhase,
      Optional ''lifecycle_reason'' TsString, Required ''network_connected'' TsBoolean,
      Optional ''registration_state_label'' (ts_one_of [''registered'', ''searching'', ''denied'', ''unknown'']),
      Optional ''private_ip'' TsString, Optional ''private_ipv6'' TsString,
      Required ''public_ip'' TsString, Optional ''public_ipv6'' TsString,
      Optional ''interface'' TsString, Optional ''control_device'' TsString,
      Optional ''esim_transport'' TsString, Optional ''at_port'' TsString,
      Optional ''usb_path'' TsString, Optional ''local_phone'' TsString,
      Optional ''e911_setup_available'' TsBoolean,
      Optional ''active_esim_profile_name'' TsString, Required ''network_enabled'' TsBoolean,
      Optional ''vowifi_enabled'' TsBoolean, Optional ''vowifi_active'' TsBoolean,
      Optional ''vowifi_runtime'' VoWiFiRuntimeState, Optional ''radio_live_ok'' TsBoolean,
      Required ''modem'' ModemStatus, Optional ''traffic'' DeviceTrafficFormatted,
      Optional ''traffic_raw'' DeviceTrafficRaw, Optional ''traffic_meta'' DeviceTrafficMeta,
      Optional ''backend_mode'' TsString]"

definition DeviceMgmtListItem :: ts where
  "DeviceMgmtListItem = TsObject
     [Required ''id'' TsString, Required ''name'' TsString, Required ''running'' TsBoolean,
      Required ''healthy'' TsBoolean, Optional ''control_online'' TsBoolean,
      Optional ''physical_present'' TsBoolean, Optional ''worker_running'' TsBoolean,
      Optional ''data_connected'' TsBoolean, Optional ''radio_registered'' TsBoolean,
      Optional ''lifecycle_phase'' DeviceLifecyclePhase,
      Optional ''lifecycle_reason'' TsString, Required ''network_connected'' TsBoolean,
      Optional ''registration_state_label'' (ts_one_of [''registered'', ''searching'', ''denied'', ''unknown'']),
      Required ''public_ip'' TsString, Optional ''public_ipv6'' TsString,
      Optional ''interface'' TsString, Optional ''esim_transport'' TsString,
      Required ''sms_enabled'' TsBoolean, Required ''network_enabled'' TsBoolean,
      Optional ''vowifi_enabled'' TsBoolean, Optional ''vowifi_runtime'' VoWiFiRuntimeState,
      Optional ''modem'' (ts_pick ModemStatus [''operator'', ''native_spn'', ''native_mcc'', ''native_mnc'', ''network_mode'', ''network_duplex'', ''radio_band'', ''radio_channel'', ''signal_dbm'', ''signal_sinr'', ''imei'', ''iccid'', ''reg_status''])]"

definition EsimSpaceDelta :: ts where
  "EsimSpaceDelta = TsObject
     [Required ''direction'' (ts_one_of [''released'', ''consumed'']),
      Required ''bytes'' TsNumber]"

definition EsimEUICCSpec :: ts where
  "EsimEUICCSpec = ts_one_of [''sgp22'', ''sgp32'', ''sgp02'']"

definition EsimEUICCSpecGuess :: ts where
  "EsimEUICCSpecGuess = ts_one_of
     [''unknown'', ''sgp22_compatible'', ''possible_sgp02'', ''possible_sgp32'']"

definition EsimEUICCSpecConfidence :: ts where
  "EsimEUICCSpecConfidence = ts_one_of [''unknown'', ''inferred'', ''verified'']"

definition EsimEUICCInfo :: ts where
  "EsimEUICCInfo = TsObject
     [Required ''aid'' TsString, Required ''eid'' TsString, Optional ''spec'' EsimEUICCSpec,
      Optional ''spec_guess'' EsimEUICCSpecGuess,
      Optional ''spec_confidence'' EsimEUICCSpecConfidence,
      Required ''free_nvram_bytes'' TsNumber, Required ''free_nvram'' TsString,
      Optional ''firmware'' TsString, Optional ''manufacturer'' TsString,
      Optional ''certificates'' (TsArray TsString), Optional ''info_source'' TsString,
      Optional ''info_version'' TsString, Optional ''info_error'' TsString,
      Optional ''sas_accreditation_number'' TsString,
      Optional ''default_smdp_address'' TsString, Optional ''root_ds_address'' TsString]"

definition EsimProfileItem :: ts where
  "EsimProfileItem = TsObject
     [Required ''iccid'' TsString, Required ''name'' TsString,
      Required ''service_provider_name'' TsString, Required ''state'' TsNumber,
      Required ''state_text'' TsString, Optional ''class_text'' TsString]"

definition EsimEUICCProfiles :: ts where
  "EsimEUICCProfiles = TsObject
     [Required ''eid'' TsString, Required ''aid_hex'' TsString,
      Required ''profiles'' (TsArray EsimProfileItem)]"

definition EsimChipInfo :: ts where
  "EsimChipInfo = TsObject
     [Required ''eids'' (TsArray EsimEUICCInfo), Optional ''sku_name'' TsString,
      Optional ''serial_number'' TsString, Optional ''firmware'' TsString]"

definition EsimOverviewResponse :: ts where
  "EsimOverviewResponse = TsObject
     [Required ''chip_info'' (TsUnion [EsimChipInfo, TsNull]),
      Required ''profiles'' (TsArray EsimEUICCProfiles)]"

definition EsimNotificationItem :: ts where
  "EsimNotificationItem = TsObject
     [Required ''sequence_number'' TsNumber, Required ''event'' TsString,
      Optional ''iccid'' TsString, Optional ''address'' TsString,
      Optional ''aid_hex'' TsString, Required ''can_retry'' TsBoolean]"

definition DiscoveredDevice :: ts where
  "DiscoveredDevice = TsObject
     [Required ''discovery_key'' TsString, Required ''control_path'' TsString,
      Required ''net_interface'' TsString, Required ''usb_path'' TsString,
      Optional ''imei'' TsString, Required ''vendor_id'' TsNumber,
      Required ''product_id'' TsNumber, Required ''driver_name'' TsString,
      Required ''at_ports'' (TsArray TsString), Required ''at_port'' TsString,
      Optional ''mode'' (ts_one_of [''qmi'', ''mbim'', ''ecm'', ''rndis'', ''ncm'', ''unknown'']),
      Optional ''network_capable'' TsBoolean, Required ''configured'' TsBoolean,
      Optional ''configured_id'' TsString, Optional ''degraded'' TsBoolean,
      Optional ''usbnet_mode'' TsNumber]"

definition DashboardDevice :: ts where
  "DashboardDevice = TsObject
     [Required ''id'' TsString, Optional ''name'' TsString, Required ''healthy'' TsBoolean,
      Optional ''operator'' TsString, Optional ''network_mode'' TsString,
      Optional ''network_duplex'' TsString, Required ''signal_dbm'' TsNumber,
      Optional ''public_ip'' TsString, Optional ''public_ipv6'' TsString,
      Optional ''vowifi_active'' TsBoolean, Optional ''vowifi_runtime'' VoWiFiRuntimeState]"

definition SMSMessage :: ts where
  "SMSMessage = TsObject
     [Required ''id'' TsNumber, Optional ''imsi'' TsString, Optional ''iccid'' TsString,
      Optional ''peer'' TsString, Required ''sender'' TsString,
      Optional ''recipient'' TsString, Required ''content'' TsString,
      Required ''type'' TsNumber, Optional ''status'' TsNumber,
      Required ''timestamp'' TsString, Optional ''device_name'' TsString]"

definition SMSContact :: ts where
  "SMSContact = TsObject
     [Required ''imsi'' TsString, Optional ''iccid'' TsString, Required ''peer'' TsString,
      Optional ''device_id'' TsString, Required ''last_sms_id'' TsNumber,
      Required ''last_timestamp'' TsString, Required ''last_content'' TsString,
      Required ''last_type'' TsNumber, Required ''unread_count'' TsNumber,
      Optional ''device_name'' TsString, Optional ''local_phone'' TsString]"

definition CardPolicy :: ts where
  "CardPolicy = TsObject
     [Required ''iccid'' TsString, Required ''network_enabled'' TsBoolean,
      Required ''vowifi_enabled'' TsBoolean, Required ''airplane_enabled'' TsBoolean,
      Required ''ip_version'' (ts_one_of [''v4'', ''v6'', ''v4v6'']),
      Required ''apn'' TsString, Required ''source'' (ts_one_of [''auto'', ''user'']),
      Optional ''updated_at'' TsString]"

definition NotificationSettings :: ts where
  "NotificationSettings = TsObject
     [Required ''telegram'' (TsObject [Required ''enabled'' TsBoolean, Required ''bot_token'' TsString,
      Required ''chat_id'' TsString]),
      Required ''webhook'' (TsObject [Required ''enabled'' TsBoolean, Required ''urls'' (TsArray TsString),
      Required ''secret'' TsString]),
      Required ''bark'' (TsObject [Required ''enabled'' TsBoolean, Required ''urls'' (TsArray TsString),
      Required ''group'' TsString, Required ''icon'' TsString, Required ''level'' TsString])]"

definition ProxyMode :: ts where
  "ProxyMode = ts_one_of [''socks5'', ''http'']"

definition ProxyInstance :: ts where
  "ProxyInstance = TsObject
     [Required ''id'' TsString, Required ''name'' TsString, Required ''device_id'' TsString,
      Required ''enabled'' TsBoolean, Required ''mode'' ProxyMode,
      Required ''listen_addr'' TsString, Required ''listen_port'' TsNumber,
      Required ''auth_enabled'' TsBoolean, Required ''username'' TsString,
      Optional ''password'' TsString]"

definition ProxyInstanceStatus :: ts where
  "ProxyInstanceStatus = TsObject
     [Required ''id'' TsString, Optional ''mode'' ProxyMode, Required ''running'' TsBoolean,
      Optional ''started_at'' TsString, Optional ''last_exit_at'' TsString,
      Optional ''last_exit_ok'' TsBoolean, Optional ''last_error'' TsString,
      Optional ''listen_addr'' TsString, Optional ''listen_port'' TsNumber,
      Optional ''interface'' TsString, Optional ''auth_enabled'' TsBoolean]"

definition ProxyDevice :: ts where
  "ProxyDevice = TsObject
     [Required ''id'' TsString, Required ''name'' TsString, Required ''interface'' TsString]"

definition ProxyOverviewResponse :: ts where
  "ProxyOverviewResponse = TsObject
     [Required ''instances'' (TsArray ProxyInstance),
      Required ''devices'' (TsArray ProxyDevice),
      Required ''status'' (TsArray ProxyInstanceStatus)]"

definition UpstreamProxy :: ts where
  "UpstreamProxy = TsObject
     [Required ''id'' TsString, Required ''name'' TsString, Required ''addr'' TsString,
      Required ''username'' TsString, Optional ''password'' TsString,
      Required ''enabled'' TsBoolean, Optional ''created_at'' TsString,
      Optional ''updated_at'' TsString]"

definition UpstreamProxyCountry :: ts where
  "UpstreamProxyCountry = TsObject
     [Required ''country_code'' TsString, Required ''country_name'' TsString,
      Required ''mccs'' (TsArray TsString)]"

definition UpstreamProxyCountryRule :: ts where
  "UpstreamProxyCountryRule = TsObject
     [Required ''country_code'' TsString, Required ''country_name'' TsString,
      Required ''mccs'' (TsArray TsString), Required ''upstream_proxy_id'' TsString,
      Required ''enabled'' TsBoolean, Optional ''updated_at'' TsString]"

definition UpstreamProxyCountryRulePayload :: ts where
  "UpstreamProxyCountryRulePayload = TsObject
     [Required ''upstream_proxy_id'' TsString, Required ''enabled'' TsBoolean]"

definition OperatorSelectionMode :: ts where
  "OperatorSelectionMode = ts_one_of [''automatic'', ''manual'']"

definition OperatorSelectionRAT :: ts where
  "OperatorSelectionRAT = ts_one_of ['''', ''gsm'', ''lte'', ''wcdma'', ''nr5g'']"

definition OperatorCandidate :: ts where
  "OperatorCandidate = TsObject
     [Required ''plmn'' TsString, Optional ''mcc'' TsString, Optional ''mnc'' TsString,
      Optional ''mnc_length'' TsNumber, Optional ''includes_pcs_digit'' TsBoolean,
      Required ''operator_name'' TsString, Optional ''short_name'' TsString,
      Required ''status'' (ts_one_of [''current'', ''available'', ''forbidden'', ''unknown'']),
      Optional ''rats'' (TsArray OperatorSelectionRAT)]"

definition OperatorScanStatus :: ts where
  "OperatorScanStatus = ts_one_of [''running'', ''complete'', ''failed'']"

definition OperatorScanResult :: ts where
  "OperatorScanResult = TsObject
     [Required ''scan_id'' TsString, Required ''status'' OperatorScanStatus,
      Required ''started_at'' TsString, Required ''updated_at'' TsString,
      Required ''complete'' TsBoolean, Required ''retryable'' TsBoolean,
      Required ''message'' TsString, Optional ''error'' TsString,
      Required ''candidates'' (TsArray OperatorCandidate)]"

definition OperatorSelection :: ts where
  "OperatorSelection = TsObject
     [Required ''mode'' OperatorSelectionMode, Optional ''plmn'' TsString,
      Optional ''mcc'' TsString, Optional ''mnc'' TsString, Optional ''mnc_length'' TsNumber,
      Optional ''includes_pcs_digit'' TsBoolean, Optional ''rat'' OperatorSelectionRAT,
      Optional ''operator_name'' TsString]"

definition SetOperatorSelectionRequest :: ts where
  "SetOperatorSelectionRequest = TsObject
     [Required ''mode'' OperatorSelectionMode, Optional ''plmn'' TsString,
      Optional ''includes_pcs_digit'' TsBoolean, Optional ''rat'' OperatorSelectionRAT]"

definition CarrierWebsheetInfo :: ts where
  "CarrierWebsheetInfo = TsObject
     [Required ''id'' TsString, Required ''embedUrl'' TsString, Optional ''title'' TsString,
      Required ''url'' TsString, Required ''method'' TsString]"

definition DocsLinks :: ts where
  "DocsLinks = TsObject
     [Required ''swagger_ui'' TsString, Required ''openapi_yaml'' TsString,
      Required ''openapi_json'' TsString]"

definition UpdateInfo :: ts where
  "UpdateInfo = TsObject
     [Required ''has_update'' TsBoolean, Required ''current_version'' TsString,
      Required ''latest_version'' TsString, Required ''release_note'' TsString,
      Required ''is_docker'' TsBoolean]"

definition SystemInfo :: ts where
  "SystemInfo = TsObject
     [Required ''version'' TsString, Required ''build_time'' TsString,
      Required ''config'' TsString, Required ''docs'' DocsLinks]"

definition TelegramSettings :: ts where
  "TelegramSettings = TsObject
     [Required ''enabled'' TsBoolean, Required ''bot_token'' TsString,
      Required ''chat_id'' (TsUnion [TsNumber, TsNull]),
      Required ''admin_id'' (TsUnion [TsNumber, TsNull]), Required ''base_url'' TsString,
      Required ''proxy'' TsString]"

definition FeishuSettings :: ts where
  "FeishuSettings = TsObject
     [Required ''enabled'' TsBoolean, Required ''app_id'' TsString,
      Required ''app_secret'' TsString, Required ''chat_ids'' (TsArray TsString)]"

definition QQSettings :: ts where
  "QQSettings = TsObject
     [Required ''enabled'' TsBoolean, Required ''app_id'' TsString,
      Required ''app_secret'' TsString, Required ''group_ids'' TsString,
      Required ''direct_ids'' TsString]"

definition WebhookSettings :: ts where
  "WebhookSettings = TsObject
     [Required ''enabled'' TsBoolean, Required ''urls'' (TsArray TsString),
      Required ''secret'' TsString, Required ''timeout_ms'' TsNumber,
      Required ''retry_max'' TsNumber, Required ''text_template'' TsString,
      Required ''headers'' (TsRecord TsString)]"

definition BarkSettings :: ts where
  "BarkSettings = TsObject
     [Required ''enabled'' TsBoolean, Required ''urls'' (TsArray TsString),
      Required ''group'' TsString, Required ''icon'' TsString, Required ''level'' TsString]"

definition EmailSettings :: ts where
  "EmailSettings = TsObject
     [Required ''enabled'' TsBoolean, Required ''use_ssl'' TsBoolean,
      Required ''smtp_host'' TsString, Required ''smtp_port'' TsNumber,
      Required ''username'' TsString, Required ''password'' TsString,
      Required ''from_address'' TsString, Required ''to_addresses'' (TsArray TsString)]"

definition PushplusSettings :: ts where
  "PushplusSettings = TsObject
     [Required ''enabled'' TsBoolean, Required ''token'' TsString, Required ''topic'' TsString,
      Required ''channel'' TsString]"

definition NotificationsSettingsResponse :: ts where
  "NotificationsSettingsResponse = TsObject
     [Optional ''telegram'' (ts_partial TelegramSettings),
      Optional ''feishu'' (ts_partial FeishuSettings), Optional ''qq'' (ts_partial QQSettings),
      Optional ''email'' (ts_partial EmailSettings),
      Optional ''pushplus'' (ts_partial PushplusSettings),
      Optional ''webhook'' (ts_partial WebhookSettings),
      Optional ''bark'' (ts_partial BarkSettings)]"

definition SaveNotificationsPayload :: ts where
  "SaveNotificationsPayload = TsObject
     [Required ''telegram'' (TsObject [Required ''enabled'' TsBoolean, Required ''bot_token'' TsString,
      Required ''chat_id'' TsNumber, Required ''admin_id'' TsNumber,
      Required ''base_url'' TsString, Required ''proxy'' TsString]),
      Required ''feishu'' (TsObject [Required ''enabled'' TsBoolean, Required ''app_id'' TsString,
      Required ''app_secret'' TsString, Required ''chat_ids'' (TsArray TsString)]),
      Required ''qq'' (TsObject [Required ''enabled'' TsBoolean, Required ''app_id'' TsString,
      Required ''app_secret'' TsString, Required ''group_ids'' TsString,
      Required ''direct_ids'' TsString]),
      Required ''email'' (TsObject [Required ''enabled'' TsBoolean, Required ''use_ssl'' TsBoolean,
      Required ''smtp_host'' TsString, Required ''smtp_port'' TsNumber,
      Required ''username'' TsString, Required ''password'' TsString,
      Required ''from_address'' TsString, Required ''to_addresses'' (TsArray TsString)]),
      Required ''pushplus'' (TsObject [Required ''enabled'' TsBoolean, Required ''token'' TsString, Required ''topic'' TsString,
      Required ''channel'' TsString]),
      Required ''webhook'' (TsObject [Required ''enabled'' TsBoolean, Required ''urls'' (TsArray TsString),
      Required ''secret'' TsString, Required ''timeout_ms'' TsNumber,
      Required ''retry_max'' TsNumber, Required ''text_template'' TsString,
      Optional ''headers'' (TsRecord TsString)]),
      Required ''bark'' (TsObject [Required ''enabled'' TsBoolean, Required ''urls'' (TsArray TsString),
      Required ''group'' TsString, Required ''icon'' TsString, Required ''level'' TsString])]"

definition SaveNotificationsResponse :: ts where
  "SaveNotificationsResponse = TsObject
     [Optional ''applied'' TsBoolean, Optional ''warning'' TsString]"

definition TestWebhookPayload :: ts where
  "TestWebhookPayload = TsObject
     [Required ''enabled'' TsBoolean, Required ''urls'' (TsArray TsString),
      Required ''secret'' TsString, Required ''timeout_ms'' TsNumber,
      Required ''retry_max'' TsNumber, Required ''text_template'' TsString,
      Optional ''headers'' (TsRecord TsString)]"

definition TestWebhookResponse :: ts where
  "TestWebhookResponse = TsObject
     [Required ''ok'' TsBoolean, Required ''message'' TsString,
      Optional ''failed_urls'' (TsArray TsString)]"

definition TestBarkPayload :: ts where
  "TestBarkPayload = TsObject
     [Required ''enabled'' TsBoolean, Required ''urls'' (TsArray TsString),
      Required ''group'' TsString, Required ''icon'' TsString, Required ''level'' TsString]"

definition TestBarkResponse :: ts where
  "TestBarkResponse = TsObject
     [Required ''ok'' TsBoolean, Required ''message'' TsString,
      Optional ''failed_urls'' (TsArray TsString)]"

definition TestEmailPayload :: ts where
  "TestEmailPayload = TsObject
     [Required ''enabled'' TsBoolean, Required ''use_ssl'' TsBoolean,
      Required ''smtp_host'' TsString, Required ''smtp_port'' TsNumber,
      Required ''username'' TsString, Required ''password'' TsString,
      Required ''from_address'' TsString, Required ''to_addresses'' (TsArray TsString)]"

definition TestEmailResponse :: ts where
  "TestEmailResponse = TsObject
     [Required ''ok'' TsBoolean, Required ''message'' TsString]"

definition PasswordForm :: ts where
  "PasswordForm = TsObject
     [Required ''old_password'' TsString, Required ''new_password'' TsString,
      Required ''confirm_password'' TsString]"

definition TelegramForm :: ts where
  "TelegramForm = TsObject
     [Required ''enabled'' TsBoolean, Required ''bot_token'' TsString,
      Required ''chat_id'' (TsUnion [TsNumber, TsNull]),
      Required ''admin_id'' (TsUnion [TsNumber, TsNull]), Required ''base_url'' TsString,
      Required ''proxy'' TsString]"

definition FeishuForm :: ts where
  "FeishuForm = TsObject
     [Required ''enabled'' TsBoolean, Required ''app_id'' TsString,
      Required ''app_secret'' TsString, Required ''chat_ids'' TsString]"

definition QQForm :: ts where
  "QQForm = TsObject
     [Required ''enabled'' TsBoolean, Required ''app_id'' TsString,
      Required ''app_secret'' TsString, Required ''group_ids'' TsString,
      Required ''direct_ids'' TsString]"

definition EmailForm :: ts where
  "EmailForm = TsObject
     [Required ''enabled'' TsBoolean, Required ''use_ssl'' TsBoolean,
      Required ''smtp_host'' TsString, Required ''smtp_port'' (TsUnion [TsNumber, TsNull]),
      Required ''username'' TsString, Required ''password'' TsString,
      Required ''from_address'' TsString, Required ''to_addresses'' TsString]"

definition PushplusForm :: ts where
  "PushplusForm = TsObject
     [Required ''enabled'' TsBoolean, Required ''token'' TsString, Required ''topic'' TsString,
      Required ''channel'' TsString]"

section \<open>Facts\<close>

text \<open>The values of a type, which the proofs use in place of the case distinctions.\<close>

lemma conforms_values:
  "conforms TsString v \<longleftrightarrow> (\<exists>t. v = JStr t)"
  "conforms TsNumber v \<longleftrightarrow> (\<exists>r. v = JNum (Fin r))"
  "conforms TsBoolean v \<longleftrightarrow> (\<exists>b. v = JBool b)"
  "conforms (TsArray t) v \<longleftrightarrow> (\<exists>vs. v = JArr vs \<and> (\<forall>x\<in>set vs. conforms t x))"
  "conforms (TsUnion ts) v \<longleftrightarrow> (\<exists>t\<in>set ts. conforms t v)"
  "conforms (TsObject fs) v \<longleftrightarrow> (\<exists>al. v = JObj al) \<and> (\<forall>f\<in>set fs. conforms_field f v)"
  "conforms (TsRecord t) v \<longleftrightarrow> (\<exists>al. v = JObj al \<and> (\<forall>kv\<in>set al. conforms t (snd kv)))"
  "conforms (ts_one_of xs) v \<longleftrightarrow> v \<in> (\<lambda>x. JStr (js x)) ` set xs"
  by (cases v; auto simp: list_all_iff list_ex_iff ts_one_of_def split: jnum.split)+

declare conforms.simps(1-3,6-9) [simp del]
declare conforms_values [simp]

text \<open>Picking and making optional weaken a type.\<close>

lemma conforms_pick: "conforms (TsObject fs) v \<Longrightarrow> conforms (ts_pick (TsObject fs) ks) v"
  by (auto simp: ts_pick_def)

lemma made_optional_field: "conforms_field f v \<Longrightarrow> conforms_field (made_optional f) v"
  by (cases f) simp_all

lemma conforms_partial: "conforms (TsObject fs) v \<Longrightarrow> conforms (ts_partial (TsObject fs)) v"
  by (auto simp: ts_partial_def made_optional_field)

end
