(* ===== verification/Controls.thy ===== *)
theory Controls
  imports CommonViews ApiTypes
begin

text \<open>
  What the controls of a page deliver: the value a handler gets is not any value but what the element can
  produce. A text field delivers a text, a field of type number the text of a number, a number box a number
  or nothing, a switch a truth value, a select the value of an option.
\<close>

definition number_entry :: "jsval \<Rightarrow> bool" where
  "number_entry v \<longleftrightarrow> v \<in> {JNull, JUndef} \<or> (\<exists>r. v = JNum (Fin r)) \<or> (\<exists>t r. v = JStr t \<and> number_of_text t = Fin r)"

definition delivers :: "string \<Rightarrow> attr list \<Rightarrow> string \<Rightarrow> jsval \<Rightarrow> bool" where
  "delivers tag ats event v \<longleftrightarrow>
     (if event \<noteq> ''update'' then True
      else if tag = ''el-input-number'' then v \<in> {JNull, JUndef} \<or> (\<exists>r. v = JNum (Fin r))
      else if tag = ''el-switch'' then \<exists>b. v = JBool b
      else if tag = ''el-input'' \<and> Attr ''type'' (jlit ''number'') \<in> set ats
      then \<exists>t r. v = JStr t \<and> number_of_text t = Fin r
      else \<exists>t. v = JStr t)"

text \<open>Every event the controls can raise with what they deliver, marks left aside, has the property.\<close>

fun delivered :: "('e \<Rightarrow> bool) \<Rightarrow> 'e node \<Rightarrow> bool" where
  "delivered P (Text t) \<longleftrightarrow> True"
| "delivered P (Elem tag ats on kids) \<longleftrightarrow>
     (\<forall>(event, h)\<in>set on. \<forall>v. delivers tag ats event v \<longrightarrow> pred_option P (h v)) \<and> (\<forall>k\<in>set kids. delivered P k)"

definition delivered_all :: "('e \<Rightarrow> bool) \<Rightarrow> 'e node list \<Rightarrow> bool" where
  "delivered_all P ns \<longleftrightarrow> (\<forall>n\<in>set ns. delivered P n)"

definition raised :: "'e node list \<Rightarrow> 'e \<Rightarrow> bool" where
  "raised ns e \<longleftrightarrow> \<not> delivered_all (\<lambda>d. d \<noteq> e) ns"

lemma delivered_parts [simp]:
  "delivered_all P []"
  "delivered_all P (Text t # ns) \<longleftrightarrow> delivered_all P ns"
  "delivered_all P (Elem tag ats on kids # ns) \<longleftrightarrow>
     (\<forall>(event, h)\<in>set on. \<forall>v. delivers tag ats event v \<longrightarrow> pred_option P (h v)) \<and> delivered_all P kids \<and> delivered_all P ns"
  "delivered_all P (ns @ ms) \<longleftrightarrow> delivered_all P ns \<and> delivered_all P ms"
  "delivered_all P (concat nss) \<longleftrightarrow> (\<forall>ns\<in>set nss. delivered_all P ns)"
  "delivered_all P (map f xs) \<longleftrightarrow> (\<forall>x\<in>set xs. delivered P (f x))"
  by (auto simp: delivered_all_def)

lemma delivered_mono: "delivered P n \<Longrightarrow> (\<And>d. P d \<Longrightarrow> Q d) \<Longrightarrow> delivered Q n"
proof (induction n)
  case (Elem tag ats on kids)
  then have "pred_option P x \<Longrightarrow> pred_option Q x" for x by (cases x) simp_all
  with Elem show ?case by (simp add: case_prod_unfold)
qed simp

lemma raised_holds: "delivered_all P ns \<Longrightarrow> raised ns e \<Longrightarrow> P e"
  unfolding raised_def delivered_all_def using delivered_mono [of P _ "\<lambda>d. d \<noteq> e"] by blast

lemma delivered_common [simp]:
  "delivered_all P (view_page_header t s ns) \<longleftrightarrow> delivered_all P ns"
  "delivered_all P (view_empty_state t s ns) \<longleftrightarrow> delivered_all P ns"
  "delivered_all P (view_field_row t fr None)"
  "delivered_all P (view_field_row t fr (Some ns)) \<longleftrightarrow> delivered_all P ns"
  by (auto simp: view_page_header_def view_empty_state_def view_field_row_def)

lemma delivers_simps [simp]:
  "delivers tag ats ''click'' v"
  "delivers ''el-input-number'' ats ''update'' v \<longleftrightarrow> v \<in> {JNull, JUndef} \<or> (\<exists>r. v = JNum (Fin r))"
  "delivers ''el-switch'' ats ''update'' v \<longleftrightarrow> (\<exists>b. v = JBool b)"
  "delivers ''el-select'' ats ''update'' v \<longleftrightarrow> (\<exists>t. v = JStr t)"
  by (auto simp: delivers_def)

lemma delivers_input [simp]:
  "delivers ''el-input'' ats ''update'' v \<longleftrightarrow>
     (\<exists>t. v = JStr t \<and> (Attr ''type'' (jlit ''number'') \<in> set ats \<longrightarrow> (\<exists>r. number_of_text t = Fin r)))"
  by (auto simp: delivers_def)

end
