(* ===== verification/TypedSettings.thy ===== *)
theory TypedSettings
  imports SettingsView Controls
begin

text \<open>
  The declared types of the settings page against its run-time values: whatever the controls of the page
  deliver and whatever settings of the declared type the server sends, the forms hold texts and numbers where
  the payloads need them, and what is sent has the declared type.
\<close>

section \<open>Forms\<close>

abbreviation texts :: "jsval list \<Rightarrow> bool" where
  "texts vs \<equiv> \<forall>v\<in>set vs. conforms TsString v"

text \<open>A number field holds what was loaded, or the text that was left in it.\<close>

definition forms_typed :: "notification_forms \<Rightarrow> bool" where
  "forms_typed f \<longleftrightarrow>
     (let tg = nf_telegram f; fs = nf_feishu f; qq = nf_qq f; em = nf_email f; pp = nf_pushplus f; wh = nf_webhook f;
          bk = nf_bark f
      in texts [tg_bot_token tg, tg_base_url tg, tg_proxy tg] \<and> number_entry (tg_chat_id tg) \<and> number_entry (tg_admin_id tg) \<and>
         texts [fs_app_id fs, fs_app_secret fs] \<and>
         texts [qq_app_id qq, qq_app_secret qq, qq_group_ids qq, qq_direct_ids qq] \<and>
         texts [em_smtp_host em, em_username em, em_password em, em_from_address em] \<and> number_entry (em_smtp_port em) \<and>
         texts [pp_token pp, pp_topic pp, pp_channel pp] \<and>
         texts (wh_secret wh # wh_text_template wh # wh_urls wh) \<and> number_entry (wh_timeout_ms wh) \<and>
         number_entry (wh_retry_max wh) \<and> texts (bk_group bk # bk_icon bk # bk_level bk # bk_urls bk))"

fun event_typed :: "settings_event \<Rightarrow> bool" where
  "event_typed (FormsEdited f) = forms_typed f"
| "event_typed (NotificationsCame now (Success d)) = conforms NotificationsSettingsResponse d"
| "event_typed _ = True"

section \<open>From the server\<close>

lemma text_or_typed:
  "jfield d k = JUndef \<or> (\<exists>t. jfield d k = JStr t) \<Longrightarrow> \<exists>t. text_or d k (JStr x) = JStr t"
  by (auto simp: text_or_def or_else_def)

lemma number_loaded:
  assumes "number_entry d"
  shows "v = JUndef \<or> (\<exists>r. v = JNum (Fin r)) \<Longrightarrow> number_entry (if_nullish v d)"
    "v = JUndef \<or> (\<exists>r. v = JNum (Fin r)) \<or> v = JNull \<Longrightarrow> number_entry (if_nullish v d)"
  using assms by (auto simp: if_nullish_def number_entry_def)

lemma text_loaded: "v = JUndef \<or> (\<exists>t. v = JStr t) \<Longrightarrow> \<exists>t. if_nullish v (JStr x) = JStr t"
  by (auto simp: if_nullish_def)

lemma urls_loaded: "v = JUndef \<or> (\<exists>vs. v = JArr vs \<and> (\<forall>x\<in>set vs. \<exists>t. x = JStr t)) \<Longrightarrow>
    (\<forall>x\<in>set (array_or_empty v). \<exists>t. x = JStr t) = True"
  by (auto simp: array_or_empty_def)

text \<open>A section that is missing counts as an empty object, which lacks optional fields only.\<close>

lemma section_part:
  assumes "jfield d k = JUndef \<or> conforms (ts_partial t) (jfield d k)" and "t = TsObject fs"
  shows "conforms (ts_partial t) (section_of d k)"
proof -
  have "conforms_field (made_optional f) (JObj [])" for f by (cases f) simp_all
  then show ?thesis using assms by (auto simp: section_of_def or_else_def ts_partial_def)
qed

lemmas settings_types = TelegramSettings_def FeishuSettings_def QQSettings_def EmailSettings_def PushplusSettings_def
  WebhookSettings_def BarkSettings_def

lemma section_typed:
  assumes "conforms NotificationsSettingsResponse d"
  shows "conforms (ts_partial TelegramSettings) (section_of d ''telegram'')"
    "conforms (ts_partial FeishuSettings) (section_of d ''feishu'')"
    "conforms (ts_partial QQSettings) (section_of d ''qq'')"
    "conforms (ts_partial EmailSettings) (section_of d ''email'')"
    "conforms (ts_partial PushplusSettings) (section_of d ''pushplus'')"
    "conforms (ts_partial WebhookSettings) (section_of d ''webhook'')"
    "conforms (ts_partial BarkSettings) (section_of d ''bark'')"
  using assms unfolding NotificationsSettingsResponse_def by (simp, blast intro: section_part settings_types)+

lemma forms_loaded:
  assumes "conforms NotificationsSettingsResponse d"
  shows "forms_typed (forms_of d)"
proof -
  note sections = section_typed [OF assms, unfolded settings_types ts_partial_def, simplified]
  have "number_entry JNull" "number_entry (jint 5000)" "number_entry (jint 3)" by (simp_all add: number_entry_def)
  then show ?thesis
    using sections unfolding forms_typed_def forms_of_def Let_def
    by (simp add: telegram_of_def feishu_of_def qq_of_def email_of_def pushplus_of_def webhook_of_def bark_of_def DEFAULT_TEMPLATE_def
        text_or_typed number_loaded text_loaded urls_loaded)
qed

lemma default_forms_typed: "forms_typed default_forms"
  by (simp add: forms_typed_def default_forms_def DEFAULT_TELEGRAM_FORM_def DEFAULT_FEISHU_FORM_def DEFAULT_QQ_FORM_def
      DEFAULT_EMAIL_FORM_def DEFAULT_PUSHPLUS_FORM_def DEFAULT_WEBHOOK_SETTINGS_def DEFAULT_BARK_SETTINGS_def
      DEFAULT_TEMPLATE_def number_entry_def Let_def)

section \<open>To the server\<close>

lemma or_blank_typed: "\<exists>t. v = JStr t \<Longrightarrow> \<exists>t. or_else v blank = JStr t"
  by (auto simp: or_else_def)

lemma number_sent: "number_entry v \<Longrightarrow> (\<exists>r. number_or v d = JNum (Fin r)) \<and> (\<exists>r. id_number v = JNum (Fin r))"
  by (auto simp: number_entry_def number_or_def id_number_def or_else_def)

lemma headers_sent: "\<exists>al. headers_value hs = JObj al \<and> (\<forall>kv\<in>set al. \<exists>t. snd kv = JStr t)"
  by (auto simp: headers_value_def)

lemma payload_typed: "forms_typed f \<Longrightarrow> conforms SaveNotificationsPayload (buildNotificationsPayload f)"
  unfolding forms_typed_def Let_def SaveNotificationsPayload_def buildNotificationsPayload_def
  by (simp add: telegram_payload_def feishu_payload_def qq_payload_def email_payload_def pushplus_payload_def
      webhook_payload_def bark_payload_def obj_def or_blank_typed number_sent headers_sent trimmed_def text_array_def)

lemma trimmed_urls_typed: "u \<in> set (trimmed_urls us) \<Longrightarrow> \<exists>t. u = JStr t"
  by (auto simp: trimmed_urls_def)

lemma tests_typed:
  assumes "forms_typed f"
  shows "conforms TestWebhookPayload (webhook_test_payload f)" "conforms TestBarkPayload (bark_test_payload f)"
    "conforms TestEmailPayload (email_test_payload f)"
  using assms unfolding forms_typed_def Let_def TestWebhookPayload_def TestBarkPayload_def TestEmailPayload_def
    webhook_test_payload_def bark_test_payload_def email_test_payload_def
  by (simp_all add: webhook_payload_def bark_payload_def obj_def or_blank_typed number_sent headers_sent trimmed_def
      text_array_def trimmed_urls_typed)

section \<open>On the page\<close>

lemma typed_parts:
  "forms_typed (f\<lparr>nf_email := (nf_email f)\<lparr>em_use_ssl := b\<rparr>\<rparr>) = forms_typed f"
  "forms_typed (f\<lparr>nf_webhook := (nf_webhook f)\<lparr>wh_headers := hs\<rparr>\<rparr>) = forms_typed f"
  by (simp_all add: forms_typed_def Let_def)

lemma urls_kept:
  "forms_typed f \<Longrightarrow> forms_typed (f\<lparr>nf_webhook := (nf_webhook f)\<lparr>wh_urls := wh_urls (nf_webhook f) @ [blank]\<rparr>\<rparr>)"
  "forms_typed f \<Longrightarrow> forms_typed (f\<lparr>nf_bark := (nf_bark f)\<lparr>bk_urls := bk_urls (nf_bark f) @ [blank]\<rparr>\<rparr>)"
  "forms_typed f \<Longrightarrow> forms_typed (f\<lparr>nf_webhook := (nf_webhook f)\<lparr>wh_urls := without i (wh_urls (nf_webhook f))\<rparr>\<rparr>)"
  "forms_typed f \<Longrightarrow> forms_typed (f\<lparr>nf_bark := (nf_bark f)\<lparr>bk_urls := without i (bk_urls (nf_bark f))\<rparr>\<rparr>)"
  by (auto simp: forms_typed_def Let_def without_def dest: in_set_takeD in_set_dropD)

lemma handled_typed:
  assumes "event_typed e" and "forms_typed (page_forms s)"
  shows "forms_typed (page_forms (settings_handle e s))"
proof (cases e)
  case (NotificationsCame now r)
  then show ?thesis
    using assms by (cases r) (auto simp: loadNotifications_def page_writes settings_action_defs Let_def
        syncWebhookHeaderRowsFromSettings_def watch_rows_def typed_parts forms_loaded)
next
  case (FormsEdited f)
  then show ?thesis
    using assms by (simp add: forms_edited_def page_writes typed_parts forms_typed_def Let_def)
qed (use assms in \<open>simp_all add: settings_handler_defs page_writes settings_action_defs Let_def typed_parts urls_kept
      addWebhookHeader_def removeWebhookHeader_def edit_header_def watch_rows_def syncWebhookHeaderRowsFromSettings_def
      split: service_result.split sum.split option.split\<close>)

lemma step_typed: "event_typed e \<Longrightarrow> forms_typed (page_forms s) \<Longrightarrow> forms_typed (page_forms (settings_step s e))"
  using handled_typed [of e s] by (simp add: settings_step_def watch_port_def Let_def page_writes typed_parts)

text \<open>Every edit the controls of the page can raise keeps the forms typed.\<close>

lemma edit_typed:
  assumes "forms_typed f"
  shows "forms_typed (nf_telegram_update (tg_bot_token_update (\<lambda>_. JStr t)) f)"
    "forms_typed (nf_telegram_update (tg_base_url_update (\<lambda>_. JStr t)) f)"
    "forms_typed (nf_telegram_update (tg_proxy_update (\<lambda>_. JStr t)) f)"
    "number_entry v \<Longrightarrow> forms_typed (nf_telegram_update (tg_chat_id_update (\<lambda>_. v)) f)"
    "number_entry v \<Longrightarrow> forms_typed (nf_telegram_update (tg_admin_id_update (\<lambda>_. v)) f)"
    "forms_typed (nf_telegram_update (tg_enabled_update (\<lambda>_. b)) f)"
    "forms_typed (nf_feishu_update (fs_enabled_update (\<lambda>_. b)) f)"
    "forms_typed (nf_feishu_update (fs_app_id_update (\<lambda>_. JStr t)) f)"
    "forms_typed (nf_feishu_update (fs_app_secret_update (\<lambda>_. JStr t)) f)"
    "forms_typed (nf_feishu_update (fs_chat_ids_update (\<lambda>_. t)) f)"
    "forms_typed (nf_qq_update (qq_enabled_update (\<lambda>_. b)) f)"
    "forms_typed (nf_qq_update (qq_app_id_update (\<lambda>_. JStr t)) f)"
    "forms_typed (nf_qq_update (qq_app_secret_update (\<lambda>_. JStr t)) f)"
    "forms_typed (nf_qq_update (qq_group_ids_update (\<lambda>_. JStr t)) f)"
    "forms_typed (nf_qq_update (qq_direct_ids_update (\<lambda>_. JStr t)) f)"
    "forms_typed (nf_email_update (em_enabled_update (\<lambda>_. b)) f)"
    "forms_typed (nf_email_update (em_use_ssl_update (\<lambda>_. b)) f)"
    "forms_typed (nf_email_update (em_smtp_host_update (\<lambda>_. JStr t)) f)"
    "number_entry v \<Longrightarrow> forms_typed (nf_email_update (em_smtp_port_update (\<lambda>_. v)) f)"
    "forms_typed (nf_email_update (em_username_update (\<lambda>_. JStr t)) f)"
    "forms_typed (nf_email_update (em_password_update (\<lambda>_. JStr t)) f)"
    "forms_typed (nf_email_update (em_from_address_update (\<lambda>_. JStr t)) f)"
    "forms_typed (nf_email_update (em_to_addresses_update (\<lambda>_. t)) f)"
    "forms_typed (nf_pushplus_update (pp_enabled_update (\<lambda>_. b)) f)"
    "forms_typed (nf_pushplus_update (pp_token_update (\<lambda>_. JStr t)) f)"
    "forms_typed (nf_pushplus_update (pp_topic_update (\<lambda>_. JStr t)) f)"
    "forms_typed (nf_pushplus_update (pp_channel_update (\<lambda>_. JStr t)) f)"
    "forms_typed (nf_webhook_update (wh_enabled_update (\<lambda>_. b)) f)"
    "forms_typed (nf_webhook_update (\<lambda>w. w\<lparr>wh_urls := (wh_urls w)[i := JStr t]\<rparr>) f)"
    "forms_typed (nf_webhook_update (wh_secret_update (\<lambda>_. JStr t)) f)"
    "forms_typed (nf_webhook_update (wh_text_template_update (\<lambda>_. JStr t)) f)"
    "number_entry v \<Longrightarrow> forms_typed (nf_webhook_update (wh_timeout_ms_update (\<lambda>_. v)) f)"
    "number_entry v \<Longrightarrow> forms_typed (nf_webhook_update (wh_retry_max_update (\<lambda>_. v)) f)"
    "forms_typed (nf_bark_update (bk_enabled_update (\<lambda>_. b)) f)"
    "forms_typed (nf_bark_update (\<lambda>b. b\<lparr>bk_urls := (bk_urls b)[i := JStr t]\<rparr>) f)"
    "forms_typed (nf_bark_update (bk_group_update (\<lambda>_. JStr t)) f)"
    "forms_typed (nf_bark_update (bk_icon_update (\<lambda>_. JStr t)) f)"
    "forms_typed (nf_bark_update (bk_level_update (\<lambda>_. JStr t)) f)"
  using assms by (auto simp: forms_typed_def Let_def dest!: set_update_subset_insert [THEN subsetD])

lemma entries_delivered:
  "number_of_text t = Fin r \<Longrightarrow> number_entry (JStr t)" "number_entry JNull" "number_entry JUndef" "number_entry (JNum (Fin r))"
  by (simp_all add: number_entry_def)

lemma edits_typed: "forms_typed (page_forms s) \<Longrightarrow> delivered_all event_typed (view_settings tab s)"
  unfolding settings_views settings_edits by (auto simp: edit_typed entries_delivered js_def)

section \<open>Property\<close>

text \<open>
  The page in use: opened with the store as the last visit left it, edited through its controls, answered by
  a server that keeps to the declared types.
\<close>

inductive settings_life :: "settings_page \<Rightarrow> bool" where
  life_start: "settings_life (mounted_page initial_settings)"
| life_again: "settings_life s \<Longrightarrow> settings_life (mounted_page (sp_store s))"
| life_use: "\<lbrakk>settings_life s; raised (view_settings tab s) e\<rbrakk> \<Longrightarrow> settings_life (settings_step s e)"
| life_answer: "\<lbrakk>settings_life s; settings_environment e \<or> settings_answers e \<noteq> None; event_typed e\<rbrakk> \<Longrightarrow>
    settings_life (settings_step s e)"

lemma life_typed: "settings_life s \<Longrightarrow> forms_typed (page_forms s)"
proof (induction rule: settings_life.induct)
  case life_start
  then show ?case by (simp add: mounted_page_def initial_settings_def default_forms_typed)
next
  case (life_use s tab e)
  then show ?case using raised_holds [OF edits_typed] by (blast intro: step_typed)
qed (simp_all add: mounted_page_def step_typed)

text \<open>C39. Whatever is typed, switched and chosen on the settings page with its own controls, over any visits, as
  long as the settings the server sends have their declared type: the settings saved and the three test
  messages sent have the types declared for them, and every number in them is one that JSON can carry, although
  the number fields deliver texts.\<close>

theorem settings_requests_typed:
  assumes "settings_life s"
  shows "conforms SaveNotificationsPayload (buildNotificationsPayload (page_forms s)) \<and>
    conforms TestWebhookPayload (webhook_test_payload (page_forms s)) \<and>
    conforms TestBarkPayload (bark_test_payload (page_forms s)) \<and>
    conforms TestEmailPayload (email_test_payload (page_forms s))"
  using life_typed [OF assms] by (simp add: payload_typed tests_typed del: conforms_values)

definition chat_settings :: jsval where
  "chat_settings = obj [(''telegram'', obj [(''enabled'', JBool True), (''bot_token'', jlit ''t''), (''chat_id'', jint 42)])]"

theorem settings_requests_typed_witness:
  "let s = settings_step (mounted_page initial_settings) (NotificationsCame 7 (Success chat_settings)) in
   tg_chat_id (nf_telegram (page_forms s)) = jint 42 \<and> conforms SaveNotificationsPayload (buildNotificationsPayload (page_forms s))"
proof -
  have typed: "conforms NotificationsSettingsResponse chat_settings"
    unfolding NotificationsSettingsResponse_def TelegramSettings_def chat_settings_def ts_partial_def
    by (simp add: obj_def) blast
  let ?s = "settings_step (mounted_page initial_settings) (NotificationsCame 7 (Success chat_settings))"
  have life: "settings_life ?s"
    using typed by (intro life_answer life_start) simp_all
  have "tg_chat_id (nf_telegram (page_forms ?s)) = jint 42"
    by (simp add: settings_step_def loadNotifications_def page_writes settings_action_defs watch_port_def watch_rows_def
        syncWebhookHeaderRowsFromSettings_def mounted_page_def forms_of_def telegram_of_def section_of_def or_else_def
        if_nullish_def chat_settings_def obj_def Let_def)
  with settings_requests_typed [OF life] show ?thesis by (simp add: Let_def del: conforms_values)
qed

end
