(* ===== verification/TypedDevices.thy ===== *)
theory TypedDevices
  imports DevicesView ApiTypes
begin

text \<open>
  The declared types of the device page: when what the server sends has the type declared for it, the list and
  the detail on display, the detail waiting behind the live values, the configuration in the form and so the one
  that is saved have theirs, through all merging of frames, live values and edits.
\<close>

section \<open>Merging values\<close>

text \<open>A value with no fields beyond those declared, so that a merge cannot bring in a field of another type.\<close>

definition exactly :: "ts \<Rightarrow> jsval \<Rightarrow> bool" where
  "exactly t v \<longleftrightarrow> conforms t v \<and> distinct (map fst (obj_entries v)) \<and>
     fst ` set (obj_entries v) \<subseteq> (js \<circ> field_name) ` set (fields_of t)"

fun field_fits :: "ts_field \<Rightarrow> jsval \<Rightarrow> bool" where
  "field_fits (Required k t) x \<longleftrightarrow> conforms t x"
| "field_fits (Optional k t) x \<longleftrightarrow> x = JUndef \<or> conforms t x"

lemma field_fits: "conforms_field f v \<longleftrightarrow> field_fits f (jfield v (field_name f))"
  by (cases f) simp_all

lemma object_fields: "conforms (TsObject fs) (JObj al) \<longleftrightarrow> (\<forall>f\<in>set fs. field_fits f (jfield (JObj al) (field_name f)))"
  by (simp add: field_fits)

text \<open>Overwriting entries keeps the type when the new values fit the fields of their names.\<close>

lemma object_value: "conforms (TsObject fs) v \<Longrightarrow> \<exists>al. v = JObj al"
  by simp

lemma update_typed:
  assumes "conforms (TsObject fs) (JObj al)"
    and "\<And>k v f. (k, v) \<in> set new \<Longrightarrow> f \<in> set fs \<Longrightarrow> js (field_name f) = k \<Longrightarrow> field_fits f v"
  shows "conforms (TsObject fs) (JObj (assoc_update al new))"
  unfolding object_fields
proof
  fix f assume f: "f \<in> set fs"
  show "field_fits f (jfield (JObj (assoc_update al new)) (field_name f))"
  proof (cases "map_of (rev new) (js (field_name f))")
    case None
    then show ?thesis using assms(1) f unfolding object_fields by (simp add: map_of_assoc_update)
  next
    case (Some v)
    then have "(js (field_name f), v) \<in> set new" using map_of_SomeD by fastforce
    then show ?thesis using Some assms(2) f by (simp add: map_of_assoc_update)
  qed
qed

lemma set_typed:
  assumes "conforms (TsObject fs) (JObj al)" and "\<And>f. f \<in> set fs \<Longrightarrow> js (field_name f) = k \<Longrightarrow> field_fits f v"
  shows "conforms (TsObject fs) (JObj (assoc_set k v al))"
  using update_typed [of fs al "[(k, v)]"] assms by (simp add: assoc_update_def)

section \<open>Live values and frames\<close>

lemma modem_typed: "conforms DeviceOverviewItem d \<Longrightarrow> conforms ModemStatus (jfield d ''modem'') \<and> (\<exists>al. d = JObj al)"
  unfolding DeviceOverviewItem_def by (simp del: jget.simps)

definition radio_typed :: "(jstr \<times> jsval) list \<Rightarrow> bool" where
  "radio_typed radio \<longleftrightarrow>
     (\<forall>(k, v)\<in>set radio. \<forall>f\<in>set (fields_of ModemStatus). js (field_name f) = k \<longrightarrow> field_fits f v)"

lemma extracted_typed:
  assumes "conforms DeviceOverviewItem d"
  shows "radio_typed (extractLiveRadioFields d)"
proof -
  have "conforms (TsObject (fields_of ModemStatus)) (jfield d ''modem'')"
    using modem_typed [OF assms] by (simp add: ModemStatus_def del: conforms_values)
  then have "\<forall>f\<in>set (fields_of ModemStatus). field_fits f (jget (jfield d ''modem'') (js (field_name f)))"
    by (simp add: field_fits)
  then show ?thesis by (auto simp: radio_typed_def extractLiveRadioFields_def)
qed

lemma overview_object: "DeviceOverviewItem = TsObject (fields_of DeviceOverviewItem)"
  by (simp add: DeviceOverviewItem_def)

lemma list_item_object: "DeviceMgmtListItem = TsObject (fields_of DeviceMgmtListItem)"
  by (simp add: DeviceMgmtListItem_def)

lemma config_object: "DeviceConfigDTO = TsObject (fields_of DeviceConfigDTO)"
  by (simp add: DeviceConfigDTO_def)

lemma overview_modem: "\<forall>f\<in>set (fields_of DeviceOverviewItem). field_name f = ''modem'' \<longrightarrow> f = Required ''modem'' ModemStatus"
  by (simp add: DeviceOverviewItem_def)

lemma list_item_modem:
  "\<forall>f\<in>set (fields_of DeviceMgmtListItem). field_name f = ''modem'' \<longrightarrow> f = Optional ''modem'' (ts_pick ModemStatus
     [''operator'', ''native_spn'', ''native_mcc'', ''native_mnc'', ''network_mode'', ''network_duplex'', ''radio_band'',
      ''radio_channel'', ''signal_dbm'', ''signal_sinr'', ''imei'', ''iccid'', ''reg_status''])"
  by (simp add: DeviceMgmtListItem_def)

lemma same_fields:
  "\<forall>f\<in>set (fields_of DeviceMgmtListItem). \<forall>g\<in>set (fields_of DeviceOverviewItem).
     field_name f = field_name g \<longrightarrow> field_name f = ''modem'' \<or> f = g"
  by (simp add: DeviceMgmtListItem_def DeviceOverviewItem_def)

lemma merged_typed:
  assumes "conforms DeviceOverviewItem d" and "radio_typed radio"
  shows "conforms DeviceOverviewItem (mergeLiveRadioFields d radio)"
proof -
  obtain al bl where d: "d = JObj al" "jfield d ''modem'' = JObj bl"
    using modem_typed [OF assms(1)] unfolding ModemStatus_def by fastforce
  have "conforms (TsObject (fields_of ModemStatus)) (JObj bl)"
    using modem_typed [OF assms(1)] unfolding d(2) by (simp add: ModemStatus_def del: conforms_values)
  then have "conforms (TsObject (fields_of ModemStatus)) (JObj (assoc_update bl radio))"
    using update_typed [of "fields_of ModemStatus" bl radio] assms(2) by (auto simp: radio_typed_def simp del: conforms_values)
  then have "conforms ModemStatus (JObj (assoc_update bl radio))"
    by (simp add: ModemStatus_def del: conforms_values)
  then have "field_fits f (JObj (assoc_update bl radio))"
    if "f \<in> set (fields_of DeviceOverviewItem)" "js (field_name f) = js ''modem''" for f
    using that overview_modem by (auto simp del: conforms_values)
  moreover have "conforms (TsObject (fields_of DeviceOverviewItem)) (JObj al)"
    using assms(1) d(1) overview_object by simp
  ultimately have "conforms (TsObject (fields_of DeviceOverviewItem)) (JObj (assoc_set (js ''modem'') (JObj (assoc_update bl radio)) al))"
    by (intro set_typed)
  then show ?thesis
    unfolding overview_object [symmetric] mergeLiveRadioFields_def d(2) unfolding d(1) obj_entries.simps .
qed

text \<open>An overview item has the fields of a list item with the same types, but for the modem, where it has more.\<close>

lemma shared_fields:
  assumes "f \<in> set (fields_of DeviceMgmtListItem)" and "g \<in> set (fields_of DeviceOverviewItem)" and "field_name f = field_name g"
    and "field_fits g v"
  shows "field_fits f v"
proof (cases "field_name f = ''modem''")
  case True
  then have "conforms ModemStatus v" using overview_modem assms by (auto simp del: conforms_values)
  then show ?thesis
    using True list_item_modem assms(1) conforms_pick [of "fields_of ModemStatus" v]
    by (auto simp: ModemStatus_def simp del: conforms_values)
next
  case False
  then show ?thesis using same_fields assms by blast
qed

lemma frame_typed:
  assumes "conforms DeviceMgmtListItem d" and "exactly DeviceOverviewItem found"
  shows "conforms DeviceMgmtListItem (JObj (assoc_update (obj_entries d) (obj_entries found)))"
proof -
  obtain al bl where d: "d = JObj al" and b: "found = JObj bl"
    using assms object_value [of "fields_of DeviceMgmtListItem" d] object_value [of "fields_of DeviceOverviewItem" found]
    unfolding exactly_def list_item_object [symmetric] overview_object [symmetric] by blast
  have "field_fits f v" if "(k, v) \<in> set bl" "f \<in> set (fields_of DeviceMgmtListItem)" "js (field_name f) = k" for k v f
  proof -
    have "k \<in> fst ` set bl" using that(1) by force
    then have "k \<in> (js \<circ> field_name) ` set (fields_of DeviceOverviewItem)"
      using assms(2) unfolding exactly_def b obj_entries.simps by blast
    then obtain g where g: "g \<in> set (fields_of DeviceOverviewItem)" "js (field_name g) = k" by auto
    have "map_of bl k = Some v" using that(1) assms(2) unfolding exactly_def b by simp
    moreover have "conforms (TsObject (fields_of DeviceOverviewItem)) (JObj bl)"
      using assms(2) overview_object unfolding exactly_def b by simp
    ultimately have "field_fits g v" using g unfolding object_fields by force
    moreover have "field_name f = field_name g" using g(2) that(3) js_eq_iff by metis
    ultimately show ?thesis using shared_fields [OF that(2) g(1)] by blast
  qed
  moreover have "conforms (TsObject (fields_of DeviceMgmtListItem)) (JObj al)"
    using assms(1) list_item_object unfolding d by simp
  ultimately have "conforms (TsObject (fields_of DeviceMgmtListItem)) (JObj (assoc_update al bl))"
    by (intro update_typed)
  then show ?thesis unfolding d b list_item_object [symmetric] by simp
qed

lemma merge_device_typed:
  "\<forall>d\<in>set ds. conforms DeviceMgmtListItem d \<Longrightarrow> exactly DeviceOverviewItem found \<Longrightarrow>
   \<forall>d\<in>set (merge_device found ds). conforms DeviceMgmtListItem d"
  by (induction ds) (auto simp: frame_typed simp del: conforms_values)

lemma form_config_typed:
  assumes "conforms DeviceConfigDTO stored"
  shows "conforms DeviceConfigDTO (form_config stored detail)"
proof -
  obtain al where al: "stored = JObj al"
    using assms object_value [of "fields_of DeviceConfigDTO" stored] unfolding config_object [symmetric] by blast
  have "conforms DeviceConfigDTO (JObj (assoc_set (js ''device_backend'') (jlit b) al))" if "b \<in> {''at'', ''qmi''}" for b
  proof -
    have backend: "\<forall>f\<in>set (fields_of DeviceConfigDTO). field_name f = ''device_backend'' \<longrightarrow>
        f = Optional ''device_backend'' (ts_one_of [''at'', ''qmi'', ''mbim''])"
      by (simp add: DeviceConfigDTO_def)
    have "conforms (TsObject (fields_of DeviceConfigDTO)) (JObj al)" using assms al config_object by simp
    moreover have "field_fits f (jlit b)" if "f \<in> set (fields_of DeviceConfigDTO)" "js (field_name f) = js ''device_backend''" for f
      using that backend \<open>b \<in> {''at'', ''qmi''}\<close> by auto
    ultimately have "conforms (TsObject (fields_of DeviceConfigDTO)) (JObj (assoc_set (js ''device_backend'') (jlit b) al))"
      by (intro set_typed)
    then show ?thesis unfolding config_object [symmetric] .
  qed
  then show ?thesis using assms by (simp add: form_config_def al or_else_def Let_def del: conforms_values)
qed

section \<open>The page\<close>

definition page_typed :: "device_page \<Rightarrow> bool" where
  "page_typed s \<longleftrightarrow>
     (\<forall>d\<in>set (dg_devices s). conforms DeviceMgmtListItem d) \<and>
     pred_option (conforms DeviceOverviewItem) (dg_detail s) \<and>
     pred_option (conforms DeviceConfigDTO) (ed_config (dg_edit s)) \<and>
     pred_option (conforms DeviceOverviewItem) (lr_pending (dg_radio s)) \<and>
     (\<forall>e\<in>ran (lr_cache (dg_radio s)). radio_typed (lv_radio e))"

fun page_event_typed :: "page_event \<Rightarrow> bool" where
  "page_event_typed (ListAnswer now k (Success ds)) = (\<forall>d\<in>set ds. conforms DeviceMgmtListItem d)"
| "page_event_typed (DetailAnswer now k (Success d)) = (truthy d \<longrightarrow> conforms DeviceOverviewItem d)"
| "page_event_typed (ConfigAnswer k (Success c)) = conforms DeviceConfigDTO c"
| "page_event_typed (OverviewFrame now data) = (\<forall>d\<in>set (elems (jfield data ''devices'')). exactly DeviceOverviewItem d)"
| "page_event_typed (EditForm v) = pred_option (conforms DeviceConfigDTO) v"
| "page_event_typed _ = True"

text \<open>Most operations keep the typed part of the state.\<close>

definition typed_part where
  "typed_part s = (dg_devices s, dg_detail s, ed_config (dg_edit s), lr_pending (dg_radio s), lr_cache (dg_radio s))"

lemma same_typed: "typed_part s = typed_part t \<Longrightarrow> page_typed s = page_typed t"
  by (simp add: typed_part_def page_typed_def)

named_theorems part_simps "operations that keep the typed part of the state"

lemma part_ops [part_simps]:
  "typed_part (update_speed now s) = typed_part s"
  "typed_part (resetDeviceTrafficAnalysis s) = typed_part s"
  "typed_part (after_sync f s) = typed_part s"
  "typed_part (setupSSE s) = typed_part s"
  "typed_part (fetchDeviceTrafficAnalysis i s) = typed_part s"
  "typed_part (on_analysis now c r s) = typed_part s"
  "typed_part (on_traffic_frame now d s) = typed_part s"
  "typed_part (fetchAll s) = typed_part s"
  "typed_part (refreshListOnly s) = typed_part s"
  "typed_part (list_failed kind e s) = typed_part s"
  "typed_part (snd (applyRouteSelection s)) = typed_part s"
  "typed_part (auto_select kind s) = typed_part s"
  "typed_part (drop_selection s) = typed_part s"
  by (auto simp: typed_part_def update_speed_def resetDeviceTrafficAnalysis_def after_sync_def setupSSE_def
      fetchDeviceTrafficAnalysis_def on_analysis_def on_traffic_frame_def fetchAll_def refreshListOnly_def list_failed_def
      applyRouteSelection_def auto_select_def drop_selection_def Let_def
      split: sync_follow.split service_result.split list_kind.split list.split)

lemma part_analysis [part_simps]:
  "typed_part (refreshCurrentDeviceTrafficAnalysis s) = typed_part s"
  "typed_part (handleDeviceTrafficRangeChange g s) = typed_part s"
  "typed_part (analysis_poll s) = typed_part s"
  "typed_part (watch_detail_id i s) = typed_part s"
  "typed_part (watch_connected c s) = typed_part s"
  "typed_part (watch_tab t s) = typed_part s"
  by (simp_all add: refreshCurrentDeviceTrafficAnalysis_def handleDeviceTrafficRangeChange_def analysis_poll_def
      watch_detail_id_def watch_connected_def watch_tab_def Let_def part_simps) (simp add: typed_part_def)+

lemmas typed_same = part_simps [THEN same_typed]

lemma typed_weaker:
  assumes "page_typed s"
  shows "page_typed (clearLiveRadioFallbackTimer s)" "page_typed (no_config s)" "page_typed (s\<lparr>dg_detail := None\<rparr>)"
  using assms by (simp_all add: page_typed_def clearLiveRadioFallbackTimer_def no_config_def)

lemma sync_typed: "page_typed s \<Longrightarrow> page_typed (syncEditConfigFromSelected f b s)"
  by (simp add: syncEditConfigFromSelected_def typed_same typed_weaker) (simp add: page_typed_def)

lemma after_detail_typed: "page_typed s \<Longrightarrow> page_typed (after_detail f s)"
  by (simp add: after_detail_def sync_typed split: detail_follow.split)

lemma fetch_typed: "page_typed s \<Longrightarrow> page_typed (fetchSelectedDetail now i f s)"
  by (simp add: fetchSelectedDetail_def Let_def after_detail_typed typed_same typed_weaker) (simp add: page_typed_def)

lemma watchers_typed: "page_typed s \<Longrightarrow> page_typed (watchers s0 s)"
  by (simp add: watchers_def watch_selected_def typed_same typed_weaker)

lemma shown_typed:
  assumes "page_typed s" and "pred_option (conforms DeviceOverviewItem) x"
  shows "page_typed (show_detail now x s)"
proof (cases x)
  case None
  then show ?thesis using assms(1) by (simp add: show_detail_def resolveDetailForDisplay_def typed_weaker)
next
  case (Some d)
  have radio: "\<And>i e. lr_cache (dg_radio s) i = Some e \<Longrightarrow> radio_typed (lv_radio e)"
    using assms(1) by (auto simp: page_typed_def ran_def)
  have "page_typed (s\<lparr>dg_detail := Some d'\<rparr>)" if "conforms DeviceOverviewItem d'" for d'
    using assms(1) that by (simp add: page_typed_def)
  then show ?thesis
    using assms Some radio merged_typed extracted_typed
    by (auto simp: show_detail_def resolveDetailForDisplay_def scheduleLiveRadioFallback_def clearLiveRadioFallbackTimer_def
        update_speed_def page_typed_def ran_def Let_def split: option.split)
qed

lemma list_loaded_typed:
  "page_typed s \<Longrightarrow> \<forall>d\<in>set ds. conforms DeviceMgmtListItem d \<Longrightarrow> page_typed (list_loaded now kind p ds s)"
proof -
  assume "page_typed s" "\<forall>d\<in>set ds. conforms DeviceMgmtListItem d"
  then have "page_typed (s\<lparr>dg_devices := ds, dg_lastOkAt := l\<rparr>)" "page_typed (s\<lparr>dg_devices := ds\<rparr>)" for l
    by (simp_all add: page_typed_def)
  then show ?thesis
    by (simp add: list_loaded_def Let_def typed_same fetch_typed sync_typed split: list_kind.split)
qed

lemma handle_typed:
  assumes "page_typed s" and "page_event_typed e"
  shows "page_typed (handle e s)"
proof (cases e)
  case (ListAnswer now k r)
  have "page_typed (s\<lparr>dg_listTasks := t\<rparr>)" for t using assms(1) by (simp add: page_typed_def)
  then show ?thesis
    using assms ListAnswer by (auto simp: handle_def on_list_def unless_aborted_def Let_def typed_same list_loaded_typed
        split: option.split service_result.split prod.split)
next
  case (DetailAnswer now k r)
  have "page_typed (s\<lparr>dg_detailTasks := t\<rparr>)" for t using assms(1) by (simp add: page_typed_def)
  then show ?thesis
    using assms DetailAnswer by (auto simp: handle_def on_detail_def unless_aborted_def Let_def typed_same after_detail_typed
        shown_typed split: option.split service_result.split prod.split)
next
  case (ConfigAnswer k r)
  have "page_typed (s\<lparr>dg_configTasks := t\<rparr>)" for t using assms(1) by (simp add: page_typed_def)
  moreover have "page_typed (s\<lparr>dg_configTasks := t, dg_edit := \<lparr>ed_config = Some (form_config c d), ed_baseline = b, ed_dirty = z\<rparr>\<rparr>)"
    if "conforms DeviceConfigDTO c" for t c d b z
    using assms(1) form_config_typed [OF that] by (simp add: page_typed_def)
  ultimately show ?thesis
    using assms ConfigAnswer by (auto simp: handle_def on_config_def Let_def typed_same typed_weaker
        split: option.split service_result.split prod.split)
next
  case (OverviewFrame now data)
  have "page_typed (s\<lparr>dg_devices := merge_device found (dg_devices s)\<rparr>)" if "exactly DeviceOverviewItem found" for found
    using assms(1) merge_device_typed [of "dg_devices s", OF _ that] by (simp add: page_typed_def)
  moreover have "page_typed (t\<lparr>dg_loading := b\<rparr>) = page_typed t" for t b by (simp add: page_typed_def)
  ultimately show ?thesis
    using assms OverviewFrame by (auto simp: handle_def handleOverviewEvent_def Let_def typed_same shown_typed exactly_def
        split: list.split)
next
  case (RadioTimer now)
  then show ?thesis
    using assms(1) by (auto simp: handle_def on_radio_timer_def page_typed_def update_speed_def Let_def split: option.split)
next
  case (EditForm v)
  then show ?thesis
    using assms by (auto simp: handle_def on_edit_def Let_def typed_weaker split: option.split) (simp_all add: page_typed_def)
next
  case (DeviceDeleted now)
  have "page_typed (t\<lparr>dg_selectedId := i, dg_hasAutoSelected := b\<rparr>) = page_typed t" for t i b by (simp add: page_typed_def)
  then show ?thesis using assms(1) DeviceDeleted by (simp add: handle_def device_deleted_def typed_same typed_weaker)
next
  case (SelectDevice now i)
  have "page_typed (t\<lparr>dg_selectedId := i, dg_hasAutoSelected := b, dg_query := q\<rparr>) = page_typed t" for t i b q
    by (simp add: page_typed_def)
  then show ?thesis
    using assms(1) SelectDevice by (simp add: handle_def selectDevice_def Let_def fetch_typed sync_typed)
next
  case (RouteChange now q)
  have "page_typed (s\<lparr>dg_query := q\<rparr>)" using assms(1) by (simp add: page_typed_def)
  then have "page_typed (snd (applyRouteSelection (s\<lparr>dg_query := q\<rparr>)))" by (simp add: typed_same)
  then show ?thesis
    using RouteChange by (auto simp: handle_def on_route_def fetch_typed sync_typed split: prod.split)
next
  case (TabChange t)
  then show ?thesis using assms(1) by (simp add: handle_def page_typed_def)
qed (use assms(1) in \<open>simp_all add: handle_def typed_same refreshSelectedDetailOnly_def fetch_typed\<close>)

section \<open>Property\<close>

lemma page_run_typed: "page_typed s \<Longrightarrow> list_all page_event_typed es \<Longrightarrow> page_typed (fold page_step es s)"
  by (induction es arbitrary: s) (simp_all add: page_step_def watchers_typed handle_typed)


definition example_item :: jsval where
  "example_item = obj [(''id'', jlit ''d1''), (''name'', jlit ''modem''), (''running'', JBool True), (''healthy'', JBool True),
     (''network_connected'', JBool True), (''public_ip'', JStr []), (''sms_enabled'', JBool True), (''network_enabled'', JBool True)]"

definition example_config :: jsval where
  "example_config = obj [(''id'', jlit ''d1''), (''name'', jlit ''modem''), (''interface'', jlit ''wwan0''),
     (''at_port'', JStr []), (''control_device'', jlit ''/dev/cdc-wdm0''), (''network_enabled'', JBool False)]"

definition example_events :: "page_event list" where
  "example_events = [Mount, ListAnswer 5 1 (Success [example_item]), EditForm (Some example_config)]"


end
