(* ===== verification/Spec2Isabelle.thy ===== *)
theory Spec2Isabelle
  imports SettingsPage Auth Polling Connection Policy DevicesApi MccMnc Lifecycle Esim Services
    SmsView Stores Settings Bridge DevicesView EsimTab ProxyPage TrafficPanel Websheet DeviceTabs DeviceActions LogsPage
    LoginPage OperatorDialog DashboardPage Diagnostics SmsActions PolicyPanels OverviewStream AtTemplates
    SettingsView ProxyView SmsPageView PolicyViews EsimTabView DevicesPageView DashboardView ShellViews LogsView
    TypedSettings
    TypedDevices
begin

text \<open>
  Verification library for the web front end of vohive (\<open>web/src\<close>) and for the script it injects
  into a carrier's web sheet (\<open>internal/websheet/bridge.js\<close>).

  \<^bold>\<open>The program.\<close> VoHive manages cellular modems. A Go server drives the devices; the front end is a
  Vue application that polls the server, follows its event streams and sends it commands. Its layers are
  helpers (\<open>utils\<close>, \<open>types\<close>), the services that turn a call into an HTTP request and
  its answer into a result (\<open>services\<close>), the stores that keep data, loading mark and error of a
  fetch (\<open>stores\<close>), composables that own timers and streams (\<open>composables\<close>), and
  components and pages that put them together (\<open>components\<close>, \<open>views\<close>, \<open>layouts\<close>,
  \<open>App.vue\<close>, \<open>main.ts\<close>). The server and the browser are the environment.

  \<^bold>\<open>How the code is translated.\<close> A JavaScript string is the list of its UTF-16 units (\<open>jstr\<close>), a
  dynamic value a \<open>jsval\<close>, a number a rational or one of the three special values (\<open>jnum\<close>);
  times are integers in milliseconds. An exception is the left side of an \<open>outcome\<close>, a failed
  service call the constructor \<open>Failure\<close> of a \<open>service_result\<close>. The refs of a component are
  a record; a handler is a function on it. An asynchronous handler is cut at every \<open>await\<close>: the part
  before it issues the request (\<open>_start\<close>, or the handler's own name), the part after it takes the
  answer (\<open>_answer\<close>, \<open>_finish\<close>, \<open>on_\<close>...), so that answers, timers and clicks interleave in
  any order. Watchers run where Vue runs them, after the handler that changed what they watch. A
  component's events form a datatype with a step function (\<open>stream_step\<close>, \<open>page_step\<close>,
  \<open>sms_page_step\<close>, \<open>dash_step\<close>, ...); what holds of every state is shown by induction over
  runs or over an inductive predicate of reachable states.

  \<^bold>\<open>The theories.\<close>
  \<^item> Prelude: \<open>JsBase\<close>, \<open>JsValue\<close> (the language), \<open>Texts\<close> (the texts on screen),
    \<open>Interfaces\<close> (the shared contracts as locales: a system of events and its invariant, a bounded
    log, a keyed store, an action with a busy mark, a fetch into a store; \<open>Polling\<close> adds the contract
    of a poller) and \<open>Notices\<close>. Each locale is interpreted where a component provides its
    operations.
  \<^item> HTTP and services: \<open>Http\<close> (\<open>services/http.ts\<close>; the parameter \<open>http\<close> is axios),
    \<open>DevicesApi\<close>, \<open>Services\<close>, \<open>SmsService\<close>. A call is the request it issues and the decoding of
    the answer. \<open>esim_busy_retry\<close> bounds the retries of busy eSIM calls.
  \<^item> Session: \<open>Storage\<close> (web storage that may be denied or full), \<open>Auth\<close> (\<open>stores/auth.ts\<close>,
    \<open>router/index.ts\<close>), \<open>LoginPage\<close>, \<open>AppShell\<close> (\<open>App.vue\<close> and the signed-in layout). Token,
    storage and header agree; a 401 ends the session and the way back is kept; the disclaimer comes
    once a week.
  \<^item> Diagnostics: \<open>Collector\<close> (bounded logs and redaction), \<open>Boot\<close> (\<open>main.ts\<close>), \<open>Diagnostics\<close>.
    What is exported is redacted; what the overlay shows is escaped.
  \<^item> Timers and streams: \<open>Polling\<close> (both composables), \<open>EventStream\<close> and \<open>Connection\<close> (the
    server-sent event client: its reader, refined from the chunked loop to lines, and its connection
    as a state machine with the requests and timers the browser still holds), \<open>LineReader\<close>.
  \<^item> Stores: \<open>Stores\<close>, \<open>Settings\<close>; the streams of operator scans are those of \<open>Connection\<close>.
  \<^item> Devices: \<open>DevicesText\<close>, \<open>DeviceTraffic\<close>, \<open>DevicesPage\<close>, \<open>DevicesView\<close>, \<open>DeviceActions\<close>,
    \<open>OverviewStream\<close> (all \<open>views/Devices.vue\<close>: what is shown, the traffic window, the state machine
    of selection, details and analysis, its reachable states, the buttons, and the page together with
    the event streams it opens), \<open>DeviceTabs\<close>, \<open>AtTemplates\<close>, \<open>Panels\<close>, \<open>OperatorDialog\<close>, \<open>TrafficPanel\<close>,
    \<open>DashboardPage\<close>, \<open>Lifecycle\<close>, \<open>MccMnc\<close>.
  \<^item> Card policy and eSIM: \<open>Policy\<close> (the switches and their exclusion), \<open>PolicyPanels\<close> (the two
    components, and the refinement of the server's stored policy), \<open>Esim\<close>, \<open>EsimTab\<close>.
  \<^item> Messages: \<open>SmsText\<close>, \<open>SmsView\<close> (which conversation is shown), \<open>SmsActions\<close> (sending, deleting
    and the long press; each of its steps is a run of the view).
  \<^item> Other pages: \<open>ProxyPage\<close>, \<open>LogsPage\<close>, \<open>SettingsPage\<close>.
  \<^item> Web sheets: \<open>Bridge\<close> (the injected script), \<open>Websheet\<close> (the dialog around it).

  \<^item> Templates: \<open>View\<close> (nodes, what the user can do and read, the contract of a page behind busy
    marks), \<open>ViewTexts\<close> (their texts), \<open>CommonViews\<close> (the components every page is made of),
    \<open>SettingsView\<close>, \<open>ProxyView\<close>, \<open>SmsPageView\<close>, \<open>PolicyViews\<close>, \<open>EsimTabView\<close>, \<open>DeviceTabViews\<close>,
    \<open>DevicePanelViews\<close>, \<open>DevicesPageView\<close>, \<open>DashboardView\<close>, \<open>ShellViews\<close> and \<open>LogsView\<close>, each over the
    state of the script of the same component.

  \<^item> Declared types: \<open>ApiTypes\<close> (the TypeScript types of \<open>types/api.ts\<close>, \<open>services/system.ts\<close> and the
    forms of \<open>stores/settings.ts\<close> as data, and what it means for a value to have one), \<open>Controls\<close> (which
    values the controls of a page deliver), \<open>TypedSettings\<close> (the settings page keeps to its types)
    and \<open>TypedDevices\<close> (the device page does, through merging of frames and live values).

  \<^bold>\<open>Templates.\<close> A template is a function from the component's state to a list of nodes: texts, and
    elements with their attributes, their handlers (an event of the page from the value the browser passes)
    and their children. \<open>v-if\<close> is a conditional, \<open>v-for\<close> a \<open>concat (map ...)\<close>, a slot an argument, a child
    component its own view with its events embedded into those of the parent. Boxes that only lay out are
    spliced, and style classes left out, except for those that blur a value or colour a status. The element
    library is the parameter \<open>ui_library\<close>: all that is used of it is that a disabled or loading control and a
    closed dialog raise no event (\<open>respects_marks\<close>, with an instance); \<open>user_can v e\<close> says that a library with
    this property lets the user raise \<open>e\<close>. \<open>readable_all\<close> is what can be read, \<open>legible_all\<close> what is not blurred.
    A page as it is drawn, its script and the network are put together by \<open>driven\<close>: what the view offers, the
    answers to what is pending, and the rest of the environment. The locale \<open>guarded_page\<close> says that requests
    stand behind busy marks; it is interpreted for the settings, the device page, both terminals and the login
    form, so that at most one request of a kind is ever under way.

  \<^bold>\<open>What the lemmas show.\<close> Most components have an invariant of their state kept by every event;
  the optimised or incremental routines equal a reference (the stream reader and the download reader
  the reading of whole lines, the form of the proxy page a table, the header rows the saved map, the
  inline policy panel the server's triple); round trips hold for SSE frames, settings and the escaping of
  errors; the safety properties say which data may be on screen under every interleaving of answers, what the user
  can ask for while a request is under way, and what can be read of secrets and identities.
  The root theory composes the login page, the application and the token store into the life of a session
  (\<open>session_recovered\<close>).
  Lemmas named in no property record runs in which the code does not do what it means to: each is a
  concrete run or a class of runs, and the text in front of it says what goes wrong.

  \<^bold>\<open>Parameters and bounds.\<close> Parameters stand for what is not in the sources: axios (\<open>http\<close>),
  \<open>JSON.parse\<close> (\<open>parse\<close>), dates and the local calendar (\<open>clock\<close>, \<open>calendar\<close>,
  \<open>local_text\<close>, \<open>date_fields\<close>), the query of a route (\<open>route_query\<close>), the clipboard
  (\<open>copy_env\<close>). No recursion needs fuel: loops over text shrink the text (the termination proofs of
  \<open>drain\<close>, \<open>line_loop\<close>, \<open>watch_smdp\<close> and the decoder of percent escapes), the retry loop counts down its
  attempts, and loops of the platform are runs of events of any length. A request that is never answered is
  a run without its answer; the liveness properties therefore speak of what is armed or under way.

  \<^bold>\<open>Not modelled, and why.\<close> Style sheets and the style classes of the templates, but for those named above;
  where a script computes a class it appears as a constructor. How the browser turns gestures into events, what
  covers what on screen, and the inner workings of the element library. Chart options that are only style.
  The sample component \<open>HelloWorld\<close>, which nothing uses, generated declarations, and the type tests. The registration of plug-ins and the
  loading of fonts in \<open>main.ts\<close>. Scroll positions are functions of the geometry, not state. Object keys
  are kept in insertion order, without the language's separate order of integer-like keys. The Go
  server is another program: its answers are arbitrary unless a hypothesis says otherwise.
\<close>

section \<open>A session across the components\<close>

text \<open>The failed attempts as the application sees them.\<close>

definition failed_attempts :: "(int \<times> exn) list \<Rightarrow> app_event list" where
  "failed_attempts tries = map (\<lambda>(now, err). AuthChanged now (LoginOp now (Inl err))) tries"

lemma failed_token: "aw_token w = [] \<Longrightarrow> aw_token (on_response_error now err w) = []"
  using on_401_token [of err now w] by (cases "response_status err = Some 401") (simp_all add: on_response_error_def Let_def)

text \<open>The login page and the application follow the same store: an attempt that fails is one step of both,
  and leaves the disclaimer alone.\<close>

lemma attempt_step:
  assumes "ap_world s = lg_world p" and "aw_token (lg_world p) = []"
  shows "ap_world (app_auth now (LoginOp now (Inl err)) s) = lg_world (handleLogin_answer route_query now (Inl err) p)"
    and "aw_token (lg_world (handleLogin_answer route_query now (Inl err) p)) = []"
    and "ap_showDisclaimer (app_auth now (LoginOp now (Inl err)) s) = ap_showDisclaimer s"
  using assms failed_token [of "lg_world p" now err]
  by (simp_all add: app_auth_def handleLogin_answer_def login_says_def isAuthenticated_def Let_def)

lemma attempts_agree:
  "ap_world s = lg_world p \<Longrightarrow> aw_token (lg_world p) = [] \<Longrightarrow>
   ap_world (app_run (failed_attempts tries) s) = lg_world (failed_logins route_query tries p) \<and>
   aw_token (lg_world (failed_logins route_query tries p)) = [] \<and>
   ap_showDisclaimer (app_run (failed_attempts tries) s) = ap_showDisclaimer s"
proof (induction tries arbitrary: s p)
  case (Cons t tries)
  obtain now err where t: "t = (now, err)" by fastforce
  let ?s = "app_auth now (LoginOp now (Inl err)) s" and ?p = "handleLogin_answer route_query now (Inl err) p"
  have "ap_world ?s = lg_world ?p" "aw_token (lg_world ?p) = []" "ap_showDisclaimer ?s = ap_showDisclaimer s"
    using attempt_step [OF Cons.prems] by blast+
  with Cons.IH [of ?s ?p] show ?case
    by (simp add: t failed_attempts_def failed_logins_def app_run_def)
qed (simp add: failed_attempts_def failed_logins_def app_run_def)

lemma attempts_local:
  "k \<noteq> token_key \<Longrightarrow> get_item (aw_local (ap_world (app_run (failed_attempts tries) s))) k = get_item (aw_local (ap_world s)) k"
proof (induction tries arbitrary: s)
  case (Cons t tries)
  obtain now err where t: "t = (now, err)" by fastforce
  have "get_item (aw_local (ap_world (app_auth now (LoginOp now (Inl err)) s))) k = get_item (aw_local (ap_world s)) k"
    using auth_step_items(1) [OF Cons.prems] by (simp add: app_auth_def Let_def del: auth_step.simps)
  with Cons show ?case by (simp add: t failed_attempts_def app_run_def)
qed (simp add: failed_attempts_def app_run_def)

text \<open>The session expires: the shell of the signed-in user goes, and the disclaimer with it.\<close>

lemma session_expires:
  assumes "response_status err = Some 401" and "isAuthenticated (ap_world s)"
  shows "ap_world (app_auth now (ErrorOp now err) s) = on_response_error now err (ap_world s)"
    and "shell (app_auth now (ErrorOp now err) s) = UnauthenticatedShell"
    and "\<not> ap_showDisclaimer (app_auth now (ErrorOp now err) s)"
  using assms on_401_token [OF assms(1), of now "ap_world s"]
  by (simp_all add: app_auth_def shell_def isAuthenticated_def watch_authenticated_def Let_def)

text \<open>And it begins: the login page's store is the application's, but for the saved path.\<close>

lemma session_begins:
  assumes "ap_world s = lg_world p" and "aw_token (lg_world p) = []" and "\<not> ap_showDisclaimer s"
    and "isAuthenticated (lg_world (handleLogin_answer route_query now (Inr data) p))"
    and "agreed_at (aw_local (ap_world s)) = Some agreed"
  shows "isAuthenticated (ap_world (app_auth now (LoginOp now (Inr data)) s)) \<and>
    ap_showDisclaimer (app_auth now (LoginOp now (Inr data)) s) = shouldShowDisclaimer agreed now"
proof -
  let ?w = "fst (login now (Inr data) (ap_world s))"
  have token: "aw_token (lg_world (handleLogin_answer route_query now (Inr data) p)) = aw_token ?w"
    using assms(1) by (auto simp: handleLogin_answer_def go_on_def forget_redirect_def login_says_def Let_def
        split: option.split list.split)
  have "agreed_at (aw_local ?w) = Some agreed"
    using auth_step_items(1) [of DISCLAIMER_AGREED_AT_KEY "ap_world s" "LoginOp now (Inr data)"] assms(5)
    by (simp add: agreed_at_def del: login.simps)
  then show ?thesis
    using assms(1-4) token
    by (simp add: app_auth_def isAuthenticated_def watch_authenticated_def Let_def del: login.simps)
qed



end
